(* ===== verification/Flow_Prelude.thy ===== *)
theory Flow_Prelude
  imports Main "HOL-Library.AList" "HOL-Library.Char_ord" "HOL-Library.List_Lexorder"
    "HOL-Library.Sublist"
begin

section \<open>Shared vocabulary\<close>

text \<open>
  What every component of the development shares: names for the model's basic types, the
  error monad in which a raised exception is the left of a sum, the part of Python's
  \<^verbatim>\<open>str\<close> and \<^verbatim>\<open>dict\<close> the sources use, JSON values, and database tables.

  Strings are lists of characters read as the code points 0 to 255. Instants are integers
  counting microseconds, the resolution of Python's \<^verbatim>\<open>datetime\<close>. A table is the list of its
  rows in insertion order; a handler that runs inside \<^verbatim>\<open>transaction.atomic\<close> is a function from
  the tables to a sum, whose left (an exception) leaves the tables as they were.
\<close>

type_synonym instant = int
type_synonym digest = string
type_synonym dict = "(string \<times> string) list"

definition seconds :: "int \<Rightarrow> instant" where
  "seconds n = 1000000 * n"

named_theorems handler_defs \<open>definitions of the handlers, unfolded by the step proofs\<close>
named_theorems table_simps \<open>equations of table look-up and row replacement\<close>

subsection \<open>Results\<close>

definition bind_res :: "'e + 'a \<Rightarrow> ('a \<Rightarrow> 'e + 'b) \<Rightarrow> 'e + 'b" where
  "bind_res m f = (case m of Inl e \<Rightarrow> Inl e | Inr x \<Rightarrow> f x)"

definition require :: "bool \<Rightarrow> 'e \<Rightarrow> 'e + unit" where
  "require b e = (if b then Inr () else Inl e)"

definition of_option :: "'e \<Rightarrow> 'a option \<Rightarrow> 'e + 'a" where
  "of_option e m = (case m of None \<Rightarrow> Inl e | Some x \<Rightarrow> Inr x)"

lemma bind_res_simps [simp]:
  "bind_res (Inl e) f = Inl e" "bind_res (Inr x) f = f x"
  by (simp_all add: bind_res_def)

lemma bind_res_eq_Inr [simp]:
  "bind_res m f = Inr y \<longleftrightarrow> (\<exists>x. m = Inr x \<and> f x = Inr y)"
  by (cases m) simp_all

lemma bind_res_eq_Inl:
  "bind_res m f = Inl e \<longleftrightarrow> m = Inl e \<or> (\<exists>x. m = Inr x \<and> f x = Inl e)"
  by (cases m) simp_all

lemma require_eq [simp]:
  "require b e = Inr u \<longleftrightarrow> b" "require b e = Inl e' \<longleftrightarrow> \<not> b \<and> e' = e"
  "require True e = Inr ()" "require False e = Inl e"
  by (auto simp: require_def)

lemma of_option_eq [simp]:
  "of_option e m = Inr x \<longleftrightarrow> m = Some x" "of_option e m = Inl e' \<longleftrightarrow> m = None \<and> e' = e"
  "of_option e None = Inl e" "of_option e (Some x) = Inr x"
  by (auto simp: of_option_def split: option.splits)

text \<open>
  A handler's success, and the state after it (the state before it when it raises): what a run of
  handlers on a concrete state is written with.
\<close>

definition succeeds :: "'e + 'a \<Rightarrow> bool" where
  "succeeds r = (case r of Inl e \<Rightarrow> False | Inr x \<Rightarrow> True)"

definition state_after :: "('s \<Rightarrow> 'e + 's \<times> 'r) \<Rightarrow> 's \<Rightarrow> 's" where
  "state_after h s = (case h s of Inl e \<Rightarrow> s | Inr (t, x) \<Rightarrow> t)"

lemma succeedsE:
  assumes "succeeds (h s)"
  obtains x where "h s = Inr (state_after h s, x)"
  using assms by (cases "h s") (auto simp: succeeds_def state_after_def)

subsection \<open>Text\<close>

text \<open>
  \<^verbatim>\<open>str.strip\<close>, \<^verbatim>\<open>lstrip\<close> and \<^verbatim>\<open>lower\<close> on the code points 0 to 255: the whitespace of that range,
  and the capitals A to Z and U+00C0 to U+00DE but the multiplication sign.
\<close>

definition py_space :: "char \<Rightarrow> bool" where
  "py_space c = (let n = of_char c :: nat in
     (9 \<le> n \<and> n \<le> 13) \<or> (28 \<le> n \<and> n \<le> 32) \<or> n = 133 \<or> n = 160)"

definition py_lower_char :: "char \<Rightarrow> char" where
  "py_lower_char c = (let n = of_char c :: nat in
     if (65 \<le> n \<and> n \<le> 90) \<or> (192 \<le> n \<and> n \<le> 222 \<and> n \<noteq> 215) then char_of (n + 32) else c)"

definition py_lower :: "string \<Rightarrow> string" where
  "py_lower s = map py_lower_char s"

definition strip_by :: "('a \<Rightarrow> bool) \<Rightarrow> 'a list \<Rightarrow> 'a list" where
  "strip_by p s = rev (dropWhile p (rev (dropWhile p s)))"

definition py_strip :: "string \<Rightarrow> string" where
  "py_strip s = strip_by py_space s"

definition lstrip_char :: "char \<Rightarrow> string \<Rightarrow> string" where
  "lstrip_char c s = dropWhile (\<lambda>x. x = c) s"

definition contains_text :: "string \<Rightarrow> string \<Rightarrow> bool" where
  "contains_text needle s = sublist needle s"

definition digit_char :: "char \<Rightarrow> bool" where
  "digit_char c = (CHR ''0'' \<le> c \<and> c \<le> CHR ''9'')"

definition lower_hex_char :: "char \<Rightarrow> bool" where
  "lower_hex_char c = (digit_char c \<or> (CHR ''a'' \<le> c \<and> c \<le> CHR ''f''))"

definition ascii_alnum :: "char \<Rightarrow> bool" where
  "ascii_alnum c = (digit_char c \<or> (CHR ''a'' \<le> c \<and> c \<le> CHR ''z'') \<or> (CHR ''A'' \<le> c \<and> c \<le> CHR ''Z''))"

definition ascii_text :: "string \<Rightarrow> bool" where
  "ascii_text s = list_all (\<lambda>c. (of_char c :: nat) < 128) s"

text \<open>The pattern \<^verbatim>\<open>^[0-9a-f]{64}$\<close> under \<^verbatim>\<open>fullmatch\<close>.\<close>

definition sha256_text :: "string \<Rightarrow> bool" where
  "sha256_text s = (length s = 64 \<and> list_all lower_hex_char s)"

lemma dropWhile_idem [simp]: "dropWhile p (dropWhile p xs) = dropWhile p xs"
  by (induction xs) auto

lemma strip_by_Nil [simp]: "strip_by p [] = []"
  by (simp add: strip_by_def)

lemma set_strip_by: "set (strip_by p s) \<subseteq> set s"
  by (auto simp: strip_by_def dest!: set_dropWhileD)

lemma strip_by_id: "s = [] \<or> (\<not> p (hd s) \<and> \<not> p (last s)) \<Longrightarrow> strip_by p s = s"
proof (cases "s = []")
  case False
  assume "s = [] \<or> (\<not> p (hd s) \<and> \<not> p (last s))"
  with False have "dropWhile p s = s" "dropWhile p (rev s) = rev s"
    by (simp_all add: dropWhile_eq_self_iff hd_rev)
  then show ?thesis by (simp add: strip_by_def)
qed simp

lemma strip_by_clean: "list_all (\<lambda>c. \<not> p c) s \<Longrightarrow> strip_by p s = s"
  by (rule strip_by_id) (cases s; auto simp: list_all_iff)

subsection \<open>Numbers as text\<close>

text \<open>
  \<^verbatim>\<open>str\<close> of an integer, and \<^verbatim>\<open>int\<close> of a text: blanks around it, a sign, and groups of digits with
  single underscores between them; \<^term>\<open>None\<close> is the \<^verbatim>\<open>ValueError\<close>.
\<close>

definition digit_of :: "nat \<Rightarrow> char" where
  "digit_of n = char_of (48 + n)"

definition digit_value :: "char \<Rightarrow> nat" where
  "digit_value c = of_char c - 48"

fun show_nat :: "nat \<Rightarrow> string" where
  "show_nat n = (if n < 10 then [digit_of n] else show_nat (n div 10) @ [digit_of (n mod 10)])"

declare show_nat.simps [simp del]

definition show_int :: "int \<Rightarrow> string" where
  "show_int i = (if i < 0 then CHR ''-'' # show_nat (nat (- i)) else show_nat (nat i))"

fun split_on :: "char \<Rightarrow> string \<Rightarrow> string list" where
  "split_on d [] = [[]]"
| "split_on d (c # cs) =
     (if c = d then [] # split_on d cs
      else (case split_on d cs of g # gs \<Rightarrow> (c # g) # gs | [] \<Rightarrow> [[c]]))"

definition read_digits :: "string \<Rightarrow> nat" where
  "read_digits s = foldl (\<lambda>n c. 10 * n + digit_value c) 0 s"

definition py_nat_text :: "string \<Rightarrow> nat option" where
  "py_nat_text s =
     (if list_all (\<lambda>g. g \<noteq> [] \<and> list_all digit_char g) (split_on (CHR ''_'') s)
      then Some (read_digits (filter digit_char s)) else None)"

definition py_int_text :: "string \<Rightarrow> int option" where
  "py_int_text s = (case py_strip s of
       [] \<Rightarrow> None
     | c # cs \<Rightarrow>
         if c = CHR ''-'' then map_option (\<lambda>n. - int n) (py_nat_text cs)
         else if c = CHR ''+'' then map_option int (py_nat_text cs)
         else map_option int (py_nat_text (c # cs)))"

lemma digit_char_digit_of [simp]: "n < 10 \<Longrightarrow> digit_char (digit_of n)"
  by (simp add: digit_char_def digit_of_def less_eq_char_def)

lemma digit_value_digit_of [simp]: "n < 10 \<Longrightarrow> digit_value (digit_of n) = n"
  by (simp add: digit_value_def digit_of_def)

lemma show_nat_digits: "list_all digit_char (show_nat n)"
  by (induction n rule: show_nat.induct) (subst show_nat.simps, auto)

lemma show_nat_nonempty [simp]: "show_nat n \<noteq> []"
  by (subst show_nat.simps) simp

lemma read_show_nat [simp]: "read_digits (show_nat n) = n"
proof (induction n rule: show_nat.induct)
  case (1 n)
  then show ?case
    by (subst show_nat.simps) (auto simp: read_digits_def)
qed

lemma show_nat_inj: "show_nat m = show_nat n \<longleftrightarrow> m = n"
  by (metis read_show_nat)

lemma digit_char_neq: "digit_char c \<Longrightarrow> c \<noteq> CHR ''-'' \<and> c \<noteq> CHR ''+'' \<and> c \<noteq> CHR ''_'' \<and> \<not> py_space c"
  by (auto simp: digit_char_def less_eq_char_def py_space_def Let_def)

lemma show_int_inj: "show_int i = show_int j \<longleftrightarrow> i = j"
proof
  assume eq: "show_int i = show_int j"
  have nat_head: "show_nat n \<noteq> CHR ''-'' # cs" for n cs
    using show_nat_digits [of n] digit_char_neq by (metis list.pred_inject(2))
  show "i = j"
  proof (cases "(i < 0) = (j < 0)")
    case True
    then show ?thesis using eq by (auto simp: show_int_def show_nat_inj split: if_splits)
  next
    case False
    then show ?thesis using eq nat_head by (auto simp: show_int_def split: if_splits) metis+
  qed
qed simp

fun join_with :: "string \<Rightarrow> string list \<Rightarrow> string" where
  "join_with sep [] = []"
| "join_with sep [p] = p"
| "join_with sep (p # q # ps) = p @ sep @ join_with sep (q # ps)"

lemma split_on_nonempty [simp]: "split_on d s \<noteq> []"
  by (induction s) (auto split: list.splits)

lemma split_on_absent: "d \<notin> set s \<Longrightarrow> split_on d s = [s]"
  by (induction s) auto

lemma py_nat_text_digits: "s \<noteq> [] \<Longrightarrow> list_all digit_char s \<Longrightarrow> py_nat_text s = Some (read_digits s)"
proof -
  assume s: "s \<noteq> []" "list_all digit_char s"
  then have "CHR ''_'' \<notin> set s" using digit_char_neq by (auto simp: list_all_iff)
  moreover have "filter digit_char s = s" using s(2) by (auto simp: list_all_iff intro: filter_True)
  ultimately show ?thesis using s by (simp add: py_nat_text_def split_on_absent)
qed

lemma py_int_show_nat [simp]: "py_int_text (show_nat n) = Some (int n)"
proof -
  have d: "list_all digit_char (show_nat n)" by (rule show_nat_digits)
  then have "py_strip (show_nat n) = show_nat n"
    unfolding py_strip_def by (intro strip_by_clean) (auto simp: list_all_iff dest: digit_char_neq)
  moreover obtain c cs where c: "show_nat n = c # cs" by (cases "show_nat n") auto
  ultimately show ?thesis
    using py_nat_text_digits [OF _ d] digit_char_neq [of c] d c
    by (auto simp: py_int_text_def) (metis read_show_nat)
qed

subsection \<open>Dictionaries and duplicate-free lists\<close>

text \<open>\<^verbatim>\<open>if b: xs.append(x)\<close>: the item, or none.\<close>

definition only_if :: "bool \<Rightarrow> 'a \<Rightarrow> 'a list" where
  "only_if b x = (if b then [x] else [])"

text \<open>\<^verbatim>\<open>tuple(dict.fromkeys(xs))\<close> keeps the first occurrence of every element, in order.\<close>

fun fromkeys :: "'a list \<Rightarrow> 'a list" where
  "fromkeys [] = []"
| "fromkeys (x # xs) = x # removeAll x (fromkeys xs)"

lemma set_fromkeys [simp]: "set (fromkeys xs) = set xs"
  by (induction xs) auto

lemma distinct_fromkeys [simp]: "distinct (fromkeys xs)"
  by (induction xs) (auto simp: distinct_removeAll)

lemma fromkeys_eq_Nil [simp]: "fromkeys xs = [] \<longleftrightarrow> xs = []"
  by (cases xs) auto

lemma fromkeys_distinct: "distinct xs \<Longrightarrow> fromkeys xs = xs"
  by (induction xs) auto

subsection \<open>JSON values\<close>

datatype json =
    JNull
  | JBool bool
  | JInt int
  | JStr string
  | JArr "json list"
  | JObj "(string \<times> json) list"

definition json_get :: "string \<Rightarrow> json \<Rightarrow> json option" where
  "json_get k j = (case j of JObj kvs \<Rightarrow> map_of kvs k | _ \<Rightarrow> None)"

definition json_merge :: "json \<Rightarrow> (string \<times> json) list \<Rightarrow> json" where
  "json_merge j kvs =
     JObj (fold (\<lambda>(k, v) acc. AList.update k v acc) kvs (case j of JObj base \<Rightarrow> base | _ \<Rightarrow> []))"

definition json_opt :: "('a \<Rightarrow> json) \<Rightarrow> 'a option \<Rightarrow> json" where
  "json_opt f m = (case m of None \<Rightarrow> JNull | Some x \<Rightarrow> f x)"

text \<open>
  Truth of a value, \<^verbatim>\<open>str\<close> of a value (\<open>repr\<close> renders lists and dictionaries), and \<^verbatim>\<open>int\<close> of a
  value, \<^term>\<open>None\<close> for the \<^verbatim>\<open>TypeError\<close> or \<^verbatim>\<open>ValueError\<close>.
\<close>

fun json_truthy :: "json \<Rightarrow> bool" where
  "json_truthy JNull = False"
| "json_truthy (JBool b) = b"
| "json_truthy (JInt i) = (i \<noteq> 0)"
| "json_truthy (JStr s) = (s \<noteq> [])"
| "json_truthy (JArr xs) = (xs \<noteq> [])"
| "json_truthy (JObj kvs) = (kvs \<noteq> [])"

fun py_str :: "(json \<Rightarrow> string) \<Rightarrow> json \<Rightarrow> string" where
  "py_str repr JNull = ''None''"
| "py_str repr (JBool b) = (if b then ''True'' else ''False'')"
| "py_str repr (JInt i) = show_int i"
| "py_str repr (JStr s) = s"
| "py_str repr (JArr xs) = repr (JArr xs)"
| "py_str repr (JObj kvs) = repr (JObj kvs)"

fun py_int :: "json \<Rightarrow> int option" where
  "py_int (JBool b) = Some (if b then 1 else 0)"
| "py_int (JInt i) = Some i"
| "py_int (JStr s) = py_int_text s"
| "py_int _ = None"

text \<open>\<^verbatim>\<open>d.get(k, default)\<close> and \<^verbatim>\<open>a or b\<close>.\<close>

definition json_get_or :: "string \<Rightarrow> json \<Rightarrow> json \<Rightarrow> json" where
  "json_get_or k dflt j = (case json_get k j of None \<Rightarrow> dflt | Some v \<Rightarrow> v)"

definition json_or :: "json \<Rightarrow> json \<Rightarrow> json" where
  "json_or a b = (if json_truthy a then a else b)"

subsection \<open>Tables\<close>

definition find_row :: "('r \<Rightarrow> 'k) \<Rightarrow> 'k \<Rightarrow> 'r list \<Rightarrow> 'r option" where
  "find_row key k rows = List.find (\<lambda>r. key r = k) rows"

definition put_row :: "('r \<Rightarrow> 'k) \<Rightarrow> 'r \<Rightarrow> 'r list \<Rightarrow> 'r list" where
  "put_row key row rows = map (\<lambda>r. if key r = key row then row else r) rows"

lemma find_row_Some:
  "find_row key k rows = Some r \<Longrightarrow> r \<in> set rows \<and> key r = k"
  by (auto simp: find_row_def find_Some_iff)

lemma find_row_None: "find_row key k rows = None \<longleftrightarrow> k \<notin> key ` set rows"
  by (auto simp: find_row_def find_None_iff)

lemma find_row_put_same [table_simps]:
  "find_row key k rows = Some r0 \<Longrightarrow> key r = k \<Longrightarrow> find_row key k (put_row key r rows) = Some r"
  by (induction rows) (auto simp: find_row_def put_row_def split: if_splits)

lemma find_row_put_other [table_simps]:
  "k \<noteq> key r \<Longrightarrow> find_row key k (put_row key r rows) = find_row key k rows"
  by (induction rows) (auto simp: find_row_def put_row_def)

lemma map_key_put_row [simp]: "map key (put_row key r rows) = map key rows"
  by (simp add: put_row_def)

lemma length_put_row [simp]: "length (put_row key r rows) = length rows"
  by (simp add: put_row_def)

lemma set_put_row: "set (put_row key r rows) \<subseteq> insert r (set rows)"
  by (auto simp: put_row_def)

lemma put_row_idem: "distinct (map key rows) \<Longrightarrow> r \<in> set rows \<Longrightarrow> put_row key r rows = rows"
  unfolding put_row_def by (rule map_idI) (auto simp: distinct_map dest: inj_onD)

lemma map_put_row:
  assumes "distinct (map key rows)" "r0 \<in> set rows" "key r0 = key r" "f r = f r0"
  shows "map f (put_row key r rows) = map f rows"
proof -
  have "x = r0" if "x \<in> set rows" "key x = key r" for x
    by (metis assms(1-3) that distinct_map inj_onD)
  then show ?thesis using assms(4) by (auto simp: put_row_def)
qed

lemma find_row_in:
  "distinct (map key rows) \<Longrightarrow> r \<in> set rows \<Longrightarrow> find_row key (key r) rows = Some r"
  by (induction rows) (auto simp: find_row_def)

text \<open>
  The interface the handlers have of a table: a row is read by its key, changed, and written
  back under the same key. \<open>touch\<close> is one handler's read, change and write.
\<close>

locale row_store =
  fixes get :: "'k \<Rightarrow> 's \<Rightarrow> 'r option"
    and put :: "'r \<Rightarrow> 's \<Rightarrow> 's"
    and key :: "'r \<Rightarrow> 'k"
  assumes get_put_same: "get k s = Some r0 \<Longrightarrow> key r = k \<Longrightarrow> get k (put r s) = Some r"
    and get_put_other: "k \<noteq> key r \<Longrightarrow> get k (put r s) = get k s"
    and get_key: "get k s = Some r \<Longrightarrow> key r = k"
begin

lemma get_put:
  assumes "get (key r) s = Some r0"
  shows "get k (put r s) = (if k = key r then Some r else get k s)"
  using assms get_put_same get_put_other by auto

text \<open>A measure of the row that every change keeps or raises never falls, row by row.\<close>

lemma put_mono:
  fixes m :: "'r \<Rightarrow> 'o::preorder"
  assumes "get (key r) s = Some r0" "m r0 \<le> m r" "get k s = Some a" "get k (put r s) = Some b"
  shows "m a \<le> m b"
  using assms by (cases "k = key r") (auto simp: get_put)

text \<open>What holds of every row and of the row written still holds of every row.\<close>

lemma put_all:
  assumes "\<And>k a. get k s = Some a \<Longrightarrow> P a" "P r" "get (key r) s = Some r0"
    "get k (put r s) = Some b"
  shows "P b"
  using assms by (cases "k = key r") (auto simp: get_put)

end

text \<open>
  The interface of a component whose operations only append to a log: over any run, what was
  recorded stays, in order.
\<close>

locale append_only =
  fixes step :: "'s \<Rightarrow> 's \<Rightarrow> bool"
    and log :: "'s \<Rightarrow> 'e list"
  assumes step_appends: "step s t \<Longrightarrow> prefix (log s) (log t)"
begin

lemma run_appends: "step\<^sup>*\<^sup>* s t \<Longrightarrow> prefix (log s) (log t)"
  by (induction rule: rtranclp_induct) (auto dest: step_appends intro: prefix_order.trans)

lemma run_keeps: "step\<^sup>*\<^sup>* s t \<Longrightarrow> set (log s) \<subseteq> set (log t)"
  by (auto dest: run_appends set_mono_prefix)

end

text \<open>
  The interface of a component whose steps keep an invariant: it holds after any run.
\<close>

locale invariant_steps =
  fixes step :: "'s \<Rightarrow> 's \<Rightarrow> bool"
    and inv :: "'s \<Rightarrow> bool"
  assumes step_inv: "step s t \<Longrightarrow> inv s \<Longrightarrow> inv t"
begin

lemma run_inv: "step\<^sup>*\<^sup>* s t \<Longrightarrow> inv s \<Longrightarrow> inv t"
  by (induction rule: rtranclp_induct) (auto intro: step_inv)

end

text \<open>
  The interface of a resource that is handed out under a rising epoch: a grant raises the epoch and
  hands it to the new owner, no step lowers it, and an owner is accepted only with the current one.
  Then an owner that was superseded is never accepted again, whatever else happens.
\<close>

locale fencing =
  fixes step :: "'s \<Rightarrow> 's \<Rightarrow> bool"
    and epoch :: "'s \<Rightarrow> nat"
    and grants :: "'s \<Rightarrow> nat \<Rightarrow> 's \<Rightarrow> bool"
    and accepts :: "'s \<Rightarrow> nat \<Rightarrow> bool"
  assumes step_epoch: "step s t \<Longrightarrow> epoch s \<le> epoch t"
    and grant_fresh: "grants s e t \<Longrightarrow> epoch s < e \<and> e = epoch t"
    and accept_current: "accepts s e \<Longrightarrow> e = epoch s"
begin

lemma run_epoch: "step\<^sup>*\<^sup>* s t \<Longrightarrow> epoch s \<le> epoch t"
  by (induction rule: rtranclp_induct) (auto dest: step_epoch)

lemma grants_increase: "grants s e t \<Longrightarrow> step\<^sup>*\<^sup>* t u \<Longrightarrow> grants u e' v \<Longrightarrow> e < e'"
  by (metis grant_fresh order_le_less_trans run_epoch)

lemma outdated: "e < epoch s \<Longrightarrow> step\<^sup>*\<^sup>* s t \<Longrightarrow> \<not> accepts t e"
  by (metis accept_current linorder_not_less run_epoch)

lemma superseded:
  assumes "grants s e t" "step\<^sup>*\<^sup>* t u" "grants u e' v" "step\<^sup>*\<^sup>* v w"
  shows "\<not> accepts w e"
  using grants_increase [OF assms(1-3)] grant_fresh [OF assms(3)] outdated [OF _ assms(4)]
  by auto

end

subsection \<open>The greatest key of a table\<close>

lemma fold_max_grows: "a \<le> fold max xs (a :: nat)"
  by (induction xs arbitrary: a) (auto intro: le_trans [OF max.cobounded2])

lemma fold_max_ge: "(x :: nat) \<in> set xs \<Longrightarrow> x \<le> fold max xs a"
  by (induction xs arbitrary: a) (auto intro: le_trans [OF max.cobounded1 fold_max_grows])

end
