(* ===== verification/Canonical_Text.thy ===== *)
theory Canonical_Text
  imports Flow_Prelude "HOL-Library.Multiset"
begin

section \<open>Canonical text\<close>

text \<open>
  The canonical JSON text the services take digests of, and UTC instants as text. The text of an
  object does not depend on the order its items were put in.
\<close>

text \<open>
  \<^verbatim>\<open>json.dumps(v, sort_keys=True, separators=(",", ":"))\<close>: the items of an object are sorted by
  key, a text is quoted with the ASCII escapes. A \<^verbatim>\<open>datetime\<close> is rendered as its text first. The
  values are those of \<^typ>\<open>json\<close>: floating-point numbers are not among them, and texts have the code
  points 0 to 255 only.
\<close>

definition hex_digit :: "nat \<Rightarrow> char" where
  "hex_digit n = (if n < 10 then char_of (48 + n) else char_of (87 + n))"

definition json_escape :: "char \<Rightarrow> string" where
  "json_escape c = (let n = of_char c :: nat in
     if n = 34 then [char_of (92 :: nat), c]
     else if n = 92 then [c, c]
     else if n = 10 then [char_of (92 :: nat), CHR ''n'']
     else if n = 13 then [char_of (92 :: nat), CHR ''r'']
     else if n = 9 then [char_of (92 :: nat), CHR ''t'']
     else if n = 12 then [char_of (92 :: nat), CHR ''f'']
     else if n = 8 then [char_of (92 :: nat), CHR ''b'']
     else if 32 \<le> n \<and> n \<le> 126 then [c]
     else char_of (92 :: nat) # ''u00'' @ [hex_digit (n div 16), hex_digit (n mod 16)])"

definition json_quote :: "string \<Rightarrow> string" where
  "json_quote s = CHR 0x22 # concat (map json_escape s) @ [CHR 0x22]"

fun canonical_json :: "json \<Rightarrow> string" where
  "canonical_json JNull = ''null''"
| "canonical_json (JBool b) = (if b then ''true'' else ''false'')"
| "canonical_json (JInt i) = show_int i"
| "canonical_json (JStr s) = json_quote s"
| "canonical_json (JArr xs) = ''['' @ join_with '','' (map canonical_json xs) @ '']''"
| "canonical_json (JObj kvs) =
     ''{'' @ join_with '','' (map (\<lambda>(k, t). json_quote k @ '':'' @ t)
       (sort_key fst (map (\<lambda>(k, v). (k, canonical_json v)) kvs))) @ ''}''"

lemma filter_key_unique:
  "distinct (map fst ys) \<Longrightarrow> k \<in> set ys \<Longrightarrow> filter (\<lambda>x. fst k = fst x) ys = [k]"
proof (induction ys)
  case (Cons y ys)
  show ?case
  proof (cases "k = y")
    case True
    have "\<forall>x \<in> set ys. fst y \<noteq> fst x" using Cons.prems(1) by (force simp: image_iff)
    then show ?thesis using True by (simp add: filter_empty_conv)
  next
    case False
    then have k: "k \<in> set ys" using Cons.prems(2) by simp
    then have "fst k \<noteq> fst y" using Cons.prems(1) by (force simp: image_iff)
    then show ?thesis using Cons k by simp
  qed
qed simp

lemma sorted_items_unique:
  fixes kvs :: "('k::linorder \<times> 'v) list"
  assumes same: "mset kvs = mset kvs'" and dist: "distinct (map fst kvs)"
  shows "sort_key fst kvs = sort_key fst kvs'"
proof (rule properties_for_sort_key)
  have dist': "distinct (map fst kvs')"
    using dist mset_eq_imp_distinct_iff [of "map fst kvs" "map fst kvs'"] same by simp
  show "filter (\<lambda>x. fst k = fst x) (sort_key fst kvs') = filter (\<lambda>x. fst k = fst x) kvs"
    if "k \<in> set (sort_key fst kvs')" for k
  proof -
    have k: "k \<in> set kvs'" "k \<in> set kvs" using that mset_eq_setD [OF same] by auto
    have "filter (\<lambda>x. fst k = fst x) kvs' = [k]" by (rule filter_key_unique [OF dist' k(1)])
    moreover have "filter (\<lambda>x. fst k = fst x) kvs = [k]" by (rule filter_key_unique [OF dist k(2)])
    ultimately show ?thesis by (simp add: filter_sort)
  qed
  show "mset (sort_key fst kvs') = mset kvs" using same by simp
qed simp

lemma canonical_items:
  assumes "mset kvs = mset kvs'" "distinct (map fst kvs)"
  shows "canonical_json (JObj kvs) = canonical_json (JObj kvs')"
proof -
  let ?f = "\<lambda>(k, v). (k, canonical_json v)"
  have "mset (map ?f kvs) = mset (map ?f kvs')" using assms(1) by simp
  moreover have "map fst (map ?f kvs) = map fst kvs" by (induction kvs) auto
  then have "distinct (map fst (map ?f kvs))" using assms(2) by metis
  ultimately have "sort_key fst (map ?f kvs) = sort_key fst (map ?f kvs')"
    by (rule sorted_items_unique)
  then show ?thesis by simp
qed

subsection \<open>Instants as text\<close>

text \<open>
  The civil date of a day count from 1 January 1970, and \<^verbatim>\<open>isoformat\<close> (separator \<^verbatim>\<open>T\<close>) or \<^verbatim>\<open>str\<close>
  (separator blank) of a UTC \<^verbatim>\<open>datetime\<close>: microseconds are written when they are not zero.
\<close>

definition civil_date :: "int \<Rightarrow> int \<times> int \<times> int" where
  "civil_date days =
     (let z = days + 719468; era = z div 146097; doe = z mod 146097;
          yoe = (doe - doe div 1460 + doe div 36524 - doe div 146096) div 365;
          doy = doe - (365 * yoe + yoe div 4 - yoe div 100);
          mp = (5 * doy + 2) div 153;
          d = doy - (153 * mp + 2) div 5 + 1;
          m = (if mp < 10 then mp + 3 else mp - 9)
      in (yoe + era * 400 + (if m \<le> 2 then 1 else 0), m, d))"

definition padded :: "nat \<Rightarrow> int \<Rightarrow> string" where
  "padded w i = (let s = show_int i in replicate (w - length s) (CHR ''0'') @ s)"

definition datetime_text :: "string \<Rightarrow> instant \<Rightarrow> string" where
  "datetime_text sep t =
     (let (y, m, d) = civil_date (t div 86400000000); r = t mod 86400000000; u = r mod 1000000 in
      padded 4 y @ ''-'' @ padded 2 m @ ''-'' @ padded 2 d @ sep @
      padded 2 (r div 3600000000) @ '':'' @ padded 2 (r div 60000000 mod 60) @ '':'' @
      padded 2 (r div 1000000 mod 60) @ (if u = 0 then '''' else ''.'' @ padded 6 u) @ ''+00:00'')"

end
