(* ===== verification/Vault_Models.thy ===== *)
theory Vault_Models
  imports Flow_Prelude
begin

section \<open>The control database\<close>

text \<open>
  The tables of \<^verbatim>\<open>flowdocs/vaultops/models.py\<close> that the modelled services read and write, one
  record per model class with its columns, one datatype per \<^verbatim>\<open>TextChoices\<close> class. A foreign key is
  the primary key of the row it points to, a UUID is its text, \<^verbatim>\<open>NULL\<close> is \<^term>\<open>None\<close>. The choice
  values are datatype constructors; \<open>..._value\<close> gives the text the column stores.
\<close>

subsection \<open>Choices\<close>

datatype vault_state =
  Candidate | Authoritative | Retired | Invalid | Vault_unknown | Legacy_read_only

datatype runtime_state =
    Inactive | Pending | Applying | Active | Previous | Rollback_pending | Rolled_back
  | Activation_failed | Runtime_unknown

datatype origin = Vault_generation | Local_maintenance | Legacy_projection

datatype workspace_state =
    Absent | Planned | Downloading | Download_paused | Downloaded | Validating | Sanitizing
  | Migration_rehearsal | Activation_ready | Workspace_failed | Workspace_expired

datatype job_status =
    Queued | Claimed | Running | Waiting | Cancelling | Retryable_failed | Terminal_failed
  | Stale | Cancelled | Succeeded

datatype retry_mode = Fresh_snapshot | Checkpoint_resume | Operation_retry

datatype barrier_state = Barrier_open | Barrier_requested | Barrier_active

datatype snapshot_state =
  Snapshot_planned | Copying | Snapshot_barrier | Finalized | Snapshot_failed

datatype cleanup_state =
  Cleanup_none | Cleanup_pending | Reclaiming | Cleanup_completed | Cleanup_failed | Quarantined

datatype intent_state =
    Intent_pending | Intent_applying | Intent_committed | Intent_rolled_back | Intent_failed | Intent_expired

datatype gc_state = Draft | Gc_ready | Gc_expired | Executing | Completed | Gc_failed

fun vault_state_value :: "vault_state \<Rightarrow> string" where
  "vault_state_value Candidate = ''candidate''"
| "vault_state_value Authoritative = ''authoritative''"
| "vault_state_value Retired = ''retired''"
| "vault_state_value Invalid = ''invalid''"
| "vault_state_value Vault_unknown = ''unknown''"
| "vault_state_value Legacy_read_only = ''legacy_read_only''"

fun runtime_state_value :: "runtime_state \<Rightarrow> string" where
  "runtime_state_value Inactive = ''inactive''"
| "runtime_state_value Pending = ''pending''"
| "runtime_state_value Applying = ''applying''"
| "runtime_state_value Active = ''active''"
| "runtime_state_value Previous = ''previous''"
| "runtime_state_value Rollback_pending = ''rollback_pending''"
| "runtime_state_value Rolled_back = ''rolled_back''"
| "runtime_state_value Activation_failed = ''activation_failed''"
| "runtime_state_value Runtime_unknown = ''unknown''"

fun workspace_state_value :: "workspace_state \<Rightarrow> string" where
  "workspace_state_value Absent = ''absent''"
| "workspace_state_value Planned = ''planned''"
| "workspace_state_value Downloading = ''downloading''"
| "workspace_state_value Download_paused = ''download_paused''"
| "workspace_state_value Downloaded = ''downloaded''"
| "workspace_state_value Validating = ''validating''"
| "workspace_state_value Sanitizing = ''sanitizing''"
| "workspace_state_value Migration_rehearsal = ''migration_rehearsal''"
| "workspace_state_value Activation_ready = ''activation_ready''"
| "workspace_state_value Workspace_failed = ''failed''"
| "workspace_state_value Workspace_expired = ''expired''"

fun job_status_value :: "job_status \<Rightarrow> string" where
  "job_status_value Queued = ''queued''"
| "job_status_value Claimed = ''claimed''"
| "job_status_value Running = ''running''"
| "job_status_value Waiting = ''waiting''"
| "job_status_value Cancelling = ''cancelling''"
| "job_status_value Retryable_failed = ''retryable_failed''"
| "job_status_value Terminal_failed = ''terminal_failed''"
| "job_status_value Stale = ''stale''"
| "job_status_value Cancelled = ''cancelled''"
| "job_status_value Succeeded = ''succeeded''"

fun retry_mode_value :: "retry_mode \<Rightarrow> string" where
  "retry_mode_value Fresh_snapshot = ''fresh_snapshot''"
| "retry_mode_value Checkpoint_resume = ''checkpoint_resume''"
| "retry_mode_value Operation_retry = ''operation_retry''"

fun intent_state_value :: "intent_state \<Rightarrow> string" where
  "intent_state_value Intent_pending = ''pending''"
| "intent_state_value Intent_applying = ''applying''"
| "intent_state_value Intent_committed = ''committed''"
| "intent_state_value Intent_rolled_back = ''rolled_back''"
| "intent_state_value Intent_failed = ''failed''"
| "intent_state_value Intent_expired = ''expired''"

fun gc_state_value :: "gc_state \<Rightarrow> string" where
  "gc_state_value Draft = ''draft''"
| "gc_state_value Gc_ready = ''ready''"
| "gc_state_value Gc_expired = ''expired''"
| "gc_state_value Executing = ''executing''"
| "gc_state_value Completed = ''completed''"
| "gc_state_value Gc_failed = ''failed''"

subsection \<open>Rows\<close>

record vault_profile =
  pf_pk :: nat
  pf_key :: string
  pf_dataset_id :: string
  pf_fingerprint :: digest

record dataset_projection =
  dp_profile :: nat
  dp_dataset_id :: string
  dp_registration_digest :: digest
  dp_pointer_digest :: digest
  dp_pointer_etag :: string
  dp_authoritative_generation_id :: string
  dp_inventory_state :: string
  dp_inventory_observed_at :: "instant option"
  dp_state_version :: nat

record artifact_generation =
  ag_pk :: nat
  ag_profile :: nat
  ag_origin :: origin
  ag_dataset_id :: string
  ag_generation_id :: string
  ag_manifest_digest :: digest
  ag_manifest :: json
  ag_vault_state :: vault_state
  ag_runtime_state :: runtime_state
  ag_deployment_id :: string
  ag_parent_generation_id :: string
  ag_parent_manifest_digest :: digest
  ag_updated_at :: instant

record restore_workspace =
  rw_pk :: nat
  rw_public_id :: string
  rw_job :: "nat option"
  rw_generation :: nat
  rw_state :: workspace_state
  rw_manifest_digest :: digest
  rw_pointer_digest :: digest
  rw_runtime_path :: string
  rw_validation_evidence :: json
  rw_rehearsal_evidence :: json
  rw_prepared_at :: "instant option"
  rw_expires_at :: "instant option"
  rw_created_at :: instant
  rw_updated_at :: instant

record vault_job =
  job_pk :: nat
  job_public_id :: string
  job_operation :: string
  job_phase :: string
  job_status :: job_status
  job_profile :: "nat option"
  job_dataset_id :: string
  job_generation_id :: string
  job_progress :: json
  job_claim_token_hash :: digest
  job_claimed_by :: string
  job_fencing_epoch :: nat
  job_heartbeat_at :: "instant option"
  job_correlation_id :: string
  job_idempotency_key :: string
  job_cancellation_requested_at :: "instant option"
  job_safe_error_code :: string
  job_retry_count :: nat
  job_state_version :: nat
  job_requested_by_id :: "nat option"
  job_requested_by_name :: string
  job_started_at :: "instant option"
  job_finished_at :: "instant option"
  job_created_at :: instant
  job_updated_at :: instant

record retry_request =
  rr_job :: nat
  rr_idempotency_key :: string
  rr_requested_state_version :: nat
  rr_resulting_state_version :: nat
  rr_resulting_retry_count :: nat
  rr_mode :: retry_mode
  rr_actor_id :: "nat option"
  rr_actor_name :: string

record source_snapshot =
  ss_pk :: nat
  ss_public_id :: string
  ss_job :: nat
  ss_state :: snapshot_state
  ss_workspace_path :: string
  ss_evidence :: json
  ss_finalized_at :: "instant option"
  ss_cleanup_state :: cleanup_state
  ss_cleanup_path :: string
  ss_cleanup_not_before :: "instant option"
  ss_cleanup_error_code :: string
  ss_created_at :: instant
  ss_updated_at :: instant

record mutation_state =
  ms_deployment_id :: string
  ms_current_epoch :: nat
  ms_active_mutations :: nat
  ms_barrier_state :: barrier_state
  ms_barrier_owner_job :: "string option"
  ms_barrier_requested_at :: "instant option"
  ms_barrier_activated_at :: "instant option"
  ms_last_mutation_at :: "instant option"

record journal_entry =
  je_deployment_id :: string
  je_epoch :: nat
  je_category :: string
  je_relative_path :: string
  je_operation :: string
  je_correlation_id :: string
  je_observed_at :: instant

record retention_hold =
  rh_pk :: nat
  rh_generation :: nat
  rh_reason_code :: string
  rh_owner_reference :: string
  rh_notes :: string
  rh_idempotency_key :: string
  rh_expires_at :: "instant option"
  rh_released_at :: "instant option"

record gc_plan =
  gp_public_id :: string
  gp_profile :: nat
  gp_dataset_id :: string
  gp_inventory_version :: digest
  gp_pointer_version :: digest
  gp_candidates :: json
  gp_estimates :: json
  gp_plan_digest :: digest
  gp_state :: gc_state
  gp_expires_at :: instant

record confirmation_challenge =
  cc_public_id :: string
  cc_actor_id :: nat
  cc_action :: string
  cc_target :: string
  cc_state_digest :: digest
  cc_phrase_salt :: string
  cc_phrase_digest :: digest
  cc_expires_at :: instant
  cc_used_at :: "instant option"

record audit_event =
  ev_actor_id :: "nat option"
  ev_actor_name :: string
  ev_correlation_id :: string
  ev_job_public_id :: "string option"
  ev_action :: string
  ev_reason_code :: string
  ev_before_state :: json
  ev_after_state :: json
  ev_confirmation_digest :: string
  ev_result :: string
  ev_safe_error_code :: string
  ev_evidence :: json

record activation_intent =
  ai_public_id :: string
  ai_workspace :: "nat option"
  ai_deployment_id :: string
  ai_target_generation_id :: string
  ai_previous_generation_id :: string
  ai_manifest_digest :: digest
  ai_intent_digest :: digest
  ai_idempotency_key :: string
  ai_request_state_digest :: digest
  ai_state :: intent_state
  ai_checkpoint :: json
  ai_actor_id :: "nat option"
  ai_actor_name :: string
  ai_safe_error_code :: string
  ai_applied_at :: "instant option"
  ai_committed_at :: "instant option"
  ai_expires_at :: instant
  ai_updated_at :: instant

record pointer_observation =
  po_deployment_id :: string
  po_active_generation_id :: string
  po_previous_generation_id :: string
  po_pointer_digest :: digest
  po_process_identity :: json
  po_readiness_evidence :: json
  po_status :: string
  po_observed_at :: instant

record control_db =
  profiles :: "vault_profile list"
  projections :: "dataset_projection list"
  generations :: "artifact_generation list"
  workspaces :: "restore_workspace list"
  jobs :: "vault_job list"
  retry_requests :: "retry_request list"
  snapshots :: "source_snapshot list"
  mutation_states :: "mutation_state list"
  journal :: "journal_entry list"
  holds :: "retention_hold list"
  gc_plans :: "gc_plan list"
  challenges :: "confirmation_challenge list"
  events :: "audit_event list"
  intents :: "activation_intent list"
  observations :: "pointer_observation list"

definition empty_db :: control_db where
  "empty_db = \<lparr>profiles = [], projections = [], generations = [], workspaces = [], jobs = [],
     retry_requests = [], snapshots = [], mutation_states = [], journal = [], holds = [],
     gc_plans = [], challenges = [], events = [], intents = [], observations = []\<rparr>"

subsection \<open>Errors\<close>

text \<open>
  The exceptions of the modelled services: a missing row, the conflicts of
  \<^verbatim>\<open>services/lifecycle.py\<close> with the state they met and the state they asked for, the stale owner of
  \<^verbatim>\<open>services/jobs.py\<close>, and the other services' reason codes with their HTTP status.
\<close>

datatype vault_error =
    Does_not_exist
  | Lifecycle_conflict string "string option" "string option"
  | Claim_rejected string "string option" "string option"
  | Operational_error string
  | Retention_error string int
  | Type_error string
  | Value_error string
  | Attribute_error string

subsection \<open>Row access\<close>

definition get_job :: "string \<Rightarrow> control_db \<Rightarrow> vault_job option" where
  "get_job pid db = find_row job_public_id pid (jobs db)"

definition put_job :: "vault_job \<Rightarrow> control_db \<Rightarrow> control_db" where
  "put_job j db = db\<lparr>jobs := put_row job_public_id j (jobs db)\<rparr>"

definition get_generation :: "nat \<Rightarrow> control_db \<Rightarrow> artifact_generation option" where
  "get_generation pk db = find_row ag_pk pk (generations db)"

definition put_generation :: "artifact_generation \<Rightarrow> control_db \<Rightarrow> control_db" where
  "put_generation g db = db\<lparr>generations := put_row ag_pk g (generations db)\<rparr>"

definition get_workspace :: "nat \<Rightarrow> control_db \<Rightarrow> restore_workspace option" where
  "get_workspace pk db = find_row rw_pk pk (workspaces db)"

definition put_workspace :: "restore_workspace \<Rightarrow> control_db \<Rightarrow> control_db" where
  "put_workspace w db = db\<lparr>workspaces := put_row rw_pk w (workspaces db)\<rparr>"

definition get_intent :: "string \<Rightarrow> control_db \<Rightarrow> activation_intent option" where
  "get_intent pid db = find_row ai_public_id pid (intents db)"

definition put_intent :: "activation_intent \<Rightarrow> control_db \<Rightarrow> control_db" where
  "put_intent i db = db\<lparr>intents := put_row ai_public_id i (intents db)\<rparr>"

interpretation intent_rows: row_store get_intent put_intent ai_public_id
  by unfold_locales
    (auto simp: get_intent_def put_intent_def table_simps dest: find_row_Some)

interpretation job_rows: row_store get_job put_job job_public_id
  by unfold_locales
    (auto simp: get_job_def put_job_def table_simps dest: find_row_Some)

interpretation generation_rows: row_store get_generation put_generation ag_pk
  by unfold_locales
    (auto simp: get_generation_def put_generation_def table_simps dest: find_row_Some)

interpretation workspace_rows: row_store get_workspace put_workspace rw_pk
  by unfold_locales
    (auto simp: get_workspace_def put_workspace_def table_simps dest: find_row_Some)

lemma put_job_frame [simp]:
  "profiles (put_job j db) = profiles db" "projections (put_job j db) = projections db"
  "generations (put_job j db) = generations db" "workspaces (put_job j db) = workspaces db"
  "retry_requests (put_job j db) = retry_requests db" "snapshots (put_job j db) = snapshots db"
  "mutation_states (put_job j db) = mutation_states db" "journal (put_job j db) = journal db"
  "holds (put_job j db) = holds db" "gc_plans (put_job j db) = gc_plans db"
  "challenges (put_job j db) = challenges db" "events (put_job j db) = events db"
  "jobs (put_job j db) = put_row job_public_id j (jobs db)"
  by (simp_all add: put_job_def)

lemma put_generation_frame [simp]:
  "jobs (put_generation g db) = jobs db" "workspaces (put_generation g db) = workspaces db"
  "events (put_generation g db) = events db" "holds (put_generation g db) = holds db"
  "projections (put_generation g db) = projections db" "gc_plans (put_generation g db) = gc_plans db"
  "generations (put_generation g db) = put_row ag_pk g (generations db)"
  by (simp_all add: put_generation_def)

lemma put_workspace_frame [simp]:
  "jobs (put_workspace w db) = jobs db" "generations (put_workspace w db) = generations db"
  "events (put_workspace w db) = events db" "holds (put_workspace w db) = holds db"
  "projections (put_workspace w db) = projections db"
  "workspaces (put_workspace w db) = put_row rw_pk w (workspaces db)"
  by (simp_all add: put_workspace_def)

lemma intents_frame [simp]:
  "intents (put_job j db) = intents db" "intents (put_generation g db) = intents db"
  "intents (put_workspace w db) = intents db" "observations (put_generation g db) = observations db"
  "observations (put_workspace w db) = observations db" "generations (put_intent i db) = generations db"
  "observations (put_intent i db) = observations db" "workspaces (put_intent i db) = workspaces db"
  "intents (put_intent i db) = put_row ai_public_id i (intents db)"
  by (simp_all add: put_job_def put_generation_def put_workspace_def put_intent_def)

lemma get_job_frame [simp]:
  "get_job pid (put_generation g db) = get_job pid db"
  "get_job pid (put_workspace w db) = get_job pid db"
  by (simp_all add: get_job_def)

lemma get_job_update [simp]:
  "get_job pid (events_update f db) = get_job pid db"
  "get_job pid (snapshots_update f2 db) = get_job pid db"
  "get_job pid (retry_requests_update f3 db) = get_job pid db"
  "get_job pid (generations_update f4 db) = get_job pid db"
  by (simp_all add: get_job_def)

lemma get_generation_update [simp]:
  "get_generation pk (events_update f db) = get_generation pk db"
  "get_generation pk (put_job j db) = get_generation pk db"
  "get_generation pk (put_workspace w db) = get_generation pk db"
  by (simp_all add: get_generation_def)

lemma get_workspace_update [simp]:
  "get_workspace pk (events_update f db) = get_workspace pk db"
  "get_workspace pk (put_job j db) = get_workspace pk db"
  "get_workspace pk (put_generation g db) = get_workspace pk db"
  by (simp_all add: get_workspace_def)

end
