(* ===== verification/Vault_Mutations.thy ===== *)
theory Vault_Mutations
  imports Vault_Models
begin

section \<open>The mutation barrier\<close>

text \<open>
  \<^verbatim>\<open>flowdocs/vaultops/services/mutations.py\<close>: writers of the source data open a scope, which counts
  itself in the deployment's row and, when it closes after a change, takes the next epoch and writes
  a journal entry; a snapshot job stops new scopes, waits for the open ones and then holds the barrier.

  The two context variables of a thread of control are a record, with the local variables of the
  outermost scope beside them. The scopes of one context nest, so a context with depth one is about to
  leave its outermost scope. Contexts other than the current one act between any two transactions.
\<close>

datatype mutation_error =
    Snapshot_barrier_active string
  | Consistent_snapshot_unproven string
  | Barrier_ownership_lost string
  | State_missing

subsection \<open>Outcomes\<close>

record mutation_outcome =
  mo_changed :: bool
  mo_discarded :: bool

definition mark_changed :: "mutation_outcome \<Rightarrow> mutation_outcome" where
  "mark_changed o' = (if mo_discarded o' then o' else o'\<lparr>mo_changed := True\<rparr>)"

definition discard :: "mutation_outcome \<Rightarrow> mutation_outcome" where
  "discard o' = (if mo_changed o' then o' else o'\<lparr>mo_discarded := True\<rparr>)"

definition fresh_outcome :: "bool \<Rightarrow> mutation_outcome" where
  "fresh_outcome changed = \<lparr>mo_changed = changed, mo_discarded = False\<rparr>"

definition records_change :: "mutation_outcome \<Rightarrow> bool" where
  "records_change o' = (mo_changed o' \<and> \<not> mo_discarded o')"

subsection \<open>The state row\<close>

definition blank_state :: "string \<Rightarrow> mutation_state" where
  "blank_state dep = \<lparr>ms_deployment_id = dep, ms_current_epoch = 0, ms_active_mutations = 0,
     ms_barrier_state = Barrier_open, ms_barrier_owner_job = None, ms_barrier_requested_at = None,
     ms_barrier_activated_at = None, ms_last_mutation_at = None\<rparr>"

definition get_state :: "string \<Rightarrow> control_db \<Rightarrow> mutation_state option" where
  "get_state dep db = find_row ms_deployment_id dep (mutation_states db)"

definition put_state :: "mutation_state \<Rightarrow> control_db \<Rightarrow> control_db" where
  "put_state s db = db\<lparr>mutation_states := put_row ms_deployment_id s (mutation_states db)\<rparr>"

lemma put_state_journal [simp]: "journal (put_state s db) = journal db"
  by (simp add: put_state_def)

definition get_mutation_state :: "string \<Rightarrow> control_db \<Rightarrow> control_db \<times> mutation_state" where
  "get_mutation_state dep db =
     (case get_state dep db of Some s \<Rightarrow> (db, s)
      | None \<Rightarrow> (db\<lparr>mutation_states := mutation_states db @ [blank_state dep]\<rparr>, blank_state dep))"

definition current_epoch :: "string \<Rightarrow> control_db \<Rightarrow> control_db \<times> nat" where
  "current_epoch dep db = (let (db', s) = get_mutation_state dep db in (db', ms_current_epoch s))"

interpretation state_rows: row_store get_state put_state ms_deployment_id
  by unfold_locales
    (auto simp: get_state_def put_state_def table_simps dest: find_row_Some)

subsection \<open>Scopes\<close>

record scope_context =
  sx_depth :: nat
  sx_outcome :: "mutation_outcome option"
  sx_deployment :: string
  sx_category :: string
  sx_relative_path :: string
  sx_operation :: string
  sx_correlation_id :: string

definition idle_context :: scope_context where
  "idle_context = \<lparr>sx_depth = 0, sx_outcome = None, sx_deployment = '''', sx_category = '''',
     sx_relative_path = '''', sx_operation = '''', sx_correlation_id = ''''\<rparr>"

definition mark_current_scope_changed :: "scope_context \<Rightarrow> scope_context" where
  "mark_current_scope_changed c = c\<lparr>sx_outcome := map_option mark_changed (sx_outcome c)\<rparr>"

definition discard_current_scope :: "scope_context \<Rightarrow> scope_context" where
  "discard_current_scope c = c\<lparr>sx_outcome := map_option discard (sx_outcome c)\<rparr>"

text \<open>
  Entering and leaving \<^verbatim>\<open>mutation_scope\<close>. Without tracking both do nothing. Leaving is the
  \<^verbatim>\<open>finally\<close> block, so it runs whether the body returned or raised.
\<close>

definition enter_scope ::
  "bool \<Rightarrow> bool \<Rightarrow> scope_context \<Rightarrow> scope_context \<Rightarrow> control_db \<Rightarrow>
   mutation_error + control_db \<times> scope_context" where
  "enter_scope tracking record_on_change args c db =
     (if \<not> tracking then Inr (db, c)
      else if 0 < sx_depth c then
        (let c1 = (if record_on_change then c else mark_current_scope_changed c) in
         Inr (db, c1\<lparr>sx_depth := sx_depth c + 1\<rparr>))
      else
        (let (db1, s) = get_mutation_state (sx_deployment args) db in
         if ms_barrier_state s \<noteq> Barrier_open
         then Inl (Snapshot_barrier_active ''snapshot_barrier_active'')
         else Inr (put_state (s\<lparr>ms_active_mutations := ms_active_mutations s + 1\<rparr>) db1,
                   args\<lparr>sx_depth := 1, sx_outcome := Some (fresh_outcome (\<not> record_on_change))\<rparr>)))"

definition closed_state :: "instant \<Rightarrow> bool \<Rightarrow> mutation_state \<Rightarrow> mutation_state" where
  "closed_state clk changed s =
     (let s1 = s\<lparr>ms_active_mutations := ms_active_mutations s - 1\<rparr> in
      if changed then s1\<lparr>ms_current_epoch := ms_current_epoch s + 1, ms_last_mutation_at := Some clk\<rparr> else s1)"

definition journal_of :: "instant \<Rightarrow> nat \<Rightarrow> scope_context \<Rightarrow> journal_entry" where
  "journal_of clk epoch c = \<lparr>je_deployment_id = sx_deployment c, je_epoch = epoch,
     je_category = sx_category c, je_relative_path = sx_relative_path c,
     je_operation = sx_operation c, je_correlation_id = sx_correlation_id c, je_observed_at = clk\<rparr>"

definition leave_scope ::
  "bool \<Rightarrow> instant \<Rightarrow> scope_context \<Rightarrow> control_db \<Rightarrow> mutation_error + control_db \<times> scope_context" where
  "leave_scope tracking clk c db =
     (if \<not> tracking then Inr (db, c)
      else if 1 < sx_depth c then Inr (db, c\<lparr>sx_depth := sx_depth c - 1\<rparr>)
      else
        bind_res (of_option State_missing (get_state (sx_deployment c) db)) (\<lambda>s.
        let changed = (case sx_outcome c of None \<Rightarrow> False | Some o' \<Rightarrow> records_change o');
            s' = closed_state clk changed s;
            db1 = put_state s' db
        in Inr (if changed then db1\<lparr>journal := journal db1 @ [journal_of clk (ms_current_epoch s') c]\<rparr>
                else db1, idle_context)))"

subsection \<open>The barrier\<close>

definition barrier_request ::
  "bool \<Rightarrow> instant \<Rightarrow> string \<Rightarrow> string \<Rightarrow> control_db \<Rightarrow> mutation_error + control_db \<times> unit" where
  "barrier_request tracking clk owner dep db =
     (if \<not> tracking then Inl (Consistent_snapshot_unproven ''mutation_tracking_disabled'')
      else
        let (db1, s) = get_mutation_state dep db in
        if ms_barrier_state s \<noteq> Barrier_open \<and> ms_barrier_owner_job s \<noteq> Some owner
        then Inl (Snapshot_barrier_active ''source_snapshot_in_progress'')
        else Inr (put_state (s\<lparr>ms_barrier_state := Barrier_requested, ms_barrier_owner_job := Some owner,
                    ms_barrier_requested_at := Some clk\<rparr>) db1, ()))"

definition barrier_poll ::
  "instant \<Rightarrow> string \<Rightarrow> string \<Rightarrow> control_db \<Rightarrow> mutation_error + control_db \<times> mutation_state option" where
  "barrier_poll clk owner dep db =
     bind_res (of_option State_missing (get_state dep db)) (\<lambda>s.
     if ms_barrier_owner_job s \<noteq> Some owner
     then Inl (Barrier_ownership_lost ''snapshot_barrier_ownership_lost'')
     else if ms_active_mutations s = 0
     then let s' = s\<lparr>ms_barrier_state := Barrier_active, ms_barrier_activated_at := Some clk\<rparr>
          in Inr (put_state s' db, Some s')
     else Inr (db, None))"

definition release_barrier ::
  "string \<Rightarrow> bool \<Rightarrow> string \<Rightarrow> control_db \<Rightarrow> mutation_error + control_db \<times> bool" where
  "release_barrier owner tolerate_lost dep db =
     bind_res (of_option State_missing (get_state dep db)) (\<lambda>s.
     if ms_barrier_owner_job s \<noteq> Some owner
     then (if tolerate_lost then Inr (db, False)
           else Inl (Barrier_ownership_lost ''snapshot_barrier_ownership_lost''))
     else Inr (put_state (s\<lparr>ms_barrier_state := Barrier_open, ms_barrier_owner_job := None,
            ms_barrier_requested_at := None, ms_barrier_activated_at := None\<rparr>) db, True))"

text \<open>
  The polling loop: before the deadline passes there are \<open>n\<close> polls, and the other contexts change the
  database by \<open>between i\<close> before poll \<open>i\<close>. A loop that drains nothing releases the barrier and raises.
\<close>

fun drain ::
  "(nat \<Rightarrow> control_db \<Rightarrow> control_db) \<Rightarrow> instant \<Rightarrow> string \<Rightarrow> string \<Rightarrow> nat \<Rightarrow> nat \<Rightarrow> control_db \<Rightarrow>
   control_db \<times> (mutation_error + mutation_state)" where
  "drain between clk owner dep i 0 db =
     (let db1 = between i db in
      case release_barrier owner True dep db1 of
        Inl e \<Rightarrow> (db1, Inl e)
      | Inr (db2, b) \<Rightarrow> (db2, Inl (Consistent_snapshot_unproven ''mutation_barrier_drain_timeout'')))"
| "drain between clk owner dep i (Suc n) db =
     (let db1 = between i db in
      case barrier_poll clk owner dep db1 of
        Inl e \<Rightarrow> (db1, Inl e)
      | Inr (db2, Some s) \<Rightarrow> (db2, Inr s)
      | Inr (db2, None) \<Rightarrow> drain between clk owner dep (i + 1) n db2)"

definition request_barrier ::
  "(nat \<Rightarrow> control_db \<Rightarrow> control_db) \<Rightarrow> bool \<Rightarrow> instant \<Rightarrow> string \<Rightarrow> string \<Rightarrow> nat \<Rightarrow> control_db \<Rightarrow>
   control_db \<times> (mutation_error + mutation_state)" where
  "request_barrier between tracking clk owner dep polls db =
     (case barrier_request tracking clk owner dep db of
        Inl e \<Rightarrow> (db, Inl e)
      | Inr (db1, u) \<Rightarrow> drain between clk owner dep 0 polls db1)"

definition assert_barrier_owner :: "string \<Rightarrow> string \<Rightarrow> control_db \<Rightarrow> mutation_error + mutation_state" where
  "assert_barrier_owner owner dep db =
     bind_res (of_option State_missing (get_state dep db)) (\<lambda>s.
     if ms_barrier_state s \<noteq> Barrier_active \<or> ms_barrier_owner_job s \<noteq> Some owner
        \<or> ms_active_mutations s \<noteq> 0
     then Inl (Barrier_ownership_lost ''snapshot_barrier_ownership_lost'') else Inr s)"

definition journal_since :: "nat \<Rightarrow> string \<Rightarrow> control_db \<Rightarrow> journal_entry list" where
  "journal_since epoch dep db =
     sort_key je_epoch (filter (\<lambda>e. je_deployment_id e = dep \<and> epoch < je_epoch e) (journal db))"

end
