(* ===== verification/Docs_Models.thy ===== *)
theory Docs_Models
  imports Canonical_Text Vault_Mutations
begin

section \<open>The document database\<close>

text \<open>
  The tables of \<^verbatim>\<open>flowdocs/core/models.py\<close> that the document, generation and maintenance-job services
  read and write, with the exceptions those services raise. Foreign keys are primary keys; a
  blank text choice (\<^verbatim>\<open>""\<close>) of a lifecycle column is \<^term>\<open>None\<close>.
\<close>

datatype pdf_lifecycle =
  Intake | Uploaded | Processing | Ready | Deprecated | Archived | Unavailable

fun lifecycle_value :: "pdf_lifecycle \<Rightarrow> string" where
  "lifecycle_value Intake = ''intake''"
| "lifecycle_value Uploaded = ''uploaded''"
| "lifecycle_value Processing = ''processing''"
| "lifecycle_value Ready = ''ready''"
| "lifecycle_value Deprecated = ''deprecated''"
| "lifecycle_value Archived = ''archived''"
| "lifecycle_value Unavailable = ''unavailable''"

definition searchable_pdf_lifecycles :: "pdf_lifecycle list" where
  "searchable_pdf_lifecycles = [Uploaded, Processing, Ready]"

record pdf_file =
  pdf_pk :: nat
  pdf_name :: string
  pdf_folder :: "nat option"
  pdf_page_chunks :: json
  pdf_chunk_embeddings :: json
  pdf_indexed :: bool
  pdf_processing_status :: string
  pdf_processing_attempts :: nat
  pdf_processing_error_code :: string
  pdf_processing_error_message :: string
  pdf_processing_started_at :: "instant option"
  pdf_processing_finished_at :: "instant option"
  pdf_embedding_provider :: string
  pdf_embedding_model :: string
  pdf_embedding_dimension :: "nat option"
  pdf_lifecycle :: pdf_lifecycle
  pdf_media_prior_lifecycle :: "pdf_lifecycle option"
  pdf_media_expected_sha256 :: string
  pdf_media_expected_size :: "int option"
  pdf_media_quarantine_reason :: string
  pdf_media_case_reference :: string
  pdf_media_observed_at :: "instant option"

record folder =
  fo_pk :: nat
  fo_name :: string

datatype generation_status = Staged | Validated | Gen_active | Gen_failed | Superseded | Purged

datatype retention_policy = Keep_all | Keep_last_n | Age_based

record core_generation =
  cg_pk :: nat
  cg_generation_id :: string
  cg_status :: generation_status
  cg_validated_at :: "instant option"
  cg_promoted_at :: "instant option"
  cg_superseded_by :: "nat option"
  cg_retention_policy :: retention_policy
  cg_retention_value :: "nat option"
  cg_expires_at :: "instant option"
  cg_created_at :: instant

datatype mjob_status = Mj_queued | Mj_running | Mj_paused | Mj_cancel_requested | Mj_completed | Mj_failed | Mj_cancelled

record maintenance_job =
  mj_pk :: nat
  mj_public_id :: string
  mj_kind :: string
  mj_status :: mjob_status
  mj_scope :: json
  mj_options :: json
  mj_total_items :: nat
  mj_completed_items :: nat
  mj_failed_items :: nat
  mj_error_summary :: string
  mj_requested_by :: "string option"
  mj_created_at :: instant
  mj_started_at :: "instant option"
  mj_finished_at :: "instant option"
  mj_updated_at :: instant

datatype item_status = It_queued | It_running | It_completed | It_failed | It_skipped

record job_item =
  it_pk :: nat
  it_job :: nat
  it_pdf :: "nat option"
  it_folder :: "nat option"
  it_status :: item_status
  it_attempts :: nat
  it_error_code :: string
  it_error_message :: string
  it_started_at :: "instant option"
  it_finished_at :: "instant option"

record maintenance_event =
  me_job :: "nat option"
  me_event_type :: string
  me_actor :: "string option"
  me_payload :: json

record core_db =
  pdfs :: "pdf_file list"
  folders :: "folder list"
  core_generations :: "core_generation list"
  mjobs :: "maintenance_job list"
  mitems :: "job_item list"
  mevents :: "maintenance_event list"

text \<open>
  \<open>Integrity\<close> is \<^verbatim>\<open>SearchDataIntegrityError\<close>, \<open>Media_absent\<close> its subclass \<^verbatim>\<open>MediaAbsentError\<close>; \<open>Rejected\<close>
  a \<^verbatim>\<open>LifecycleDecisionRejected\<close> with its code; \<open>Row_missing\<close> a \<^verbatim>\<open>DoesNotExist\<close>; \<open>Index_error\<close> an
  \<^verbatim>\<open>IndexError\<close>; \<open>Date_overflow\<close> an \<^verbatim>\<open>OverflowError\<close> of the calendar; \<open>Scope_refused\<close> what entering or leaving a mutation scope raised.
\<close>

datatype doc_error =
    Integrity string
  | Media_absent
  | Rejected string
  | Row_missing
  | Index_error
  | Date_overflow
  | Scope_refused mutation_error

definition audit ::
  "nat option \<Rightarrow> string \<Rightarrow> string option \<Rightarrow> json \<Rightarrow> core_db \<Rightarrow> core_db" where
  "audit job event_type actor payload db = db\<lparr>mevents := mevents db @
     [\<lparr>me_job = job, me_event_type = event_type, me_actor = actor, me_payload = payload\<rparr>]\<rparr>"

definition get_pdf :: "nat \<Rightarrow> core_db \<Rightarrow> pdf_file option" where
  "get_pdf pk db = find_row pdf_pk pk (pdfs db)"

definition put_pdf :: "pdf_file \<Rightarrow> core_db \<Rightarrow> core_db" where
  "put_pdf p db = db\<lparr>pdfs := put_row pdf_pk p (pdfs db)\<rparr>"

definition get_core_generation :: "nat \<Rightarrow> core_db \<Rightarrow> core_generation option" where
  "get_core_generation pk db = find_row cg_pk pk (core_generations db)"

definition put_core_generation :: "core_generation \<Rightarrow> core_db \<Rightarrow> core_db" where
  "put_core_generation g db = db\<lparr>core_generations := put_row cg_pk g (core_generations db)\<rparr>"

definition generation_by_id :: "string \<Rightarrow> core_db \<Rightarrow> core_generation option" where
  "generation_by_id gid db = find_row cg_generation_id gid (core_generations db)"

interpretation pdf_rows: row_store get_pdf put_pdf pdf_pk
  by unfold_locales (auto simp: get_pdf_def put_pdf_def table_simps dest: find_row_Some)

interpretation core_generation_rows: row_store get_core_generation put_core_generation cg_pk
  by unfold_locales (auto simp: get_core_generation_def put_core_generation_def table_simps dest: find_row_Some)

lemma core_db_frame [simp]:
  "pdfs (audit j e a p db) = pdfs db" "core_generations (audit j e a p db) = core_generations db"
  "get_pdf pk (audit j e a p db) = get_pdf pk db"
  "get_core_generation pk (audit j e a p db) = get_core_generation pk db"
  "get_pdf pk (put_core_generation g db) = get_pdf pk db"
  "get_core_generation pk (put_pdf q db) = get_core_generation pk db"
  "mevents (audit j e a p db) = mevents db @ [\<lparr>me_job = j, me_event_type = e, me_actor = a, me_payload = p\<rparr>]"
  "mevents (put_pdf q db) = mevents db" "pdfs (put_pdf q db) = put_row pdf_pk q (pdfs db)"
  by (simp_all add: audit_def get_pdf_def get_core_generation_def put_pdf_def put_core_generation_def)

end
