(* ===== verification/Docs_Lifecycle.thy ===== *)
theory Docs_Lifecycle
  imports Docs_Models
begin

section \<open>Document lifecycle\<close>

text \<open>
  \<^verbatim>\<open>flowdocs/core/services/document_lifecycle.py\<close>, the policy of removing a document from search and
  of recovering it, and the document operations of \<^verbatim>\<open>flowdocs/core/maintenance.py\<close> that carry it out.

  The file system is the parameter \<open>fs\<close>: what opening a media file below the media root finds, step
  by step. A transition of unavailable media runs in a mutation scope, so it works on both databases;
  when it raises, the document database stays as it was, and the scope's own transactions stay.
\<close>

subsection \<open>Stored media\<close>

text \<open>
  What the descriptor walk meets: a component that is missing, an error, a directory that changed
  under it, or an opened file with what its status and its bytes say.
\<close>

record opened_media =
  om_regular :: bool
  om_links :: nat
  om_same_identity :: bool
  om_size :: int
  om_in_time :: bool
  om_read :: int
  om_sha256 :: digest
  om_stable :: bool

datatype media_open = Media_missing | Media_os_error | Media_directory_changed | Media_opened opened_media

definition path_parts :: "string \<Rightarrow> string list" where
  "path_parts key = filter (\<lambda>p. p \<noteq> [] \<and> p \<noteq> ''.'') (split_on (CHR ''/'') key)"

definition unsafe_media_key :: "string \<Rightarrow> bool" where
  "unsafe_media_key key = (key = [] \<or> key \<noteq> py_strip key \<or> CHR 0x5C \<in> set key \<or>
     list_ex (\<lambda>c. (of_char c :: nat) < 32 \<or> (of_char c :: nat) = 127) key \<or>
     hd key = CHR ''/'' \<or> ''..'' \<in> set (path_parts key))"

definition integrity :: "bool \<Rightarrow> string \<Rightarrow> doc_error + unit" where
  "integrity b message = require b (Integrity message)"

definition verified_local_media_evidence ::
  "int \<Rightarrow> (string \<Rightarrow> media_open) \<Rightarrow> pdf_file \<Rightarrow> int option \<Rightarrow> doc_error + digest \<times> int" where
  "verified_local_media_evidence maximum fs pdf expected_size =
     (let key = pdf_name pdf in
     bind_res (integrity (\<not> unsafe_media_key key) ''Document media storage key is unsafe'') (\<lambda>_.
     bind_res (case fs key of
         Media_missing \<Rightarrow> Inl Media_absent
       | Media_os_error \<Rightarrow> Inl (Integrity ''Document media could not be verified from approved local storage'')
       | _ \<Rightarrow> require (path_parts key \<noteq> []) Index_error) (\<lambda>_.
     case fs key of
       Media_missing \<Rightarrow> Inl Media_absent
     | Media_os_error \<Rightarrow> Inl (Integrity ''Document media could not be verified from approved local storage'')
     | Media_directory_changed \<Rightarrow> Inl (Integrity ''Document media directory identity changed'')
     | Media_opened m \<Rightarrow>
         bind_res (integrity (om_regular m \<and> om_links m = 1 \<and> om_same_identity m)
           ''Document media must be one stable regular file'') (\<lambda>_.
         bind_res (integrity (om_size m \<le> maximum) ''Document media exceeds the approved size'') (\<lambda>_.
         bind_res (integrity (expected_size = None \<or> expected_size = Some (om_size m))
           ''Restored document media size does not match approved evidence'') (\<lambda>_.
         bind_res (integrity (om_in_time m) ''Document media verification exceeded its deadline'') (\<lambda>_.
         bind_res (integrity (om_read m \<le> om_size m + 1 \<and> om_read m \<le> maximum)
           ''Document media changed size while verified'') (\<lambda>_.
         bind_res (integrity (om_stable m \<and> om_read m = om_size m)
           ''Document media changed while it was verified'') (\<lambda>_.
         Inr (om_sha256 m, om_read m))))))))))"

subsection \<open>Row operations\<close>

text \<open>\<open>save\<close> with \<^verbatim>\<open>update_fields=["lifecycle", "indexed"]\<close> writes two columns of the stored row.\<close>

definition save_visibility :: "pdf_file \<Rightarrow> core_db \<Rightarrow> core_db" where
  "save_visibility p db = (case get_pdf (pdf_pk p) db of None \<Rightarrow> db
     | Some row \<Rightarrow> put_pdf (row\<lparr>pdf_lifecycle := pdf_lifecycle p, pdf_indexed := pdf_indexed p\<rparr>) db)"

definition deprecate_pdf :: "pdf_file \<Rightarrow> core_db \<Rightarrow> doc_error + core_db \<times> pdf_file" where
  "deprecate_pdf pdf db =
     bind_res (integrity (pdf_lifecycle pdf \<noteq> Archived)
       ''Cannot deprecate an archived document - restore it first'') (\<lambda>_.
     let p = pdf\<lparr>pdf_lifecycle := Deprecated, pdf_indexed := False\<rparr> in Inr (save_visibility p db, p))"

definition archive_pdf :: "pdf_file \<Rightarrow> core_db \<Rightarrow> doc_error + core_db \<times> pdf_file" where
  "archive_pdf pdf db =
     (let p = pdf\<lparr>pdf_lifecycle := Archived, pdf_indexed := False\<rparr> in Inr (save_visibility p db, p))"

definition restore_pdf :: "nat \<Rightarrow> core_db \<Rightarrow> doc_error + core_db \<times> pdf_file \<times> bool" where
  "restore_pdf pk db =
     bind_res (of_option Row_missing (get_pdf pk db)) (\<lambda>cur.
     bind_res (integrity (pdf_lifecycle cur \<noteq> Unavailable)
       ''Unavailable media requires the verified availability restore'') (\<lambda>_.
     let p = cur\<lparr>pdf_lifecycle := Uploaded, pdf_indexed := False\<rparr> in
     Inr (put_pdf p db, p, pdf_lifecycle cur \<noteq> Uploaded)))"

subsection \<open>Unavailable media\<close>

definition media_quarantine_reasons :: "string list" where
  "media_quarantine_reasons = [''missing_after_inventory'', ''custody_restore_pending'', ''source_recovery_case'']"

definition max_media_size :: int where
  "max_media_size = 2 ^ 63 - 1"

definition case_char :: "char \<Rightarrow> bool" where
  "case_char c = (ascii_alnum c \<or> c = CHR ''.'' \<or> c = CHR ''_'' \<or> c = CHR ''-'')"

definition case_reference_ok :: "string \<Rightarrow> bool" where
  "case_reference_ok s = (s \<noteq> [] \<and> length s \<le> 80 \<and> list_all case_char s)"

text \<open>The arguments of the quarantine: the digest, and the size as the caller passed it.\<close>

definition quarantine_evidence ::
  "(json \<Rightarrow> string) \<Rightarrow> string \<Rightarrow> json \<Rightarrow> string \<Rightarrow> string \<Rightarrow> doc_error + string \<times> int option \<times> string \<times> string" where
  "quarantine_evidence repr expected_sha256 expected_size reason case_reference =
     (let digest = py_lower (py_strip expected_sha256); reason' = py_strip reason; case' = py_strip case_reference;
          size_text = py_strip (if json_truthy expected_size then py_str repr expected_size else []) in
     bind_res (if digest \<noteq> [] \<or> size_text \<noteq> [] then
         bind_res (of_option (Integrity ''Expected media size is invalid'') (py_int expected_size)) (\<lambda>n.
         bind_res (integrity (sha256_text digest) ''Expected media digest is invalid'') (\<lambda>_. Inr (Some n)))
       else Inr None) (\<lambda>sz.
     bind_res (integrity ((case sz of None \<Rightarrow> True | Some n \<Rightarrow> 0 \<le> n \<and> n \<le> max_media_size) \<and>
         (digest \<noteq> []) = (sz \<noteq> None) \<and> reason' \<in> set media_quarantine_reasons \<and> case_reference_ok case')
       ''Manual quarantine evidence is incomplete'') (\<lambda>_. Inr (digest, sz, reason', case'))))"

record media_env =
  mv_maximum :: int
  mv_fs :: "string \<Rightarrow> media_open"
  mv_repr :: "json \<Rightarrow> string"
  mv_clock :: instant

definition quarantined_row ::
  "instant \<Rightarrow> string \<times> int option \<times> string \<times> string \<Rightarrow> pdf_file \<Rightarrow> pdf_file" where
  "quarantined_row clk ev cur = (case ev of (digest, sz, reason, case') \<Rightarrow>
     cur\<lparr>pdf_lifecycle := Unavailable, pdf_indexed := False,
       pdf_media_prior_lifecycle := Some (pdf_lifecycle cur), pdf_media_expected_sha256 := digest,
       pdf_media_expected_size := sz, pdf_media_quarantine_reason := reason,
       pdf_media_case_reference := case', pdf_media_observed_at := Some clk\<rparr>)"

definition mark_pdf_unavailable ::
  "media_env \<Rightarrow> nat \<Rightarrow> string option \<Rightarrow> string \<Rightarrow> json \<Rightarrow> string \<Rightarrow> string \<Rightarrow> core_db \<Rightarrow>
   doc_error + core_db \<times> pdf_file \<times> bool" where
  "mark_pdf_unavailable env pk actor expected_sha256 expected_size reason case_reference db =
     bind_res (quarantine_evidence (mv_repr env) expected_sha256 expected_size reason case_reference) (\<lambda>ev.
     bind_res (of_option Row_missing (get_pdf pk db)) (\<lambda>cur.
     if pdf_lifecycle cur = Unavailable then Inr (db, cur, False)
     else case verified_local_media_evidence (mv_maximum env) (mv_fs env) cur None of
       Inr found \<Rightarrow> Inl (Integrity ''Document media is currently available and cannot be quarantined'')
     | Inl e \<Rightarrow>
         if e \<noteq> Media_absent then Inl e
         else let p = quarantined_row (mv_clock env) ev cur; (digest, sz, reason', case') = ev in
           Inr (audit None ''media_unavailable'' actor (JObj
               [(''pdf_id'', JInt (int pk)), (''prior_lifecycle'', JStr (lifecycle_value (pdf_lifecycle cur))),
                (''expected_sha256'', JStr digest), (''expected_size'', json_opt JInt sz),
                (''case_reference'', JStr case'), (''reason'', JStr reason'),
                (''observed_at'', JStr (datetime_text ''T'' (mv_clock env)))]) (put_pdf p db), p, True)))"

definition binding_evidence :: "string \<Rightarrow> json \<Rightarrow> string \<Rightarrow> string \<Rightarrow> doc_error + string \<times> int \<times> string \<times> string" where
  "binding_evidence expected_sha256 expected_size binding_reason case_reference =
     (let digest = py_lower (py_strip expected_sha256); reason = py_strip binding_reason; case' = py_strip case_reference in
     bind_res (of_option (Integrity ''Expected media size is invalid'') (py_int expected_size)) (\<lambda>n.
     bind_res (integrity (sha256_text digest \<and> 0 \<le> n \<and> n \<le> max_media_size \<and>
         reason \<in> set media_quarantine_reasons \<and> case_reference_ok case')
       ''Recovery evidence is incomplete'') (\<lambda>_. Inr (digest, n, reason, case'))))"

definition bind_unavailable_recovery_evidence ::
  "nat \<Rightarrow> string option \<Rightarrow> string \<Rightarrow> json \<Rightarrow> string \<Rightarrow> string \<Rightarrow> core_db \<Rightarrow> doc_error + core_db \<times> pdf_file \<times> bool" where
  "bind_unavailable_recovery_evidence pk actor expected_sha256 expected_size binding_reason case_reference db =
     bind_res (binding_evidence expected_sha256 expected_size binding_reason case_reference) (\<lambda>(digest, n, reason, case').
     bind_res (of_option Row_missing (get_pdf pk db)) (\<lambda>cur.
     bind_res (integrity (pdf_lifecycle cur = Unavailable)
       ''Recovery evidence can only be bound to unavailable media'') (\<lambda>_.
     bind_res (integrity ((pdf_media_expected_sha256 cur \<noteq> []) = (pdf_media_expected_size cur \<noteq> None))
       ''Stored restoration evidence is incomplete'') (\<lambda>_.
     if pdf_media_expected_sha256 cur \<noteq> [] then Inr (db, cur, False)
     else let p = cur\<lparr>pdf_media_expected_sha256 := digest, pdf_media_expected_size := Some n,
                pdf_media_case_reference := case'\<rparr> in
       Inr (audit None ''media_evidence_bound'' actor (JObj
           [(''pdf_id'', JInt (int pk)), (''expected_sha256'', JStr digest), (''expected_size'', JInt n),
            (''binding_reason'', JStr reason), (''case_reference'', JStr case')]) (put_pdf p db), p, True)))))"

definition restorable_prior :: "pdf_lifecycle list" where
  "restorable_prior = [Uploaded, Processing, Ready, Deprecated, Archived]"

text \<open>The media is verified before the row changes and once more before the change commits.\<close>

definition restore_unavailable_pdf ::
  "media_env \<Rightarrow> (string \<Rightarrow> media_open) \<Rightarrow> nat \<Rightarrow> string option \<Rightarrow> core_db \<Rightarrow> doc_error + core_db \<times> pdf_file \<times> bool" where
  "restore_unavailable_pdf env fs' pk actor db =
     bind_res (of_option Row_missing (get_pdf pk db)) (\<lambda>cur.
     bind_res (integrity (pdf_lifecycle cur = Unavailable)
       ''Only unavailable media can use the verified availability restore'') (\<lambda>_.
     bind_res (integrity (pdf_media_expected_sha256 cur \<noteq> [] \<and> pdf_media_expected_size cur \<noteq> None \<and>
         pdf_media_prior_lifecycle cur \<noteq> None)
       ''Unavailable media does not have durable restoration evidence'') (\<lambda>_.
     bind_res (verified_local_media_evidence (mv_maximum env) (mv_fs env) cur (pdf_media_expected_size cur)) (\<lambda>found.
     bind_res (integrity (fst found = pdf_media_expected_sha256 cur \<and> Some (snd found) = pdf_media_expected_size cur)
       ''Restored document media does not match the approved evidence'') (\<lambda>_.
     bind_res (of_option (Integrity ''Unavailable media has an invalid prior lifecycle'')
       (case pdf_media_prior_lifecycle cur of Some l \<Rightarrow> if l \<in> set restorable_prior then Some l else None | None \<Rightarrow> None)) (\<lambda>l.
     let p = cur\<lparr>pdf_lifecycle := l, pdf_indexed := False\<rparr> in
     bind_res (verified_local_media_evidence (mv_maximum env) fs' p (pdf_media_expected_size cur)) (\<lambda>final.
     bind_res (integrity (final = found)
       ''Restored document media changed before availability was committed'') (\<lambda>_.
     Inr (audit None ''media_restored'' actor (JObj
         [(''pdf_id'', JInt (int pk)), (''prior_lifecycle'', JStr ''unavailable''),
          (''restored_lifecycle'', JStr (lifecycle_value l)), (''verified_sha256'', JStr (fst found)),
          (''verified_size'', JInt (snd found)), (''case_reference'', JStr (pdf_media_case_reference cur))])
       (put_pdf p db), p, True)))))))))"

subsection \<open>Tracked transitions\<close>

text \<open>
  \<^verbatim>\<open>_tracked_media_transition\<close>: the transition runs inside a mutation scope that records an epoch only
  when the transition says it changed something; inside an open transaction it is refused.
\<close>

record doc_state =
  ds_core :: core_db
  ds_control :: control_db
  ds_scope :: scope_context

record scope_env =
  se_tracking :: bool
  se_deployment :: string
  se_clock :: instant
  se_correlation :: string
  se_in_atomic :: bool

definition scope_args :: "scope_env \<Rightarrow> string \<Rightarrow> scope_context" where
  "scope_args e action = idle_context\<lparr>sx_deployment := se_deployment e, sx_category := ''media_lifecycle'',
     sx_relative_path := action, sx_operation := ''write'', sx_correlation_id := se_correlation e\<rparr>"

definition mark_if :: "bool \<Rightarrow> scope_context \<Rightarrow> scope_context" where
  "mark_if b c = (if b then mark_current_scope_changed c else c)"

definition close_scope :: "scope_env \<Rightarrow> scope_context \<Rightarrow> core_db \<Rightarrow> control_db \<Rightarrow> doc_error + 'r \<Rightarrow>
  doc_state \<times> (doc_error + 'r)" where
  "close_scope e c core control res = (case leave_scope (se_tracking e) (se_clock e) c control of
       Inl x \<Rightarrow> (\<lparr>ds_core = core, ds_control = control, ds_scope = idle_context\<rparr>, Inl (Scope_refused x))
     | Inr (control', c') \<Rightarrow> (\<lparr>ds_core = core, ds_control = control', ds_scope = c'\<rparr>, res))"

definition tracked_media_transition ::
  "scope_env \<Rightarrow> string \<Rightarrow> (core_db \<Rightarrow> doc_error + core_db \<times> pdf_file \<times> bool) \<Rightarrow> doc_state \<Rightarrow>
   doc_state \<times> (doc_error + pdf_file \<times> bool)" where
  "tracked_media_transition e action transition s =
     (if se_in_atomic e then (s, Inl (Integrity ''media_transition_outer_atomic_unsupported''))
      else case enter_scope (se_tracking e) True (scope_args e action) (ds_scope s) (ds_control s) of
        Inl x \<Rightarrow> (s, Inl (Scope_refused x))
      | Inr (control, c) \<Rightarrow> (case transition (ds_core s) of
            Inl x \<Rightarrow> close_scope e c (ds_core s) control (Inl x)
          | Inr (core, p, changed) \<Rightarrow>
              close_scope e (mark_if (se_tracking e \<and> changed) c) core control (Inr (p, changed))))"

end
