(* ===== verification/Docs_Policy.thy ===== *)
theory Docs_Policy
  imports Docs_Lifecycle
begin

section \<open>Removing a document from search and recovering it\<close>

text \<open>
  The decisions of \<^verbatim>\<open>flowdocs/core/services/document_lifecycle.py\<close>: who may decide, the policy of
  each reason, the evidence of an unavailable document, the preview of the effects, the removal and
  the recovery.
\<close>

record actor =
  ac_authenticated :: bool
  ac_role :: string
  ac_username :: string

definition manage_lifecycle_roles :: "string list" where
  "manage_lifecycle_roles = [''admin'', ''superadmin'']"

definition ordinary_lifecycle_states :: "pdf_lifecycle list" where
  "ordinary_lifecycle_states = [Uploaded, Processing, Ready]"

definition hidden_lifecycle_states :: "pdf_lifecycle list" where
  "hidden_lifecycle_states = [Deprecated, Archived, Unavailable]"

definition all_lifecycle_states :: "pdf_lifecycle list" where
  "all_lifecycle_states = ordinary_lifecycle_states @ hidden_lifecycle_states"

record lifecycle_policy =
  lp_reason_code :: string
  lp_target_state :: pdf_lifecycle
  lp_allowed_source_states :: "pdf_lifecycle list"
  lp_reversible :: bool
  lp_required_inputs :: "string list"
  lp_recovery_operation :: string
  lp_recovery_requirements :: "string list"

definition media_requirements :: "string list" where
  "media_requirements = [''stored_expected_sha256'', ''stored_expected_size'', ''stored_prior_lifecycle'',
     ''matching_local_media'']"

definition lifecycle_policies :: "(string \<times> lifecycle_policy) list" where
  "lifecycle_policies =
     [(''superseded'', \<lparr>lp_reason_code = ''superseded'', lp_target_state = Deprecated,
        lp_allowed_source_states = ordinary_lifecycle_states @ [Deprecated], lp_reversible = True,
        lp_required_inputs = [], lp_recovery_operation = ''restore_to_uploaded'', lp_recovery_requirements = []\<rparr>),
      (''historical_record'', \<lparr>lp_reason_code = ''historical_record'', lp_target_state = Archived,
        lp_allowed_source_states = ordinary_lifecycle_states @ [Deprecated, Archived], lp_reversible = True,
        lp_required_inputs = [], lp_recovery_operation = ''restore_to_uploaded'', lp_recovery_requirements = []\<rparr>),
      (''source_temporarily_unavailable'', \<lparr>lp_reason_code = ''source_temporarily_unavailable'',
        lp_target_state = Unavailable, lp_allowed_source_states = all_lifecycle_states, lp_reversible = True,
        lp_required_inputs = [''quarantine_reason'', ''case_reference''],
        lp_recovery_operation = ''verified_media_restore'', lp_recovery_requirements = media_requirements\<rparr>)]"

definition get_lifecycle_policy :: "string \<Rightarrow> doc_error + lifecycle_policy" where
  "get_lifecycle_policy reason_code =
     of_option (Rejected ''unknown_reason_code'') (map_of lifecycle_policies (py_strip reason_code))"

definition actor_can_manage_lifecycle :: "actor option \<Rightarrow> bool" where
  "actor_can_manage_lifecycle a = (case a of None \<Rightarrow> False
     | Some u \<Rightarrow> ac_authenticated u \<and> ac_role u \<in> set manage_lifecycle_roles)"

definition require_actor_role :: "actor option \<Rightarrow> doc_error + unit" where
  "require_actor_role a = require (actor_can_manage_lifecycle a) (Rejected ''lifecycle_permission_denied'')"

definition require_allowed_source :: "pdf_file \<Rightarrow> lifecycle_policy \<Rightarrow> doc_error + unit" where
  "require_allowed_source p pol =
     require (pdf_lifecycle p \<in> set (lp_allowed_source_states pol)) (Rejected ''invalid_source_state'')"

subsection \<open>Evidence\<close>

record unavailability_evidence =
  ue_quarantine_reason :: string
  ue_case_reference :: string
  ue_expected_sha256 :: string
  ue_expected_size :: json

datatype evidence_input = Typed_evidence unavailability_evidence | Evidence_mapping "(string \<times> json) list"

definition mapping_text :: "(json \<Rightarrow> string) \<Rightarrow> string \<Rightarrow> (string \<times> json) list \<Rightarrow> string" where
  "mapping_text repr k m = py_strip (py_str repr (case map_of m k of None \<Rightarrow> JStr [] | Some v \<Rightarrow> v))"

definition read_evidence :: "(json \<Rightarrow> string) \<Rightarrow> evidence_input \<Rightarrow> unavailability_evidence" where
  "read_evidence repr e = (case e of Typed_evidence v \<Rightarrow> v
     | Evidence_mapping m \<Rightarrow>
         \<lparr>ue_quarantine_reason = mapping_text repr ''quarantine_reason'' m,
          ue_case_reference = mapping_text repr ''case_reference'' m,
          ue_expected_sha256 = py_lower (mapping_text repr ''expected_sha256'' m),
          ue_expected_size = (case map_of m ''expected_size'' of None \<Rightarrow> JNull | Some v \<Rightarrow> v)\<rparr>)"

definition coerce_unavailability_evidence ::
  "(json \<Rightarrow> string) \<Rightarrow> evidence_input \<Rightarrow> doc_error + unavailability_evidence" where
  "coerce_unavailability_evidence repr input =
     (let v = read_evidence repr input;
          raw = (if ue_expected_size v = JNull then [] else py_strip (py_str repr (ue_expected_size v))) in
     bind_res (require (ue_quarantine_reason v \<noteq> [] \<and> ue_case_reference v \<noteq> [])
       (Rejected ''missing_required_input'')) (\<lambda>_.
     bind_res (require (ue_quarantine_reason v \<in> set media_quarantine_reasons)
       (Rejected ''invalid_quarantine_reason'')) (\<lambda>_.
     bind_res (require (case_reference_ok (ue_case_reference v)) (Rejected ''invalid_case_reference'')) (\<lambda>_.
     bind_res (require ((ue_expected_sha256 v \<noteq> []) = (raw \<noteq> [])) (Rejected ''incomplete_recovery_evidence'')) (\<lambda>_.
     if ue_expected_sha256 v \<noteq> [] then
       bind_res (require (sha256_text (ue_expected_sha256 v)) (Rejected ''invalid_expected_sha256'')) (\<lambda>_.
       bind_res (of_option (Rejected ''invalid_expected_size'') (py_int_text raw)) (\<lambda>n.
       bind_res (require (0 \<le> n \<and> n \<le> max_media_size) (Rejected ''invalid_expected_size'')) (\<lambda>_.
       Inr (v\<lparr>ue_expected_size := JInt n\<rparr>))))
     else Inr (v\<lparr>ue_expected_sha256 := [], ue_expected_size := JNull\<rparr>))))))"

subsection \<open>Preview\<close>

record lifecycle_impact =
  li_document_id :: nat
  li_reason_code :: string
  li_source_state :: pdf_lifecycle
  li_target_state :: pdf_lifecycle
  li_file_reference_present :: bool
  li_file_action :: string
  li_index_marked_before :: bool
  li_index_marked_after :: bool
  li_folder_index_rebuild_required :: bool
  li_search_visible_before :: bool
  li_search_visible_after :: bool
  li_folder_id :: "nat option"
  li_folder_name :: "string option"
  li_folder_membership_action :: string
  li_permanent_deletion :: bool

definition searchable :: "pdf_file \<Rightarrow> bool" where
  "searchable p = (pdf_lifecycle p \<in> set searchable_pdf_lifecycles)"

definition folder_of :: "core_db \<Rightarrow> pdf_file \<Rightarrow> folder option" where
  "folder_of db p = (case pdf_folder p of None \<Rightarrow> None | Some f \<Rightarrow> find_row fo_pk f (folders db))"

definition build_impact_preview :: "core_db \<Rightarrow> pdf_file \<Rightarrow> string \<Rightarrow> doc_error + lifecycle_impact" where
  "build_impact_preview db p reason_code =
     bind_res (get_lifecycle_policy reason_code) (\<lambda>pol.
     bind_res (require_allowed_source p pol) (\<lambda>_.
     Inr \<lparr>li_document_id = pdf_pk p, li_reason_code = lp_reason_code pol, li_source_state = pdf_lifecycle p,
       li_target_state = lp_target_state pol, li_file_reference_present = (pdf_name p \<noteq> []),
       li_file_action = ''preserve'', li_index_marked_before = pdf_indexed p, li_index_marked_after = False,
       li_folder_index_rebuild_required = (pdf_folder p \<noteq> None \<and> (pdf_indexed p \<or> searchable p)),
       li_search_visible_before = searchable p, li_search_visible_after = False, li_folder_id = pdf_folder p,
       li_folder_name = map_option fo_name (folder_of db p), li_folder_membership_action = ''preserve'',
       li_permanent_deletion = False\<rparr>))"

definition impact_json :: "lifecycle_impact \<Rightarrow> json" where
  "impact_json i = JObj
     [(''document_id'', JInt (int (li_document_id i))), (''reason_code'', JStr (li_reason_code i)),
      (''source_state'', JStr (lifecycle_value (li_source_state i))),
      (''target_state'', JStr (lifecycle_value (li_target_state i))),
      (''file'', JObj [(''reference_present'', JBool (li_file_reference_present i)), (''action'', JStr (li_file_action i))]),
      (''index'', JObj [(''marked_before'', JBool (li_index_marked_before i)), (''marked_after'', JBool (li_index_marked_after i)),
        (''folder_rebuild_required'', JBool (li_folder_index_rebuild_required i))]),
      (''search_visibility'', JObj [(''before'', JBool (li_search_visible_before i)), (''after'', JBool (li_search_visible_after i))]),
      (''folder'', JObj [(''id'', json_opt (JInt \<circ> int) (li_folder_id i)), (''name'', json_opt JStr (li_folder_name i)),
        (''membership_action'', JStr (li_folder_membership_action i))]),
      (''permanent_deletion'', JBool (li_permanent_deletion i))]"

subsection \<open>Removal\<close>

record transition_result =
  tr_pdf :: pdf_file
  tr_source_state :: pdf_lifecycle
  tr_target_state :: pdf_lifecycle
  tr_changed :: bool
  tr_reason_code :: "string option"
  tr_reversible :: bool
  tr_impact :: "lifecycle_impact option"

definition lift_core :: "doc_state \<Rightarrow> doc_error + core_db \<times> 'r \<Rightarrow> doc_state \<times> (doc_error + 'r)" where
  "lift_core s m = (case m of Inl e \<Rightarrow> (s, Inl e) | Inr (core, r) \<Rightarrow> (s\<lparr>ds_core := core\<rparr>, Inr r))"

text \<open>The two visibility outcomes, in one transaction on the locked row.\<close>

definition hide_document ::
  "nat \<Rightarrow> lifecycle_policy \<Rightarrow> core_db \<Rightarrow> doc_error + core_db \<times> transition_result" where
  "hide_document pk pol db =
     bind_res (of_option Row_missing (get_pdf pk db)) (\<lambda>cur.
     bind_res (require_allowed_source cur pol) (\<lambda>_.
     bind_res (build_impact_preview db cur (lp_reason_code pol)) (\<lambda>impact.
     let changed = (pdf_lifecycle cur \<noteq> lp_target_state pol) in
     bind_res (if \<not> changed then Inr (db, cur)
       else if lp_target_state pol = Deprecated then deprecate_pdf cur db else archive_pdf cur db) (\<lambda>(db', p).
     Inr (db', \<lparr>tr_pdf = p, tr_source_state = pdf_lifecycle cur, tr_target_state = lp_target_state pol,
       tr_changed = changed, tr_reason_code = Some (lp_reason_code pol), tr_reversible = lp_reversible pol,
       tr_impact = Some impact\<rparr>)))))"

definition quarantine_document ::
  "scope_env \<Rightarrow> media_env \<Rightarrow> nat \<Rightarrow> lifecycle_policy \<Rightarrow> actor option \<Rightarrow> unavailability_evidence \<Rightarrow> doc_state \<Rightarrow>
   doc_state \<times> (doc_error + transition_result)" where
  "quarantine_document se me pk pol a ev s =
     (case bind_res (of_option Row_missing (get_pdf pk (ds_core s))) (\<lambda>cur.
        bind_res (require_allowed_source cur pol) (\<lambda>_.
        bind_res (build_impact_preview (ds_core s) cur (lp_reason_code pol)) (\<lambda>impact. Inr (cur, impact)))) of
       Inl e \<Rightarrow> (s, Inl e)
     | Inr (cur, impact) \<Rightarrow>
         (case tracked_media_transition se ''media_unavailable''
             (mark_pdf_unavailable me pk (map_option ac_username a) (ue_expected_sha256 ev)
               (ue_expected_size ev) (ue_quarantine_reason ev) (ue_case_reference ev)) s of
           (s', Inl e) \<Rightarrow> (s', Inl e)
         | (s', Inr (p, changed)) \<Rightarrow> (s', Inr \<lparr>tr_pdf = p, tr_source_state = pdf_lifecycle cur,
             tr_target_state = lp_target_state pol, tr_changed = changed,
             tr_reason_code = Some (lp_reason_code pol), tr_reversible = lp_reversible pol, tr_impact = Some impact\<rparr>)))"

definition remove_from_search ::
  "scope_env \<Rightarrow> media_env \<Rightarrow> nat \<Rightarrow> string \<Rightarrow> actor option \<Rightarrow> evidence_input \<Rightarrow> doc_state \<Rightarrow>
   doc_state \<times> (doc_error + transition_result)" where
  "remove_from_search se me pk reason_code a evidence s =
     (case bind_res (require_actor_role a) (\<lambda>_. get_lifecycle_policy reason_code) of
       Inl e \<Rightarrow> (s, Inl e)
     | Inr pol \<Rightarrow>
         if lp_target_state pol = Unavailable then
           (case coerce_unavailability_evidence (mv_repr me) evidence of
             Inl e \<Rightarrow> (s, Inl e)
           | Inr ev \<Rightarrow> quarantine_document se me pk pol a ev s)
         else lift_core s (hide_document pk pol (ds_core s)))"

subsection \<open>Recovery\<close>

record recovery_decision =
  rd_source_state :: pdf_lifecycle
  rd_target_state :: "pdf_lifecycle option"
  rd_operation :: string
  rd_required_evidence :: "string list"
  rd_evidence_bound :: bool

definition build_recovery_decision :: "pdf_file \<Rightarrow> doc_error + recovery_decision" where
  "build_recovery_decision p =
     (if pdf_lifecycle p = Deprecated \<or> pdf_lifecycle p = Archived then
        Inr \<lparr>rd_source_state = pdf_lifecycle p, rd_target_state = Some Uploaded, rd_operation = ''restore_to_uploaded'',
          rd_required_evidence = [], rd_evidence_bound = True\<rparr>
      else if pdf_lifecycle p = Unavailable then
        Inr \<lparr>rd_source_state = Unavailable, rd_target_state = pdf_media_prior_lifecycle p,
          rd_operation = ''verified_media_restore'', rd_required_evidence = media_requirements,
          rd_evidence_bound = (pdf_media_expected_sha256 p \<noteq> [] \<and> pdf_media_expected_size p \<noteq> None \<and>
            (case pdf_media_prior_lifecycle p of None \<Rightarrow> False
             | Some l \<Rightarrow> l \<in> set all_lifecycle_states \<and> l \<noteq> Unavailable))\<rparr>
      else Inl (Rejected ''recovery_not_applicable''))"

definition recovered :: "pdf_lifecycle \<Rightarrow> pdf_file \<Rightarrow> bool \<Rightarrow> transition_result" where
  "recovered source p changed = \<lparr>tr_pdf = p, tr_source_state = source, tr_target_state = pdf_lifecycle p,
     tr_changed = changed, tr_reason_code = None, tr_reversible = False, tr_impact = None\<rparr>"

definition recover_document ::
  "scope_env \<Rightarrow> media_env \<Rightarrow> (string \<Rightarrow> media_open) \<Rightarrow> nat \<Rightarrow> actor option \<Rightarrow> doc_state \<Rightarrow>
   doc_state \<times> (doc_error + transition_result)" where
  "recover_document se me fs' pk a s =
     (case bind_res (require_actor_role a) (\<lambda>_.
        bind_res (of_option Row_missing (get_pdf pk (ds_core s))) (\<lambda>cur.
        build_recovery_decision cur)) of
       Inl e \<Rightarrow> (s, Inl e)
     | Inr d \<Rightarrow>
         if rd_operation d = ''verified_media_restore'' then
           (case tracked_media_transition se ''media_restored''
               (restore_unavailable_pdf me fs' pk (map_option ac_username a)) s of
             (s', Inl e) \<Rightarrow> (s', Inl e)
           | (s', Inr (p, changed)) \<Rightarrow> (s', Inr (recovered Unavailable p changed)))
         else lift_core s
           (bind_res (of_option Row_missing (get_pdf pk (ds_core s))) (\<lambda>cur.
            bind_res (build_recovery_decision cur) (\<lambda>_.
            bind_res (restore_pdf pk (ds_core s)) (\<lambda>(db, p, changed).
            Inr (db, recovered (pdf_lifecycle cur) p changed))))))"

end
