(* ===== verification/Docs_Safety.thy ===== *)
theory Docs_Safety
  imports Docs_Policy
begin

section \<open>What the document services guarantee\<close>

text \<open>
  A removal hides the document and keeps its file; a quarantined document comes back only with the
  approved media, into the state it left; a tracked transition of media outside every scope is fenced by
  the barrier and takes one epoch if it changed something, a nested one leaves both to the outer scope.
  The archive operation alone does not keep to this.
\<close>

subsection \<open>Rows\<close>

lemma get_put_pdf [simp]:
  "get_pdf (pdf_pk p) db = Some r \<Longrightarrow> get_pdf (pdf_pk p) (put_pdf p db) = Some p"
  by (rule pdf_rows.get_put_same) auto

lemma save_visibility_row:
  assumes "get_pdf pk db = Some cur" "pdf_pk p = pk" "p = cur\<lparr>pdf_lifecycle := l, pdf_indexed := i\<rparr>"
  shows "save_visibility p db = put_pdf p db"
  using assms by (simp add: save_visibility_def)

lemma pdf_key: "get_pdf pk db = Some cur \<Longrightarrow> pdf_pk cur = pk"
  by (rule pdf_rows.get_key)

text \<open>The row a removal writes: the target state, no index mark, all else kept.\<close>

lemma hide_document_row:
  assumes "hide_document pk pol db = Inr (db', r)" "lp_target_state pol \<in> {Deprecated, Archived}"
  obtains cur impact where "get_pdf pk db = Some cur" "pdf_lifecycle cur \<in> set (lp_allowed_source_states pol)"
    "build_impact_preview db cur (lp_reason_code pol) = Inr impact"
    "r = \<lparr>tr_pdf = (if tr_changed r then cur\<lparr>pdf_lifecycle := lp_target_state pol, pdf_indexed := False\<rparr> else cur),
       tr_source_state = pdf_lifecycle cur, tr_target_state = lp_target_state pol,
       tr_changed = (pdf_lifecycle cur \<noteq> lp_target_state pol), tr_reason_code = Some (lp_reason_code pol),
       tr_reversible = lp_reversible pol, tr_impact = Some impact\<rparr>"
    "db' = (if tr_changed r then put_pdf (cur\<lparr>pdf_lifecycle := lp_target_state pol, pdf_indexed := False\<rparr>) db else db)"
proof -
  obtain cur impact where c: "get_pdf pk db = Some cur" "pdf_lifecycle cur \<in> set (lp_allowed_source_states pol)"
    "build_impact_preview db cur (lp_reason_code pol) = Inr impact"
    using assms(1) by (auto simp: hide_document_def require_allowed_source_def)
  note sv = save_visibility_row [OF c(1) _ refl]
  have key: "pdf_pk cur = pk" by (rule pdf_key [OF c(1)])
  show thesis
    by (rule that [OF c])
      (use assms c sv key in \<open>auto simp: hide_document_def require_allowed_source_def require_def Let_def
        deprecate_pdf_def archive_pdf_def integrity_def split: if_splits\<close>)
qed

lemma put_pdf_get:
  assumes "get_pdf (pdf_pk p) db = Some r0"
  shows "get_pdf k (put_pdf p db) = (if k = pdf_pk p then Some p else get_pdf k db)"
  by (rule pdf_rows.get_put [OF assms])

lemma policy_targets:
  assumes "get_lifecycle_policy rc = Inr pol"
  shows "lp_target_state pol \<in> {Deprecated, Archived, Unavailable}" "lp_reversible pol"
    "get_lifecycle_policy (lp_reason_code pol) = Inr pol"
proof -
  have "(py_strip rc, pol) \<in> set lifecycle_policies"
    using assms by (auto simp: get_lifecycle_policy_def dest: map_of_SomeD)
  moreover have "get_lifecycle_policy ''superseded'' = of_option (Rejected ''unknown_reason_code'') (map_of lifecycle_policies ''superseded'')
      \<and> get_lifecycle_policy ''historical_record'' = of_option (Rejected ''unknown_reason_code'') (map_of lifecycle_policies ''historical_record'')
      \<and> get_lifecycle_policy ''source_temporarily_unavailable'' =
          of_option (Rejected ''unknown_reason_code'') (map_of lifecycle_policies ''source_temporarily_unavailable'')"
  proof -
    have "py_strip ''superseded'' = ''superseded''" by code_simp
    moreover have "py_strip ''historical_record'' = ''historical_record''" by code_simp
    moreover have "py_strip ''source_temporarily_unavailable'' = ''source_temporarily_unavailable''" by code_simp
    ultimately show ?thesis by (simp add: get_lifecycle_policy_def)
  qed
  ultimately show "lp_target_state pol \<in> {Deprecated, Archived, Unavailable}" "lp_reversible pol"
    "get_lifecycle_policy (lp_reason_code pol) = Inr pol"
    by (auto simp: lifecycle_policies_def)
qed

subsection \<open>Tracked transitions\<close>

lemma put_state_get_same: "get_state d db = Some m0 \<Longrightarrow> ms_deployment_id m = d \<Longrightarrow> get_state d (put_state m db) = Some m"
  by (rule state_rows.get_put_same)

lemma get_state_journal [simp]: "get_state d (db\<lparr>journal := j\<rparr>) = get_state d db"
  by (simp add: get_state_def)

text \<open>Closing a scope of depth one after the outermost enter.\<close>

lemma close_scope_outer:
  assumes "se_tracking e" "sx_depth c = 1" "get_state (sx_deployment c) control = Some m"
    "sx_outcome c = Some out"
  shows "close_scope e c core control res =
    (\<lparr>ds_core = core,
      ds_control = (let m' = closed_state (se_clock e) (records_change out) m; db1 = put_state m' control in
        if records_change out then db1\<lparr>journal := journal db1 @ [journal_of (se_clock e) (ms_current_epoch m') c]\<rparr> else db1),
      ds_scope = idle_context\<rparr>, res)"
  using assms by (simp add: close_scope_def leave_scope_def Let_def)

text \<open>How a transition ran on the core database.\<close>

definition ran :: "(core_db \<Rightarrow> doc_error + core_db \<times> 'r) \<Rightarrow> doc_state \<Rightarrow> doc_state \<Rightarrow> doc_error + 'r \<Rightarrow> bool" where
  "ran f s s' res \<longleftrightarrow> (case f (ds_core s) of Inl x \<Rightarrow> res = Inl x \<and> ds_core s' = ds_core s
     | Inr (core, r) \<Rightarrow> res = Inr r \<and> ds_core s' = core)"

text \<open>What an outermost transition leaves: it ran, and the state row has one epoch more if something changed.\<close>

definition fenced_run ::
  "scope_env \<Rightarrow> (core_db \<Rightarrow> doc_error + core_db \<times> pdf_file \<times> bool) \<Rightarrow> mutation_state \<Rightarrow> bool \<Rightarrow> doc_state \<Rightarrow> doc_state \<Rightarrow>
   doc_error + pdf_file \<times> bool \<Rightarrow> bool" where
  "fenced_run e f m changed s s' res \<longleftrightarrow> ran f s s' res \<and> ds_scope s' = idle_context \<and>
     (\<exists>m'. get_state (se_deployment e) (ds_control s') = Some m' \<and>
        ms_active_mutations m' = ms_active_mutations m \<and> ms_barrier_state m' = Barrier_open \<and>
        ms_current_epoch m' = ms_current_epoch m + (if changed then 1 else 0) \<and>
        map je_epoch (journal (ds_control s')) = map je_epoch (journal (ds_control s)) @
          (if changed then [ms_current_epoch m'] else []))"

lemma outermost_transition:
  assumes "se_tracking e" "\<not> se_in_atomic e" "sx_depth (ds_scope s) = 0"
    "get_state (se_deployment e) (ds_control s) = Some m"
    "tracked_media_transition e action f s = (s', res)"
    "changed = (\<exists>core p. f (ds_core s) = Inr (core, p, True))"
  shows "if ms_barrier_state m \<noteq> Barrier_open
    then s' = s \<and> res = Inl (Scope_refused (Snapshot_barrier_active ''snapshot_barrier_active''))
    else fenced_run e f m changed s s' res"
proof (cases "ms_barrier_state m = Barrier_open")
  case False
  then show ?thesis
    using assms(1-5)
    by (auto simp: tracked_media_transition_def enter_scope_def get_mutation_state_def scope_args_def idle_context_def)
next
  case True
  let ?m1 = "m\<lparr>ms_active_mutations := ms_active_mutations m + 1\<rparr>"
  let ?c = "(scope_args e action)\<lparr>sx_depth := 1, sx_outcome := Some (fresh_outcome False)\<rparr>"
  let ?ctl = "put_state ?m1 (ds_control s)"
  have dep: "ms_deployment_id m = se_deployment e" by (rule state_rows.get_key [OF assms(4)])
  have enter: "enter_scope True True (scope_args e action) (ds_scope s) (ds_control s) = Inr (?ctl, ?c)"
    using assms(3,4) True by (simp add: enter_scope_def get_mutation_state_def scope_args_def idle_context_def)
  have got: "get_state (se_deployment e) ?ctl = Some ?m1"
    using assms(4) dep by (intro put_state_get_same) auto
  have dep1: "ms_deployment_id ?m1 = se_deployment e" using dep by simp
  have closed: "get_state (se_deployment e) (put_state (closed_state k ch ?m1) ?ctl) = Some (closed_state k ch ?m1)" for k ch
    using got dep by (intro put_state_get_same) (auto simp: closed_state_def)
  have scope: "sx_depth (mark_if b ?c) = 1" "sx_deployment (mark_if b ?c) = se_deployment e"
    "sx_outcome (mark_if b ?c) = Some (if b then mark_changed (fresh_outcome False) else fresh_outcome False)" for b
    by (simp_all add: mark_if_def mark_current_scope_changed_def scope_args_def)
  have rec: "records_change (if b then mark_changed (fresh_outcome False) else fresh_outcome False) = b" for b
    by (simp add: records_change_def mark_changed_def fresh_outcome_def)
  have close: "close_scope e (mark_if b ?c) core ?ctl r =
    (\<lparr>ds_core = core, ds_control = (let m' = closed_state (se_clock e) b ?m1; db1 = put_state m' ?ctl in
        if b then db1\<lparr>journal := journal db1 @ [journal_of (se_clock e) (ms_current_epoch m') (mark_if b ?c)]\<rparr> else db1),
      ds_scope = idle_context\<rparr>, r)" for b core and r :: "doc_error + pdf_file \<times> bool"
    using close_scope_outer [OF assms(1) scope(1) _ scope(3), of b ?ctl ?m1 core r] got scope(2) [of b] by (simp add: rec)
  have fields: "ms_active_mutations (closed_state k b ?m1) = ms_active_mutations m"
    "ms_barrier_state (closed_state k b ?m1) = ms_barrier_state m"
    "ms_current_epoch (closed_state k b ?m1) = ms_current_epoch m + (if b then 1 else 0)" for k b
    by (simp_all add: closed_state_def)
  have c0: "?c = mark_if False ?c" by (simp add: mark_if_def)
  show ?thesis
  proof (cases "f (ds_core s)")
    case (Inl x)
    have run: "tracked_media_transition e action f s = close_scope e (mark_if False ?c) (ds_core s) ?ctl (Inl x)"
      using assms(1,2) enter Inl c0 by (simp add: tracked_media_transition_def)
    show ?thesis
      using assms(5,6) Inl True closed fields unfolding run close by (auto simp: fenced_run_def ran_def Let_def)
  next
    case (Inr r)
    obtain core p ch where r: "r = (core, p, ch)" by (cases r) auto
    have run: "tracked_media_transition e action f s = close_scope e (mark_if ch ?c) core ?ctl (Inr (p, ch))"
      using assms(1,2) enter Inr r by (simp add: tracked_media_transition_def)
    have ch: "changed = ch" using assms(6) Inr r by auto
    show ?thesis
      using assms(5) Inr r True closed fields ch unfolding run close
      by (auto simp: fenced_run_def ran_def Let_def journal_of_def)
  qed
qed

text \<open>A deployment without a state row gets a blank one, whose barrier is open, and the transition runs as over it.\<close>

lemma find_row_append: "find_row key k rows = None \<Longrightarrow> key r = k \<Longrightarrow> find_row key k (rows @ [r]) = Some r"
  by (induction rows) (auto simp: find_row_def split: if_splits)

lemma get_state_created:
  assumes "get_state d control = None"
  shows "get_state d (control\<lparr>mutation_states := mutation_states control @ [blank_state d]\<rparr>) = Some (blank_state d)"
  using assms unfolding get_state_def by (simp add: find_row_append blank_state_def)

lemma transition_creates_row:
  assumes "se_tracking e" "sx_depth (ds_scope s) = 0" "get_state (se_deployment e) (ds_control s) = None"
  shows "tracked_media_transition e action f s = (if se_in_atomic e then (s, Inl (Integrity ''media_transition_outer_atomic_unsupported''))
    else tracked_media_transition e action f
      (s\<lparr>ds_control := (ds_control s)\<lparr>mutation_states := mutation_states (ds_control s) @ [blank_state (se_deployment e)]\<rparr>\<rparr>))"
proof -
  let ?ctl = "(ds_control s)\<lparr>mutation_states := mutation_states (ds_control s) @ [blank_state (se_deployment e)]\<rparr>"
  have args: "sx_deployment (scope_args e action) = se_deployment e" by (simp add: scope_args_def)
  have "get_mutation_state (se_deployment e) ?ctl = get_mutation_state (se_deployment e) (ds_control s)"
    using assms(3) get_state_created [OF assms(3)] by (simp add: get_mutation_state_def)
  then have "enter_scope (se_tracking e) True (scope_args e action) (ds_scope s) ?ctl
      = enter_scope (se_tracking e) True (scope_args e action) (ds_scope s) (ds_control s)"
    using assms(1,2) by (simp add: enter_scope_def args)
  moreover have "ms_barrier_state (blank_state (se_deployment e)) = Barrier_open" by (simp add: blank_state_def)
  then have "enter_scope (se_tracking e) True (scope_args e action) (ds_scope s) (ds_control s) \<noteq> Inl x" for x
    using assms by (simp add: enter_scope_def args get_mutation_state_def)
  ultimately show ?thesis by (auto simp: tracked_media_transition_def split: sum.split)
qed

text \<open>C27: A transition of unavailable media inside an open transaction is refused. With the tracking of mutations on, one
  outside every mutation scope is fenced and takes one epoch: while a snapshot holds or asks
  for the barrier it is refused and nothing changes; otherwise it runs, the scope is closed again and
  the count of open scopes is what it was; when it reports a change the source epoch rises by one and
  the journal gains that epoch's entry, and when it reports none, or raises, neither moves. A deployment without a state row counts
  as one with a blank row. Inside an open scope, as that of a web request, it neither looks at the barrier nor takes an epoch:
  it runs, and a change marks the outer scope, which decides when it is left. With the tracking off it just runs.\<close>

theorem media_transition_fenced:
  assumes "tracked_media_transition e action f s = (s', res)"
    "changed = (\<exists>core p. f (ds_core s) = Inr (core, p, True))"
    "m = (case get_state (se_deployment e) (ds_control s) of None \<Rightarrow> blank_state (se_deployment e) | Some row \<Rightarrow> row)"
  shows "if se_in_atomic e then s' = s \<and> res = Inl (Integrity ''media_transition_outer_atomic_unsupported'')
    else if \<not> se_tracking e then ran f s s' res \<and> ds_control s' = ds_control s \<and> ds_scope s' = ds_scope s
    else if 0 < sx_depth (ds_scope s)
    then ran f s s' res \<and> ds_control s' = ds_control s \<and> ds_scope s' = mark_if changed (ds_scope s)
    else if ms_barrier_state m \<noteq> Barrier_open
    then s' = s \<and> res = Inl (Scope_refused (Snapshot_barrier_active ''snapshot_barrier_active''))
    else fenced_run e f m changed s s' res"
proof -
  consider (plain) "se_in_atomic e \<or> \<not> se_tracking e" | (nested) "\<not> se_in_atomic e" "se_tracking e" "0 < sx_depth (ds_scope s)"
    | (outer) "\<not> se_in_atomic e" "se_tracking e" "sx_depth (ds_scope s) = 0" by auto
  then show ?thesis
  proof cases
    case plain
    then show ?thesis
      using assms(1)
      by (auto simp: tracked_media_transition_def enter_scope_def close_scope_def leave_scope_def mark_if_def ran_def
          split: sum.splits)
  next
    case nested
    let ?c = "(ds_scope s)\<lparr>sx_depth := sx_depth (ds_scope s) + 1\<rparr>"
    have marked: "mark_if b ?c = (mark_if b (ds_scope s))\<lparr>sx_depth := sx_depth (ds_scope s) + 1\<rparr>"
      "sx_depth (mark_if b (ds_scope s)) = sx_depth (ds_scope s)" for b
      by (simp_all add: mark_if_def mark_current_scope_changed_def split: option.split)
    have enter: "enter_scope True True (scope_args e action) (ds_scope s) (ds_control s) = Inr (ds_control s, ?c)"
      using nested by (simp add: enter_scope_def)
    have close: "close_scope e (mark_if b ?c) core (ds_control s) r
        = (\<lparr>ds_core = core, ds_control = ds_control s, ds_scope = mark_if b (ds_scope s)\<rparr>, r)"
      for b core and r :: "doc_error + pdf_file \<times> bool"
      unfolding marked(1) using nested marked(2) [of b] by (simp add: close_scope_def leave_scope_def)
    have c0: "?c = mark_if False ?c" by (simp add: mark_if_def)
    show ?thesis
    proof (cases "f (ds_core s)")
      case (Inl x)
      then have "tracked_media_transition e action f s = close_scope e (mark_if False ?c) (ds_core s) (ds_control s) (Inl x)"
        using nested enter c0 by (simp add: tracked_media_transition_def)
      then show ?thesis using assms(1,2) nested Inl unfolding close by (auto simp: ran_def)
    next
      case (Inr r)
      obtain core p ch where r: "r = (core, p, ch)" by (cases r) auto
      then have "tracked_media_transition e action f s = close_scope e (mark_if ch ?c) core (ds_control s) (Inr (p, ch))"
        using nested enter Inr by (simp add: tracked_media_transition_def)
      then show ?thesis using assms(1,2) nested Inr r unfolding close by (auto simp: ran_def)
    qed
  next
    case outer
    show ?thesis
    proof (cases "get_state (se_deployment e) (ds_control s)")
      case (Some row)
      then show ?thesis using outermost_transition [OF outer(2,1,3) Some assms(1,2)] outer assms(3) by simp
    next
      case None
      let ?s = "s\<lparr>ds_control := (ds_control s)\<lparr>mutation_states := mutation_states (ds_control s) @ [blank_state (se_deployment e)]\<rparr>\<rparr>"
      have run: "tracked_media_transition e action f ?s = (s', res)"
        using assms(1) transition_creates_row [OF outer(2,3) None, of action f] outer(1) by simp
      have row: "get_state (se_deployment e) (ds_control ?s) = Some (blank_state (se_deployment e))"
        using get_state_created [OF None] by simp
      have depth: "sx_depth (ds_scope ?s) = 0" using outer(3) by simp
      have ch: "changed = (\<exists>core p. f (ds_core ?s) = Inr (core, p, True))" using assms(2) by simp
      have blank: "ms_barrier_state (blank_state (se_deployment e)) = Barrier_open" by (simp add: blank_state_def)
      have "fenced_run e f (blank_state (se_deployment e)) changed ?s s' res"
        using outermost_transition [OF outer(2,1) depth row run ch] blank by simp
      then show ?thesis using outer assms(3) None blank by (cases "f (ds_core s)") (simp_all add: fenced_run_def ran_def)
    qed
  qed
qed

definition sample_scope_env :: scope_env where
  "sample_scope_env = \<lparr>se_tracking = True, se_deployment = ''d'', se_clock = 100, se_correlation = ''c'', se_in_atomic = False\<rparr>"

definition sample_pdf :: pdf_file where
  "sample_pdf = \<lparr>pdf_pk = 1, pdf_name = ''a.pdf'', pdf_folder = None, pdf_page_chunks = JNull,
     pdf_chunk_embeddings = JNull, pdf_indexed = True, pdf_processing_status = ''ready'',
     pdf_processing_attempts = 0, pdf_processing_error_code = [], pdf_processing_error_message = [],
     pdf_processing_started_at = None, pdf_processing_finished_at = None, pdf_embedding_provider = [],
     pdf_embedding_model = [], pdf_embedding_dimension = None, pdf_lifecycle = Ready,
     pdf_media_prior_lifecycle = None, pdf_media_expected_sha256 = [], pdf_media_expected_size = None,
     pdf_media_quarantine_reason = [], pdf_media_case_reference = [], pdf_media_observed_at = None\<rparr>"

definition sample_core :: "pdf_file \<Rightarrow> core_db" where
  "sample_core p = \<lparr>pdfs = [p], folders = [], core_generations = [], mjobs = [], mitems = [], mevents = []\<rparr>"

definition sample_docs :: "pdf_file \<Rightarrow> doc_state" where
  "sample_docs p = \<lparr>ds_core = sample_core p,
     ds_control = empty_db\<lparr>mutation_states := [blank_state ''d'']\<rparr>, ds_scope = idle_context\<rparr>"

lemma sample_docs_simps [simp]:
  "ds_core (sample_docs p) = sample_core p" "sx_depth (ds_scope (sample_docs p)) = 0"
  "get_state ''d'' (ds_control (sample_docs p)) = Some (blank_state ''d'')"
  "get_pdf (pdf_pk p) (sample_core p) = Some p"
  by (simp_all add: sample_docs_def sample_core_def idle_context_def get_state_def get_pdf_def find_row_def blank_state_def)

theorem media_transition_fenced_witness:
  "\<exists>m'. get_state ''d'' (ds_control (fst (tracked_media_transition sample_scope_env ''media_restored''
       (\<lambda>db. Inr (db, sample_pdf, True)) (sample_docs sample_pdf)))) = Some m' \<and> ms_current_epoch m' = 1"
  using media_transition_fenced [of sample_scope_env "''media_restored''" "\<lambda>db. Inr (db, sample_pdf, True)" "sample_docs sample_pdf",
      OF surjective_pairing refl refl]
  by (auto simp: sample_scope_env_def blank_state_def fenced_run_def)


subsection \<open>Removal and recovery\<close>

lemma close_scope_Inr:
  assumes "close_scope e c core control res = (s', Inr r)"
  shows "res = Inr r \<and> ds_core s' = core"
  using assms by (auto simp: close_scope_def split: sum.splits prod.splits)

lemma tracked_Inr:
  assumes "tracked_media_transition e action f s = (s', Inr r)"
  shows "f (ds_core s) = Inr (ds_core s', r)"
  using assms
  by (auto simp: tracked_media_transition_def split: if_splits sum.splits prod.splits dest: close_scope_Inr)

lemma lift_core_Inr: "lift_core s m = (s', Inr r) \<longleftrightarrow> (\<exists>core. m = Inr (core, r) \<and> s' = s\<lparr>ds_core := core\<rparr>)"
  by (auto simp: lift_core_def split: sum.splits prod.splits)

lemma searchable_iff: "searchable p \<longleftrightarrow> pdf_lifecycle p \<in> {Uploaded, Processing, Ready}"
  by (simp add: searchable_def searchable_pdf_lifecycles_def)

lemma integrity_Inr [simp]: "integrity b msg = Inr u \<longleftrightarrow> b"
  by (auto simp: integrity_def require_def)

text \<open>The row a quarantine writes, and when it writes one.\<close>

lemma mark_unavailable_row:
  assumes "mark_pdf_unavailable env pk actor sha sz reason case_ref db = Inr (db', p, changed)"
    "get_pdf pk db = Some cur"
  shows "(pdf_lifecycle cur = Unavailable \<and> db' = db \<and> p = cur \<and> \<not> changed) \<or>
    (pdf_lifecycle cur \<noteq> Unavailable \<and> changed \<and>
     verified_local_media_evidence (mv_maximum env) (mv_fs env) cur None = Inl Media_absent \<and>
     (\<exists>ev j. p = quarantined_row (mv_clock env) ev cur \<and>
        db' = audit None ''media_unavailable'' actor j (put_pdf p db)))"
proof -
  obtain ev where ev: "quarantine_evidence (mv_repr env) sha sz reason case_ref = Inr ev"
    using assms(1) by (auto simp: mark_pdf_unavailable_def)
  show ?thesis
  proof (cases "pdf_lifecycle cur = Unavailable")
    case True
    then show ?thesis using assms ev by (simp add: mark_pdf_unavailable_def)
  next
    case False
    then have "verified_local_media_evidence (mv_maximum env) (mv_fs env) cur None = Inl Media_absent"
      using assms ev by (auto simp: mark_pdf_unavailable_def split: sum.splits if_splits)
    then show ?thesis using assms ev False
      by (auto simp: mark_pdf_unavailable_def Let_def split: prod.splits)
  qed
qed

lemma quarantined_row_fields [simp]:
  "pdf_pk (quarantined_row clk ev cur) = pdf_pk cur" "pdf_name (quarantined_row clk ev cur) = pdf_name cur"
  "pdf_folder (quarantined_row clk ev cur) = pdf_folder cur"
  "pdf_lifecycle (quarantined_row clk ev cur) = Unavailable" "\<not> pdf_indexed (quarantined_row clk ev cur)"
  "pdf_media_prior_lifecycle (quarantined_row clk ev cur) = Some (pdf_lifecycle cur)"
  by (cases ev; simp add: quarantined_row_def)+

lemma quarantine_document_row:
  assumes "quarantine_document se me pk pol a ev s = (s', Inr r)" "get_pdf pk (ds_core s) = Some cur"
  shows "pdf_lifecycle cur \<in> set (lp_allowed_source_states pol) \<and> tr_target_state r = lp_target_state pol \<and>
    mark_pdf_unavailable me pk (map_option ac_username a) (ue_expected_sha256 ev) (ue_expected_size ev)
      (ue_quarantine_reason ev) (ue_case_reference ev) (ds_core s) = Inr (ds_core s', tr_pdf r, tr_changed r)"
  using assms
  by (auto simp: quarantine_document_def require_allowed_source_def require_def split: sum.splits prod.splits if_splits
      dest!: tracked_Inr)


text \<open>C11: What removing a document does. Only an administrator removes, for a reason of the policy table
  and from a state the policy allows. Afterwards the document's row is in the policy's target state,
  invisible to search, with its file reference and folder as they were; if the removal changed
  anything its index mark is gone, else the row is exactly what it was. Every other document is
  untouched, and no row is deleted.\<close>

theorem removal_effect:
  assumes "remove_from_search se me pk rc a evidence s = (s', Inr r)" "get_pdf pk (ds_core s) = Some cur"
  shows "actor_can_manage_lifecycle a \<and>
    (\<exists>pol. get_lifecycle_policy rc = Inr pol \<and> pdf_lifecycle cur \<in> set (lp_allowed_source_states pol) \<and>
      (\<exists>p. get_pdf pk (ds_core s') = Some p \<and> pdf_lifecycle p = lp_target_state pol \<and> \<not> searchable p \<and>
         pdf_name p = pdf_name cur \<and> pdf_folder p = pdf_folder cur \<and>
         (if tr_changed r then pdf_lifecycle cur \<noteq> lp_target_state pol \<and> \<not> pdf_indexed p else p = cur)) \<and>
      (\<forall>k. k \<noteq> pk \<longrightarrow> get_pdf k (ds_core s') = get_pdf k (ds_core s)))"
proof -
  have key: "pdf_pk cur = pk" by (rule pdf_key [OF assms(2)])
  obtain pol where pol: "get_lifecycle_policy rc = Inr pol" and can: "actor_can_manage_lifecycle a"
    using assms(1) by (auto simp: remove_from_search_def require_actor_role_def split: sum.splits)
  have hidden: "l \<in> {Deprecated, Archived, Unavailable} \<Longrightarrow> l \<notin> set searchable_pdf_lifecycles" for l
    by (auto simp: searchable_pdf_lifecycles_def)
  have tgt: "lp_target_state pol \<notin> set searchable_pdf_lifecycles" using policy_targets(1) [OF pol] by (rule hidden)
  have goal: "pdf_lifecycle cur \<in> set (lp_allowed_source_states pol) \<and>
      (\<exists>p. get_pdf pk (ds_core s') = Some p \<and> pdf_lifecycle p = lp_target_state pol \<and>
         pdf_name p = pdf_name cur \<and> pdf_folder p = pdf_folder cur \<and>
         (if tr_changed r then pdf_lifecycle cur \<noteq> lp_target_state pol \<and> \<not> pdf_indexed p else p = cur)) \<and>
      (\<forall>k. k \<noteq> pk \<longrightarrow> get_pdf k (ds_core s') = get_pdf k (ds_core s))"
  proof (cases "lp_target_state pol = Unavailable")
    case True
    then obtain ev where q: "quarantine_document se me pk pol a ev s = (s', Inr r)"
      using assms(1) pol can by (auto simp: remove_from_search_def require_actor_role_def split: sum.splits)
    note row = quarantine_document_row [OF q assms(2)]
    note cases = mark_unavailable_row [OF row [THEN conjunct2, THEN conjunct2] assms(2)]
    show ?thesis
      using cases row True key assms(2) by (auto simp: put_pdf_get)
  next
    case False
    then have t: "lp_target_state pol \<in> {Deprecated, Archived}" using policy_targets(1) [OF pol] by auto
    obtain core where h: "hide_document pk pol (ds_core s) = Inr (core, r)" and s': "s' = s\<lparr>ds_core := core\<rparr>"
      using assms(1) pol can False
      by (auto simp: remove_from_search_def require_actor_role_def lift_core_Inr)
    show ?thesis
    proof (rule hide_document_row [OF h t])
      fix cur' impact
      assume c: "get_pdf pk (ds_core s) = Some cur'" "pdf_lifecycle cur' \<in> set (lp_allowed_source_states pol)"
        "core = (if tr_changed r then put_pdf (cur'\<lparr>pdf_lifecycle := lp_target_state pol, pdf_indexed := False\<rparr>) (ds_core s) else ds_core s)"
        "r = \<lparr>tr_pdf = (if tr_changed r then cur'\<lparr>pdf_lifecycle := lp_target_state pol, pdf_indexed := False\<rparr> else cur'),
           tr_source_state = pdf_lifecycle cur', tr_target_state = lp_target_state pol,
           tr_changed = (pdf_lifecycle cur' \<noteq> lp_target_state pol), tr_reason_code = Some (lp_reason_code pol),
           tr_reversible = lp_reversible pol, tr_impact = Some impact\<rparr>"
      have eq: "cur' = cur" using c(1) assms(2) by simp
      have ch: "tr_changed r = (pdf_lifecycle cur \<noteq> lp_target_state pol)" 
        using arg_cong [OF c(4), of tr_changed] by (simp only: transition_result.select_convs eq)
      show ?thesis
      proof (cases "tr_changed r")
        case True
        let ?p = "cur\<lparr>pdf_lifecycle := lp_target_state pol, pdf_indexed := False\<rparr>"
        have core: "ds_core s' = put_pdf ?p (ds_core s)" using c(3) True eq s' by simp
        have got: "get_pdf (pdf_pk ?p) (ds_core s) = Some cur" using key assms(2) by simp
        show ?thesis
          using c(2) eq True ch key by (simp add: core put_pdf_get [OF got])
      next
        case False
        then show ?thesis using c(2,3) eq ch s' assms(2) by simp
      qed
    qed
  qed
  show ?thesis
    using goal tgt can pol by (auto simp: searchable_def)
qed

text \<open>What a recovery does to the row, and what it asks of the media first.\<close>

definition media_approved :: "media_env \<Rightarrow> (string \<Rightarrow> media_open) \<Rightarrow> pdf_file \<Rightarrow> bool" where
  "media_approved me fs p = (\<exists>n. pdf_media_expected_size p = Some n \<and>
     verified_local_media_evidence (mv_maximum me) fs p (Some n) = Inr (pdf_media_expected_sha256 p, n))"

lemma verified_same_name:
  "pdf_name p = pdf_name q \<Longrightarrow> verified_local_media_evidence mx fs p sz = verified_local_media_evidence mx fs q sz"
  by (simp add: verified_local_media_evidence_def)

lemma restore_row:
  assumes "restore_unavailable_pdf me fs' pk actor db = Inr (db', p, changed)" "get_pdf pk db = Some cur"
  shows "pdf_lifecycle cur = Unavailable \<and> changed \<and> media_approved me (mv_fs me) cur \<and> media_approved me fs' cur \<and>
    (\<exists>l \<in> set restorable_prior. pdf_media_prior_lifecycle cur = Some l \<and>
       p = cur\<lparr>pdf_lifecycle := l, pdf_indexed := False\<rparr> \<and> (\<exists>j. db' = audit None ''media_restored'' actor j (put_pdf p db)))"
proof -
  obtain found l where d: "pdf_lifecycle cur = Unavailable"
    "verified_local_media_evidence (mv_maximum me) (mv_fs me) cur (pdf_media_expected_size cur) = Inr found"
    "fst found = pdf_media_expected_sha256 cur" "Some (snd found) = pdf_media_expected_size cur"
    "pdf_media_prior_lifecycle cur = Some l" "l \<in> set restorable_prior"
    "verified_local_media_evidence (mv_maximum me) fs' (cur\<lparr>pdf_lifecycle := l, pdf_indexed := False\<rparr>)
       (pdf_media_expected_size cur) = Inr found"
    and out: "\<exists>j. db' = audit None ''media_restored'' actor j (put_pdf p db)" "p = cur\<lparr>pdf_lifecycle := l, pdf_indexed := False\<rparr>" "changed"
    using assms by (auto simp: restore_unavailable_pdf_def Let_def split: option.splits if_splits) blast
  have "verified_local_media_evidence (mv_maximum me) fs' cur (pdf_media_expected_size cur) = Inr found"
    using d(7) verified_same_name [of "cur\<lparr>pdf_lifecycle := l, pdf_indexed := False\<rparr>" cur] by simp
  moreover have "found = (pdf_media_expected_sha256 cur, snd found)" using d(3) by (metis prod.collapse)
  ultimately have "media_approved me (mv_fs me) cur" "media_approved me fs' cur"
    unfolding media_approved_def using d(2,4) by (intro exI [of _ "snd found"]; simp)+
  then show ?thesis using d(1,5,6) out by blast
qed


lemma restore_pdf_row:
  assumes "restore_pdf pk db = Inr (db', p, changed)" "get_pdf pk db = Some cur"
  shows "pdf_lifecycle cur \<noteq> Unavailable \<and> p = cur\<lparr>pdf_lifecycle := Uploaded, pdf_indexed := False\<rparr> \<and> db' = put_pdf p db"
  using assms by (auto simp: restore_pdf_def Let_def)

lemma recovery_kind:
  assumes "build_recovery_decision p = Inr d"
  shows "if rd_operation d = ''verified_media_restore'' then pdf_lifecycle p = Unavailable
     else pdf_lifecycle p \<in> {Deprecated, Archived}"
  using assms by (auto simp: build_recovery_decision_def split: if_splits)

text \<open>C12: Recovery. Only an administrator recovers, and only a hidden document. A deprecated or archived
  document becomes uploaded. An unavailable one returns to the state it was quarantined from, and
  only when the stored media was opened and hashed to the approved size and digest both before the row
  changed and before the change was committed. The index mark is cleared, nothing else of the row
  changes, and no other document is touched.\<close>

theorem recovery_effect:
  assumes "recover_document se me fs' pk a s = (s', Inr r)" "get_pdf pk (ds_core s) = Some cur"
  shows "actor_can_manage_lifecycle a \<and>
    (\<exists>l. get_pdf pk (ds_core s') = Some (cur\<lparr>pdf_lifecycle := l, pdf_indexed := False\<rparr>) \<and>
       (pdf_lifecycle cur \<in> {Deprecated, Archived} \<and> l = Uploaded \<or>
        pdf_lifecycle cur = Unavailable \<and> pdf_media_prior_lifecycle cur = Some l \<and> l \<in> set restorable_prior \<and>
        media_approved me (mv_fs me) cur \<and> media_approved me fs' cur)) \<and>
    (\<forall>k. k \<noteq> pk \<longrightarrow> get_pdf k (ds_core s') = get_pdf k (ds_core s))"
proof -
  have key: "pdf_pk cur = pk" by (rule pdf_key [OF assms(2)])
  obtain d where d: "build_recovery_decision cur = Inr d" and can: "actor_can_manage_lifecycle a"
    using assms by (auto simp: recover_document_def require_actor_role_def split: sum.splits)
  have upd: "get_pdf k (put_pdf (cur\<lparr>pdf_lifecycle := l, pdf_indexed := False\<rparr>) (ds_core s)) =
      (if k = pk then Some (cur\<lparr>pdf_lifecycle := l, pdf_indexed := False\<rparr>) else get_pdf k (ds_core s))" for k l
    using put_pdf_get [of "cur\<lparr>pdf_lifecycle := l, pdf_indexed := False\<rparr>" "ds_core s" cur k] assms(2) key by simp
  show ?thesis
  proof (cases "rd_operation d = ''verified_media_restore''")
    case True
    then obtain p ch where "tracked_media_transition se ''media_restored''
        (restore_unavailable_pdf me fs' pk (map_option ac_username a)) s = (s', Inr (p, ch))"
      using assms d can by (auto simp: recover_document_def require_actor_role_def split: sum.splits prod.splits)
    note restore_row [OF tracked_Inr [OF this] assms(2)]
    then show ?thesis using can upd by auto
  next
    case False
    then obtain db p ch where "restore_pdf pk (ds_core s) = Inr (db, p, ch)" and s': "s' = s\<lparr>ds_core := db\<rparr>"
      using assms d can by (auto simp: recover_document_def require_actor_role_def lift_core_Inr)
    note row = restore_pdf_row [OF this(1) assms(2)]
    have "pdf_lifecycle cur \<in> {Deprecated, Archived}" using recovery_kind [OF d] False by simp
    then show ?thesis using row can upd s' by auto
  qed
qed

text \<open>With the media present and unchanged, and the barrier open, the recovery of an unavailable document
  succeeds.\<close>

lemma approved_restores:
  assumes "get_pdf pk db = Some row" "pdf_lifecycle row = Unavailable" "pdf_media_prior_lifecycle row = Some l"
    "l \<in> set restorable_prior" "pdf_media_expected_sha256 row \<noteq> []"
    "media_approved me (mv_fs me) row" "media_approved me fs' row"
  shows "\<exists>db'. restore_unavailable_pdf me fs' pk actor db =
     Inr (db', row\<lparr>pdf_lifecycle := l, pdf_indexed := False\<rparr>, True)"
proof -
  obtain n where n: "pdf_media_expected_size row = Some n"
    "verified_local_media_evidence (mv_maximum me) (mv_fs me) row (Some n) = Inr (pdf_media_expected_sha256 row, n)"
    "verified_local_media_evidence (mv_maximum me) fs' row (Some n) = Inr (pdf_media_expected_sha256 row, n)"
    using assms(6,7) by (auto simp: media_approved_def)
  have v: "verified_local_media_evidence (mv_maximum me) fs' (row\<lparr>pdf_lifecycle := l, pdf_indexed := False\<rparr>) (Some n) =
      Inr (pdf_media_expected_sha256 row, n)"
    using verified_same_name [of "row\<lparr>pdf_lifecycle := l, pdf_indexed := False\<rparr>" row] n(3) by simp
  show ?thesis using assms(1-5) n(1,2) v by (simp add: restore_unavailable_pdf_def integrity_def Let_def)
qed

lemma tracked_runs:
  assumes "se_tracking e" "\<not> se_in_atomic e" "sx_depth (ds_scope s) = 0"
    "get_state (se_deployment e) (ds_control s) = Some m" "ms_barrier_state m = Barrier_open"
    "f (ds_core s) = Inr (core, r)"
  shows "\<exists>s'. tracked_media_transition e action f s = (s', Inr r) \<and> ds_core s' = core"
proof -
  let ?m1 = "m\<lparr>ms_active_mutations := ms_active_mutations m + 1\<rparr>"
  have dep: "ms_deployment_id m = se_deployment e" by (rule state_rows.get_key [OF assms(4)])
  have enter: "enter_scope True True (scope_args e action) (ds_scope s) (ds_control s) =
      Inr (put_state ?m1 (ds_control s), (scope_args e action)\<lparr>sx_depth := 1, sx_outcome := Some (fresh_outcome False)\<rparr>)"
    using assms(3-5) by (simp add: enter_scope_def get_mutation_state_def scope_args_def idle_context_def)
  have got: "get_state (se_deployment e) (put_state ?m1 (ds_control s)) = Some ?m1"
    using assms(4) dep by (intro put_state_get_same) auto
  obtain p ch where r: "r = (p, ch)" by (cases r)
  show ?thesis
    using assms(1,2,6) enter got unfolding r
    by (simp add: tracked_media_transition_def close_scope_def leave_scope_def mark_if_def
        mark_current_scope_changed_def scope_args_def Let_def)
qed


lemma approved_recovers:
  assumes "get_pdf pk (ds_core s) = Some row" "pdf_lifecycle row = Unavailable" "pdf_media_prior_lifecycle row = Some l"
    "l \<in> set restorable_prior" "pdf_media_expected_sha256 row \<noteq> []"
    "media_approved me (mv_fs me) row" "media_approved me fs' row" "actor_can_manage_lifecycle a"
    "se_tracking se" "\<not> se_in_atomic se" "sx_depth (ds_scope s) = 0"
    "get_state (se_deployment se) (ds_control s) = Some m" "ms_barrier_state m = Barrier_open"
  shows "\<exists>s' r. recover_document se me fs' pk a s = (s', Inr r) \<and>
    get_pdf pk (ds_core s') = Some (row\<lparr>pdf_lifecycle := l, pdf_indexed := False\<rparr>)"
proof -
  let ?p = "row\<lparr>pdf_lifecycle := l, pdf_indexed := False\<rparr>"
  let ?f = "restore_unavailable_pdf me fs' pk (map_option ac_username a)"
  obtain db' where res: "?f (ds_core s) = Inr (db', ?p, True)"
    using approved_restores [OF assms(1-7)] by blast
  obtain s' where run: "tracked_media_transition se ''media_restored'' ?f s = (s', Inr (?p, True))" "ds_core s' = db'"
    using tracked_runs [OF assms(9-13), of ?f] res by blast
  obtain d where d: "build_recovery_decision row = Inr d" "rd_operation d = ''verified_media_restore''"
    using assms(2) by (simp add: build_recovery_decision_def)
  have "recover_document se me fs' pk a s = (s', Inr (recovered Unavailable ?p True))"
    using assms(1,8) d run by (simp add: recover_document_def require_actor_role_def)
  moreover have "get_pdf pk db' = Some ?p"
    using restore_row [OF res assms(1)] put_pdf_get [of ?p "ds_core s" row pk] pdf_key [OF assms(1)] assms(1) by auto
  ultimately show ?thesis using run(2) by blast
qed

text \<open>C13: Quarantine and recovery are inverse. A document that a removal took out as temporarily
  unavailable, with a digest and size on its row, is brought back by a recovery at any later time at
  which its row is still as the removal left it, the barrier is open and the approved media is on disk:
  the recovery succeeds and the document is again in the state the removal found it in.\<close>

theorem quarantine_roundtrip:
  assumes "remove_from_search se me pk rc a evidence s = (s1, Inr r)" "tr_changed r" "tr_target_state r = Unavailable"
    "get_pdf pk (ds_core s) = Some cur" "get_pdf pk (ds_core s1) = Some row"
    "pdf_media_expected_sha256 row \<noteq> []"
    "get_pdf pk (ds_core s2) = Some row" "actor_can_manage_lifecycle a'"
    "se_tracking se'" "\<not> se_in_atomic se'" "sx_depth (ds_scope s2) = 0"
    "get_state (se_deployment se') (ds_control s2) = Some m" "ms_barrier_state m = Barrier_open"
    "media_approved me' (mv_fs me') row" "media_approved me' fs' row"
  shows "\<exists>s3 r3. recover_document se' me' fs' pk a' s2 = (s3, Inr r3) \<and>
    get_pdf pk (ds_core s3) = Some (row\<lparr>pdf_lifecycle := pdf_lifecycle cur, pdf_indexed := False\<rparr>)"
proof -
  have key: "pdf_pk cur = pk" by (rule pdf_key [OF assms(4)])
  obtain pol where pol: "get_lifecycle_policy rc = Inr pol" and can: "actor_can_manage_lifecycle a"
    using assms(1) by (auto simp: remove_from_search_def require_actor_role_def split: sum.splits)
  have tgt: "lp_target_state pol = Unavailable"
  proof (rule ccontr)
    assume n: "lp_target_state pol \<noteq> Unavailable"
    then obtain core where h: "hide_document pk pol (ds_core s) = Inr (core, r)"
      using assms(1) pol can by (auto simp: remove_from_search_def require_actor_role_def lift_core_Inr)
    then have "tr_target_state r = lp_target_state pol" by (auto simp: hide_document_def Let_def)
    then show False using n assms(3) by simp
  qed
  then obtain ev where q: "quarantine_document se me pk pol a ev s = (s1, Inr r)"
    using assms(1) pol can by (auto simp: remove_from_search_def require_actor_role_def split: sum.splits)
  note row = quarantine_document_row [OF q assms(4)]
  obtain ev' j where w: "pdf_lifecycle cur \<noteq> Unavailable" "tr_pdf r = quarantined_row (mv_clock me) ev' cur"
    "ds_core s1 = audit None ''media_unavailable'' (map_option ac_username a) j (put_pdf (tr_pdf r) (ds_core s))"
    using mark_unavailable_row [OF row [THEN conjunct2, THEN conjunct2] assms(4)] assms(2) by blast
  have r1: "row = quarantined_row (mv_clock me) ev' cur"
    using assms(5) w put_pdf_get [of "quarantined_row (mv_clock me) ev' cur" "ds_core s" cur pk] key assms(4) by simp
  have src: "pdf_lifecycle cur \<in> set restorable_prior"
    using w(1) by (cases "pdf_lifecycle cur")
      (use row pol tgt in \<open>auto simp: restorable_prior_def get_lifecycle_policy_def lifecycle_policies_def
         all_lifecycle_states_def ordinary_lifecycle_states_def hidden_lifecycle_states_def split: if_splits\<close>)
  have unav: "pdf_lifecycle row = Unavailable" "pdf_media_prior_lifecycle row = Some (pdf_lifecycle cur)"
    by (simp_all add: r1)
  from approved_recovers [OF assms(7) unav src assms(6,14,15,8-13)]
  show ?thesis by blast
qed

text \<open>The archive operation is a way around the media verification. An unavailable document is refused
  by the plain restore, but archiving it, which the archive view does for a document in any state,
  makes it recoverable without its media being looked at: whatever the storage holds, and at any
  state of the barrier, it then becomes uploaded and searchable.\<close>

theorem archive_bypasses_verification:
  assumes "get_pdf pk (ds_core s) = Some cur" "pdf_lifecycle cur = Unavailable" "actor_can_manage_lifecycle a"
  shows "\<not> succeeds (restore_pdf pk (ds_core s)) \<and>
    (\<exists>db p s' r row. archive_pdf cur (ds_core s) = Inr (db, p) \<and>
       recover_document se me fs' pk a (s\<lparr>ds_core := db\<rparr>) = (s', Inr r) \<and>
       get_pdf pk (ds_core s') = Some row \<and> searchable row \<and> pdf_name row = pdf_name cur)"
proof -
  have key: "pdf_pk cur = pk" by (rule pdf_key [OF assms(1)])
  let ?p = "cur\<lparr>pdf_lifecycle := Archived, pdf_indexed := False\<rparr>"
  let ?q = "cur\<lparr>pdf_lifecycle := Uploaded, pdf_indexed := False\<rparr>"
  let ?db = "put_pdf ?p (ds_core s)"
  have arch: "archive_pdf cur (ds_core s) = Inr (?db, ?p)"
    using save_visibility_row [OF assms(1) _ refl, of False Archived] key by (simp add: archive_pdf_def Let_def)
  have got: "get_pdf pk ?db = Some ?p" using put_pdf_get [of ?p "ds_core s" cur pk] key assms(1) by simp
  have dec: "build_recovery_decision ?p = Inr \<lparr>rd_source_state = Archived, rd_target_state = Some Uploaded,
      rd_operation = ''restore_to_uploaded'', rd_required_evidence = [], rd_evidence_bound = True\<rparr>"
    by (simp add: build_recovery_decision_def)
  have res: "restore_pdf pk ?db = Inr (put_pdf ?q ?db, ?q, True)"
    using got by (simp add: restore_pdf_def integrity_def Let_def)
  have rec: "recover_document se me fs' pk a (s\<lparr>ds_core := ?db\<rparr>) =
      (s\<lparr>ds_core := put_pdf ?q ?db\<rparr>, Inr (recovered Archived ?q True))"
    using assms(3) got dec res by (simp add: recover_document_def require_actor_role_def lift_core_def)
  have fin: "get_pdf pk (put_pdf ?q ?db) = Some ?q" using put_pdf_get [of ?q ?db ?p pk] key got by simp
  have no: "\<not> succeeds (restore_pdf pk (ds_core s))"
    using assms(1,2) by (simp add: restore_pdf_def integrity_def succeeds_def)
  show ?thesis using arch rec fin no
    by (intro conjI exI [of _ ?db] exI [of _ ?p] exI [of _ "s\<lparr>ds_core := put_pdf ?q ?db\<rparr>"]
        exI [of _ "recovered Archived ?q True"] exI [of _ ?q]) (simp_all add: searchable_iff)
qed


subsection \<open>Witnesses\<close>

definition sample_actor :: "actor option" where
  "sample_actor = Some \<lparr>ac_authenticated = True, ac_role = ''admin'', ac_username = ''u''\<rparr>"

definition sample_sha :: string where
  "sample_sha = replicate 64 CHR ''a''"

text \<open>The media of \<^term>\<open>sample_pdf\<close>, absent and present.\<close>

definition no_media :: media_env where
  "no_media = \<lparr>mv_maximum = 1000, mv_fs = (\<lambda>_. Media_missing), mv_repr = (\<lambda>_. []), mv_clock = 0\<rparr>"

definition sample_media :: "string \<Rightarrow> media_open" where
  "sample_media k = (if k = ''a.pdf'' then Media_opened \<lparr>om_regular = True, om_links = 1, om_same_identity = True,
     om_size = 5, om_in_time = True, om_read = 5, om_sha256 = sample_sha, om_stable = True\<rparr> else Media_missing)"

definition sample_evidence :: evidence_input where
  "sample_evidence = Typed_evidence \<lparr>ue_quarantine_reason = ''source_recovery_case'', ue_case_reference = ''c1'',
     ue_expected_sha256 = sample_sha, ue_expected_size = JInt 5\<rparr>"

definition sample_quarantined :: pdf_file where
  "sample_quarantined = quarantined_row 0 (sample_sha, Some 5, ''source_recovery_case'', ''c1'') sample_pdf"

lemma sample_actor_can [simp]: "actor_can_manage_lifecycle sample_actor"
  by code_simp

lemma sample_unsafe [simp]: "\<not> unsafe_media_key ''a.pdf''"
  by code_simp

lemma sample_parts [simp]: "path_parts ''a.pdf'' = [''a.pdf'']"
  by code_simp

lemma sample_policy: "get_lifecycle_policy ''source_temporarily_unavailable'' = Inr
   \<lparr>lp_reason_code = ''source_temporarily_unavailable'',
        lp_target_state = Unavailable, lp_allowed_source_states = all_lifecycle_states, lp_reversible = True,
        lp_required_inputs = [''quarantine_reason'', ''case_reference''],
        lp_recovery_operation = ''verified_media_restore'', lp_recovery_requirements = media_requirements\<rparr>"
  by code_simp

lemma sample_absent: "verified_local_media_evidence 1000 (\<lambda>_. Media_missing) sample_pdf None = Inl Media_absent"
  by (simp add: verified_local_media_evidence_def integrity_def sample_pdf_def)

lemma sample_approved: "media_approved (no_media\<lparr>mv_fs := sample_media\<rparr>) sample_media sample_quarantined"
  by (simp add: media_approved_def verified_local_media_evidence_def integrity_def sample_quarantined_def sample_pdf_def
      quarantined_row_def sample_media_def no_media_def)

lemma sample_coerced: "coerce_unavailability_evidence (\<lambda>_. []) sample_evidence = Inr
    \<lparr>ue_quarantine_reason = ''source_recovery_case'', ue_case_reference = ''c1'',
     ue_expected_sha256 = sample_sha, ue_expected_size = JInt 5\<rparr>"
  by code_simp

lemma sample_quarantine_evidence:
  "quarantine_evidence (\<lambda>_. []) sample_sha (JInt 5) ''source_recovery_case'' ''c1'' =
     Inr (sample_sha, Some 5, ''source_recovery_case'', ''c1'')"
  by code_simp


lemma sample_marked:
  "mark_pdf_unavailable no_media 1 (Some ''u'') sample_sha (JInt 5) ''source_recovery_case'' ''c1'' (sample_core sample_pdf) =
     Inr (audit None ''media_unavailable'' (Some ''u'') (JObj
               [(''pdf_id'', JInt 1), (''prior_lifecycle'', JStr ''ready''),
                (''expected_sha256'', JStr sample_sha), (''expected_size'', JInt 5),
                (''case_reference'', JStr ''c1''), (''reason'', JStr ''source_recovery_case''),
                (''observed_at'', JStr (datetime_text ''T'' 0))]) (put_pdf sample_quarantined (sample_core sample_pdf)),
       sample_quarantined, True)"
proof -
  have "get_pdf 1 (sample_core sample_pdf) = Some sample_pdf" "pdf_lifecycle sample_pdf = Ready"
    using sample_docs_simps(4) [of sample_pdf] by (simp_all add: sample_pdf_def)
  then show ?thesis
    using sample_quarantine_evidence sample_absent
    by (simp add: mark_pdf_unavailable_def no_media_def sample_quarantined_def json_opt_def Let_def)
qed

lemma sample_removed: "\<exists>s1 r. remove_from_search sample_scope_env no_media 1 ''source_temporarily_unavailable''
    sample_actor sample_evidence (sample_docs sample_pdf) = (s1, Inr r) \<and> tr_changed r \<and> tr_target_state r = Unavailable \<and>
    get_pdf 1 (ds_core s1) = Some sample_quarantined"
proof -
  have got: "get_pdf 1 (sample_core sample_pdf) = Some sample_pdf" using sample_docs_simps(4) [of sample_pdf] by (simp add: sample_pdf_def)
  have st: "se_tracking sample_scope_env" "\<not> se_in_atomic sample_scope_env" "se_deployment sample_scope_env = ''d''"
    "ms_barrier_state (blank_state ''d'') = Barrier_open"
    by (simp_all add: sample_scope_env_def blank_state_def)
  obtain s1 where s1: "tracked_media_transition sample_scope_env ''media_unavailable''
      (mark_pdf_unavailable no_media 1 (Some ''u'') sample_sha (JInt 5) ''source_recovery_case'' ''c1'') (sample_docs sample_pdf)
      = (s1, Inr (sample_quarantined, True))"
    using tracked_runs [of sample_scope_env "sample_docs sample_pdf" "blank_state ''d''"
        "mark_pdf_unavailable no_media 1 (Some ''u'') sample_sha (JInt 5) ''source_recovery_case'' ''c1''"]
      st sample_marked by fastforce
  have "mark_pdf_unavailable no_media 1 (Some ''u'') sample_sha (JInt 5) ''source_recovery_case'' ''c1'' (sample_core sample_pdf)
      = Inr (ds_core s1, sample_quarantined, True)"
    using tracked_Inr [OF s1] by simp
  then have row: "get_pdf 1 (ds_core s1) = Some sample_quarantined"
    using sample_marked put_pdf_get [of sample_quarantined "sample_core sample_pdf" sample_pdf 1] got
    by (auto simp: sample_quarantined_def sample_pdf_def quarantined_row_def)
  have lc: "pdf_lifecycle sample_pdf \<in> set all_lifecycle_states"
    by (simp add: sample_pdf_def all_lifecycle_states_def ordinary_lifecycle_states_def)
  have run: "\<exists>r. remove_from_search sample_scope_env no_media 1 ''source_temporarily_unavailable''
      sample_actor sample_evidence (sample_docs sample_pdf) = (s1, Inr r) \<and> tr_changed r \<and> tr_target_state r = Unavailable"
    using s1 sample_policy sample_coerced got lc sample_actor_can
    by (simp add: remove_from_search_def require_actor_role_def quarantine_document_def build_impact_preview_def
        require_allowed_source_def no_media_def sample_actor_def)
  then show ?thesis using row by blast
qed

lemma sample_scope_open:
  "se_tracking sample_scope_env" "\<not> se_in_atomic sample_scope_env" "sx_depth (ds_scope (sample_docs p)) = 0"
  "get_state (se_deployment sample_scope_env) (ds_control (sample_docs p)) = Some (blank_state ''d'')"
  "ms_barrier_state (blank_state ''d'') = Barrier_open"
  by (simp_all add: sample_scope_env_def blank_state_def [of "''d''"])

theorem removal_effect_witness:
  "\<exists>s1. fst (remove_from_search sample_scope_env no_media 1 ''source_temporarily_unavailable''
    sample_actor sample_evidence (sample_docs sample_pdf)) = s1 \<and>
    (\<exists>p. get_pdf 1 (ds_core s1) = Some p \<and> \<not> searchable p \<and> pdf_name p = ''a.pdf'')"
proof -
  obtain s1 r where "remove_from_search sample_scope_env no_media 1 ''source_temporarily_unavailable''
    sample_actor sample_evidence (sample_docs sample_pdf) = (s1, Inr r)" using sample_removed by blast
  moreover have "get_pdf 1 (ds_core (sample_docs sample_pdf)) = Some sample_pdf" "pdf_name sample_pdf = ''a.pdf''"
    using sample_docs_simps(4) [of sample_pdf] by (simp_all add: sample_pdf_def)
  ultimately show ?thesis using removal_effect [of sample_scope_env no_media 1] by fastforce
qed

lemma sample_recoverable:
  "get_pdf 1 (ds_core (sample_docs sample_quarantined)) = Some sample_quarantined"
  "pdf_lifecycle sample_quarantined = Unavailable"
  using sample_docs_simps(4) [of sample_quarantined] by (simp_all add: sample_quarantined_def sample_pdf_def quarantined_row_def)

theorem quarantine_roundtrip_witness:
  "\<exists>s3 r3. recover_document sample_scope_env (no_media\<lparr>mv_fs := sample_media\<rparr>) sample_media 1 sample_actor
      (sample_docs sample_quarantined) = (s3, Inr r3) \<and>
    get_pdf 1 (ds_core s3) = Some (sample_quarantined\<lparr>pdf_lifecycle := Ready, pdf_indexed := False\<rparr>)"
proof -
  obtain s1 r where r: "remove_from_search sample_scope_env no_media 1 ''source_temporarily_unavailable''
    sample_actor sample_evidence (sample_docs sample_pdf) = (s1, Inr r)" "tr_changed r" "tr_target_state r = Unavailable"
    "get_pdf 1 (ds_core s1) = Some sample_quarantined" using sample_removed by blast
  have got: "get_pdf 1 (ds_core (sample_docs sample_pdf)) = Some sample_pdf" "pdf_lifecycle sample_pdf = Ready"
    using sample_docs_simps(4) [of sample_pdf] by (simp_all add: sample_pdf_def)
  have sha: "pdf_media_expected_sha256 sample_quarantined \<noteq> []"
    by (simp add: sample_quarantined_def quarantined_row_def sample_sha_def)
  have ap: "media_approved (no_media\<lparr>mv_fs := sample_media\<rparr>) (mv_fs (no_media\<lparr>mv_fs := sample_media\<rparr>)) sample_quarantined"
    using sample_approved by simp
  show ?thesis
    using quarantine_roundtrip [OF r(1-3) got(1) r(4) sha sample_recoverable(1) sample_actor_can
        sample_scope_open ap sample_approved] got(2) by simp
qed

theorem recovery_effect_witness:
  "\<exists>s'. fst (recover_document sample_scope_env (no_media\<lparr>mv_fs := sample_media\<rparr>) sample_media 1 sample_actor
      (sample_docs sample_quarantined)) = s' \<and>
    get_pdf 1 (ds_core s') = Some (sample_quarantined\<lparr>pdf_lifecycle := Ready, pdf_indexed := False\<rparr>)"
proof -
  have row: "pdf_media_prior_lifecycle sample_quarantined = Some Ready" "pdf_media_expected_sha256 sample_quarantined \<noteq> []"
    "Ready \<in> set restorable_prior"
    by (simp_all add: sample_quarantined_def quarantined_row_def sample_pdf_def restorable_prior_def sample_sha_def)
  have ap: "media_approved (no_media\<lparr>mv_fs := sample_media\<rparr>) (mv_fs (no_media\<lparr>mv_fs := sample_media\<rparr>)) sample_quarantined"
    using sample_approved by simp
  from approved_recovers [OF sample_recoverable row(1,3,2) ap sample_approved sample_actor_can sample_scope_open]
  obtain s3 r3 where "recover_document sample_scope_env (no_media\<lparr>mv_fs := sample_media\<rparr>) sample_media 1 sample_actor
      (sample_docs sample_quarantined) = (s3, Inr r3)" by blast
  with recovery_effect [OF this sample_recoverable(1)] sample_recoverable(2) row(1) show ?thesis by auto
qed

theorem archive_bypasses_verification_witness:
  "\<exists>db p s' r row. archive_pdf sample_quarantined (sample_core sample_quarantined) = Inr (db, p) \<and>
     recover_document sample_scope_env no_media (\<lambda>_. Media_missing) 1 sample_actor ((sample_docs sample_quarantined)\<lparr>ds_core := db\<rparr>) = (s', Inr r) \<and>
     get_pdf 1 (ds_core s') = Some row \<and> searchable row"
proof -
  from archive_bypasses_verification [OF sample_recoverable sample_actor_can, of sample_scope_env no_media "\<lambda>_. Media_missing"]
  show ?thesis by (elim conjE exE) (intro exI conjI; (assumption | simp))
qed

end
