(* ===== verification/Docs_Views.thy ===== *)
theory Docs_Views
  imports Docs_Safety
begin

section \<open>The abstract service of documents\<close>

text \<open>
  What the removal and recovery services promise, without rows and evidence: every document is visible,
  hidden, or quarantined out of a state. The services, whether they return or raise, take steps of that
  machine. The rows the operations of \<^verbatim>\<open>core/maintenance.py\<close> write stay well formed.
\<close>

subsection \<open>The abstract machine\<close>

datatype doc_view = Visible | Hidden | Quarantined pdf_lifecycle

definition state_view :: "pdf_lifecycle \<Rightarrow> doc_view" where
  "state_view l = (if l \<in> set searchable_pdf_lifecycles then Visible else Hidden)"

definition row_view :: "pdf_file \<Rightarrow> doc_view" where
  "row_view p = (if pdf_lifecycle p = Unavailable
     then Quarantined (case pdf_media_prior_lifecycle p of None \<Rightarrow> Unavailable | Some l \<Rightarrow> l)
     else state_view (pdf_lifecycle p))"

definition views :: "core_db \<Rightarrow> nat \<Rightarrow> doc_view option" where
  "views db k = map_option row_view (get_pdf k db)"

inductive view_step :: "(nat \<Rightarrow> doc_view option) \<Rightarrow> (nat \<Rightarrow> doc_view option) \<Rightarrow> bool" where
  stutter: "view_step v v"
| hide: "v k \<in> {Some Visible, Some Hidden} \<Longrightarrow> view_step v (v(k := Some Hidden))"
| quarantine: "v k = Some (state_view l) \<Longrightarrow> l \<noteq> Unavailable \<Longrightarrow> view_step v (v(k := Some (Quarantined l)))"
| release: "v k = Some (Quarantined l) \<Longrightarrow> l \<in> set restorable_prior \<Longrightarrow> view_step v (v(k := Some (state_view l)))"
| unhide: "v k = Some Hidden \<Longrightarrow> view_step v (v(k := Some Visible))"

inductive_cases view_stepE: "view_step v v'"

text \<open>In the machine a quarantined document leaves quarantine into the view it was taken from only.\<close>

lemma quarantine_left_by_release:
  assumes "view_step v v'" "v k = Some (Quarantined l)" "v' k \<noteq> v k"
  shows "v' k = Some (state_view l)"
  using assms by (auto elim!: view_stepE simp: state_view_def split: if_splits)

subsection \<open>Rows that do not change\<close>

lemma views_audit [simp]: "views (audit j e a p db) = views db"
  by (simp add: views_def fun_eq_iff)

lemma views_put:
  "get_pdf (pdf_pk p) db = Some r0 \<Longrightarrow> views (put_pdf p db) = (views db)(pdf_pk p := Some (row_view p))"
  by (auto simp: views_def fun_eq_iff put_pdf_get)

lemma close_scope_core: "ds_core (fst (close_scope e c core control res)) = core"
  by (simp add: close_scope_def split: sum.splits prod.splits)

lemma tracked_core:
  "ds_core (fst (tracked_media_transition e action f s)) = ds_core s \<or>
   (\<exists>core p ch. f (ds_core s) = Inr (core, p, ch) \<and> ds_core (fst (tracked_media_transition e action f s)) = core)"
  by (auto simp: tracked_media_transition_def close_scope_core split: sum.splits prod.splits)

subsection \<open>Refinement\<close>

lemma mark_view_step:
  assumes "mark_pdf_unavailable env pk actor sha sz reason case_ref db = Inr (db', p, changed)"
  shows "view_step (views db) (views db')"
proof -
  obtain cur where cur: "get_pdf pk db = Some cur" using assms by (auto simp: mark_pdf_unavailable_def)
  have key: "pdf_pk cur = pk" by (rule pdf_key [OF cur])
  from mark_unavailable_row [OF assms cur] show ?thesis
  proof (elim disjE conjE exE)
    assume "db' = db"
    then show ?thesis by (simp add: view_step.stutter)
  next
    fix ev j
    assume c: "pdf_lifecycle cur \<noteq> Unavailable" "p = quarantined_row (mv_clock env) ev cur"
      "db' = audit None ''media_unavailable'' actor j (put_pdf p db)"
    have "views db' = (views db)(pk := Some (Quarantined (pdf_lifecycle cur)))"
      using views_put [of p db cur] cur key c by (simp add: row_view_def)
    moreover have "views db pk = Some (state_view (pdf_lifecycle cur))"
      using cur c(1) by (simp add: views_def row_view_def)
    ultimately show ?thesis using c(1) by (auto intro: view_step.quarantine)
  qed
qed

lemma restore_unavailable_view_step:
  assumes "restore_unavailable_pdf env fs' pk actor db = Inr (db', p, changed)"
  shows "view_step (views db) (views db')"
proof -
  obtain cur where cur: "get_pdf pk db = Some cur" using assms by (auto simp: restore_unavailable_pdf_def)
  obtain l j where r: "pdf_lifecycle cur = Unavailable" "l \<in> set restorable_prior" "pdf_media_prior_lifecycle cur = Some l"
    "p = cur\<lparr>pdf_lifecycle := l, pdf_indexed := False\<rparr>" "db' = audit None ''media_restored'' actor j (put_pdf p db)"
    using restore_row [OF assms cur] by blast
  have n: "l \<noteq> Unavailable" using r(2) by (auto simp: restorable_prior_def)
  have "views db' = (views db)(pk := Some (state_view l))"
    using views_put [of p db cur] cur pdf_key [OF cur] r(4,5) n by (simp add: row_view_def)
  moreover have "views db pk = Some (Quarantined l)" using cur r(1,3) by (simp add: views_def row_view_def)
  ultimately show ?thesis using r(2) by (auto intro: view_step.release)
qed

lemma hide_view_step:
  assumes "hide_document pk pol db = Inr (db', r)" "lp_target_state pol \<in> {Deprecated, Archived}"
    "Unavailable \<notin> set (lp_allowed_source_states pol)"
  shows "view_step (views db) (views db')"
proof (rule hide_document_row [OF assms(1,2)])
  fix cur :: pdf_file and impact
  let ?p = "cur\<lparr>pdf_lifecycle := lp_target_state pol, pdf_indexed := False\<rparr>"
  assume c: "get_pdf pk db = Some cur" "pdf_lifecycle cur \<in> set (lp_allowed_source_states pol)"
    "db' = (if tr_changed r then put_pdf ?p db else db)"
  show ?thesis
  proof (cases "tr_changed r")
    case True
    have t: "lp_target_state pol \<noteq> Unavailable" "lp_target_state pol \<notin> set searchable_pdf_lifecycles"
      using assms(2) by (auto simp: searchable_pdf_lifecycles_def)
    have "views db' = (views db)(pk := Some Hidden)"
      using views_put [of ?p db cur] c(1,3) True pdf_key [OF c(1)] t by (simp add: row_view_def state_view_def)
    moreover have "views db pk \<in> {Some Visible, Some Hidden}"
      using c(1,2) assms(3) by (auto simp: views_def row_view_def state_view_def)
    ultimately show ?thesis by (auto intro: view_step.hide)
  next
    case False
    then show ?thesis using c(3) by (simp add: view_step.stutter)
  qed
qed

lemma hiding_policies_exclude_unavailable:
  "get_lifecycle_policy rc = Inr pol \<Longrightarrow> lp_target_state pol \<noteq> Unavailable \<Longrightarrow>
   lp_target_state pol \<in> {Deprecated, Archived} \<and> Unavailable \<notin> set (lp_allowed_source_states pol)"
  by (auto simp: get_lifecycle_policy_def lifecycle_policies_def ordinary_lifecycle_states_def split: if_splits)

lemma restore_view_step:
  assumes "restore_pdf pk db = Inr (db', p, changed)" "get_pdf pk db = Some cur" "pdf_lifecycle cur \<in> {Deprecated, Archived}"
  shows "view_step (views db) (views db')"
proof -
  note r = restore_pdf_row [OF assms(1,2)]
  have "views db' = (views db)(pk := Some Visible)"
    using views_put [of p db cur] assms(2) pdf_key [OF assms(2)] r
    by (simp add: row_view_def state_view_def searchable_pdf_lifecycles_def)
  moreover have "views db pk = Some Hidden"
    using assms(2,3) by (auto simp: views_def row_view_def state_view_def searchable_pdf_lifecycles_def)
  ultimately show ?thesis by (auto intro: view_step.unhide)
qed

lemma tracked_view_step:
  assumes "\<And>db db' p ch. f db = Inr (db', p, ch) \<Longrightarrow> view_step (views db) (views db')"
  shows "view_step (views (ds_core s)) (views (ds_core (fst (tracked_media_transition e action f s))))"
  using tracked_core [of e action f s] assms by (metis view_step.stutter)

lemma quarantine_document_state:
  "fst (quarantine_document se me pk pol a v s) = s \<or>
   fst (quarantine_document se me pk pol a v s) = fst (tracked_media_transition se ''media_unavailable''
     (mark_pdf_unavailable me pk (map_option ac_username a) (ue_expected_sha256 v) (ue_expected_size v)
       (ue_quarantine_reason v) (ue_case_reference v)) s)"
  by (simp add: quarantine_document_def split: sum.splits prod.splits)

lemma remove_view_step:
  "view_step (views (ds_core s)) (views (ds_core (fst (remove_from_search se me pk rc a ev s))))"
proof (cases "bind_res (require_actor_role a) (\<lambda>_. get_lifecycle_policy rc)")
  case (Inl e)
  then show ?thesis by (simp add: remove_from_search_def view_step.stutter)
next
  case (Inr pol)
  then have pol: "get_lifecycle_policy rc = Inr pol" by auto
  show ?thesis
  proof (cases "lp_target_state pol = Unavailable")
    case True
    have "view_step (views (ds_core s)) (views (ds_core (fst (tracked_media_transition se ''media_unavailable''
        (mark_pdf_unavailable me pk (map_option ac_username a) (ue_expected_sha256 v) (ue_expected_size v)
          (ue_quarantine_reason v) (ue_case_reference v)) s))))" for v
      by (rule tracked_view_step) (rule mark_view_step)
    then have "view_step (views (ds_core s)) (views (ds_core (fst (quarantine_document se me pk pol a v s))))" for v
      using quarantine_document_state [of se me pk pol a v s] by (metis view_step.stutter)
    then show ?thesis using Inr True
      by (simp add: remove_from_search_def view_step.stutter split: sum.splits)
  next
    case False
    note h = hiding_policies_exclude_unavailable [OF pol False]
    show ?thesis using Inr False hide_view_step [of pk pol "ds_core s"] h
      by (auto simp: remove_from_search_def lift_core_def view_step.stutter split: sum.splits)
  qed
qed

lemma recover_view_step:
  "view_step (views (ds_core s)) (views (ds_core (fst (recover_document se me fs' pk a s))))"
proof (cases "bind_res (require_actor_role a) (\<lambda>_. bind_res (of_option Row_missing (get_pdf pk (ds_core s))) (\<lambda>cur. build_recovery_decision cur))")
  case (Inl e)
  then show ?thesis by (simp add: recover_document_def view_step.stutter)
next
  case (Inr d)
  then obtain cur where cur: "get_pdf pk (ds_core s) = Some cur" "build_recovery_decision cur = Inr d" by auto
  show ?thesis
  proof (cases "rd_operation d = ''verified_media_restore''")
    case True
    have "view_step (views (ds_core s)) (views (ds_core (fst (tracked_media_transition se ''media_restored''
        (restore_unavailable_pdf me fs' pk (map_option ac_username a)) s))))"
      by (rule tracked_view_step) (rule restore_unavailable_view_step)
    then show ?thesis using Inr True by (auto simp: recover_document_def split: sum.splits prod.splits)
  next
    case False
    have k: "pdf_lifecycle cur \<in> {Deprecated, Archived}" using recovery_kind [OF cur(2)] False by simp
    show ?thesis using Inr False cur restore_view_step [of pk "ds_core s" _ _ _ cur] k
      by (auto simp: recover_document_def lift_core_def view_step.stutter split: sum.splits)
  qed
qed

text \<open>C28: The removal and the recovery service implement the abstract machine. Seen as visible, hidden or quarantined
  documents, every call of the removal, which hides or quarantines, and of the recovery, which restores or releases, with
  any arguments and whether it returns or raises, is a step of the machine. The machine knows one way out of quarantine,
  the release into the view the document was taken from. The direct archiving and deprecation of
  \<^verbatim>\<open>core/maintenance.py\<close> are not among these services: they hide a quarantined document without a release.\<close>

theorem document_services_refine_views:
  "view_step (views (ds_core s)) (views (ds_core (fst (remove_from_search se me pk rc a ev s)))) \<and>
   view_step (views (ds_core s)) (views (ds_core (fst (recover_document se me fs' pk a s))))"
  using remove_view_step recover_view_step by blast


subsection \<open>Well-formed rows\<close>

text \<open>
  The media columns of a row: an unavailable document knows a state it can return to, digest and size
  are there together, the digest is one, and every value fits its column.
\<close>

definition media_row_ok :: "pdf_file \<Rightarrow> bool" where
  "media_row_ok p =
     ((pdf_lifecycle p = Unavailable \<longrightarrow> pdf_media_prior_lifecycle p \<notin> {None, Some Unavailable}) \<and>
      (case pdf_media_expected_size p of
         None \<Rightarrow> pdf_media_expected_sha256 p = []
       | Some n \<Rightarrow> sha256_text (pdf_media_expected_sha256 p) \<and> 0 \<le> n \<and> n \<le> max_media_size) \<and>
      pdf_media_quarantine_reason p \<in> set ([] # media_quarantine_reasons) \<and>
      (pdf_media_case_reference p = [] \<or> case_reference_ok (pdf_media_case_reference p)))"

definition media_rows_ok :: "core_db \<Rightarrow> bool" where
  "media_rows_ok db = (\<forall>k p. get_pdf k db = Some p \<longrightarrow> media_row_ok p)"

lemma row_ok_shown:
  "media_row_ok r \<Longrightarrow> l \<noteq> Unavailable \<Longrightarrow> media_row_ok (r\<lparr>pdf_lifecycle := l, pdf_indexed := i\<rparr>)"
  by (cases "pdf_media_expected_size r") (auto simp: media_row_ok_def)

inductive document_step :: "core_db \<Rightarrow> core_db \<Rightarrow> bool" where
  mark: "mark_pdf_unavailable env pk actor sha sz reason case_ref db = Inr (db', p, c) \<Longrightarrow> document_step db db'"
| bind: "bind_unavailable_recovery_evidence pk actor sha sz reason case_ref db = Inr (db', p, c) \<Longrightarrow> document_step db db'"
| restore_media: "restore_unavailable_pdf env fs' pk actor db = Inr (db', p, c) \<Longrightarrow> document_step db db'"
| restore: "restore_pdf pk db = Inr (db', p, c) \<Longrightarrow> document_step db db'"
| deprecate: "deprecate_pdf row db = Inr (db', p) \<Longrightarrow> document_step db db'"
| archive: "archive_pdf row db = Inr (db', p) \<Longrightarrow> document_step db db'"

lemma rows_ok_put:
  assumes "media_rows_ok db" "get_pdf (pdf_pk p) db = Some r0" "media_row_ok r0 \<Longrightarrow> media_row_ok p"
  shows "media_rows_ok (put_pdf p db)"
  using assms by (auto simp: media_rows_ok_def put_pdf_get)

lemma rows_ok_audit [simp]: "media_rows_ok (audit j e a p db) = media_rows_ok db"
  by (simp add: media_rows_ok_def)

lemma rows_ok_visibility:
  assumes "media_rows_ok db" "pdf_lifecycle p \<noteq> Unavailable"
  shows "media_rows_ok (save_visibility p db)"
proof (cases "get_pdf (pdf_pk p) db")
  case None
  then show ?thesis using assms by (simp add: save_visibility_def)
next
  case (Some r)
  have "media_rows_ok (put_pdf (r\<lparr>pdf_lifecycle := pdf_lifecycle p, pdf_indexed := pdf_indexed p\<rparr>) db)"
    using Some pdf_key [OF Some] assms by (intro rows_ok_put [of _ _ r]) (auto intro: row_ok_shown)
  then show ?thesis using Some by (simp add: save_visibility_def)
qed

lemma sha256_text_nonempty: "sha256_text d \<Longrightarrow> d \<noteq> []"
  by (auto simp: sha256_text_def)

lemma quarantine_evidence_ok:
  assumes "quarantine_evidence repr sha sz reason case_ref = Inr (digest, n, reason', case')"
  shows "(case n of None \<Rightarrow> digest = [] | Some i \<Rightarrow> sha256_text digest \<and> 0 \<le> i \<and> i \<le> max_media_size) \<and>
    reason' \<in> set media_quarantine_reasons \<and> case_reference_ok case'"
  using assms by (auto simp: quarantine_evidence_def Let_def split: if_splits option.splits)

lemma binding_evidence_ok:
  assumes "binding_evidence sha sz reason case_ref = Inr (digest, n, reason', case')"
  shows "sha256_text digest \<and> 0 \<le> n \<and> n \<le> max_media_size \<and> case_reference_ok case'"
  using assms by (auto simp: binding_evidence_def Let_def)

lemma mark_rows_ok:
  assumes "mark_pdf_unavailable env pk actor sha sz reason case_ref db = Inr (db', p, c)" "media_rows_ok db"
  shows "media_rows_ok db'"
proof -
  obtain digest n reason' case' cur where e: "quarantine_evidence (mv_repr env) sha sz reason case_ref = Inr (digest, n, reason', case')"
    "get_pdf pk db = Some cur"
    using assms(1) by (auto simp: mark_pdf_unavailable_def)
  show ?thesis
  proof (cases "pdf_lifecycle cur = Unavailable")
    case True
    then show ?thesis using assms e by (simp add: mark_pdf_unavailable_def)
  next
    case False
    then obtain j where db': "db' = audit None ''media_unavailable'' actor j
        (put_pdf (quarantined_row (mv_clock env) (digest, n, reason', case') cur) db)"
      using assms(1) e by (auto simp: mark_pdf_unavailable_def Let_def split: sum.splits if_splits)
    have "media_row_ok (quarantined_row (mv_clock env) (digest, n, reason', case') cur)"
      using quarantine_evidence_ok [OF e(1)] False by (auto simp: media_row_ok_def quarantined_row_def split: option.splits)
    then show ?thesis unfolding db' rows_ok_audit
      using pdf_key [OF e(2)] e(2) by (intro rows_ok_put [OF assms(2), of _ cur]) auto
  qed
qed

lemma bind_rows_ok:
  assumes "bind_unavailable_recovery_evidence pk actor sha sz reason case_ref db = Inr (db', p, c)" "media_rows_ok db"
  shows "media_rows_ok db'"
proof -
  have "\<exists>ev. binding_evidence sha sz reason case_ref = Inr ev" "\<exists>cur. get_pdf pk db = Some cur"
    using assms(1) by (auto simp: bind_unavailable_recovery_evidence_def)
  then obtain ev cur where ev: "binding_evidence sha sz reason case_ref = Inr ev" "get_pdf pk db = Some cur" by blast
  obtain digest n reason' case' where "ev = (digest, n, reason', case')" by (cases ev)
  with ev have e: "binding_evidence sha sz reason case_ref = Inr (digest, n, reason', case')" "get_pdf pk db = Some cur"
    by simp_all
  let ?p = "cur\<lparr>pdf_media_expected_sha256 := digest, pdf_media_expected_size := Some n, pdf_media_case_reference := case'\<rparr>"
  have "db' = db \<or> (\<exists>j. db' = audit None ''media_evidence_bound'' actor j (put_pdf ?p db))"
    using assms(1) e by (auto simp: bind_unavailable_recovery_evidence_def Let_def split: if_splits)
  moreover have "media_rows_ok (put_pdf ?p db)"
    using pdf_key [OF e(2)] e(2) binding_evidence_ok [OF e(1)]
    by (intro rows_ok_put [OF assms(2), of _ cur]) (auto simp: media_row_ok_def)
  ultimately show ?thesis using assms(2) by auto
qed

lemma restore_media_rows_ok:
  assumes "restore_unavailable_pdf env fs' pk actor db = Inr (db', p, c)" "media_rows_ok db"
  shows "media_rows_ok db'"
proof -
  obtain cur where cur: "get_pdf pk db = Some cur" using assms(1) by (auto simp: restore_unavailable_pdf_def)
  obtain l j where r: "l \<in> set restorable_prior" "p = cur\<lparr>pdf_lifecycle := l, pdf_indexed := False\<rparr>"
    "db' = audit None ''media_restored'' actor j (put_pdf p db)"
    using restore_row [OF assms(1) cur] by blast
  have "l \<noteq> Unavailable" using r(1) by (auto simp: restorable_prior_def)
  then show ?thesis unfolding r(3) rows_ok_audit
    using pdf_key [OF cur] cur r(2) by (intro rows_ok_put [OF assms(2), of _ cur]) (auto intro: row_ok_shown)
qed

interpretation document_runs: invariant_steps document_step media_rows_ok
proof unfold_locales
  fix s t assume "document_step s t" "media_rows_ok s"
  then show "media_rows_ok t"
  proof (induction rule: document_step.induct)
    case (restore pk db db' p c)
    obtain cur where cur: "get_pdf pk db = Some cur" using restore.hyps by (auto simp: restore_pdf_def)
    note r = restore_pdf_row [OF restore.hyps cur]
    then show ?case using pdf_key [OF cur] cur restore.prems
      by (auto intro!: rows_ok_put [of _ _ cur] intro: row_ok_shown)
  next
    case (deprecate row db db' p)
    then have "db' = save_visibility (row\<lparr>pdf_lifecycle := Deprecated, pdf_indexed := False\<rparr>) db"
      by (auto simp: deprecate_pdf_def Let_def)
    then show ?case using deprecate.prems by (auto intro: rows_ok_visibility)
  next
    case (archive row db db' p)
    then have "db' = save_visibility (row\<lparr>pdf_lifecycle := Archived, pdf_indexed := False\<rparr>) db"
      by (auto simp: archive_pdf_def Let_def)
    then show ?case using archive.prems by (auto intro: rows_ok_visibility)
  qed (auto intro: mark_rows_ok bind_rows_ok restore_media_rows_ok)
qed

text \<open>Between two databases of a run no row appears, and a row keeps its file. One that was not in intake, nor taken into
  quarantine from it, never will be.\<close>

definition away_from_intake :: "pdf_file \<Rightarrow> bool" where
  "away_from_intake p \<longleftrightarrow> pdf_lifecycle p \<noteq> Intake \<and> pdf_media_prior_lifecycle p \<noteq> Some Intake"

definition row_kept :: "pdf_file \<Rightarrow> pdf_file \<Rightarrow> bool" where
  "row_kept r p \<longleftrightarrow> pdf_name p = pdf_name r \<and> pdf_folder p = pdf_folder r \<and> (away_from_intake r \<longrightarrow> away_from_intake p)"

definition rows_kept :: "core_db \<Rightarrow> core_db \<Rightarrow> bool" where
  "rows_kept db db' \<longleftrightarrow> (\<forall>k p. get_pdf k db' = Some p \<longrightarrow> (\<exists>r. get_pdf k db = Some r \<and> row_kept r p))"

lemma rows_kept_refl [simp]: "rows_kept db db"
  by (simp add: rows_kept_def row_kept_def)

lemma rows_kept_trans: "rows_kept a b \<Longrightarrow> rows_kept b c \<Longrightarrow> rows_kept a c"
  unfolding rows_kept_def row_kept_def by metis

lemma rows_kept_audit [simp]: "rows_kept db (audit j e a p db') = rows_kept db db'"
  by (simp add: rows_kept_def)

lemma rows_kept_put: "get_pdf (pdf_pk p) db = Some r \<Longrightarrow> row_kept r p \<Longrightarrow> rows_kept db (put_pdf p db)"
  by (auto simp: rows_kept_def put_pdf_get row_kept_def)

lemma row_kept_shown: "l \<noteq> Intake \<Longrightarrow> row_kept r (r\<lparr>pdf_lifecycle := l, pdf_indexed := i\<rparr>)"
  by (simp add: row_kept_def away_from_intake_def)

lemma rows_kept_visibility:
  assumes "pdf_lifecycle p \<noteq> Intake"
  shows "rows_kept db (save_visibility p db)"
proof (cases "get_pdf (pdf_pk p) db")
  case (Some r)
  then show ?thesis
    using pdf_key [OF Some] assms by (auto simp: save_visibility_def intro!: rows_kept_put [of _ _ r] row_kept_shown)
qed (simp add: save_visibility_def)

lemma mark_rows_kept:
  assumes "mark_pdf_unavailable env pk actor sha sz reason case_ref db = Inr (db', p, c)"
  shows "rows_kept db db'"
proof -
  obtain cur where cur: "get_pdf pk db = Some cur" using assms by (auto simp: mark_pdf_unavailable_def)
  have kept: "row_kept cur (quarantined_row clk (digest, n, reason', case') cur)" for clk digest n reason' case'
    by (simp add: row_kept_def away_from_intake_def quarantined_row_def)
  show ?thesis
    using mark_unavailable_row [OF assms cur]
  proof (elim disjE conjE exE)
    fix ev j assume p: "p = quarantined_row (mv_clock env) ev cur" "db' = audit None ''media_unavailable'' actor j (put_pdf p db)"
    obtain digest n reason' case' where ev: "ev = (digest, n, reason', case')" by (cases ev)
    have key: "pdf_pk p = pk" using pdf_key [OF cur] p(1) ev by (simp add: quarantined_row_def)
    show ?thesis unfolding p(2) rows_kept_audit
      by (rule rows_kept_put [of p db cur]) (use cur key kept p(1) ev in simp_all)
  qed simp
qed

lemma bind_rows_kept:
  assumes "bind_unavailable_recovery_evidence pk actor sha sz reason case_ref db = Inr (db', p, c)"
  shows "rows_kept db db'"
proof -
  obtain digest n reason' case' cur where e: "get_pdf pk db = Some cur"
    "db' = db \<or> (\<exists>j. db' = audit None ''media_evidence_bound'' actor j (put_pdf
       (cur\<lparr>pdf_media_expected_sha256 := digest, pdf_media_expected_size := Some n, pdf_media_case_reference := case'\<rparr>) db))"
    using assms by (fastforce simp: bind_unavailable_recovery_evidence_def Let_def split: if_splits prod.splits)
  then show ?thesis using pdf_key [OF e(1)]
    by (auto intro!: rows_kept_put [of _ _ cur] simp: row_kept_def away_from_intake_def)
qed

lemma document_step_kept: "document_step db db' \<Longrightarrow> rows_kept db db'"
proof (induction rule: document_step.induct)
  case (restore_media env fs' pk actor db db' p c)
  obtain cur where cur: "get_pdf pk db = Some cur" using restore_media by (auto simp: restore_unavailable_pdf_def)
  obtain l j where r: "l \<in> set restorable_prior" "p = cur\<lparr>pdf_lifecycle := l, pdf_indexed := False\<rparr>"
    "db' = audit None ''media_restored'' actor j (put_pdf p db)"
    using restore_row [OF restore_media cur] by blast
  have "l \<noteq> Intake" using r(1) by (auto simp: restorable_prior_def)
  then show ?case unfolding r(3) rows_kept_audit
    using pdf_key [OF cur] cur r(2) by (intro rows_kept_put [of _ _ cur]) (auto intro: row_kept_shown)
next
  case (restore pk db db' p c)
  obtain cur where cur: "get_pdf pk db = Some cur" using restore by (auto simp: restore_pdf_def)
  note r = restore_pdf_row [OF restore cur]
  then show ?case using pdf_key [OF cur] cur by (auto intro!: rows_kept_put [of _ _ cur] row_kept_shown)
next
  case (deprecate row db db' p)
  then have "db' = save_visibility (row\<lparr>pdf_lifecycle := Deprecated, pdf_indexed := False\<rparr>) db"
    by (auto simp: deprecate_pdf_def Let_def)
  then show ?case by (auto intro: rows_kept_visibility)
next
  case (archive row db db' p)
  then have "db' = save_visibility (row\<lparr>pdf_lifecycle := Archived, pdf_indexed := False\<rparr>) db"
    by (auto simp: archive_pdf_def Let_def)
  then show ?case by (auto intro: rows_kept_visibility)
qed (auto intro: mark_rows_kept bind_rows_kept)

lemma document_run_kept:
  assumes "document_step\<^sup>*\<^sup>* db db'"
  shows "rows_kept db db'"
  using assms by induction (auto intro: rows_kept_trans document_step_kept)

text \<open>C29: The media columns stay well formed. Over any run of the document operations, with any arguments
  callers pass as digests, sizes and references, no row appears and every row keeps its file and its folder; it has digest
  and size together, the digest 64 hexadecimal digits and the size in the range of its column, a reason and a reference
  that are empty or admitted; and an unavailable document keeps a state to return to, other than unavailable. If no document is
  in intake this is one of the states the verified restore accepts.\<close>

theorem media_rows_well_typed:
  assumes "document_step\<^sup>*\<^sup>* db db'" "media_rows_ok db" "get_pdf k db' = Some p"
  shows "media_row_ok p \<and> (\<exists>r. get_pdf k db = Some r \<and> pdf_name p = pdf_name r \<and> pdf_folder p = pdf_folder r
    \<and> (away_from_intake r \<longrightarrow> pdf_lifecycle p = Unavailable \<longrightarrow> pdf_media_prior_lifecycle p \<in> Some ` set restorable_prior))"
proof -
  have ok: "media_row_ok p" using document_runs.run_inv [OF assms(1,2)] assms(3) by (auto simp: media_rows_ok_def)
  obtain r where r: "get_pdf k db = Some r" "row_kept r p"
    using document_run_kept [OF assms(1)] assms(3) by (auto simp: rows_kept_def)
  have "pdf_media_prior_lifecycle p \<in> Some ` set restorable_prior" if away: "away_from_intake r" and un: "pdf_lifecycle p = Unavailable"
  proof -
    obtain l where l: "pdf_media_prior_lifecycle p = Some l" "l \<noteq> Unavailable" using ok un by (auto simp: media_row_ok_def)
    moreover have "l \<noteq> Intake" using r(2) away l(1) by (auto simp: row_kept_def away_from_intake_def)
    ultimately show ?thesis by (cases l) (auto simp: restorable_prior_def)
  qed
  then show ?thesis using ok r by (auto simp: row_kept_def)
qed

theorem media_rows_well_typed_witness:
  "media_row_ok sample_quarantined \<and> pdf_media_prior_lifecycle sample_quarantined \<in> Some ` set restorable_prior"
proof -
  have ok: "media_rows_ok (sample_core sample_pdf)"
    by (auto simp: media_rows_ok_def sample_core_def get_pdf_def find_row_def media_row_ok_def sample_pdf_def)
  obtain db' where r: "mark_pdf_unavailable no_media 1 (Some ''u'') sample_sha (JInt 5) ''source_recovery_case'' ''c1''
      (sample_core sample_pdf) = Inr (db', sample_quarantined, True)" "get_pdf 1 db' = Some sample_quarantined"
    using sample_marked put_pdf_get [of sample_quarantined "sample_core sample_pdf" sample_pdf 1]
      sample_docs_simps(4) [of sample_pdf] by (auto simp: sample_quarantined_def sample_pdf_def quarantined_row_def)
  have "get_pdf 1 (sample_core sample_pdf) = Some sample_pdf"
    using sample_docs_simps(4) [of sample_pdf] by (simp add: sample_pdf_def)
  moreover have "away_from_intake sample_pdf" by (simp add: away_from_intake_def sample_pdf_def)
  moreover have "pdf_lifecycle sample_quarantined = Unavailable" by (simp add: sample_quarantined_def quarantined_row_def)
  ultimately show ?thesis
    using media_rows_well_typed [OF r_into_rtranclp [of document_step, OF document_step.mark [OF r(1)]] ok r(2)] by auto
qed

end
