(* ===== verification/Vault_Lifecycle.thy ===== *)
theory Vault_Lifecycle
  imports Vault_Models
begin

section \<open>Guarded state transitions\<close>

text \<open>
  \<^verbatim>\<open>flowdocs/vaultops/services/lifecycle.py\<close> and \<^verbatim>\<open>audit.py\<close>: four transition tables, the guard that
  every service puts before a state change, the audit log, and the four transition services. A
  service takes the reading of the clock (\<open>clk\<close>, \<^verbatim>\<open>timezone.now()\<close>, which also stamps
  \<^verbatim>\<open>updated_at\<close>), runs in one transaction, and returns the row it locked.
\<close>

subsection \<open>Tables\<close>

fun vault_transitions :: "vault_state \<Rightarrow> vault_state list" where
  "vault_transitions Candidate = [Authoritative, Retired, Invalid]"
| "vault_transitions Authoritative = [Candidate, Retired]"
| "vault_transitions Retired = [Candidate]"
| "vault_transitions Vault_unknown = [Candidate, Authoritative, Invalid, Legacy_read_only]"
| "vault_transitions Invalid = [Candidate]"
| "vault_transitions Legacy_read_only = [Retired]"

fun runtime_transitions :: "runtime_state \<Rightarrow> runtime_state list" where
  "runtime_transitions Inactive = [Pending]"
| "runtime_transitions Pending = [Applying, Activation_failed, Inactive]"
| "runtime_transitions Applying = [Active, Rollback_pending, Activation_failed]"
| "runtime_transitions Active = [Previous, Rollback_pending]"
| "runtime_transitions Previous = [Pending, Active, Inactive]"
| "runtime_transitions Rollback_pending = [Rolled_back, Activation_failed]"
| "runtime_transitions Rolled_back = [Previous, Active]"
| "runtime_transitions Activation_failed = [Pending]"
| "runtime_transitions Runtime_unknown =
     [Inactive, Pending, Applying, Active, Previous, Rollback_pending, Rolled_back,
      Activation_failed]"

fun workspace_transitions :: "workspace_state \<Rightarrow> workspace_state list" where
  "workspace_transitions Absent = [Planned]"
| "workspace_transitions Planned = [Downloading, Workspace_failed]"
| "workspace_transitions Downloading = [Download_paused, Downloaded, Workspace_failed]"
| "workspace_transitions Download_paused = [Downloading, Workspace_expired]"
| "workspace_transitions Downloaded = [Validating, Workspace_failed]"
| "workspace_transitions Validating =
     [Sanitizing, Migration_rehearsal, Activation_ready, Workspace_failed]"
| "workspace_transitions Sanitizing = [Migration_rehearsal, Activation_ready, Workspace_failed]"
| "workspace_transitions Migration_rehearsal = [Activation_ready, Workspace_failed]"
| "workspace_transitions Activation_ready = [Workspace_expired]"
| "workspace_transitions Workspace_failed = [Workspace_expired]"
| "workspace_transitions Workspace_expired = []"

fun job_transitions :: "job_status \<Rightarrow> job_status list" where
  "job_transitions Queued = [Claimed, Cancelled]"
| "job_transitions Claimed = [Running, Stale, Cancelling]"
| "job_transitions Running =
     [Waiting, Cancelling, Retryable_failed, Terminal_failed, Succeeded, Stale]"
| "job_transitions Waiting = [Running, Cancelling, Stale]"
| "job_transitions Cancelling = [Cancelled, Succeeded]"
| "job_transitions Retryable_failed = [Queued]"
| "job_transitions Stale = [Queued]"
| "job_transitions Cancelled = []"
| "job_transitions Terminal_failed = []"
| "job_transitions Succeeded = []"

text \<open>
  The guard: asking for the current state passes; asking for a state outside the current state's
  row raises with both states.
\<close>

definition guard_transition ::
  "('s \<Rightarrow> string) \<Rightarrow> 's \<Rightarrow> 's \<Rightarrow> ('s \<Rightarrow> 's list) \<Rightarrow> string \<Rightarrow> vault_error + unit" where
  "guard_transition val current requested transitions reason_code =
     (if requested = current then Inr ()
      else if requested \<notin> set (transitions current)
        then Inl (Lifecycle_conflict reason_code (Some (val current)) (Some (val requested)))
      else Inr ())"

lemma guard_transition_Inr [simp]:
  "guard_transition val c r tr reason = Inr u \<longleftrightarrow> r = c \<or> r \<in> set (tr c)"
  by (auto simp: guard_transition_def)

lemma guard_transition_Inl [simp]:
  "guard_transition val c r tr reason = Inl e \<longleftrightarrow>
     r \<noteq> c \<and> r \<notin> set (tr c) \<and> e = Lifecycle_conflict reason (Some (val c)) (Some (val r))"
  by (auto simp: guard_transition_def)

subsection \<open>Transition systems in general\<close>

text \<open>
  A table without loops of length one. Its runs; a state with an empty row is never left, and a
  set of states closed under the table is never left either.
\<close>

locale transition_table =
  fixes succs :: "'s \<Rightarrow> 's list"
  assumes no_self_loop: "s \<notin> set (succs s)"
begin

definition edge :: "'s \<Rightarrow> 's \<Rightarrow> bool" where
  "edge s t \<longleftrightarrow> t = s \<or> t \<in> set (succs s)"

definition reaches :: "'s \<Rightarrow> 's \<Rightarrow> bool" where
  "reaches = edge\<^sup>*\<^sup>*"

lemma guard_edge: "guard_transition val s t succs reason = Inr u \<longleftrightarrow> edge s t"
  by (simp add: edge_def)

lemma reaches_refl [simp]: "reaches s s"
  by (simp add: reaches_def)

lemma reaches_edge: "edge s t \<Longrightarrow> reaches s t"
  by (simp add: reaches_def r_into_rtranclp)

lemma reaches_trans: "reaches s t \<Longrightarrow> reaches t u \<Longrightarrow> reaches s u"
  by (auto simp: reaches_def)

lemma closed_reaches:
  assumes "reaches s t" "s \<in> A" "\<And>a. a \<in> A \<Longrightarrow> set (succs a) \<subseteq> A"
  shows "t \<in> A"
  using assms(1,2) unfolding reaches_def
  by (induction rule: rtranclp_induct) (use assms(3) in \<open>auto simp: edge_def\<close>)

lemma terminal_absorbing: "succs s = [] \<Longrightarrow> reaches s t \<Longrightarrow> t = s"
  using closed_reaches [of s t "{s}"] by auto

lemma unreachable_from:
  assumes "reaches s t" "s \<noteq> u" "\<And>a. u \<notin> set (succs a)"
  shows "t \<noteq> u"
  using assms(1,2) unfolding reaches_def
  by (induction rule: rtranclp_induct) (use assms(3) in \<open>auto simp: edge_def\<close>)

end

interpretation vault_table: transition_table vault_transitions
  by unfold_locales (case_tac s; simp)

interpretation runtime_table: transition_table runtime_transitions
  by unfold_locales (case_tac s; simp)

interpretation workspace_table: transition_table workspace_transitions
  by unfold_locales (case_tac s; simp)

interpretation job_table: transition_table job_transitions
  by unfold_locales (case_tac s; simp)

subsection \<open>The audit log\<close>

text \<open>
  \<^verbatim>\<open>append_event\<close> with its keyword defaults: \<open>blank_event\<close> holds the defaults, a caller overrides
  the fields it passes. \<open>save_event\<close>, \<open>delete_event\<close> and the two query-set operations are the
  append-only overrides of the model class: a saved event has a primary key.
\<close>

definition blank_event :: audit_event where
  "blank_event = \<lparr>ev_actor_id = None, ev_actor_name = '''', ev_correlation_id = '''',
     ev_job_public_id = None, ev_action = '''', ev_reason_code = '''', ev_before_state = JObj [],
     ev_after_state = JObj [], ev_confirmation_digest = '''', ev_result = '''',
     ev_safe_error_code = '''', ev_evidence = JObj []\<rparr>"

definition append_event :: "audit_event \<Rightarrow> control_db \<Rightarrow> control_db" where
  "append_event ev db = db\<lparr>events := events db @ [ev]\<rparr>"

definition save_event :: "nat option \<Rightarrow> audit_event \<Rightarrow> control_db \<Rightarrow> vault_error + control_db" where
  "save_event pk ev db =
     (if pk \<noteq> None then Inl (Type_error ''VaultAuditEvent records are append-only'')
      else Inr (append_event ev db))"

definition delete_event :: "nat option \<Rightarrow> control_db \<Rightarrow> vault_error + control_db" where
  "delete_event pk db = Inl (Type_error ''VaultAuditEvent records are append-only'')"

definition event_queryset_update :: "control_db \<Rightarrow> vault_error + control_db" where
  "event_queryset_update db = Inl (Type_error ''VaultAuditEvent records are append-only'')"

definition event_queryset_delete :: "control_db \<Rightarrow> vault_error + control_db" where
  "event_queryset_delete db = Inl (Type_error ''VaultAuditEvent records are append-only'')"

lemma append_event_frame [simp]:
  "jobs (append_event ev db) = jobs db" "generations (append_event ev db) = generations db"
  "workspaces (append_event ev db) = workspaces db" "holds (append_event ev db) = holds db"
  "projections (append_event ev db) = projections db" "gc_plans (append_event ev db) = gc_plans db"
  "retry_requests (append_event ev db) = retry_requests db"
  "snapshots (append_event ev db) = snapshots db" "profiles (append_event ev db) = profiles db"
  "get_job pid (append_event ev db) = get_job pid db"
  "get_generation pk (append_event ev db) = get_generation pk db"
  "get_workspace pk (append_event ev db) = get_workspace pk db"
  "intents (append_event ev db) = intents db" "observations (append_event ev db) = observations db"
  "events (append_event ev db) = events db @ [ev]"
  by (simp_all add: append_event_def)

subsection \<open>The transition services\<close>

definition transition_generation_vault_state ::
  "instant \<Rightarrow> nat \<Rightarrow> vault_state \<Rightarrow> string \<Rightarrow> nat option \<Rightarrow> string \<Rightarrow> string \<Rightarrow> control_db \<Rightarrow>
   vault_error + control_db \<times> artifact_generation" where
  [handler_defs]: "transition_generation_vault_state clk pk requested correlation_id actor_id actor_name reason_code db =
     bind_res (of_option Does_not_exist (get_generation pk db)) (\<lambda>locked.
     bind_res (require (ag_origin locked \<noteq> Local_maintenance)
       (Lifecycle_conflict ''vault_authority_not_applicable''
         (Some (vault_state_value (ag_vault_state locked))) (Some (vault_state_value requested)))) (\<lambda>_.
     let current = ag_vault_state locked in
     bind_res (guard_transition vault_state_value current requested vault_transitions
       ''invalid_vault_transition'') (\<lambda>_.
     if requested = current then Inr (db, locked)
     else
       let locked' = locked\<lparr>ag_vault_state := requested, ag_updated_at := clk\<rparr> in
       Inr (append_event (blank_event\<lparr>
          ev_action := ''generation_vault_state_changed'', ev_result := ''succeeded'',
          ev_correlation_id := correlation_id, ev_actor_id := actor_id,
          ev_actor_name := actor_name, ev_reason_code := reason_code,
          ev_before_state := JObj [(''vault_state'', JStr (vault_state_value current))],
          ev_after_state := JObj [(''vault_state'', JStr (vault_state_value requested))],
          ev_evidence := JObj [(''dataset_id'', JStr (ag_dataset_id locked)),
            (''generation_id'', JStr (ag_generation_id locked))]\<rparr>)
          (put_generation locked' db), locked'))))"

definition transition_generation_runtime_state ::
  "instant \<Rightarrow> nat \<Rightarrow> runtime_state \<Rightarrow> string \<Rightarrow> nat option \<Rightarrow> string \<Rightarrow> string \<Rightarrow> control_db \<Rightarrow>
   vault_error + control_db \<times> artifact_generation" where
  [handler_defs]: "transition_generation_runtime_state clk pk requested correlation_id actor_id actor_name reason_code db =
     bind_res (of_option Does_not_exist (get_generation pk db)) (\<lambda>locked.
     let current = ag_runtime_state locked in
     bind_res (guard_transition runtime_state_value current requested runtime_transitions
       ''invalid_runtime_transition'') (\<lambda>_.
     if requested = current then Inr (db, locked)
     else
       let locked' = locked\<lparr>ag_runtime_state := requested, ag_updated_at := clk\<rparr> in
       Inr (append_event (blank_event\<lparr>
          ev_action := ''generation_runtime_state_changed'', ev_result := ''succeeded'',
          ev_correlation_id := correlation_id, ev_actor_id := actor_id,
          ev_actor_name := actor_name, ev_reason_code := reason_code,
          ev_before_state := JObj [(''runtime_state'', JStr (runtime_state_value current))],
          ev_after_state := JObj [(''runtime_state'', JStr (runtime_state_value requested))],
          ev_evidence := JObj [(''deployment_id'', JStr (ag_deployment_id locked)),
            (''generation_id'', JStr (ag_generation_id locked))]\<rparr>)
          (put_generation locked' db), locked')))"

definition transition_workspace ::
  "instant \<Rightarrow> nat \<Rightarrow> workspace_state \<Rightarrow> string \<Rightarrow> nat option \<Rightarrow> string \<Rightarrow> string \<Rightarrow> control_db \<Rightarrow>
   vault_error + control_db \<times> restore_workspace" where
  [handler_defs]: "transition_workspace clk pk requested correlation_id actor_id actor_name reason_code db =
     bind_res (of_option Does_not_exist (get_workspace pk db)) (\<lambda>locked.
     let current = rw_state locked in
     bind_res (guard_transition workspace_state_value current requested workspace_transitions
       ''invalid_workspace_transition'') (\<lambda>_.
     if requested = current then Inr (db, locked)
     else
       let locked' = locked\<lparr>rw_state := requested, rw_updated_at := clk\<rparr> in
       Inr (append_event (blank_event\<lparr>
          ev_action := ''workspace_state_changed'', ev_result := ''succeeded'',
          ev_correlation_id := correlation_id, ev_actor_id := actor_id,
          ev_actor_name := actor_name, ev_reason_code := reason_code,
          ev_before_state := JObj [(''workspace_state'', JStr (workspace_state_value current))],
          ev_after_state := JObj [(''workspace_state'', JStr (workspace_state_value requested))],
          ev_evidence := JObj [(''workspace_id'', JStr (rw_public_id locked))]\<rparr>)
          (put_workspace locked' db), locked')))"

definition transition_job ::
  "instant \<Rightarrow> string \<Rightarrow> job_status \<Rightarrow> string option \<Rightarrow> string \<Rightarrow> string \<Rightarrow> control_db \<Rightarrow>
   vault_error + control_db \<times> vault_job" where
  [handler_defs]: "transition_job clk pid requested correlation_id reason_code safe_error_code db =
     bind_res (of_option Does_not_exist (get_job pid db)) (\<lambda>locked.
     let current = job_status locked in
     bind_res (guard_transition job_status_value current requested job_transitions
       ''invalid_job_transition'') (\<lambda>_.
     if requested = current then Inr (db, locked)
     else
       let locked' = locked\<lparr>job_status := requested, job_state_version := job_state_version locked + 1,
             job_safe_error_code :=
               (if safe_error_code \<noteq> '''' then safe_error_code else job_safe_error_code locked),
             job_updated_at := clk\<rparr> in
       Inr (append_event (blank_event\<lparr>
          ev_action := ''job_state_changed'', ev_result := ''succeeded'',
          ev_correlation_id :=
            (case correlation_id of Some c \<Rightarrow> (if c \<noteq> '''' then c else job_correlation_id locked)
             | None \<Rightarrow> job_correlation_id locked),
          ev_actor_id := job_requested_by_id locked, ev_actor_name := job_requested_by_name locked,
          ev_job_public_id := Some (job_public_id locked), ev_reason_code := reason_code,
          ev_before_state := JObj [(''job_state'', JStr (job_status_value current))],
          ev_after_state := JObj [(''job_state'', JStr (job_status_value requested))],
          ev_safe_error_code := safe_error_code\<rparr>)
          (put_job locked' db), locked')))"

subsection \<open>What the services guarantee\<close>

lemma guarded_generation_edge:
  assumes "transition_generation_vault_state clk pk req cor aid an rc db = Inr (db', g')"
  obtains g where "get_generation pk db = Some g" "ag_origin g \<noteq> Local_maintenance"
    "vault_table.edge (ag_vault_state g) req" "ag_vault_state g' = req"
    "get_generation pk db' = Some g'" "ag_pk g' = pk" "ag_runtime_state g' = ag_runtime_state g"
    "ag_origin g' = ag_origin g" "db' = db \<and> g' = g \<or> (\<exists>ev. db' = append_event ev (put_generation g' db))"
proof -
  from assms obtain g where g: "get_generation pk db = Some g"
    by (auto simp: handler_defs Let_def)
  have key: "ag_pk g = pk" using g by (rule generation_rows.get_key)
  show thesis
    using assms g key
    by (intro that [of g])
      (auto simp: handler_defs Let_def vault_table.edge_def generation_rows.get_put_same
        split: if_splits)
qed

lemma guarded_runtime_edge:
  assumes "transition_generation_runtime_state clk pk req cor aid an rc db = Inr (db', g')"
  obtains g where "get_generation pk db = Some g"
    "runtime_table.edge (ag_runtime_state g) req" "ag_runtime_state g' = req"
    "get_generation pk db' = Some g'" "ag_pk g' = pk" "ag_vault_state g' = ag_vault_state g"
    "ag_origin g' = ag_origin g" "db' = db \<and> g' = g \<or> (\<exists>ev. db' = append_event ev (put_generation g' db))"
proof -
  from assms obtain g where g: "get_generation pk db = Some g"
    by (auto simp: handler_defs Let_def)
  have key: "ag_pk g = pk" using g by (rule generation_rows.get_key)
  show thesis
    using assms g key
    by (intro that [of g])
      (auto simp: handler_defs Let_def runtime_table.edge_def generation_rows.get_put_same
        split: if_splits)
qed

lemma guarded_workspace_edge:
  assumes "transition_workspace clk pk req cor aid an rc db = Inr (db', w')"
  obtains w where "get_workspace pk db = Some w"
    "workspace_table.edge (rw_state w) req" "rw_state w' = req"
    "get_workspace pk db' = Some w'" "rw_pk w' = pk"
    "db' = db \<and> w' = w \<or> (\<exists>ev. db' = append_event ev (put_workspace w' db))"
proof -
  from assms obtain w where w: "get_workspace pk db = Some w"
    by (auto simp: handler_defs Let_def)
  have key: "rw_pk w = pk" using w by (rule workspace_rows.get_key)
  show thesis
    using assms w key
    by (intro that [of w])
      (auto simp: handler_defs Let_def workspace_table.edge_def workspace_rows.get_put_same
        split: if_splits)
qed

end
