(* ===== verification/Vault_Jobs.thy ===== *)
theory Vault_Jobs
  imports Vault_Lifecycle "HOL-Library.Product_Lexorder"
begin

section \<open>The job queue\<close>

text \<open>
  \<^verbatim>\<open>flowdocs/vaultops/services/jobs.py\<close>: workers claim queued jobs, own them by a secret token and a
  fencing epoch, report progress, finish or fail them; operators cancel and requeue them; a sweep
  marks the jobs of silent workers stale.

  \<open>sha\<close> is \<^verbatim>\<open>hashlib.sha256(...).hexdigest()\<close> on the token's text. A token is drawn by the caller's
  random source and passed in. \<open>clk\<close> is the clock reading of the handler and \<open>now\<close> the optional
  argument that overrides it. The filesystem evidence that makes a finalized snapshot resumable
  (\<^verbatim>\<open>finalized_snapshot_resume_eligible\<close>) is the predicate \<open>eligible\<close>; \<open>grace\<close> is the setting
  \<^verbatim>\<open>VAULT_SNAPSHOT_CLEANUP_GRACE_SECONDS\<close>.
\<close>

definition now_or :: "instant option \<Rightarrow> instant \<Rightarrow> instant" where
  "now_or now clk = (case now of None \<Rightarrow> clk | Some t \<Rightarrow> t)"

subsection \<open>Ownership\<close>

definition verify_owner :: "(string \<Rightarrow> digest) \<Rightarrow> vault_job \<Rightarrow> string \<Rightarrow> nat \<Rightarrow> vault_error + unit" where
  "verify_owner sha job token fencing_epoch =
     (if job_claim_token_hash job = '''' \<or> job_claim_token_hash job \<noteq> sha token
          \<or> job_fencing_epoch job \<noteq> fencing_epoch
      then Inl (Claim_rejected ''stale_job_owner'' (Some (job_status_value (job_status job)))
             (Some (job_status_value (job_status job))))
      else Inr ())"

lemma verify_owner_Inr [simp]:
  "verify_owner sha job token e = Inr u \<longleftrightarrow>
     job_claim_token_hash job \<noteq> '''' \<and> job_claim_token_hash job = sha token \<and> job_fencing_epoch job = e"
  by (auto simp: verify_owner_def)

definition job_event :: "vault_job \<Rightarrow> audit_event" where
  "job_event job = blank_event\<lparr>ev_correlation_id := job_correlation_id job,
     ev_actor_id := job_requested_by_id job, ev_actor_name := job_requested_by_name job,
     ev_job_public_id := Some (job_public_id job)\<rparr>"

definition state_json :: "job_status \<Rightarrow> json" where
  "state_json st = JObj [(''job_state'', JStr (job_status_value st))]"

definition claim_job ::
  "(string \<Rightarrow> digest) \<Rightarrow> instant \<Rightarrow> instant option \<Rightarrow> string \<Rightarrow> string \<Rightarrow> string \<Rightarrow> control_db \<Rightarrow>
   vault_error + control_db \<times> vault_job \<times> string" where
  [handler_defs]: "claim_job sha clk now token pid worker_id db =
     bind_res (of_option Does_not_exist (get_job pid db)) (\<lambda>job.
     bind_res (guard_transition job_status_value (job_status job) Claimed job_transitions
       ''job_not_claimable'') (\<lambda>_.
     let job' = job\<lparr>job_status := Claimed, job_claim_token_hash := sha token,
           job_claimed_by := worker_id, job_fencing_epoch := job_fencing_epoch job + 1,
           job_heartbeat_at := Some (now_or now clk),
           job_state_version := job_state_version job + 1, job_updated_at := clk\<rparr> in
     Inr (append_event ((job_event job)\<lparr>ev_action := ''job_claimed'', ev_result := ''succeeded'',
            ev_before_state := state_json (job_status job),
            ev_after_state := JObj [(''job_state'', JStr (job_status_value (job_status job'))),
              (''fencing_epoch'', JInt (int (job_fencing_epoch job'))),
              (''worker_id'', JStr worker_id)]\<rparr>)
          (put_job job' db), job', token)))"

text \<open>
  \<^verbatim>\<open>claim_next_job\<close> reads its candidate before the claiming transaction, so the database it claims
  in (\<open>db\<close>) may have moved on from the one it read (\<open>seen\<close>).
\<close>

definition next_candidate :: "control_db \<Rightarrow> string option" where
  "next_candidate db =
     (case sort_key job_created_at (filter (\<lambda>j. job_status j = Queued) (jobs db)) of
        [] \<Rightarrow> None | j # _ \<Rightarrow> Some (job_public_id j))"

definition claim_next_job ::
  "(string \<Rightarrow> digest) \<Rightarrow> instant \<Rightarrow> instant option \<Rightarrow> string \<Rightarrow> string \<Rightarrow> control_db \<Rightarrow> control_db \<Rightarrow>
   vault_error + control_db \<times> (vault_job \<times> string) option" where
  "claim_next_job sha clk now token worker_id seen db =
     (case next_candidate seen of
        None \<Rightarrow> Inr (db, None)
      | Some candidate \<Rightarrow>
          (case claim_job sha clk now token candidate worker_id db of
             Inr (db', job, tok) \<Rightarrow> Inr (db', Some (job, tok))
           | Inl (Lifecycle_conflict r c q) \<Rightarrow> Inr (db, None)
           | Inl (Claim_rejected r c q) \<Rightarrow> Inr (db, None)
           | Inl e \<Rightarrow> Inl e))"

definition start_job ::
  "(string \<Rightarrow> digest) \<Rightarrow> instant \<Rightarrow> instant option \<Rightarrow> string \<Rightarrow> string \<Rightarrow> nat \<Rightarrow> control_db \<Rightarrow>
   vault_error + control_db \<times> vault_job" where
  [handler_defs]: "start_job sha clk now pid token fencing_epoch db =
     bind_res (of_option Does_not_exist (get_job pid db)) (\<lambda>job.
     bind_res (verify_owner sha job token fencing_epoch) (\<lambda>_.
     bind_res (guard_transition job_status_value (job_status job) Running job_transitions
       ''job_not_startable'') (\<lambda>_.
     let job' = job\<lparr>job_status := Running,
           job_started_at := (case job_started_at job of None \<Rightarrow> Some (now_or now clk) | Some t \<Rightarrow> Some t),
           job_heartbeat_at := Some (now_or now clk),
           job_state_version := job_state_version job + 1, job_updated_at := clk\<rparr> in
     Inr (append_event ((job_event job)\<lparr>ev_action := ''job_started'', ev_result := ''succeeded'',
            ev_before_state := state_json Claimed,
            ev_after_state := JObj [(''job_state'', JStr (job_status_value (job_status job'))),
              (''fencing_epoch'', JInt (int (job_fencing_epoch job')))]\<rparr>)
          (put_job job' db), job'))))"

definition heartbeat_job ::
  "(string \<Rightarrow> digest) \<Rightarrow> instant \<Rightarrow> instant option \<Rightarrow> string \<Rightarrow> string \<Rightarrow> nat \<Rightarrow> string option \<Rightarrow>
   json option \<Rightarrow> control_db \<Rightarrow> vault_error + control_db \<times> vault_job" where
  [handler_defs]: "heartbeat_job sha clk now pid token fencing_epoch phase progress db =
     bind_res (of_option Does_not_exist (get_job pid db)) (\<lambda>job.
     bind_res (verify_owner sha job token fencing_epoch) (\<lambda>_.
     bind_res (require (job_status job \<in> {Claimed, Running, Waiting, Cancelling})
       (Claim_rejected ''job_not_owned'' (Some (job_status_value (job_status job)))
         (Some (job_status_value (job_status job))))) (\<lambda>_.
     let job' = job\<lparr>job_heartbeat_at := Some (now_or now clk),
           job_phase := (case phase of None \<Rightarrow> job_phase job | Some p \<Rightarrow> p),
           job_progress := (case progress of None \<Rightarrow> job_progress job | Some p \<Rightarrow> p),
           job_updated_at := clk\<rparr> in
     Inr (put_job job' db, job'))))"

definition request_cancellation ::
  "instant \<Rightarrow> instant option \<Rightarrow> string \<Rightarrow> control_db \<Rightarrow> vault_error + control_db \<times> vault_job" where
  [handler_defs]: "request_cancellation clk now pid db =
     bind_res (of_option Does_not_exist (get_job pid db)) (\<lambda>job.
     let requested = (if job_status job = Queued then Cancelled else Cancelling) in
     bind_res (guard_transition job_status_value (job_status job) requested job_transitions
       ''job_not_cancellable'') (\<lambda>_.
     let job' = job\<lparr>job_status := requested, job_cancellation_requested_at := Some (now_or now clk),
           job_state_version := job_state_version job + 1,
           job_finished_at :=
             (if requested = Cancelled then Some (now_or now clk) else job_finished_at job),
           job_updated_at := clk\<rparr> in
     Inr (append_event ((job_event job)\<lparr>ev_action := ''job_cancellation_requested'',
            ev_result := ''succeeded'', ev_before_state := state_json (job_status job),
            ev_after_state := state_json requested\<rparr>) (put_job job' db), job')))"

definition cancellation_requested :: "string \<Rightarrow> control_db \<Rightarrow> bool" where
  "cancellation_requested pid db =
     list_ex (\<lambda>j. job_public_id j = pid \<and> job_status j = Cancelling) (jobs db)"

definition complete_owned_job ::
  "(string \<Rightarrow> digest) \<Rightarrow> instant \<Rightarrow> instant option \<Rightarrow> string \<Rightarrow> string \<Rightarrow> nat \<Rightarrow> bool \<Rightarrow> control_db \<Rightarrow>
   vault_error + control_db \<times> vault_job" where
  [handler_defs]: "complete_owned_job sha clk now pid token fencing_epoch irreversible_completed db =
     bind_res (of_option Does_not_exist (get_job pid db)) (\<lambda>job.
     bind_res (verify_owner sha job token fencing_epoch) (\<lambda>_.
     let requested = (if job_status job \<noteq> Cancelling \<or> irreversible_completed
                      then Succeeded else Cancelled) in
     bind_res (guard_transition job_status_value (job_status job) requested job_transitions
       ''job_not_completable'') (\<lambda>_.
     let job' = job\<lparr>job_status := requested, job_finished_at := Some (now_or now clk),
           job_heartbeat_at := Some (now_or now clk), job_claim_token_hash := '''',
           job_claimed_by := '''', job_state_version := job_state_version job + 1,
           job_updated_at := clk\<rparr> in
     Inr (append_event ((job_event job)\<lparr>ev_action := ''job_completed'',
            ev_result := job_status_value requested,
            ev_before_state := state_json (job_status job),
            ev_after_state := state_json requested\<rparr>) (put_job job' db), job'))))"

definition fail_owned_job ::
  "(string \<Rightarrow> digest) \<Rightarrow> instant \<Rightarrow> instant option \<Rightarrow> string \<Rightarrow> string \<Rightarrow> nat \<Rightarrow> string \<Rightarrow> bool \<Rightarrow>
   control_db \<Rightarrow> vault_error + control_db \<times> vault_job" where
  [handler_defs]: "fail_owned_job sha clk now pid token fencing_epoch safe_error_code retryable db =
     (let requested = (if retryable then Retryable_failed else Terminal_failed) in
     bind_res (of_option Does_not_exist (get_job pid db)) (\<lambda>job.
     bind_res (verify_owner sha job token fencing_epoch) (\<lambda>_.
     bind_res (guard_transition job_status_value (job_status job) requested job_transitions
       ''job_not_failable'') (\<lambda>_.
     let job' = job\<lparr>job_status := requested, job_safe_error_code := safe_error_code,
           job_finished_at := Some (now_or now clk), job_heartbeat_at := Some (now_or now clk),
           job_claim_token_hash := '''', job_claimed_by := '''',
           job_state_version := job_state_version job + 1, job_updated_at := clk\<rparr> in
     Inr (append_event ((job_event job)\<lparr>ev_action := ''job_failed'',
            ev_result := job_status_value requested,
            ev_before_state := state_json (job_status job),
            ev_after_state := state_json requested, ev_safe_error_code := safe_error_code\<rparr>)
          (put_job job' db), job')))))"

subsection \<open>Recovery of silent workers\<close>

definition stale_candidates :: "instant \<Rightarrow> control_db \<Rightarrow> nat list" where
  "stale_candidates cutoff db =
     map job_pk (filter (\<lambda>j. job_status j \<in> {Claimed, Running, Waiting} \<and>
       (case job_heartbeat_at j of None \<Rightarrow> False | Some t \<Rightarrow> t < cutoff)) (jobs db))"

definition mark_stale :: "instant \<Rightarrow> vault_job \<Rightarrow> vault_job" where
  "mark_stale clk job = job\<lparr>job_status := Stale, job_claim_token_hash := '''', job_claimed_by := '''',
     job_state_version := job_state_version job + 1,
     job_safe_error_code := ''worker_heartbeat_expired'', job_updated_at := clk\<rparr>"

lemma mark_stale_simps [simp]:
  "job_status (mark_stale clk j) = Stale" "job_claim_token_hash (mark_stale clk j) = ''''"
  "job_public_id (mark_stale clk j) = job_public_id j" "job_pk (mark_stale clk j) = job_pk j"
  "job_operation (mark_stale clk j) = job_operation j"
  "job_idempotency_key (mark_stale clk j) = job_idempotency_key j"
  "job_fencing_epoch (mark_stale clk j) = job_fencing_epoch j"
  "job_state_version (mark_stale clk j) = job_state_version j + 1"
  "job_retry_count (mark_stale clk j) = job_retry_count j"
  "job_heartbeat_at (mark_stale clk j) = job_heartbeat_at j"
  by (simp_all add: mark_stale_def)

definition recover_one ::
  "instant \<Rightarrow> instant \<Rightarrow> nat \<Rightarrow> control_db \<Rightarrow> vault_error + control_db \<times> string option" where
  [handler_defs]: "recover_one clk cutoff pk db =
     bind_res (of_option Does_not_exist (find_row job_pk pk (jobs db))) (\<lambda>job.
     if (case job_heartbeat_at job of None \<Rightarrow> True | Some t \<Rightarrow> t \<ge> cutoff) then Inr (db, None)
     else
     bind_res (guard_transition job_status_value (job_status job) Stale job_transitions
       ''job_not_recoverable'') (\<lambda>_.
     let job' = mark_stale clk job in
     Inr (append_event (blank_event\<lparr>ev_action := ''job_marked_stale'', ev_result := ''succeeded'',
            ev_correlation_id := job_correlation_id job,
            ev_job_public_id := Some (job_public_id job),
            ev_before_state := state_json (job_status job),
            ev_after_state := JObj [(''job_state'', JStr (job_status_value (job_status job'))),
              (''fencing_epoch'', JInt (int (job_fencing_epoch job')))],
            ev_safe_error_code := ''worker_heartbeat_expired''\<rparr>)
          (put_job job' db), Some (job_public_id job))))"

text \<open>
  The sweep: every candidate in a transaction of its own, which locks and reads the row again. Workers,
  operators and other sweeps may act between the scan and these transactions: \<open>others n\<close> is what they did
  before the one numbered \<open>n\<close>. An exception ends the sweep; the transactions before it stay.
\<close>

fun recover_each ::
  "(nat \<Rightarrow> control_db \<Rightarrow> control_db) \<Rightarrow> nat \<Rightarrow> instant \<Rightarrow> instant \<Rightarrow> nat list \<Rightarrow> string list \<Rightarrow> control_db \<Rightarrow>
   control_db \<times> (vault_error + string list)" where
  "recover_each others n clk cutoff [] recovered db = (db, Inr recovered)"
| "recover_each others n clk cutoff (pk # pks) recovered db0 =
     (let db = others n db0 in
      case recover_one clk cutoff pk db of
        Inl e \<Rightarrow> (db, Inl e)
      | Inr (db', None) \<Rightarrow> recover_each others (Suc n) clk cutoff pks recovered db'
      | Inr (db', Some pid) \<Rightarrow> recover_each others (Suc n) clk cutoff pks (recovered @ [pid]) db')"

definition recover_stale_jobs ::
  "(nat \<Rightarrow> control_db \<Rightarrow> control_db) \<Rightarrow> instant \<Rightarrow> instant option \<Rightarrow> int \<Rightarrow> control_db \<Rightarrow>
   control_db \<times> (vault_error + string list)" where
  "recover_stale_jobs others clk now stale_seconds db =
     (let cutoff = now_or now clk - seconds stale_seconds in
      recover_each others 0 clk cutoff (stale_candidates cutoff db) [] db)"

subsection \<open>Requeueing\<close>

text \<open>
  From \<^verbatim>\<open>services/snapshot.py\<close>: the newest finalized snapshot of the job that may be resumed, and the
  cleanup intents recorded for the others. A snapshot already pending or being reclaimed, or one
  without a workspace, is left alone.
\<close>

definition eligible_finalized_snapshot ::
  "(source_snapshot \<Rightarrow> bool) \<Rightarrow> vault_job \<Rightarrow> control_db \<Rightarrow> source_snapshot option" where
  "eligible_finalized_snapshot eligible job db =
     List.find eligible
       (sort_key (\<lambda>s. (case ss_finalized_at s of None \<Rightarrow> (1::int, 0) | Some t \<Rightarrow> (0, - t),
                       - ss_created_at s))
         (filter (\<lambda>s. ss_job s = job_pk job \<and> ss_state s = Finalized) (snapshots db)))"

definition needs_cleanup :: "nat \<Rightarrow> bool \<Rightarrow> nat option \<Rightarrow> source_snapshot \<Rightarrow> bool" where
  "needs_cleanup job include_finalized excluded s =
     (ss_job s = job \<and> (include_finalized \<or> ss_state s \<noteq> Finalized) \<and> Some (ss_pk s) \<noteq> excluded
      \<and> ss_workspace_path s \<noteq> '''' \<and> ss_cleanup_state s \<notin> {Cleanup_pending, Reclaiming})"

definition cleanup_intent :: "instant \<Rightarrow> int \<Rightarrow> string \<Rightarrow> source_snapshot \<Rightarrow> source_snapshot" where
  "cleanup_intent clk grace reason s =
     s\<lparr>ss_cleanup_state := Cleanup_pending,
       ss_cleanup_path := (if ss_cleanup_path s = '''' then ss_workspace_path s else ss_cleanup_path s),
       ss_cleanup_not_before :=
         Some (clk + seconds (if ss_state s \<in> {Copying, Snapshot_barrier} then grace else 0)),
       ss_cleanup_error_code := '''',
       ss_evidence := json_merge (ss_evidence s)
         [(''workspace_cleanup'', JObj [(''status'', JStr ''pending''), (''reason'', JStr reason)])],
       ss_updated_at := clk\<rparr>"

definition stage_snapshot_cleanup ::
  "instant \<Rightarrow> int \<Rightarrow> nat \<Rightarrow> string \<Rightarrow> bool \<Rightarrow> nat option \<Rightarrow> control_db \<Rightarrow> control_db \<times> nat" where
  "stage_snapshot_cleanup clk grace job reason include_finalized excluded db =
     (db\<lparr>snapshots := map (\<lambda>s. if needs_cleanup job include_finalized excluded s
                              then cleanup_intent clk grace reason s else s) (snapshots db)\<rparr>,
      length (filter (needs_cleanup job include_finalized excluded) (snapshots db)))"

text \<open>
  The result of a requeue: the job, the receipt, whether this call made the change, and whether it
  registered the snapshot cleanup that runs after the commit (\<^verbatim>\<open>transaction.on_commit\<close>, best effort:
  it swallows its own failures).
\<close>

record requeue_result =
  rq_job :: vault_job
  rq_receipt :: retry_request
  rq_created :: bool
  rq_on_commit :: bool

definition retry_mode_of :: "vault_job \<Rightarrow> source_snapshot option \<Rightarrow> retry_mode" where
  "retry_mode_of job resumable =
     (if resumable \<noteq> None then Checkpoint_resume
      else if job_operation job = ''sync_publish'' then Fresh_snapshot else Operation_retry)"

definition find_receipt :: "nat \<Rightarrow> string \<Rightarrow> control_db \<Rightarrow> retry_request option" where
  "find_receipt job key db =
     List.find (\<lambda>r. rr_job r = job \<and> rr_idempotency_key r = key) (retry_requests db)"

definition requeued :: "instant \<Rightarrow> vault_job \<Rightarrow> vault_job" where
  "requeued clk job = job\<lparr>job_status := Queued, job_retry_count := job_retry_count job + 1,
     job_safe_error_code := '''', job_heartbeat_at := None, job_claim_token_hash := '''',
     job_claimed_by := '''', job_fencing_epoch := job_fencing_epoch job + 1,
     job_state_version := job_state_version job + 1, job_updated_at := clk\<rparr>"

lemma requeued_simps [simp]:
  "job_status (requeued clk j) = Queued" "job_claim_token_hash (requeued clk j) = ''''"
  "job_public_id (requeued clk j) = job_public_id j" "job_pk (requeued clk j) = job_pk j"
  "job_operation (requeued clk j) = job_operation j"
  "job_idempotency_key (requeued clk j) = job_idempotency_key j"
  "job_fencing_epoch (requeued clk j) = job_fencing_epoch j + 1"
  "job_state_version (requeued clk j) = job_state_version j + 1"
  "job_retry_count (requeued clk j) = job_retry_count j + 1"
  "job_heartbeat_at (requeued clk j) = None"
  by (simp_all add: requeued_def)

definition requeue_job_once ::
  "(source_snapshot \<Rightarrow> bool) \<Rightarrow> int \<Rightarrow> instant \<Rightarrow> string \<Rightarrow> nat \<Rightarrow> string \<Rightarrow> nat option \<Rightarrow> string \<Rightarrow>
   control_db \<Rightarrow> vault_error + control_db \<times> requeue_result" where
  [handler_defs]: "requeue_job_once eligible grace clk pid expected_state_version idempotency_key actor_id actor_name db =
     bind_res (of_option Does_not_exist (get_job pid db)) (\<lambda>job.
     case find_receipt (job_pk job) idempotency_key db of
       Some receipt \<Rightarrow>
         if rr_requested_state_version receipt \<noteq> expected_state_version \<or> rr_actor_id receipt \<noteq> actor_id
         then Inl (Lifecycle_conflict ''idempotency_conflict'' None None)
         else Inr (db, \<lparr>rq_job = job, rq_receipt = receipt, rq_created = False, rq_on_commit = False\<rparr>)
     | None \<Rightarrow>
         bind_res (require (job_state_version job = expected_state_version)
           (Lifecycle_conflict ''stale_state'' None None)) (\<lambda>_.
         bind_res (guard_transition job_status_value (job_status job) Queued job_transitions
           ''job_not_retryable'') (\<lambda>_.
         let sync = (job_operation job = ''sync_publish'');
             resumable = (if sync then eligible_finalized_snapshot eligible job db else None);
             mode = retry_mode_of job resumable;
             staged = (if sync then stage_snapshot_cleanup clk grace (job_pk job) ''retry_preparation''
                                      True (map_option ss_pk resumable) db
                       else (db, 0));
             job' = requeued clk job;
             receipt = \<lparr>rr_job = job_pk job, rr_idempotency_key = idempotency_key,
               rr_requested_state_version = expected_state_version,
               rr_resulting_state_version = job_state_version job',
               rr_resulting_retry_count = job_retry_count job', rr_mode = mode,
               rr_actor_id = actor_id, rr_actor_name = actor_name\<rparr>;
             db1 = put_job job' (fst staged);
             db2 = db1\<lparr>retry_requests := retry_requests db1 @ [receipt]\<rparr>
         in Inr (append_event (blank_event\<lparr>ev_action := ''job_requeued'',
                ev_result := ''succeeded'', ev_correlation_id := job_correlation_id job,
                ev_actor_id := actor_id, ev_actor_name := actor_name,
                ev_job_public_id := Some (job_public_id job),
                ev_before_state := state_json (job_status job),
                ev_after_state := JObj [(''job_state'', JStr (job_status_value (job_status job'))),
                  (''state_version'', JInt (int (job_state_version job'))),
                  (''retry_count'', JInt (int (job_retry_count job')))],
                ev_evidence := JObj [(''retry_mode'', JStr (retry_mode_value mode)),
                  (''snapshot_cleanup_intents'', JInt (int (snd staged)))]\<rparr>) db2,
              \<lparr>rq_job = job', rq_receipt = receipt, rq_created = True, rq_on_commit = sync\<rparr>))))"

text \<open>
  The retry loop against a locked database file. \<open>fault n\<close> is the message of the
  \<^verbatim>\<open>OperationalError\<close> the \<open>n\<close>-th attempt meets, if it meets one (its transaction is rolled back).
  The pauses between attempts are left out. The fifth attempt either returns or raises, so the
  count never runs out.
\<close>

fun requeue_attempts ::
  "(nat \<Rightarrow> string option) \<Rightarrow> (control_db \<Rightarrow> vault_error + 'a) \<Rightarrow> nat \<Rightarrow> nat \<Rightarrow> control_db \<Rightarrow>
   vault_error + 'a" where
  "requeue_attempts fault once attempt 0 db = Inl (Operational_error '''')"
| "requeue_attempts fault once attempt (Suc left) db =
     (case fault attempt of
        None \<Rightarrow> once db
      | Some message \<Rightarrow>
          if \<not> contains_text ''locked'' (py_lower message) \<or> attempt = 4
          then Inl (Operational_error message)
          else requeue_attempts fault once (attempt + 1) left db)"

definition requeue_job ::
  "(nat \<Rightarrow> string option) \<Rightarrow> (source_snapshot \<Rightarrow> bool) \<Rightarrow> int \<Rightarrow> instant \<Rightarrow> string \<Rightarrow> nat \<Rightarrow> string \<Rightarrow>
   nat option \<Rightarrow> string \<Rightarrow> control_db \<Rightarrow> vault_error + control_db \<times> requeue_result" where
  "requeue_job fault eligible grace clk pid expected_state_version idempotency_key actor_id actor_name db =
     requeue_attempts fault
       (requeue_job_once eligible grace clk pid expected_state_version idempotency_key actor_id actor_name)
       0 5 db"

lemma stage_snapshot_cleanup_frame [simp]:
  "jobs (fst (stage_snapshot_cleanup clk grace job reason incl excl db)) = jobs db"
  "events (fst (stage_snapshot_cleanup clk grace job reason incl excl db)) = events db"
  "retry_requests (fst (stage_snapshot_cleanup clk grace job reason incl excl db)) = retry_requests db"
  "generations (fst (stage_snapshot_cleanup clk grace job reason incl excl db)) = generations db"
  "workspaces (fst (stage_snapshot_cleanup clk grace job reason incl excl db)) = workspaces db"
  "get_job pid (fst (stage_snapshot_cleanup clk grace job reason incl excl db)) = get_job pid db"
  by (simp_all add: stage_snapshot_cleanup_def)

end
