(* ===== verification/Vault_Job_Safety.thy ===== *)
theory Vault_Job_Safety
  imports Vault_Jobs
begin

section \<open>What the job queue guarantees\<close>

text \<open>
  Every operation of the job queue is one step of a relation on the control database, so that any
  interleaving of workers, operators and sweeps is a run of it. A step rewrites at most one job row,
  moves it along the transition table, never lowers its counters, and only appends to the audit log.
\<close>

inductive vault_job_step ::
  "(string \<Rightarrow> digest) \<Rightarrow> (source_snapshot \<Rightarrow> bool) \<Rightarrow> int \<Rightarrow> control_db \<Rightarrow> control_db \<Rightarrow> bool"
  for sha eligible grace where
  claim: "claim_job sha clk now token pid worker db = Inr (db', r) \<Longrightarrow>
    vault_job_step sha eligible grace db db'"
| start: "start_job sha clk now pid token e db = Inr (db', r) \<Longrightarrow>
    vault_job_step sha eligible grace db db'"
| heartbeat: "heartbeat_job sha clk now pid token e phase progress db = Inr (db', r) \<Longrightarrow>
    vault_job_step sha eligible grace db db'"
| cancel: "request_cancellation clk now pid db = Inr (db', r) \<Longrightarrow>
    vault_job_step sha eligible grace db db'"
| complete: "complete_owned_job sha clk now pid token e irr db = Inr (db', r) \<Longrightarrow>
    vault_job_step sha eligible grace db db'"
| failed: "fail_owned_job sha clk now pid token e code retryable db = Inr (db', r) \<Longrightarrow>
    vault_job_step sha eligible grace db db'"
| recover: "recover_one clk cutoff pk db = Inr (db', r) \<Longrightarrow>
    vault_job_step sha eligible grace db db'"
| requeue: "requeue_job_once eligible grace clk pid v key actor name db = Inr (db', r) \<Longrightarrow>
    vault_job_step sha eligible grace db db'"
| transition: "transition_job clk pid requested cor reason code db = Inr (db', r) \<Longrightarrow>
    vault_job_step sha eligible grace db db'"

definition jobs_wf :: "control_db \<Rightarrow> bool" where
  "jobs_wf db = (distinct (map job_public_id (jobs db)) \<and> distinct (map job_pk (jobs db)))"

definition job_evolves :: "vault_job \<Rightarrow> vault_job \<Rightarrow> bool" where
  "job_evolves j j' =
     (job_public_id j' = job_public_id j \<and> job_pk j' = job_pk j
      \<and> job_operation j' = job_operation j \<and> job_idempotency_key j' = job_idempotency_key j
      \<and> job_table.edge (job_status j) (job_status j')
      \<and> job_fencing_epoch j \<le> job_fencing_epoch j'
      \<and> job_state_version j \<le> job_state_version j' \<and> job_retry_count j \<le> job_retry_count j'
      \<and> (job_status j' \<noteq> job_status j \<longrightarrow> job_state_version j < job_state_version j'))"

lemma job_evolves_refl [simp]: "job_evolves j j"
  by (simp add: job_evolves_def job_table.edge_def)

text \<open>The receipts a step added, and the one row it wrote.\<close>

definition new_receipts :: "control_db \<Rightarrow> control_db \<Rightarrow> retry_request list" where
  "new_receipts db db' = drop (length (retry_requests db)) (retry_requests db')"

definition job_write :: "control_db \<Rightarrow> control_db \<Rightarrow> vault_job \<Rightarrow> vault_job \<Rightarrow> bool" where
  "job_write db db' j j' =
     (get_job (job_public_id j) db = Some j \<and> job_evolves j j'
      \<and> jobs db' = put_row job_public_id j' (jobs db) \<and> prefix (events db) (events db')
      \<and> generations db' = generations db \<and> workspaces db' = workspaces db
      \<and> prefix (retry_requests db) (retry_requests db')
      \<and> list_all (\<lambda>r. rr_job r = job_pk j) (new_receipts db db')
      \<and> job_retry_count j' = job_retry_count j + length (new_receipts db db'))"

lemma job_writeI:
  assumes "get_job pid db = Some j" "job_evolves j j'" "jobs db' = put_row job_public_id j' (jobs db)"
    "prefix (events db) (events db')" "generations db' = generations db" "workspaces db' = workspaces db"
    "prefix (retry_requests db) (retry_requests db')"
    "list_all (\<lambda>r. rr_job r = job_pk j) (new_receipts db db')"
    "job_retry_count j' = job_retry_count j + length (new_receipts db db')"
  shows "\<exists>j. job_write db db' j j'"
  using assms job_rows.get_key [OF assms(1)] by (auto simp: job_write_def)

lemma get_job_by_pk:
  assumes "jobs_wf db" "find_row job_pk pk (jobs db) = Some j"
  shows "get_job (job_public_id j) db = Some j"
  using assms find_row_Some [OF assms(2)] by (auto simp: jobs_wf_def get_job_def find_row_in)

text \<open>One lemma per operation: the row it returns is the one row it writes.\<close>

lemmas write_simps = job_evolves_def job_table.edge_def new_receipts_def

lemma claim_write:
  "claim_job sha clk now token pid w db = Inr (db', j', tok) \<Longrightarrow> \<exists>j. job_write db db' j j'"
  unfolding handler_defs Let_def bind_res_eq_Inr
  by (elim exE conjE) (rule job_writeI, auto simp: write_simps)

lemma start_write:
  "start_job sha clk now pid token e db = Inr (db', j') \<Longrightarrow> \<exists>j. job_write db db' j j'"
  unfolding handler_defs Let_def bind_res_eq_Inr
  by (elim exE conjE) (rule job_writeI, auto simp: write_simps)

lemma heartbeat_write:
  "heartbeat_job sha clk now pid token e ph pr db = Inr (db', j') \<Longrightarrow> \<exists>j. job_write db db' j j'"
  unfolding handler_defs Let_def bind_res_eq_Inr
  by (elim exE conjE) (rule job_writeI, auto simp: write_simps)

lemma cancel_write:
  "request_cancellation clk now pid db = Inr (db', j') \<Longrightarrow> \<exists>j. job_write db db' j j'"
  unfolding handler_defs Let_def bind_res_eq_Inr
  by (elim exE conjE) (rule job_writeI, auto simp: write_simps split: if_splits)

lemma complete_write:
  "complete_owned_job sha clk now pid token e irr db = Inr (db', j') \<Longrightarrow> \<exists>j. job_write db db' j j'"
  unfolding handler_defs Let_def bind_res_eq_Inr
  by (elim exE conjE) (rule job_writeI, auto simp: write_simps split: if_splits)

lemma fail_write:
  "fail_owned_job sha clk now pid token e code retryable db = Inr (db', j') \<Longrightarrow> \<exists>j. job_write db db' j j'"
  unfolding handler_defs Let_def bind_res_eq_Inr
  by (elim exE conjE) (rule job_writeI, auto simp: write_simps split: if_splits)

lemma put_same_job: "jobs_wf db \<Longrightarrow> get_job pid db = Some j \<Longrightarrow> put_row job_public_id j (jobs db) = jobs db"
  by (auto simp: jobs_wf_def get_job_def put_row_idem dest: find_row_Some)

lemma transition_write:
  "jobs_wf db \<Longrightarrow> transition_job clk pid req cor reason code db = Inr (db', j') \<Longrightarrow>
   \<exists>j. job_write db db' j j'"
  unfolding handler_defs Let_def bind_res_eq_Inr
  by (elim exE conjE) (rule job_writeI, auto simp: write_simps put_same_job split: if_splits)

lemma recover_write:
  assumes "jobs_wf db" "recover_one clk cutoff pk db = Inr (db', r)"
  shows "db' = db \<and> r = None \<or> (\<exists>j. job_write db db' j (mark_stale clk j) \<and> job_pk j = pk)"
proof -
  from assms(2) obtain j where j: "find_row job_pk pk (jobs db) = Some j"
    by (auto simp: recover_one_def)
  have k: "get_job (job_public_id j) db = Some j" "job_pk j = pk"
    using assms(1) j get_job_by_pk find_row_Some [OF j] by auto
  have "db' = db \<and> r = None \<or> job_write db db' j (mark_stale clk j)"
    using assms(2) j k
    by (auto simp: recover_one_def Let_def job_write_def write_simps split: if_splits)
  then show ?thesis using k by auto
qed

lemma requeue_cases:
  assumes "requeue_job_once eligible grace clk pid v key actor name db = Inr (db', r)"
  obtains
    (replay) job receipt where "get_job pid db = Some job"
      "find_receipt (job_pk job) key db = Some receipt"
      "rr_requested_state_version receipt = v" "rr_actor_id receipt = actor" "db' = db"
      "r = \<lparr>rq_job = job, rq_receipt = receipt, rq_created = False, rq_on_commit = False\<rparr>"
  | (fresh) job where "get_job pid db = Some job" "find_receipt (job_pk job) key db = None"
      "job_state_version job = v" "job_table.edge (job_status job) Queued"
      "rq_job r = requeued clk job" "rq_created r"
      "jobs db' = put_row job_public_id (requeued clk job) (jobs db)"
      "retry_requests db' = retry_requests db @ [rq_receipt r]"
      "rr_job (rq_receipt r) = job_pk job" "rr_idempotency_key (rq_receipt r) = key"
      "rr_requested_state_version (rq_receipt r) = v" "rr_actor_id (rq_receipt r) = actor"
      "rr_resulting_retry_count (rq_receipt r) = job_retry_count job + 1"
      "rr_resulting_state_version (rq_receipt r) = v + 1"
      "prefix (events db) (events db')" "generations db' = generations db"
      "workspaces db' = workspaces db"
proof -
  from assms obtain job where job: "get_job pid db = Some job"
    by (auto simp: requeue_job_once_def)
  show thesis
  proof (cases "find_receipt (job_pk job) key db")
    case (Some receipt)
    with assms job show thesis
      by (intro replay [of job receipt]) (auto simp: requeue_job_once_def split: if_splits)
  next
    case None
    with assms job show thesis
      by (intro fresh [of job])
        (auto simp: requeue_job_once_def Let_def job_table.edge_def split: if_splits)
  qed
qed

lemma requeue_write:
  assumes "jobs_wf db" "requeue_job_once eligible grace clk pid v key actor name db = Inr (db', r)"
  shows "\<exists>j. job_write db db' j (rq_job r)"
  using assms(2)
proof (cases rule: requeue_cases)
  case (replay job receipt)
  then show ?thesis
    by (intro job_writeI [of pid db job]) (simp_all add: put_same_job [OF assms(1)] new_receipts_def)
next
  case (fresh job)
  then show ?thesis
    by (intro job_writeI [of pid db job]) (simp_all add: write_simps)
qed

lemma vault_job_step_write:
  assumes "vault_job_step sha eligible grace db db'" "jobs_wf db"
  shows "db' = db \<or> (\<exists>j j'. job_write db db' j j')"
  using assms(1)
proof cases
  case (claim clk now token pid w r)
  then show ?thesis by (cases r) (use claim_write in blast)
next
  case recover
  then show ?thesis using recover_write [OF assms(2)] by blast
next
  case requeue
  then show ?thesis using requeue_write [OF assms(2)] by blast
next
  case transition
  then show ?thesis using transition_write [OF assms(2)] by blast
qed (blast dest: start_write heartbeat_write cancel_write complete_write fail_write)+

lemma job_write_wf: "job_write db db' j j' \<Longrightarrow> jobs_wf db \<Longrightarrow> jobs_wf db'"
proof -
  assume w: "job_write db db' j j'" and wf: "jobs_wf db"
  have "map job_pk (put_row job_public_id j' (jobs db)) = map job_pk (jobs db)"
    using w wf by (intro map_put_row [of _ _ j])
      (auto simp: job_write_def job_evolves_def jobs_wf_def get_job_def dest: find_row_Some)
  then show "jobs_wf db'"
    using w wf by (simp add: job_write_def jobs_wf_def)
qed

lemma job_write_get:
  assumes "job_write db db' j j'"
  shows "get_job pid db' = (if pid = job_public_id j then Some j' else get_job pid db)"
proof -
  have "get_job pid db' = get_job pid (put_job j' db)"
    using assms by (simp add: job_write_def get_job_def)
  then show ?thesis
    using assms job_rows.get_put [of j' db j pid] by (auto simp: job_write_def job_evolves_def)
qed

interpretation job_inv: invariant_steps "vault_job_step sha eligible grace" jobs_wf
  for sha eligible grace
  by unfold_locales (auto dest: vault_job_step_write job_write_wf)

lemma vault_job_step_evolves:
  assumes "vault_job_step sha eligible grace db db'" "jobs_wf db" "get_job pid db = Some j"
  shows "\<exists>j'. get_job pid db' = Some j' \<and> job_evolves j j'"
proof -
  have "job_public_id j = pid" using assms(3) by (rule job_rows.get_key)
  with vault_job_step_write [OF assms(1,2)] assms(3) show ?thesis
    by (auto simp: job_write_get) (metis job_write_def option.inject)
qed

text \<open>Ownership of a job is a fenced resource.\<close>

definition job_epoch :: "string \<Rightarrow> control_db \<Rightarrow> nat" where
  "job_epoch pid db = (case get_job pid db of None \<Rightarrow> 0 | Some j \<Rightarrow> job_fencing_epoch j)"

definition job_grants ::
  "(string \<Rightarrow> digest) \<Rightarrow> string \<Rightarrow> control_db \<Rightarrow> nat \<Rightarrow> control_db \<Rightarrow> bool" where
  "job_grants sha pid db e db' \<longleftrightarrow>
     (\<exists>clk now token w j t. claim_job sha clk now token pid w db = Inr (db', j, t) \<and> e = job_fencing_epoch j)"

definition job_accepts :: "(string \<Rightarrow> digest) \<Rightarrow> string \<Rightarrow> control_db \<Rightarrow> nat \<Rightarrow> bool" where
  "job_accepts sha pid db e \<longleftrightarrow>
     (\<exists>token j. get_job pid db = Some j \<and> verify_owner sha j token e = Inr ())"

lemma claim_job_row:
  assumes "claim_job sha clk now token pid w db = Inr (db', j', t)"
  obtains j where "get_job pid db = Some j" "job_table.edge (job_status j) Claimed" "t = token"
    "job_fencing_epoch j' = job_fencing_epoch j + 1" "job_status j' = Claimed"
    "job_claim_token_hash j' = sha token" "get_job pid db' = Some j'" "job_public_id j' = pid"
proof -
  from assms obtain j where j: "get_job pid db = Some j" by (auto simp: claim_job_def Let_def)
  show thesis
    using assms j job_rows.get_key [OF j]
    by (intro that [of j]) (auto simp: claim_job_def Let_def job_table.edge_def job_rows.get_put_same)
qed

text \<open>Steps from a database whose keys are not unique are left out of the runs.\<close>

definition wf_job_step ::
  "(string \<Rightarrow> digest) \<Rightarrow> (source_snapshot \<Rightarrow> bool) \<Rightarrow> int \<Rightarrow> control_db \<Rightarrow> control_db \<Rightarrow> bool" where
  "wf_job_step sha eligible grace db db' \<longleftrightarrow> jobs_wf db \<and> vault_job_step sha eligible grace db db'"

lemma wf_run:
  assumes "(vault_job_step sha eligible grace)\<^sup>*\<^sup>* db db'" "jobs_wf db"
  shows "(wf_job_step sha eligible grace)\<^sup>*\<^sup>* db db'" and "jobs_wf db'"
proof -
  have "(wf_job_step sha eligible grace)\<^sup>*\<^sup>* db db' \<and> jobs_wf db'"
    using assms(1)
  proof (induction rule: rtranclp_induct)
    case base
    then show ?case using assms(2) by simp
  next
    case (step y z)
    then show ?case
      by (metis job_inv.step_inv rtranclp.rtrancl_into_rtrancl wf_job_step_def)
  qed
  then show "(wf_job_step sha eligible grace)\<^sup>*\<^sup>* db db'" and "jobs_wf db'" by simp_all
qed

interpretation job_fence: fencing "wf_job_step sha eligible grace" "job_epoch pid"
    "job_grants sha pid" "job_accepts sha pid"
  for sha eligible grace pid
proof unfold_locales
  fix s t
  assume st: "wf_job_step sha eligible grace s t"
  then show "job_epoch pid s \<le> job_epoch pid t"
    using vault_job_step_evolves [of sha eligible grace s t pid]
    by (cases "get_job pid s") (auto simp: job_epoch_def wf_job_step_def job_evolves_def)
next
  fix s e t
  assume "job_grants sha pid s e t"
  then show "job_epoch pid s < e \<and> e = job_epoch pid t"
    by (auto simp: job_grants_def job_epoch_def elim!: claim_job_row)
next
  fix s e
  assume "job_accepts sha pid s e"
  then show "e = job_epoch pid s" by (auto simp: job_accepts_def job_epoch_def)
qed

interpretation job_log: append_only "wf_job_step sha eligible grace" events
  for sha eligible grace
  by unfold_locales
    (auto simp: wf_job_step_def job_write_def dest!: vault_job_step_write)

subsection \<open>Properties\<close>

lemma vault_job_run_evolves:
  assumes "(vault_job_step sha eligible grace)\<^sup>*\<^sup>* db db'" "jobs_wf db" "get_job pid db = Some j"
  shows "\<exists>j'. get_job pid db' = Some j' \<and> job_table.reaches (job_status j) (job_status j')
    \<and> job_fencing_epoch j \<le> job_fencing_epoch j' \<and> job_state_version j \<le> job_state_version j'
    \<and> job_retry_count j \<le> job_retry_count j'
    \<and> (job_state_version j' = job_state_version j \<longrightarrow> job_status j' = job_status j)"
  using assms(1)
proof (induction rule: rtranclp_induct)
  case base
  then show ?case using assms(3) by simp
next
  case (step y z)
  then obtain a where a: "get_job pid y = Some a" "job_table.reaches (job_status j) (job_status a)"
    "job_fencing_epoch j \<le> job_fencing_epoch a" "job_state_version j \<le> job_state_version a"
    "job_retry_count j \<le> job_retry_count a"
    "job_state_version a = job_state_version j \<longrightarrow> job_status a = job_status j" by blast
  have "jobs_wf y" using step.hyps(1) assms(2) by (rule job_inv.run_inv)
  then obtain b where "get_job pid z = Some b" "job_evolves a b"
    using vault_job_step_evolves step.hyps(2) a(1) by blast
  with a show ?case
    by (auto simp: job_evolves_def intro: job_table.reaches_trans [OF _ job_table.reaches_edge])
qed

definition stale_owner_error :: "vault_job \<Rightarrow> vault_error" where
  "stale_owner_error job = Claim_rejected ''stale_job_owner'' (Some (job_status_value (job_status job)))
     (Some (job_status_value (job_status job)))"

lemma not_accepted:
  assumes "get_job pid db = Some j" "\<not> job_accepts sha pid db e"
  shows "verify_owner sha j token e = Inl (stale_owner_error j)"
proof -
  have "verify_owner sha j token e \<noteq> Inr ()"
    using assms unfolding job_accepts_def by blast
  then show ?thesis
    by (auto simp: verify_owner_def stale_owner_error_def split: if_splits)
qed

text \<open>C1: A worker whose job was claimed again is fenced: after any run of the queue's operations
  before and after the second claim, its token and epoch are refused, and starting, reporting,
  completing and failing the job with them raise \<^verbatim>\<open>stale_job_owner\<close>.\<close>

theorem stale_owner_fenced:
  assumes "jobs_wf db0"
    and "claim_job sha clk1 now1 token1 pid w1 db0 = Inr (db1, j1, t1)"
    and "(vault_job_step sha eligible grace)\<^sup>*\<^sup>* db1 db2"
    and "claim_job sha clk2 now2 token2 pid w2 db2 = Inr (db3, j2, t2)"
    and "(vault_job_step sha eligible grace)\<^sup>*\<^sup>* db3 db4"
    and "get_job pid db4 = Some j"
  shows "start_job sha clk now pid token1 (job_fencing_epoch j1) db4 = Inl (stale_owner_error j)
    \<and> heartbeat_job sha clk now pid token1 (job_fencing_epoch j1) phase progress db4 = Inl (stale_owner_error j)
    \<and> complete_owned_job sha clk now pid token1 (job_fencing_epoch j1) irr db4 = Inl (stale_owner_error j)
    \<and> fail_owned_job sha clk now pid token1 (job_fencing_epoch j1) code retryable db4 = Inl (stale_owner_error j)"
proof -
  have wf1: "jobs_wf db1" using assms(1,2) by (meson job_inv.step_inv vault_job_step.claim)
  have wf3: "jobs_wf db3" using wf_run(2) [OF assms(3) wf1] assms(4)
    by (meson job_inv.step_inv vault_job_step.claim)
  have "\<not> job_accepts sha pid db4 (job_fencing_epoch j1)"
    using job_fence.superseded [OF _ wf_run(1) [OF assms(3) wf1] _ wf_run(1) [OF assms(5) wf3]]
      assms(2,4) unfolding job_grants_def by blast
  then have "verify_owner sha j token1 (job_fencing_epoch j1) = Inl (stale_owner_error j)"
    by (rule not_accepted [OF assms(6)])
  then show ?thesis
    using assms(6) by (simp add: start_job_def heartbeat_job_def complete_owned_job_def fail_owned_job_def)
qed

text \<open>C24: Over any run a job's status follows the transition table, its fencing epoch, state version
  and retry count never fall, and while its state version stands still so does its status.\<close>

theorem job_history:
  assumes "jobs_wf db" "(vault_job_step sha eligible grace)\<^sup>*\<^sup>* db db'" "get_job pid db = Some j"
  shows "\<exists>j'. get_job pid db' = Some j' \<and> job_table.reaches (job_status j) (job_status j')
    \<and> job_fencing_epoch j \<le> job_fencing_epoch j' \<and> job_state_version j \<le> job_state_version j'
    \<and> job_retry_count j \<le> job_retry_count j'
    \<and> (job_state_version j' = job_state_version j \<longrightarrow> job_status j' = job_status j)"
  using vault_job_run_evolves [OF assms(2,1,3)] .

text \<open>The audit log only grows: what any run of the queue recorded stays, in order.\<close>

theorem job_audit_append_only:
  assumes "jobs_wf db" "(vault_job_step sha eligible grace)\<^sup>*\<^sup>* db db'"
  shows "prefix (events db) (events db')"
  using job_log.run_appends [OF wf_run(1) [OF assms(2,1)]] .

text \<open>A concrete queue, for the witnesses: one queued job.\<close>

definition sample_sha :: "string \<Rightarrow> digest" where
  "sample_sha t = ''h'' @ t"

definition sample_job :: vault_job where
  "sample_job = \<lparr>job_pk = 1, job_public_id = ''j'', job_operation = ''sync_publish'', job_phase = '''',
     job_status = Queued, job_profile = Some 1, job_dataset_id = ''d'', job_generation_id = ''g'',
     job_progress = JObj [], job_claim_token_hash = '''', job_claimed_by = '''',
     job_fencing_epoch = 0, job_heartbeat_at = None, job_correlation_id = ''c'',
     job_idempotency_key = ''k'', job_cancellation_requested_at = None, job_safe_error_code = '''',
     job_retry_count = 0, job_state_version = 1, job_requested_by_id = Some 7,
     job_requested_by_name = ''op'', job_started_at = None, job_finished_at = None,
     job_created_at = 0, job_updated_at = 0\<rparr>"

definition sample_db :: control_db where
  "sample_db = empty_db\<lparr>jobs := [sample_job]\<rparr>"

text \<open>
  Worker \<^verbatim>\<open>w1\<close> claims the job and falls silent, the sweep marks the job stale, an operator requeues
  it and worker \<^verbatim>\<open>w2\<close> claims it.
\<close>

definition sample_db1 :: control_db where
  "sample_db1 = state_after (claim_job sample_sha 5 None ''t1'' ''j'' ''w1'') sample_db"

definition sample_db2 :: control_db where
  "sample_db2 = state_after (recover_one 100 50 1) sample_db1"

definition sample_db3 :: control_db where
  "sample_db3 = state_after
     (requeue_job_once (\<lambda>s. False) 0 101 ''j'' 3 ''key'' (Some 7) ''op'') sample_db2"

definition sample_db4 :: control_db where
  "sample_db4 = state_after (claim_job sample_sha 102 None ''t2'' ''j'' ''w2'') sample_db3"

lemma sample_db_wf: "jobs_wf sample_db"
  by (simp add: jobs_wf_def sample_db_def)

lemma sample_step1: "\<exists>j. claim_job sample_sha 5 None ''t1'' ''j'' ''w1'' sample_db = Inr (sample_db1, j, ''t1'')
    \<and> job_fencing_epoch j = 1"
proof -
  have "succeeds (claim_job sample_sha 5 None ''t1'' ''j'' ''w1'' sample_db)" by code_simp
  then obtain j t where c: "claim_job sample_sha 5 None ''t1'' ''j'' ''w1'' sample_db = Inr (sample_db1, j, t)"
    by (rule succeedsE) (auto simp: sample_db1_def)
  have "map_option job_fencing_epoch (get_job ''j'' sample_db1) = Some 1" by code_simp
  then show ?thesis using claim_job_row [OF c] c by fastforce
qed

lemma sample_step2: "vault_job_step sample_sha (\<lambda>s. False) 0 sample_db1 sample_db2"
proof -
  have "succeeds (recover_one 100 50 1 sample_db1)" by code_simp
  then show ?thesis
    by (rule succeedsE) (auto simp: sample_db2_def intro: vault_job_step.recover)
qed

lemma sample_step3: "vault_job_step sample_sha (\<lambda>s. False) 0 sample_db2 sample_db3"
proof -
  have "succeeds (requeue_job_once (\<lambda>s. False) 0 101 ''j'' 3 ''key'' (Some 7) ''op'' sample_db2)"
    by code_simp
  then show ?thesis
    by (rule succeedsE) (auto simp: sample_db3_def intro: vault_job_step.requeue)
qed

lemma sample_step4: "\<exists>j. claim_job sample_sha 102 None ''t2'' ''j'' ''w2'' sample_db3 = Inr (sample_db4, j, ''t2'')"
proof -
  have "succeeds (claim_job sample_sha 102 None ''t2'' ''j'' ''w2'' sample_db3)" by code_simp
  then obtain j t where c: "claim_job sample_sha 102 None ''t2'' ''j'' ''w2'' sample_db3 = Inr (sample_db4, j, t)"
    by (rule succeedsE) (auto simp: sample_db4_def)
  then show ?thesis using claim_job_row [OF c] by auto
qed

lemma sample_run: "(vault_job_step sample_sha (\<lambda>s. False) 0)\<^sup>*\<^sup>* sample_db sample_db4"
  using sample_step1 sample_step2 sample_step3 sample_step4
  by (metis (no_types, lifting) converse_rtranclp_into_rtranclp rtranclp.rtrancl_refl vault_job_step.claim)

lemma stale_owner_fenced_witness:
  "\<exists>j. get_job ''j'' sample_db4 = Some j
     \<and> heartbeat_job sample_sha 103 None ''j'' ''t1'' 1 None None sample_db4 = Inl (stale_owner_error j)"
proof -
  have "get_job ''j'' sample_db4 \<noteq> None" by code_simp
  then obtain j where j: "get_job ''j'' sample_db4 = Some j" by auto
  obtain j1 where 1: "claim_job sample_sha 5 None ''t1'' ''j'' ''w1'' sample_db = Inr (sample_db1, j1, ''t1'')"
    "job_fencing_epoch j1 = 1" using sample_step1 by blast
  obtain j2 where 2: "claim_job sample_sha 102 None ''t2'' ''j'' ''w2'' sample_db3 = Inr (sample_db4, j2, ''t2'')"
    using sample_step4 by blast
  have "(vault_job_step sample_sha (\<lambda>s. False) 0)\<^sup>*\<^sup>* sample_db1 sample_db3"
    using sample_step2 sample_step3 by (meson converse_rtranclp_into_rtranclp r_into_rtranclp)
  from stale_owner_fenced [OF sample_db_wf 1(1) this 2 rtranclp.rtrancl_refl j]
  show ?thesis using j 1(2) by auto
qed

lemma job_history_witness:
  "\<exists>j. get_job ''j'' sample_db4 = Some j \<and> job_table.reaches Queued (job_status j)
    \<and> 0 \<le> job_fencing_epoch j \<and> 1 \<le> job_state_version j"
proof -
  have "get_job ''j'' sample_db = Some sample_job" by (simp add: get_job_def sample_db_def find_row_def sample_job_def)
  from job_history [OF sample_db_wf sample_run this] show ?thesis by (auto simp: sample_job_def)
qed

lemma job_audit_append_only_witness: "prefix (events sample_db) (events sample_db4)"
  by (rule job_audit_append_only [OF sample_db_wf sample_run])

end
