(* ===== verification/Vault_Job_Retry.thy ===== *)
theory Vault_Job_Retry
  imports Vault_Job_Safety
begin

section \<open>Requeueing, recovery and cancellation of jobs\<close>

text \<open>
  What \<^verbatim>\<open>requeue_job\<close> promises an operator who presses the button twice, what the recovery sweep
  does to the jobs it scanned while other operations of the queue run between its transactions,
  and what becomes of a job whose cancellation was requested. The receipts of requeues are a log that only grows; the retry count of a job is the number of its receipts.
\<close>

subsection \<open>Receipts\<close>

definition receipts_of :: "nat \<Rightarrow> control_db \<Rightarrow> retry_request list" where
  "receipts_of pk db = filter (\<lambda>r. rr_job r = pk) (retry_requests db)"

interpretation receipt_log: append_only "wf_job_step sha eligible grace" retry_requests
  for sha eligible grace
  by unfold_locales (auto simp: wf_job_step_def job_write_def dest!: vault_job_step_write)

lemma find_receipt_prefix:
  assumes "prefix (retry_requests db) (retry_requests db')" "find_receipt pk key db = Some r"
  shows "find_receipt pk key db' = Some r"
proof -
  have "List.find P (xs @ ys) = Some r" if "List.find P xs = Some r" for P xs ys
    using that by (induction xs) auto
  then show ?thesis using assms by (auto simp: find_receipt_def prefix_def)
qed

lemma receipts_of_split:
  "prefix (retry_requests db) (retry_requests db') \<Longrightarrow>
   receipts_of pk db' = receipts_of pk db @ filter (\<lambda>r. rr_job r = pk) (new_receipts db db')"
  by (auto simp: receipts_of_def new_receipts_def prefix_def)

text \<open>One step: the retry count of every job moves with the number of its receipts.\<close>

lemma step_retry_count:
  assumes "vault_job_step sha eligible grace db db'" "jobs_wf db" "get_job pid db = Some j"
  shows "\<exists>j'. get_job pid db' = Some j' \<and> job_pk j' = job_pk j
    \<and> job_retry_count j' + length (receipts_of (job_pk j) db)
      = job_retry_count j + length (receipts_of (job_pk j) db')"
  using vault_job_step_write [OF assms(1,2)]
proof (elim disjE exE)
  assume "db' = db" then show ?thesis using assms(3) by simp
next
  fix a b assume w: "job_write db db' a b"
  then have split: "receipts_of pk db' = receipts_of pk db @ filter (\<lambda>r. rr_job r = pk) (new_receipts db db')"
    for pk by (auto simp: job_write_def intro: receipts_of_split)
  have all: "list_all (\<lambda>r. rr_job r = job_pk a) (new_receipts db db')" and
    a: "get_job (job_public_id a) db = Some a" using w by (auto simp: job_write_def)
  show ?thesis
  proof (cases "pid = job_public_id a")
    case True
    then have "j = a" using a assms(3) by simp
    then have "filter (\<lambda>r. rr_job r = job_pk j) (new_receipts db db') = new_receipts db db'"
      using all by (auto simp: list_all_iff intro: filter_True)
    moreover have "get_job pid db' = Some b" using True job_write_get [OF w] by simp
    ultimately show ?thesis using w split [of "job_pk j"] \<open>j = a\<close>
      by (auto simp: job_write_def job_evolves_def)
  next
    case False
    have "job_public_id j = pid" using assms(3) by (rule job_rows.get_key)
    have "j \<in> set (jobs db)" "a \<in> set (jobs db)"
      using assms(3) a by (auto simp: get_job_def dest: find_row_Some)
    then have "job_pk j \<noteq> job_pk a"
      using assms(2) False \<open>job_public_id j = pid\<close> by (auto simp: jobs_wf_def distinct_map dest: inj_onD)
    then have "filter (\<lambda>r. rr_job r = job_pk j) (new_receipts db db') = []"
      using all by (auto simp: list_all_iff filter_empty_conv)
    then show ?thesis using False w split [of "job_pk j"] assms(3) by (auto simp: job_write_get)
  qed
qed

text \<open>Over any run, the retry count of a job grows by exactly the number of requeue receipts
  recorded for it: no retry is uncounted and none is counted twice.\<close>

theorem retry_count_is_receipts:
  assumes "jobs_wf db" "(vault_job_step sha eligible grace)\<^sup>*\<^sup>* db db'" "get_job pid db = Some j"
  shows "\<exists>j'. get_job pid db' = Some j' \<and>
    job_retry_count j' + length (receipts_of (job_pk j) db)
      = job_retry_count j + length (receipts_of (job_pk j) db')"
proof -
  have "\<exists>j'. get_job pid db' = Some j' \<and> job_pk j' = job_pk j \<and>
    job_retry_count j' + length (receipts_of (job_pk j) db)
      = job_retry_count j + length (receipts_of (job_pk j) db')"
    using assms(2)
  proof (induction rule: rtranclp_induct)
    case base then show ?case using assms(3) by simp
  next
    case (step y z)
    then obtain a where a: "get_job pid y = Some a" "job_pk a = job_pk j"
      "job_retry_count a + length (receipts_of (job_pk j) db)
        = job_retry_count j + length (receipts_of (job_pk j) y)" by blast
    have "jobs_wf y" using step.hyps(1) assms(1) by (rule job_inv.run_inv)
    from step_retry_count [OF step.hyps(2) this a(1)] a(2,3) show ?case by fastforce
  qed
  then show ?thesis by blast
qed

lemma retry_count_is_receipts_witness:
  "\<exists>j. get_job ''j'' sample_db4 = Some j \<and> job_retry_count j = length (receipts_of 1 sample_db4)"
proof -
  have "get_job ''j'' sample_db = Some sample_job"
    by (simp add: get_job_def sample_db_def find_row_def sample_job_def)
  from retry_count_is_receipts [OF sample_db_wf sample_run this] show ?thesis
    by (auto simp: sample_job_def receipts_of_def sample_db_def empty_db_def)
qed

text \<open>C26: A requeue is idempotent: once it succeeded, the same call at any later point of any run
  changes nothing and returns the same receipt, and the key used with another version or another
  actor is refused.\<close>

theorem requeue_idempotent:
  assumes "jobs_wf db"
    and "requeue_job_once eligible grace clk pid v key actor name db = Inr (db1, r)"
    and "(vault_job_step sha eligible grace)\<^sup>*\<^sup>* db1 db2"
  shows "\<exists>j. get_job pid db2 = Some j
    \<and> requeue_job_once eligible grace clk' pid v key actor name' db2
        = Inr (db2, \<lparr>rq_job = j, rq_receipt = rq_receipt r, rq_created = False, rq_on_commit = False\<rparr>)
    \<and> ((v', actor') \<noteq> (v, actor) \<longrightarrow>
        requeue_job_once eligible grace clk' pid v' key actor' name' db2
          = Inl (Lifecycle_conflict ''idempotency_conflict'' None None))"
proof -
  have wf1: "jobs_wf db1"
    using assms(1,2) by (meson job_inv.step_inv vault_job_step.requeue)
  from assms(2) obtain job where job: "get_job pid db = Some job"
    and rec: "find_receipt (job_pk job) key db1 = Some (rq_receipt r)"
    "rr_requested_state_version (rq_receipt r) = v" "rr_actor_id (rq_receipt r) = actor"
  proof (cases rule: requeue_cases)
    case (fresh job)
    have "List.find P (xs @ [x]) = Some x" if "List.find P xs = None" "P x" for P xs and x :: retry_request
      using that by (induction xs) (auto split: if_splits)
    with fresh show thesis by (intro that [of job]) (auto simp: find_receipt_def)
  qed auto
  have st: "vault_job_step sha eligible grace db db1" using assms(2) by (rule vault_job_step.requeue)
  obtain j where j: "get_job pid db2 = Some j" "job_pk j = job_pk job"
  proof -
    have "(vault_job_step sha eligible grace)\<^sup>*\<^sup>* db db2" using st assms(3) by simp
    then have "\<exists>j. get_job pid db2 = Some j \<and> job_pk j = job_pk job"
    proof (induction rule: rtranclp_induct)
      case (step y z)
      then obtain a where "get_job pid y = Some a" "job_pk a = job_pk job" by blast
      moreover have "jobs_wf y" using step.hyps(1) assms(1) by (rule job_inv.run_inv)
      ultimately show ?case using step_retry_count [OF step.hyps(2)] by fastforce
    qed (use job in simp)
    then show thesis using that by blast
  qed
  have "find_receipt (job_pk j) key db2 = Some (rq_receipt r)"
    using find_receipt_prefix [OF receipt_log.run_appends [OF wf_run(1) [OF assms(3) wf1]] rec(1)] j(2)
    by simp
  then show ?thesis using j rec by (auto simp: requeue_job_once_def)
qed

lemma requeue_idempotent_witness:
  "\<exists>r j. requeue_job_once (\<lambda>s. False) 0 101 ''j'' 3 ''key'' (Some 7) ''op'' sample_db2 = Inr (sample_db3, r)
    \<and> get_job ''j'' sample_db4 = Some j
    \<and> requeue_job_once (\<lambda>s. False) 0 200 ''j'' 3 ''key'' (Some 7) ''op'' sample_db4
        = Inr (sample_db4, \<lparr>rq_job = j, rq_receipt = rq_receipt r, rq_created = False, rq_on_commit = False\<rparr>)"
proof -
  have "succeeds (requeue_job_once (\<lambda>s. False) 0 101 ''j'' 3 ''key'' (Some 7) ''op'' sample_db2)"
    by code_simp
  then obtain r where r:
    "requeue_job_once (\<lambda>s. False) 0 101 ''j'' 3 ''key'' (Some 7) ''op'' sample_db2 = Inr (sample_db3, r)"
    by (rule succeedsE) (auto simp: sample_db3_def)
  have "jobs_wf sample_db1" using sample_step1 sample_db_wf by (meson job_inv.step_inv vault_job_step.claim)
  then have wf: "jobs_wf sample_db2" using sample_step2 by (meson job_inv.step_inv)
  have run: "(vault_job_step sample_sha (\<lambda>s. False) 0)\<^sup>*\<^sup>* sample_db3 sample_db4"
    using sample_step4 by (meson r_into_rtranclp vault_job_step.claim)
  show ?thesis
    using requeue_idempotent [OF wf r run, where clk' = 200 and name' = "''op''"] r by meson
qed

subsection \<open>The recovery sweep\<close>

definition silent :: "instant \<Rightarrow> vault_job \<Rightarrow> bool" where
  "silent cutoff j = (job_status j \<in> {Claimed, Running, Waiting} \<and>
     (case job_heartbeat_at j of None \<Rightarrow> False | Some t \<Rightarrow> t < cutoff))"

lemma recover_one_silent:
  assumes "jobs_wf db" "j \<in> set (jobs db)" "silent cutoff j"
  shows "\<exists>ev. recover_one clk cutoff (job_pk j) db
    = Inr (append_event ev (put_job (mark_stale clk j) db), Some (job_public_id j))"
proof -
  have "find_row job_pk (job_pk j) (jobs db) = Some j"
    using assms(1,2) by (intro find_row_in) (auto simp: jobs_wf_def)
  then show ?thesis
    using assms(3) by (auto simp: recover_one_def silent_def Let_def split: option.splits)
qed

lemma put_mark_stale:
  assumes "jobs_wf db" "j \<in> set (jobs db)"
  shows "put_row job_public_id (mark_stale clk j) (jobs db)
    = map (\<lambda>r. if r = j then mark_stale clk j else r) (jobs db)"
  using assms unfolding put_row_def
  by (intro map_cong) (auto simp: jobs_wf_def distinct_map dest: inj_onD)

lemma recover_each_silent:
  assumes "jobs_wf db" "set js \<subseteq> set (jobs db)" "distinct js" "\<forall>j\<in>set js. silent cutoff j"
  shows "\<exists>db'. recover_each (\<lambda>m d. d) n clk cutoff (map job_pk js) acc db = (db', Inr (acc @ map job_public_id js))
    \<and> jobs db' = map (\<lambda>j. if j \<in> set js then mark_stale clk j else j) (jobs db)
    \<and> (\<exists>evs. events db' = events db @ evs \<and> length evs = length js)"
  using assms
proof (induction js arbitrary: db acc n)
  case Nil
  then show ?case by simp
next
  case (Cons j js)
  then have j: "j \<in> set (jobs db)" "silent cutoff j" by simp_all
  from recover_one_silent [OF Cons.prems(1) this] obtain ev where
    r: "recover_one clk cutoff (job_pk j) db
      = Inr (append_event ev (put_job (mark_stale clk j) db), Some (job_public_id j))" by blast
  let ?db = "append_event ev (put_job (mark_stale clk j) db)"
  have wf: "jobs_wf ?db"
    using job_inv.step_inv [OF vault_job_step.recover [OF r]] Cons.prems(1) by blast
  have rows: "jobs ?db = map (\<lambda>r. if r = j then mark_stale clk j else r) (jobs db)"
    using put_mark_stale [OF Cons.prems(1) j(1)] by simp
  have "set js \<subseteq> set (jobs ?db)" using Cons.prems(2,3) unfolding rows by auto
  from Cons.IH [OF wf this, where acc = "acc @ [job_public_id j]" and n = "Suc n"] Cons.prems(3,4) obtain db' where
    db': "recover_each (\<lambda>m d. d) (Suc n) clk cutoff (map job_pk js) (acc @ [job_public_id j]) ?db
        = (db', Inr (acc @ map job_public_id (j # js)))"
      "jobs db' = map (\<lambda>j. if j \<in> set js then mark_stale clk j else j) (jobs ?db)"
      "\<exists>evs. events db' = events ?db @ evs \<and> length evs = length js" by auto
  have "mark_stale clk j \<notin> set js"
    using Cons.prems(4) by (auto simp: silent_def)
  then have "jobs db' = map (\<lambda>i. if i \<in> set (j # js) then mark_stale clk i else i) (jobs db)"
    unfolding db'(2) rows map_map by (intro map_cong) auto
  moreover have "\<exists>evs. events db' = events db @ evs \<and> length evs = length (j # js)"
    using db'(3) by auto
  ultimately show ?case using r db'(1) by auto
qed

lemma stale_candidates_silent: "stale_candidates cutoff db = map job_pk (filter (silent cutoff) (jobs db))"
  by (simp add: stale_candidates_def silent_def [abs_def])

lemma recover_stale_jobs_run:
  assumes "jobs_wf db"
  obtains db' evs where "recover_stale_jobs (\<lambda>m d. d) clk now n db
      = (db', Inr (map job_public_id (filter (silent (now_or now clk - seconds n)) (jobs db))))"
    "jobs db' = map (\<lambda>j. if silent (now_or now clk - seconds n) j then mark_stale clk j else j) (jobs db)"
    "events db' = events db @ evs"
    "length evs = length (filter (silent (now_or now clk - seconds n)) (jobs db))"
proof -
  let ?P = "silent (now_or now clk - seconds n)"
  have d: "distinct (filter ?P (jobs db))" using assms by (auto simp: jobs_wf_def distinct_map)
  have sub: "set (filter ?P (jobs db)) \<subseteq> set (jobs db)" and all: "\<forall>j\<in>set (filter ?P (jobs db)). ?P j"
    by auto
  obtain db' evs where
    1: "recover_each (\<lambda>m d. d) 0 clk (now_or now clk - seconds n) (map job_pk (filter ?P (jobs db))) [] db
      = (db', Inr ([] @ map job_public_id (filter ?P (jobs db))))"
    and 2: "jobs db' = map (\<lambda>j. if j \<in> set (filter ?P (jobs db)) then mark_stale clk j else j) (jobs db)"
    and 3: "events db' = events db @ evs" "length evs = length (filter ?P (jobs db))"
    using recover_each_silent [OF assms sub d all, where acc = "[]" and clk = clk and n = 0] by blast
  have "jobs db' = map (\<lambda>j. if ?P j then mark_stale clk j else j) (jobs db)"
    unfolding 2 by (rule map_cong) simp_all
  moreover have "recover_stale_jobs (\<lambda>m d. d) clk now n db = (db', Inr (map job_public_id (filter ?P (jobs db))))"
    using 1 by (simp add: recover_stale_jobs_def stale_candidates_silent Let_def)
  ultimately show thesis using that 3 by blast
qed

text \<open>What became of a job the sweep scanned, in the transaction of its own at some point of the run: it was marked, as its
  heartbeat was still too old then and its status allowed it, or it was passed over, as the heartbeat was not.\<close>

definition heartbeat_old :: "instant \<Rightarrow> vault_job \<Rightarrow> bool" where
  "heartbeat_old cutoff j = (case job_heartbeat_at j of None \<Rightarrow> False | Some t \<Rightarrow> t < cutoff)"

definition swept ::
  "(control_db \<Rightarrow> control_db \<Rightarrow> bool) \<Rightarrow> instant \<Rightarrow> instant \<Rightarrow> control_db \<Rightarrow> control_db \<Rightarrow> bool \<Rightarrow> vault_job \<Rightarrow> bool" where
  "swept step clk cutoff db db' marked scanned \<longleftrightarrow> (\<exists>before after j.
     step\<^sup>*\<^sup>* db before \<and> step\<^sup>*\<^sup>* after db' \<and> get_job (job_public_id scanned) before = Some j \<and>
     (if marked then heartbeat_old cutoff j \<and> job_status j \<in> {Claimed, Running, Waiting, Stale}
        \<and> get_job (job_public_id scanned) after = Some (mark_stale clk j)
        \<and> (\<forall>p. p \<noteq> job_public_id scanned \<longrightarrow> get_job p after = get_job p before)
        \<and> (\<exists>ev. events after = events before @ [ev] \<and> ev_action ev = ''job_marked_stale''
              \<and> ev_job_public_id ev = Some (job_public_id scanned))
      else \<not> heartbeat_old cutoff j \<and> after = before))"

lemma job_run_keeps:
  assumes "(vault_job_step sha eligible grace)\<^sup>*\<^sup>* db db'" "jobs_wf db" "get_job pid db = Some j"
  shows "\<exists>j'. get_job pid db' = Some j' \<and> job_pk j' = job_pk j"
  using assms(1)
proof (induction rule: rtranclp_induct)
  case (step y z)
  then obtain a where "get_job pid y = Some a" "job_pk a = job_pk j" by blast
  moreover have "jobs_wf y" using step.hyps(1) assms(2) by (rule job_inv.run_inv)
  ultimately show ?case using step_retry_count [OF step.hyps(2)] by fastforce
qed (use assms(3) in simp)

lemma recover_one_cases:
  assumes "jobs_wf db" "get_job pid db = Some j"
  obtains (fresh) "\<not> heartbeat_old cutoff j" "recover_one clk cutoff (job_pk j) db = Inr (db, None)"
    | (stuck) "heartbeat_old cutoff j" "job_status j \<notin> {Claimed, Running, Waiting, Stale}"
      "recover_one clk cutoff (job_pk j) db
         = Inl (Lifecycle_conflict ''job_not_recoverable'' (Some (job_status_value (job_status j))) (Some ''stale''))"
    | (marked) ev after where "heartbeat_old cutoff j" "job_status j \<in> {Claimed, Running, Waiting, Stale}"
      "recover_one clk cutoff (job_pk j) db = Inr (after, Some pid)"
      "get_job pid after = Some (mark_stale clk j)" "\<forall>p. p \<noteq> pid \<longrightarrow> get_job p after = get_job p db"
      "events after = events db @ [ev]" "ev_action ev = ''job_marked_stale''" "ev_job_public_id ev = Some pid"
proof -
  have pid: "job_public_id j = pid" using assms(2) by (rule job_rows.get_key)
  have "j \<in> set (jobs db)" using assms(2) by (auto simp: get_job_def dest: find_row_Some)
  then have row: "find_row job_pk (job_pk j) (jobs db) = Some j"
    using assms(1) by (intro find_row_in) (auto simp: jobs_wf_def)
  show thesis
  proof (cases "heartbeat_old cutoff j")
    case False
    then have "recover_one clk cutoff (job_pk j) db = Inr (db, None)"
      using row by (auto simp: recover_one_def heartbeat_old_def split: option.splits)
    with False show ?thesis by (rule fresh)
  next
    case True
    then obtain t where t: "job_heartbeat_at j = Some t" "\<not> cutoff \<le> t" by (auto simp: heartbeat_old_def split: option.splits)
    show ?thesis
    proof (cases "job_status j \<in> {Claimed, Running, Waiting, Stale}")
      case False
      then have "recover_one clk cutoff (job_pk j) db
         = Inl (Lifecycle_conflict ''job_not_recoverable'' (Some (job_status_value (job_status j))) (Some ''stale''))"
        using row t by (cases "job_status j") (simp_all add: recover_one_def guard_transition_def)
      with True False show ?thesis by (rule stuck)
    next
      case ok: True
      obtain ev where r: "recover_one clk cutoff (job_pk j) db = Inr (append_event ev (put_job (mark_stale clk j) db), Some pid)"
        "ev_action ev = ''job_marked_stale''" "ev_job_public_id ev = Some pid"
        using row t ok pid by (auto simp: recover_one_def Let_def)
      let ?after = "append_event ev (put_job (mark_stale clk j) db)"
      have same: "get_job p ?after = get_job p (put_job (mark_stale clk j) db)" for p
        by (simp add: get_job_def append_event_def)
      have "get_job pid ?after = Some (mark_stale clk j)" "\<forall>p. p \<noteq> pid \<longrightarrow> get_job p ?after = get_job p db"
        using job_rows.get_put [of "mark_stale clk j" db j] assms(2) pid by (auto simp: same)
      moreover obtain ev' where "events ?after = events db @ [ev']" "ev_action ev' = ev_action ev" "ev_job_public_id ev' = ev_job_public_id ev"
        by (simp add: append_event_def Let_def)
      ultimately show ?thesis using marked [OF True ok r(1)] r(2,3) by simp
    qed
  qed
qed

lemma swept_later:
  "swept step clk cutoff db0 db m j \<Longrightarrow> step\<^sup>*\<^sup>* db db' \<Longrightarrow> swept step clk cutoff db0 db' m j"
  unfolding swept_def by (blast intro: rtranclp_trans)

text \<open>A sweep over some of the scanned jobs: those \<open>done\<close>, and where it stopped. \<open>marks\<close> are the jobs it marked.\<close>

definition sweep_outcome ::
  "(control_db \<Rightarrow> control_db \<Rightarrow> bool) \<Rightarrow> instant \<Rightarrow> instant \<Rightarrow> control_db \<Rightarrow> control_db \<Rightarrow> vault_job list \<Rightarrow> string list \<Rightarrow>
   vault_error + string list \<Rightarrow> bool" where
  "sweep_outcome step clk cutoff db db' scanned acc res \<longleftrightarrow> step\<^sup>*\<^sup>* db db' \<and> (\<exists>handled rest marks.
     scanned = handled @ rest \<and> (\<forall>j\<in>set handled. swept step clk cutoff db db' (j \<in> marks) j)
     \<and> (case res of
          Inr ids \<Rightarrow> rest = [] \<and> ids = acc @ map job_public_id (filter (\<lambda>j. j \<in> marks) handled)
        | Inl e \<Rightarrow> (\<exists>j0 later j. rest = j0 # later \<and> get_job (job_public_id j0) db' = Some j \<and> heartbeat_old cutoff j
            \<and> job_status j \<notin> {Claimed, Running, Waiting, Stale}
            \<and> e = Lifecycle_conflict ''job_not_recoverable'' (Some (job_status_value (job_status j))) (Some ''stale''))))"

lemma sweep_outcome_Cons:
  assumes "sweep_outcome step clk cutoff after db' js acc' res" "step\<^sup>*\<^sup>* db before" "step\<^sup>*\<^sup>* before after"
    "swept step clk cutoff db after m j" "acc' = (if m then acc @ [job_public_id j] else acc)" "j \<notin> set js"
  shows "sweep_outcome step clk cutoff db db' (j # js) acc res"
proof -
  obtain handled rest marks where h: "step\<^sup>*\<^sup>* after db'" "js = handled @ rest"
    "\<forall>i\<in>set handled. swept step clk cutoff after db' (i \<in> marks) i"
    "case res of
        Inr ids \<Rightarrow> rest = [] \<and> ids = acc' @ map job_public_id (filter (\<lambda>j. j \<in> marks) handled)
      | Inl e \<Rightarrow> (\<exists>j0 later j. rest = j0 # later \<and> get_job (job_public_id j0) db' = Some j \<and> heartbeat_old cutoff j
            \<and> job_status j \<notin> {Claimed, Running, Waiting, Stale}
            \<and> e = Lifecycle_conflict ''job_not_recoverable'' (Some (job_status_value (job_status j))) (Some ''stale''))"
    using assms(1) unfolding sweep_outcome_def by blast
  have run: "step\<^sup>*\<^sup>* db after" using assms(2,3) by (rule rtranclp_trans)
  define marks' where "marks' = (if m then insert j marks else marks - {j})"
  have in_js: "i \<in> marks' \<longleftrightarrow> i \<in> marks" if "i \<in> set handled" for i
    using that assms(6) h(2) by (auto simp: marks'_def)
  have earlier: "swept step clk cutoff db db' b i" if "swept step clk cutoff after db' b i" for b i
    using that run unfolding swept_def by (blast intro: rtranclp_trans)
  have "\<forall>i\<in>set (j # handled). swept step clk cutoff db db' (i \<in> marks') i"
    using h(3) in_js earlier swept_later [OF assms(4) h(1)] by (auto simp: marks'_def)
  moreover have "filter (\<lambda>i. i \<in> marks') (j # handled) = (if m then [j] else []) @ filter (\<lambda>i. i \<in> marks) handled"
    using in_js by (auto simp: marks'_def cong: filter_cong)
  ultimately show ?thesis
    unfolding sweep_outcome_def using h(1,2,4) run assms(5)
    by (intro conjI exI [of _ "j # handled"] exI [of _ rest] exI [of _ marks']) (auto split: sum.splits intro: rtranclp_trans)
qed

lemma recover_each_outcome:
  assumes "\<And>n d. (vault_job_step sha eligible grace)\<^sup>*\<^sup>* d (others n d)" "jobs_wf db" "distinct js"
    "\<forall>j\<in>set js. \<exists>r. get_job (job_public_id j) db = Some r \<and> job_pk r = job_pk j"
    "recover_each others n clk cutoff (map job_pk js) acc db = (db', res)"
  shows "sweep_outcome (vault_job_step sha eligible grace) clk cutoff db db' js acc res"
  using assms(2-5)
proof (induction js arbitrary: db acc n)
  case Nil
  then show ?case by (auto simp: sweep_outcome_def)
next
  case (Cons j js)
  let ?step = "vault_job_step sha eligible grace" and ?pid = "job_public_id j"
  define before where "before = others n db"
  have run: "?step\<^sup>*\<^sup>* db before" unfolding before_def by (rule assms(1))
  have wf: "jobs_wf before" using run Cons.prems(1) by (rule job_inv.run_inv)
  have rows: "\<exists>r. get_job (job_public_id i) d = Some r \<and> job_pk r = job_pk i"
    if "i \<in> set (j # js)" "?step\<^sup>*\<^sup>* db d" for i d
    using job_run_keeps [OF that(2) Cons.prems(1)] Cons.prems(3) that(1) by fastforce
  obtain r where r: "get_job ?pid before = Some r" "job_pk r = job_pk j" using rows run by force
  from wf r(1) show ?case
  proof (cases rule: recover_one_cases [where cutoff = cutoff and clk = clk])
    case stuck
    then have "db' = before" "res = Inl (Lifecycle_conflict ''job_not_recoverable'' (Some (job_status_value (job_status r))) (Some ''stale''))"
      using Cons.prems(4) r(2) by (simp_all add: before_def [symmetric] Let_def)
    then show ?thesis
      unfolding sweep_outcome_def using run r(1) stuck(1,2)
      by (intro conjI exI [of _ "[]"] exI [of _ "j # js"] exI [of _ "{}"]) auto
  next
    case fresh
    then have rec: "recover_each others (Suc n) clk cutoff (map job_pk js) acc before = (db', res)"
      using Cons.prems(4) r(2) by (simp add: before_def [symmetric] Let_def)
    have "\<forall>i\<in>set js. \<exists>r. get_job (job_public_id i) before = Some r \<and> job_pk r = job_pk i"
      using rows run by simp
    with Cons.IH [OF wf _ _ rec] Cons.prems(2) have "sweep_outcome ?step clk cutoff before db' js acc res" by simp
    moreover have "swept ?step clk cutoff db before False j" unfolding swept_def using run r(1) fresh(1) by auto
    ultimately show ?thesis using run Cons.prems(2) by (intro sweep_outcome_Cons [where m = False and after = before]) auto
  next
    case (marked ev after)
    have step: "?step before after" using marked(3) by (rule vault_job_step.recover)
    then have run': "?step\<^sup>*\<^sup>* db after" using run by simp
    have rec: "recover_each others (Suc n) clk cutoff (map job_pk js) (acc @ [?pid]) after = (db', res)"
      using Cons.prems(4) r(2) marked(3) by (simp add: before_def [symmetric] Let_def)
    have "\<forall>i\<in>set js. \<exists>r. get_job (job_public_id i) after = Some r \<and> job_pk r = job_pk i"
      using rows run' by simp
    moreover have "jobs_wf after" using run' Cons.prems(1) by (rule job_inv.run_inv)
    ultimately have "sweep_outcome ?step clk cutoff after db' js (acc @ [?pid]) res"
      using Cons.IH [OF _ _ _ rec] Cons.prems(2) by simp
    moreover have "swept ?step clk cutoff db after True j"
      unfolding swept_def using run r(1) marked by (intro exI [of _ before] exI [of _ after] exI [of _ r]) auto
    ultimately show ?thesis using run step Cons.prems(2)
      by (intro sweep_outcome_Cons [where m = True and after = after and before = before]) auto
  qed
qed

text \<open>C25: The recovery sweep, while workers, operators and other sweeps run any operations of the queue between its scan
  and its transactions. It scans the claimed, running and waiting jobs with an old heartbeat and takes them in table
  order. A scanned job is marked stale, with one audit event and no other row touched, exactly if its heartbeat is still
  old when its own transaction reads it again; a job whose worker has come back is passed over; the
  result is the list of the ids of the marked ones. The sweep raises only at a scanned job that cannot go stale any more
  while its heartbeat is old, such as one whose cancellation was asked for meanwhile; what it marked before stays and
  the jobs after it are left. If nothing happens in between it never raises and marks exactly the scanned jobs.\<close>

theorem recover_stale_jobs_spec:
  assumes "jobs_wf db" "\<And>n d. (vault_job_step sha eligible grace)\<^sup>*\<^sup>* d (others n d)"
    "recover_stale_jobs others clk now n db = (db', res)"
  shows "sweep_outcome (vault_job_step sha eligible grace) clk (now_or now clk - seconds n) db db'
      (filter (silent (now_or now clk - seconds n)) (jobs db)) [] res
    \<and> (others = (\<lambda>m d. d) \<longrightarrow>
        res = Inr (map job_public_id (filter (silent (now_or now clk - seconds n)) (jobs db)))
        \<and> jobs db' = map (\<lambda>j. if silent (now_or now clk - seconds n) j then mark_stale clk j else j) (jobs db)
        \<and> (\<exists>evs. events db' = events db @ evs
             \<and> length evs = length (filter (silent (now_or now clk - seconds n)) (jobs db))))"
proof
  let ?js = "filter (silent (now_or now clk - seconds n)) (jobs db)"
  have d: "distinct ?js" using assms(1) by (auto simp: jobs_wf_def distinct_map)
  have rows: "\<forall>j\<in>set ?js. \<exists>r. get_job (job_public_id j) db = Some r \<and> job_pk r = job_pk j"
    using assms(1) unfolding get_job_def jobs_wf_def by (auto intro: find_row_in)
  show "sweep_outcome (vault_job_step sha eligible grace) clk (now_or now clk - seconds n) db db' ?js [] res"
    using recover_each_outcome [OF assms(2,1) d rows] assms(3)
    by (simp add: recover_stale_jobs_def stale_candidates_silent Let_def)
  show "others = (\<lambda>m d. d) \<longrightarrow> res = Inr (map job_public_id ?js)
      \<and> jobs db' = map (\<lambda>j. if silent (now_or now clk - seconds n) j then mark_stale clk j else j) (jobs db)
      \<and> (\<exists>evs. events db' = events db @ evs \<and> length evs = length ?js)"
    using assms(3) by (auto intro: recover_stale_jobs_run [OF assms(1), where clk = clk and now = now and n = n])
qed

text \<open>An operator asks for the cancellation of the scanned job before the sweep reaches it.\<close>

definition cancels_meanwhile :: "nat \<Rightarrow> control_db \<Rightarrow> control_db" where
  "cancels_meanwhile n db = state_after (request_cancellation 6 None ''j'') db"

lemma sweep_meets_cancellation:
  "snd (recover_stale_jobs cancels_meanwhile 1000000000000 None 10 sample_db1)
     = Inl (Lifecycle_conflict ''job_not_recoverable'' (Some ''cancelling'') (Some ''stale''))"
  by code_simp

lemma recover_stale_jobs_spec_witness:
  "\<exists>db' j. recover_stale_jobs cancels_meanwhile 1000000000000 None 10 sample_db1
       = (db', Inl (Lifecycle_conflict ''job_not_recoverable'' (Some ''cancelling'') (Some ''stale'')))
     \<and> get_job ''j'' db' = Some j \<and> job_status j \<notin> {Claimed, Running, Waiting, Stale}"
proof -
  obtain db' where r: "recover_stale_jobs cancels_meanwhile 1000000000000 None 10 sample_db1
       = (db', Inl (Lifecycle_conflict ''job_not_recoverable'' (Some ''cancelling'') (Some ''stale'')))"
    using sweep_meets_cancellation by (metis prod.collapse)
  have "jobs_wf sample_db1" using sample_step1 sample_db_wf by (meson job_inv.step_inv vault_job_step.claim)
  moreover have "(vault_job_step sample_sha (\<lambda>s. False) 0)\<^sup>*\<^sup>* d (cancels_meanwhile n d)" for n d
    by (cases "request_cancellation 6 None ''j'' d")
      (auto simp: cancels_meanwhile_def state_after_def intro: vault_job_step.cancel)
  ultimately have "sweep_outcome (vault_job_step sample_sha (\<lambda>s. False) 0) 1000000000000 (now_or None 1000000000000 - seconds 10)
      sample_db1 db' (filter (silent (now_or None 1000000000000 - seconds 10)) (jobs sample_db1)) []
      (Inl (Lifecycle_conflict ''job_not_recoverable'' (Some ''cancelling'') (Some ''stale'')))"
    using recover_stale_jobs_spec [OF _ _ r] by blast
  moreover have "map job_public_id (jobs sample_db1) = [''j'']" by code_simp
  ultimately obtain j0 j where "j0 \<in> set (jobs sample_db1)" "get_job (job_public_id j0) db' = Some j"
    "job_status j \<notin> {Claimed, Running, Waiting, Stale}"
    unfolding sweep_outcome_def sum.case by (metis filter_is_subset in_set_conv_decomp subsetD)
  moreover have "job_public_id j0 = ''j''"
    using \<open>map job_public_id (jobs sample_db1) = [''j'']\<close> calculation(1) by (metis image_eqI list.set_map set_ConsD empty_iff list.set(1))
  ultimately show ?thesis using r by auto
qed

subsection \<open>The retry loop\<close>

definition locked_fault :: "string option \<Rightarrow> bool" where
  "locked_fault m = (case m of None \<Rightarrow> False | Some message \<Rightarrow> contains_text ''locked'' (py_lower message))"

lemma requeue_attempts_run:
  assumes "\<And>i. attempt \<le> i \<Longrightarrow> i < n \<Longrightarrow> locked_fault (fault i)" "attempt \<le> n" "n < attempt + left"
    "attempt + left = 5"
  shows "requeue_attempts fault once attempt left db = requeue_attempts fault once n (5 - n) db"
  using assms
proof (induction left arbitrary: attempt)
  case (Suc left)
  show ?case
  proof (cases "attempt = n")
    case True
    then show ?thesis using Suc.prems(4) by (metis diff_add_inverse)
  next
    case False
    then obtain m where "fault attempt = Some m" "contains_text ''locked'' (py_lower m)" "attempt \<noteq> 4"
      using Suc.prems(1) [of attempt] Suc.prems(2-4) by (auto simp: locked_fault_def split: option.splits)
    then show ?thesis using Suc.IH [of "attempt + 1"] Suc.prems False by simp
  qed
qed simp

text \<open>The retry loop of a requeue is over at the first attempt \<open>n\<close> (of five, counted from zero)
  that either is not blocked, and then gives the requeue's own result on the unchanged database, or
  meets an error other than a locked database or is the last, and then raises that error.\<close>

theorem requeue_job_retries:
  assumes "n \<le> 4" "\<forall>i<n. locked_fault (fault i)" "fault n = None \<or> \<not> locked_fault (fault n) \<or> n = 4"
  shows "requeue_job fault eligible grace clk pid v key actor name db =
    (case fault n of
       None \<Rightarrow> requeue_job_once eligible grace clk pid v key actor name db
     | Some message \<Rightarrow> Inl (Operational_error message))"
proof -
  have "requeue_job fault eligible grace clk pid v key actor name db
    = requeue_attempts fault (requeue_job_once eligible grace clk pid v key actor name) n (5 - n) db"
    unfolding requeue_job_def using assms(1,2) by (intro requeue_attempts_run) auto
  moreover obtain left where "5 - n = Suc left" using assms(1) by (cases "5 - n") auto
  ultimately show ?thesis
    using assms(3) by (auto simp: locked_fault_def split: option.splits)
qed

lemma requeue_job_retries_witness:
  "requeue_job (\<lambda>i. if i < 2 then Some ''database is LOCKED'' else None) (\<lambda>s. False) 0 101 ''j'' 3 ''key''
     (Some 7) ''op'' sample_db2
   = requeue_job_once (\<lambda>s. False) 0 101 ''j'' 3 ''key'' (Some 7) ''op'' sample_db2"
proof -
  have "locked_fault (Some ''database is LOCKED'')" by code_simp
  then show ?thesis
    using requeue_job_retries [of 2 "\<lambda>i. if i < 2 then Some ''database is LOCKED'' else None"] by simp
qed

subsection \<open>Claims that steal and cancellations that stay\<close>

text \<open>A claim succeeds exactly on a queued or an already claimed job: the guard lets a state pass
  to itself, so a worker that was handed a job and has not yet started it loses it to a second claim,
  and its own start is then refused.\<close>

theorem claim_takes_claimed_jobs:
  assumes "get_job pid db = Some j"
  shows "((\<exists>db' j'. claim_job sha clk now token pid w db = Inr (db', j', token)) \<longleftrightarrow>
      job_status j \<in> {Queued, Claimed})
    \<and> (\<forall>db' j' old. claim_job sha clk now token pid w db = Inr (db', j', token) \<longrightarrow>
      verify_owner sha j old (job_fencing_epoch j) = Inr () \<longrightarrow>
      start_job sha clk2 now2 pid old (job_fencing_epoch j) db' = Inl (stale_owner_error j'))"
proof (intro conjI allI impI)
  show "(\<exists>db' j'. claim_job sha clk now token pid w db = Inr (db', j', token)) \<longleftrightarrow>
      job_status j \<in> {Queued, Claimed}"
    using assms by (cases "job_status j") (auto simp: claim_job_def Let_def)
next
  fix db' j' old
  assume "claim_job sha clk now token pid w db = Inr (db', j', token)"
  then show "start_job sha clk2 now2 pid old (job_fencing_epoch j) db' = Inl (stale_owner_error j')"
    using assms
    by (elim claim_job_row) (auto simp: start_job_def verify_owner_def stale_owner_error_def)
qed

lemma claim_takes_claimed_jobs_witness:
  "\<exists>db' j'. claim_job sample_sha 6 None ''t2'' ''j'' ''w2'' sample_db1 = Inr (db', j', ''t2'')
    \<and> start_job sample_sha 7 None ''j'' ''t1'' 1 db' = Inl (stale_owner_error j')"
proof -
  have c: "(case get_job ''j'' sample_db1 of Some j \<Rightarrow> job_status j = Claimed
      \<and> verify_owner sample_sha j ''t1'' 1 = Inr () \<and> job_fencing_epoch j = 1 | None \<Rightarrow> False)"
    by code_simp
  then obtain j where j: "get_job ''j'' sample_db1 = Some j" by (auto split: option.splits)
  with c have "job_status j = Claimed" "verify_owner sample_sha j ''t1'' (job_fencing_epoch j) = Inr ()"
    "job_fencing_epoch j = 1" by (auto split: option.splits)
  with claim_takes_claimed_jobs [OF j, where sha = sample_sha and clk = 6 and now = None
      and token = "''t2''" and w = "''w2''" and ?clk2.0 = 7 and ?now2.0 = None]
  show ?thesis by (metis insert_iff)
qed

text \<open>A running job whose cancellation was requested can be moved on by its owner's completion
  alone: claiming, starting, failing and requeueing it are refused as lifecycle conflicts, and the
  recovery sweep leaves it as it is however old its heartbeat. If the owner is gone it stays
  cancelling.\<close>

theorem cancelling_waits_for_owner:
  assumes "jobs_wf db" "get_job pid db = Some j" "job_status j = Cancelling"
    "verify_owner sha j token e = Inr ()" "find_receipt (job_pk j) key db = None"
    "job_state_version j = v"
  shows "claim_job sha clk now token' pid w db
      = Inl (Lifecycle_conflict ''job_not_claimable'' (Some ''cancelling'') (Some ''claimed''))
    \<and> start_job sha clk now pid token e db
      = Inl (Lifecycle_conflict ''job_not_startable'' (Some ''cancelling'') (Some ''running''))
    \<and> fail_owned_job sha clk now pid token e code retryable db
      = Inl (Lifecycle_conflict ''job_not_failable'' (Some ''cancelling'')
          (Some (if retryable then ''retryable_failed'' else ''terminal_failed'')))
    \<and> requeue_job_once eligible grace clk pid v key actor name db
      = Inl (Lifecycle_conflict ''job_not_retryable'' (Some ''cancelling'') (Some ''queued''))
    \<and> get_job pid (fst (recover_stale_jobs (\<lambda>m d. d) clk now stale_seconds db)) = Some j"
proof (intro conjI)
  let ?P = "silent (now_or now clk - seconds stale_seconds)"
  obtain db' where run: "recover_stale_jobs (\<lambda>m d. d) clk now stale_seconds db
      = (db', Inr (map job_public_id (filter ?P (jobs db))))"
    and rows: "jobs db' = map (\<lambda>j. if ?P j then mark_stale clk j else j) (jobs db)"
    by (rule recover_stale_jobs_run [OF assms(1), where clk = clk and now = now and n = stale_seconds])
  have r: "fst (recover_stale_jobs (\<lambda>m d. d) clk now stale_seconds db) = db'" using run by simp
  have j: "j \<in> set (jobs db)" "job_public_id j = pid" "\<not> ?P j"
    using assms(2,3) by (auto simp: get_job_def silent_def dest: find_row_Some)
  have keys: "map job_public_id (jobs db') = map job_public_id (jobs db)"
    unfolding rows by (simp add: comp_def if_distrib cong: if_cong)
  have "j \<in> set (jobs db')" unfolding rows using j by (simp add: image_iff)
  then show "get_job pid (fst (recover_stale_jobs (\<lambda>m d. d) clk now stale_seconds db)) = Some j"
    using assms(1) j(2) keys find_row_in [of job_public_id "jobs db'" j]
    unfolding r get_job_def jobs_wf_def by simp
qed (use assms in \<open>auto simp: handler_defs Let_def guard_transition_def verify_owner_def\<close>)

definition cancelling_db :: control_db where
  "cancelling_db = state_after (request_cancellation 6 None ''j'') sample_db1"

lemma cancelling_waits_for_owner_witness:
  "\<exists>j. get_job ''j'' cancelling_db = Some j \<and> job_status j = Cancelling
    \<and> get_job ''j'' (fst (recover_stale_jobs (\<lambda>m d. d) 1000000000000 None 10 cancelling_db)) = Some j"
proof -
  have c: "(case get_job ''j'' cancelling_db of Some j \<Rightarrow> job_status j = Cancelling
      \<and> verify_owner sample_sha j ''t1'' 1 = Inr () \<and> find_receipt (job_pk j) ''k'' cancelling_db = None
    | None \<Rightarrow> False)" by code_simp
  then obtain j where j: "get_job ''j'' cancelling_db = Some j" by (auto split: option.splits)
  with c have j': "job_status j = Cancelling" "verify_owner sample_sha j ''t1'' 1 = Inr ()"
    "find_receipt (job_pk j) ''k'' cancelling_db = None" by (auto split: option.splits)
  have "distinct (map job_public_id (jobs cancelling_db))" "distinct (map job_pk (jobs cancelling_db))"
    by code_simp+
  then have "jobs_wf cancelling_db" by (simp add: jobs_wf_def)
  from cancelling_waits_for_owner [OF this j j' refl] show ?thesis using j j'(1) by blast
qed

end
