(* ===== verification/Vault_Barrier_Safety.thy ===== *)
theory Vault_Barrier_Safety
  imports Vault_Mutations
begin

section \<open>What the mutation barrier guarantees\<close>

text \<open>
  Any number of contexts interleave with snapshot jobs. The deployment's counter is the number of its
  open scopes, its journal carries the epochs one to the current one without gap, and an active
  barrier means no open scope; so as long as the owner does not release it, nothing is recorded.
\<close>

type_synonym barrier_system = "control_db \<times> scope_context list"

text \<open>\<open>ok owner dep\<close> says which owners may act on which deployment's barrier.\<close>

inductive barrier_step ::
  "(string \<Rightarrow> string \<Rightarrow> bool) \<Rightarrow> barrier_system \<Rightarrow> barrier_system \<Rightarrow> bool" for ok where
  enter: "i < length cs \<Longrightarrow> enter_scope True lazy args (cs ! i) db = Inr (db', c) \<Longrightarrow>
    barrier_step ok (db, cs) (db', cs[i := c])"
| mark: "i < length cs \<Longrightarrow> barrier_step ok (db, cs) (db, cs[i := mark_current_scope_changed (cs ! i)])"
| discarding: "i < length cs \<Longrightarrow> barrier_step ok (db, cs) (db, cs[i := discard_current_scope (cs ! i)])"
| leave: "i < length cs \<Longrightarrow> 0 < sx_depth (cs ! i) \<Longrightarrow> leave_scope True clk (cs ! i) db = Inr (db', c) \<Longrightarrow>
    barrier_step ok (db, cs) (db', cs[i := c])"
| request: "ok owner d \<Longrightarrow> barrier_request True clk owner d db = Inr (db', u) \<Longrightarrow> barrier_step ok (db, cs) (db', cs)"
| poll: "ok owner d \<Longrightarrow> barrier_poll clk owner d db = Inr (db', r) \<Longrightarrow> barrier_step ok (db, cs) (db', cs)"
| release: "ok owner d \<Longrightarrow> release_barrier owner tol d db = Inr (db', b) \<Longrightarrow> barrier_step ok (db, cs) (db', cs)"

definition open_in :: "string \<Rightarrow> scope_context \<Rightarrow> bool" where
  "open_in dep c = (0 < sx_depth c \<and> sx_deployment c = dep)"

definition open_scopes :: "string \<Rightarrow> scope_context list \<Rightarrow> nat" where
  "open_scopes dep cs = length (filter (open_in dep) cs)"

definition epochs_of :: "string \<Rightarrow> control_db \<Rightarrow> nat list" where
  "epochs_of dep db = map je_epoch (filter (\<lambda>e. je_deployment_id e = dep) (journal db))"

text \<open>The invariant; a deployment without a row has no scope and no journal.\<close>

definition barrier_inv :: "string \<Rightarrow> barrier_system \<Rightarrow> bool" where
  "barrier_inv dep sys =
     (case sys of (db, cs) \<Rightarrow>
        (case get_state dep db of
           None \<Rightarrow> open_scopes dep cs = 0 \<and> epochs_of dep db = []
         | Some s \<Rightarrow> ms_active_mutations s = open_scopes dep cs
             \<and> epochs_of dep db = [1..<ms_current_epoch s + 1]
             \<and> (ms_barrier_state s = Barrier_active \<longrightarrow> ms_active_mutations s = 0)))"

lemma open_scopes_update:
  "i < length cs \<Longrightarrow>
   open_scopes dep (cs[i := c]) + (if open_in dep (cs ! i) then 1 else 0)
     = open_scopes dep cs + (if open_in dep c then 1 else 0)"
proof -
  assume i: "i < length cs"
  have split: "open_scopes dep (take i cs @ x # drop (Suc i) cs)
      = open_scopes dep (take i cs) + open_scopes dep (drop (Suc i) cs) + (if open_in dep x then 1 else 0)" for x
    by (simp add: open_scopes_def)
  have "open_scopes dep cs = open_scopes dep (take i cs @ cs ! i # drop (Suc i) cs)"
    using i by (simp add: id_take_nth_drop [symmetric])
  moreover have "cs[i := c] = take i cs @ c # drop (Suc i) cs" using i by (simp add: upd_conv_take_nth_drop)
  ultimately show ?thesis by (simp only: split)
qed

lemma get_mutation_state_row:
  assumes "get_mutation_state dep db = (db', s)"
  shows "get_state dep db' = Some s" "journal db' = journal db" "ms_deployment_id s = dep"
    "d \<noteq> dep \<Longrightarrow> get_state d db' = get_state d db"
    "get_state dep db = Some s \<or> get_state dep db = None \<and> s = blank_state dep"
proof -
  have find_app: "find_row ms_deployment_id k (xs @ [blank_state dep]) =
      (case find_row ms_deployment_id k xs of Some r \<Rightarrow> Some r
       | None \<Rightarrow> if k = dep then Some (blank_state dep) else None)" for k xs
    by (induction xs) (auto simp: find_row_def blank_state_def)
  show "get_state dep db' = Some s" "journal db' = journal db"
    "get_state dep db = Some s \<or> get_state dep db = None \<and> s = blank_state dep"
    "d \<noteq> dep \<Longrightarrow> get_state d db' = get_state d db"
    using assms by (auto simp: get_mutation_state_def get_state_def find_app split: option.splits)
  show "ms_deployment_id s = dep"
    using assms state_rows.get_key [of dep db]
    by (auto simp: get_mutation_state_def blank_state_def split: option.splits)
qed

lemma put_state_get:
  "get_state (ms_deployment_id s) db = Some r \<Longrightarrow>
   get_state d (put_state s db) = (if d = ms_deployment_id s then Some s else get_state d db)"
  by (rule state_rows.get_put)

lemma epochs_cong: "journal db' = journal db \<Longrightarrow> epochs_of dep db' = epochs_of dep db"
  by (simp add: epochs_of_def)

text \<open>One lemma per operation: the row it writes and what stays.\<close>

lemma enter_cases:
  assumes "enter_scope True lazy args c db = Inr (db', c')"
  obtains (nested) "0 < sx_depth c" "db' = db" "sx_depth c' = sx_depth c + 1" "sx_deployment c' = sx_deployment c"
  | (outer) s where "sx_depth c = 0" "sx_depth c' = 1" "sx_deployment c' = sx_deployment args"
      "get_state (sx_deployment args) db = Some s
       \<or> get_state (sx_deployment args) db = None \<and> s = blank_state (sx_deployment args)"
      "ms_barrier_state s = Barrier_open"
      "get_state (sx_deployment args) db' = Some (s\<lparr>ms_active_mutations := ms_active_mutations s + 1\<rparr>)"
      "journal db' = journal db" "\<And>d. d \<noteq> sx_deployment args \<Longrightarrow> get_state d db' = get_state d db"
proof (cases "0 < sx_depth c")
  case True
  then show thesis using assms nested
    by (auto simp: enter_scope_def Let_def mark_current_scope_changed_def split: if_splits)
next
  case False
  obtain db1 s where g: "get_mutation_state (sx_deployment args) db = (db1, s)" by force
  note row = get_mutation_state_row [OF g]
  have "ms_barrier_state s = Barrier_open"
    "db' = put_state (s\<lparr>ms_active_mutations := ms_active_mutations s + 1\<rparr>) db1"
    "sx_depth c' = 1" "sx_deployment c' = sx_deployment args"
    using assms False g by (auto simp: enter_scope_def split: if_splits)
  then show thesis
    using False row put_state_get [of "s\<lparr>ms_active_mutations := ms_active_mutations s + 1\<rparr>" db1 s]
    by (intro outer [of s]) auto
qed

lemma leave_cases:
  assumes "leave_scope True clk c db = Inr (db', c')" "0 < sx_depth c"
  obtains (nested) "1 < sx_depth c" "db' = db" "0 < sx_depth c'" "sx_deployment c' = sx_deployment c"
  | (outer) s ch where "sx_depth c = 1" "c' = idle_context" "get_state (sx_deployment c) db = Some s"
      "get_state (sx_deployment c) db' = Some (closed_state clk ch s)"
      "journal db' = (if ch then journal db @ [journal_of clk (ms_current_epoch s + 1) c] else journal db)"
      "\<And>d. d \<noteq> sx_deployment c \<Longrightarrow> get_state d db' = get_state d db"
proof (cases "1 < sx_depth c")
  case True
  then show thesis using assms nested by (auto simp: leave_scope_def)
next
  case False
  then have d: "sx_depth c = 1" using assms(2) by simp
  from assms(1) False obtain s where s: "get_state (sx_deployment c) db = Some s"
    by (auto simp: leave_scope_def)
  have key: "ms_deployment_id s = sx_deployment c" using s by (rule state_rows.get_key)
  define ch where "ch = (case sx_outcome c of None \<Rightarrow> False | Some o' \<Rightarrow> records_change o')"
  have k: "ms_deployment_id (closed_state clk ch s) = sx_deployment c"
    by (simp add: closed_state_def Let_def key)
  have e: "ch \<Longrightarrow> ms_current_epoch (closed_state clk ch s) = ms_current_epoch s + 1"
    by (simp add: closed_state_def Let_def)
  have gj: "get_state x (d\<lparr>journal := j\<rparr>) = get_state x d" for x d j by (simp add: get_state_def)
  have db': "db' = (if ch then (put_state (closed_state clk ch s) db)\<lparr>journal := journal db
      @ [journal_of clk (ms_current_epoch s + 1) c]\<rparr> else put_state (closed_state clk ch s) db)" "c' = idle_context"
    using assms(1) False s e by (auto simp: leave_scope_def Let_def ch_def split: if_splits)
  show thesis
    by (rule outer [of s ch]) (use d db' s k put_state_get [of "closed_state clk ch s" db s] gj in auto)
qed

lemma barrier_op_cases:
  assumes "barrier_request True clk owner d db = Inr (db', u) \<or> barrier_poll clk owner d db = Inr (db', r)
    \<or> release_barrier owner tol d db = Inr (db', b)"
  obtains s s' where "get_state d db = Some s \<or> get_state d db = None \<and> s = blank_state d"
    "get_state d db' = Some s' \<or> db' = db"
    "ms_active_mutations s' = ms_active_mutations s" "ms_current_epoch s' = ms_current_epoch s"
    "ms_barrier_state s' = Barrier_active \<Longrightarrow> ms_barrier_state s = Barrier_active \<or> ms_active_mutations s' = 0"
    "journal db' = journal db" "\<And>x. x \<noteq> d \<Longrightarrow> get_state x db' = get_state x db"
  using assms
proof (elim disjE)
  assume a: "barrier_request True clk owner d db = Inr (db', u)"
  obtain db1 s where g: "get_mutation_state d db = (db1, s)" by force
  note row = get_mutation_state_row [OF g]
  let ?s = "s\<lparr>ms_barrier_state := Barrier_requested, ms_barrier_owner_job := Some owner,
    ms_barrier_requested_at := Some clk\<rparr>"
  have "db' = put_state ?s db1" using a g by (auto simp: barrier_request_def split: if_splits)
  then show thesis
    using row put_state_get [of ?s db1 s] by (intro that [of s ?s]) auto
next
  assume a: "barrier_poll clk owner d db = Inr (db', r)"
  then obtain s where s: "get_state d db = Some s" by (auto simp: barrier_poll_def)
  have key: "ms_deployment_id s = d" using s by (rule state_rows.get_key)
  let ?s = "s\<lparr>ms_barrier_state := Barrier_active, ms_barrier_activated_at := Some clk\<rparr>"
  consider "db' = db" | "ms_active_mutations s = 0" "db' = put_state ?s db"
    using a s by (auto simp: barrier_poll_def Let_def split: if_splits)
  then show thesis
  proof cases
    case 1
    then show thesis using s by (intro that [of s s]) auto
  next
    case 2
    then show thesis using s key put_state_get [of ?s db s] by (intro that [of s ?s]) auto
  qed
next
  assume a: "release_barrier owner tol d db = Inr (db', b)"
  then obtain s where s: "get_state d db = Some s" by (auto simp: release_barrier_def)
  have key: "ms_deployment_id s = d" using s by (rule state_rows.get_key)
  let ?s = "s\<lparr>ms_barrier_state := Barrier_open, ms_barrier_owner_job := None,
            ms_barrier_requested_at := None, ms_barrier_activated_at := None\<rparr>"
  consider "db' = db" | "db' = put_state ?s db"
    using a s by (auto simp: release_barrier_def split: if_splits)
  then show thesis
  proof cases
    case 1
    then show thesis using s by (intro that [of s s]) auto
  next
    case 2
    then show thesis using s key put_state_get [of ?s db s] by (intro that [of s ?s]) auto
  qed
qed

lemma open_in_simps [simp]:
  "open_in dep (mark_current_scope_changed c) = open_in dep c" "open_in dep (discard_current_scope c) = open_in dep c"
  "\<not> open_in dep idle_context"
  by (simp_all add: open_in_def mark_current_scope_changed_def discard_current_scope_def idle_context_def)

lemma epochs_append:
  "journal db' = journal db @ [journal_of clk e c] \<Longrightarrow>
   epochs_of dep db' = epochs_of dep db @ (if sx_deployment c = dep then [e] else [])"
  by (simp add: epochs_of_def journal_of_def)

lemma barrier_inv_same:
  assumes "barrier_inv dep (db, cs)" "get_state dep db' = get_state dep db"
    "epochs_of dep db' = epochs_of dep db" "open_scopes dep cs' = open_scopes dep cs"
  shows "barrier_inv dep (db', cs')"
  using assms by (auto simp: barrier_inv_def split: option.splits)

lemma barrier_op_inv:
  assumes "barrier_request True clk owner d db = Inr (db', u) \<or> barrier_poll clk owner d db = Inr (db', r)
    \<or> release_barrier owner tol d db = Inr (db', b)"
    and "barrier_inv dep (db, cs)"
  shows "barrier_inv dep (db', cs)"
  using assms(1)
proof (rule barrier_op_cases)
  fix s s'
  assume a: "get_state d db = Some s \<or> get_state d db = None \<and> s = blank_state d"
    "get_state d db' = Some s' \<or> db' = db"
    "ms_active_mutations s' = ms_active_mutations s" "ms_current_epoch s' = ms_current_epoch s"
    "ms_barrier_state s' = Barrier_active \<Longrightarrow> ms_barrier_state s = Barrier_active \<or> ms_active_mutations s' = 0"
    "journal db' = journal db" "\<And>x. x \<noteq> d \<Longrightarrow> get_state x db' = get_state x db"
  note ep = epochs_cong [OF a(6), of dep]
  show ?thesis
  proof (cases "d = dep \<and> db' \<noteq> db")
    case True
    then have "ms_active_mutations s = open_scopes dep cs" "epochs_of dep db = [1..<ms_current_epoch s + 1]"
      "ms_barrier_state s = Barrier_active \<longrightarrow> ms_active_mutations s = 0"
      using a(1) assms(2) by (auto simp: barrier_inv_def blank_state_def)
    then show ?thesis using a(2-5) True ep by (auto simp: barrier_inv_def)
  next
    case False
    then have "get_state dep db' = get_state dep db" using a(7) by auto
    then show ?thesis using barrier_inv_same [OF assms(2)] ep by blast
  qed
qed

lemma barrier_step_inv:
  assumes "barrier_step ok (db, cs) (db', cs')" "barrier_inv dep (db, cs)"
  shows "barrier_inv dep (db', cs')"
  using assms(1)
proof cases
  case (enter i lazy args c)
  note upd = open_scopes_update [OF enter(2), of dep c]
  from enter(3) show ?thesis
  proof (cases rule: enter_cases)
    case nested
    then have "open_in dep c = open_in dep (cs ! i)" by (simp add: open_in_def)
    then show ?thesis using barrier_inv_same [OF assms(2)] upd nested(2) enter(1) by simp
  next
    case (outer s)
    note ep = epochs_cong [OF outer(7), of dep]
    show ?thesis
    proof (cases "sx_deployment args = dep")
      case True
      then have "open_scopes dep (cs[i := c]) = open_scopes dep cs + 1"
        using upd outer(1-3) by (simp add: open_in_def)
      then show ?thesis
        using assms(2) outer(4-6) True ep enter(1)
        by (auto simp: barrier_inv_def blank_state_def)
    next
      case False
      then have "open_scopes dep (cs[i := c]) = open_scopes dep cs"
        using upd outer(1-3) by (simp add: open_in_def)
      then show ?thesis using barrier_inv_same [OF assms(2)] outer(8) [of dep] False ep enter(1) by simp
    qed
  qed
next
  case (mark i)
  then show ?thesis
    using barrier_inv_same [OF assms(2)] open_scopes_update [of i cs dep "mark_current_scope_changed (cs ! i)"]
    by simp
next
  case (discarding i)
  then show ?thesis
    using barrier_inv_same [OF assms(2)] open_scopes_update [of i cs dep "discard_current_scope (cs ! i)"]
    by simp
next
  case (leave i clk c)
  note upd = open_scopes_update [OF leave(2), of dep c]
  from leave(4,3) show ?thesis
  proof (cases rule: leave_cases)
    case nested
    then have "open_in dep c = open_in dep (cs ! i)" by (simp add: open_in_def)
    then show ?thesis using barrier_inv_same [OF assms(2)] upd nested(2) leave(1) by simp
  next
    case (outer s ch)
    have ep: "epochs_of dep db' = epochs_of dep db @
        (if ch \<and> sx_deployment (cs ! i) = dep then [ms_current_epoch s + 1] else [])"
      using outer(5) epochs_append [of db' db clk "ms_current_epoch s + 1" "cs ! i" dep]
        epochs_cong [of db' db dep] by (cases ch) auto
    show ?thesis
    proof (cases "sx_deployment (cs ! i) = dep")
      case True
      then have "open_scopes dep cs = open_scopes dep (cs[i := c]) + 1"
        using upd outer(1,2) by (simp add: open_in_def idle_context_def)
      moreover have "ms_active_mutations s = open_scopes dep cs" "epochs_of dep db = [1..<ms_current_epoch s + 1]"
        "ms_barrier_state s = Barrier_active \<longrightarrow> ms_active_mutations s = 0"
        using assms(2) outer(3) True unfolding barrier_inv_def by auto
      ultimately show ?thesis
        using outer(4) True ep leave(1)
        by (cases ch) (simp_all add: barrier_inv_def closed_state_def Let_def)
    next
      case False
      then have "open_scopes dep (cs[i := c]) = open_scopes dep cs"
        using upd outer(1,2) by (simp add: open_in_def idle_context_def)
      then show ?thesis using barrier_inv_same [OF assms(2)] outer(6) [of dep] False ep leave(1) by simp
    qed
  qed
next
  case (request clk owner d u)
  then show ?thesis using barrier_op_inv [OF _ assms(2)] by blast
next
  case (poll clk owner d r)
  then show ?thesis using barrier_op_inv [OF _ assms(2)] by blast
next
  case (release owner tol d b)
  then show ?thesis using barrier_op_inv [OF _ assms(2)] by blast
qed

interpretation barrier_runs: invariant_steps "barrier_step ok" "barrier_inv dep" for ok dep
  by unfold_locales (metis barrier_step_inv prod.exhaust)

subsection \<open>Properties\<close>

lemma journal_since_inv:
  assumes "barrier_inv dep (db, cs)" "get_state dep db = Some s"
  shows "map je_epoch (journal_since e dep db) = [e + 1..<ms_current_epoch s + 1]"
proof -
  have ep: "epochs_of dep db = [1..<ms_current_epoch s + 1]"
    using assms by (simp add: barrier_inv_def)
  have "map je_epoch (filter (\<lambda>x. je_deployment_id x = dep \<and> e < je_epoch x) (journal db))
      = filter (\<lambda>n. e < n) (epochs_of dep db)"
    by (simp add: epochs_of_def filter_map comp_def)
  also have "\<dots> = [e + 1..<ms_current_epoch s + 1]"
  proof (cases "e \<le> ms_current_epoch s")
    case True
    then obtain k where k: "ms_current_epoch s + 1 = (e + 1) + k"
      by (metis add.assoc add.commute le_add_diff_inverse)
    have "[1..<(e + 1) + k] = [1..<e + 1] @ [e + 1..<(e + 1) + k]" by (rule upt_add_eq_append) simp
    then show ?thesis unfolding ep k by (auto simp: filter_empty_conv filter_id_conv)
  next
    case False
    then show ?thesis unfolding ep by (auto simp: filter_empty_conv)
  qed
  finally have m: "map je_epoch (filter (\<lambda>x. je_deployment_id x = dep \<and> e < je_epoch x) (journal db))
      = [e + 1..<ms_current_epoch s + 1]" .
  then have "sorted (map je_epoch (filter (\<lambda>x. je_deployment_id x = dep \<and> e < je_epoch x) (journal db)))"
    by (simp only: m sorted_upt)
  then show ?thesis unfolding journal_since_def by (simp add: sort_key_id_if_sorted m)
qed

text \<open>C17: The journal is complete. After any interleaving of scopes and barrier operations from a fresh
  deployment, its counter is the number of its open scopes, and the entries after any epoch \<open>e\<close> carry
  exactly the epochs from \<open>e + 1\<close> to the current one, each once and in order.\<close>

theorem journal_complete:
  assumes "(barrier_step ok)\<^sup>*\<^sup>* (db, cs) (db', cs')"
    and "get_state dep db = None" "open_scopes dep cs = 0" "epochs_of dep db = []"
    and "get_state dep db' = Some s"
  shows "map je_epoch (journal_since e dep db') = [e + 1..<ms_current_epoch s + 1]
    \<and> ms_active_mutations s = open_scopes dep cs'"
proof -
  have "barrier_inv dep (db, cs)" using assms(2-4) by (simp add: barrier_inv_def)
  then have inv: "barrier_inv dep (db', cs')" by (rule barrier_runs.run_inv [OF assms(1)])
  moreover have "ms_active_mutations s = open_scopes dep cs'" using inv assms(5) by (simp add: barrier_inv_def)
  ultimately show ?thesis using journal_since_inv [OF inv assms(5)] by blast
qed

definition sample_scope :: scope_context where
  "sample_scope = idle_context\<lparr>sx_deployment := ''d'', sx_category := ''media'', sx_relative_path := ''a.pdf'',
     sx_operation := ''write''\<rparr>"

definition scope_db1 :: control_db where
  "scope_db1 = state_after (enter_scope True False sample_scope idle_context) empty_db"

definition scope_open :: scope_context where
  "scope_open = sample_scope\<lparr>sx_depth := 1, sx_outcome := Some (fresh_outcome True)\<rparr>"

definition scope_db2 :: control_db where
  "scope_db2 = state_after (leave_scope True 5 scope_open) scope_db1"

definition scope_db3 :: control_db where
  "scope_db3 = state_after (barrier_request True 6 ''job'' ''d'') scope_db2"

definition scope_db4 :: control_db where
  "scope_db4 = state_after (barrier_poll 7 ''job'' ''d'') scope_db3"

lemma sample_scope_run: "(barrier_step ok)\<^sup>*\<^sup>* (empty_db, [idle_context]) (scope_db2, [idle_context])"
proof -
  have e: "enter_scope True False sample_scope idle_context empty_db = Inr (scope_db1, scope_open)"
    by (simp add: enter_scope_def scope_db1_def state_after_def get_mutation_state_def get_state_def
        empty_db_def find_row_def idle_context_def sample_scope_def scope_open_def blank_state_def)
  have 1: "barrier_step ok (empty_db, [idle_context]) (scope_db1, [scope_open])"
    using barrier_step.enter [of 0 "[idle_context]" False sample_scope empty_db scope_db1 scope_open ok] e by simp
  have "succeeds (leave_scope True 5 scope_open scope_db1)" by code_simp
  then obtain c where l: "leave_scope True 5 scope_open scope_db1 = Inr (scope_db2, c)"
    by (rule succeedsE) (auto simp: scope_db2_def)
  moreover have "c = idle_context"
    using l by (auto simp: leave_scope_def Let_def scope_open_def split: if_splits)
  ultimately have 2: "barrier_step ok (scope_db1, [scope_open]) (scope_db2, [idle_context])"
    using barrier_step.leave [of 0 "[scope_open]" 5 scope_db1 scope_db2 idle_context ok]
    by (simp add: scope_open_def)
  show ?thesis using 1 2 by (meson converse_rtranclp_into_rtranclp r_into_rtranclp)
qed

lemma journal_complete_witness:
  "\<exists>s. get_state ''d'' scope_db2 = Some s \<and> map je_epoch (journal_since 0 ''d'' scope_db2) = [1..<ms_current_epoch s + 1]"
proof -
  have "get_state ''d'' scope_db2 \<noteq> None" by code_simp
  then obtain s where s: "get_state ''d'' scope_db2 = Some s" by auto
  have i: "get_state ''d'' empty_db = None" "open_scopes ''d'' [idle_context] = 0" "epochs_of ''d'' empty_db = []"
    by (simp_all add: get_state_def empty_db_def find_row_def open_scopes_def epochs_of_def open_in_def idle_context_def)
  from journal_complete [OF sample_scope_run i s, where e = 0] s show ?thesis by auto
qed

definition journal_for :: "string \<Rightarrow> control_db \<Rightarrow> journal_entry list" where
  "journal_for dep db = filter (\<lambda>e. je_deployment_id e = dep) (journal db)"

definition frozen :: "string \<Rightarrow> mutation_state \<Rightarrow> journal_entry list \<Rightarrow> barrier_system \<Rightarrow> bool" where
  "frozen dep s entries sys =
     (barrier_inv dep sys \<and> get_state dep (fst sys) = Some s \<and> journal_for dep (fst sys) = entries)"

lemma others_cannot_move:
  assumes "ow \<noteq> o' \<or> d \<noteq> dep" "get_state dep db = Some s" "ms_barrier_state s = Barrier_active"
    "ms_barrier_owner_job s = Some o'"
  shows "barrier_request True clk ow d db = Inr (db', u) \<Longrightarrow>
      get_state dep db' = Some s \<and> journal_for dep db' = journal_for dep db"
    and "barrier_poll clk ow d db = Inr (db', r) \<Longrightarrow>
      get_state dep db' = Some s \<and> journal_for dep db' = journal_for dep db"
    and "release_barrier ow tol d db = Inr (db', b) \<Longrightarrow>
      get_state dep db' = Some s \<and> journal_for dep db' = journal_for dep db"
proof -
  have g: "get_mutation_state dep db = (db, s)" using assms(2) by (simp add: get_mutation_state_def)
  have j: "journal_for dep db' = journal_for dep db" if "journal db' = journal db"
    using that by (simp add: journal_for_def)
  show "get_state dep db' = Some s \<and> journal_for dep db' = journal_for dep db"
    if "barrier_request True clk ow d db = Inr (db', u)"
  proof (cases "d = dep")
    case True
    then show ?thesis using that g assms by (simp add: barrier_request_def)
  next
    case False
    have "barrier_request True clk ow d db = Inr (db', u) \<or> barrier_poll clk ow d db = Inr (db', None)
      \<or> release_barrier ow True d db = Inr (db', True)" using that by simp
    then show ?thesis by (rule barrier_op_cases) (use False assms(2) j in auto)
  qed
  show "get_state dep db' = Some s \<and> journal_for dep db' = journal_for dep db"
    if "barrier_poll clk ow d db = Inr (db', r)"
  proof (cases "d = dep")
    case True
    then show ?thesis using that assms by (simp add: barrier_poll_def)
  next
    case False
    have "barrier_request True clk ow d db = Inr (db', ()) \<or> barrier_poll clk ow d db = Inr (db', r)
      \<or> release_barrier ow True d db = Inr (db', True)" using that by simp
    then show ?thesis by (rule barrier_op_cases) (use False assms(2) j in auto)
  qed
  show "get_state dep db' = Some s \<and> journal_for dep db' = journal_for dep db"
    if "release_barrier ow tol d db = Inr (db', b)"
  proof (cases "d = dep")
    case True
    then show ?thesis using that assms by (auto simp: release_barrier_def split: if_splits)
  next
    case False
    have "barrier_request True clk ow d db = Inr (db', ()) \<or> barrier_poll clk ow d db = Inr (db', None)
      \<or> release_barrier ow tol d db = Inr (db', b)" using that by simp
    then show ?thesis by (rule barrier_op_cases) (use False assms(2) j in auto)
  qed
qed

lemma frozen_step:
  assumes "barrier_step (\<lambda>ow d. ow \<noteq> o' \<or> d \<noteq> dep) sys sys'" "frozen dep s entries sys"
    "ms_barrier_state s = Barrier_active" "ms_barrier_owner_job s = Some o'"
  shows "frozen dep s entries sys'"
proof -
  obtain db cs db' cs' where sys: "sys = (db, cs)" "sys' = (db', cs')" by (metis prod.exhaust)
  have st: "barrier_inv dep (db, cs)" "get_state dep db = Some s" "journal_for dep db = entries"
    using assms(2) by (simp_all add: frozen_def sys)
  have none: "open_scopes dep cs = 0" using st(1,2) assms(3) by (simp add: barrier_inv_def)
  have inv: "barrier_inv dep (db', cs')" using assms(1) st(1) unfolding sys by (rule barrier_step_inv)
  have "get_state dep db' = Some s \<and> journal_for dep db' = entries"
    using assms(1) unfolding sys
  proof cases
    case (enter i lazy args c)
    from enter(3) show ?thesis
    proof (cases rule: enter_cases)
      case nested
      then show ?thesis using st by simp
    next
      case (outer s2)
      then have "sx_deployment args \<noteq> dep" using st(2) assms(3) by auto
      then show ?thesis using outer(7) outer(8) [of dep] st by (simp add: journal_for_def)
    qed
  next
    case (leave i clk c)
    have closed: "\<not> open_in dep (cs ! i)"
      using none leave(2) by (auto simp: open_scopes_def filter_empty_conv)
    from leave(4,3) show ?thesis
    proof (cases rule: leave_cases)
      case nested
      then show ?thesis using st by simp
    next
      case (outer s2 ch)
      have "sx_deployment (cs ! i) \<noteq> dep" using closed leave(3) by (simp add: open_in_def)
      then show ?thesis using outer(5) outer(6) [of dep] st
        by (cases ch) (simp_all add: journal_for_def journal_of_def)
    qed
  next
    case (request ow d)
    then show ?thesis using others_cannot_move(1) [OF request(2) st(2) assms(3,4)] st(3) by blast
  next
    case (poll ow d)
    then show ?thesis using others_cannot_move(2) [OF poll(2) st(2) assms(3,4)] st(3) by blast
  next
    case (release ow d)
    then show ?thesis using others_cannot_move(3) [OF release(2) st(2) assms(3,4)] st(3) by blast
  qed (use st in auto)
  then show ?thesis using inv by (simp add: frozen_def sys)
qed

text \<open>C5: An active barrier freezes the source. While its owner does not act on it, no interleaving of
  scopes and of other jobs' barrier operations changes the deployment's row or adds a journal entry:
  what the owner copies is one consistent state, and it is still the proven owner afterwards.\<close>

theorem active_barrier_freezes_source:
  assumes "barrier_inv dep (db, cs)" "get_state dep db = Some s"
    and "ms_barrier_state s = Barrier_active" "ms_barrier_owner_job s = Some o'"
    and "(barrier_step (\<lambda>ow d. ow \<noteq> o' \<or> d \<noteq> dep))\<^sup>*\<^sup>* (db, cs) (db', cs')"
  shows "get_state dep db' = Some s \<and> journal_for dep db' = journal_for dep db
    \<and> assert_barrier_owner o' dep db' = Inr s"
proof -
  have "frozen dep s (journal_for dep db) (db', cs')"
    using assms(5)
  proof (induction rule: rtranclp_induct)
    case base
    then show ?case using assms(1,2) by (simp add: frozen_def)
  next
    case (step y z)
    then show ?case using frozen_step assms(3,4) by blast
  qed
  moreover have "ms_active_mutations s = 0" using assms(1-3) by (simp add: barrier_inv_def)
  ultimately show ?thesis using assms(3,4) by (simp add: frozen_def assert_barrier_owner_def)
qed

lemma active_barrier_freezes_source_witness:
  "\<exists>s. get_state ''d'' scope_db4 = Some s \<and> assert_barrier_owner ''job'' ''d'' scope_db4 = Inr s"
proof -
  have c: "(case get_state ''d'' scope_db4 of None \<Rightarrow> False | Some s \<Rightarrow>
      ms_barrier_state s = Barrier_active \<and> ms_barrier_owner_job s = Some ''job'')" by code_simp
  then obtain s where s: "get_state ''d'' scope_db4 = Some s" "ms_barrier_state s = Barrier_active"
    "ms_barrier_owner_job s = Some ''job''" by (auto split: option.splits)
  have "barrier_inv ''d'' (empty_db, [idle_context])"
    by (simp add: barrier_inv_def get_state_def empty_db_def find_row_def open_scopes_def epochs_of_def
        open_in_def idle_context_def)
  then have 2: "barrier_inv ''d'' (scope_db2, [idle_context])"
    by (rule barrier_runs.run_inv [OF sample_scope_run, where dep = "''d''"])
  have "succeeds (barrier_request True 6 ''job'' ''d'' scope_db2)" by code_simp
  then obtain u where "barrier_request True 6 ''job'' ''d'' scope_db2 = Inr (scope_db3, u)"
    by (rule succeedsE) (auto simp: scope_db3_def)
  then have 3: "barrier_inv ''d'' (scope_db3, [idle_context])" using barrier_op_inv [OF _ 2] by blast
  have "succeeds (barrier_poll 7 ''job'' ''d'' scope_db3)" by code_simp
  then obtain r where "barrier_poll 7 ''job'' ''d'' scope_db3 = Inr (scope_db4, r)"
    by (rule succeedsE) (auto simp: scope_db4_def)
  then have 4: "barrier_inv ''d'' (scope_db4, [idle_context])" using barrier_op_inv [OF _ 3] by blast
  have "release_barrier ''other'' True ''d'' scope_db4 = Inr (scope_db4, False)"
    using s(1,3) by (simp add: release_barrier_def)
  then have "(barrier_step (\<lambda>ow d. ow \<noteq> ''job'' \<or> d \<noteq> ''d''))\<^sup>*\<^sup>* (scope_db4, [idle_context]) (scope_db4, [idle_context])"
    by (intro r_into_rtranclp barrier_step.release) auto
  from active_barrier_freezes_source [OF 4 s this] s(1) show ?thesis by blast
qed

text \<open>Acquiring the barrier ends in one of two ways. It returns the deployment's row with the barrier
  active, owned by the job and no scope open; or it raises, and after a drain timeout the job does not
  own the barrier any more, so writers are not blocked for ever.\<close>

theorem request_barrier_outcome:
  assumes "request_barrier between True clk owner dep polls db = (db', r)"
  shows "(\<forall>s. r = Inr s \<longrightarrow> get_state dep db' = Some s \<and> ms_barrier_state s = Barrier_active
        \<and> ms_active_mutations s = 0 \<and> assert_barrier_owner owner dep db' = Inr s)
    \<and> (r = Inl (Consistent_snapshot_unproven ''mutation_barrier_drain_timeout'') \<longrightarrow>
        (\<forall>s. get_state dep db' = Some s \<longrightarrow> ms_barrier_owner_job s \<noteq> Some owner))"
proof -
  have "(\<forall>s. r = Inr s \<longrightarrow> get_state dep db' = Some s \<and> ms_barrier_state s = Barrier_active
        \<and> ms_active_mutations s = 0 \<and> ms_barrier_owner_job s = Some owner)
    \<and> (r = Inl (Consistent_snapshot_unproven ''mutation_barrier_drain_timeout'') \<longrightarrow>
        (\<forall>s. get_state dep db' = Some s \<longrightarrow> ms_barrier_owner_job s \<noteq> Some owner))"
    if "drain between clk owner dep i n d = (db', r)" for i n d
    using that
  proof (induction n arbitrary: i d)
    case 0
    let ?d = "between i d"
    show ?case
    proof (cases "get_state dep ?d")
      case None
      then show ?thesis using 0 by (auto simp: release_barrier_def Let_def)
    next
      case (Some s)
      have "ms_deployment_id s = dep" using Some by (rule state_rows.get_key)
      then have "get_state dep (put_state (s\<lparr>ms_barrier_state := Barrier_open, ms_barrier_owner_job := None,
            ms_barrier_requested_at := None, ms_barrier_activated_at := None\<rparr>) ?d)
          = Some (s\<lparr>ms_barrier_state := Barrier_open, ms_barrier_owner_job := None,
            ms_barrier_requested_at := None, ms_barrier_activated_at := None\<rparr>)"
        using Some by (simp add: state_rows.get_put_same)
      then show ?thesis using 0 Some
        by (auto simp: release_barrier_def Let_def split: if_splits)
    qed
  next
    case (Suc n)
    let ?d = "between i d"
    show ?case
    proof (cases "get_state dep ?d")
      case None
      then show ?thesis using Suc.prems by (auto simp: barrier_poll_def Let_def)
    next
      case (Some s)
      have "ms_deployment_id s = dep" using Some by (rule state_rows.get_key)
      then have "get_state dep (put_state (s\<lparr>ms_barrier_state := Barrier_active,
            ms_barrier_activated_at := Some clk\<rparr>) ?d)
          = Some (s\<lparr>ms_barrier_state := Barrier_active, ms_barrier_activated_at := Some clk\<rparr>)"
        using Some by (simp add: state_rows.get_put_same)
      then show ?thesis using Suc Some
        by (auto simp: barrier_poll_def Let_def split: if_splits)
    qed
  qed
  note d = this
  show ?thesis
  proof (cases "barrier_request True clk owner dep db")
    case (Inl e)
    then have "r = Inl e" using assms by (simp add: request_barrier_def)
    then show ?thesis using Inl by (auto simp: barrier_request_def split: if_splits prod.splits)
  next
    case (Inr x)
    then obtain d0 where "drain between clk owner dep 0 polls d0 = (db', r)"
      using assms by (cases x) (auto simp: request_barrier_def)
    from d [OF this] show ?thesis by (auto simp: assert_barrier_owner_def)
  qed
qed

lemma request_barrier_outcome_witness:
  "\<exists>db' s. request_barrier (\<lambda>i db. db) True 6 ''job'' ''d'' 3 scope_db2 = (db', Inr s)
    \<and> ms_active_mutations s = 0"
proof -
  let ?r = "request_barrier (\<lambda>i db. db) True 6 ''job'' ''d'' 3 scope_db2"
  have "succeeds (snd ?r)" by code_simp
  then obtain db' s where r: "?r = (db', Inr s)"
    by (cases ?r) (auto simp: succeeds_def split: sum.splits)
  from request_barrier_outcome [OF r] r show ?thesis by simp
qed

end
