(* ===== verification/Vault_Confirmations.thy ===== *)
theory Vault_Confirmations
  imports Vault_Models
begin

section \<open>Typed confirmations\<close>

text \<open>
  \<^verbatim>\<open>flowdocs/vaultops/services/confirmations.py\<close>: a dangerous action is confirmed by typing a phrase
  that was issued to one actor for one action on one target in one observed state, once, within its
  life time. \<open>mac\<close> is the keyed digest \<^verbatim>\<open>HMAC-SHA256\<close> under the secret key and \<open>sha\<close> \<^verbatim>\<open>SHA-256\<close>, both
  on texts; the salt and the public id come from the caller's random source.
\<close>

datatype confirmation_error = Confirmation_error string | Compare_type_error

definition allowed_verb :: "string \<Rightarrow> string option" where
  "allowed_verb action =
     map_of [(''activate_workspace'', ''ACTIVATE''), (''rollback_runtime'', ''ROLLBACK''),
       (''promote_generation'', ''PROMOTE''), (''retire_generation'', ''RETIRE''),
       (''unretire_generation'', ''UNRETIRE'')] action"

text \<open>The pattern \<^verbatim>\<open>^[A-Za-z0-9][A-Za-z0-9._:-]{0,159}$\<close>.\<close>

definition target_char :: "char \<Rightarrow> bool" where
  "target_char c = (ascii_alnum c \<or> c \<in> {CHR ''.'', CHR ''_'', CHR '':'', CHR ''-''})"

definition target_ok :: "string \<Rightarrow> bool" where
  "target_ok s = (case s of [] \<Rightarrow> False
     | c # cs \<Rightarrow> ascii_alnum c \<and> list_all target_char cs \<and> length cs \<le> 159)"

definition phrase_digest :: "(string \<Rightarrow> digest) \<Rightarrow> string \<Rightarrow> string \<Rightarrow> digest" where
  "phrase_digest mac phrase salt = mac (salt @ '':'' @ phrase)"

definition get_challenge :: "string \<Rightarrow> control_db \<Rightarrow> confirmation_challenge option" where
  "get_challenge cid db = find_row cc_public_id cid (challenges db)"

definition put_challenge :: "confirmation_challenge \<Rightarrow> control_db \<Rightarrow> control_db" where
  "put_challenge c db = db\<lparr>challenges := put_row cc_public_id c (challenges db)\<rparr>"

interpretation challenge_rows: row_store get_challenge put_challenge cc_public_id
  by unfold_locales
    (auto simp: get_challenge_def put_challenge_def table_simps dest: find_row_Some)

definition challenge_lifetime :: "int \<Rightarrow> int" where
  "challenge_lifetime expires_seconds = max 60 (min expires_seconds 600)"

definition issue_confirmation ::
  "(string \<Rightarrow> digest) \<Rightarrow> instant \<Rightarrow> string \<Rightarrow> string \<Rightarrow> nat \<Rightarrow> string \<Rightarrow> string \<Rightarrow> string \<Rightarrow> int \<Rightarrow>
   control_db \<Rightarrow> confirmation_error + control_db \<times> (confirmation_challenge \<times> string)" where
  "issue_confirmation mac clk cid salt actor_id action target state_digest expires_seconds db =
     (case allowed_verb action of
        None \<Rightarrow> Inl (Confirmation_error ''confirmation_target_invalid'')
      | Some verb \<Rightarrow>
          if \<not> target_ok target \<or> \<not> sha256_text state_digest
          then Inl (Confirmation_error ''confirmation_target_invalid'')
          else let phrase = verb @ '' '' @ target;
                   challenge = \<lparr>cc_public_id = cid, cc_actor_id = actor_id, cc_action = action,
                     cc_target = target, cc_state_digest = state_digest, cc_phrase_salt = salt,
                     cc_phrase_digest = phrase_digest mac phrase salt,
                     cc_expires_at = clk + 1000000 * challenge_lifetime expires_seconds,
                     cc_used_at = None\<rparr>
               in Inr (db\<lparr>challenges := challenges db @ [challenge]\<rparr>, (challenge, phrase)))"

text \<open>\<^verbatim>\<open>hmac.compare_digest\<close> raises on a text that is not ASCII.\<close>

definition compare_digest :: "string \<Rightarrow> string \<Rightarrow> confirmation_error + bool" where
  "compare_digest a b = (if ascii_text a \<and> ascii_text b then Inr (a = b) else Inl Compare_type_error)"

definition check_confirmation ::
  "(string \<Rightarrow> digest) \<Rightarrow> (string \<Rightarrow> digest) \<Rightarrow> instant \<Rightarrow> string \<Rightarrow> nat \<Rightarrow> string \<Rightarrow> string \<Rightarrow> string \<Rightarrow>
   string \<Rightarrow> bool \<Rightarrow> control_db \<Rightarrow> confirmation_error + control_db \<times> digest" where
  "check_confirmation mac sha now cid actor_id action target state_digest phrase consume db =
     bind_res (of_option (Confirmation_error ''confirmation_not_found'') (get_challenge cid db)) (\<lambda>challenge.
     bind_res (require (cc_used_at challenge = None) (Confirmation_error ''confirmation_replayed'')) (\<lambda>_.
     bind_res (require (now < cc_expires_at challenge) (Confirmation_error ''confirmation_expired'')) (\<lambda>_.
     bind_res (require (cc_actor_id challenge = actor_id \<and> cc_action challenge = action
         \<and> cc_target challenge = target) (Confirmation_error ''confirmation_identity_mismatch'')) (\<lambda>_.
     bind_res (compare_digest (cc_state_digest challenge) state_digest) (\<lambda>same_state.
     bind_res (require same_state (Confirmation_error ''stale_state'')) (\<lambda>_.
     bind_res (compare_digest (cc_phrase_digest challenge)
         (phrase_digest mac (py_strip phrase) (cc_phrase_salt challenge))) (\<lambda>same_phrase.
     bind_res (require same_phrase (Confirmation_error ''confirmation_phrase_mismatch'')) (\<lambda>_.
     Inr (if consume then put_challenge (challenge\<lparr>cc_used_at := Some now\<rparr>) db else db,
       sha (cc_public_id challenge @ '':'' @ cc_state_digest challenge @ '':''
            @ cc_phrase_digest challenge))))))))))"

definition validate_confirmation where
  "validate_confirmation mac sha now cid actor_id action target state_digest phrase db =
     check_confirmation mac sha now cid actor_id action target state_digest phrase False db"

definition consume_confirmation where
  "consume_confirmation mac sha now cid actor_id action target state_digest phrase db =
     check_confirmation mac sha now cid actor_id action target state_digest phrase True db"

subsection \<open>What a confirmation guarantees\<close>

inductive confirmation_step ::
  "(string \<Rightarrow> digest) \<Rightarrow> (string \<Rightarrow> digest) \<Rightarrow> control_db \<Rightarrow> control_db \<Rightarrow> bool" for mac sha where
  issued: "issue_confirmation mac clk cid salt actor action target sd secs db = Inr (db', r) \<Longrightarrow>
    get_challenge cid db = None \<Longrightarrow> confirmation_step mac sha db db'"
| validated: "validate_confirmation mac sha now cid actor action target sd phrase db = Inr (db', d) \<Longrightarrow>
    confirmation_step mac sha db db'"
| consumed: "consume_confirmation mac sha now cid actor action target sd phrase db = Inr (db', d) \<Longrightarrow>
    confirmation_step mac sha db db'"

definition used_challenge :: "string \<Rightarrow> control_db \<Rightarrow> bool" where
  "used_challenge cid db = (case get_challenge cid db of None \<Rightarrow> False | Some c \<Rightarrow> cc_used_at c \<noteq> None)"

lemma check_Inr:
  assumes "check_confirmation mac sha now cid actor action target sd phrase consume db = Inr (db', d)"
  obtains c where "get_challenge cid db = Some c" "cc_used_at c = None" "now < cc_expires_at c"
    "cc_actor_id c = actor" "cc_action c = action" "cc_target c = target" "cc_state_digest c = sd"
    "cc_phrase_digest c = phrase_digest mac (py_strip phrase) (cc_phrase_salt c)"
    "db' = (if consume then put_challenge (c\<lparr>cc_used_at := Some now\<rparr>) db else db)"
    "d = sha (cid @ '':'' @ sd @ '':'' @ cc_phrase_digest c)"
proof -
  from assms obtain c where c: "get_challenge cid db = Some c" by (auto simp: check_confirmation_def)
  have "cc_public_id c = cid" using c by (rule challenge_rows.get_key)
  then show thesis
    using assms c
    by (intro that [of c]) (auto simp: check_confirmation_def compare_digest_def split: if_splits)
qed

lemma get_challenge_append:
  "get_challenge cid (db\<lparr>challenges := challenges db @ [c]\<rparr>) =
     (case get_challenge cid db of Some x \<Rightarrow> Some x | None \<Rightarrow> if cc_public_id c = cid then Some c else None)"
proof -
  have "find_row cc_public_id cid (xs @ [c]) = (case find_row cc_public_id cid xs of Some x \<Rightarrow> Some x
      | None \<Rightarrow> if cc_public_id c = cid then Some c else None)" for xs
    by (induction xs) (auto simp: find_row_def)
  then show ?thesis by (simp add: get_challenge_def)
qed

lemma step_keeps_used:
  assumes "confirmation_step mac sha db db'" "used_challenge cid db"
  shows "used_challenge cid db'"
  using assms(1)
proof cases
  case (issued clk i salt actor action target sd secs r)
  then obtain c where "db' = db\<lparr>challenges := challenges db @ [c]\<rparr>"
    by (auto simp: issue_confirmation_def Let_def split: option.splits if_splits)
  then show ?thesis using assms(2)
    by (auto simp: used_challenge_def get_challenge_append split: option.splits)
next
  case validated
  then show ?thesis using assms(2) unfolding validate_confirmation_def by (elim check_Inr) simp
next
  case (consumed now i)
  then obtain c where c: "get_challenge i db = Some c" "db' = put_challenge (c\<lparr>cc_used_at := Some now\<rparr>) db"
    unfolding consume_confirmation_def by (elim check_Inr) simp
  have "cc_public_id c = i" using c(1) by (rule challenge_rows.get_key)
  then show ?thesis
    using assms(2) c challenge_rows.get_put [of "c\<lparr>cc_used_at := Some now\<rparr>" db c cid]
    by (auto simp: used_challenge_def)
qed

interpretation used_stays: invariant_steps "confirmation_step mac sha" "used_challenge cid" for mac sha cid
  by unfold_locales (rule step_keeps_used)

text \<open>C6: A confirmation authorises once. After a challenge was consumed, whatever is issued, validated
  or consumed afterwards, every further validation or consumption of it is refused as a replay.\<close>

theorem confirmation_one_use:
  assumes "consume_confirmation mac sha now cid actor action target sd phrase db = Inr (db1, d)"
    and "(confirmation_step mac sha)\<^sup>*\<^sup>* db1 db2"
  shows "consume_confirmation mac sha now2 cid actor2 action2 target2 sd2 phrase2 db2
        = Inl (Confirmation_error ''confirmation_replayed'')
    \<and> validate_confirmation mac sha now2 cid actor2 action2 target2 sd2 phrase2 db2
        = Inl (Confirmation_error ''confirmation_replayed'')"
proof -
  obtain c where c: "get_challenge cid db = Some c" "db1 = put_challenge (c\<lparr>cc_used_at := Some now\<rparr>) db"
    using assms(1) unfolding consume_confirmation_def by (elim check_Inr) simp
  have "cc_public_id c = cid" using c(1) by (rule challenge_rows.get_key)
  then have "used_challenge cid db1"
    using c challenge_rows.get_put_same [of cid db c "c\<lparr>cc_used_at := Some now\<rparr>"]
    by (simp add: used_challenge_def)
  then have "used_challenge cid db2" by (rule used_stays.run_inv [OF assms(2)])
  then show ?thesis
    by (auto simp: used_challenge_def consume_confirmation_def validate_confirmation_def
        check_confirmation_def split: option.splits)
qed

text \<open>A confirmation authorises only what was shown. If the keyed digest does not collide, whoever
  consumes a challenge within its life time is the actor it was issued to, for the same action, target
  and observed state, and typed, blanks around it apart, exactly the phrase that was issued.\<close>

theorem confirmation_binds_phrase:
  assumes "inj mac"
    and "issue_confirmation mac clk cid salt actor action target sd secs db0 = Inr (db1, (ch, issued))"
    and "get_challenge cid db2 = Some ch"
    and "consume_confirmation mac sha now cid actor2 action2 target2 sd2 phrase db2 = Inr (db3, d)"
  shows "actor2 = actor \<and> action2 = action \<and> target2 = target \<and> sd2 = sd \<and> py_strip phrase = issued
    \<and> now < clk + 600000001"
proof -
  obtain verb where ch: "issued = verb @ '' '' @ target" "cc_phrase_salt ch = salt"
    "cc_phrase_digest ch = phrase_digest mac issued salt" "cc_actor_id ch = actor" "cc_action ch = action"
    "cc_target ch = target" "cc_state_digest ch = sd"
    "cc_expires_at ch = clk + 1000000 * challenge_lifetime secs"
    using assms(2) by (auto simp: issue_confirmation_def Let_def split: option.splits if_splits)
  have life: "challenge_lifetime secs \<le> 600" by (simp add: challenge_lifetime_def)
  from assms(4) obtain c where c: "get_challenge cid db2 = Some c" "now < cc_expires_at c"
    "cc_actor_id c = actor2" "cc_action c = action2" "cc_target c = target2" "cc_state_digest c = sd2"
    "cc_phrase_digest c = phrase_digest mac (py_strip phrase) (cc_phrase_salt c)"
    unfolding consume_confirmation_def by (elim check_Inr) simp
  have "c = ch" using c(1) assms(3) by simp
  then have "phrase_digest mac (py_strip phrase) salt = phrase_digest mac issued salt" using c ch by simp
  then have "py_strip phrase = issued" using assms(1) by (simp add: phrase_digest_def inj_eq)
  then show ?thesis using \<open>c = ch\<close> c ch life by simp
qed

lemma alnum_not_space: "ascii_alnum c \<Longrightarrow> \<not> py_space c"
  by (auto simp: ascii_alnum_def digit_char_def py_space_def Let_def less_eq_char_def)

lemma target_not_space: "target_char c \<Longrightarrow> \<not> py_space c"
  unfolding target_char_def using alnum_not_space by (auto simp: py_space_def)

lemma issued_phrase_ends:
  assumes "allowed_verb action = Some verb" "target_ok target"
  shows "\<not> py_space (hd (verb @ '' '' @ target))" "\<not> py_space (last (verb @ '' '' @ target))"
proof -
  have "verb \<in> {''ACTIVATE'', ''ROLLBACK'', ''PROMOTE'', ''RETIRE'', ''UNRETIRE''}"
    using assms(1) by (auto simp: allowed_verb_def split: if_splits)
  then show "\<not> py_space (hd (verb @ '' '' @ target))" by (auto simp: py_space_def)
  show "\<not> py_space (last (verb @ '' '' @ target))"
    using assms(2) alnum_not_space target_not_space
    by (auto simp: target_ok_def list_all_iff split: list.splits)
qed

lemma issued_phrase_clean:
  "allowed_verb action = Some verb \<Longrightarrow> target_ok target \<Longrightarrow>
   py_strip (verb @ '' '' @ target) = verb @ '' '' @ target"
  unfolding py_strip_def using issued_phrase_ends by (intro strip_by_id) blast

lemma strip_by_pad:
  assumes "list_all p pre" "list_all p post" "strip_by p s = s" "s \<noteq> []" "\<not> p (hd s)" "\<not> p (last s)"
  shows "strip_by p (pre @ s @ post) = s"
proof -
  have front: "dropWhile p (xs @ ys) = ys" if "list_all p xs" "ys \<noteq> []" "\<not> p (hd ys)" for xs ys
    using that by (induction xs) (auto simp: dropWhile_eq_self_iff)
  have "dropWhile p (pre @ s @ post) = s @ post" using front [of pre "s @ post"] assms by simp
  moreover have "dropWhile p (rev post @ rev s) = rev s"
    using assms by (intro front) (auto simp: hd_rev)
  ultimately show ?thesis by (simp add: strip_by_def)
qed

text \<open>The phrase that was issued is accepted: for a fresh id, the actor who types it back, with any
  blanks around it, before the challenge expires and in the same state, consumes the challenge.\<close>

theorem issued_phrase_accepted:
  assumes "issue_confirmation mac clk cid salt actor action target sd secs db = Inr (db1, (ch, phrase))"
    and "get_challenge cid db = None" "now < clk + 60000000"
    and "list_all py_space before" "list_all py_space after"
    and "ascii_text (mac (salt @ '':'' @ phrase))"
  shows "\<exists>db2. consume_confirmation mac sha now cid actor action target sd (before @ phrase @ after) db1
    = Inr (db2, sha (cid @ '':'' @ sd @ '':'' @ cc_phrase_digest ch))"
proof -
  obtain verb where verb: "allowed_verb action = Some verb" "target_ok target"
    and ch: "phrase = verb @ '' '' @ target" "cc_phrase_salt ch = salt" "cc_public_id ch = cid"
    "cc_phrase_digest ch = phrase_digest mac phrase salt" "cc_actor_id ch = actor" "cc_action ch = action"
    "cc_target ch = target" "cc_state_digest ch = sd" "cc_used_at ch = None"
    "cc_expires_at ch = clk + 1000000 * challenge_lifetime secs" "sha256_text sd"
    "db1 = db\<lparr>challenges := challenges db @ [ch]\<rparr>"
    using assms(1) by (auto simp: issue_confirmation_def Let_def split: option.splits if_splits)
  have typed: "py_strip (before @ phrase @ after) = phrase"
    unfolding py_strip_def
    by (rule strip_by_pad [OF assms(4,5)])
      (use issued_phrase_clean [OF verb] issued_phrase_ends [OF verb] ch(1) in \<open>simp_all add: py_strip_def\<close>)
  have "60 \<le> challenge_lifetime secs" by (simp add: challenge_lifetime_def)
  then have alive: "now < cc_expires_at ch" using assms(3) ch(10) by linarith
  have "lower_hex_char c \<Longrightarrow> (of_char c :: nat) < 128" for c
    by (auto simp: lower_hex_char_def digit_char_def less_eq_char_def)
  then have "ascii_text sd" using ch(11) by (auto simp: sha256_text_def ascii_text_def list_all_iff)
  moreover have "get_challenge cid db1 = Some ch"
    using ch(3,12) assms(2) by (simp add: get_challenge_append)
  ultimately show ?thesis
    using alive ch(2-9) typed assms(6)
    by (simp add: consume_confirmation_def check_confirmation_def compare_digest_def phrase_digest_def)
qed

text \<open>A concrete challenge, for the witnesses.\<close>

definition sample_mac :: "string \<Rightarrow> digest" where
  "sample_mac s = ''m'' @ s"

definition sample_state :: digest where
  "sample_state = replicate 64 CHR ''a''"

definition sample_challenge :: confirmation_challenge where
  "sample_challenge = \<lparr>cc_public_id = ''c1'', cc_actor_id = 7, cc_action = ''promote_generation'',
     cc_target = ''gen-1'', cc_state_digest = sample_state, cc_phrase_salt = ''s'',
     cc_phrase_digest = ''ms:PROMOTE gen-1'', cc_expires_at = 300000000, cc_used_at = None\<rparr>"

definition challenge_db :: control_db where
  "challenge_db = empty_db\<lparr>challenges := [sample_challenge]\<rparr>"

lemma sample_issue:
  "issue_confirmation sample_mac 0 ''c1'' ''s'' 7 ''promote_generation'' ''gen-1'' sample_state 300 empty_db
     = Inr (challenge_db, (sample_challenge, ''PROMOTE gen-1''))"
proof -
  have "sha256_text sample_state" "target_ok ''gen-1''" by code_simp+
  then show ?thesis
    by (simp add: issue_confirmation_def allowed_verb_def challenge_db_def sample_challenge_def
        phrase_digest_def sample_mac_def challenge_lifetime_def empty_db_def Let_def)
qed

lemma sample_no_challenge: "get_challenge ''c1'' empty_db = None"
  by (simp add: get_challenge_def empty_db_def find_row_def)

lemma issued_phrase_accepted_witness:
  "\<exists>db2 d. consume_confirmation sample_mac (\<lambda>s. s) 5 ''c1'' 7 ''promote_generation'' ''gen-1'' sample_state
     ('' '' @ ''PROMOTE gen-1'' @ '' '') challenge_db = Inr (db2, d)"
proof -
  have "list_all py_space '' ''" "ascii_text (sample_mac (''s'' @ '':'' @ ''PROMOTE gen-1''))" by code_simp+
  from issued_phrase_accepted [OF sample_issue sample_no_challenge _ this(1) this(1) this(2), where now = 5
      and sha = "\<lambda>s. s"] show ?thesis by auto
qed

lemma sample_consume:
  "\<exists>db2 d. consume_confirmation sample_mac (\<lambda>s. s) 5 ''c1'' 7 ''promote_generation'' ''gen-1'' sample_state
     ''PROMOTE gen-1'' challenge_db = Inr (db2, d)"
proof -
  have "succeeds (consume_confirmation sample_mac (\<lambda>s. s) 5 ''c1'' 7 ''promote_generation'' ''gen-1'' sample_state
     ''PROMOTE gen-1'' challenge_db)" by code_simp
  then show ?thesis by (auto simp: succeeds_def split: sum.splits)
qed

lemma confirmation_one_use_witness:
  "\<exists>db2. consume_confirmation sample_mac (\<lambda>s. s) 6 ''c1'' 7 ''promote_generation'' ''gen-1'' sample_state
     ''PROMOTE gen-1'' db2 = Inl (Confirmation_error ''confirmation_replayed'')"
proof -
  obtain db2 d where "consume_confirmation sample_mac (\<lambda>s. s) 5 ''c1'' 7 ''promote_generation'' ''gen-1''
     sample_state ''PROMOTE gen-1'' challenge_db = Inr (db2, d)" using sample_consume by blast
  from confirmation_one_use [OF this rtranclp.rtrancl_refl] show ?thesis by blast
qed

lemma confirmation_binds_phrase_witness: "py_strip ''PROMOTE gen-1'' = ''PROMOTE gen-1''"
proof -
  obtain db2 d where c: "consume_confirmation sample_mac (\<lambda>s. s) 5 ''c1'' 7 ''promote_generation'' ''gen-1''
     sample_state ''PROMOTE gen-1'' challenge_db = Inr (db2, d)" using sample_consume by blast
  have "inj sample_mac" by (auto simp: inj_def sample_mac_def)
  moreover have "get_challenge ''c1'' challenge_db = Some sample_challenge"
    by (simp add: get_challenge_def challenge_db_def find_row_def sample_challenge_def)
  ultimately show ?thesis using confirmation_binds_phrase [OF _ sample_issue _ c] by blast
qed

end
