(* ===== verification/Core_Keys.thy ===== *)
theory Core_Keys
  imports Flow_Prelude
begin

section \<open>Object keys\<close>

text \<open>
  \<^verbatim>\<open>flowdocs/core/namespace.py\<close>: the validators of the key components, the methods of
  \<^verbatim>\<open>KeyBuilder\<close> that put an object key together, and the two that read one. A \<^verbatim>\<open>KeyBuilderError\<close> is
  the left of a sum, with its message.

  The lemmas show that what a builder builds lies under its own dataset and under no other, that the
  generation is read back from a key that names one, and which metadata paths are accepted.
\<close>

datatype key_error = KeyBuilderError string

record key_builder =
  kb_dataset_id :: string

subsection \<open>Validators\<close>

definition unsafe_text :: "string \<Rightarrow> bool" where
  "unsafe_text s = (CHR ''/'' \<in> set s \<or> contains_text ''..'' s \<or> CHR 0x5C \<in> set s)"

definition control_char :: "char \<Rightarrow> bool" where
  "control_char c = ((of_char c :: nat) < 32)"

definition validate_dataset_id :: "string \<Rightarrow> key_error + unit" where
  "validate_dataset_id s =
     bind_res (require (s \<noteq> []) (KeyBuilderError ''Dataset ID is required'')) (\<lambda>_.
     bind_res (require (\<not> unsafe_text s) (KeyBuilderError (''Dataset ID contains unsafe characters: '' @ s))) (\<lambda>_.
     bind_res (require (length s \<le> 100) (KeyBuilderError (''Dataset ID exceeds maximum length: '' @ s))) (\<lambda>_.
     require (\<not> list_ex control_char s) (KeyBuilderError (''Dataset ID contains control characters: '' @ s)))))"

definition validate_generation_id :: "string \<Rightarrow> key_error + unit" where
  "validate_generation_id s =
     bind_res (require (s \<noteq> []) (KeyBuilderError ''Generation ID is required'')) (\<lambda>_.
     bind_res (require (\<not> unsafe_text s) (KeyBuilderError (''Generation ID contains unsafe characters: '' @ s))) (\<lambda>_.
     bind_res (require (length s \<le> 120) (KeyBuilderError (''Generation ID exceeds maximum length: '' @ s))) (\<lambda>_.
     require (\<not> list_ex control_char s) (KeyBuilderError (''Generation ID contains control characters: '' @ s)))))"

definition validate_sha256 :: "string \<Rightarrow> key_error + unit" where
  "validate_sha256 s =
     require (sha256_text s) (KeyBuilderError ''Expected a lowercase 64-character SHA-256 hex digest'')"

text \<open>
  \<^verbatim>\<open>SAFE_ID_RE\<close> under \<^verbatim>\<open>fullmatch\<close>. The pattern of a path part runs under \<^verbatim>\<open>re.match\<close>, where the
  closing \<^verbatim>\<open>$\<close> also matches before one newline at the end.
\<close>

definition id_char :: "char \<Rightarrow> bool" where
  "id_char c = (ascii_alnum c \<or> c = CHR ''.'' \<or> c = CHR ''_'' \<or> c = CHR ''-'')"

definition starts_alnum :: "string \<Rightarrow> bool" where
  "starts_alnum s = (case s of [] \<Rightarrow> False | c # cs \<Rightarrow> ascii_alnum c \<and> list_all id_char cs)"

definition safe_id :: "string \<Rightarrow> bool" where
  "safe_id s = (starts_alnum s \<and> length s \<le> 100)"

definition validate_safe_component :: "string \<Rightarrow> string \<Rightarrow> key_error + unit" where
  "validate_safe_component s label =
     require (s \<noteq> [] \<and> safe_id s) (KeyBuilderError (''Unsafe '' @ label @ '': '' @ s))"

definition newline :: char where
  "newline = CHR 0x0A"

definition safe_part :: "string \<Rightarrow> bool" where
  "safe_part p = (p \<noteq> [] \<and> (starts_alnum p \<or> (last p = newline \<and> starts_alnum (butlast p))))"

fun check_parts :: "string list \<Rightarrow> key_error + unit" where
  "check_parts [] = Inr ()"
| "check_parts (p # ps) =
     bind_res (require (safe_part p) (KeyBuilderError (''Unsafe path component: '' @ p))) (\<lambda>_. check_parts ps)"

definition safe_relative_parts :: "string \<Rightarrow> key_error + string list" where
  "safe_relative_parts path =
     bind_res (require (path \<noteq> [] \<and> hd path \<noteq> CHR ''/'' \<and> CHR 0x5C \<notin> set path)
       (KeyBuilderError (''Unsafe path: '' @ path))) (\<lambda>_.
     let parts = split_on (CHR ''/'') path in
     bind_res (check_parts parts) (\<lambda>_. Inr parts))"

subsection \<open>The builder\<close>

definition key_builder_init :: "string \<Rightarrow> key_error + key_builder" where
  "key_builder_init ds = bind_res (validate_dataset_id ds) (\<lambda>_. Inr \<lparr>kb_dataset_id = ds\<rparr>)"

definition key_prefix :: "key_builder \<Rightarrow> string" where
  "key_prefix kb = ''datasets/'' @ kb_dataset_id kb"

definition control_registration :: "key_builder \<Rightarrow> string" where
  "control_registration kb = key_prefix kb @ ''/control/registration.json''"

definition control_authoritative :: "key_builder \<Rightarrow> string" where
  "control_authoritative kb = key_prefix kb @ ''/control/authoritative.json''"

definition control_global_writer :: "key_builder \<Rightarrow> string" where
  "control_global_writer kb = key_prefix kb @ ''/control/writer.json''"

definition control_lease :: "key_builder \<Rightarrow> string" where
  "control_lease kb = key_prefix kb @ ''/control/writer-lease.json''"

definition control_history :: "key_builder \<Rightarrow> string \<Rightarrow> string \<Rightarrow> key_error + string" where
  "control_history kb timestamp event =
     bind_res (validate_safe_component timestamp ''timestamp'') (\<lambda>_.
     bind_res (validate_safe_component event ''event'') (\<lambda>_.
     Inr (key_prefix kb @ ''/control/history/'' @ timestamp @ ''-'' @ event @ ''.json'')))"

definition generation_manifest :: "key_builder \<Rightarrow> string \<Rightarrow> key_error + string" where
  "generation_manifest kb g = bind_res (validate_generation_id g) (\<lambda>_.
     Inr (key_prefix kb @ ''/generations/'' @ g @ ''/manifest.json''))"

definition generation_database :: "key_builder \<Rightarrow> string \<Rightarrow> key_error + string" where
  "generation_database kb g = bind_res (validate_generation_id g) (\<lambda>_.
     Inr (key_prefix kb @ ''/generations/'' @ g @ ''/database.sqlite3''))"

definition generation_faiss :: "key_builder \<Rightarrow> string \<Rightarrow> int \<Rightarrow> key_error + string" where
  "generation_faiss kb g folder_id = bind_res (validate_generation_id g) (\<lambda>_.
     bind_res (require (folder_id \<ge> 1) (KeyBuilderError ''FAISS folder_id must be a positive integer'')) (\<lambda>_.
     Inr (key_prefix kb @ ''/generations/'' @ g @ ''/faiss/folder_'' @ show_int folder_id @ ''.index'')))"

definition generation_metadata :: "key_builder \<Rightarrow> string \<Rightarrow> string \<Rightarrow> key_error + string" where
  "generation_metadata kb g path = bind_res (validate_generation_id g) (\<lambda>_.
     bind_res (safe_relative_parts path) (\<lambda>parts.
     Inr (key_prefix kb @ ''/generations/'' @ g @ ''/metadata/'' @ join_with ''/'' parts)))"

definition blob_pdf :: "key_builder \<Rightarrow> string \<Rightarrow> key_error + string" where
  "blob_pdf kb sha = bind_res (validate_sha256 sha) (\<lambda>_.
     Inr (key_prefix kb @ ''/blobs/pdfs/sha256/'' @ sha @ ''.pdf''))"

definition blob_db :: "key_builder \<Rightarrow> string \<Rightarrow> key_error + string" where
  "blob_db kb sha = bind_res (validate_sha256 sha) (\<lambda>_.
     Inr (key_prefix kb @ ''/blobs/db/'' @ sha @ ''.sqlite3''))"

definition blob_faiss :: "key_builder \<Rightarrow> string \<Rightarrow> key_error + string" where
  "blob_faiss kb sha = bind_res (validate_sha256 sha) (\<lambda>_.
     Inr (key_prefix kb @ ''/blobs/faiss/'' @ sha @ ''.index''))"

definition content_blob :: "key_builder \<Rightarrow> string \<Rightarrow> string \<Rightarrow> string \<Rightarrow> key_error + string" where
  "content_blob kb category sha extension =
     bind_res (validate_safe_component category ''blob category'') (\<lambda>_.
     bind_res (validate_sha256 sha) (\<lambda>_.
     if extension \<noteq> [] then
       bind_res (validate_safe_component extension ''blob extension'') (\<lambda>_.
       Inr (key_prefix kb @ ''/blobs/'' @ category @ ''/sha256/'' @ sha @ ''.'' @ extension))
     else Inr (key_prefix kb @ ''/blobs/'' @ category @ ''/sha256/'' @ sha)))"

definition legacy_pdf_key :: "string \<Rightarrow> key_error + string" where
  "legacy_pdf_key sha = bind_res (validate_sha256 sha) (\<lambda>_. Inr (''pdfs/sha256/'' @ sha @ ''.pdf''))"

definition legacy_manifest_key :: "string \<Rightarrow> key_error + string" where
  "legacy_manifest_key release_id = bind_res (validate_generation_id release_id) (\<lambda>_.
     Inr (''manifests/'' @ release_id @ ''.json''))"

definition starts_with :: "string \<Rightarrow> string \<Rightarrow> bool" where
  "starts_with p s = (take (length p) s = p)"

definition is_scoped :: "key_builder \<Rightarrow> string \<Rightarrow> bool" where
  "is_scoped kb key = starts_with (''datasets/'' @ kb_dataset_id kb @ ''/'') key"

text \<open>\<^verbatim>\<open>rest.split("/", 1)\<close> never returns an empty list: its first element ends at the first slash.\<close>

definition extract_generation_id :: "key_builder \<Rightarrow> string \<Rightarrow> string option" where
  "extract_generation_id kb key =
     (let p = ''datasets/'' @ kb_dataset_id kb @ ''/generations/'' in
      if \<not> starts_with p key then None
      else Some (takeWhile (\<lambda>c. c \<noteq> CHR ''/'') (drop (length p) key)))"

text \<open>
  Every kind of key a builder makes, and the generation it names, if it names one. The two legacy keys
  above are static methods: no builder prefixes them with its dataset, and they are not among these.
\<close>

datatype object_key =
    Registration | Authoritative_pointer | Global_writer | Writer_lease
  | History string string
  | Generation_manifest string | Generation_database string | Generation_faiss string int
  | Generation_metadata string string
  | Blob_pdf string | Blob_db string | Blob_faiss string | Content_blob string string string

fun build_key :: "key_builder \<Rightarrow> object_key \<Rightarrow> key_error + string" where
  "build_key kb Registration = Inr (control_registration kb)"
| "build_key kb Authoritative_pointer = Inr (control_authoritative kb)"
| "build_key kb Global_writer = Inr (control_global_writer kb)"
| "build_key kb Writer_lease = Inr (control_lease kb)"
| "build_key kb (History t e) = control_history kb t e"
| "build_key kb (Generation_manifest g) = generation_manifest kb g"
| "build_key kb (Generation_database g) = generation_database kb g"
| "build_key kb (Generation_faiss g i) = generation_faiss kb g i"
| "build_key kb (Generation_metadata g p) = generation_metadata kb g p"
| "build_key kb (Blob_pdf sha) = blob_pdf kb sha"
| "build_key kb (Blob_db sha) = blob_db kb sha"
| "build_key kb (Blob_faiss sha) = blob_faiss kb sha"
| "build_key kb (Content_blob c sha e) = content_blob kb c sha e"

fun named_generation :: "object_key \<Rightarrow> string option" where
  "named_generation (Generation_manifest g) = Some g"
| "named_generation (Generation_database g) = Some g"
| "named_generation (Generation_faiss g i) = Some g"
| "named_generation (Generation_metadata g p) = Some g"
| "named_generation _ = None"

lemmas key_methods = control_registration_def control_authoritative_def control_global_writer_def
  control_lease_def control_history_def generation_manifest_def generation_database_def
  generation_faiss_def generation_metadata_def blob_pdf_def blob_db_def blob_faiss_def
  content_blob_def

subsection \<open>Lemmas\<close>

lemma starts_with_prefix: "starts_with p s \<longleftrightarrow> Sublist.prefix p s"
  by (auto simp: starts_with_def prefix_def) (metis append_take_drop_id)

lemma starts_with_append [simp]: "starts_with p (p @ s)"
  by (simp add: starts_with_def)

lemma validate_dataset_slash: "validate_dataset_id s = Inr u \<Longrightarrow> s \<noteq> [] \<and> CHR ''/'' \<notin> set s"
  by (auto simp: validate_dataset_id_def unsafe_text_def)

lemma validate_generation_slash: "validate_generation_id s = Inr u \<Longrightarrow> s \<noteq> [] \<and> CHR ''/'' \<notin> set s"
  by (auto simp: validate_generation_id_def unsafe_text_def)

lemma slash_split:
  assumes "d \<notin> set a" "d \<notin> set b" "a @ d # x = b @ d # y"
  shows "a = b \<and> x = y"
proof -
  have "takeWhile (\<lambda>c. c \<noteq> d) (z @ d # w) = z" if "d \<notin> set z" for z w
    using that by (subst takeWhile_append2) auto
  then show ?thesis using assms by (metis append_same_eq list.inject same_append_eq)
qed

text \<open>A built key is the builder's dataset prefix, a slash and a rest; the rest names the generation.\<close>

lemma build_key_shape:
  assumes "build_key kb k = Inr s"
  obtains r where "s = ''datasets/'' @ kb_dataset_id kb @ ''/'' @ r"
    "\<And>g. named_generation k = Some g \<Longrightarrow>
       validate_generation_id g = Inr () \<and> (\<exists>t. r = ''generations/'' @ g @ ''/'' @ t)"
    "named_generation k = None \<Longrightarrow> \<not> Sublist.prefix ''generations/'' r"
  using assms
  by (cases k) (force simp: key_methods key_prefix_def Let_def split: if_splits)+

lemma prefix_dataset:
  "starts_with (''datasets/'' @ ds @ ''/'') (''datasets/'' @ kd @ CHR ''/'' # r) \<longleftrightarrow> Sublist.prefix (ds @ ''/'') (kd @ CHR ''/'' # r)"
  by (simp add: starts_with_prefix)

lemma scoped_same_dataset:
  assumes "CHR ''/'' \<notin> set ds" "CHR ''/'' \<notin> set kd"
  shows "is_scoped \<lparr>kb_dataset_id = ds\<rparr> (''datasets/'' @ kd @ ''/'' @ r) \<longleftrightarrow> ds = kd"
proof
  assume "is_scoped \<lparr>kb_dataset_id = ds\<rparr> (''datasets/'' @ kd @ ''/'' @ r)"
  then obtain t where "kd @ CHR ''/'' # r = ds @ CHR ''/'' # t"
    by (auto simp: is_scoped_def starts_with_prefix prefix_def)
  from slash_split [OF assms(2) assms(1) this] show "ds = kd" by simp
qed (simp add: is_scoped_def starts_with_prefix prefix_def)

lemma extract_under_generations:
  assumes "CHR ''/'' \<notin> set g"
  shows "extract_generation_id kb (''datasets/'' @ kb_dataset_id kb @ ''/'' @ ''generations/'' @ g @ ''/'' @ t) = Some g"
proof -
  let ?p = "''datasets/'' @ kb_dataset_id kb @ ''/generations/''"
  have eq: "''datasets/'' @ kb_dataset_id kb @ ''/'' @ ''generations/'' @ g @ ''/'' @ t = ?p @ (g @ CHR ''/'' # t)"
    by simp
  have "takeWhile (\<lambda>c. c \<noteq> CHR ''/'') (g @ CHR ''/'' # t) = g"
    using assms by (subst takeWhile_append2) auto
  then show ?thesis unfolding extract_generation_id_def eq Let_def
    by (simp only: starts_with_append append_eq_conv_conj drop_append) simp
qed

lemma extract_elsewhere:
  "\<not> Sublist.prefix ''generations/'' r \<Longrightarrow> extract_generation_id kb (''datasets/'' @ kb_dataset_id kb @ ''/'' @ r) = None"
  by (simp add: extract_generation_id_def starts_with_prefix)

lemma init_dataset: "key_builder_init ds = Inr kb \<longleftrightarrow> validate_dataset_id ds = Inr () \<and> kb = \<lparr>kb_dataset_id = ds\<rparr>"
  by (auto simp: key_builder_init_def)

lemma join_cons_char: "join_with sep ((c # g) # gs) = c # join_with sep (g # gs)"
  by (cases gs) auto

lemma join_split: "join_with [d] (split_on d s) = s"
proof (induction s)
  case (Cons c s)
  obtain g gs where g: "split_on d s = g # gs" by (cases "split_on d s") auto
  then show ?case using Cons by (auto simp: join_cons_char)
qed simp

lemma check_parts_Inr [simp]: "check_parts ps = Inr u \<longleftrightarrow> list_all safe_part ps"
  by (induction ps) auto

lemma starts_alnum_plain: "starts_alnum p \<Longrightarrow> p \<noteq> [] \<and> list_all id_char p \<and> hd p \<noteq> CHR ''.''"
  by (cases p) (auto simp: starts_alnum_def id_char_def ascii_alnum_def digit_char_def less_eq_char_def)

lemma safe_part_plain:
  assumes "safe_part p"
  shows "p \<noteq> [] \<and> hd p \<noteq> CHR ''.'' \<and> list_all (\<lambda>c. id_char c \<or> c = newline) p"
proof (cases "starts_alnum p")
  case True
  then show ?thesis using starts_alnum_plain by (auto simp: list_all_iff)
next
  case False
  with assms have b: "last p = newline" "starts_alnum (butlast p)" "p \<noteq> []" by (auto simp: safe_part_def)
  have p: "p = butlast p @ [newline]" using b by (metis append_butlast_last_id)
  have plain: "butlast p \<noteq> []" "list_all id_char (butlast p)" "hd (butlast p) \<noteq> CHR ''.''"
    using starts_alnum_plain [OF b(2)] by auto
  have hd: "hd p = hd (butlast p)" using p plain(1) by (metis hd_append2)
  have all: "list_all (\<lambda>c. id_char c \<or> c = newline) (butlast p @ [newline])"
    using plain(2) by (auto simp: list_all_iff)
  show ?thesis using hd plain(3) all p b(3) by simp
qed

subsection \<open>Properties\<close>

text \<open>C16: Keys of distinct datasets never meet. Whatever key a builder of a valid dataset id builds is
  scoped to that builder, and to a builder of another valid id exactly when the ids are equal; so
  two builders that build the same key are builders of the same dataset.\<close>

theorem keys_scoped_to_dataset:
  assumes "key_builder_init ds = Inr kb" "key_builder_init ds' = Inr kb'"
    "build_key kb k = Inr s" "build_key kb' k' = Inr s'"
  shows "(is_scoped kb' s \<longleftrightarrow> ds' = ds) \<and> (s = s' \<longrightarrow> kb = kb')"
proof -
  from assms(1,2) have kb: "kb = \<lparr>kb_dataset_id = ds\<rparr>" "kb' = \<lparr>kb_dataset_id = ds'\<rparr>"
    "CHR ''/'' \<notin> set ds" "CHR ''/'' \<notin> set ds'"
    by (auto simp: init_dataset dest: validate_dataset_slash)
  obtain r where r: "s = ''datasets/'' @ ds @ ''/'' @ r"
    using build_key_shape [OF assms(3)] kb by auto
  obtain r' where r': "s' = ''datasets/'' @ ds' @ ''/'' @ r'"
    using build_key_shape [OF assms(4)] kb by auto
  have "is_scoped kb' s \<longleftrightarrow> ds' = ds" "is_scoped kb' s'"
    unfolding r r' kb using scoped_same_dataset [OF kb(4) kb(3)] scoped_same_dataset [OF kb(4) kb(4)]
    by blast+
  then show ?thesis using kb by auto
qed

theorem keys_scoped_to_dataset_witness:
  "is_scoped \<lparr>kb_dataset_id = ''main''\<rparr> ''datasets/main/generations/g1/faiss/folder_7.index''
   \<and> \<not> is_scoped \<lparr>kb_dataset_id = ''mai''\<rparr> ''datasets/main/generations/g1/faiss/folder_7.index''"
  using keys_scoped_to_dataset [of "''main''" "\<lparr>kb_dataset_id = ''main''\<rparr>" "''mai''" "\<lparr>kb_dataset_id = ''mai''\<rparr>"
      "Generation_faiss ''g1'' 7" "''datasets/main/generations/g1/faiss/folder_7.index''"
      Writer_lease "''datasets/mai/control/writer-lease.json''"]
    keys_scoped_to_dataset [of "''main''" "\<lparr>kb_dataset_id = ''main''\<rparr>" "''main''" "\<lparr>kb_dataset_id = ''main''\<rparr>"
      "Generation_faiss ''g1'' 7" "''datasets/main/generations/g1/faiss/folder_7.index''"
      Writer_lease "''datasets/main/control/writer-lease.json''"]
  by code_simp

text \<open>Reading a generation back. The generation id that \<^verbatim>\<open>extract_generation_id\<close> reads from a built
  key is the one the key was built with, for the manifest, the database, the indexes and the
  metadata; from the control keys and the blobs it reads none.\<close>

theorem generation_id_roundtrip:
  assumes "build_key kb k = Inr s"
  shows "extract_generation_id kb s = named_generation k"
proof (cases "named_generation k")
  case None
  then show ?thesis
    using build_key_shape [OF assms] extract_elsewhere by metis
next
  case (Some g)
  obtain r t where r: "s = ''datasets/'' @ kb_dataset_id kb @ ''/'' @ r"
    "validate_generation_id g = Inr ()" "r = ''generations/'' @ g @ ''/'' @ t"
    using build_key_shape [OF assms] Some by metis
  have "extract_generation_id kb s = Some g"
    unfolding r(1,3) by (rule extract_under_generations) (use validate_generation_slash [OF r(2)] in simp)
  then show ?thesis using Some by simp
qed

theorem generation_id_roundtrip_witness:
  "extract_generation_id \<lparr>kb_dataset_id = ''main''\<rparr> ''datasets/main/generations/g 1/metadata/a/b.json'' = Some ''g 1''"
  using generation_id_roundtrip [of "\<lparr>kb_dataset_id = ''main''\<rparr>" "Generation_metadata ''g 1'' ''a/b.json''"
      "''datasets/main/generations/g 1/metadata/a/b.json''"]
  by code_simp

text \<open>Which metadata paths have a key. The path is taken exactly when it is not empty, has no
  backslash, and every part between slashes starts with a letter or digit and goes on with letters,
  digits, dots, underscores and dashes, up to one newline at the end of a part; the key is then the
  metadata prefix with the path itself, so no part is empty, \<^verbatim>\<open>.\<close> or \<^verbatim>\<open>..\<close>.\<close>

theorem metadata_key_spec:
  "(generation_metadata kb g path = Inr s \<longleftrightarrow>
      validate_generation_id g = Inr () \<and> path \<noteq> [] \<and> hd path \<noteq> CHR ''/'' \<and> CHR 0x5C \<notin> set path \<and>
      list_all safe_part (split_on (CHR ''/'') path) \<and>
      s = ''datasets/'' @ kb_dataset_id kb @ ''/generations/'' @ g @ ''/metadata/'' @ path)
   \<and> (generation_metadata kb g path = Inr s \<longrightarrow>
        (\<forall>p \<in> set (split_on (CHR ''/'') path). p \<noteq> [] \<and> p \<noteq> ''.'' \<and> p \<noteq> ''..'' \<and>
           list_all (\<lambda>c. id_char c \<or> c = newline) p))"
proof -
  have iff: "generation_metadata kb g path = Inr s \<longleftrightarrow>
      validate_generation_id g = Inr () \<and> path \<noteq> [] \<and> hd path \<noteq> CHR ''/'' \<and> CHR 0x5C \<notin> set path \<and>
      list_all safe_part (split_on (CHR ''/'') path) \<and>
      s = ''datasets/'' @ kb_dataset_id kb @ ''/generations/'' @ g @ ''/metadata/'' @ path"
    by (auto simp: generation_metadata_def safe_relative_parts_def key_prefix_def Let_def join_split)
  show ?thesis
    unfolding iff by (auto simp: list_all_iff dest!: bspec safe_part_plain)
qed

theorem metadata_key_spec_witness:
  "generation_metadata \<lparr>kb_dataset_id = ''main''\<rparr> ''g1'' (''pages/a.json'' @ [newline])
     = Inr (''datasets/main/generations/g1/metadata/pages/a.json'' @ [newline])"
  by (subst metadata_key_spec [THEN conjunct1]) code_simp

end
