(* ===== verification/Vault_Retention.thy ===== *)
theory Vault_Retention
  imports Vault_Jobs Core_Keys Canonical_Text
begin

section \<open>Retention and garbage collection\<close>

text \<open>
  \<^verbatim>\<open>flowdocs/vaultops/services/retention.py\<close>: what protects a generation, its retirement, the holds on
  it, and the dry run of the garbage collection, which plans deletions and never makes one. The
  settings the service reads are a record; \<open>None\<close> is a name the settings module does not define.
  SHA-256 is the parameter \<open>sha\<close>, \<open>fresh\<close> a new UUID.
\<close>

record gc_settings =
  st_inventory_cache_seconds :: int
  st_gc_grace_days :: "int option"
  st_gc_enabled :: bool

definition active_job_states :: "job_status list" where
  "active_job_states = [Queued, Claimed, Running, Waiting, Cancelling]"

definition protected_runtime_states :: "runtime_state list" where
  "protected_runtime_states = [Pending, Applying, Active, Previous, Rollback_pending]"

definition max_gc_candidates :: nat where
  "max_gc_candidates = 500"

definition canonical_digest :: "(string \<Rightarrow> digest) \<Rightarrow> json \<Rightarrow> digest" where
  "canonical_digest sha payload = sha (canonical_json payload)"

subsection \<open>Protection\<close>

text \<open>The reason codes, ordered as their texts are, so that \<^const>\<open>sort\<close> is \<^verbatim>\<open>sorted\<close>.\<close>

datatype protection_reason =
    Generation_authoritative
  | Generation_runtime_referenced
  | Workspace_referenced
  | Generation_job_in_progress
  | Retention_hold_active
  | Gc_grace_period_active

fun reason_text :: "protection_reason \<Rightarrow> string" where
  "reason_text Generation_authoritative = ''generation_authoritative''"
| "reason_text Generation_runtime_referenced = ''generation_runtime_referenced''"
| "reason_text Workspace_referenced = ''workspace_referenced''"
| "reason_text Generation_job_in_progress = ''generation_job_in_progress''"
| "reason_text Retention_hold_active = ''retention_hold_active''"
| "reason_text Gc_grace_period_active = ''gc_grace_period_active''"

lemma reason_text_inj [simp]: "reason_text r = reason_text s \<longleftrightarrow> r = s"
  by (cases r; cases s) auto

instantiation protection_reason :: linorder
begin

definition less_eq_protection_reason :: "protection_reason \<Rightarrow> protection_reason \<Rightarrow> bool" where
  "less_eq_protection_reason r s = (reason_text r \<le> reason_text s)"

definition less_protection_reason :: "protection_reason \<Rightarrow> protection_reason \<Rightarrow> bool" where
  "less_protection_reason r s = (reason_text r < reason_text s)"

instance
  by standard (auto simp: less_eq_protection_reason_def less_protection_reason_def order.strict_iff_order)

end

definition active_holds :: "instant \<Rightarrow> artifact_generation \<Rightarrow> control_db \<Rightarrow> retention_hold list" where
  "active_holds now g db = [h \<leftarrow> holds db. rh_generation h = ag_pk g \<and> rh_released_at h = None \<and>
     (case rh_expires_at h of None \<Rightarrow> True | Some e \<Rightarrow> now < e)]"

definition projection_of :: "nat \<Rightarrow> string \<Rightarrow> control_db \<Rightarrow> dataset_projection option" where
  "projection_of profile ds db =
     List.find (\<lambda>p. dp_profile p = profile \<and> dp_dataset_id p = ds) (projections db)"

definition is_authoritative :: "artifact_generation \<Rightarrow> control_db \<Rightarrow> bool" where
  "is_authoritative g db =
     (ag_vault_state g = Authoritative \<or>
      (case projection_of (ag_profile g) (ag_dataset_id g) db of None \<Rightarrow> False
       | Some p \<Rightarrow> dp_authoritative_generation_id p = ag_generation_id g))"

definition has_workspace :: "artifact_generation \<Rightarrow> control_db \<Rightarrow> bool" where
  "has_workspace g db =
     list_ex (\<lambda>w. rw_generation w = ag_pk g \<and> rw_state w \<noteq> Workspace_expired) (workspaces db)"

definition has_active_job :: "artifact_generation \<Rightarrow> control_db \<Rightarrow> bool" where
  "has_active_job g db =
     list_ex (\<lambda>j. job_profile j = Some (ag_profile g) \<and> job_dataset_id j = ag_dataset_id g \<and>
       job_generation_id j = ag_generation_id g \<and> job_status j \<in> set active_job_states) (jobs db)"

definition generation_protection_reasons ::
  "instant \<Rightarrow> instant option \<Rightarrow> artifact_generation \<Rightarrow> control_db \<Rightarrow> protection_reason list" where
  "generation_protection_reasons clk at g db =
     (let now = now_or at clk in
      sort ((if is_authoritative g db then [Generation_authoritative] else []) @
        (if ag_runtime_state g \<in> set protected_runtime_states
         then [Generation_runtime_referenced] else []) @
        (if has_workspace g db then [Workspace_referenced] else []) @
        (if has_active_job g db then [Generation_job_in_progress] else []) @
        (if active_holds now g db \<noteq> [] then [Retention_hold_active] else [])))"

subsection \<open>Retirement\<close>

definition or_uuid :: "string option \<Rightarrow> string \<Rightarrow> string" where
  "or_uuid c fresh = (case c of None \<Rightarrow> fresh | Some u \<Rightarrow> if u = '''' then fresh else u)"

definition blocking_reasons :: "protection_reason list \<Rightarrow> protection_reason list" where
  "blocking_reasons rs = [r \<leftarrow> rs. r = Generation_authoritative \<or> r = Generation_runtime_referenced \<or>
     r = Generation_job_in_progress]"

definition retire_generation ::
  "instant \<Rightarrow> nat \<Rightarrow> nat option \<Rightarrow> string \<Rightarrow> string option \<Rightarrow> string \<Rightarrow> string \<Rightarrow> control_db \<Rightarrow>
   vault_error + control_db \<times> artifact_generation" where
  "retire_generation clk pk actor_id actor_name correlation_id fresh reason_code db =
     bind_res (of_option Does_not_exist (get_generation pk db)) (\<lambda>g.
     case blocking_reasons (generation_protection_reasons clk None g db) of
       r # rs \<Rightarrow> Inl (Retention_error (reason_text r) 409)
     | [] \<Rightarrow> transition_generation_vault_state clk pk Retired (or_uuid correlation_id fresh)
         actor_id actor_name reason_code db)"

definition unretire_generation ::
  "instant \<Rightarrow> nat \<Rightarrow> nat option \<Rightarrow> string \<Rightarrow> string option \<Rightarrow> string \<Rightarrow> string \<Rightarrow> control_db \<Rightarrow>
   vault_error + control_db \<times> artifact_generation" where
  "unretire_generation clk pk actor_id actor_name correlation_id fresh reason_code db =
     bind_res (of_option Does_not_exist (get_generation pk db)) (\<lambda>g.
     bind_res (require (ag_vault_state g = Retired) (Retention_error ''generation_not_retired'' 409)) (\<lambda>_.
     transition_generation_vault_state clk pk Candidate (or_uuid correlation_id fresh)
       actor_id actor_name reason_code db))"

subsection \<open>Holds\<close>

definition next_hold_pk :: "control_db \<Rightarrow> nat" where
  "next_hold_pk db = fold max (map rh_pk (holds db)) 0 + 1"

definition insert_hold :: "retention_hold \<Rightarrow> control_db \<Rightarrow> control_db" where
  "insert_hold h db = db\<lparr>holds := holds db @ [h]\<rparr>"

definition hold_created_event ::
  "artifact_generation \<Rightarrow> retention_hold \<Rightarrow> nat option \<Rightarrow> string \<Rightarrow> string \<Rightarrow> audit_event" where
  "hold_created_event g h actor_id actor_name cor = blank_event\<lparr>
     ev_action := ''retention_hold_created'', ev_result := ''succeeded'', ev_correlation_id := cor,
     ev_actor_id := actor_id, ev_actor_name := actor_name, ev_reason_code := rh_reason_code h,
     ev_after_state := JObj [(''hold_id'', JInt (int (rh_pk h))),
       (''generation_id'', JStr (ag_generation_id g)),
       (''expires_at'', json_opt (\<lambda>e. JStr (datetime_text ''T'' e)) (rh_expires_at h))],
     ev_evidence := JObj [(''owner_reference'', JStr (rh_owner_reference h))]\<rparr>"

definition find_hold :: "nat \<Rightarrow> string \<Rightarrow> control_db \<Rightarrow> retention_hold option" where
  "find_hold gpk key db = List.find (\<lambda>h. rh_generation h = gpk \<and> rh_idempotency_key h = key) (holds db)"

definition new_hold ::
  "artifact_generation \<Rightarrow> string \<Rightarrow> string \<Rightarrow> string \<Rightarrow> instant option \<Rightarrow> string \<Rightarrow> control_db \<Rightarrow> retention_hold" where
  "new_hold g reason owner notes expires_at key db =
     \<lparr>rh_pk = next_hold_pk db, rh_generation = ag_pk g, rh_reason_code = take 80 reason,
      rh_owner_reference = take 160 owner, rh_notes = take 2000 notes,
      rh_idempotency_key = take 160 key, rh_expires_at = expires_at, rh_released_at = None\<rparr>"

definition create_retention_hold ::
  "instant \<Rightarrow> artifact_generation \<Rightarrow> string \<Rightarrow> string \<Rightarrow> string \<Rightarrow> instant option \<Rightarrow> string \<Rightarrow> nat option \<Rightarrow>
   string \<Rightarrow> string \<Rightarrow> control_db \<Rightarrow> vault_error + control_db \<times> retention_hold" where
  "create_retention_hold clk g reason_code owner_reference notes expires_at idempotency_key
       actor_id actor_name fresh db =
     (let reason = py_strip reason_code; owner = py_strip owner_reference; key = py_strip idempotency_key in
     bind_res (require (reason \<noteq> [] \<and> owner \<noteq> []) (Retention_error ''retention_hold_fields_required'' 400)) (\<lambda>_.
     bind_res (require (case expires_at of None \<Rightarrow> True | Some e \<Rightarrow> clk < e)
       (Retention_error ''retention_hold_expiry_invalid'' 400)) (\<lambda>_.
     let new = new_hold g reason owner notes expires_at key db;
         created = Inr (append_event (hold_created_event g new actor_id actor_name fresh)
           (insert_hold new db), new)
     in if key \<noteq> [] then
          (case find_hold (ag_pk g) (take 160 key) db of Some h \<Rightarrow> Inr (db, h) | None \<Rightarrow> created)
        else created)))"

definition release_retention_hold ::
  "instant \<Rightarrow> nat \<Rightarrow> nat option \<Rightarrow> string \<Rightarrow> string \<Rightarrow> string \<Rightarrow> control_db \<Rightarrow>
   vault_error + control_db \<times> retention_hold" where
  "release_retention_hold clk hold_pk actor_id actor_name reason_code fresh db =
     bind_res (of_option Does_not_exist (find_row rh_pk hold_pk (holds db))) (\<lambda>h.
     bind_res (of_option Does_not_exist (get_generation (rh_generation h) db)) (\<lambda>g.
     if rh_released_at h \<noteq> None then Inr (db, h)
     else
       let h' = h\<lparr>rh_released_at := Some clk\<rparr> in
       Inr (append_event (blank_event\<lparr>
         ev_action := ''retention_hold_released'', ev_result := ''succeeded'', ev_correlation_id := fresh,
         ev_actor_id := actor_id, ev_actor_name := actor_name, ev_reason_code := reason_code,
         ev_before_state := JObj [(''hold_id'', JInt (int (rh_pk h))),
           (''generation_id'', JStr (ag_generation_id g)), (''released_at'', JNull)],
         ev_after_state := JObj [(''released_at'', JStr (datetime_text ''T'' clk))]\<rparr>)
         (db\<lparr>holds := put_row rh_pk h' (holds db)\<rparr>), h')))"

subsection \<open>The reference graph\<close>

definition verified_projection ::
  "gc_settings \<Rightarrow> vault_profile \<Rightarrow> string \<Rightarrow> instant \<Rightarrow> control_db \<Rightarrow> vault_error + dataset_projection" where
  "verified_projection st profile ds now db =
     (case projection_of (pf_pk profile) ds db of
        None \<Rightarrow> Inl (Retention_error ''gc_inventory_unverified'' 409)
      | Some p \<Rightarrow>
          (case dp_inventory_observed_at p of
             None \<Rightarrow> Inl (Retention_error ''gc_inventory_unverified'' 409)
           | Some seen \<Rightarrow>
               bind_res (require (dp_inventory_state p = ''verified'')
                 (Retention_error ''gc_inventory_unverified'' 409)) (\<lambda>_.
               bind_res (require (now - seconds (st_inventory_cache_seconds st) \<le> seen)
                 (Retention_error ''gc_inventory_stale'' 409)) (\<lambda>_. Inr p))))"

definition of_key :: "key_error + 'a \<Rightarrow> vault_error + 'a" where
  "of_key m = (case m of Inl (KeyBuilderError e) \<Rightarrow> Inl (Value_error e) | Inr x \<Rightarrow> Inr x)"

definition graph_invalid :: vault_error where
  "graph_invalid = Retention_error ''gc_reference_graph_invalid'' 409"

type_synonym object_record = "digest \<times> int"

definition entry_record :: "key_builder \<Rightarrow> json \<Rightarrow> (string \<times> object_record) option" where
  "entry_record kb e = (case e of
       JObj kvs \<Rightarrow>
         (case (map_of kvs ''object_key'', map_of kvs ''sha256'', map_of kvs ''bytes'') of
            (Some (JStr key), Some (JStr dig), Some (JInt n)) \<Rightarrow>
              if key \<noteq> [] \<and> length dig = 64 \<and> 0 \<le> n \<and> is_scoped kb key then Some (key, dig, n) else None
          | _ \<Rightarrow> None)
     | _ \<Rightarrow> None)"

fun collect_entries ::
  "key_builder \<Rightarrow> json list \<Rightarrow> (string \<times> object_record) list \<Rightarrow> vault_error + (string \<times> object_record) list" where
  "collect_entries kb [] records = Inr records"
| "collect_entries kb (e # es) records =
     bind_res (of_option graph_invalid (entry_record kb e)) (\<lambda>(key, rec).
     bind_res (require (map_of records key = None \<or> map_of records key = Some rec) graph_invalid) (\<lambda>_.
     collect_entries kb es (AList.update key rec records)))"

definition manifest_objects :: "artifact_generation \<Rightarrow> vault_error + (string \<times> object_record) list" where
  "manifest_objects g =
     (case ag_manifest g of
        JObj kvs \<Rightarrow>
          (case (case map_of kvs ''files'' of None \<Rightarrow> JArr [] | Some v \<Rightarrow> v) of
             JArr files \<Rightarrow> bind_res (of_key (key_builder_init (ag_dataset_id g))) (\<lambda>kb. collect_entries kb files [])
           | _ \<Rightarrow> Inl graph_invalid)
      | _ \<Rightarrow> Inl (Attribute_error ''get''))"

subsection \<open>The dry run\<close>

record gc_candidate =
  gc_generation_id :: string
  gc_manifest_digest :: digest
  gc_manifest_object_key :: string
  gc_exclusive :: "string list"
  gc_shared :: "string list"

text \<open>One retired generation: eligible when nothing protects it and its grace period is over.\<close>

definition gc_reasons :: "instant \<Rightarrow> instant \<Rightarrow> artifact_generation \<Rightarrow> control_db \<Rightarrow> protection_reason list" where
  "gc_reasons now cutoff g db =
     (let rs = generation_protection_reasons now (Some now) g db in
      if cutoff < ag_updated_at g then rs @ [Gc_grace_period_active] else rs)"

fun classify ::
  "instant \<Rightarrow> instant \<Rightarrow> control_db \<Rightarrow> artifact_generation list \<Rightarrow>
   artifact_generation list \<times> (string \<times> protection_reason list) list" where
  "classify now cutoff db [] = ([], [])"
| "classify now cutoff db (g # gs) =
     (let (eligible, blocked) = classify now cutoff db gs; rs = gc_reasons now cutoff g db in
      if ag_vault_state g \<noteq> Retired then (eligible, blocked)
      else if rs \<noteq> [] then (eligible, (ag_generation_id g, sort (remdups rs)) # blocked)
      else (g # eligible, blocked))"

text \<open>
  \<open>references\<close> is the set of pairs of a key and a generation id that names it; \<open>metadata\<close> and
  \<open>objects\<close> are the dictionaries by key and by generation id.
\<close>

record ref_graph =
  references :: "(string \<times> string) list"
  metadata :: "(string \<times> object_record) list"
  objects :: "(string \<times> (string \<times> object_record) list) list"

fun add_records :: "string \<Rightarrow> (string \<times> object_record) list \<Rightarrow> ref_graph \<Rightarrow> vault_error + ref_graph" where
  "add_records gid [] gr = Inr gr"
| "add_records gid ((key, rec) # rest) gr =
     bind_res (require (map_of (metadata gr) key = None \<or> map_of (metadata gr) key = Some rec) graph_invalid) (\<lambda>_.
     add_records gid rest (gr\<lparr>references := references gr @ [(key, gid)],
       metadata := AList.update key rec (metadata gr)\<rparr>))"

fun build_graph :: "artifact_generation list \<Rightarrow> ref_graph \<Rightarrow> vault_error + ref_graph" where
  "build_graph [] gr = Inr gr"
| "build_graph (g # gs) gr =
     bind_res (manifest_objects g) (\<lambda>records.
     bind_res (add_records (ag_generation_id g) records
       (gr\<lparr>objects := AList.update (ag_generation_id g) records (objects gr)\<rparr>)) (\<lambda>gr'.
     build_graph gs gr'))"

definition referrers :: "ref_graph \<Rightarrow> string \<Rightarrow> string list" where
  "referrers gr key = map snd (filter (\<lambda>p. fst p = key) (references gr))"

definition candidate_of ::
  "key_builder \<Rightarrow> ref_graph \<Rightarrow> string list \<Rightarrow> artifact_generation \<Rightarrow> vault_error + gc_candidate" where
  "candidate_of kb gr ids g =
     (let keys = sort (map fst (case map_of (objects gr) (ag_generation_id g) of None \<Rightarrow> [] | Some rs \<Rightarrow> rs));
          retained = (\<lambda>key. list_ex (\<lambda>i. i \<notin> set ids) (referrers gr key)) in
      bind_res (of_key (generation_manifest kb (ag_generation_id g))) (\<lambda>mkey.
      Inr \<lparr>gc_generation_id = ag_generation_id g, gc_manifest_digest = ag_manifest_digest g,
        gc_manifest_object_key = mkey, gc_exclusive = filter (\<lambda>k. \<not> retained k) keys,
        gc_shared = filter retained keys\<rparr>))"

fun candidates_of ::
  "key_builder \<Rightarrow> ref_graph \<Rightarrow> string list \<Rightarrow> artifact_generation list \<Rightarrow> vault_error + gc_candidate list" where
  "candidates_of kb gr ids [] = Inr []"
| "candidates_of kb gr ids (g # gs) =
     bind_res (candidate_of kb gr ids g) (\<lambda>c.
     bind_res (candidates_of kb gr ids gs) (\<lambda>cs. Inr (c # cs)))"

definition candidate_json :: "gc_candidate \<Rightarrow> json" where
  "candidate_json c = JObj
     [(''generation_id'', JStr (gc_generation_id c)),
      (''manifest_digest'', JStr (gc_manifest_digest c)),
      (''manifest_object_key'', JStr (gc_manifest_object_key c)),
      (''exclusive_object_keys'', JArr (map JStr (gc_exclusive c))),
      (''shared_object_keys'', JArr (map JStr (gc_shared c)))]"

definition key_bytes :: "ref_graph \<Rightarrow> string \<Rightarrow> int" where
  "key_bytes gr key = (case map_of (metadata gr) key of None \<Rightarrow> 0 | Some (dig, n) \<Rightarrow> n)"

definition estimates_json ::
  "ref_graph \<Rightarrow> (string \<times> protection_reason list) list \<Rightarrow> gc_candidate list \<Rightarrow> json" where
  "estimates_json gr blocked cs =
     (let exclusive = remdups (concat (map gc_exclusive cs)); shared = remdups (concat (map gc_shared cs)) in
      JObj [(''candidate_generations'', JInt (int (length cs))),
        (''blocked_generations'', JArr (map (\<lambda>(g, rs). JObj [(''generation_id'', JStr g),
           (''reason_codes'', JArr (map (JStr \<circ> reason_text) rs))]) blocked)),
        (''exclusive_objects'', JInt (int (length exclusive))),
        (''exclusive_bytes'', JInt (sum_list (map (key_bytes gr) exclusive))),
        (''shared_objects'', JInt (int (length shared))),
        (''shared_bytes'', JInt (sum_list (map (key_bytes gr) shared))),
        (''manifest_objects'', JInt (int (length cs))),
        (''deletion_enabled'', JBool False)])"

definition open_plan :: "nat \<Rightarrow> string \<Rightarrow> instant \<Rightarrow> gc_plan \<Rightarrow> bool" where
  "open_plan profile ds now p = (gp_profile p = profile \<and> gp_dataset_id p = ds \<and>
     gp_state p \<in> set [Draft, Gc_ready, Executing] \<and> now < gp_expires_at p)"

definition plan_generations :: "nat \<Rightarrow> string \<Rightarrow> control_db \<Rightarrow> artifact_generation list" where
  "plan_generations profile ds db =
     sort_key ag_generation_id [g \<leftarrow> generations db. ag_profile g = profile \<and> ag_dataset_id g = ds]"

definition inventory_version :: "(string \<Rightarrow> digest) \<Rightarrow> dataset_projection \<Rightarrow> digest" where
  "inventory_version sha p = canonical_digest sha (JObj
     [(''registration_digest'', JStr (dp_registration_digest p)),
      (''state_version'', JInt (int (dp_state_version p))),
      (''inventory_observed_at'', json_opt (\<lambda>t. JStr (datetime_text '' '' t)) (dp_inventory_observed_at p))])"

definition days :: "int \<Rightarrow> instant" where
  "days n = seconds (86400 * n)"

definition plan_payload ::
  "vault_profile \<Rightarrow> string \<Rightarrow> digest \<Rightarrow> dataset_projection \<Rightarrow> json \<Rightarrow> json \<Rightarrow> json" where
  "plan_payload profile ds inventory p candidates estimates = JObj
     [(''profile_fingerprint'', JStr (pf_fingerprint profile)), (''dataset_id'', JStr ds),
      (''inventory_version'', JStr inventory), (''pointer_version'', JStr (dp_pointer_digest p)),
      (''candidates'', candidates), (''estimates'', estimates)]"

text \<open>What the dry run computes: the generations to delete, those kept back, and the graph.\<close>

definition gc_analysis ::
  "gc_settings \<Rightarrow> vault_profile \<Rightarrow> string \<Rightarrow> instant \<Rightarrow> control_db \<Rightarrow>
   vault_error + gc_candidate list \<times> (string \<times> protection_reason list) list \<times> ref_graph" where
  "gc_analysis st profile ds now db =
     (let gens = plan_generations (pf_pk profile) ds db in
     bind_res (require (gens \<noteq> []) (Retention_error ''gc_inventory_empty'' 409)) (\<lambda>_.
     bind_res (of_option (Attribute_error ''VAULT_GC_GRACE_DAYS'') (st_gc_grace_days st)) (\<lambda>grace.
     let (eligible, blocked) = classify now (now - days grace) db gens in
     bind_res (require (eligible \<noteq> []) (Retention_error ''gc_no_eligible_candidates'' 409)) (\<lambda>_.
     bind_res (require (length eligible \<le> max_gc_candidates)
       (Retention_error ''gc_candidate_limit_exceeded'' 409)) (\<lambda>_.
     bind_res (build_graph gens \<lparr>references = [], metadata = [], objects = []\<rparr>) (\<lambda>gr.
     bind_res (of_key (key_builder_init ds)) (\<lambda>kb.
     bind_res (candidates_of kb gr (map ag_generation_id eligible) eligible) (\<lambda>cs.
     Inr (cs, blocked, gr)))))))))"

definition plan_row ::
  "gc_settings \<Rightarrow> (string \<Rightarrow> digest) \<Rightarrow> vault_profile \<Rightarrow> string \<Rightarrow> instant \<Rightarrow> string \<Rightarrow> dataset_projection \<Rightarrow>
   gc_candidate list \<Rightarrow> json \<Rightarrow> gc_plan" where
  "plan_row st sha profile ds now fresh_plan p cs estimates =
     (let candidates = JArr (map candidate_json cs); inventory = inventory_version sha p in
      \<lparr>gp_public_id = fresh_plan, gp_profile = pf_pk profile, gp_dataset_id = ds,
       gp_inventory_version = inventory, gp_pointer_version = dp_pointer_digest p,
       gp_candidates = candidates, gp_estimates = estimates,
       gp_plan_digest = canonical_digest sha (plan_payload profile ds inventory p candidates estimates),
       gp_state = Gc_ready, gp_expires_at = now + seconds (st_inventory_cache_seconds st)\<rparr>)"

text \<open>\<^verbatim>\<open>get_or_create\<close> by the plan digest.\<close>

definition store_plan :: "gc_plan \<Rightarrow> control_db \<Rightarrow> control_db \<times> gc_plan" where
  "store_plan new db = (case find_row gp_plan_digest (gp_plan_digest new) (gc_plans db) of
       Some old \<Rightarrow> (db, old)
     | None \<Rightarrow> (db\<lparr>gc_plans := gc_plans db @ [new]\<rparr>, new))"

definition plan_event :: "gc_plan \<Rightarrow> json \<Rightarrow> nat option \<Rightarrow> string \<Rightarrow> string \<Rightarrow> audit_event" where
  "plan_event plan estimates actor_id actor_name cor = blank_event\<lparr>
     ev_action := ''gc_plan_created'', ev_result := ''succeeded'', ev_correlation_id := cor,
     ev_actor_id := actor_id, ev_actor_name := actor_name, ev_reason_code := ''gc_dry_run'',
     ev_after_state := JObj [(''plan_id'', JStr (gp_public_id plan)),
       (''plan_digest'', JStr (gp_plan_digest plan)), (''state'', JStr (gc_state_value (gp_state plan)))],
     ev_evidence := estimates\<rparr>"

definition create_gc_plan ::
  "gc_settings \<Rightarrow> (string \<Rightarrow> digest) \<Rightarrow> instant \<Rightarrow> vault_profile \<Rightarrow> string \<Rightarrow> nat option \<Rightarrow> string \<Rightarrow>
   instant option \<Rightarrow> string \<Rightarrow> string \<Rightarrow> control_db \<Rightarrow> vault_error + control_db \<times> gc_plan" where
  "create_gc_plan st sha clk profile ds actor_id actor_name at fresh_plan fresh_cor db =
     (let now = now_or at clk in
     bind_res (verified_projection st profile ds now db) (\<lambda>p.
     bind_res (require (\<not> list_ex (open_plan (pf_pk profile) ds now) (gc_plans db))
       (Retention_error ''gc_plan_in_progress'' 409)) (\<lambda>_.
     bind_res (gc_analysis st profile ds now db) (\<lambda>(cs, blocked, gr).
     let estimates = estimates_json gr blocked cs;
         (db1, plan) = store_plan (plan_row st sha profile ds now fresh_plan p cs estimates) db
     in Inr (append_event (plan_event plan estimates actor_id actor_name fresh_cor) db1, plan)))))"

definition execute_gc_plan ::
  "gc_settings \<Rightarrow> gc_plan \<Rightarrow> control_db \<Rightarrow> vault_error + control_db \<times> gc_plan" where
  "execute_gc_plan st plan db =
     (if \<not> st_gc_enabled st then Inl (Retention_error ''gc_execution_disabled'' 409)
      else Inl (Retention_error ''gc_execution_unavailable'' 409))"

subsection \<open>Lemmas on the graph\<close>

lemma classify_eligible:
  "fst (classify now cutoff db gs) = [g \<leftarrow> gs. ag_vault_state g = Retired \<and> gc_reasons now cutoff g db = []]"
  by (induction gs) (auto simp: Let_def split: prod.splits)

lemma classify_blocked:
  "snd (classify now cutoff db gs) =
     [(ag_generation_id g, sort (remdups (gc_reasons now cutoff g db))).
        g \<leftarrow> gs, ag_vault_state g = Retired \<and> gc_reasons now cutoff g db \<noteq> []]"
  by (induction gs) (auto simp: Let_def split: prod.splits)

lemma sort_eq_Nil [simp]: "sort xs = [] \<longleftrightarrow> xs = []"
  by (metis length_0_conv length_sort)

lemma gc_reasons_Nil:
  "gc_reasons now cutoff g db = [] \<longleftrightarrow>
     \<not> is_authoritative g db \<and> ag_runtime_state g \<notin> set protected_runtime_states \<and> \<not> has_workspace g db \<and>
     \<not> has_active_job g db \<and> active_holds now g db = [] \<and> ag_updated_at g \<le> cutoff"
  by (simp add: gc_reasons_def generation_protection_reasons_def Let_def now_or_def
      not_less)

lemma add_records_references:
  "add_records gid recs gr = Inr gr' \<Longrightarrow>
     references gr' = references gr @ map (\<lambda>(k, r). (k, gid)) recs \<and> objects gr' = objects gr"
  by (induction gid recs gr rule: add_records.induct) auto

lemma build_graph_references:
  "build_graph gs gr = Inr gr' \<Longrightarrow>
     set (references gr) \<subseteq> set (references gr') \<and>
     (\<forall>g \<in> set gs. \<exists>recs. manifest_objects g = Inr recs \<and>
        (\<forall>k \<in> fst ` set recs. (k, ag_generation_id g) \<in> set (references gr')))"
proof (induction gs arbitrary: gr)
  case (Cons g gs)
  then obtain recs gr1 where r: "manifest_objects g = Inr recs"
    "add_records (ag_generation_id g) recs (gr\<lparr>objects := AList.update (ag_generation_id g) recs (objects gr)\<rparr>) = Inr gr1"
    "build_graph gs gr1 = Inr gr'" by auto
  have refs: "references gr1 = references gr @ map (\<lambda>(k, r). (k, ag_generation_id g)) recs"
    using add_records_references [OF r(2)] by simp
  note ih = Cons.IH [OF r(3)]
  have "(k, ag_generation_id g) \<in> set (references gr')" if "k \<in> fst ` set recs" for k
    using that ih refs by (auto simp: rev_image_eqI subset_iff image_iff) (metis (mono_tags, lifting) case_prod_conv)
  then show ?case using ih refs r(1) by auto
qed simp

lemma candidate_of_fields:
  assumes "candidate_of kb gr ids g = Inr c"
  shows "gc_generation_id c = ag_generation_id g"
    and "k \<in> set (gc_exclusive c) \<Longrightarrow> (k, i) \<in> set (references gr) \<Longrightarrow> i \<in> set ids"
  using assms by (force simp: candidate_of_def Let_def referrers_def list_ex_iff)+

lemma candidates_of_ids:
  "candidates_of kb gr ids gs = Inr cs \<Longrightarrow> map gc_generation_id cs = map ag_generation_id gs"
  by (induction gs arbitrary: cs) (auto dest: candidate_of_fields(1))

lemma candidates_of_each:
  "candidates_of kb gr ids gs = Inr cs \<Longrightarrow> c \<in> set cs \<Longrightarrow> \<exists>g \<in> set gs. candidate_of kb gr ids g = Inr c"
  by (induction gs arbitrary: cs) auto

lemma set_plan_generations:
  "g \<in> set (plan_generations p ds db) \<longleftrightarrow> g \<in> set (generations db) \<and> ag_profile g = p \<and> ag_dataset_id g = ds"
  by (auto simp: plan_generations_def)

text \<open>The analysis: who is a candidate, and that no kept generation names an exclusive key.\<close>

lemma gc_analysis_steps:
  assumes "gc_analysis st profile ds now db = Inr (cs, blocked, gr)"
  obtains grace el kb where "st_gc_grace_days st = Some grace"
    "el = [g \<leftarrow> plan_generations (pf_pk profile) ds db.
       ag_vault_state g = Retired \<and> gc_reasons now (now - days grace) g db = []]"
    "blocked = snd (classify now (now - days grace) db (plan_generations (pf_pk profile) ds db))"
    "el \<noteq> []" "length el \<le> max_gc_candidates"
    "build_graph (plan_generations (pf_pk profile) ds db)
       \<lparr>references = [], metadata = [], objects = []\<rparr> = Inr gr"
    "candidates_of kb gr (map ag_generation_id el) el = Inr cs"
proof -
  let ?gens = "plan_generations (pf_pk profile) ds db"
  show thesis
  proof (cases "st_gc_grace_days st")
    case None
    then show thesis using assms by (simp add: gc_analysis_def Let_def)
  next
    case (Some grace)
    obtain el bl where cl: "classify now (now - days grace) db ?gens = (el, bl)" by fastforce
    obtain kb where "bl = blocked" "el \<noteq> []" "length el \<le> max_gc_candidates"
      "build_graph ?gens \<lparr>references = [], metadata = [], objects = []\<rparr> = Inr gr"
      "candidates_of kb gr (map ag_generation_id el) el = Inr cs"
      using assms Some cl by (auto simp: gc_analysis_def Let_def)
    then show thesis
      using that [OF Some _ _ _ _ _ , of el kb] cl classify_eligible [of now "now - days grace" db ?gens] by simp
  qed
qed

lemma gc_analysis_candidates:
  assumes "gc_analysis st profile ds now db = Inr (cs, blocked, gr)"
  obtains grace where "st_gc_grace_days st = Some grace"
    "map gc_generation_id cs = map ag_generation_id
       [g \<leftarrow> plan_generations (pf_pk profile) ds db.
          ag_vault_state g = Retired \<and> gc_reasons now (now - days grace) g db = []]"
    "cs \<noteq> []" "length cs \<le> max_gc_candidates"
proof (rule gc_analysis_steps [OF assms])
  fix grace el kb
  assume st: "st_gc_grace_days st = Some grace"
    "el = [g \<leftarrow> plan_generations (pf_pk profile) ds db.
       ag_vault_state g = Retired \<and> gc_reasons now (now - days grace) g db = []]"
    "el \<noteq> []" "length el \<le> max_gc_candidates"
    "candidates_of kb gr (map ag_generation_id el) el = Inr cs"
  have ids: "map gc_generation_id cs = map ag_generation_id el" by (rule candidates_of_ids [OF st(5)])
  then have "length cs = length el" by (rule map_eq_imp_length_eq)
  with st ids show thesis by (intro that [OF st(1)]) auto
qed

lemma gc_analysis_exclusive:
  assumes "gc_analysis st profile ds now db = Inr (cs, blocked, gr)"
    "c \<in> set cs" "g \<in> set (plan_generations (pf_pk profile) ds db)"
  shows "\<exists>recs. manifest_objects g = Inr recs \<and>
    (\<forall>k \<in> set (gc_exclusive c). k \<in> fst ` set recs \<longrightarrow> ag_generation_id g \<in> gc_generation_id ` set cs)"
proof -
  obtain kb el where el: "candidates_of kb gr (map ag_generation_id el) el = Inr cs"
    and gr: "build_graph (plan_generations (pf_pk profile) ds db)
       \<lparr>references = [], metadata = [], objects = []\<rparr> = Inr gr"
    by (rule gc_analysis_steps [OF assms(1)])
  obtain recs where recs: "manifest_objects g = Inr recs"
    "\<forall>k \<in> fst ` set recs. (k, ag_generation_id g) \<in> set (references gr)"
    using build_graph_references [OF gr] assms(3) by blast
  obtain e where e: "candidate_of kb gr (map ag_generation_id el) e = Inr c"
    using candidates_of_each [OF el assms(2)] by blast
  have ids: "set (map ag_generation_id el) = gc_generation_id ` set cs"
    using candidates_of_ids [OF el] by (metis list.set_map)
  show ?thesis
    using recs candidate_of_fields(2) [OF e] ids by blast
qed

lemma create_gc_plan_new:
  assumes "create_gc_plan st sha clk profile ds aid an at fp fc db = Inr (db', plan)"
  obtains p cs blocked gr ev where
    "gc_analysis st profile ds (now_or at clk) db = Inr (cs, blocked, gr)"
    "plan \<in> set (gc_plans db) \<or>
     plan = plan_row st sha profile ds (now_or at clk) fp p cs (estimates_json gr blocked cs)"
    "db' = append_event ev db \<or> db' = append_event ev (db\<lparr>gc_plans := gc_plans db @ [plan]\<rparr>)"
proof -
  let ?now = "now_or at clk"
  obtain p cs blocked gr where p: "verified_projection st profile ds ?now db = Inr p"
    and a: "gc_analysis st profile ds ?now db = Inr (cs, blocked, gr)"
    using assms
    by (cases "verified_projection st profile ds ?now db"; cases "gc_analysis st profile ds ?now db")
      (auto simp: create_gc_plan_def Let_def)
  define r where "r = store_plan (plan_row st sha profile ds ?now fp p cs (estimates_json gr blocked cs)) db"
  have "\<exists>ev. db' = append_event ev (fst r) \<and> plan = snd r"
    using assms p a by (auto simp: create_gc_plan_def Let_def r_def split: prod.splits)
  then obtain ev where st: "db' = append_event ev (fst r)" "plan = snd r" by blast
  show thesis
    by (rule that [OF a, of p ev])
      (use st in \<open>auto simp: r_def store_plan_def dest: find_row_Some split: option.splits\<close>)
qed

end
