(* ===== verification/Vault_Retention_Safety.thy ===== *)
theory Vault_Retention_Safety
  imports Vault_Retention
begin

section \<open>What retention guarantees\<close>

text \<open>
  Retirement is refused exactly while the generation is in use, a hold protects until it is released
  or expires, and the dry run of the garbage collection plans only for retired, unprotected
  generations and lists for deletion only keys that no kept generation names. It never deletes.
\<close>

subsection \<open>A sample database\<close>

definition gen_row :: "nat \<Rightarrow> string \<Rightarrow> vault_state \<Rightarrow> runtime_state \<Rightarrow> json list \<Rightarrow> artifact_generation" where
  "gen_row pk gid vs rs files = \<lparr>ag_pk = pk, ag_profile = 1, ag_origin = Vault_generation,
     ag_dataset_id = ''main'', ag_generation_id = gid, ag_manifest_digest = ''m'' @ gid,
     ag_manifest = JObj [(''files'', JArr files)], ag_vault_state = vs, ag_runtime_state = rs,
     ag_deployment_id = '''', ag_parent_generation_id = '''', ag_parent_manifest_digest = '''', ag_updated_at = 0\<rparr>"

definition file_entry :: "string \<Rightarrow> int \<Rightarrow> json" where
  "file_entry key n = JObj [(''object_key'', JStr key),
     (''sha256'', JStr (replicate 64 (CHR ''a''))), (''bytes'', JInt n)]"

definition sample_profile :: vault_profile where
  "sample_profile = \<lparr>pf_pk = 1, pf_key = ''p'', pf_dataset_id = ''main'', pf_fingerprint = ''fp''\<rparr>"

definition sample_gc_db :: control_db where
  "sample_gc_db = empty_db\<lparr>
     projections := [\<lparr>dp_profile = 1, dp_dataset_id = ''main'', dp_registration_digest = ''r'',
       dp_pointer_digest = ''p'', dp_pointer_etag = ''e'', dp_authoritative_generation_id = ''g2'',
       dp_inventory_state = ''verified'', dp_inventory_observed_at = Some (seconds 200000),
       dp_state_version = 3\<rparr>],
     generations := [gen_row 2 ''g2'' Authoritative Active
         [file_entry ''datasets/main/blobs/b'' 5],
       gen_row 1 ''g1'' Retired Inactive
         [file_entry ''datasets/main/blobs/a'' 7, file_entry ''datasets/main/blobs/b'' 5]]\<rparr>"

definition test_settings :: gc_settings where
  "test_settings = \<lparr>st_inventory_cache_seconds = 60, st_gc_grace_days = Some 1, st_gc_enabled = False\<rparr>"

text \<open>\<^verbatim>\<open>settings.py\<close> reads the cache time and the switch, and defines no grace period.\<close>

definition shipped_settings :: gc_settings where
  "shipped_settings = \<lparr>st_inventory_cache_seconds = 30, st_gc_grace_days = None, st_gc_enabled = False\<rparr>"

definition short_sha :: "string \<Rightarrow> digest" where
  "short_sha s = show_nat (length s)"

lemma create_gc_plan_succeeds:
  assumes "verified_projection st profile ds (now_or at clk) db = Inr p"
    "gc_analysis st profile ds (now_or at clk) db = Inr a"
    "\<not> list_ex (open_plan (pf_pk profile) ds (now_or at clk)) (gc_plans db)"
  obtains db' plan where "create_gc_plan st sha clk profile ds aid an at fp fc db = Inr (db', plan)"
proof -
  have "succeeds (create_gc_plan st sha clk profile ds aid an at fp fc db)"
    using assms by (simp add: create_gc_plan_def Let_def require_def succeeds_def split: prod.splits)
  then show thesis
    using that by (cases "create_gc_plan st sha clk profile ds aid an at fp fc db") (auto simp: succeeds_def)
qed

lemma sample_plan_runs:
  obtains db' plan where "create_gc_plan test_settings short_sha (seconds 200010) sample_profile ''main''
     None ''op'' None ''plan-1'' ''cor-1'' sample_gc_db = Inr (db', plan)"
    "plan \<notin> set (gc_plans sample_gc_db)"
proof -
  have "succeeds (verified_projection test_settings sample_profile ''main'' (now_or None (seconds 200010)) sample_gc_db)"
    by code_simp
  then obtain p where p: "verified_projection test_settings sample_profile ''main'' (now_or None (seconds 200010)) sample_gc_db = Inr p"
    by (auto simp: succeeds_def split: sum.splits)
  have "succeeds (gc_analysis test_settings sample_profile ''main'' (now_or None (seconds 200010)) sample_gc_db)"
    by code_simp
  then obtain a where a: "gc_analysis test_settings sample_profile ''main'' (now_or None (seconds 200010)) sample_gc_db = Inr a"
    by (auto simp: succeeds_def split: sum.splits)
  have none: "gc_plans sample_gc_db = []" by code_simp
  have "\<not> list_ex (open_plan (pf_pk sample_profile) ''main'' (now_or None (seconds 200010))) (gc_plans sample_gc_db)"
    by (simp add: none)
  from create_gc_plan_succeeds [OF p a this] obtain db' plan where
    "create_gc_plan test_settings short_sha (seconds 200010) sample_profile ''main''
       None ''op'' None ''plan-1'' ''cor-1'' sample_gc_db = Inr (db', plan)" .
  then show thesis by (rule that) (simp add: none)
qed

subsection \<open>Garbage collection\<close>

text \<open>C14: A new plan spares what is kept. Every generation of the dataset, candidate or not, had its
  manifest read; and a key the plan lists as exclusive to a candidate is named only by generations
  that are candidates of the same plan.\<close>

theorem gc_plan_spares_retained:
  assumes "create_gc_plan st sha clk profile ds aid an at fp fc db = Inr (db', plan)"
    "plan \<notin> set (gc_plans db)"
  shows "\<exists>cs. gp_candidates plan = JArr (map candidate_json cs) \<and>
    (\<forall>c \<in> set cs. \<forall>g \<in> set (generations db). ag_profile g = pf_pk profile \<and> ag_dataset_id g = ds \<longrightarrow>
       (\<exists>recs. manifest_objects g = Inr recs \<and>
          (\<forall>k \<in> set (gc_exclusive c). k \<in> fst ` set recs \<longrightarrow>
             ag_generation_id g \<in> gc_generation_id ` set cs)))"
proof (rule create_gc_plan_new [OF assms(1)])
  fix p cs blocked gr ev
  assume a: "gc_analysis st profile ds (now_or at clk) db = Inr (cs, blocked, gr)"
    and "plan \<in> set (gc_plans db) \<or>
      plan = plan_row st sha profile ds (now_or at clk) fp p cs (estimates_json gr blocked cs)"
  then have "gp_candidates plan = JArr (map candidate_json cs)"
    using assms(2) by (simp add: plan_row_def Let_def)
  then show ?thesis
    using gc_analysis_exclusive [OF a] by (intro exI [of _ cs]) (simp add: set_plan_generations)
qed

theorem gc_plan_spares_retained_witness:
  "\<exists>db' plan cs. create_gc_plan test_settings short_sha (seconds 200010) sample_profile ''main''
     None ''op'' None ''plan-1'' ''cor-1'' sample_gc_db = Inr (db', plan) \<and>
   gp_candidates plan = JArr (map candidate_json cs) \<and>
   (\<forall>c \<in> set cs. \<forall>g \<in> set (generations sample_gc_db). ag_profile g = 1 \<and> ag_dataset_id g = ''main'' \<longrightarrow>
     (\<exists>recs. manifest_objects g = Inr recs \<and> (\<forall>k \<in> set (gc_exclusive c). k \<in> fst ` set recs \<longrightarrow>
        ag_generation_id g \<in> gc_generation_id ` set cs)))"
proof (rule sample_plan_runs)
  fix db' plan
  assume run: "create_gc_plan test_settings short_sha (seconds 200010) sample_profile ''main''
     None ''op'' None ''plan-1'' ''cor-1'' sample_gc_db = Inr (db', plan)"
    "plan \<notin> set (gc_plans sample_gc_db)"
  have pk: "pf_pk sample_profile = 1" by (simp add: sample_profile_def)
  from gc_plan_spares_retained [OF run] show ?thesis
    unfolding pk by (elim exE conjE, intro exI conjI) (rule run(1), assumption+)
qed

text \<open>Who a new plan collects, and that it only plans. The candidates are, in the order of their ids,
  exactly the retired generations that are not authoritative, not referenced by the runtime, a
  workspace, a running job or a live hold, and unchanged for the grace period; there is at least one
  and at most 500, and the run leaves the generations, the holds and the projections as they were.\<close>

theorem gc_plan_candidates:
  assumes "create_gc_plan st sha clk profile ds aid an at fp fc db = Inr (db', plan)"
    "plan \<notin> set (gc_plans db)"
  shows "\<exists>cs grace. gp_candidates plan = JArr (map candidate_json cs) \<and> st_gc_grace_days st = Some grace \<and>
    map gc_generation_id cs = map ag_generation_id
      [g \<leftarrow> plan_generations (pf_pk profile) ds db. ag_vault_state g = Retired \<and>
         \<not> is_authoritative g db \<and> ag_runtime_state g \<notin> set protected_runtime_states \<and>
         \<not> has_workspace g db \<and> \<not> has_active_job g db \<and> active_holds (now_or at clk) g db = [] \<and>
         ag_updated_at g \<le> now_or at clk - days grace] \<and>
    0 < length cs \<and> length cs \<le> 500 \<and>
    generations db' = generations db \<and> holds db' = holds db \<and> projections db' = projections db"
proof (rule create_gc_plan_new [OF assms(1)])
  fix p cs blocked gr ev
  assume a: "gc_analysis st profile ds (now_or at clk) db = Inr (cs, blocked, gr)"
    and pl: "plan \<in> set (gc_plans db) \<or>
      plan = plan_row st sha profile ds (now_or at clk) fp p cs (estimates_json gr blocked cs)"
    and db': "db' = append_event ev db \<or> db' = append_event ev (db\<lparr>gc_plans := gc_plans db @ [plan]\<rparr>)"
  have cand: "gp_candidates plan = JArr (map candidate_json cs)"
    using pl assms(2) by (simp add: plan_row_def Let_def)
  have frame: "generations db' = generations db \<and> holds db' = holds db \<and> projections db' = projections db"
    using db' by auto
  show ?thesis
  proof (rule gc_analysis_candidates [OF a], intro exI conjI)
    fix grace
    assume "st_gc_grace_days st = Some grace" "cs \<noteq> []" "length cs \<le> max_gc_candidates"
      "map gc_generation_id cs = map ag_generation_id
        [g \<leftarrow> plan_generations (pf_pk profile) ds db. ag_vault_state g = Retired \<and>
           gc_reasons (now_or at clk) (now_or at clk - days grace) g db = []]"
    then show "st_gc_grace_days st = Some grace" "0 < length cs" "length cs \<le> 500"
      "map gc_generation_id cs = map ag_generation_id
        [g \<leftarrow> plan_generations (pf_pk profile) ds db. ag_vault_state g = Retired \<and>
           \<not> is_authoritative g db \<and> ag_runtime_state g \<notin> set protected_runtime_states \<and>
           \<not> has_workspace g db \<and> \<not> has_active_job g db \<and> active_holds (now_or at clk) g db = [] \<and>
           ag_updated_at g \<le> now_or at clk - days grace]"
      by (simp_all only: gc_reasons_Nil max_gc_candidates_def length_greater_0_conv not_False_eq_True)
  qed (use cand frame in simp_all)
qed

theorem gc_plan_candidates_witness:
  "\<exists>db' plan cs. create_gc_plan test_settings short_sha (seconds 200010) sample_profile ''main''
     None ''op'' None ''plan-1'' ''cor-1'' sample_gc_db = Inr (db', plan) \<and>
     gp_candidates plan = JArr (map candidate_json cs) \<and> map gc_generation_id cs = [''g1'']"
proof (rule sample_plan_runs)
  fix db' plan
  assume run: "create_gc_plan test_settings short_sha (seconds 200010) sample_profile ''main''
     None ''op'' None ''plan-1'' ''cor-1'' sample_gc_db = Inr (db', plan)"
    "plan \<notin> set (gc_plans sample_gc_db)"
  have g: "map ag_generation_id [g \<leftarrow> plan_generations (pf_pk sample_profile) ''main'' sample_gc_db.
      ag_vault_state g = Retired \<and>
         \<not> is_authoritative g sample_gc_db \<and> ag_runtime_state g \<notin> set protected_runtime_states \<and>
         \<not> has_workspace g sample_gc_db \<and> \<not> has_active_job g sample_gc_db \<and>
         active_holds (now_or None (seconds 200010)) g sample_gc_db = [] \<and>
         ag_updated_at g \<le> now_or None (seconds 200010) - days 1] = [''g1'']"
    by code_simp
  obtain cs grace where c: "gp_candidates plan = JArr (map candidate_json cs)"
    "st_gc_grace_days test_settings = Some grace"
    "map gc_generation_id cs = map ag_generation_id
      [g \<leftarrow> plan_generations (pf_pk sample_profile) ''main'' sample_gc_db. ag_vault_state g = Retired \<and>
         \<not> is_authoritative g sample_gc_db \<and> ag_runtime_state g \<notin> set protected_runtime_states \<and>
         \<not> has_workspace g sample_gc_db \<and> \<not> has_active_job g sample_gc_db \<and>
         active_holds (now_or None (seconds 200010)) g sample_gc_db = [] \<and>
         ag_updated_at g \<le> now_or None (seconds 200010) - days grace]"
    using gc_plan_candidates [OF run] by blast
  have "grace = 1" using c(2) by (simp add: test_settings_def)
  then show ?thesis using run(1) c(1,3) g by auto
qed

text \<open>Under the shipped settings no plan is ever made. The grace period the dry run reads is not
  defined, so a run that has a verified inventory, no open plan and a generation to look at ends in
  that missing attribute, and no run succeeds.\<close>

theorem gc_plan_needs_grace_setting:
  assumes "st_gc_grace_days st = None"
  shows "\<not> succeeds (create_gc_plan st sha clk profile ds aid an at fp fc db) \<and>
    (verified_projection st profile ds (now_or at clk) db = Inr p \<and>
      \<not> list_ex (open_plan (pf_pk profile) ds (now_or at clk)) (gc_plans db) \<and>
      plan_generations (pf_pk profile) ds db \<noteq> [] \<longrightarrow>
      create_gc_plan st sha clk profile ds aid an at fp fc db = Inl (Attribute_error ''VAULT_GC_GRACE_DAYS''))"
proof -
  have "gc_analysis st profile ds (now_or at clk) db \<noteq> Inr r" for r
    using assms by (cases r) (auto simp: gc_analysis_def Let_def)
  then show ?thesis
  proof (intro conjI impI)
    assume none: "\<And>r. gc_analysis st profile ds (now_or at clk) db \<noteq> Inr r"
    show "\<not> succeeds (create_gc_plan st sha clk profile ds aid an at fp fc db)"
    proof (cases "create_gc_plan st sha clk profile ds aid an at fp fc db")
      case (Inr b)
      then obtain db' plan where "create_gc_plan st sha clk profile ds aid an at fp fc db = Inr (db', plan)"
        by (cases b) auto
      then show ?thesis using none by (elim create_gc_plan_new) blast
    qed (simp add: succeeds_def)
  next
    assume "verified_projection st profile ds (now_or at clk) db = Inr p \<and>
      \<not> list_ex (open_plan (pf_pk profile) ds (now_or at clk)) (gc_plans db) \<and>
      plan_generations (pf_pk profile) ds db \<noteq> []"
    then show "create_gc_plan st sha clk profile ds aid an at fp fc db = Inl (Attribute_error ''VAULT_GC_GRACE_DAYS'')"
      using assms by (simp add: create_gc_plan_def gc_analysis_def Let_def require_def)
  qed
qed

theorem gc_plan_needs_grace_setting_witness:
  "create_gc_plan shipped_settings short_sha (seconds 200010) sample_profile ''main''
     None ''op'' None ''plan-1'' ''cor-1'' sample_gc_db = Inl (Attribute_error ''VAULT_GC_GRACE_DAYS'')"
proof -
  have "st_gc_grace_days shipped_settings = None" by (simp add: shipped_settings_def)
  moreover have "verified_projection shipped_settings sample_profile ''main'' (now_or None (seconds 200010)) sample_gc_db
      = Inr (hd (projections sample_gc_db))" by code_simp
  moreover have "\<not> list_ex (open_plan (pf_pk sample_profile) ''main'' (now_or None (seconds 200010))) (gc_plans sample_gc_db)"
    by code_simp
  moreover have "plan_generations (pf_pk sample_profile) ''main'' sample_gc_db \<noteq> []" by code_simp
  ultimately show ?thesis using gc_plan_needs_grace_setting by blast
qed

subsection \<open>Retirement\<close>

lemma reasons_iff:
  "r \<in> set (generation_protection_reasons clk at g db) \<longleftrightarrow>
     (r = Generation_authoritative \<and> is_authoritative g db) \<or>
     (r = Generation_runtime_referenced \<and> ag_runtime_state g \<in> set protected_runtime_states) \<or>
     (r = Workspace_referenced \<and> has_workspace g db) \<or>
     (r = Generation_job_in_progress \<and> has_active_job g db) \<or>
     (r = Retention_hold_active \<and> active_holds (now_or at clk) g db \<noteq> [])"
  by (auto simp: generation_protection_reasons_def Let_def)

lemma transition_to_retired:
  assumes "get_generation pk db = Some g"
  shows "succeeds (transition_generation_vault_state clk pk Retired cor aid an rc db) \<longleftrightarrow>
    ag_origin g \<noteq> Local_maintenance \<and> Retired \<in> insert (ag_vault_state g) (set (vault_transitions (ag_vault_state g)))"
  using assms
  by (auto simp: handler_defs Let_def succeeds_def require_def guard_transition_def)

lemma transition_other_rows:
  assumes "transition_generation_vault_state clk pk req cor aid an rc db = Inr (db', g')" "k \<noteq> pk"
  shows "get_generation k db' = get_generation k db"
  by (rule guarded_generation_edge [OF assms(1)]) (use assms(2) in \<open>auto simp: generation_rows.get_put_other\<close>)

lemma blocking_Nil:
  "blocking_reasons (generation_protection_reasons clk at g db) = [] \<longleftrightarrow>
     \<not> is_authoritative g db \<and> ag_runtime_state g \<notin> set protected_runtime_states \<and> \<not> has_active_job g db"
  by (auto simp: blocking_reasons_def filter_empty_conv reasons_iff)

text \<open>Retirement succeeds exactly on a generation that is not authoritative, not referenced by the
  runtime and has no running job, is not a local one, and may move to retired (or is already). It is
  retired afterwards, whether a hold or a workspace keeps it or not; otherwise nothing changes.\<close>

theorem retire_guard:
  assumes "get_generation pk db = Some g"
  shows "(succeeds (retire_generation clk pk aid an cor fresh rc db) \<longleftrightarrow>
      \<not> is_authoritative g db \<and> ag_runtime_state g \<notin> set protected_runtime_states \<and>
      \<not> has_active_job g db \<and> ag_origin g \<noteq> Local_maintenance \<and>
      ag_vault_state g \<in> {Candidate, Legacy_read_only, Retired})
    \<and> (\<forall>db' g'. retire_generation clk pk aid an cor fresh rc db = Inr (db', g') \<longrightarrow>
        ag_vault_state g' = Retired \<and> get_generation pk db' = Some g' \<and>
        (\<forall>k. k \<noteq> pk \<longrightarrow> get_generation k db' = get_generation k db))"
proof (cases "blocking_reasons (generation_protection_reasons clk None g db)")
  case Nil
  then have free: "\<not> is_authoritative g db" "ag_runtime_state g \<notin> set protected_runtime_states"
    "\<not> has_active_job g db" by (simp_all add: blocking_Nil)
  have run: "retire_generation clk pk aid an cor fresh rc db =
      transition_generation_vault_state clk pk Retired (or_uuid cor fresh) aid an rc db"
    using assms Nil by (simp add: retire_generation_def)
  have "ag_vault_state g \<noteq> Authoritative" using free(1) by (auto simp: is_authoritative_def)
  then have "Retired \<in> insert (ag_vault_state g) (set (vault_transitions (ag_vault_state g))) \<longleftrightarrow>
      ag_vault_state g \<in> {Candidate, Legacy_read_only, Retired}"
    by (cases "ag_vault_state g") auto
  then show ?thesis
    unfolding run transition_to_retired [OF assms] using free
    by (auto dest: transition_other_rows elim: guarded_generation_edge)
next
  case (Cons r rs)
  then have "retire_generation clk pk aid an cor fresh rc db = Inl (Retention_error (reason_text r) 409)"
    using assms by (simp add: retire_generation_def)
  moreover have "\<not> (\<not> is_authoritative g db \<and> ag_runtime_state g \<notin> set protected_runtime_states \<and>
      \<not> has_active_job g db)"
    using Cons blocking_Nil [of clk None g db] by simp
  ultimately show ?thesis by (auto simp: succeeds_def)
qed

theorem retire_guard_witness:
  "\<not> succeeds (retire_generation 5 2 None ''op'' None ''u'' ''rc'' sample_gc_db) \<and>
   succeeds (retire_generation 5 1 None ''op'' None ''u'' ''rc'' sample_gc_db)"
proof -
  have "get_generation 2 sample_gc_db = Some (generations sample_gc_db ! 0) \<and>
      is_authoritative (generations sample_gc_db ! 0) sample_gc_db" by code_simp
  moreover have "get_generation 1 sample_gc_db = Some (generations sample_gc_db ! 1) \<and>
     \<not> is_authoritative (generations sample_gc_db ! 1) sample_gc_db \<and>
     ag_runtime_state (generations sample_gc_db ! 1) \<notin> set protected_runtime_states \<and>
     \<not> has_active_job (generations sample_gc_db ! 1) sample_gc_db \<and>
     ag_origin (generations sample_gc_db ! 1) \<noteq> Local_maintenance \<and>
     ag_vault_state (generations sample_gc_db ! 1) \<in> {Candidate, Legacy_read_only, Retired}"
    by code_simp
  ultimately show ?thesis
    using retire_guard [of 2 sample_gc_db "generations sample_gc_db ! 0" 5]
      retire_guard [of 1 sample_gc_db "generations sample_gc_db ! 1" 5] by blast
qed

subsection \<open>Holds\<close>

text \<open>The request's validation, and the row a new hold is.\<close>

definition hold_request_ok :: "instant \<Rightarrow> string \<Rightarrow> string \<Rightarrow> instant option \<Rightarrow> bool" where
  "hold_request_ok clk reason owner expires \<longleftrightarrow> py_strip reason \<noteq> [] \<and> py_strip owner \<noteq> [] \<and>
     (case expires of None \<Rightarrow> True | Some e \<Rightarrow> clk < e)"

lemma create_hold_existing:
  assumes "hold_request_ok clk reason owner expires" "py_strip key \<noteq> []"
    "find_hold (ag_pk g) (take 160 (py_strip key)) db = Some h"
  shows "create_retention_hold clk g reason owner notes expires key aid an fresh db = Inr (db, h)"
  using assms by (auto simp: create_retention_hold_def hold_request_ok_def Let_def require_def)

lemma find_hold_put:
  assumes "find_hold gpk key db = Some h" "rh_generation h' = rh_generation h"
    "rh_idempotency_key h' = rh_idempotency_key h" "rh_pk h' = rh_pk h" "distinct (map rh_pk (holds db))"
  shows "find_hold gpk key (db\<lparr>holds := put_row rh_pk h' (holds db)\<rparr>) = Some h'"
proof -
  have "List.find P rows = Some h \<Longrightarrow> distinct (map rh_pk rows) \<Longrightarrow> P h' = P h \<Longrightarrow>
      (\<And>r. r \<in> set rows \<Longrightarrow> P r = P r) \<Longrightarrow>
      List.find P (put_row rh_pk h' rows) = Some h'" for P and rows :: "retention_hold list"
  proof (induction rows)
    case (Cons r rows)
    show ?case
    proof (cases "P r")
      case True
      then show ?thesis using Cons.prems assms(4) by (auto simp: put_row_def)
    next
      case False
      then have h: "List.find P rows = Some h" using Cons.prems by simp
      then have "h \<in> set rows" "P h" by (auto simp: find_Some_iff)
      then have "rh_pk r \<noteq> rh_pk h'" using Cons.prems(2) assms(4) by force
      then show ?thesis using False Cons.IH [OF h] Cons.prems by (auto simp: put_row_def)
    qed
  qed simp
  from this [of "\<lambda>x. rh_generation x = gpk \<and> rh_idempotency_key x = key" "holds db"]
  show ?thesis using assms by (simp add: find_hold_def)
qed

lemma next_hold_pk_fresh: "h \<in> set (holds db) \<Longrightarrow> rh_pk h < next_hold_pk db"
  using fold_max_ge [of "rh_pk h" "map rh_pk (holds db)" 0] by (auto simp: next_hold_pk_def less_Suc_eq_le)

lemma find_snoc: "List.find P xs = None \<Longrightarrow> P x \<Longrightarrow> List.find P (xs @ [x]) = Some x"
  by (induction xs) (auto split: if_splits)

lemma create_hold_new:
  assumes "create_retention_hold clk g reason owner notes expires key aid an fresh db = Inr (db1, h)"
    "py_strip key = [] \<or> find_hold (ag_pk g) (take 160 (py_strip key)) db = None"
  shows "h = new_hold g (py_strip reason) (py_strip owner) notes expires (py_strip key) db"
    and "db1 = append_event (hold_created_event g h aid an fresh) (insert_hold h db)"
  using assms by (auto simp: create_retention_hold_def Let_def split: if_splits)

lemma new_hold_simps [simp]:
  "rh_pk (new_hold g r w n e k db) = next_hold_pk db" "rh_generation (new_hold g r w n e k db) = ag_pk g"
  "rh_idempotency_key (new_hold g r w n e k db) = take 160 k"
  "rh_expires_at (new_hold g r w n e k db) = e" "rh_released_at (new_hold g r w n e k db) = None"
  by (simp_all add: new_hold_def)

lemma create_hold_find:
  assumes "create_retention_hold clk g reason owner notes expires key aid an fresh db = Inr (db1, h)"
    "py_strip key \<noteq> []" "distinct (map rh_pk (holds db))"
  shows "find_hold (ag_pk g) (take 160 (py_strip key)) db1 = Some h \<and> h \<in> set (holds db1) \<and>
    distinct (map rh_pk (holds db1)) \<and> generations db1 = generations db"
proof (cases "find_hold (ag_pk g) (take 160 (py_strip key)) db")
  case (Some h0)
  then have "db1 = db \<and> h = h0"
    using assms(1,2) by (auto simp: create_retention_hold_def Let_def)
  then show ?thesis using Some assms(3) by (auto simp: find_hold_def find_Some_iff)
next
  case None
  note new = create_hold_new [OF assms(1) disjI2 [OF None]]
  have d: "db1 = append_event (hold_created_event g h aid an fresh) (insert_hold h db)"
    "rh_pk h = next_hold_pk db" "rh_generation h = ag_pk g" "rh_idempotency_key h = take 160 (py_strip key)"
    by (simp_all add: new)
  have "find_hold (ag_pk g) (take 160 (py_strip key)) (insert_hold h db) = Some h"
    using None d(3,4) by (simp add: find_hold_def insert_hold_def find_snoc)
  then show ?thesis
    using d assms(3) by (auto simp: find_hold_def insert_hold_def dest: next_hold_pk_fresh)
qed

lemma release_hold_run:
  assumes "release_retention_hold clk pk aid an rc fresh db = Inr (db2, h2)"
  obtains h ev where "find_row rh_pk pk (holds db) = Some h" "h2 = h \<and> db2 = db \<and> rh_released_at h \<noteq> None \<or>
    h2 = h\<lparr>rh_released_at := Some clk\<rparr> \<and> db2 = append_event ev (db\<lparr>holds := put_row rh_pk h2 (holds db)\<rparr>)"
proof -
  obtain h where h: "find_row rh_pk pk (holds db) = Some h"
    using assms by (auto simp: release_retention_hold_def)
  have "(h2 = h \<and> db2 = db \<and> rh_released_at h \<noteq> None) \<or>
     (\<exists>ev. h2 = h\<lparr>rh_released_at := Some clk\<rparr> \<and> db2 = append_event ev (db\<lparr>holds := put_row rh_pk h2 (holds db)\<rparr>))"
    using assms h unfolding release_retention_hold_def
    by (cases "rh_released_at h = None") (clarsimp simp: Let_def, blast, clarsimp simp: Let_def)
  then show thesis using that [OF h] by blast
qed

text \<open>The idempotency key of a hold names one row for ever. A request with the key of an earlier one
  returns that hold as it stands and writes nothing: the live hold as long as it is live, and, when
  the hold was released in between, the released hold, so that the generation stays unprotected.\<close>

theorem hold_request_replayed:
  assumes "create_retention_hold clk g reason owner notes expires key aid an fresh db = Inr (db1, h)"
    "py_strip key \<noteq> []" "distinct (map rh_pk (holds db))"
    "hold_request_ok clk' reason' owner' expires'" "py_strip key' = py_strip key"
  shows "create_retention_hold clk' g reason' owner' notes' expires' key' aid' an' fresh' db1 = Inr (db1, h)
    \<and> (release_retention_hold clk2 (rh_pk h) aid2 an2 rc fresh2 db1 = Inr (db2, h2) \<longrightarrow>
         create_retention_hold clk' g reason' owner' notes' expires' key' aid' an' fresh' db2 = Inr (db2, h2)
         \<and> rh_released_at h2 \<noteq> None)"
proof (intro conjI impI)
  have key: "py_strip key' \<noteq> []" using assms(2,5) by simp
  have st: "find_hold (ag_pk g) (take 160 (py_strip key')) db1 = Some h" "h \<in> set (holds db1)"
    "distinct (map rh_pk (holds db1))"
    using create_hold_find [OF assms(1-3)] assms(5) by simp_all
  show "create_retention_hold clk' g reason' owner' notes' expires' key' aid' an' fresh' db1 = Inr (db1, h)"
    by (rule create_hold_existing [OF assms(4) key st(1)])
  assume rel: "release_retention_hold clk2 (rh_pk h) aid2 an2 rc fresh2 db1 = Inr (db2, h2)"
  have row: "find_row rh_pk (rh_pk h) (holds db1) = Some h" using st(2,3) by (rule find_row_in [rotated])
  have h2: "find_hold (ag_pk g) (take 160 (py_strip key')) db2 = Some h2 \<and> rh_released_at h2 \<noteq> None"
  proof (rule release_hold_run [OF rel])
    fix h0 ev
    assume "find_row rh_pk (rh_pk h) (holds db1) = Some h0" and
      c: "h2 = h0 \<and> db2 = db1 \<and> rh_released_at h0 \<noteq> None \<or>
        h2 = h0\<lparr>rh_released_at := Some clk2\<rparr> \<and> db2 = append_event ev (db1\<lparr>holds := put_row rh_pk h2 (holds db1)\<rparr>)"
    then have h0: "h0 = h" using row by simp
    show ?thesis
      using c st(1) find_hold_put [OF st(1), of h2] st(3) unfolding h0
      by (auto simp: find_hold_def)
  qed
  then show "create_retention_hold clk' g reason' owner' notes' expires' key' aid' an' fresh' db2 = Inr (db2, h2)"
    "rh_released_at h2 \<noteq> None"
    using create_hold_existing [OF assms(4) key] by blast+
qed

definition held_db :: control_db where
  "held_db = state_after (\<lambda>db. create_retention_hold 5 (generations sample_gc_db ! 1) '' audit '' ''ann'' ''''
     None ''k1'' None ''op'' ''u1'' db) sample_gc_db"

definition the_hold :: retention_hold where
  "the_hold = \<lparr>rh_pk = 1, rh_generation = 1, rh_reason_code = ''audit'', rh_owner_reference = ''ann'', rh_notes = '''',
     rh_idempotency_key = ''k1'', rh_expires_at = None, rh_released_at = None\<rparr>"

theorem hold_request_replayed_witness:
  "create_retention_hold 9 (generations sample_gc_db ! 1) ''other'' ''bob'' '''' (Some 12) ''k1'' None ''x'' ''u3''
     (state_after (release_retention_hold 7 1 None ''op'' ''rc'' ''u2'') held_db)
   = Inr (state_after (release_retention_hold 7 1 None ''op'' ''rc'' ''u2'') held_db, the_hold\<lparr>rh_released_at := Some 7\<rparr>)"
proof -
  have r1: "create_retention_hold 5 (generations sample_gc_db ! 1) '' audit '' ''ann'' ''''
     None ''k1'' None ''op'' ''u1'' sample_gc_db = Inr (held_db, the_hold)" by code_simp
  have r2: "release_retention_hold 7 (rh_pk the_hold) None ''op'' ''rc'' ''u2'' held_db =
     Inr (state_after (release_retention_hold 7 1 None ''op'' ''rc'' ''u2'') held_db, the_hold\<lparr>rh_released_at := Some 7\<rparr>)"
    by code_simp
  have p: "py_strip ''k1'' \<noteq> []" "distinct (map rh_pk (holds sample_gc_db))"
    "hold_request_ok 9 ''other'' ''bob'' (Some 12)" by code_simp+
  show ?thesis
    by (rule hold_request_replayed [OF r1 p refl, THEN conjunct2, THEN mp, OF r2, THEN conjunct1])
qed

text \<open>A hold protects. After a request without a key every reading of the clock before the expiry finds
  the generation protected by an active hold, so a dry run at that time does not plan its deletion,
  and the audit log has one event more.\<close>

theorem new_hold_protects:
  assumes "create_retention_hold clk g reason owner notes expires key aid an fresh db = Inr (db1, h)"
    "py_strip key = []" "case expires of None \<Rightarrow> True | Some e \<Rightarrow> now < e"
  shows "Retention_hold_active \<in> set (generation_protection_reasons clk' (Some now) g db1)
    \<and> gc_reasons now cutoff g db1 \<noteq> []
    \<and> holds db1 = holds db @ [h] \<and> (\<exists>ev. events db1 = events db @ [ev])"
proof -
  note new = create_hold_new [OF assms(1) disjI1 [OF assms(2)]]
  have d: "db1 = append_event (hold_created_event g h aid an fresh) (insert_hold h db)"
    "rh_generation h = ag_pk g" "rh_released_at h = None" "rh_expires_at h = expires"
    by (simp_all add: new)
  then have "h \<in> set (active_holds now g db1)"
    using assms(3) by (simp add: active_holds_def insert_hold_def)
  then have act: "active_holds now g db1 \<noteq> []" by auto
  then show ?thesis
    using d by (auto simp: reasons_iff now_or_def gc_reasons_Nil insert_hold_def append_event_def)
qed

theorem new_hold_protects_witness:
  "gc_reasons 11 0 (generations sample_gc_db ! 1)
     (state_after (\<lambda>db. create_retention_hold 5 (generations sample_gc_db ! 1) ''audit'' ''ann'' ''''
     (Some 12) '' '' None ''op'' ''u1'' db) sample_gc_db) \<noteq> []"
proof -
  let ?r = "create_retention_hold 5 (generations sample_gc_db ! 1) ''audit'' ''ann'' ''''
     (Some 12) '' '' None ''op'' ''u1'' sample_gc_db"
  have "succeeds ?r" by code_simp
  then obtain db1 h where r: "?r = Inr (db1, h)" by (auto simp: succeeds_def split: sum.splits)
  have "py_strip '' '' = []" by code_simp
  from new_hold_protects [OF r this, of 11] show ?thesis using r by (simp add: state_after_def)
qed

end
