(* ===== verification/Global_Writer.thy ===== *)
theory Global_Writer
  imports Core_Keys Canonical_Text
begin

section \<open>The global writer\<close>

text \<open>
  \<^verbatim>\<open>flowdocs/core/global_writer.py\<close>: the control record in the object store that fences the writers of
  a dataset across deployments, and its acquisition, renewal, release and validation by conditional
  writes.

  The object store and the JSON codec of the record are parameters, in the record \<open>writer_env\<close>: reading
  an object, the conditional write (which returns the next state of the store, and an exception or
  the new entity tag), \<open>dumps\<close> and \<open>loads\<close> for the codec, \<open>hash\<close> for SHA-256. An operation returns
  the next state of the store even when it raises, since a failed write may have been carried out.
\<close>

record stored_object =
  so_body :: string
  so_sha :: string
  so_etag :: string

datatype precondition = If_none_match | If_match string

record writer_control =
  wc_schema_version :: int
  wc_dataset_id :: string
  wc_production_source_id :: string
  wc_instance_id :: string
  wc_deployment_id :: string
  wc_replica_id :: string
  wc_owner_token_hash :: string
  wc_writer_epoch :: nat
  wc_acquired_at :: instant
  wc_heartbeat_at :: instant
  wc_expires_at :: instant
  wc_previous_epoch :: nat
  wc_app_release :: string
  wc_image_digest :: string
  wc_force_takeover :: bool
  wc_takeover_reason :: string
  wc_released_at :: "string option"

record 's writer_env =
  os_get :: "'s \<Rightarrow> string \<Rightarrow> string + stored_object"
  os_put :: "'s \<Rightarrow> string \<Rightarrow> string \<Rightarrow> string \<Rightarrow> precondition \<Rightarrow> 's \<times> (string + string)"
  dumps :: "writer_control \<Rightarrow> string"
  loads :: "string \<Rightarrow> writer_control option"
  hash :: "string \<Rightarrow> string"

text \<open>What a caller holds: the record, its entity tag (\<^verbatim>\<open>_etag\<close>), and its token (\<^verbatim>\<open>_token\<close>).\<close>

record writer_handle =
  wh_record :: writer_control
  wh_etag :: string
  wh_token :: string

datatype writer_error =
    Global_writer_error string
  | Global_writer_held string nat instant
  | Global_writer_conflict string
  | Writer_key_error key_error

definition writer_control_schema :: int where
  "writer_control_schema = 1"

definition writer_key :: "string \<Rightarrow> key_error + string" where
  "writer_key ds = bind_res (key_builder_init ds) (\<lambda>kb. Inr (control_global_writer kb))"

definition missing_codes :: "string list" where
  "missing_codes = [''404'', ''NoSuchKey'', ''NotFound'']"

definition read_writer_record :: "'s writer_env \<Rightarrow> string \<Rightarrow> 's \<Rightarrow> writer_error + writer_handle option" where
  "read_writer_record env key s = (case os_get env s key of
       Inl code \<Rightarrow> if code \<in> set missing_codes then Inr None
         else Inl (Global_writer_error ''global_writer_read_failed'')
     | Inr obj \<Rightarrow> (case loads env (so_body obj) of
           None \<Rightarrow> Inl (Global_writer_error ''global_writer_record_malformed'')
         | Some r \<Rightarrow>
             if so_sha obj \<noteq> [] \<and> so_sha obj \<noteq> hash env (so_body obj)
             then Inl (Global_writer_error ''global_writer_digest_mismatch'')
             else Inr (Some \<lparr>wh_record = r, wh_etag = so_etag obj, wh_token = []\<rparr>)))"

subsection \<open>Acquisition\<close>

record writer_request =
  wq_dataset_id :: string
  wq_production_source_id :: string
  wq_instance_id :: string
  wq_deployment_id :: string
  wq_replica_id :: string
  wq_app_release :: string
  wq_image_digest :: string
  wq_ttl_seconds :: int
  wq_force_takeover :: bool
  wq_takeover_reason :: string

text \<open>
  The record to write and the condition to write it under, from what was read; then the write. The
  two are separate steps because other writers may act between them.
\<close>

definition acquire_epoch :: "writer_handle option \<Rightarrow> nat" where
  "acquire_epoch existing = (case existing of None \<Rightarrow> 1
     | Some h \<Rightarrow> if wh_etag h = [] \<and> wc_expires_at (wh_record h) = 0 then wc_writer_epoch (wh_record h)
         else wc_writer_epoch (wh_record h) + 1)"

definition acquire_record ::
  "'s writer_env \<Rightarrow> writer_request \<Rightarrow> instant \<Rightarrow> string \<Rightarrow> writer_handle option \<Rightarrow> writer_control" where
  "acquire_record env q now token existing =
     \<lparr>wc_schema_version = writer_control_schema, wc_dataset_id = wq_dataset_id q,
      wc_production_source_id = wq_production_source_id q, wc_instance_id = wq_instance_id q,
      wc_deployment_id = wq_deployment_id q, wc_replica_id = wq_replica_id q,
      wc_owner_token_hash = hash env token, wc_writer_epoch = acquire_epoch existing,
      wc_acquired_at = now, wc_heartbeat_at = now, wc_expires_at = now + seconds (wq_ttl_seconds q),
      wc_previous_epoch = (case existing of None \<Rightarrow> 0 | Some h \<Rightarrow> wc_writer_epoch (wh_record h)),
      wc_app_release = wq_app_release q, wc_image_digest = wq_image_digest q,
      wc_force_takeover = wq_force_takeover q,
      wc_takeover_reason = (if wq_force_takeover q then wq_takeover_reason q else []),
      wc_released_at = None\<rparr>"

definition acquire_guard :: "writer_request \<Rightarrow> instant \<Rightarrow> writer_handle option \<Rightarrow> writer_error + unit" where
  "acquire_guard q now existing = (case existing of None \<Rightarrow> Inr ()
     | Some h \<Rightarrow> require (wc_expires_at (wh_record h) \<le> now \<or> wq_force_takeover q)
         (Global_writer_held (wc_instance_id (wh_record h)) (wc_writer_epoch (wh_record h))
           (max 0 (wc_expires_at (wh_record h) - now))))"

definition put_record ::
  "'s writer_env \<Rightarrow> string \<Rightarrow> writer_control \<Rightarrow> precondition \<Rightarrow> string \<Rightarrow> string \<Rightarrow> 's \<Rightarrow>
   's \<times> (writer_error + writer_handle)" where
  "put_record env key r cond token message s =
     (let (t, res) = os_put env s key (dumps env r) (hash env (dumps env r)) cond in
      (t, case res of Inl e \<Rightarrow> Inl (Global_writer_conflict (message @ e))
          | Inr etag \<Rightarrow> Inr \<lparr>wh_record = r, wh_etag = etag, wh_token = token\<rparr>))"

definition acquire_write ::
  "'s writer_env \<Rightarrow> string \<Rightarrow> writer_request \<Rightarrow> instant \<Rightarrow> string \<Rightarrow> writer_handle option \<Rightarrow> 's \<Rightarrow>
   's \<times> (writer_error + writer_handle)" where
  "acquire_write env key q now token existing s =
     (case acquire_guard q now existing of Inl e \<Rightarrow> (s, Inl e)
      | Inr u \<Rightarrow> put_record env key (acquire_record env q now token existing)
          (case existing of None \<Rightarrow> If_none_match | Some h \<Rightarrow> If_match (wh_etag h)) token
          (''Cannot acquire global writer for '' @ wq_dataset_id q @ '': '') s)"

definition acquire_global_writer ::
  "'s writer_env \<Rightarrow> bool \<Rightarrow> writer_request \<Rightarrow> instant \<Rightarrow> string \<Rightarrow> 's \<Rightarrow> 's \<times> (writer_error + writer_handle)" where
  "acquire_global_writer env publication_allowed q now token s =
     (if \<not> publication_allowed then (s, Inl (Global_writer_error
        ''S3 endpoint does not support conditional operations required for global writer fencing''))
      else case writer_key (wq_dataset_id q) of Inl e \<Rightarrow> (s, Inl (Writer_key_error e))
      | Inr key \<Rightarrow> (case read_writer_record env key s of Inl e \<Rightarrow> (s, Inl e)
          | Inr existing \<Rightarrow> acquire_write env key q now token existing s))"

subsection \<open>Renewal, release, validation\<close>

definition renew_global_writer ::
  "'s writer_env \<Rightarrow> string \<Rightarrow> writer_handle \<Rightarrow> int \<Rightarrow> instant \<Rightarrow> 's \<Rightarrow> 's \<times> (writer_error + writer_handle)" where
  "renew_global_writer env ds h ttl now s = (case writer_key ds of Inl e \<Rightarrow> (s, Inl (Writer_key_error e))
     | Inr key \<Rightarrow>
         if wh_etag h = [] then (s, Inl (Global_writer_error ''Writer record has no ETag for conditional renewal''))
         else put_record env key
           ((wh_record h)\<lparr>wc_heartbeat_at := now, wc_expires_at := now + seconds ttl\<rparr>)
           (If_match (wh_etag h)) (wh_token h) (''Cannot renew global writer for '' @ ds @ '': '') s)"

definition release_guard ::
  "'s writer_env \<Rightarrow> writer_handle \<Rightarrow> writer_handle option \<Rightarrow> writer_error + writer_handle" where
  "release_guard env h current =
     bind_res (of_option (Global_writer_conflict ''Cannot verify global writer before release'') current) (\<lambda>c.
     bind_res (require (hash env (wh_token h) \<noteq> [] \<and>
         wc_owner_token_hash (wh_record c) = hash env (wh_token h) \<and>
         wc_writer_epoch (wh_record c) = wc_writer_epoch (wh_record h))
       (Global_writer_conflict ''Global writer ownership changed before release'')) (\<lambda>_.
     bind_res (require (wh_etag c \<noteq> [])
       (Global_writer_conflict ''Global writer has no ETag for conditional release'')) (\<lambda>_. Inr c)))"

definition released_record :: "instant \<Rightarrow> instant \<Rightarrow> writer_control \<Rightarrow> writer_control" where
  "released_record now now' r =
     r\<lparr>wc_heartbeat_at := now, wc_expires_at := 0, wc_released_at := Some (datetime_text ''T'' now')\<rparr>"

definition release_write ::
  "'s writer_env \<Rightarrow> string \<Rightarrow> writer_handle \<Rightarrow> instant \<Rightarrow> instant \<Rightarrow> writer_handle option \<Rightarrow> 's \<Rightarrow>
   's \<times> (writer_error + unit)" where
  "release_write env key h now now' current s = (case release_guard env h current of Inl e \<Rightarrow> (s, Inl e)
     | Inr c \<Rightarrow>
         (let r = released_record now now' (wh_record c);
              (t, res) = os_put env s key (dumps env r) (hash env (dumps env r)) (If_match (wh_etag c)) in
          (t, case res of Inl e \<Rightarrow> Inl (Global_writer_conflict ''Global writer ownership changed during release'')
              | Inr etag \<Rightarrow> Inr ())))"

definition release_global_writer ::
  "'s writer_env \<Rightarrow> string \<Rightarrow> writer_handle \<Rightarrow> instant \<Rightarrow> instant \<Rightarrow> 's \<Rightarrow> 's \<times> (writer_error + unit)" where
  "release_global_writer env ds h now now' s = (case writer_key ds of Inl e \<Rightarrow> (s, Inl (Writer_key_error e))
     | Inr key \<Rightarrow> (case read_writer_record env key s of Inl e \<Rightarrow> (s, Inl e)
         | Inr current \<Rightarrow> release_write env key h now now' current s))"

definition get_global_writer :: "'s writer_env \<Rightarrow> string \<Rightarrow> 's \<Rightarrow> writer_error + writer_handle option" where
  "get_global_writer env ds s = (case writer_key ds of Inl e \<Rightarrow> Inl (Writer_key_error e)
     | Inr key \<Rightarrow> read_writer_record env key s)"

definition validate_writer_for_publication ::
  "'s writer_env \<Rightarrow> string \<Rightarrow> writer_handle \<Rightarrow> string \<Rightarrow> string \<Rightarrow> nat option \<Rightarrow> instant \<Rightarrow> 's \<Rightarrow>
   writer_error + writer_handle" where
  "validate_writer_for_publication env ds h production_source_id instance_id expected_epoch now s =
     bind_res (get_global_writer env ds s) (\<lambda>found.
     bind_res (of_option (Global_writer_error (''No active global writer for '' @ ds)) found) (\<lambda>c.
     let r = wh_record c in
     bind_res (require (now \<le> wc_expires_at r) (Global_writer_error ''Global writer lease has expired'')) (\<lambda>_.
     bind_res (require (hash env (wh_token h) = wc_owner_token_hash r)
       (Global_writer_error ''Ownership token does not match global writer'')) (\<lambda>_.
     bind_res (require (wc_production_source_id r = production_source_id)
       (Global_writer_error ''Production source ID mismatch'')) (\<lambda>_.
     bind_res (require (instance_id = [] \<or> wc_instance_id r = instance_id)
       (Global_writer_error ''Instance ID mismatch'')) (\<lambda>_.
     bind_res (case expected_epoch of None \<Rightarrow> Inr ()
       | Some e \<Rightarrow> require (wc_writer_epoch r = e) (Global_writer_error
           (''Writer epoch mismatch: expected '' @ show_nat e @ '', got '' @ show_nat (wc_writer_epoch r)))) (\<lambda>_.
     Inr (c\<lparr>wh_token := wh_token h\<rparr>))))))))"

end
