(* ===== verification/Global_Writer_Safety.thy ===== *)
theory Global_Writer_Safety
  imports Global_Writer
begin

section \<open>At most one global writer publishes\<close>

text \<open>
  Writers of one dataset run against one object store: a writer reads the record, and writes it later
  under the condition of what it read, with any other writer's steps in between. \<open>lawful_store\<close> is
  what the object store documents of conditional writes. Then the epoch of the record never falls,
  each acquisition raises it, and a writer that was superseded never again passes the validation
  that a publication makes.
\<close>

subsection \<open>The object store\<close>

definition cond_holds :: "precondition \<Rightarrow> stored_object option \<Rightarrow> bool" where
  "cond_holds cond cur = (case cond of If_none_match \<Rightarrow> cur = None
     | If_match e \<Rightarrow> (\<exists>obj. cur = Some obj \<and> so_etag obj = e))"

text \<open>
  \<open>contents\<close> is what the store holds under a key. A read that answers is right; a write that answers
  found its condition and put the object; one that raises put it under its condition or left the key
  alone; other keys stay. Entity tags are not empty, and equal ones name equal bodies; the codec
  reads back what it wrote.
\<close>

definition lawful_store :: "'s writer_env \<Rightarrow> ('s \<Rightarrow> string \<Rightarrow> stored_object option) \<Rightarrow> bool" where
  "lawful_store env contents \<longleftrightarrow>
     (\<forall>s k obj. os_get env s k = Inr obj \<longrightarrow> contents s k = Some obj) \<and>
     (\<forall>s k c. os_get env s k = Inl c \<and> c \<in> set missing_codes \<longrightarrow> contents s k = None) \<and>
     (\<forall>s k body sha cond t etag. os_put env s k body sha cond = (t, Inr etag) \<longrightarrow>
        cond_holds cond (contents s k) \<and>
        contents t k = Some \<lparr>so_body = body, so_sha = sha, so_etag = etag\<rparr>) \<and>
     (\<forall>s k body sha cond t e. os_put env s k body sha cond = (t, Inl e) \<longrightarrow>
        contents t k = contents s k \<or> cond_holds cond (contents s k) \<and>
          (\<exists>etag. contents t k = Some \<lparr>so_body = body, so_sha = sha, so_etag = etag\<rparr>)) \<and>
     (\<forall>s k body sha cond k'. k' \<noteq> k \<longrightarrow>
        contents (fst (os_put env s k body sha cond)) k' = contents s k') \<and>
     (\<forall>s t k obj obj'. contents s k = Some obj \<and> contents t k = Some obj' \<longrightarrow>
        so_etag obj \<noteq> [] \<and> (so_etag obj = so_etag obj' \<longrightarrow> so_body obj = so_body obj')) \<and>
     (\<forall>r. loads env (dumps env r) = Some r)"

lemma lawful_get: "lawful_store env contents \<Longrightarrow> os_get env s k = Inr obj \<Longrightarrow> contents s k = Some obj"
  by (auto simp: lawful_store_def)

lemma lawful_missing:
  "lawful_store env contents \<Longrightarrow> os_get env s k = Inl c \<Longrightarrow> c \<in> set missing_codes \<Longrightarrow> contents s k = None"
  by (auto simp: lawful_store_def)

lemma lawful_etag:
  "lawful_store env contents \<Longrightarrow> contents s k = Some obj \<Longrightarrow> contents t k = Some obj' \<Longrightarrow>
     so_etag obj \<noteq> [] \<and> (so_etag obj = so_etag obj' \<longrightarrow> so_body obj = so_body obj')"
  unfolding lawful_store_def by blast

lemma lawful_codec: "lawful_store env contents \<Longrightarrow> loads env (dumps env r) = Some r"
  by (auto simp: lawful_store_def)

lemma lawful_put_ok:
  "lawful_store env contents \<Longrightarrow> os_put env s k body sha cond = (t, Inr etag) \<Longrightarrow>
     cond_holds cond (contents s k) \<and> contents t k = Some \<lparr>so_body = body, so_sha = sha, so_etag = etag\<rparr>"
  unfolding lawful_store_def by (elim conjE) blast

lemma lawful_put_error:
  assumes "lawful_store env contents" "os_put env s k body sha cond = (t, Inl e)"
  shows "contents t k = contents s k \<or> cond_holds cond (contents s k) \<and>
       (\<exists>etag. contents t k = Some \<lparr>so_body = body, so_sha = sha, so_etag = etag\<rparr>)"
proof -
  have "\<forall>s k body sha cond t e. os_put env s k body sha cond = (t, Inl e) \<longrightarrow>
        contents t k = contents s k \<or> cond_holds cond (contents s k) \<and>
          (\<exists>etag. contents t k = Some \<lparr>so_body = body, so_sha = sha, so_etag = etag\<rparr>)"
    using assms(1) unfolding lawful_store_def by (elim conjE) assumption
  from this [rule_format, OF assms(2)] show ?thesis .
qed

subsection \<open>Runs\<close>

text \<open>The record under the key, and its epoch: 0 before the first acquisition.\<close>

definition current_record :: "'s writer_env \<Rightarrow> ('s \<Rightarrow> string \<Rightarrow> stored_object option) \<Rightarrow> string \<Rightarrow> 's \<Rightarrow>
  writer_control option" where
  "current_record env contents key s = (case contents s key of None \<Rightarrow> None | Some obj \<Rightarrow> loads env (so_body obj))"

text \<open>
  The state of a run: the store, the handles that acquisitions and renewals gave out, what was read
  and may be used by a later write, and the digests of the tokens drawn so far.
\<close>

record 's writer_sys =
  sys_store :: 's
  issued :: "writer_handle list"
  views :: "writer_handle option list"
  drawn :: "string list"

text \<open>
  \<open>look\<close> reads, \<open>acquire\<close> and \<open>release\<close> write by an earlier read, \<open>renew\<close> by a handle. A token is drawn
  fresh for each acquisition. \<open>elsewhere\<close> is anything that leaves the record alone.
\<close>

inductive writer_step ::
  "'s writer_env \<Rightarrow> ('s \<Rightarrow> string \<Rightarrow> stored_object option) \<Rightarrow> string \<Rightarrow> string \<Rightarrow>
   's writer_sys \<Rightarrow> 's writer_sys \<Rightarrow> bool"
  for env contents ds key where
  look: "read_writer_record env key (sys_store st) = Inr v \<Longrightarrow>
    writer_step env contents ds key st (st\<lparr>views := v # views st\<rparr>)"
| acquire: "v \<in> set (views st) \<Longrightarrow> hash env token \<notin> set (drawn st) \<Longrightarrow>
    acquire_write env key q now token v (sys_store st) = (t, res) \<Longrightarrow>
    writer_step env contents ds key st (st\<lparr>sys_store := t, drawn := hash env token # drawn st,
      issued := (case res of Inl e \<Rightarrow> issued st | Inr h \<Rightarrow> h # issued st)\<rparr>)"
| renew: "h \<in> set (issued st) \<Longrightarrow> renew_global_writer env ds h ttl now (sys_store st) = (t, res) \<Longrightarrow>
    writer_step env contents ds key st (st\<lparr>sys_store := t,
      issued := (case res of Inl e \<Rightarrow> issued st | Inr h' \<Rightarrow> h' # issued st)\<rparr>)"
| release: "h \<in> set (issued st) \<Longrightarrow> v \<in> set (views st) \<Longrightarrow>
    release_write env key h now now' v (sys_store st) = (t, res) \<Longrightarrow>
    writer_step env contents ds key st (st\<lparr>sys_store := t\<rparr>)"
| elsewhere: "contents t key = contents (sys_store st) key \<Longrightarrow>
    writer_step env contents ds key st (st\<lparr>sys_store := t\<rparr>)"

text \<open>An acquisition: the step, and the epoch of the handle it gave out.\<close>

definition acquires ::
  "'s writer_env \<Rightarrow> string \<Rightarrow> string \<Rightarrow> 's writer_sys \<Rightarrow> writer_handle \<Rightarrow> 's writer_sys \<Rightarrow> bool" where
  "acquires env ds key st h st' \<longleftrightarrow> (\<exists>v q now t. v \<in> set (views st) \<and> hash env (wh_token h) \<notin> set (drawn st) \<and>
     acquire_write env key q now (wh_token h) v (sys_store st) = (t, Inr h) \<and>
     st' = st\<lparr>sys_store := t, drawn := hash env (wh_token h) # drawn st, issued := h # issued st\<rparr>)"

text \<open>
  A held or read copy is bound to the store: where its tag is the current one, its record is. Its
  epoch is at most the current one, and at the current owner's digest it is the current one.
\<close>

definition epoch_now :: "'s writer_env \<Rightarrow> ('s \<Rightarrow> string \<Rightarrow> stored_object option) \<Rightarrow> string \<Rightarrow> 's \<Rightarrow> nat" where
  "epoch_now env contents key s =
     (case current_record env contents key s of None \<Rightarrow> 0 | Some r \<Rightarrow> wc_writer_epoch r)"

definition bound_copy ::
  "'s writer_env \<Rightarrow> ('s \<Rightarrow> string \<Rightarrow> stored_object option) \<Rightarrow> string \<Rightarrow> writer_handle \<Rightarrow> bool" where
  "bound_copy env contents key h \<longleftrightarrow> wh_etag h \<noteq> [] \<and>
     (\<forall>s obj. contents s key = Some obj \<and> so_etag obj = wh_etag h \<longrightarrow> loads env (so_body obj) = Some (wh_record h))"

definition copy_ok :: "(string \<Rightarrow> nat option) \<Rightarrow> string list \<Rightarrow> writer_control \<Rightarrow> bool" where
  "copy_ok ep used r \<longleftrightarrow> wc_owner_token_hash r \<in> set used \<and> ep (wc_owner_token_hash r) = Some (wc_writer_epoch r)"

text \<open>\<open>ep\<close> gives each drawn digest the epoch it acquired, at most the current one.\<close>

definition writer_inv ::
  "'s writer_env \<Rightarrow> ('s \<Rightarrow> string \<Rightarrow> stored_object option) \<Rightarrow> string \<Rightarrow> 's writer_sys \<Rightarrow> bool" where
  "writer_inv env contents key st \<longleftrightarrow> (\<exists>ep.
     (\<forall>d e. ep d = Some e \<longrightarrow> d \<in> set (drawn st) \<and> e \<le> epoch_now env contents key (sys_store st)) \<and>
     (\<forall>obj. contents (sys_store st) key = Some obj \<longrightarrow>
        (\<exists>r. loads env (so_body obj) = Some r \<and> copy_ok ep (drawn st) r)) \<and>
     (\<forall>h \<in> set (issued st). bound_copy env contents key h \<and> copy_ok ep (drawn st) (wh_record h) \<and>
        wc_owner_token_hash (wh_record h) = hash env (wh_token h)) \<and>
     (\<forall>h. Some h \<in> set (views st) \<longrightarrow> bound_copy env contents key h \<and> copy_ok ep (drawn st) (wh_record h)))"

subsection \<open>The invariant\<close>

lemma read_bound:
  assumes "lawful_store env contents" "read_writer_record env key s = Inr v"
  shows "v = None \<and> contents s key = None \<or>
    (\<exists>h obj. v = Some h \<and> bound_copy env contents key h \<and> contents s key = Some obj \<and>
       loads env (so_body obj) = Some (wh_record h) \<and> wh_etag h = so_etag obj)"
proof (cases "os_get env s key")
  case (Inl c)
  then have "c \<in> set missing_codes \<and> v = None"
    using assms(2) by (auto simp: read_writer_record_def split: if_splits)
  then show ?thesis using lawful_missing [OF assms(1) Inl] by simp
next
  case (Inr obj)
  have obj: "contents s key = Some obj" by (rule lawful_get [OF assms(1) Inr])
  obtain r where r: "v = Some \<lparr>wh_record = r, wh_etag = so_etag obj, wh_token = []\<rparr>"
    "loads env (so_body obj) = Some r"
    using assms(2) Inr by (auto simp: read_writer_record_def split: option.splits if_splits)
  define h where "h = \<lparr>wh_record = r, wh_etag = so_etag obj, wh_token = []\<rparr>"
  have h: "v = Some h" "loads env (so_body obj) = Some (wh_record h)" "wh_etag h = so_etag obj"
    using r by (simp_all add: h_def)
  have "bound_copy env contents key h"
    unfolding bound_copy_def using lawful_etag [OF assms(1) obj] h obj by (metis option.inject)
  then show ?thesis using h obj by blast
qed

lemma written_bound:
  assumes "lawful_store env contents"
    "contents t key = Some \<lparr>so_body = dumps env r, so_sha = sha, so_etag = etag\<rparr>"
  shows "bound_copy env contents key \<lparr>wh_record = r, wh_etag = etag, wh_token = tok\<rparr>"
proof -
  have "etag \<noteq> []" using lawful_etag [OF assms(1,2,2)] by simp
  moreover have "so_body obj = dumps env r" if "contents s key = Some obj" "so_etag obj = etag" for s obj
    using lawful_etag [OF assms(1,2) that(1)] that(2) by simp
  ultimately show ?thesis
    using lawful_codec [OF assms(1)] by (auto simp: bound_copy_def)
qed

text \<open>A write under the condition of a bound copy, if it went through, replaced that copy's record.\<close>

lemma replaced_current:
  assumes "bound_copy env contents key h" "cond_holds (If_match (wh_etag h)) (contents s key)"
  shows "current_record env contents key s = Some (wh_record h)"
  using assms by (auto simp: bound_copy_def cond_holds_def current_record_def)

lemma put_cases:
  assumes "lawful_store env contents" "os_put env s key (dumps env r) sha cond = (t, res)"
  obtains (kept) e where "res = Inl e" "contents t key = contents s key"
  | (written) obj where "cond_holds cond (contents s key)" "contents t key = Some obj"
      "loads env (so_body obj) = Some r"
      "\<And>etag tok. res = Inr etag \<Longrightarrow> bound_copy env contents key \<lparr>wh_record = r, wh_etag = etag, wh_token = tok\<rparr>"
proof (cases res)
  case (Inl e)
  show thesis
  proof (cases "contents t key = contents s key")
    case True
    with Inl show thesis by (rule kept)
  next
    case False
    with lawful_put_error [OF assms(1) assms(2) [unfolded Inl]] obtain etag where
      "cond_holds cond (contents s key)"
      "contents t key = Some \<lparr>so_body = dumps env r, so_sha = sha, so_etag = etag\<rparr>" by blast
    then show thesis using lawful_codec [OF assms(1)] Inl by (intro written) auto
  qed
next
  case (Inr etag)
  note ok = lawful_put_ok [OF assms(1) assms(2) [unfolded Inr]]
  show thesis
    by (rule written) (use ok lawful_codec [OF assms(1)] written_bound [OF assms(1)] Inr in auto)
qed

text \<open>What the current record was when a write under a read's condition went through.\<close>

definition view_cond :: "writer_handle option \<Rightarrow> precondition" where
  "view_cond v = (case v of None \<Rightarrow> If_none_match | Some h \<Rightarrow> If_match (wh_etag h))"

lemma view_current:
  assumes "cond_holds (view_cond v) (contents s key)" "\<And>h. v = Some h \<Longrightarrow> bound_copy env contents key h"
  shows "current_record env contents key s = map_option wh_record v"
  using assms replaced_current
  by (cases v) (auto simp: view_cond_def cond_holds_def current_record_def bound_copy_def)

lemma acquire_write_Inr:
  assumes "acquire_write env key q now token v s = (t, res)"
  obtains (refused) e where "res = Inl e" "t = s"
  | (tried) r' where
    "os_put env s key (dumps env (acquire_record env q now token v)) (hash env (dumps env (acquire_record env q now token v)))
       (view_cond v) = (t, r')"
    "\<And>h. res = Inr h \<Longrightarrow> \<exists>etag. r' = Inr etag \<and>
       h = \<lparr>wh_record = acquire_record env q now token v, wh_etag = etag, wh_token = token\<rparr>"
  using assms
  by (auto simp: acquire_write_def put_record_def view_cond_def split: sum.splits prod.splits)

lemma epoch_of_contents:
  "contents t key = Some obj \<Longrightarrow> loads env (so_body obj) = Some r \<Longrightarrow> epoch_now env contents key t = wc_writer_epoch r"
  by (simp add: epoch_now_def current_record_def)

lemma acquire_epoch_bound:
  "(\<And>h. v = Some h \<Longrightarrow> wh_etag h \<noteq> []) \<Longrightarrow>
     acquire_epoch v = (case v of None \<Rightarrow> 1 | Some h \<Rightarrow> wc_writer_epoch (wh_record h) + 1)"
  by (auto simp: acquire_epoch_def split: option.splits)

lemma copy_ok_mono:
  "copy_ok ep used r \<Longrightarrow> d \<notin> set used \<Longrightarrow> copy_ok (ep(d := e)) (d # used) r"
  by (auto simp: copy_ok_def)

lemma copy_ok_more: "copy_ok ep used r \<Longrightarrow> copy_ok ep (d # used) r"
  by (auto simp: copy_ok_def)

lemma epoch_le_current:
  assumes "\<forall>d e. ep d = Some e \<longrightarrow> d \<in> set used \<and> e \<le> n" "copy_ok ep used r"
  shows "wc_writer_epoch r \<le> n"
  using assms by (auto simp: copy_ok_def)

text \<open>The invariant in the parts a step may change: the store, the issued handles, the drawn digests.\<close>

definition inv_parts ::
  "'s writer_env \<Rightarrow> ('s \<Rightarrow> string \<Rightarrow> stored_object option) \<Rightarrow> string \<Rightarrow> (string \<Rightarrow> nat option) \<Rightarrow> 's \<Rightarrow>
   writer_handle set \<Rightarrow> writer_handle set \<Rightarrow> string list \<Rightarrow> bool" where
  "inv_parts env contents key ep s hs vs used \<longleftrightarrow>
     (\<forall>d e. ep d = Some e \<longrightarrow> d \<in> set used \<and> e \<le> epoch_now env contents key s) \<and>
     (\<forall>obj. contents s key = Some obj \<longrightarrow> (\<exists>r. loads env (so_body obj) = Some r \<and> copy_ok ep used r)) \<and>
     (\<forall>h \<in> hs. bound_copy env contents key h \<and> copy_ok ep used (wh_record h) \<and>
        wc_owner_token_hash (wh_record h) = hash env (wh_token h)) \<and>
     (\<forall>h \<in> vs. bound_copy env contents key h \<and> copy_ok ep used (wh_record h))"

lemma writer_inv_parts:
  "writer_inv env contents key st \<longleftrightarrow>
     (\<exists>ep. inv_parts env contents key ep (sys_store st) (set (issued st)) {h. Some h \<in> set (views st)} (drawn st))"
  by (simp add: writer_inv_def inv_parts_def)

lemma inv_parts_same_store:
  "inv_parts env contents key ep s hs vs used \<Longrightarrow> contents t key = contents s key \<Longrightarrow>
     inv_parts env contents key ep t hs vs used"
  by (simp add: inv_parts_def epoch_now_def current_record_def)

lemma inv_parts_draw:
  "inv_parts env contents key ep s hs vs used \<Longrightarrow> inv_parts env contents key ep s hs vs (d # used)"
  unfolding inv_parts_def using copy_ok_more by (metis list.set_intros(2))

text \<open>A write that keeps the owner and the epoch of the record it replaced: a renewal or a release.\<close>

lemma inv_parts_rewrite:
  assumes "inv_parts env contents key ep s hs vs used" "copy_ok ep used r"
    "current_record env contents key s = Some r0" "wc_writer_epoch r = wc_writer_epoch r0"
    "contents t key = Some obj" "loads env (so_body obj) = Some r"
  shows "inv_parts env contents key ep t hs vs used"
proof -
  have "epoch_now env contents key t = epoch_now env contents key s"
    using assms(3-6) by (simp add: epoch_of_contents) (simp add: epoch_now_def)
  then show ?thesis using assms(1,2,5,6) by (simp add: inv_parts_def)
qed

text \<open>A write that replaced the record by the next acquisition's.\<close>

lemma inv_parts_acquired:
  assumes "inv_parts env contents key ep s hs vs used" "d \<notin> set used" "wc_owner_token_hash r = d"
    "epoch_now env contents key s < wc_writer_epoch r"
    "contents t key = Some obj" "loads env (so_body obj) = Some r"
  shows "inv_parts env contents key (ep(d := Some (wc_writer_epoch r))) t hs vs (d # used)"
proof -
  have now: "epoch_now env contents key t = wc_writer_epoch r" by (rule epoch_of_contents [of contents, OF assms(5,6)])
  have r: "copy_ok (ep(d := Some (wc_writer_epoch r))) (d # used) r"
    using assms(3) by (simp add: copy_ok_def)
  have old: "copy_ok (ep(d := Some (wc_writer_epoch r))) (d # used) x" if "copy_ok ep used x" for x
    using copy_ok_mono [OF that assms(2)] .
  have "\<forall>d' e. (ep(d := Some (wc_writer_epoch r))) d' = Some e \<longrightarrow> d' \<in> set (d # used) \<and> e \<le> wc_writer_epoch r"
  proof (intro allI impI)
    fix d' e
    assume d': "(ep(d := Some (wc_writer_epoch r))) d' = Some e"
    show "d' \<in> set (d # used) \<and> e \<le> wc_writer_epoch r"
    proof (cases "d' = d")
      case False
      then have "d' \<in> set used \<and> e \<le> epoch_now env contents key s"
        using assms(1) d' by (simp add: inv_parts_def)
      then show ?thesis using assms(4) by simp
    qed (use d' in simp)
  qed
  then show ?thesis
    unfolding inv_parts_def now using assms(1,5,6) r old by (simp add: inv_parts_def)
qed

lemma acquired_epoch:
  assumes "inv_parts env contents key ep s hs vs used" "\<And>h. v = Some h \<Longrightarrow> h \<in> vs"
    "cond_holds (view_cond v) (contents s key)"
  shows "epoch_now env contents key s < wc_writer_epoch (acquire_record env q now token v)"
proof -
  have b: "bound_copy env contents key h" if "v = Some h" for h
    using assms(1,2) that by (auto simp: inv_parts_def)
  then have "wh_etag h \<noteq> []" if "v = Some h" for h using that by (auto simp: bound_copy_def)
  then have e: "acquire_epoch v = (case v of None \<Rightarrow> 1 | Some h \<Rightarrow> wc_writer_epoch (wh_record h) + 1)"
    by (rule acquire_epoch_bound)
  have "current_record env contents key s = map_option wh_record v"
    by (rule view_current [of v contents, OF assms(3)]) (rule b)
  moreover have "wc_writer_epoch (acquire_record env q now token v) = acquire_epoch v"
    by (simp add: acquire_record_def)
  ultimately show ?thesis unfolding epoch_now_def using e by (cases v) simp_all
qed

lemma acquire_inv:
  assumes "lawful_store env contents" "inv_parts env contents key ep s hs vs used"
    "\<And>h. v = Some h \<Longrightarrow> h \<in> vs" "hash env token \<notin> set used"
    "acquire_write env key q now token v s = (t, res)"
  shows "\<exists>ep'. inv_parts env contents key ep' t
      (case res of Inl e \<Rightarrow> hs | Inr h \<Rightarrow> insert h hs) vs (hash env token # used)"
    and "epoch_now env contents key s \<le> epoch_now env contents key t"
    and "res = Inr h \<Longrightarrow> epoch_now env contents key s < wc_writer_epoch (wh_record h) \<and>
      wc_writer_epoch (wh_record h) = epoch_now env contents key t"
proof -
  let ?r = "acquire_record env q now token v"
  have hash: "wc_owner_token_hash ?r = hash env token" by (simp add: acquire_record_def)
  have "(\<exists>ep'. inv_parts env contents key ep' t
      (case res of Inl e \<Rightarrow> hs | Inr h \<Rightarrow> insert h hs) vs (hash env token # used)) \<and>
    epoch_now env contents key s \<le> epoch_now env contents key t \<and>
    (\<forall>h. res = Inr h \<longrightarrow> epoch_now env contents key s < wc_writer_epoch (wh_record h) \<and>
      wc_writer_epoch (wh_record h) = epoch_now env contents key t)"
  proof (rule acquire_write_Inr [OF assms(5)])
    fix e assume "res = Inl e" "t = s"
    then show ?thesis using inv_parts_draw [OF assms(2)] by auto
  next
    fix r'
    assume put: "os_put env s key (dumps env ?r) (hash env (dumps env ?r)) (view_cond v) = (t, r')"
      and res: "\<And>h. res = Inr h \<Longrightarrow> \<exists>etag. r' = Inr etag \<and>
        h = \<lparr>wh_record = ?r, wh_etag = etag, wh_token = token\<rparr>"
    show ?thesis
    proof (rule put_cases [OF assms(1) put])
      fix e assume "r' = Inl e" and same: "contents t key = contents s key"
      then obtain x where x: "res = Inl x" using res by (cases res) auto
      have "inv_parts env contents key ep t hs vs (hash env token # used)"
        by (rule inv_parts_draw [OF inv_parts_same_store [OF assms(2) same]])
      moreover have "epoch_now env contents key t = epoch_now env contents key s"
        using same by (simp add: epoch_now_def current_record_def)
      ultimately show ?thesis unfolding x by auto
    next
      fix obj
      assume w: "cond_holds (view_cond v) (contents s key)" "contents t key = Some obj"
        "loads env (so_body obj) = Some ?r"
        and bound: "\<And>etag tok. r' = Inr etag \<Longrightarrow> bound_copy env contents key \<lparr>wh_record = ?r, wh_etag = etag, wh_token = tok\<rparr>"
      have less: "epoch_now env contents key s < wc_writer_epoch ?r"
        using acquired_epoch [OF assms(2,3) w(1)] by blast
      have at: "epoch_now env contents key t = wc_writer_epoch ?r"
        by (rule epoch_of_contents [of contents, OF w(2,3)])
      let ?ep = "ep(hash env token \<mapsto> wc_writer_epoch ?r)"
      have inv: "inv_parts env contents key ?ep t hs vs (hash env token # used)"
        by (rule inv_parts_acquired [OF assms(2,4) hash less w(2,3)])
      have "inv_parts env contents key ?ep t (insert h hs) vs (hash env token # used)" if "res = Inr h" for h
        using inv res [OF that] bound hash by (auto simp: inv_parts_def copy_ok_def)
      then have "inv_parts env contents key ?ep t
          (case res of Inl e \<Rightarrow> hs | Inr h \<Rightarrow> insert h hs) vs (hash env token # used)"
        using inv by (cases res) simp_all
      then show ?thesis using less at res by fastforce
    qed
  qed
  then show "\<exists>ep'. inv_parts env contents key ep' t
      (case res of Inl e \<Rightarrow> hs | Inr h \<Rightarrow> insert h hs) vs (hash env token # used)"
    "epoch_now env contents key s \<le> epoch_now env contents key t"
    "res = Inr h \<Longrightarrow> epoch_now env contents key s < wc_writer_epoch (wh_record h) \<and>
      wc_writer_epoch (wh_record h) = epoch_now env contents key t"
    by blast+
qed

lemma rewrite_inv:
  assumes "lawful_store env contents" "inv_parts env contents key ep s hs vs used"
    "bound_copy env contents key c" "copy_ok ep used r" "wc_writer_epoch r = wc_writer_epoch (wh_record c)"
    "os_put env s key (dumps env r) (hash env (dumps env r)) (If_match (wh_etag c)) = (t, r')"
  shows "inv_parts env contents key ep t hs vs used"
    and "epoch_now env contents key t = epoch_now env contents key s"
    and "r' = Inr etag \<Longrightarrow> bound_copy env contents key \<lparr>wh_record = r, wh_etag = etag, wh_token = tok\<rparr>"
proof -
  have "inv_parts env contents key ep t hs vs used \<and> epoch_now env contents key t = epoch_now env contents key s \<and>
    (r' = Inr etag \<longrightarrow> bound_copy env contents key \<lparr>wh_record = r, wh_etag = etag, wh_token = tok\<rparr>)"
  proof (rule put_cases [OF assms(1,6)])
    fix e assume "r' = Inl e" "contents t key = contents s key"
    then show ?thesis using inv_parts_same_store [OF assms(2)] by (auto simp: epoch_now_def current_record_def)
  next
    fix obj
    assume w: "cond_holds (If_match (wh_etag c)) (contents s key)" "contents t key = Some obj"
      "loads env (so_body obj) = Some r"
      and bound: "\<And>etag tok. r' = Inr etag \<Longrightarrow> bound_copy env contents key \<lparr>wh_record = r, wh_etag = etag, wh_token = tok\<rparr>"
    have cur: "current_record env contents key s = Some (wh_record c)"
      by (rule replaced_current [OF assms(3) w(1)])
    then show ?thesis
      using inv_parts_rewrite [OF assms(2,4) cur assms(5) w(2,3)] bound
        epoch_of_contents [of contents t key, OF w(2,3)] assms(5) by (simp add: epoch_now_def)
  qed
  then show "inv_parts env contents key ep t hs vs used"
    "epoch_now env contents key t = epoch_now env contents key s"
    "r' = Inr etag \<Longrightarrow> bound_copy env contents key \<lparr>wh_record = r, wh_etag = etag, wh_token = tok\<rparr>"
    by blast+
qed

subsection \<open>Steps keep the invariant\<close>

lemma look_inv:
  assumes "lawful_store env contents" "read_writer_record env key s = Inr v"
    "inv_parts env contents key ep s hs vs used"
  shows "inv_parts env contents key ep s hs (vs \<union> {h. v = Some h}) used"
proof -
  have "bound_copy env contents key h \<and> copy_ok ep used (wh_record h)" if v: "v = Some h" for h
  proof -
    obtain obj where obj: "bound_copy env contents key h" "contents s key = Some obj"
      "loads env (so_body obj) = Some (wh_record h)"
      using read_bound [OF assms(1,2)] v by auto
    then show ?thesis using assms(3) by (auto simp: inv_parts_def)
  qed
  then show ?thesis using assms(3) by (auto simp: inv_parts_def)
qed

lemma renew_inv:
  assumes "lawful_store env contents" "inv_parts env contents key ep s hs vs used" "h \<in> hs"
    "writer_key ds = Inr key" "renew_global_writer env ds h ttl now s = (t, res)"
  shows "inv_parts env contents key ep t (case res of Inl e \<Rightarrow> hs | Inr h' \<Rightarrow> insert h' hs) vs used
    \<and> epoch_now env contents key t = epoch_now env contents key s"
proof -
  let ?r = "(wh_record h)\<lparr>wc_heartbeat_at := now, wc_expires_at := now + seconds ttl\<rparr>"
  have h: "bound_copy env contents key h" "copy_ok ep used (wh_record h)"
    "wc_owner_token_hash (wh_record h) = hash env (wh_token h)"
    using assms(2,3) by (auto simp: inv_parts_def)
  then have r: "copy_ok ep used ?r" "wc_writer_epoch ?r = wc_writer_epoch (wh_record h)"
    by (simp_all add: copy_ok_def)
  obtain r' where put: "os_put env s key (dumps env ?r) (hash env (dumps env ?r)) (If_match (wh_etag h)) = (t, r')"
    and res: "\<And>h'. res = Inr h' \<Longrightarrow> \<exists>etag. r' = Inr etag \<and> h' = \<lparr>wh_record = ?r, wh_etag = etag, wh_token = wh_token h\<rparr>"
    using assms(4,5) h(1)
    by (auto simp: renew_global_writer_def put_record_def bound_copy_def split: prod.splits sum.splits if_splits)
  note w = rewrite_inv [OF assms(1,2) h(1) r put]
  have "inv_parts env contents key ep t (insert h' hs) vs used" if h': "res = Inr h'" for h'
  proof -
    obtain etag where e: "r' = Inr etag" "h' = \<lparr>wh_record = ?r, wh_etag = etag, wh_token = wh_token h\<rparr>"
      using res [OF h'] by blast
    show ?thesis using w(1) w(3) [OF e(1)] r(1) h(3) unfolding e(2) by (simp add: inv_parts_def)
  qed
  then show ?thesis using w(1,2) by (cases res) simp_all
qed

lemma release_inv:
  assumes "lawful_store env contents" "inv_parts env contents key ep s hs vs used" "\<And>c. v = Some c \<Longrightarrow> c \<in> vs"
    "release_write env key h now now' v s = (t, res)"
  shows "inv_parts env contents key ep t hs vs used \<and> epoch_now env contents key t = epoch_now env contents key s"
proof (cases "release_guard env h v")
  case (Inl e)
  then show ?thesis using assms(2,4) by (simp add: release_write_def)
next
  case (Inr c)
  then have "v = Some c" by (auto simp: release_guard_def)
  then have c: "bound_copy env contents key c" "copy_ok ep used (wh_record c)"
    using assms(2,3) by (auto simp: inv_parts_def)
  let ?r = "released_record now now' (wh_record c)"
  have r: "copy_ok ep used ?r" "wc_writer_epoch ?r = wc_writer_epoch (wh_record c)"
    using c(2) by (simp_all add: copy_ok_def released_record_def)
  obtain r' where "os_put env s key (dumps env ?r) (hash env (dumps env ?r)) (If_match (wh_etag c)) = (t, r')"
    using assms(4) Inr by (auto simp: release_write_def Let_def split: prod.splits)
  from rewrite_inv(1,2) [OF assms(1,2) c(1) r this] show ?thesis by simp
qed

lemma writer_step_inv:
  assumes "lawful_store env contents" "writer_key ds = Inr key"
    "writer_step env contents ds key st st'" "writer_inv env contents key st"
  shows "writer_inv env contents key st' \<and>
    epoch_now env contents key (sys_store st) \<le> epoch_now env contents key (sys_store st') \<and>
    set (issued st) \<subseteq> set (issued st')"
proof -
  let ?vs = "{h. Some h \<in> set (views st)}"
  obtain ep where inv: "inv_parts env contents key ep (sys_store st) (set (issued st)) ?vs (drawn st)"
    using assms(4) by (auto simp: writer_inv_parts)
  from assms(3) show ?thesis
  proof (cases rule: writer_step.cases)
    case (look v)
    have "{h. Some h \<in> set (v # views st)} = ?vs \<union> {h. v = Some h}" by auto
    then show ?thesis using look_inv [OF assms(1) look(2) inv] look(1) by (auto simp: writer_inv_parts)
  next
    case (acquire v token q now t res)
    have v: "h \<in> ?vs" if "v = Some h" for h using acquire(2) that by simp
    have iss: "set (case res of Inl e \<Rightarrow> issued st | Inr h \<Rightarrow> h # issued st) =
        (case res of Inl e \<Rightarrow> set (issued st) | Inr h \<Rightarrow> insert h (set (issued st)))" by (cases res) auto
    show ?thesis
      using acquire_inv(1,2) [OF assms(1) inv v acquire(3,4)] acquire(1) iss
      by (auto simp: writer_inv_parts split: sum.splits)
  next
    case (renew h ttl now t res)
    have iss: "set (case res of Inl e \<Rightarrow> issued st | Inr h \<Rightarrow> h # issued st) =
        (case res of Inl e \<Rightarrow> set (issued st) | Inr h \<Rightarrow> insert h (set (issued st)))" by (cases res) auto
    show ?thesis
      using renew_inv [OF assms(1) inv renew(2) assms(2) renew(3)] renew(1) iss
      by (auto simp: writer_inv_parts split: sum.splits)
  next
    case (release h v now now' t res)
    have v: "h \<in> ?vs" if "v = Some h" for h using release(3) that by simp
    show ?thesis
      using release_inv [OF assms(1) inv v release(4)] release(1) by (auto simp: writer_inv_parts)
  next
    case (elsewhere t)
    then show ?thesis
      using inv_parts_same_store [OF inv elsewhere(2)]
      by (auto simp: writer_inv_parts epoch_now_def current_record_def)
  qed
qed

subsection \<open>Fencing\<close>

text \<open>What a writer of an epoch can do with one of its handles: pass the validation, or renew.\<close>

definition may_publish ::
  "'s writer_env \<Rightarrow> string \<Rightarrow> writer_handle \<Rightarrow> 's \<Rightarrow> bool" where
  "may_publish env ds h s \<longleftrightarrow>
     (\<exists>ps inst exp now. succeeds (validate_writer_for_publication env ds h ps inst exp now s)) \<or>
     (\<exists>ttl now. succeeds (snd (renew_global_writer env ds h ttl now s)))"

definition sound_env ::
  "'s writer_env \<Rightarrow> ('s \<Rightarrow> string \<Rightarrow> stored_object option) \<Rightarrow> string \<Rightarrow> string \<Rightarrow> 's writer_sys \<Rightarrow> bool" where
  "sound_env env contents ds key st \<longleftrightarrow>
     lawful_store env contents \<and> writer_key ds = Inr key \<and> writer_inv env contents key st"

lemma publish_current:
  assumes "sound_env env contents ds key st" "h \<in> set (issued st)" "may_publish env ds h (sys_store st)"
  shows "wc_writer_epoch (wh_record h) = epoch_now env contents key (sys_store st)"
proof -
  let ?s = "sys_store st"
  have law: "lawful_store env contents" and key: "writer_key ds = Inr key"
    using assms(1) by (auto simp: sound_env_def)
  obtain ep where inv: "inv_parts env contents key ep ?s (set (issued st)) {h. Some h \<in> set (views st)} (drawn st)"
    using assms(1) by (auto simp: sound_env_def writer_inv_parts)
  then have h: "bound_copy env contents key h" "copy_ok ep (drawn st) (wh_record h)"
    "wc_owner_token_hash (wh_record h) = hash env (wh_token h)"
    using assms(2) by (auto simp: inv_parts_def)
  from assms(3) consider ps inst ex now where "succeeds (validate_writer_for_publication env ds h ps inst ex now ?s)"
    | ttl now where "succeeds (snd (renew_global_writer env ds h ttl now ?s))"
    by (auto simp: may_publish_def)
  then show ?thesis
  proof cases
    case 1
    then obtain c where c: "read_writer_record env key ?s = Inr (Some c)"
      "hash env (wh_token h) = wc_owner_token_hash (wh_record c)"
      using key
      by (auto simp: succeeds_def validate_writer_for_publication_def get_global_writer_def Let_def split: sum.splits)
    obtain obj where obj: "contents ?s key = Some obj" "loads env (so_body obj) = Some (wh_record c)"
      using read_bound [OF law c(1)] by auto
    then have "copy_ok ep (drawn st) (wh_record c)" using inv by (auto simp: inv_parts_def)
    then have "wc_writer_epoch (wh_record h) = wc_writer_epoch (wh_record c)"
      using h c(2) by (simp add: copy_ok_def)
    then show ?thesis using epoch_of_contents [of contents, OF obj] by simp
  next
    case 2
    let ?r = "(wh_record h)\<lparr>wc_heartbeat_at := now, wc_expires_at := now + seconds ttl\<rparr>"
    obtain t etag where "os_put env ?s key (dumps env ?r) (hash env (dumps env ?r)) (If_match (wh_etag h)) = (t, Inr etag)"
      using 2 key h(1)
      by (auto simp: succeeds_def renew_global_writer_def put_record_def bound_copy_def split: prod.splits sum.splits if_splits)
    from lawful_put_ok [OF law this] have "cond_holds (If_match (wh_etag h)) (contents ?s key)" by simp
    from replaced_current [OF h(1) this] show ?thesis by (simp add: epoch_now_def)
  qed
qed

lemma acquires_fresh:
  assumes "sound_env env contents ds key st" "acquires env ds key st h st'"
  shows "writer_step env contents ds key st st'" "h \<in> set (issued st')"
    "epoch_now env contents key (sys_store st) < wc_writer_epoch (wh_record h)"
    "wc_writer_epoch (wh_record h) = epoch_now env contents key (sys_store st')"
proof -
  obtain v q now t where a: "v \<in> set (views st)" "hash env (wh_token h) \<notin> set (drawn st)"
    "acquire_write env key q now (wh_token h) v (sys_store st) = (t, Inr h)"
    "st' = st\<lparr>sys_store := t, drawn := hash env (wh_token h) # drawn st, issued := h # issued st\<rparr>"
    using assms(2) by (auto simp: acquires_def)
  show "writer_step env contents ds key st st'"
    using writer_step.acquire [where contents = contents and ds = ds, OF a(1-3)] a(4) by simp
  show "h \<in> set (issued st')" using a(4) by simp
  obtain ep where inv: "inv_parts env contents key ep (sys_store st) (set (issued st)) {h. Some h \<in> set (views st)} (drawn st)"
    and law: "lawful_store env contents"
    using assms(1) by (auto simp: sound_env_def writer_inv_parts)
  have v: "x \<in> {h. Some h \<in> set (views st)}" if "v = Some x" for x using a(1) that by simp
  show "epoch_now env contents key (sys_store st) < wc_writer_epoch (wh_record h)"
    "wc_writer_epoch (wh_record h) = epoch_now env contents key (sys_store st')"
    using acquire_inv(3) [OF law inv v a(2,3) refl] a(4) by simp_all
qed

interpretation writer_fence: fencing
  "\<lambda>st st'. sound_env env contents ds key st \<and> writer_step env contents ds key st st'"
  "\<lambda>st. epoch_now env contents key (sys_store st)"
  "\<lambda>st e st'. \<exists>h. sound_env env contents ds key st \<and> acquires env ds key st h st' \<and> e = wc_writer_epoch (wh_record h)"
  "\<lambda>st e. \<exists>h \<in> set (issued st). sound_env env contents ds key st \<and> e = wc_writer_epoch (wh_record h) \<and>
     may_publish env ds h (sys_store st)"
  for env :: "'s writer_env" and contents ds key
proof unfold_locales
  fix st st'
  assume a: "sound_env env contents ds key st \<and> writer_step env contents ds key st st'"
  then have "lawful_store env contents" "writer_key ds = Inr key" "writer_inv env contents key st"
    by (auto simp: sound_env_def)
  from writer_step_inv [OF this(1,2) conjunct2 [OF a] this(3)]
  show "epoch_now env contents key (sys_store st) \<le> epoch_now env contents key (sys_store st')" by simp
next
  fix st st' e
  assume "\<exists>h. sound_env env contents ds key st \<and> acquires env ds key st h st' \<and> e = wc_writer_epoch (wh_record h)"
  then obtain h where h: "sound_env env contents ds key st" "acquires env ds key st h st'"
    "e = wc_writer_epoch (wh_record h)" by blast
  then show "epoch_now env contents key (sys_store st) < e \<and> e = epoch_now env contents key (sys_store st')"
    using acquires_fresh(3,4) [OF h(1,2)] by simp
next
  fix st e
  assume "\<exists>h \<in> set (issued st). sound_env env contents ds key st \<and> e = wc_writer_epoch (wh_record h) \<and>
    may_publish env ds h (sys_store st)"
  then obtain h where "sound_env env contents ds key st" "h \<in> set (issued st)"
    "may_publish env ds h (sys_store st)" "e = wc_writer_epoch (wh_record h)" by blast
  then show "e = epoch_now env contents key (sys_store st)" using publish_current by metis
qed

lemma sound_step:
  assumes "sound_env env contents ds key st" "writer_step env contents ds key st st'"
  shows "sound_env env contents ds key st' \<and> set (issued st) \<subseteq> set (issued st')"
  using assms writer_step_inv unfolding sound_env_def by blast

lemma sound_run:
  assumes "(writer_step env contents ds key)\<^sup>*\<^sup>* st st'" "sound_env env contents ds key st"
  shows "(\<lambda>a b. sound_env env contents ds key a \<and> writer_step env contents ds key a b)\<^sup>*\<^sup>* st st' \<and>
    sound_env env contents ds key st' \<and> set (issued st) \<subseteq> set (issued st')"
  using assms
proof (induction rule: rtranclp_induct)
  case (step y z)
  then show ?case using sound_step [of env contents ds key y z] by (auto intro: rtranclp.rtrancl_into_rtrancl)
qed simp

text \<open>Before the first acquisition: no record, no handle, nothing read.\<close>

definition fresh_sys :: "'s \<Rightarrow> 's writer_sys" where
  "fresh_sys s = \<lparr>sys_store = s, issued = [], views = [], drawn = []\<rparr>"

lemma fresh_sound:
  "lawful_store env contents \<Longrightarrow> writer_key ds = Inr key \<Longrightarrow> contents s key = None \<Longrightarrow>
     sound_env env contents ds key (fresh_sys s)"
  by (auto simp: sound_env_def writer_inv_def fresh_sys_def intro: exI [of _ "\<lambda>_. None"])

subsection \<open>Properties\<close>

text \<open>C2: A superseded writer never publishes. From the first acquisition of a dataset on, with any number
  of writers interleaving their reads and conditional writes and writes that fail after they were
  carried out: once a second acquisition went through, no handle of an earlier epoch - the first
  writer's, or a renewal of it - passes the publication's validation or a renewal again, whatever
  the clock, the takeover or the interleaving.\<close>

theorem superseded_writer_fenced:
  assumes "lawful_store env contents" "writer_key ds = Inr key" "contents s key = None"
    "(writer_step env contents ds key)\<^sup>*\<^sup>* (fresh_sys s) st0"
    "acquires env ds key st0 h1 st1" "(writer_step env contents ds key)\<^sup>*\<^sup>* st1 st2"
    "acquires env ds key st2 h2 st3" "(writer_step env contents ds key)\<^sup>*\<^sup>* st3 st4"
    "h \<in> set (issued st4)" "wc_writer_epoch (wh_record h) = wc_writer_epoch (wh_record h1)"
  shows "\<not> may_publish env ds h (sys_store st4) \<and> wc_writer_epoch (wh_record h1) < wc_writer_epoch (wh_record h2)"
proof -
  have s0: "sound_env env contents ds key st0"
    using sound_run [OF assms(4) fresh_sound [OF assms(1-3)]] by simp
  have s1: "sound_env env contents ds key st1" using sound_step [OF s0 acquires_fresh(1) [OF s0 assms(5)]] by simp
  note r12 = sound_run [OF assms(6) s1]
  have s2: "sound_env env contents ds key st2" using r12 by simp
  have s3: "sound_env env contents ds key st3" using sound_step [OF s2 acquires_fresh(1) [OF s2 assms(7)]] by simp
  note r34 = sound_run [OF assms(8) s3]
  have g1: "\<exists>h. sound_env env contents ds key st0 \<and> acquires env ds key st0 h st1 \<and>
      wc_writer_epoch (wh_record h1) = wc_writer_epoch (wh_record h)" using s0 assms(5) by blast
  have g2: "\<exists>h. sound_env env contents ds key st2 \<and> acquires env ds key st2 h st3 \<and>
      wc_writer_epoch (wh_record h2) = wc_writer_epoch (wh_record h)" using s2 assms(7) by blast
  have "wc_writer_epoch (wh_record h1) < wc_writer_epoch (wh_record h2)"
    by (rule writer_fence.grants_increase [OF g1 conjunct1 [OF r12] g2])
  moreover have "\<not> (\<exists>h \<in> set (issued st4). sound_env env contents ds key st4 \<and>
      wc_writer_epoch (wh_record h1) = wc_writer_epoch (wh_record h) \<and> may_publish env ds h (sys_store st4))"
    by (rule writer_fence.superseded [OF g1 conjunct1 [OF r12] g2 conjunct1 [OF r34]])
  ultimately show ?thesis using r34 assms(9,10) by auto
qed

subsection \<open>A store to run on\<close>

text \<open>
  A store that keeps bodies and digests by key and derives the tag from the body, and a codec that
  writes the fields one after another, each character behind an \<open>a\<close> and each field closed by a \<open>b\<close>.
\<close>

fun enc_fields :: "string list \<Rightarrow> string" where
  "enc_fields [] = []"
| "enc_fields (f # fs) = concat (map (\<lambda>c. [CHR ''a'', c]) f) @ CHR ''b'' # enc_fields fs"

fun dec_fields :: "string \<Rightarrow> string list" where
  "dec_fields (x # xs) = (if x = CHR ''b'' then [] # dec_fields xs
     else case xs of [] \<Rightarrow> [] | c # ys \<Rightarrow> (case dec_fields ys of [] \<Rightarrow> [[c]] | g # gs \<Rightarrow> (c # g) # gs))"
| "dec_fields [] = []"

lemma dec_enc_fields: "dec_fields (enc_fields fs) = fs"
proof (induction fs)
  case (Cons f fs)
  show ?case
  proof (induction f)
    case Nil
    then show ?case using Cons by simp
  next
    case (Cons c f)
    then show ?case by simp
  qed
qed simp

definition enc_int :: "int \<Rightarrow> string" where
  "enc_int i = (if i < 0 then CHR ''-'' else CHR ''+'') # show_nat (nat \<bar>i\<bar>)"

definition dec_int :: "string \<Rightarrow> int" where
  "dec_int s = (case s of [] \<Rightarrow> 0 | c # cs \<Rightarrow> (if c = CHR ''-'' then - int (read_digits cs) else int (read_digits cs)))"

lemma dec_enc_int [simp]: "dec_int (enc_int i) = i"
  by (simp add: dec_int_def enc_int_def)

definition toy_dumps :: "writer_control \<Rightarrow> string" where
  "toy_dumps r = enc_fields ([enc_int (wc_schema_version r), wc_dataset_id r, wc_production_source_id r,
     wc_instance_id r, wc_deployment_id r, wc_replica_id r, wc_owner_token_hash r, show_nat (wc_writer_epoch r),
     enc_int (wc_acquired_at r), enc_int (wc_heartbeat_at r), enc_int (wc_expires_at r),
     show_nat (wc_previous_epoch r), wc_app_release r, wc_image_digest r,
     (if wc_force_takeover r then ''t'' else []), wc_takeover_reason r] @
     (case wc_released_at r of None \<Rightarrow> [] | Some x \<Rightarrow> [x]))"

definition toy_loads :: "string \<Rightarrow> writer_control option" where
  "toy_loads s = (let f = dec_fields s in if length f < 16 then None else Some
     \<lparr>wc_schema_version = dec_int (f ! 0), wc_dataset_id = f ! 1, wc_production_source_id = f ! 2,
      wc_instance_id = f ! 3, wc_deployment_id = f ! 4, wc_replica_id = f ! 5, wc_owner_token_hash = f ! 6,
      wc_writer_epoch = read_digits (f ! 7), wc_acquired_at = dec_int (f ! 8), wc_heartbeat_at = dec_int (f ! 9),
      wc_expires_at = dec_int (f ! 10), wc_previous_epoch = read_digits (f ! 11), wc_app_release = f ! 12,
      wc_image_digest = f ! 13, wc_force_takeover = (f ! 14 \<noteq> []), wc_takeover_reason = f ! 15,
      wc_released_at = (if length f = 16 then None else Some (f ! 16))\<rparr>)"

lemma toy_codec: "toy_loads (toy_dumps r) = Some r"
  by (cases "wc_released_at r") (simp_all add: toy_loads_def toy_dumps_def dec_enc_fields Let_def del: enc_fields.simps)

type_synonym toy_store = "string \<Rightarrow> (string \<times> string) option"

definition toy_object :: "string \<times> string \<Rightarrow> stored_object" where
  "toy_object p = \<lparr>so_body = fst p, so_sha = snd p, so_etag = CHR ''e'' # fst p\<rparr>"

definition toy_contents :: "toy_store \<Rightarrow> string \<Rightarrow> stored_object option" where
  "toy_contents s k = map_option toy_object (s k)"

definition toy_env :: "toy_store writer_env" where
  "toy_env = \<lparr>
     os_get = (\<lambda>s k. case s k of None \<Rightarrow> Inl ''404'' | Some p \<Rightarrow> Inr (toy_object p)),
     os_put = (\<lambda>s k body sha cond.
       if (case cond of If_none_match \<Rightarrow> s k = None | If_match e \<Rightarrow> (case s k of None \<Rightarrow> False | Some p \<Rightarrow> CHR ''e'' # fst p = e))
       then (s(k := Some (body, sha)), Inr (CHR ''e'' # body)) else (s, Inl ''PreconditionFailed'')),
     dumps = toy_dumps, loads = toy_loads, hash = (\<lambda>x. CHR ''h'' # x)\<rparr>"

lemma toy_env_simps [simp]:
  "dumps toy_env = toy_dumps" "loads toy_env = toy_loads" "hash toy_env x = CHR ''h'' # x"
  by (simp_all add: toy_env_def)

lemma toy_lawful: "lawful_store toy_env toy_contents"
  unfolding lawful_store_def
  by (auto simp: toy_env_def toy_contents_def toy_object_def toy_codec cond_holds_def missing_codes_def
      split: option.splits if_splits precondition.splits)

definition toy_key :: string where
  "toy_key = ''datasets/d/control/writer.json''"

definition toy_request :: "string \<Rightarrow> writer_request" where
  "toy_request inst = \<lparr>wq_dataset_id = ''d'', wq_production_source_id = ''p'', wq_instance_id = inst,
     wq_deployment_id = [], wq_replica_id = [], wq_app_release = [], wq_image_digest = [],
     wq_ttl_seconds = 300, wq_force_takeover = False, wq_takeover_reason = []\<rparr>"

definition toy_record1 :: writer_control where
  "toy_record1 = acquire_record toy_env (toy_request ''a'') 100 ''t1'' None"

definition toy_handle1 :: writer_handle where
  "toy_handle1 = \<lparr>wh_record = toy_record1, wh_etag = CHR ''e'' # toy_dumps toy_record1, wh_token = ''t1''\<rparr>"

definition toy_record2 :: writer_control where
  "toy_record2 = acquire_record toy_env (toy_request ''b'') (seconds 900) ''t2'' (Some (toy_handle1\<lparr>wh_token := []\<rparr>))"

definition toy_handle2 :: writer_handle where
  "toy_handle2 = \<lparr>wh_record = toy_record2, wh_etag = CHR ''e'' # toy_dumps toy_record2, wh_token = ''t2''\<rparr>"

definition toy_holding :: "writer_control \<Rightarrow> toy_store" where
  "toy_holding r = (\<lambda>_. None)(toy_key := Some (toy_dumps r, CHR ''h'' # toy_dumps r))"

definition toy_sys :: "toy_store \<Rightarrow> writer_handle list \<Rightarrow> writer_handle option list \<Rightarrow> string list \<Rightarrow> toy_store writer_sys" where
  "toy_sys s hs vs used = \<lparr>sys_store = s, issued = hs, views = vs, drawn = used\<rparr>"

lemma toy_reads:
  "read_writer_record toy_env toy_key (\<lambda>_. None) = Inr None"
  "read_writer_record toy_env toy_key (toy_holding r) =
     Inr (Some \<lparr>wh_record = r, wh_etag = CHR ''e'' # toy_dumps r, wh_token = []\<rparr>)"
  by (simp_all add: read_writer_record_def toy_env_def missing_codes_def toy_holding_def toy_object_def toy_codec)

lemma toy_first: "acquires toy_env ''d'' toy_key (toy_sys (\<lambda>_. None) [] [None] []) toy_handle1
    (toy_sys (toy_holding toy_record1) [toy_handle1] [None] [''ht1''])"
proof -
  have "acquire_write toy_env toy_key (toy_request ''a'') 100 ''t1'' None (\<lambda>_. None) =
      (toy_holding toy_record1, Inr toy_handle1)"
    by (simp add: acquire_write_def acquire_guard_def put_record_def toy_record1_def [symmetric]
        toy_handle1_def toy_holding_def) (simp add: toy_env_def)
  then show ?thesis
    unfolding acquires_def toy_sys_def
    by (intro exI [of _ None] exI [of _ "toy_request ''a''"] exI [of _ 100] exI [of _ "toy_holding toy_record1"])
      (simp add: toy_handle1_def)
qed

lemma toy_second:
  "acquires toy_env ''d'' toy_key (toy_sys (toy_holding toy_record1) [toy_handle1] [Some (toy_handle1\<lparr>wh_token := []\<rparr>), None] [''ht1''])
    toy_handle2 (toy_sys (toy_holding toy_record2) [toy_handle2, toy_handle1] [Some (toy_handle1\<lparr>wh_token := []\<rparr>), None] [''ht2'', ''ht1''])"
proof -
  have exp: "wc_expires_at toy_record1 = 300000100"
    by (simp add: toy_record1_def acquire_record_def toy_request_def seconds_def)
  have "acquire_write toy_env toy_key (toy_request ''b'') (seconds 900) ''t2'' (Some (toy_handle1\<lparr>wh_token := []\<rparr>))
      (toy_holding toy_record1) = (toy_holding toy_record2, Inr toy_handle2)"
    by (simp add: acquire_write_def acquire_guard_def put_record_def toy_record2_def [symmetric] require_def
        toy_handle1_def toy_handle2_def toy_holding_def exp seconds_def)
      (simp add: toy_env_def toy_record2_def toy_handle1_def seconds_def)
  then show ?thesis
    unfolding acquires_def toy_sys_def
    by (intro exI [of _ "Some (toy_handle1\<lparr>wh_token := []\<rparr>)"] exI [of _ "toy_request ''b''"]
        exI [of _ "seconds 900"] exI [of _ "toy_holding toy_record2"])
      (simp add: toy_handle2_def)
qed

theorem superseded_writer_fenced_witness:
  "\<not> may_publish toy_env ''d'' toy_handle1 (toy_holding toy_record2)"
proof -
  let ?f = "toy_sys (\<lambda>_. None) [] [] []"
  have key: "writer_key ''d'' = Inr toy_key" by code_simp
  have none: "toy_contents (\<lambda>_. None) toy_key = None" by (simp add: toy_contents_def)
  have "writer_step toy_env toy_contents ''d'' toy_key ?f (toy_sys (\<lambda>_. None) [] [None] [])"
    using writer_step.look [of toy_env toy_key ?f None toy_contents "''d''"] toy_reads(1) by (simp add: toy_sys_def)
  then have r0: "(writer_step toy_env toy_contents ''d'' toy_key)\<^sup>*\<^sup>* (fresh_sys (\<lambda>_. None)) (toy_sys (\<lambda>_. None) [] [None] [])"
    by (simp add: fresh_sys_def toy_sys_def)
  have h1: "Some (toy_handle1\<lparr>wh_token := []\<rparr>) =
      Some \<lparr>wh_record = toy_record1, wh_etag = CHR ''e'' # toy_dumps toy_record1, wh_token = []\<rparr>"
    by (simp add: toy_handle1_def)
  have "writer_step toy_env toy_contents ''d'' toy_key (toy_sys (toy_holding toy_record1) [toy_handle1] [None] [''ht1''])
     (toy_sys (toy_holding toy_record1) [toy_handle1] [Some (toy_handle1\<lparr>wh_token := []\<rparr>), None] [''ht1''])"
    using writer_step.look [of toy_env toy_key "toy_sys (toy_holding toy_record1) [toy_handle1] [None] [''ht1'']"]
      toy_reads(2) [of toy_record1] by (simp add: toy_sys_def h1)
  then have r1: "(writer_step toy_env toy_contents ''d'' toy_key)\<^sup>*\<^sup>* (toy_sys (toy_holding toy_record1) [toy_handle1] [None] [''ht1''])
     (toy_sys (toy_holding toy_record1) [toy_handle1] [Some (toy_handle1\<lparr>wh_token := []\<rparr>), None] [''ht1''])" ..
  have "toy_handle1 \<in> set (issued (toy_sys (toy_holding toy_record2) [toy_handle2, toy_handle1]
      [Some (toy_handle1\<lparr>wh_token := []\<rparr>), None] [''ht2'', ''ht1'']))" by (simp add: toy_sys_def)
  from superseded_writer_fenced [OF toy_lawful key none r0 toy_first r1 toy_second rtranclp.rtrancl_refl this refl]
  show ?thesis by (simp add: toy_sys_def)
qed

text \<open>Who may take the authority over. Without a takeover an acquisition reads either no record or one
  that expired; it then holds the next epoch and its own token's digest for the time it asked for,
  unless another writer wrote between its read and its write, when it raises the conflict. A
  validation right after it, before the expiry, accepts it.\<close>

theorem acquire_outcome:
  assumes "lawful_store env contents" "acquire_global_writer env ok q now token s = (t, Inr h)"
  shows "ok \<and> (\<exists>key. writer_key (wq_dataset_id q) = Inr key \<and>
    (case current_record env contents key s of
       None \<Rightarrow> wc_writer_epoch (wh_record h) = 1
     | Some r \<Rightarrow> (wc_expires_at r \<le> now \<or> wq_force_takeover q) \<and> wc_writer_epoch (wh_record h) = wc_writer_epoch r + 1)
    \<and> current_record env contents key t = Some (wh_record h)
    \<and> wc_expires_at (wh_record h) = now + seconds (wq_ttl_seconds q) \<and> wh_token h = token
    \<and> (\<forall>c. get_global_writer env (wq_dataset_id q) t = Inr (Some c) \<and> now' \<le> now + seconds (wq_ttl_seconds q) \<longrightarrow>
        succeeds (validate_writer_for_publication env (wq_dataset_id q) h (wq_production_source_id q)
          (wq_instance_id q) (Some (wc_writer_epoch (wh_record h))) now' t)))"
proof -
  obtain key v where key: "writer_key (wq_dataset_id q) = Inr key" and ok: ok
    and v: "read_writer_record env key s = Inr v" and w: "acquire_write env key q now token v s = (t, Inr h)"
    using assms(2) by (auto simp: acquire_global_writer_def split: if_splits sum.splits)
  have b: "bound_copy env contents key x" if "v = Some x" for x
    using read_bound [OF assms(1) v] that by auto
  let ?r = "acquire_record env q now token v"
  have guard: "acquire_guard q now v = Inr ()"
    using w by (cases "acquire_guard q now v") (auto simp: acquire_write_def)
  obtain etag where put: "os_put env s key (dumps env ?r) (hash env (dumps env ?r)) (view_cond v) = (t, Inr etag)"
    and h: "h = \<lparr>wh_record = ?r, wh_etag = etag, wh_token = token\<rparr>"
    using acquire_write_Inr [OF w] by (metis sum.distinct(1))
  note lw = lawful_put_ok [OF assms(1) put]
  have cur: "current_record env contents key s = map_option wh_record v"
    by (rule view_current [of v contents, OF conjunct1 [OF lw]]) (rule b)
  have epoch: "wc_writer_epoch ?r = (case v of None \<Rightarrow> 1 | Some x \<Rightarrow> wc_writer_epoch (wh_record x) + 1)"
    using acquire_epoch_bound [of v] b by (simp add: acquire_record_def bound_copy_def)
  have now: "current_record env contents key t = Some ?r"
    using conjunct2 [OF lw] lawful_codec [OF assms(1)] by (simp add: current_record_def)
  have "wh_record c = ?r" if "get_global_writer env (wq_dataset_id q) t = Inr (Some c)" for c
    using read_bound [OF assms(1), of key t "Some c"] that key now
    by (auto simp: get_global_writer_def current_record_def)
  then have "succeeds (validate_writer_for_publication env (wq_dataset_id q) h (wq_production_source_id q)
          (wq_instance_id q) (Some (wc_writer_epoch ?r)) now' t)"
    if "get_global_writer env (wq_dataset_id q) t = Inr (Some c)" "now' \<le> now + seconds (wq_ttl_seconds q)" for c
    using that by (simp add: validate_writer_for_publication_def h Let_def require_def succeeds_def acquire_record_def)
  then show ?thesis
    using key ok cur epoch now guard unfolding h
    by (cases v) (auto simp: acquire_guard_def acquire_record_def)
qed

theorem acquire_outcome_witness:
  "succeeds (validate_writer_for_publication toy_env ''d'' toy_handle1 ''p'' ''a'' (Some 1) 200 (toy_holding toy_record1))"
proof -
  have key: "writer_key ''d'' = Inr toy_key" by code_simp
  have "acquire_write toy_env toy_key (toy_request ''a'') 100 ''t1'' None (\<lambda>_. None) =
      (toy_holding toy_record1, Inr toy_handle1)"
    by (simp add: acquire_write_def acquire_guard_def put_record_def toy_record1_def [symmetric]
        toy_handle1_def toy_holding_def) (simp add: toy_env_def)
  then have run: "acquire_global_writer toy_env True (toy_request ''a'') 100 ''t1'' (\<lambda>_. None) =
      (toy_holding toy_record1, Inr toy_handle1)"
    using key toy_reads(1) by (simp add: acquire_global_writer_def) (simp add: toy_request_def)
  have got: "get_global_writer toy_env ''d'' (toy_holding toy_record1) =
     Inr (Some \<lparr>wh_record = toy_record1, wh_etag = CHR ''e'' # toy_dumps toy_record1, wh_token = []\<rparr>)"
    using key toy_reads(2) by (simp add: get_global_writer_def)
  have e: "wc_writer_epoch (wh_record toy_handle1) = 1"
    by (simp add: toy_handle1_def toy_record1_def acquire_record_def acquire_epoch_def)
  show ?thesis
    using acquire_outcome [OF toy_lawful run, of 200] got e by (auto simp: toy_request_def seconds_def)
qed

end
