(* ===== verification/Runtime_Control.thy ===== *)
theory Runtime_Control
  imports Canonical_Text
begin

unbundle bit_operations_syntax

section \<open>Runtime pointers and signed control documents\<close>

text \<open>
  \<^verbatim>\<open>flowdocs/vaultops/runtime_control.py\<close>: the signed documents that the web process, the maintenance
  process and the control database exchange about the active runtime, the runtime pointer, and the
  checks of a runtime directory before it is pointed to.

  SHA-256, HMAC, \<^verbatim>\<open>Path.resolve\<close> and the \<^verbatim>\<open>repr\<close> of a list or dictionary are parameters. A control file
  is written and read as a whole; what stands on disk is a tree of nodes with their modes.
\<close>

datatype rt_exn =
    Runtime_control_error string
  | Supervisor_error string
  | Key_missing string
  | Type_problem
  | Os_problem

text \<open>\<^verbatim>\<open>getattr(exc, "reason_code", default)\<close>.\<close>

fun reason_of :: "string \<Rightarrow> rt_exn \<Rightarrow> string" where
  "reason_of dflt (Runtime_control_error c) = c"
| "reason_of dflt (Supervisor_error c) = c"
| "reason_of dflt _ = dflt"

record rt_env =
  re_sha :: "string \<Rightarrow> digest"
  re_mac :: "string \<Rightarrow> string \<Rightarrow> digest"
  re_repr :: "json \<Rightarrow> string"
  re_resolve :: "string \<Rightarrow> string"
  re_runtime_root :: string
  re_deployment_id :: string
  re_signing_key :: string

subsection \<open>Files\<close>

text \<open>
  A regular file with its mode, number of links, size and what its text parses to; a device or the
  like; a symbolic link, with whether it leads to a directory; a directory with its entries.
\<close>

datatype fs_node =
    Regular nat nat nat "json option"
  | Special nat
  | Link bool
  | Directory nat "(string \<times> fs_node) list"

fun is_regular :: "fs_node option \<Rightarrow> bool" where
  "is_regular (Some (Regular m n s c)) = True"
| "is_regular _ = False"

fun is_directory :: "fs_node option \<Rightarrow> bool" where
  "is_directory (Some (Directory m es)) = True"
| "is_directory _ = False"

definition max_control_document_bytes :: nat where
  "max_control_document_bytes = 128 * 1024"

fun read_json :: "fs_node option \<Rightarrow> rt_exn + json" where
  "read_json (Some (Regular m n s c)) =
     (if n \<noteq> 1 \<or> max_control_document_bytes < s then Inl (Runtime_control_error ''control_document_unsafe'')
      else case c of Some (JObj kvs) \<Rightarrow> Inr (JObj kvs)
           | _ \<Rightarrow> Inl (Runtime_control_error ''control_document_malformed''))"
| "read_json _ = Inl (Runtime_control_error ''control_document_missing'')"

text \<open>What \<^verbatim>\<open>atomic_write_json\<close> leaves: one file, mode 0600, with the canonical text of the document.\<close>

definition written_json :: "json \<Rightarrow> fs_node" where
  "written_json doc = Regular 384 1 (length (canonical_json doc)) (Some doc)"

subsection \<open>Signed documents\<close>

definition unsigned :: "json \<Rightarrow> (string \<times> json) list" where
  "unsigned doc = (case doc of JObj kvs \<Rightarrow> filter (\<lambda>(k, v). k \<notin> {''document_digest'', ''signature''}) kvs | _ \<Rightarrow> [])"

definition document_digest :: "rt_env \<Rightarrow> (string \<times> json) list \<Rightarrow> digest" where
  "document_digest env payload = re_sha env (canonical_json (JObj payload))"

lemma update_absent: "k \<notin> fst ` set kvs \<Longrightarrow> AList.update k v kvs = kvs @ [(k, v)]"
  by (induction kvs) auto

definition sign_document :: "rt_env \<Rightarrow> (string \<times> json) list \<Rightarrow> rt_exn + json" where
  "sign_document env payload =
     bind_res (require (32 \<le> length (re_signing_key env)) (Runtime_control_error ''activation_signing_key_invalid'')) (\<lambda>_.
     let digest = document_digest env payload in
     Inr (json_merge (JObj payload) [(''document_digest'', JStr digest),
       (''signature'', JStr (re_mac env (re_signing_key env) digest))]))"

text \<open>\<^verbatim>\<open>hmac.compare_digest\<close> on two texts raises a \<^verbatim>\<open>TypeError\<close> when one has a character beyond ASCII.\<close>

definition same_digest :: "string \<Rightarrow> string \<Rightarrow> rt_exn + bool" where
  "same_digest a b = (if ascii_text a \<and> ascii_text b then Inr (a = b) else Inl Type_problem)"

definition signature_valid :: "rt_env \<Rightarrow> json \<Rightarrow> digest \<Rightarrow> rt_exn + bool" where
  "signature_valid env doc digest =
     (if length (re_signing_key env) < 32 then Inr False
      else bind_res (same_digest (py_str (re_repr env) (json_get_or ''document_digest'' (JStr []) doc)) digest) (\<lambda>same.
        if \<not> same then Inr False
        else same_digest (py_str (re_repr env) (json_get_or ''signature'' (JStr []) doc))
               (re_mac env (re_signing_key env) digest)))"

definition verify_document :: "rt_env \<Rightarrow> string \<Rightarrow> json \<Rightarrow> rt_exn + digest" where
  "verify_document env expected_kind doc =
     (case doc of JObj kvs \<Rightarrow>
        let digest = document_digest env (unsigned doc) in
        bind_res (signature_valid env doc digest) (\<lambda>valid.
        bind_res (require valid (Runtime_control_error ''control_document_signature_invalid'')) (\<lambda>_.
        bind_res (require (json_get ''schema_version'' doc \<in> {Some (JInt 1), Some (JBool True)} \<and> json_get ''kind'' doc = Some (JStr expected_kind)
            \<and> json_get ''deployment_id'' doc = Some (JStr (re_deployment_id env)))
          (Runtime_control_error ''control_document_identity_mismatch'')) (\<lambda>_.
        Inr digest)))
      | _ \<Rightarrow> Inl (Runtime_control_error ''control_document_malformed''))"

definition read_signed_document :: "rt_env \<Rightarrow> string \<Rightarrow> fs_node option \<Rightarrow> rt_exn + json" where
  "read_signed_document env expected_kind file =
     bind_res (read_json file) (\<lambda>doc.
     bind_res (verify_document env expected_kind doc) (\<lambda>_. Inr doc))"

subsection \<open>Runtime directories\<close>

text \<open>
  \<^verbatim>\<open>validate_runtime_workspace\<close> walks the tree from the top: each directory before its subdirectories,
  and of its entries first those that are directories or lead to one, then the others. The first
  error is raised. \<open>writable\<close> is \<^verbatim>\<open>mode & 0o222\<close>.
\<close>

definition writable :: "nat \<Rightarrow> bool" where
  "writable m = (m AND 146 \<noteq> 0)"

fun first_some :: "'a option list \<Rightarrow> 'a option" where
  "first_some [] = None"
| "first_some (None # xs) = first_some xs"
| "first_some (Some x # xs) = Some x"

fun in_directories :: "fs_node \<Rightarrow> bool" where
  "in_directories (Directory m es) = True"
| "in_directories (Link d) = d"
| "in_directories _ = False"

fun directory_entry_error :: "fs_node \<Rightarrow> string option" where
  "directory_entry_error (Link d) = Some ''runtime_workspace_unsafe''"
| "directory_entry_error _ = None"

fun file_entry_error :: "bool \<Rightarrow> fs_node \<Rightarrow> string option" where
  "file_entry_error immutable (Regular m n s c) =
     (if n \<noteq> 1 then Some ''runtime_workspace_unsafe''
      else if immutable \<and> writable m then Some ''runtime_workspace_mutable'' else None)"
| "file_entry_error immutable _ = Some ''runtime_workspace_unsafe''"

fun walk_error :: "bool \<Rightarrow> fs_node \<Rightarrow> string option" where
  "walk_error immutable (Directory m es) =
     (let nodes = map snd es in
      first_some
        ((if immutable \<and> writable m then Some ''runtime_workspace_mutable'' else None)
         # map directory_entry_error (filter in_directories nodes)
         @ map (file_entry_error immutable) (filter (\<lambda>n. \<not> in_directories n) nodes)
         @ map (walk_error immutable) nodes))"
| "walk_error immutable _ = None"

fun entry :: "string \<Rightarrow> fs_node \<Rightarrow> fs_node option" where
  "entry name (Directory m es) = map_of es name"
| "entry name _ = None"

fun single_link :: "fs_node option \<Rightarrow> bool" where
  "single_link (Some (Regular m n s c)) = (n = 1)"
| "single_link _ = False"

definition runtime_directories :: "(string \<times> string) list" where
  "runtime_directories = [(''media'', ''media''), (''pdf_cache'', ''pdf_cache''),
     (''faiss_indexes'', ''faiss_indexes''), (''chroma_db'', ''chroma_db'')]"

definition runtime_evidence_file :: string where
  "runtime_evidence_file = ''runtime-evidence.json''"

text \<open>What stands at a path of the runtime store.\<close>

type_synonym runtime_store = "string \<Rightarrow> fs_node option"

definition contained_runtime_path :: "rt_env \<Rightarrow> runtime_store \<Rightarrow> string \<Rightarrow> rt_exn + string" where
  "contained_runtime_path env store path =
     (let root = re_resolve env (re_runtime_root env); resolved = re_resolve env path in
      bind_res (require (is_directory (store path)) (Runtime_control_error ''runtime_workspace_unsafe'')) (\<lambda>_.
      bind_res (require (resolved = root \<or> prefix (root @ ''/'') resolved)
        (Runtime_control_error ''runtime_workspace_outside_root'')) (\<lambda>_.
      Inr resolved)))"

definition tree_error :: "bool \<Rightarrow> json \<Rightarrow> json \<Rightarrow> fs_node \<Rightarrow> rt_exn option" where
  "tree_error immutable generation_id manifest_digest node =
     (case walk_error immutable node of Some c \<Rightarrow> Some (Runtime_control_error c)
      | None \<Rightarrow> (case read_json (entry runtime_evidence_file node) of Inl e \<Rightarrow> Some e
        | Inr evidence \<Rightarrow>
            if json_get_or ''generation_id'' JNull evidence \<noteq> generation_id
               \<or> json_get_or ''manifest_digest'' JNull evidence \<noteq> manifest_digest
            then Some (Runtime_control_error ''runtime_evidence_identity_mismatch'')
            else if \<not> is_regular (entry ''db.sqlite3'' node)
            then Some (Runtime_control_error ''runtime_database_missing'')
            else if \<not> single_link (entry ''db.sqlite3'' node)
            then Some (Runtime_control_error ''runtime_database_unsafe'')
            else first_some (map (\<lambda>(name, relative). if is_directory (entry relative node) then None
                   else Some (Runtime_control_error (''runtime_'' @ name @ ''_missing''))) runtime_directories)))"

definition validate_runtime_workspace ::
  "rt_env \<Rightarrow> runtime_store \<Rightarrow> bool \<Rightarrow> json \<Rightarrow> json \<Rightarrow> json \<Rightarrow> rt_exn + string" where
  "validate_runtime_workspace env store immutable path generation_id manifest_digest =
     (case path of JStr p \<Rightarrow>
        bind_res (contained_runtime_path env store p) (\<lambda>runtime.
        case store runtime of None \<Rightarrow> Inl (Runtime_control_error ''runtime_workspace_unsafe'')
        | Some node \<Rightarrow> (case tree_error immutable generation_id manifest_digest node of
            Some e \<Rightarrow> Inl e | None \<Rightarrow> Inr runtime))
      | _ \<Rightarrow> Inl Type_problem)"

text \<open>\<^verbatim>\<open>os.chmod\<close> of every file and directory below, without following links.\<close>

fun chmod_tree :: "bool \<Rightarrow> fs_node \<Rightarrow> fs_node" where
  "chmod_tree w (Directory m es) = Directory (if w then 488 else 360) (map (\<lambda>(k, n). (k, chmod_tree w n)) es)"
| "chmod_tree w (Regular m n s c) = Regular (if w then 416 else 288) n s c"
| "chmod_tree w (Special m) = Special (if w then 416 else 288)"
| "chmod_tree w (Link d) = Link d"

definition chmod_workspace :: "bool \<Rightarrow> string \<Rightarrow> runtime_store \<Rightarrow> runtime_store" where
  "chmod_workspace w runtime store = store(runtime := map_option (chmod_tree w) (store runtime))"

definition set_runtime_workspace_writable ::
  "rt_env \<Rightarrow> bool \<Rightarrow> json \<Rightarrow> json \<Rightarrow> json \<Rightarrow> runtime_store \<Rightarrow> runtime_store \<times> (rt_exn + string)" where
  "set_runtime_workspace_writable env w path generation_id manifest_digest store =
     (case validate_runtime_workspace env store False path generation_id manifest_digest of
        Inl e \<Rightarrow> (store, Inl e)
      | Inr runtime \<Rightarrow>
          (let store' = chmod_workspace w runtime store in
           (store', validate_runtime_workspace env store' (\<not> w) (JStr runtime) generation_id manifest_digest)))"

subsection \<open>Pointers\<close>

record resolved_runtime =
  rr_generation_id :: json
  rr_manifest_digest :: json
  rr_runtime_path :: string
  rr_pointer_digest :: digest
  rr_intent_digest :: json

definition pointer_payload :: "rt_env \<Rightarrow> json \<Rightarrow> json \<Rightarrow> string \<Rightarrow> json \<Rightarrow> int \<Rightarrow> int \<Rightarrow> (string \<times> json) list" where
  "pointer_payload env generation_id manifest_digest path intent_digest state_version now =
     [(''schema_version'', JInt 1), (''kind'', JStr ''runtime_pointer''),
      (''deployment_id'', JStr (re_deployment_id env)), (''generation_id'', generation_id),
      (''manifest_digest'', manifest_digest), (''runtime_path'', JStr (re_resolve env path)),
      (''intent_digest'', intent_digest), (''state_version'', JInt state_version),
      (''observed_at_unix'', JInt now)]"

definition build_runtime_pointer ::
  "rt_env \<Rightarrow> json \<Rightarrow> json \<Rightarrow> json \<Rightarrow> json \<Rightarrow> int \<Rightarrow> int \<Rightarrow> rt_exn + json" where
  "build_runtime_pointer env generation_id manifest_digest path intent_digest state_version now =
     (case path of JStr p \<Rightarrow>
        sign_document env (pointer_payload env generation_id manifest_digest p intent_digest state_version now)
      | _ \<Rightarrow> Inl Type_problem)"

text \<open>\<^verbatim>\<open>len\<close> of a value, \<^term>\<open>None\<close> for the \<^verbatim>\<open>TypeError\<close>.\<close>

fun json_length :: "json \<Rightarrow> nat option" where
  "json_length (JStr s) = Some (length s)"
| "json_length (JArr xs) = Some (length xs)"
| "json_length (JObj kvs) = Some (length kvs)"
| "json_length _ = None"

definition pointer_shape :: "json \<Rightarrow> rt_exn + unit" where
  "pointer_shape doc =
     (if \<not> json_truthy (json_get_or ''generation_id'' (JStr []) doc)
      then Inl (Runtime_control_error ''runtime_pointer_invalid'')
      else bind_res (of_option Type_problem (json_length (json_get_or ''manifest_digest'' (JStr []) doc))) (\<lambda>n.
        require (n = 64 \<and> json_truthy (json_get_or ''intent_digest'' JNull doc))
          (Runtime_control_error ''runtime_pointer_invalid'')))"

definition read_runtime_pointer ::
  "rt_env \<Rightarrow> runtime_store \<Rightarrow> fs_node option \<Rightarrow> rt_exn + resolved_runtime" where
  "read_runtime_pointer env store file =
     bind_res (read_json file) (\<lambda>doc.
     bind_res (verify_document env ''runtime_pointer'' doc) (\<lambda>pointer_digest.
     bind_res (pointer_shape doc) (\<lambda>_.
     let generation_id = json_get_or ''generation_id'' (JStr []) doc;
         manifest_digest = json_get_or ''manifest_digest'' (JStr []) doc in
     bind_res (validate_runtime_workspace env store False (json_get_or ''runtime_path'' (JStr []) doc)
         generation_id manifest_digest) (\<lambda>runtime.
     Inr \<lparr>rr_generation_id = generation_id, rr_manifest_digest = manifest_digest, rr_runtime_path = runtime,
       rr_pointer_digest = pointer_digest, rr_intent_digest = json_get_or ''intent_digest'' JNull doc\<rparr>))))"

text \<open>
  \<^verbatim>\<open>resolve_runtime_from_env\<close>: which runtime a process of this environment is started on, \<^term>\<open>None\<close> for
  none. The variables are given with their defaults applied.
\<close>

definition env_flag :: "string \<Rightarrow> bool" where
  "env_flag raw = (py_lower (py_strip raw) \<in> {''1'', ''true'', ''yes'', ''on''})"

record process_env =
  pe_activation_enabled :: string
  pe_initial_enabled :: string
  pe_app_env :: string
  pe_deployment_id :: string

definition resolve_runtime_from_env ::
  "rt_env \<Rightarrow> process_env \<Rightarrow> runtime_store \<Rightarrow> fs_node option \<Rightarrow> fs_node option \<Rightarrow> rt_exn + resolved_runtime option" where
  "resolve_runtime_from_env env pe store active previous =
     (if \<not> env_flag (pe_activation_enabled pe) then Inr None
      else if py_lower (py_strip (pe_app_env pe)) = ''production''
      then Inl (Runtime_control_error ''production_activation_disabled'')
      else if py_lower (py_strip (pe_app_env pe)) \<noteq> ''staging''
      then Inl (Runtime_control_error ''staging_activation_environment_required'')
      else if py_strip (pe_deployment_id pe) = []
      then Inl (Runtime_control_error ''activation_deployment_id_required'')
      else if env_flag (pe_initial_enabled pe) \<and> active = None \<and> previous = None then Inr None
      else bind_res (read_runtime_pointer (env\<lparr>re_deployment_id := py_strip (pe_deployment_id pe)\<rparr>) store active)
             (\<lambda>p. Inr (Some p)))"

end
