(* ===== verification/Runtime_Supervisor.thy ===== *)
theory Runtime_Supervisor
  imports Runtime_Control
begin

section \<open>The runtime supervisors\<close>

text \<open>
  \<^verbatim>\<open>flowdocs/runtime_supervisor.py\<close>: the two processes (roles \<^verbatim>\<open>web\<close> and \<^verbatim>\<open>maintenance\<close>) that switch the
  runtime pointer for a signed intent, and switch it back when the target does not come up.

  A method is an action: it takes the state to the next one and returns, raises, or dies. Everything
  it does to the outside (a file write, a signal, a process start, a request, a sleep) takes one
  \<open>happening\<close> from the list the run is given: the step goes through, with the seconds it took, the
  acknowledgements the other supervisor wrote meanwhile, whether the child exited, and the answer of
  the request; or it raises, before or after it took effect; or the process is killed there. A run of
  a method for every list is a run under every interleaving, failure and crash. Signal handlers, the
  arguments of the child and its environment other than its runtime are not modelled.
\<close>

subsection \<open>State and actions\<close>

datatype happening =
    Goes nat "((string \<times> string) \<times> json) list" bool json
  | Breaks rt_exn bool
  | Killed

record child_process =
  ch_alive :: bool
  ch_pid :: json
  ch_runtime :: "resolved_runtime option"

record supervisor_state =
  su_active :: "fs_node option"
  su_previous :: "fs_node option"
  su_lock :: "fs_node option"
  su_acks :: "string \<times> string \<Rightarrow> fs_node option"
  su_results :: "string \<Rightarrow> fs_node option"
  su_intents :: "(string \<times> fs_node) list"
  su_store :: runtime_store
  su_child :: "child_process option"
  su_paused :: string
  su_clock :: int
  su_happenings :: "happening list"

datatype 'a outcome = Returns 'a | Raises rt_exn | Dies

type_synonym 'a action = "supervisor_state \<Rightarrow> supervisor_state \<times> 'a outcome"

definition ret :: "'a \<Rightarrow> 'a action" where
  "ret x s = (s, Returns x)"

definition raise_exn :: "rt_exn \<Rightarrow> 'a action" where
  "raise_exn e s = (s, Raises e)"

definition and_then :: "'a action \<Rightarrow> ('a \<Rightarrow> 'b action) \<Rightarrow> 'b action" where
  "and_then m f s = (case m s of
       (t, Returns x) \<Rightarrow> f x t
     | (t, Raises e) \<Rightarrow> (t, Raises e)
     | (t, Dies) \<Rightarrow> (t, Dies))"

definition handle_exn :: "'a action \<Rightarrow> (rt_exn \<Rightarrow> 'a action) \<Rightarrow> 'a action" where
  "handle_exn m h s = (case m s of
       (t, Returns x) \<Rightarrow> (t, Returns x)
     | (t, Raises e) \<Rightarrow> h e t
     | (t, Dies) \<Rightarrow> (t, Dies))"

definition finally_do :: "'a action \<Rightarrow> unit action \<Rightarrow> 'a action" where
  "finally_do m f s = (case m s of
       (t, Dies) \<Rightarrow> (t, Dies)
     | (t, r) \<Rightarrow> (case f t of
           (u, Returns _) \<Rightarrow> (u, r)
         | (u, Raises e) \<Rightarrow> (u, Raises e)
         | (u, Dies) \<Rightarrow> (u, Dies)))"

fun do_all :: "unit action list \<Rightarrow> unit action" where
  "do_all [] = ret ()"
| "do_all (a # as) = and_then a (\<lambda>_. do_all as)"

definition look :: "(supervisor_state \<Rightarrow> 'a) \<Rightarrow> 'a action" where
  "look f s = (s, Returns (f s))"

definition checked :: "(supervisor_state \<Rightarrow> rt_exn + 'a) \<Rightarrow> 'a action" where
  "checked f s = (s, case f s of Inl e \<Rightarrow> Raises e | Inr x \<Rightarrow> Returns x)"

definition pass :: "nat \<Rightarrow> ((string \<times> string) \<times> json) list \<Rightarrow> bool \<Rightarrow> supervisor_state \<Rightarrow> supervisor_state" where
  "pass d acks exits s =
     s\<lparr>su_clock := su_clock s + int d,
       su_acks := fold (\<lambda>(k, doc) m. m(k := Some (written_json doc))) acks (su_acks s),
       su_child := (if exits then map_option (\<lambda>c. c\<lparr>ch_alive := False\<rparr>) (su_child s) else su_child s)\<rparr>"

text \<open>One effect: \<open>f\<close> is what it does, given the answer; it may itself raise and then has done nothing.\<close>

definition effect :: "(json \<Rightarrow> supervisor_state \<Rightarrow> rt_exn + supervisor_state) \<Rightarrow> json action" where
  "effect f s = (case su_happenings s of
       [] \<Rightarrow> (s, Dies)
     | Killed # hs \<Rightarrow> (s\<lparr>su_happenings := hs\<rparr>, Dies)
     | Breaks e after # hs \<Rightarrow>
         (let s1 = s\<lparr>su_happenings := hs\<rparr> in
          (if after then (case f JNull s1 of Inl _ \<Rightarrow> s1 | Inr t \<Rightarrow> t) else s1, Raises e))
     | Goes d acks exits answer # hs \<Rightarrow>
         (let s1 = pass d acks exits (s\<lparr>su_happenings := hs\<rparr>) in
          case f answer s1 of Inl e \<Rightarrow> (s1, Raises e) | Inr t \<Rightarrow> (t, Returns answer)))"

definition change :: "(supervisor_state \<Rightarrow> supervisor_state) \<Rightarrow> unit action" where
  "change f = and_then (effect (\<lambda>_ s. Inr (f s))) (\<lambda>_. ret ())"

definition nap :: "unit action" where
  "nap = change (\<lambda>s. s)"

subsection \<open>The configuration\<close>

record supervisor_cfg =
  sc_env :: rt_env
  sc_process :: process_env
  sc_role :: string
  sc_apply_mode :: string
  sc_readiness_timeout :: int
  sc_pid :: int

definition sup_env :: "supervisor_cfg \<Rightarrow> rt_env" where
  "sup_env cfg = (sc_env cfg)\<lparr>re_deployment_id := py_strip (pe_deployment_id (sc_process cfg))\<rparr>"

definition app_env :: "supervisor_cfg \<Rightarrow> string" where
  "app_env cfg = py_lower (py_strip (pe_app_env (sc_process cfg)))"

definition activation_enabled :: "supervisor_cfg \<Rightarrow> bool" where
  "activation_enabled cfg = env_flag (pe_activation_enabled (sc_process cfg))"

definition initial_activation_enabled :: "supervisor_cfg \<Rightarrow> bool" where
  "initial_activation_enabled cfg = env_flag (pe_initial_enabled (sc_process cfg))"

definition readiness_timeout :: "supervisor_cfg \<Rightarrow> int" where
  "readiness_timeout cfg = max (sc_readiness_timeout cfg) 1"

subsection \<open>The child process\<close>

definition child_alive :: "supervisor_state \<Rightarrow> bool" where
  "child_alive s = (case su_child s of None \<Rightarrow> False | Some c \<Rightarrow> ch_alive c)"

definition resolved_process_environment :: "supervisor_cfg \<Rightarrow> resolved_runtime option action" where
  "resolved_process_environment cfg = checked (\<lambda>s.
     resolve_runtime_from_env (sc_env cfg) (sc_process cfg) (su_store s) (su_active s) (su_previous s))"

definition start_child :: "supervisor_cfg \<Rightarrow> unit action" where
  "start_child cfg = and_then (look child_alive) (\<lambda>alive.
     if alive then ret () else
     and_then (resolved_process_environment cfg) (\<lambda>runtime.
     and_then (effect (\<lambda>pid s. Inr (s\<lparr>su_child := Some \<lparr>ch_alive = True, ch_pid = pid, ch_runtime = runtime\<rparr>\<rparr>)))
       (\<lambda>_. ret ())))"

definition stop_child :: "unit action" where
  "stop_child = and_then (look child_alive) (\<lambda>alive.
     if \<not> alive then ret ()
     else change (\<lambda>s. s\<lparr>su_child := map_option (\<lambda>c. c\<lparr>ch_alive := False\<rparr>) (su_child s)\<rparr>))"

subsection \<open>Intents and acknowledgements\<close>

definition need :: "string \<Rightarrow> json \<Rightarrow> json action" where
  "need k doc = checked (\<lambda>_. of_option (Key_missing k) (json_get k doc))"

definition path_text :: "supervisor_cfg \<Rightarrow> json \<Rightarrow> string" where
  "path_text cfg v = py_str (re_repr (sc_env cfg)) v"

definition as_supervisor_error :: "rt_exn \<Rightarrow> rt_exn" where
  "as_supervisor_error e = (case e of Runtime_control_error c \<Rightarrow> Supervisor_error c | _ \<Rightarrow> e)"

definition load_intent :: "supervisor_cfg \<Rightarrow> int \<Rightarrow> string \<Rightarrow> fs_node \<Rightarrow> rt_exn + json" where
  "load_intent cfg now stem node =
     (case read_signed_document (sup_env cfg) ''activation_intent'' (Some node) of
        Inl e \<Rightarrow> Inl (as_supervisor_error e)
      | Inr doc \<Rightarrow>
          bind_res (require (json_get ''intent_id'' doc = Some (JStr stem) \<and> stem \<noteq> [])
            (Supervisor_error ''activation_intent_identity_mismatch'')) (\<lambda>_.
          bind_res (of_option Type_problem (py_int (json_get_or ''expires_at_unix'' (JInt 0) doc))) (\<lambda>expires.
          bind_res (require (now < expires) (Supervisor_error ''activation_intent_expired'')) (\<lambda>_.
          Inr doc))))"

definition ack_payload :: "supervisor_cfg \<Rightarrow> json \<Rightarrow> json \<Rightarrow> string \<Rightarrow> int \<Rightarrow> (string \<times> json) list" where
  "ack_payload cfg intent_id digest state now =
     [(''schema_version'', JInt 1), (''kind'', JStr ''activation_ack''),
      (''deployment_id'', JStr (re_deployment_id (sup_env cfg))), (''intent_id'', intent_id),
      (''intent_digest'', digest), (''role'', JStr (sc_role cfg)), (''state'', JStr state),
      (''process_id'', JInt (sc_pid cfg)), (''observed_at_unix'', JInt now)]"

definition write_ack :: "supervisor_cfg \<Rightarrow> json \<Rightarrow> string \<Rightarrow> unit action" where
  "write_ack cfg intent state =
     and_then (need ''intent_id'' intent) (\<lambda>intent_id.
     and_then (need ''document_digest'' intent) (\<lambda>digest.
     and_then (checked (\<lambda>s. sign_document (sup_env cfg) (ack_payload cfg intent_id digest state (su_clock s)))) (\<lambda>doc.
     change (\<lambda>s. s\<lparr>su_acks := (su_acks s)((path_text cfg intent_id, sc_role cfg) := Some (written_json doc))\<rparr>))))"

definition read_ack :: "supervisor_cfg \<Rightarrow> json \<Rightarrow> string \<Rightarrow> json option action" where
  "read_ack cfg intent role =
     and_then (need ''intent_id'' intent) (\<lambda>intent_id.
     and_then (look (\<lambda>s. read_signed_document (sup_env cfg) ''activation_ack''
         (su_acks s (path_text cfg intent_id, role)))) (\<lambda>res.
     case res of Inl (Runtime_control_error c) \<Rightarrow> ret None
     | Inl e \<Rightarrow> raise_exn e
     | Inr doc \<Rightarrow>
         and_then (need ''document_digest'' intent) (\<lambda>digest.
         ret (if json_get_or ''intent_id'' JNull doc = intent_id \<and> json_get_or ''intent_digest'' JNull doc = digest
                 \<and> json_get ''role'' doc = Some (JStr role)
              then Some doc else None))))"

definition ack_state :: "json option \<Rightarrow> json" where
  "ack_state doc = (case doc of None \<Rightarrow> JNull | Some d \<Rightarrow> json_get_or ''state'' JNull d)"

definition maintenance_acknowledged :: "supervisor_cfg \<Rightarrow> json \<Rightarrow> bool action" where
  "maintenance_acknowledged cfg intent =
     and_then (read_ack cfg intent ''maintenance'') (\<lambda>doc. ret (ack_state doc = JStr ''quiesced''))"

text \<open>
  The wait for an acknowledgement. Each round that does not end takes a happening, so as many rounds
  as there are happenings are enough; a run that uses them up has died.
\<close>

primrec wait_rounds :: "nat \<Rightarrow> supervisor_cfg \<Rightarrow> json \<Rightarrow> string \<Rightarrow> int \<Rightarrow> unit action" where
  "wait_rounds 0 cfg intent expected deadline = (\<lambda>s. (s, Dies))"
| "wait_rounds (Suc n) cfg intent expected deadline =
     and_then (look (\<lambda>s. su_clock s < deadline)) (\<lambda>waiting.
     if \<not> waiting then raise_exn (Supervisor_error ''activation_maintenance_ack_timeout'')
     else and_then (read_ack cfg intent ''maintenance'') (\<lambda>doc.
       if ack_state doc = JStr expected then ret ()
       else and_then nap (\<lambda>_. wait_rounds n cfg intent expected deadline)))"

definition wait_maintenance_state :: "supervisor_cfg \<Rightarrow> json \<Rightarrow> string \<Rightarrow> unit action" where
  "wait_maintenance_state cfg intent expected =
     and_then (look (\<lambda>s. (Suc (length (su_happenings s)), su_clock s + readiness_timeout cfg))) (\<lambda>(rounds, deadline).
     wait_rounds rounds cfg intent expected deadline)"

subsection \<open>Pointers and the lock\<close>

definition current_pointer :: "supervisor_cfg \<Rightarrow> resolved_runtime action" where
  "current_pointer cfg = checked (\<lambda>s. read_runtime_pointer (sup_env cfg) (su_store s) (su_active s))"

definition previous_pointer :: "supervisor_cfg \<Rightarrow> resolved_runtime action" where
  "previous_pointer cfg = checked (\<lambda>s. read_runtime_pointer (sup_env cfg) (su_store s) (su_previous s))"

definition pointer_document :: "supervisor_cfg \<Rightarrow> (supervisor_state \<Rightarrow> fs_node option) \<Rightarrow> json action" where
  "pointer_document cfg file = checked (\<lambda>s. read_signed_document (sup_env cfg) ''runtime_pointer'' (file s))"

definition lock_content :: "supervisor_cfg \<Rightarrow> json \<Rightarrow> bool \<Rightarrow> json" where
  "lock_content cfg intent_id recovery =
     JObj ([(''intent_id'', intent_id), (''process_id'', JInt (sc_pid cfg))]
       @ (if recovery then [(''recovery'', JBool True)] else []))"

text \<open>The lock file is created exclusively, empty, and then written.\<close>

definition acquire_lock :: "supervisor_cfg \<Rightarrow> json \<Rightarrow> unit action" where
  "acquire_lock cfg intent =
     and_then (effect (\<lambda>_ s. if su_lock s \<noteq> None then Inl (Supervisor_error ''runtime_activation_in_progress'')
         else Inr (s\<lparr>su_lock := Some (Regular 384 1 0 None)\<rparr>))) (\<lambda>_.
     and_then (need ''intent_id'' intent) (\<lambda>intent_id.
     change (\<lambda>s. s\<lparr>su_lock := Some (written_json (lock_content cfg intent_id False))\<rparr>)))"

definition file_document :: "fs_node option \<Rightarrow> json option" where
  "file_document file = (case file of Some (Regular m n s c) \<Rightarrow> c | _ \<Rightarrow> None)"

text \<open>\<^verbatim>\<open>value.get("intent_id")\<close>: a JSON value that is not a dictionary has no \<^verbatim>\<open>get\<close>.\<close>

definition lock_owner :: "json \<Rightarrow> json action" where
  "lock_owner v = (case v of JObj kvs \<Rightarrow> ret (json_get_or ''intent_id'' JNull v) | _ \<Rightarrow> raise_exn Type_problem)"

definition release_lock :: "supervisor_cfg \<Rightarrow> json \<Rightarrow> unit action" where
  "release_lock cfg intent =
     and_then (look (\<lambda>s. file_document (su_lock s))) (\<lambda>value. case value of None \<Rightarrow> ret ()
     | Some v \<Rightarrow>
         and_then (lock_owner v) (\<lambda>owner. and_then (need ''intent_id'' intent) (\<lambda>intent_id.
         if owner = intent_id then change (\<lambda>s. s\<lparr>su_lock := None\<rparr>) else ret ())))"

definition claim_recovery_lock :: "supervisor_cfg \<Rightarrow> json \<Rightarrow> unit action" where
  "claim_recovery_lock cfg intent =
     and_then (look su_lock) (\<lambda>file.
     if file = None then acquire_lock cfg intent
     else case file_document file of
       None \<Rightarrow> raise_exn (Supervisor_error ''runtime_activation_lock_invalid'')
     | Some v \<Rightarrow>
         and_then (lock_owner v) (\<lambda>owner. and_then (need ''intent_id'' intent) (\<lambda>intent_id.
         if owner \<noteq> intent_id then raise_exn (Supervisor_error ''runtime_activation_in_progress'')
         else change (\<lambda>s. s\<lparr>su_lock := Some (written_json (lock_content cfg intent_id True))\<rparr>))))"

definition acquire_or_resume_pre_cutover_lock :: "supervisor_cfg \<Rightarrow> json \<Rightarrow> bool action" where
  "acquire_or_resume_pre_cutover_lock cfg intent =
     and_then (look su_lock) (\<lambda>file.
     if file = None then and_then (acquire_lock cfg intent) (\<lambda>_. ret False)
     else and_then (read_ack cfg intent ''web'') (\<lambda>web_ack.
       if ack_state web_ack \<noteq> JStr ''applying''
       then raise_exn (Supervisor_error ''runtime_activation_in_progress'')
       else and_then (claim_recovery_lock cfg intent) (\<lambda>_. ret True)))"

definition has_same_intent_applying_lock :: "supervisor_cfg \<Rightarrow> json \<Rightarrow> bool action" where
  "has_same_intent_applying_lock cfg intent =
     and_then (read_ack cfg intent ''web'') (\<lambda>web_ack.
     if ack_state web_ack \<noteq> JStr ''applying'' then ret False
     else and_then (look (\<lambda>s. file_document (su_lock s))) (\<lambda>value. case value of None \<Rightarrow> ret False
     | Some v \<Rightarrow>
         and_then (lock_owner v) (\<lambda>owner. and_then (need ''intent_id'' intent) (\<lambda>intent_id.
         ret (owner = intent_id)))))"

subsection \<open>Authority\<close>

definition pointer_matches :: "resolved_runtime \<Rightarrow> json \<Rightarrow> json \<Rightarrow> json \<Rightarrow> bool" where
  "pointer_matches p generation_id manifest_digest pointer_digest =
     (rr_generation_id p = generation_id \<and> rr_manifest_digest p = manifest_digest
      \<and> JStr (rr_pointer_digest p) = pointer_digest)"

definition same_pointer :: "resolved_runtime \<Rightarrow> resolved_runtime \<Rightarrow> bool" where
  "same_pointer p q = (rr_generation_id p = rr_generation_id q \<and> rr_manifest_digest p = rr_manifest_digest q
      \<and> rr_pointer_digest p = rr_pointer_digest q)"

definition rollback_previous_matches :: "json \<Rightarrow> resolved_runtime \<Rightarrow> bool" where
  "rollback_previous_matches intent previous =
     (pointer_matches previous (json_get_or ''rollback_previous_generation_id'' (JStr []) intent)
        (json_get_or ''rollback_previous_manifest_digest'' (JStr []) intent)
        (json_get_or ''rollback_previous_pointer_digest'' (JStr []) intent)
      \<and> rr_generation_id previous = json_get_or ''target_generation_id'' JNull intent
      \<and> rr_manifest_digest previous = json_get_or ''target_manifest_digest'' JNull intent)"

definition assert_cutover_authority :: "supervisor_cfg \<Rightarrow> json \<Rightarrow> bool \<Rightarrow> resolved_runtime action" where
  "assert_cutover_authority cfg intent resumed =
     and_then (current_pointer cfg) (\<lambda>active.
     if \<not> (rr_generation_id active = json_get_or ''previous_generation_id'' (JStr []) intent
          \<and> JStr (rr_pointer_digest active) = json_get_or ''previous_pointer_digest'' (JStr []) intent)
     then raise_exn (Supervisor_error ''activation_previous_pointer_changed'')
     else if json_get ''activation_mode'' intent \<noteq> Some (JStr ''rollback'') then ret active
     else and_then (previous_pointer cfg) (\<lambda>previous.
       if rollback_previous_matches intent previous then ret active
       else if resumed \<and> same_pointer previous active then ret active
       else raise_exn (Supervisor_error ''rollback_previous_pointer_changed'')))"

subsection \<open>Verification and readiness\<close>

text \<open>
  \<^verbatim>\<open>_run_manage\<close>: the management command is a parameter; a failing one raises its reason code, and the
  verification's answer is the evidence it left.
\<close>

definition run_manage :: "supervisor_cfg \<Rightarrow> json action" where
  "run_manage cfg = and_then (resolved_process_environment cfg) (\<lambda>_. effect (\<lambda>_ s. Inr s))"

definition reconcile_result_best_effort :: "supervisor_cfg \<Rightarrow> json \<Rightarrow> bool action" where
  "reconcile_result_best_effort cfg intent =
     handle_exn (and_then (need ''intent_id'' intent) (\<lambda>_. and_then (run_manage cfg) (\<lambda>_. ret True)))
       (\<lambda>e. case e of Os_problem \<Rightarrow> ret False | Supervisor_error c \<Rightarrow> ret False | _ \<Rightarrow> raise_exn e)"

definition reconcile_and_ack :: "supervisor_cfg \<Rightarrow> json \<Rightarrow> unit action" where
  "reconcile_and_ack cfg intent =
     and_then (reconcile_result_best_effort cfg intent) (\<lambda>done.
     if done then write_ack cfg intent ''reconciled'' else ret ())"

definition http_json :: "json action" where
  "http_json = and_then (effect (\<lambda>_ s. Inr s)) (\<lambda>value.
     case value of JObj kvs \<Rightarrow> ret value | _ \<Rightarrow> raise_exn (Supervisor_error ''activation_readiness_invalid''))"

definition readiness_evidence :: "json \<Rightarrow> json \<Rightarrow> (string \<times> json) list" where
  "readiness_evidence generation_id manifest_digest =
     [(''livez'', JStr ''ok''), (''readyz'', JStr ''ready''), (''runtime_generation_id'', generation_id),
      (''runtime_manifest_digest'', manifest_digest)]"

definition probe :: "json \<Rightarrow> json \<Rightarrow> (string option) action" where
  "probe generation_id manifest_digest =
     handle_exn
       (and_then http_json (\<lambda>live. and_then http_json (\<lambda>ready.
        ret (if json_get ''status'' live = Some (JStr ''ok'') \<and> json_get ''status'' ready = Some (JStr ''ready'')
               \<and> json_get_or ''runtime_generation_id'' JNull ready = generation_id
               \<and> json_get_or ''runtime_manifest_digest'' JNull ready = manifest_digest
             then None else Some ''activation_readiness_mismatch''))))
       (\<lambda>e. case e of Os_problem \<Rightarrow> ret (Some ''activation_readiness_unreachable'')
          | Supervisor_error c \<Rightarrow> ret (Some c) | _ \<Rightarrow> raise_exn e)"

primrec ready_rounds :: "nat \<Rightarrow> json \<Rightarrow> json \<Rightarrow> int \<Rightarrow> string \<Rightarrow> (string \<times> json) list action" where
  "ready_rounds 0 generation_id manifest_digest deadline code = (\<lambda>s. (s, Dies))"
| "ready_rounds (Suc n) generation_id manifest_digest deadline code =
     and_then (look (\<lambda>s. (su_clock s < deadline, child_alive s))) (\<lambda>(waiting, alive).
     if \<not> waiting then raise_exn (Supervisor_error code)
     else if \<not> alive then raise_exn (Supervisor_error ''activation_child_exited'')
     else and_then (probe generation_id manifest_digest) (\<lambda>failed. case failed of
         None \<Rightarrow> ret (readiness_evidence generation_id manifest_digest)
       | Some code' \<Rightarrow> and_then nap (\<lambda>_. ready_rounds n generation_id manifest_digest deadline code')))"

definition wait_ready :: "supervisor_cfg \<Rightarrow> json \<Rightarrow> json \<Rightarrow> (string \<times> json) list action" where
  "wait_ready cfg generation_id manifest_digest =
     and_then (look (\<lambda>s. (Suc (length (su_happenings s)), su_clock s + readiness_timeout cfg))) (\<lambda>(rounds, deadline).
     ready_rounds rounds generation_id manifest_digest deadline ''activation_readiness_timeout'')"

subsection \<open>Results\<close>

definition child_pid :: "supervisor_state \<Rightarrow> json" where
  "child_pid s = (case su_child s of None \<Rightarrow> JInt 0 | Some c \<Rightarrow> ch_pid c)"

record result_fields =
  rf_status :: string
  rf_generation_id :: json
  rf_manifest_digest :: json
  rf_previous_generation_id :: json
  rf_pointer_digest :: json
  rf_readiness :: "(string \<times> json) list"
  rf_error_code :: string

definition result_payload :: "supervisor_cfg \<Rightarrow> json \<Rightarrow> json \<Rightarrow> json \<Rightarrow> int \<Rightarrow> result_fields \<Rightarrow> (string \<times> json) list" where
  "result_payload cfg intent_id digest pid now r =
     [(''schema_version'', JInt 1), (''kind'', JStr ''activation_result''),
      (''deployment_id'', JStr (re_deployment_id (sup_env cfg))), (''intent_id'', intent_id),
      (''intent_digest'', digest), (''status'', JStr (rf_status r)),
      (''active_generation_id'', rf_generation_id r), (''active_manifest_digest'', rf_manifest_digest r),
      (''previous_generation_id'', rf_previous_generation_id r), (''active_pointer_digest'', rf_pointer_digest r),
      (''readiness_evidence'', JObj (rf_readiness r)),
      (''process_identity'', JObj [(''supervisor_pid'', JInt (sc_pid cfg)), (''child_pid'', pid),
         (''role'', JStr (sc_role cfg))]),
      (''safe_error_code'', JStr (rf_error_code r)), (''observed_at_unix'', JInt now)]"

definition put_result :: "supervisor_cfg \<Rightarrow> json \<Rightarrow> result_fields \<Rightarrow> unit action" where
  "put_result cfg intent r =
     and_then (need ''intent_id'' intent) (\<lambda>intent_id.
     and_then (need ''document_digest'' intent) (\<lambda>digest.
     and_then (checked (\<lambda>s. sign_document (sup_env cfg)
         (result_payload cfg intent_id digest (child_pid s) (su_clock s) r))) (\<lambda>doc.
     change (\<lambda>s. s\<lparr>su_results := (su_results s)(path_text cfg intent_id := Some (written_json doc))\<rparr>))))"

definition write_result ::
  "supervisor_cfg \<Rightarrow> json \<Rightarrow> string \<Rightarrow> resolved_runtime \<Rightarrow> json \<Rightarrow> (string \<times> json) list \<Rightarrow> string \<Rightarrow> unit action" where
  "write_result cfg intent status active previous_generation_id readiness code =
     put_result cfg intent \<lparr>rf_status = status, rf_generation_id = rr_generation_id active,
       rf_manifest_digest = rr_manifest_digest active, rf_previous_generation_id = previous_generation_id,
       rf_pointer_digest = JStr (rr_pointer_digest active), rf_readiness = readiness, rf_error_code = code\<rparr>"

definition write_failed_without_cutover :: "supervisor_cfg \<Rightarrow> json \<Rightarrow> string \<Rightarrow> unit action" where
  "write_failed_without_cutover cfg intent reason_code =
     and_then (look (\<lambda>s. read_runtime_pointer (sup_env cfg) (su_store s) (su_active s))) (\<lambda>res.
     case res of Inl (Runtime_control_error c) \<Rightarrow> ret ()
     | Inl e \<Rightarrow> raise_exn e
     | Inr active \<Rightarrow> write_result cfg intent ''failed'' active (rr_generation_id active) [] reason_code)"

definition write_initial_failure :: "supervisor_cfg \<Rightarrow> json \<Rightarrow> string \<Rightarrow> unit action" where
  "write_initial_failure cfg intent reason_code =
     put_result cfg intent \<lparr>rf_status = ''failed'', rf_generation_id = JStr [], rf_manifest_digest = JStr [],
       rf_previous_generation_id = JStr [], rf_pointer_digest = JStr [], rf_readiness = [],
       rf_error_code = reason_code\<rparr>"

definition result_exists :: "supervisor_cfg \<Rightarrow> json \<Rightarrow> bool action" where
  "result_exists cfg intent =
     and_then (need ''intent_id'' intent) (\<lambda>intent_id. look (\<lambda>s. is_regular (su_results s (path_text cfg intent_id))))"

subsection \<open>The cutover\<close>

text \<open>
  \<open>set_writable\<close> is \<^verbatim>\<open>set_runtime_workspace_writable\<close> as an action: the check, the change of the modes,
  and the check again.
\<close>

definition check_workspace :: "supervisor_cfg \<Rightarrow> bool \<Rightarrow> json \<Rightarrow> json \<Rightarrow> json \<Rightarrow> string action" where
  "check_workspace cfg immutable path generation_id manifest_digest = checked (\<lambda>s.
     validate_runtime_workspace (sup_env cfg) (su_store s) immutable path generation_id manifest_digest)"

definition set_writable :: "supervisor_cfg \<Rightarrow> bool \<Rightarrow> json \<Rightarrow> json \<Rightarrow> json \<Rightarrow> unit action" where
  "set_writable cfg w path generation_id manifest_digest =
     and_then (check_workspace cfg False path generation_id manifest_digest) (\<lambda>runtime.
     and_then (change (\<lambda>s. s\<lparr>su_store := chmod_workspace w runtime (su_store s)\<rparr>)) (\<lambda>_.
     and_then (check_workspace cfg (\<not> w) (JStr runtime) generation_id manifest_digest) (\<lambda>_. ret ())))"

definition with_target :: "json \<Rightarrow> (json \<Rightarrow> json \<Rightarrow> json \<Rightarrow> 'a action) \<Rightarrow> 'a action" where
  "with_target intent f =
     and_then (need ''target_runtime_path'' intent) (\<lambda>path.
     and_then (need ''target_generation_id'' intent) (\<lambda>generation_id.
     and_then (need ''target_manifest_digest'' intent) (\<lambda>manifest_digest. f path generation_id manifest_digest)))"

definition target_writable :: "supervisor_cfg \<Rightarrow> json \<Rightarrow> bool \<Rightarrow> unit action" where
  "target_writable cfg intent w = with_target intent (set_writable cfg w)"

definition runtime_writable :: "supervisor_cfg \<Rightarrow> bool \<Rightarrow> resolved_runtime \<Rightarrow> unit action" where
  "runtime_writable cfg w p = set_writable cfg w (JStr (rr_runtime_path p)) (rr_generation_id p) (rr_manifest_digest p)"

definition write_active :: "json \<Rightarrow> unit action" where
  "write_active doc = change (\<lambda>s. s\<lparr>su_active := Some (written_json doc)\<rparr>)"

definition write_previous :: "json \<Rightarrow> unit action" where
  "write_previous doc = change (\<lambda>s. s\<lparr>su_previous := Some (written_json doc)\<rparr>)"

definition write_target_pointer :: "supervisor_cfg \<Rightarrow> json \<Rightarrow> unit action" where
  "write_target_pointer cfg intent =
     with_target intent (\<lambda>path generation_id manifest_digest.
     and_then (need ''document_digest'' intent) (\<lambda>digest.
     and_then (checked (\<lambda>_. of_option Type_problem (py_int (json_get_or ''state_version'' (JInt 1) intent)))) (\<lambda>version.
     and_then (checked (\<lambda>s. build_runtime_pointer (sup_env cfg) generation_id manifest_digest path digest version
         (su_clock s))) write_active)))"

definition verify_runtime :: "supervisor_cfg \<Rightarrow> json \<Rightarrow> json action" where
  "verify_runtime cfg intent = and_then (need ''intent_id'' intent) (\<lambda>_. run_manage cfg)"

text \<open>The target is up: its readiness and second verification, the committed result, the acknowledgement.\<close>

definition commit_target ::
  "supervisor_cfg \<Rightarrow> json \<Rightarrow> json \<Rightarrow> ((string \<times> json) list \<Rightarrow> json \<Rightarrow> (string \<times> json) list) \<Rightarrow> unit action" where
  "commit_target cfg intent previous_generation_id evidence =
     and_then (with_target intent (\<lambda>path generation_id manifest_digest. wait_ready cfg generation_id manifest_digest)) (\<lambda>readiness.
     and_then (verify_runtime cfg intent) (\<lambda>unavailable.
     and_then (current_pointer cfg) (\<lambda>active.
     do_all [write_result cfg intent ''committed'' active previous_generation_id (evidence readiness unavailable) [],
       write_ack cfg intent ''committed'', reconcile_and_ack cfg intent])))"

definition cutover_evidence :: "(string \<times> json) list \<Rightarrow> json \<Rightarrow> (string \<times> json) list" where
  "cutover_evidence readiness unavailable =
     readiness @ [(''runtime_smoke'', JStr ''passed''), (''unavailable_documents'', unavailable)]"

definition cut_over :: "supervisor_cfg \<Rightarrow> json \<Rightarrow> resolved_runtime \<Rightarrow> json \<Rightarrow> unit action" where
  "cut_over cfg intent current previous_document =
     do_all [stop_child, runtime_writable cfg False current, write_previous previous_document,
       write_target_pointer cfg intent, target_writable cfg intent True,
       and_then (verify_runtime cfg intent) (\<lambda>_. ret ()), start_child cfg,
       write_ack cfg intent ''pointer_switched'', wait_maintenance_state cfg intent ''target_started'',
       write_ack cfg intent ''verifying'',
       commit_target cfg intent (rr_generation_id current) cutover_evidence]"

definition restored_result ::
  "supervisor_cfg \<Rightarrow> json \<Rightarrow> json \<Rightarrow> json \<Rightarrow> (string \<times> json) list \<Rightarrow> string \<Rightarrow> unit action" where
  "restored_result cfg intent generation_id manifest_digest evidence reason_code =
     and_then (wait_ready cfg generation_id manifest_digest) (\<lambda>readiness.
     and_then (current_pointer cfg) (\<lambda>restored.
     do_all [write_result cfg intent ''rolled_back'' restored generation_id (readiness @ evidence) reason_code,
       write_ack cfg intent ''rolled_back'', reconcile_and_ack cfg intent]))"

definition roll_back :: "supervisor_cfg \<Rightarrow> json \<Rightarrow> resolved_runtime \<Rightarrow> json \<Rightarrow> string \<Rightarrow> unit action" where
  "roll_back cfg intent current previous_document reason_code =
     do_all [stop_child, write_ack cfg intent ''rollback_pending'',
       wait_maintenance_state cfg intent ''rollback_quiesced'', target_writable cfg intent False,
       write_active previous_document, runtime_writable cfg True current, start_child cfg,
       write_ack cfg intent ''rollback_pointer_switched'', wait_maintenance_state cfg intent ''rollback_started'',
       restored_result cfg intent (rr_generation_id current) (rr_manifest_digest current)
         [(''rollback_verification'', JStr ''passed'')] reason_code]"

definition rollback_failed :: "supervisor_cfg \<Rightarrow> json \<Rightarrow> resolved_runtime \<Rightarrow> unit action" where
  "rollback_failed cfg intent current =
     handle_exn (and_then (current_pointer cfg) (\<lambda>restored.
       write_result cfg intent ''rollback_failed'' restored (rr_generation_id current) [] ''activation_rollback_failed''))
       (\<lambda>_. ret ())"

definition cut_over_or_back :: "supervisor_cfg \<Rightarrow> json \<Rightarrow> resolved_runtime \<Rightarrow> json \<Rightarrow> unit action" where
  "cut_over_or_back cfg intent current previous_document =
     handle_exn (cut_over cfg intent current previous_document) (\<lambda>e.
     handle_exn (roll_back cfg intent current previous_document (reason_of ''activation_verification_failed'' e)) (\<lambda>_.
     rollback_failed cfg intent current))"

subsection \<open>A cutover that was interrupted\<close>

definition recover_switch :: "supervisor_cfg \<Rightarrow> json \<Rightarrow> resolved_runtime \<Rightarrow> bool action" where
  "recover_switch cfg intent current =
     and_then (pointer_document cfg su_previous) (\<lambda>doc.
     if json_get_or ''document_digest'' JNull doc \<noteq> json_get_or ''previous_pointer_digest'' JNull intent
        \<or> json_get_or ''generation_id'' JNull doc \<noteq> json_get_or ''previous_generation_id'' JNull intent
     then ret False
     else
       and_then (do_all [stop_child, write_ack cfg intent ''rollback_pending'',
         wait_maintenance_state cfg intent ''rollback_quiesced'', runtime_writable cfg False current,
         write_active doc,
         and_then (need ''runtime_path'' doc) (\<lambda>path. and_then (need ''generation_id'' doc) (\<lambda>generation_id.
           and_then (need ''manifest_digest'' doc) (set_writable cfg True path generation_id))),
         start_child cfg, write_ack cfg intent ''rollback_pointer_switched'',
         wait_maintenance_state cfg intent ''rollback_started'',
         and_then (need ''previous_generation_id'' intent) (\<lambda>generation_id.
           and_then (need ''manifest_digest'' doc) (\<lambda>manifest_digest.
           restored_result cfg intent generation_id manifest_digest
             [(''restart_reconciliation'', JStr ''rolled_back'')] ''activation_incomplete_recovered''))])
       (\<lambda>_. ret True))"

definition recover_incomplete_cutover :: "supervisor_cfg \<Rightarrow> json \<Rightarrow> resolved_runtime \<Rightarrow> bool action" where
  "recover_incomplete_cutover cfg intent current =
     (if Some (rr_generation_id current) \<noteq> json_get ''target_generation_id'' intent then ret False
      else handle_exn (recover_switch cfg intent current) (\<lambda>_. ret False))"

subsection \<open>The first activation\<close>

definition fail_initial_without_pointer :: "supervisor_cfg \<Rightarrow> json \<Rightarrow> string \<Rightarrow> unit action" where
  "fail_initial_without_pointer cfg intent reason_code =
     do_all [write_ack cfg intent ''rollback_pointer_switched'', wait_maintenance_state cfg intent ''rollback_started'',
       write_initial_failure cfg intent reason_code, write_ack cfg intent ''rolled_back'',
       reconcile_and_ack cfg intent]"

definition initial_evidence :: "(string \<times> json) list \<Rightarrow> json \<Rightarrow> (string \<times> json) list" where
  "initial_evidence readiness unavailable =
     readiness @ [(''runtime_smoke'', JStr ''passed''), (''initial_activation'', JBool True),
       (''unavailable_documents'', unavailable)]"

definition first_pointer :: "supervisor_cfg \<Rightarrow> json \<Rightarrow> resolved_runtime option \<Rightarrow> unit action" where
  "first_pointer cfg intent current =
     (if current \<noteq> None then ret ()
      else and_then (look (\<lambda>s. su_active s \<noteq> None \<or> su_previous s \<noteq> None)) (\<lambda>present.
        if present then raise_exn (Supervisor_error ''activation_previous_pointer_changed'')
        else write_target_pointer cfg intent))"

definition initial_cut_over :: "supervisor_cfg \<Rightarrow> json \<Rightarrow> resolved_runtime option \<Rightarrow> unit action" where
  "initial_cut_over cfg intent current =
     do_all [first_pointer cfg intent current, stop_child, target_writable cfg intent True,
       and_then (verify_runtime cfg intent) (\<lambda>_. ret ()), start_child cfg,
       write_ack cfg intent ''pointer_switched'', wait_maintenance_state cfg intent ''target_started'',
       write_ack cfg intent ''verifying'', commit_target cfg intent (JStr []) initial_evidence]"

definition initial_roll_back :: "supervisor_cfg \<Rightarrow> json \<Rightarrow> string \<Rightarrow> unit action" where
  "initial_roll_back cfg intent reason_code =
     and_then stop_child (\<lambda>_.
     and_then (current_pointer cfg) (\<lambda>active.
     and_then (need ''target_generation_id'' intent) (\<lambda>generation_id.
     and_then (need ''document_digest'' intent) (\<lambda>digest.
     do_all
       ((if rr_generation_id active = generation_id \<and> rr_intent_digest active = digest
         then [write_ack cfg intent ''rollback_pending'', wait_maintenance_state cfg intent ''rollback_quiesced'',
           target_writable cfg intent False, change (\<lambda>s. s\<lparr>su_active := None\<rparr>), start_child cfg,
           write_ack cfg intent ''rollback_pointer_switched'', wait_maintenance_state cfg intent ''rollback_started'']
         else [])
        @ [write_initial_failure cfg intent reason_code, write_ack cfg intent ''rolled_back'',
           reconcile_and_ack cfg intent])))))"

definition may_apply :: "supervisor_cfg \<Rightarrow> json \<Rightarrow> bool action" where
  "may_apply cfg intent =
     and_then (read_ack cfg intent ''web'') (\<lambda>web_ack. case web_ack of
       None \<Rightarrow> and_then (write_ack cfg intent ''applying'') (\<lambda>_. ret True)
     | Some d \<Rightarrow> ret (ack_state (Some d) = JStr ''applying''))"

text \<open>The pre-cutover lock; \<^term>\<open>None\<close> when a \<^verbatim>\<open>SupervisorError\<close> ended the attempt.\<close>

definition pre_cutover_lock :: "supervisor_cfg \<Rightarrow> json \<Rightarrow> bool option action" where
  "pre_cutover_lock cfg intent =
     handle_exn (and_then (acquire_or_resume_pre_cutover_lock cfg intent) (\<lambda>resumed. ret (Some resumed)))
       (\<lambda>e. case e of Supervisor_error c \<Rightarrow> ret None | _ \<Rightarrow> raise_exn e)"

definition initial_switch :: "supervisor_cfg \<Rightarrow> json \<Rightarrow> resolved_runtime option \<Rightarrow> unit action" where
  "initial_switch cfg intent current =
     finally_do
       (handle_exn (initial_cut_over cfg intent current) (\<lambda>e.
        handle_exn (initial_roll_back cfg intent (reason_of ''activation_verification_failed'' e)) (\<lambda>_. ret ())))
       (release_lock cfg intent)"

definition initial_validated :: "supervisor_cfg \<Rightarrow> json \<Rightarrow> rt_exn option action" where
  "initial_validated cfg intent =
     handle_exn (and_then (with_target intent (check_workspace cfg True)) (\<lambda>_. ret None)) (\<lambda>e. ret (Some e))"

text \<open>A readable pointer at the first activation must be the one this intent wrote.\<close>

definition initial_pointer :: "supervisor_cfg \<Rightarrow> json \<Rightarrow> (bool \<times> resolved_runtime option) action" where
  "initial_pointer cfg intent =
     and_then (look (\<lambda>s. read_runtime_pointer (sup_env cfg) (su_store s) (su_active s))) (\<lambda>res.
     case res of Inl (Runtime_control_error c) \<Rightarrow> ret (True, None)
     | Inl e \<Rightarrow> raise_exn e
     | Inr p \<Rightarrow>
         and_then (need ''target_generation_id'' intent) (\<lambda>generation_id.
         and_then (need ''target_manifest_digest'' intent) (\<lambda>manifest_digest.
         and_then (need ''document_digest'' intent) (\<lambda>digest.
         ret (rr_generation_id p = generation_id \<and> rr_manifest_digest p = manifest_digest
              \<and> rr_intent_digest p = digest, Some p)))))"

definition apply_initial_intent :: "supervisor_cfg \<Rightarrow> json \<Rightarrow> unit action" where
  "apply_initial_intent cfg intent =
     (if \<not> initial_activation_enabled cfg then ret ()
      else if json_truthy (json_get_or ''previous_generation_id'' JNull intent)
           \<or> json_truthy (json_get_or ''previous_pointer_digest'' JNull intent) then ret ()
      else and_then (look su_previous) (\<lambda>previous. if previous \<noteq> None then ret () else
        and_then (initial_pointer cfg intent) (\<lambda>(own, current). if \<not> own then ret () else
        and_then (maintenance_acknowledged cfg intent) (\<lambda>quiesced. if \<not> quiesced then ret () else
        and_then (initial_validated cfg intent) (\<lambda>failed. case failed of
          Some e \<Rightarrow> fail_initial_without_pointer cfg intent (reason_of ''activation_verification_failed'' e)
        | None \<Rightarrow>
          and_then (may_apply cfg intent) (\<lambda>applying. if \<not> applying then ret () else
          and_then (pre_cutover_lock cfg intent) (\<lambda>lock. if lock = None then ret ()
            else initial_switch cfg intent current)))))))"

subsection \<open>Applying an intent\<close>

definition recover_or_fail :: "supervisor_cfg \<Rightarrow> json \<Rightarrow> resolved_runtime \<Rightarrow> unit action" where
  "recover_or_fail cfg intent current =
     and_then (handle_exn (and_then (claim_recovery_lock cfg intent) (\<lambda>_. ret True))
       (\<lambda>e. case e of Supervisor_error c \<Rightarrow> ret False | _ \<Rightarrow> raise_exn e)) (\<lambda>claimed.
     if \<not> claimed then ret ()
     else and_then (finally_do (recover_incomplete_cutover cfg intent current) (release_lock cfg intent)) (\<lambda>recovered.
       if recovered then ret ()
       else write_failed_without_cutover cfg intent ''activation_previous_pointer_changed''))"

text \<open>The check of the previous pointer that a rollback makes first: whether to go on.\<close>

definition rollback_admissible :: "supervisor_cfg \<Rightarrow> json \<Rightarrow> resolved_runtime \<Rightarrow> bool action" where
  "rollback_admissible cfg intent current =
     and_then (look (\<lambda>s. read_runtime_pointer (sup_env cfg) (su_store s) (su_previous s))) (\<lambda>res.
     case res of Inl (Runtime_control_error c) \<Rightarrow> ret False
     | Inl e \<Rightarrow> raise_exn e
     | Inr previous \<Rightarrow>
         and_then (has_same_intent_applying_lock cfg intent) (\<lambda>applying.
         ret (rollback_previous_matches intent previous \<or> applying \<and> same_pointer previous current)))"

definition under_lock :: "supervisor_cfg \<Rightarrow> json \<Rightarrow> bool \<Rightarrow> unit action" where
  "under_lock cfg intent resumed =
     and_then
       (handle_exn (and_then (assert_cutover_authority cfg intent resumed) (\<lambda>current.
          and_then (pointer_document cfg su_active) (\<lambda>previous_document. ret (Inr (current, previous_document)))))
          (\<lambda>e. case e of Supervisor_error c \<Rightarrow> ret (Inl c) | _ \<Rightarrow> raise_exn e))
       (\<lambda>authority. case authority of
          Inl c \<Rightarrow> do_all [write_failed_without_cutover cfg intent c, release_lock cfg intent]
        | Inr (current, previous_document) \<Rightarrow>
            finally_do (cut_over_or_back cfg intent current previous_document) (release_lock cfg intent))"

definition apply_current :: "supervisor_cfg \<Rightarrow> json \<Rightarrow> unit action" where
  "apply_current cfg intent =
     and_then (maintenance_acknowledged cfg intent) (\<lambda>quiesced. if \<not> quiesced then ret () else
     and_then (with_target intent (check_workspace cfg True)) (\<lambda>_.
     and_then (may_apply cfg intent) (\<lambda>applying. if \<not> applying then ret () else
     and_then (pre_cutover_lock cfg intent) (\<lambda>lock. case lock of None \<Rightarrow> ret ()
       | Some resumed \<Rightarrow> under_lock cfg intent resumed))))"

definition apply_intent :: "supervisor_cfg \<Rightarrow> json \<Rightarrow> unit action" where
  "apply_intent cfg intent =
     (if app_env cfg = ''production'' then write_failed_without_cutover cfg intent ''production_activation_disabled''
      else if app_env cfg \<noteq> ''staging'' \<or> \<not> activation_enabled cfg
      then write_failed_without_cutover cfg intent ''staging_activation_disabled''
      else if json_get ''activation_mode'' intent = Some (JStr ''initial'') then apply_initial_intent cfg intent
      else and_then (current_pointer cfg) (\<lambda>current.
        if JStr (rr_pointer_digest current) \<noteq> json_get_or ''previous_pointer_digest'' JNull intent
           \<or> rr_generation_id current \<noteq> json_get_or ''previous_generation_id'' JNull intent
        then recover_or_fail cfg intent current
        else if json_get ''activation_mode'' intent = Some (JStr ''rollback'')
        then and_then (rollback_admissible cfg intent current) (\<lambda>ok.
          if ok then apply_current cfg intent
          else write_failed_without_cutover cfg intent ''rollback_previous_pointer_changed'')
        else apply_current cfg intent))"

subsection \<open>The ticks of the two supervisors\<close>

text \<open>
  A tick goes through the intent files in the order of their names, as they stand when it begins, and
  handles the first that is its turn.
\<close>

primrec web_tick_over :: "supervisor_cfg \<Rightarrow> (string \<times> fs_node) list \<Rightarrow> unit action" where
  "web_tick_over cfg [] = ret ()"
| "web_tick_over cfg (f # fs) =
     and_then (look (\<lambda>s. load_intent cfg (su_clock s) (fst f) (snd f))) (\<lambda>res. case res of
         Inl (Supervisor_error c) \<Rightarrow> web_tick_over cfg fs
       | Inl e \<Rightarrow> raise_exn e
       | Inr intent \<Rightarrow>
           and_then (result_exists cfg intent) (\<lambda>done.
           if \<not> done then apply_intent cfg intent
           else and_then (read_ack cfg intent ''web'') (\<lambda>web_ack.
             and_then (if ack_state web_ack \<noteq> JStr ''reconciled'' then reconcile_and_ack cfg intent else ret ())
               (\<lambda>_. web_tick_over cfg fs))))"

definition web_tick :: "supervisor_cfg \<Rightarrow> unit action" where
  "web_tick cfg =
     (if py_lower (py_strip (sc_apply_mode cfg)) \<noteq> ''auto'' then ret ()
      else and_then (look su_intents) (web_tick_over cfg))"

definition pause_for :: "json \<Rightarrow> unit action" where
  "pause_for intent_id = (\<lambda>s. (s\<lparr>su_paused := (case intent_id of JStr i \<Rightarrow> i | _ \<Rightarrow> [])\<rparr>, Returns ()))"

definition maintenance_follow :: "supervisor_cfg \<Rightarrow> json \<Rightarrow> unit action" where
  "maintenance_follow cfg intent =
     and_then (read_ack cfg intent ''web'') (\<lambda>web_ack.
     if ack_state web_ack = JStr ''pointer_switched''
     then do_all [start_child cfg, write_ack cfg intent ''target_started'']
     else if ack_state web_ack = JStr ''rollback_pending''
     then do_all [stop_child, write_ack cfg intent ''rollback_quiesced'']
     else if ack_state web_ack = JStr ''rollback_pointer_switched''
     then do_all [start_child cfg, write_ack cfg intent ''rollback_started'']
     else ret ())"

definition maintenance_finish :: "supervisor_cfg \<Rightarrow> json \<Rightarrow> json \<Rightarrow> unit action" where
  "maintenance_finish cfg intent intent_id =
     and_then (read_ack cfg intent ''maintenance'') (\<lambda>ack.
     and_then (if ack_state ack \<noteq> JStr ''reconciled'' then reconcile_and_ack cfg intent else ret ()) (\<lambda>_.
     and_then (look su_paused) (\<lambda>paused.
     if JStr paused = intent_id then and_then (start_child cfg) (\<lambda>_. pause_for (JStr []))
     else ret ())))"

primrec maintenance_tick_over :: "supervisor_cfg \<Rightarrow> (string \<times> fs_node) list \<Rightarrow> unit action" where
  "maintenance_tick_over cfg [] = ret ()"
| "maintenance_tick_over cfg (f # fs) =
     and_then (look (\<lambda>s. load_intent cfg (su_clock s) (fst f) (snd f))) (\<lambda>res. case res of
         Inl (Supervisor_error c) \<Rightarrow> maintenance_tick_over cfg fs
       | Inl e \<Rightarrow> raise_exn e
       | Inr intent \<Rightarrow>
           and_then (need ''intent_id'' intent) (\<lambda>intent_id.
           and_then (result_exists cfg intent) (\<lambda>done.
           if done then and_then (maintenance_finish cfg intent intent_id) (\<lambda>_. maintenance_tick_over cfg fs)
           else if app_env cfg = ''production'' then maintenance_tick_over cfg fs
           else and_then (look su_paused) (\<lambda>paused.
             if paused \<noteq> [] \<and> JStr paused \<noteq> intent_id then maintenance_tick_over cfg fs
             else if JStr paused = intent_id then maintenance_follow cfg intent
             else do_all [stop_child, write_ack cfg intent ''quiesced'', pause_for intent_id]))))"

definition maintenance_tick :: "supervisor_cfg \<Rightarrow> unit action" where
  "maintenance_tick cfg = and_then (look su_intents) (maintenance_tick_over cfg)"

text \<open>
  One round of \<^verbatim>\<open>run\<close>: the tick of the role, then the check of the child; \<^term>\<open>True\<close> when the
  supervisor ends because its child exited.
\<close>

definition run_round :: "supervisor_cfg \<Rightarrow> bool action" where
  "run_round cfg =
     and_then (if \<not> activation_enabled cfg then ret ()
       else if sc_role cfg = ''maintenance'' then maintenance_tick cfg else web_tick cfg) (\<lambda>_.
     and_then (look (\<lambda>s. su_child s \<noteq> None \<and> \<not> child_alive s \<and> su_paused s = [])) (\<lambda>ended.
     if ended then ret True else and_then nap (\<lambda>_. ret False)))"

definition run_begin :: "supervisor_cfg \<Rightarrow> unit action" where
  "run_begin cfg =
     do_all [if activation_enabled cfg \<and> app_env cfg = ''staging'' then
         and_then (look (\<lambda>s. (read_runtime_pointer (sup_env cfg) (su_store s) (su_active s),
             initial_activation_enabled cfg \<and> su_active s = None \<and> su_previous s = None))) (\<lambda>(res, fresh).
         case res of Inr active \<Rightarrow> runtime_writable cfg True active
         | Inl (Runtime_control_error c) \<Rightarrow> if fresh then ret () else raise_exn (Runtime_control_error c)
         | Inl e \<Rightarrow> raise_exn e)
       else ret (),
       start_child cfg]"

end
