(* ===== verification/Runtime_Samples.thy ===== *)
theory Runtime_Samples
  imports Runtime_Supervisor
begin

section \<open>A sample runtime\<close>

text \<open>
  A staging deployment with two runtime directories, the pointer to the first, an intent for the
  second, and the quiesced maintenance supervisor. Digests and signatures are constant texts, so that
  the kernel need not render the documents.
\<close>

definition sample_manifest :: "string \<Rightarrow> string" where
  "sample_manifest c = replicate 63 CHR ''0'' @ c"

definition sample_rt_env :: rt_env where
  "sample_rt_env = \<lparr>re_sha = (\<lambda>t. ''aa''), re_mac = (\<lambda>k t. ''bb''), re_repr = (\<lambda>v. []), re_resolve = (\<lambda>p. p),
     re_runtime_root = ''/r'', re_deployment_id = ''d'', re_signing_key = replicate 32 CHR ''k''\<rparr>"

definition sample_cfg :: "string \<Rightarrow> supervisor_cfg" where
  "sample_cfg role = \<lparr>sc_env = sample_rt_env,
     sc_process = \<lparr>pe_activation_enabled = ''1'', pe_initial_enabled = ''0'', pe_app_env = ''staging'',
       pe_deployment_id = ''d''\<rparr>,
     sc_role = role, sc_apply_mode = ''auto'', sc_readiness_timeout = 120, sc_pid = 7\<rparr>"

definition sample_tree :: "string \<Rightarrow> string \<Rightarrow> nat \<Rightarrow> nat \<Rightarrow> fs_node" where
  "sample_tree g m dm fm = Directory dm
     [(''runtime-evidence.json'', Regular fm 1 10 (Some (JObj [(''generation_id'', JStr g), (''manifest_digest'', JStr m)]))),
      (''db.sqlite3'', Regular fm 1 5 None), (''media'', Directory dm []), (''pdf_cache'', Directory dm []),
      (''faiss_indexes'', Directory dm []), (''chroma_db'', Directory dm [])]"

definition sample_store :: runtime_store where
  "sample_store = [''/r/a'' \<mapsto> sample_tree ''gen-a'' (sample_manifest ''a'') 488 416,
     ''/r/b'' \<mapsto> sample_tree ''gen-b'' (sample_manifest ''b'') 360 288]"

definition sample_signed :: "(string \<times> json) list \<Rightarrow> json" where
  "sample_signed kvs = JObj (kvs @ [(''document_digest'', JStr ''aa''), (''signature'', JStr ''bb'')])"

definition sample_pointer :: "string \<Rightarrow> string \<Rightarrow> json" where
  "sample_pointer g c = sample_signed (pointer_payload sample_rt_env (JStr g) (JStr (sample_manifest c)) (''/r/'' @ c)
     (JStr ''aa'') 1 5)"

definition sample_intent :: "string \<Rightarrow> json" where
  "sample_intent mode = sample_signed
     [(''schema_version'', JInt 1), (''kind'', JStr ''activation_intent''), (''intent_id'', JStr ''i1''),
      (''deployment_id'', JStr ''d''), (''target_generation_id'', JStr ''gen-b''),
      (''target_manifest_digest'', JStr (sample_manifest ''b'')), (''target_runtime_path'', JStr ''/r/b''),
      (''previous_generation_id'', JStr ''gen-a''), (''previous_manifest_digest'', JStr (sample_manifest ''a'')),
      (''previous_pointer_digest'', JStr ''aa''), (''activation_mode'', JStr mode),
      (''expires_at_unix'', JInt 1000), (''state_version'', JInt 1)]"

definition sample_file :: "json \<Rightarrow> fs_node option" where
  "sample_file doc = Some (Regular 384 1 900 (Some doc))"

definition sample_ack :: "string \<Rightarrow> string \<Rightarrow> json" where
  "sample_ack role st = sample_signed (ack_payload (sample_cfg role) (JStr ''i1'') (JStr ''aa'') st 5)"

definition sample_world :: "happening list \<Rightarrow> supervisor_state" where
  "sample_world hs = \<lparr>su_active = sample_file (sample_pointer ''gen-a'' ''a''), su_previous = None, su_lock = None,
     su_acks = (\<lambda>_. None)((''i1'', ''maintenance'') := sample_file (sample_ack ''maintenance'' ''quiesced'')),
     su_results = (\<lambda>_. None), su_intents = [], su_store = sample_store,
     su_child = Some \<lparr>ch_alive = True, ch_pid = JInt 3, ch_runtime = None\<rparr>, su_paused = [], su_clock = 10,
     su_happenings = hs\<rparr>"

definition sample_step :: happening where
  "sample_step = Goes 1 [] False JNull"

definition sample_runtime :: "string \<Rightarrow> string \<Rightarrow> resolved_runtime" where
  "sample_runtime g c = \<lparr>rr_generation_id = JStr g, rr_manifest_digest = JStr (sample_manifest c),
     rr_runtime_path = ''/r/'' @ c, rr_pointer_digest = ''aa'', rr_intent_digest = JStr ''aa''\<rparr>"

lemma sample_strip: "py_strip ''d'' = ''d''" "py_lower (py_strip ''staging'') = ''staging''"
  "env_flag ''1''" "\<not> env_flag ''0''" "ascii_text ''aa''" "ascii_text ''bb''"
  by code_simp+

lemma sample_cfg_simps [simp]:
  "sup_env (sample_cfg r) = sample_rt_env" "app_env (sample_cfg r) = ''staging''" "activation_enabled (sample_cfg r)"
  "\<not> initial_activation_enabled (sample_cfg r)" "path_text (sample_cfg r) (JStr k) = k" "sc_role (sample_cfg r) = r"
  "readiness_timeout (sample_cfg r) = 120" "sc_pid (sample_cfg r) = 7"
  by (simp_all add: sup_env_def app_env_def activation_enabled_def initial_activation_enabled_def path_text_def
      readiness_timeout_def sample_cfg_def sample_strip) (simp add: sample_rt_env_def)

lemma sample_manifest_length [simp]: "length (sample_manifest c) = 63 + length c"
  by (simp add: sample_manifest_def)

lemma sample_modes [simp]: "\<not> writable 288" "\<not> writable 360" "writable 488" "writable 416"
  by (simp_all add: writable_def)

lemma sample_walk [simp]:
  "imm \<longrightarrow> \<not> writable dm \<and> \<not> writable fm \<Longrightarrow> walk_error imm (sample_tree g m dm fm) = None"
  by (cases imm) (simp_all add: sample_tree_def)

lemma sample_tree_ok [simp]:
  "imm \<longrightarrow> \<not> writable dm \<and> \<not> writable fm \<Longrightarrow> tree_error imm (JStr g) (JStr m) (sample_tree g m dm fm) = None"
  by (simp add: tree_error_def)
    (simp add: sample_tree_def runtime_evidence_file_def runtime_directories_def max_control_document_bytes_def
      json_get_or_def json_get_def)

lemma sample_is_directory [simp]: "is_directory (Some (sample_tree g m dm fm))"
  by (simp add: sample_tree_def)

lemma sample_chmod [simp]: "chmod_tree w (sample_tree g m dm fm) =
    sample_tree g m (if w then 488 else 360) (if w then 416 else 288)"
  by (simp add: sample_tree_def)

lemma sample_contained [simp]: "contained_runtime_path sample_rt_env st (CHR ''/'' # CHR ''r'' # CHR ''/'' # c) =
    (if is_directory (st (''/r/'' @ c)) then Inr (''/r/'' @ c) else Inl (Runtime_control_error ''runtime_workspace_unsafe''))"
  by (simp add: contained_runtime_path_def sample_rt_env_def Let_def require_def)

lemma sample_verified [simp]:
  assumes "map_of kvs ''schema_version'' = Some (JInt 1)" "map_of kvs ''kind'' = Some (JStr kind)"
    "map_of kvs ''deployment_id'' = Some (JStr ''d'')" "''document_digest'' \<notin> fst ` set kvs" "''signature'' \<notin> fst ` set kvs"
  shows "verify_document sample_rt_env kind (sample_signed kvs) = Inr ''aa''"
proof -
  have "map_of kvs ''document_digest'' = None" "map_of kvs ''signature'' = None"
    using assms(4,5) by (simp_all add: map_of_eq_None_iff)
  then show ?thesis using assms(1-3)
    by (simp add: verify_document_def sample_signed_def signature_valid_def same_digest_def document_digest_def
        json_get_or_def json_get_def map_add_def sample_strip sample_rt_env_def Let_def)
qed

lemma sample_pointer_read [simp]:
  assumes "st (''/r/'' @ c) = Some (sample_tree g (sample_manifest c) dm fm)" "length c = 1" "g \<noteq> []"
  shows "read_runtime_pointer sample_rt_env st (sample_file (sample_pointer g c)) = Inr (sample_runtime g c)"
proof -
  have v: "verify_document sample_rt_env ''runtime_pointer'' (sample_pointer g c) = Inr ''aa''"
    unfolding sample_pointer_def
    by (rule sample_verified) (simp_all add: pointer_payload_def, simp_all add: sample_rt_env_def)
  have f: "json_get ''generation_id'' (sample_pointer g c) = Some (JStr g)"
    "json_get ''manifest_digest'' (sample_pointer g c) = Some (JStr (sample_manifest c))"
    "json_get ''runtime_path'' (sample_pointer g c) = Some (JStr (''/r/'' @ c))"
    "json_get ''intent_digest'' (sample_pointer g c) = Some (JStr ''aa'')"
    by (simp_all add: sample_pointer_def sample_signed_def pointer_payload_def json_get_def) (simp add: sample_rt_env_def)
  have "read_json (sample_file (sample_pointer g c)) = Inr (sample_pointer g c)"
    by (simp add: sample_file_def max_control_document_bytes_def sample_pointer_def sample_signed_def)
  then show ?thesis using assms v f
    by (simp add: read_runtime_pointer_def json_get_or_def pointer_shape_def validate_runtime_workspace_def
        sample_runtime_def Let_def)
qed

lemma sample_store_simps [simp]:
  "sample_store ''/r/a'' = Some (sample_tree ''gen-a'' (sample_manifest ''a'') 488 416)"
  "sample_store ''/r/b'' = Some (sample_tree ''gen-b'' (sample_manifest ''b'') 360 288)"
  by (simp_all add: sample_store_def)

lemma sample_intent_simps [simp]:
  "json_get ''intent_id'' (sample_intent mode) = Some (JStr ''i1'')"
  "json_get ''document_digest'' (sample_intent mode) = Some (JStr ''aa'')"
  "json_get ''target_generation_id'' (sample_intent mode) = Some (JStr ''gen-b'')"
  "json_get ''target_manifest_digest'' (sample_intent mode) = Some (JStr (sample_manifest ''b''))"
  "json_get ''target_runtime_path'' (sample_intent mode) = Some (JStr ''/r/b'')"
  "json_get ''previous_generation_id'' (sample_intent mode) = Some (JStr ''gen-a'')"
  "json_get ''previous_pointer_digest'' (sample_intent mode) = Some (JStr ''aa'')"
  "json_get ''activation_mode'' (sample_intent mode) = Some (JStr mode)"
  "json_get ''state_version'' (sample_intent mode) = Some (JInt 1)"
  by (simp_all add: sample_intent_def sample_signed_def json_get_def)

lemma sample_ack_read [simp]:
  "read_signed_document sample_rt_env ''activation_ack'' (sample_file (sample_ack role st)) = Inr (sample_ack role st)"
  "json_get ''intent_id'' (sample_ack role st) = Some (JStr ''i1'')"
  "json_get ''intent_digest'' (sample_ack role st) = Some (JStr ''aa'')"
  "json_get ''role'' (sample_ack role st) = Some (JStr role)"
  "json_get ''state'' (sample_ack role st) = Some (JStr st)"
proof -
  have "verify_document sample_rt_env ''activation_ack'' (sample_ack role st) = Inr ''aa''"
    unfolding sample_ack_def by (rule sample_verified) (simp_all add: ack_payload_def, simp_all add: sample_rt_env_def)
  then show "read_signed_document sample_rt_env ''activation_ack'' (sample_file (sample_ack role st)) = Inr (sample_ack role st)"
    by (simp add: read_signed_document_def sample_file_def sample_ack_def sample_signed_def max_control_document_bytes_def)
qed (simp_all add: sample_ack_def sample_signed_def ack_payload_def json_get_def)

lemma sample_sign [simp]:
  "''document_digest'' \<notin> fst ` set kvs \<Longrightarrow> ''signature'' \<notin> fst ` set kvs \<Longrightarrow>
     sign_document sample_rt_env kvs = Inr (sample_signed kvs)"
  by (simp add: sign_document_def json_merge_def sample_signed_def update_absent sample_rt_env_def
      document_digest_def Let_def)

lemma sample_document_read [simp]:
  "read_signed_document sample_rt_env ''runtime_pointer'' (sample_file (sample_pointer g c)) = Inr (sample_pointer g c)"
proof -
  have "verify_document sample_rt_env ''runtime_pointer'' (sample_pointer g c) = Inr ''aa''"
    unfolding sample_pointer_def
    by (rule sample_verified) (simp_all add: pointer_payload_def, simp_all add: sample_rt_env_def)
  then show ?thesis
    by (simp add: read_signed_document_def sample_file_def max_control_document_bytes_def sample_pointer_def sample_signed_def)
qed

lemma no_document [simp]:
  "read_signed_document e k None = Inl (Runtime_control_error ''control_document_missing'')"
  "read_runtime_pointer e st None = Inl (Runtime_control_error ''control_document_missing'')"
  by (simp_all add: read_signed_document_def read_runtime_pointer_def)

lemma sample_world_simps [simp]:
  "su_active (sample_world hs) = sample_file (sample_pointer ''gen-a'' ''a'')" "su_previous (sample_world hs) = None"
  "su_lock (sample_world hs) = None" "su_store (sample_world hs) = sample_store" "su_clock (sample_world hs) = 10"
  "su_happenings (sample_world hs) = hs" "su_results (sample_world hs) = (\<lambda>_. None)"
  "su_child (sample_world hs) = Some \<lparr>ch_alive = True, ch_pid = JInt 3, ch_runtime = None\<rparr>"
  "su_acks (sample_world hs) = (\<lambda>_. None)((''i1'', ''maintenance'') := sample_file (sample_ack ''maintenance'' ''quiesced''))"
  by (simp_all add: sample_world_def)

lemma sample_payload_keys [simp]:
  "''document_digest'' \<notin> fst ` set (ack_payload c i d st now)" "''signature'' \<notin> fst ` set (ack_payload c i d st now)"
  "''document_digest'' \<notin> fst ` set (pointer_payload e g m p i v now)" "''signature'' \<notin> fst ` set (pointer_payload e g m p i v now)"
  by (simp_all add: ack_payload_def pointer_payload_def)

lemma sample_runtime_simps [simp]:
  "rr_generation_id (sample_runtime g c) = JStr g" "rr_manifest_digest (sample_runtime g c) = JStr (sample_manifest c)"
  "rr_runtime_path (sample_runtime g c) = ''/r/'' @ c" "rr_pointer_digest (sample_runtime g c) = ''aa''"
  "rr_intent_digest (sample_runtime g c) = JStr ''aa''"
  by (simp_all add: sample_runtime_def)

lemma sample_signed_get: "json_get k (sample_signed kvs) =
    map_of (kvs @ [(''document_digest'', JStr ''aa''), (''signature'', JStr ''bb'')]) k"
  by (simp add: sample_signed_def json_get_def)

lemmas sample_run_defs = apply_intent_def apply_current_def maintenance_acknowledged_def read_ack_def ack_state_def
  write_ack_def need_def with_target_def check_workspace_def may_apply_def pre_cutover_lock_def
  acquire_or_resume_pre_cutover_lock_def acquire_lock_def under_lock_def assert_cutover_authority_def
  pointer_document_def current_pointer_def previous_pointer_def cut_over_or_back_def cut_over_def stop_child_def
  runtime_writable_def target_writable_def set_writable_def write_previous_def write_active_def
  write_target_pointer_def change_def effect_def ret_def raise_exn_def and_then_def handle_exn_def finally_do_def
  look_def checked_def do_all.simps child_alive_def chmod_workspace_def pass_def validate_runtime_workspace_def
  build_runtime_pointer_def json_get_or_def Let_def

end
