(* ===== verification/Runtime_Supervisor_Safety.thy ===== *)
theory Runtime_Supervisor_Safety
  imports Runtime_Samples
begin

section \<open>What a cutover guarantees\<close>

text \<open>
  A small calculus for the actions, and with it what holds of the pointer files and the result after
  any run of an intent, whatever fails on the way and wherever the process dies.
\<close>

subsection \<open>Rules\<close>

text \<open>
  \<open>ensures P m Q I\<close>: started where \<open>P\<close> holds, \<open>m\<close> returns where \<open>Q\<close> holds, or raises or dies where \<open>I\<close>
  holds. \<open>keeps f m\<close>: however \<open>m\<close> ends, what \<open>f\<close> sees is as it was.
\<close>

definition ensures ::
  "(supervisor_state \<Rightarrow> bool) \<Rightarrow> 'a action \<Rightarrow> ('a \<Rightarrow> supervisor_state \<Rightarrow> bool) \<Rightarrow> (supervisor_state \<Rightarrow> bool) \<Rightarrow> bool" where
  "ensures P m Q I \<longleftrightarrow> (\<forall>s. P s \<longrightarrow> (case m s of (t, Returns x) \<Rightarrow> Q x t | (t, _) \<Rightarrow> I t))"

definition keeps :: "(supervisor_state \<Rightarrow> 'b) \<Rightarrow> 'a action \<Rightarrow> bool" where
  "keeps f m \<longleftrightarrow> (\<forall>s. f (fst (m s)) = f s)"

named_theorems keeps_intros \<open>actions that keep what an observation sees\<close>

declare do_all.simps [simp del]

lemmas action_defs = ret_def raise_exn_def and_then_def handle_exn_def finally_do_def look_def checked_def

lemma ensuresI:
  assumes "\<And>s t x. P s \<Longrightarrow> m s = (t, Returns x) \<Longrightarrow> Q x t"
    "\<And>s t e. P s \<Longrightarrow> m s = (t, Raises e) \<Longrightarrow> I t" "\<And>s t. P s \<Longrightarrow> m s = (t, Dies) \<Longrightarrow> I t"
  shows "ensures P m Q I"
  using assms by (fastforce simp: ensures_def split: prod.splits outcome.splits)

lemma ensures_weaken:
  assumes "ensures P m Q I" "\<And>s. P' s \<Longrightarrow> P s" "\<And>x s. Q x s \<Longrightarrow> Q' x s" "\<And>s. I s \<Longrightarrow> I' s"
  shows "ensures P' m Q' I'"
  using assms by (fastforce simp: ensures_def split: prod.splits outcome.splits)

lemma ensures_and_then:
  assumes "ensures P m Q I" "\<And>x. ensures (Q x) (f x) R I"
  shows "ensures P (and_then m f) R I"
  using assms by (fastforce simp: ensures_def and_then_def split: prod.splits outcome.splits)

lemma ensures_handle:
  assumes "ensures P m Q I" "\<And>e. ensures I (h e) Q I"
  shows "ensures P (handle_exn m h) Q I"
  using assms by (fastforce simp: ensures_def handle_exn_def split: prod.splits outcome.splits)

lemma ensures_ret: "(\<And>s. P s \<Longrightarrow> Q x s) \<Longrightarrow> ensures P (ret x) Q I"
  by (simp add: ensures_def ret_def)

lemma ensures_then_ret: "ensures P m (\<lambda>_. R) I \<Longrightarrow> ensures P (and_then m (\<lambda>_. ret x)) (\<lambda>_. R) I"
  by (rule ensures_and_then) (auto intro: ensures_ret)

lemma ensures_absurd: "(\<And>s. \<not> P s) \<Longrightarrow> ensures P m Q I"
  by (simp add: ensures_def)

lemma ensures_raise: "(\<And>s. P s \<Longrightarrow> I s) \<Longrightarrow> ensures P (raise_exn e) Q I"
  by (simp add: ensures_def raise_exn_def)

lemma ensures_checked:
  assumes "\<And>s x. P s \<Longrightarrow> g s = Inr x \<Longrightarrow> Q x s" "\<And>s. P s \<Longrightarrow> I s"
  shows "ensures P (checked g) Q I"
  using assms by (auto simp: ensures_def checked_def split: sum.splits)

text \<open>What was read is a fact for the rest of the sequence.\<close>

lemma ensures_fetch:
  assumes "\<And>s x. g s = Inr x \<Longrightarrow> ensures P (f x) R I" "\<And>s. P s \<Longrightarrow> I s"
  shows "ensures P (and_then (checked g) f) R I"
  using assms by (fastforce simp: ensures_def and_then_def checked_def split: sum.splits)

lemma ensures_look: "(\<And>s. P s \<Longrightarrow> Q (g s) s) \<Longrightarrow> ensures P (look g) Q I"
  by (simp add: ensures_def look_def)

lemma keepsI: "(\<And>s t r. m s = (t, r) \<Longrightarrow> f t = f s) \<Longrightarrow> keeps f m"
  by (simp add: keeps_def) (metis prod.collapse)

lemma keepsD: "keeps f m \<Longrightarrow> m s = (t, r) \<Longrightarrow> f t = f s"
  by (metis fst_conv keeps_def)

lemma and_thenE:
  assumes "and_then m g s = (u, r)"
  obtains (returns) t x where "m s = (t, Returns x)" "g x t = (u, r)"
  | (raises) e where "m s = (u, Raises e)" "r = Raises e"
  | (dies) "m s = (u, Dies)" "r = Dies"
  using assms by (auto simp: and_then_def split: prod.splits outcome.splits)

lemma handle_exnE:
  assumes "handle_exn m h s = (u, r)"
  obtains (returns) x where "m s = (u, Returns x)" "r = Returns x"
  | (raises) t e where "m s = (t, Raises e)" "h e t = (u, r)"
  | (dies) "m s = (u, Dies)" "r = Dies"
  using assms by (auto simp: handle_exn_def split: prod.splits outcome.splits)

lemma finally_doE:
  assumes "finally_do m g s = (u, r)"
  obtains (dies) "m s = (u, Dies)" "r = Dies"
  | (ends) t q r' where "m s = (t, q)" "q \<noteq> Dies" "g t = (u, r')"
      "r = (case r' of Returns _ \<Rightarrow> q | Raises e \<Rightarrow> Raises e | Dies \<Rightarrow> Dies)"
  using assms by (auto simp: finally_do_def split: prod.splits outcome.splits)

text \<open>An action that keeps an observation ensures what that observation is known to satisfy.\<close>

lemma keeps_ensures: "keeps f m \<Longrightarrow> ensures (\<lambda>s. p (f s)) m (\<lambda>_ s. p (f s)) (\<lambda>s. p (f s))"
  by (rule ensuresI) (metis fst_conv keeps_def)+

lemma keeps_simps [keeps_intros]:
  "keeps f (ret x)" "keeps f (raise_exn e)" "keeps f (look g)" "keeps f (checked c)"
  "keeps f (need k doc)"
  by (simp_all add: keeps_def action_defs need_def)

lemma keeps_and_then [keeps_intros]:
  "keeps f m \<Longrightarrow> (\<And>x. keeps f (g x)) \<Longrightarrow> keeps f (and_then m g)"
  by (rule keepsI, erule and_thenE) (metis keepsD)+

lemma keeps_handle [keeps_intros]:
  "keeps f m \<Longrightarrow> (\<And>e. keeps f (h e)) \<Longrightarrow> keeps f (handle_exn m h)"
  by (rule keepsI, erule handle_exnE) (metis keepsD)+

lemma keeps_finally [keeps_intros]: "keeps f m \<Longrightarrow> keeps f g \<Longrightarrow> keeps f (finally_do m g)"
  by (rule keepsI, erule finally_doE) (metis keepsD)+

lemma keeps_do_all [keeps_intros]: "(\<And>a. a \<in> set as \<Longrightarrow> keeps f a) \<Longrightarrow> keeps f (do_all as)"
  by (induction as) (simp_all add: do_all.simps keeps_simps keeps_and_then)

lemma keeps_if [keeps_intros]:
  "(b \<Longrightarrow> keeps f m) \<Longrightarrow> (\<not> b \<Longrightarrow> keeps f n) \<Longrightarrow> keeps f (if b then m else n)"
  by simp

text \<open>A sequence of actions that keep the observation, but for one in the middle.\<close>

lemma ensures_do_all_Nil: "(\<And>s. P s \<Longrightarrow> R s) \<Longrightarrow> ensures P (do_all []) (\<lambda>_. R) I"
  by (simp add: do_all.simps ensures_ret)

lemma ensures_do_all_Cons:
  assumes "ensures P a (\<lambda>_. Q) I" "ensures Q (do_all as) (\<lambda>_. R) I"
  shows "ensures P (do_all (a # as)) (\<lambda>_. R) I"
  using assms by (simp add: do_all.simps ensures_and_then)

lemma ensures_do_one: "ensures P a (\<lambda>_. R) I \<Longrightarrow> ensures P (do_all [a]) (\<lambda>_. R) I"
  by (rule ensures_do_all_Cons [OF _ ensures_do_all_Nil])

subsection \<open>What the steps leave alone\<close>

text \<open>
  An observation of the deployment does not see the passing of time, the acknowledgements or the child.
  Everything but the lock, the modes in the runtime store, the pointers and the result keeps it.
\<close>

locale observation =
  fixes f :: "supervisor_state \<Rightarrow> 'b"
  assumes unseen: "f (pass d acks exits (s\<lparr>su_happenings := hs\<rparr>)) = f s" "f (s\<lparr>su_happenings := hs\<rparr>) = f s"
    "f (s\<lparr>su_acks := a\<rparr>) = f s" "f (s\<lparr>su_child := c\<rparr>) = f s"
begin

lemma keeps_effect:
  assumes "\<And>a s t. g a s = Inr t \<Longrightarrow> f t = f s"
  shows "keeps f (effect g)"
proof (rule keepsI)
  fix s t r
  assume e: "effect g s = (t, r)"
  have after: "f (case g a u of Inl _ \<Rightarrow> u | Inr t \<Rightarrow> t) = f u" for a u
    using assms [of a u] by (cases "g a u") auto
  show "f t = f s"
  proof (cases "su_happenings s")
    case Nil
    then show ?thesis using e by (simp add: effect_def)
  next
    case (Cons h hs)
    show ?thesis
    proof (cases h)
      case (Goes d acks exits answer)
      let ?u = "pass d acks exits (s\<lparr>su_happenings := hs\<rparr>)"
      have "t = (case g answer ?u of Inl _ \<Rightarrow> ?u | Inr t \<Rightarrow> t)"
        using e Cons Goes by (auto simp: effect_def Let_def split: sum.splits)
      then show ?thesis by (simp add: after unseen)
    next
      case (Breaks x ran)
      let ?u = "s\<lparr>su_happenings := hs\<rparr>"
      have "t = (if ran then (case g JNull ?u of Inl _ \<Rightarrow> ?u | Inr t \<Rightarrow> t) else ?u)"
        using e Cons Breaks by (simp add: effect_def Let_def)
      then show ?thesis by (simp add: after unseen)
    next
      case Killed
      then show ?thesis using e Cons by (auto simp: effect_def unseen)
    qed
  qed
qed

lemma keeps_change: "(\<And>s. f (g s) = f s) \<Longrightarrow> keeps f (change g)"
  unfolding change_def by (intro keeps_intros keeps_effect) auto

lemma keeps_child: "keeps f stop_child" "keeps f (start_child cfg)" "keeps f nap" "keeps f (run_manage cfg)"
  "keeps f http_json"
  unfolding stop_child_def start_child_def nap_def run_manage_def http_json_def resolved_process_environment_def
  by (auto intro!: keeps_intros keeps_change keeps_effect simp: unseen split: json.splits)

lemma keeps_acks: "keeps f (write_ack cfg intent st)" "keeps f (read_ack cfg intent role)"
  unfolding write_ack_def read_ack_def
  by (auto intro!: keeps_intros keeps_change simp: unseen split: sum.splits rt_exn.splits)

lemma keeps_wait_rounds: "keeps f (wait_rounds n cfg intent st deadline)"
  by (induction n) (auto intro!: keeps_intros keeps_acks keeps_child simp: keeps_def [of f "\<lambda>s. (s, Dies)"])

lemma keeps_ready_rounds: "keeps f (ready_rounds n g m deadline code)"
  by (induction n arbitrary: code)
    (auto intro!: keeps_intros keeps_child simp: probe_def keeps_def [of f "\<lambda>s. (s, Dies)"]
      split: option.splits rt_exn.splits)

lemma keeps_waits: "keeps f (wait_maintenance_state cfg intent st)" "keeps f (wait_ready cfg g m)"
  unfolding wait_maintenance_state_def wait_ready_def
  by (auto intro!: keeps_intros keeps_wait_rounds keeps_ready_rounds)

lemma keeps_reconcile: "keeps f (reconcile_and_ack cfg intent)"
  unfolding reconcile_and_ack_def reconcile_result_best_effort_def
  by (auto intro!: keeps_intros keeps_child keeps_acks split: rt_exn.splits)

lemma keeps_guards: "keeps f (maintenance_acknowledged cfg intent)" "keeps f (may_apply cfg intent)"
  "keeps f (current_pointer cfg)" "keeps f (previous_pointer cfg)" "keeps f (pointer_document cfg file)"
  "keeps f (verify_runtime cfg intent)" "keeps f (assert_cutover_authority cfg intent resumed)"
  "keeps f (has_same_intent_applying_lock cfg intent)" "keeps f (rollback_admissible cfg intent cur)"
  "keeps f (check_workspace cfg w p g m)"
  unfolding maintenance_acknowledged_def may_apply_def current_pointer_def previous_pointer_def check_workspace_def
    pointer_document_def verify_runtime_def assert_cutover_authority_def rollback_admissible_def
    has_same_intent_applying_lock_def lock_owner_def
  by (auto intro!: keeps_intros keeps_acks keeps_child split: option.splits sum.splits rt_exn.splits json.splits)

lemmas keeps_around = keeps_child keeps_acks keeps_waits keeps_reconcile keeps_guards

end

text \<open>An observation of the files alone sees neither the lock nor the runtime store.\<close>

locale file_observation = observation f for f :: "supervisor_state \<Rightarrow> 'b" +
  assumes unseen_files: "f (s\<lparr>su_lock := l\<rparr>) = f s" "f (s\<lparr>su_store := st\<rparr>) = f s"
begin

lemma keeps_writable: "keeps f (set_writable cfg w p g m)" "keeps f (target_writable cfg intent w)"
  "keeps f (runtime_writable cfg w cur)"
  unfolding set_writable_def target_writable_def runtime_writable_def with_target_def
  by (auto intro!: keeps_intros keeps_change keeps_guards simp: unseen_files)

lemma keeps_lock: "keeps f (acquire_lock cfg intent)" "keeps f (release_lock cfg intent)"
  "keeps f (claim_recovery_lock cfg intent)" "keeps f (acquire_or_resume_pre_cutover_lock cfg intent)"
  "keeps f (pre_cutover_lock cfg intent)"
  unfolding acquire_lock_def release_lock_def claim_recovery_lock_def acquire_or_resume_pre_cutover_lock_def
    pre_cutover_lock_def lock_owner_def
  by (auto intro!: keeps_intros keeps_change keeps_effect keeps_acks simp: unseen_files
      split: option.splits json.splits if_splits rt_exn.splits)

lemmas keeps_all = keeps_around keeps_writable keeps_lock

end

subsection \<open>The files of one intent\<close>

definition files_of :: "string \<Rightarrow> supervisor_state \<Rightarrow> fs_node option \<times> fs_node option \<times> fs_node option" where
  "files_of k s = (su_active s, su_previous s, su_results s k)"

interpretation files: file_observation "files_of k" for k
  by unfold_locales (simp_all add: files_of_def pass_def)

lemma change_cases:
  assumes "change g s = (t, r)"
  obtains (kept) "files_of k t = files_of k s" "r \<noteq> Returns ()"
  | (made) u where "files_of k u = files_of k s" "t = g u"
proof (cases "su_happenings s")
  case Nil
  then show thesis using assms kept by (simp add: change_def effect_def and_then_def)
next
  case (Cons h hs)
  let ?s = "s\<lparr>su_happenings := hs\<rparr>"
  show thesis
  proof (cases h)
    case (Goes d acks exits answer)
    then have "t = g (pass d acks exits ?s)"
      using assms Cons by (simp add: change_def effect_def and_then_def ret_def Let_def)
    then show thesis by (intro made [of "pass d acks exits ?s"]) (simp_all add: files_of_def pass_def)
  next
    case (Breaks e ran)
    then have t: "t = (if ran then g ?s else ?s)" "r = Raises e"
      using assms Cons by (simp_all add: change_def effect_def and_then_def Let_def split: if_splits)
    show thesis
    proof (cases ran)
      case True
      then show thesis using t by (intro made [of ?s]) (simp_all add: files_of_def)
    next
      case False
      then show thesis using t by (intro kept) (simp_all add: files_of_def)
    qed
  next
    case Killed
    then show thesis using assms Cons kept by (auto simp: change_def effect_def and_then_def files_of_def)
  qed
qed

lemma ensures_write:
  assumes "\<And>u. P (files_of k u) \<Longrightarrow> Q (files_of k (g u))" "\<And>x. P x \<Longrightarrow> I x" "\<And>x. Q x \<Longrightarrow> I x"
  shows "ensures (\<lambda>s. P (files_of k s)) (change g) (\<lambda>_ s. Q (files_of k s)) (\<lambda>s. I (files_of k s))"
proof (rule ensuresI)
  fix s t x
  assume "P (files_of k s)" "change g s = (t, Returns x)"
  then show "Q (files_of k t)" using assms(1) by (elim change_cases [of g s t _ k]) auto
next
  fix s t e
  assume "P (files_of k s)" "change g s = (t, Raises e)"
  then show "I (files_of k t)" using assms by (elim change_cases [of g s t _ k]) auto
next
  fix s t
  assume "P (files_of k s)" "change g s = (t, Dies)"
  then show "I (files_of k t)" using assms by (elim change_cases [of g s t _ k]) auto
qed

lemma ensures_keeps:
  "keeps (files_of k) m \<Longrightarrow> (\<And>x. P x \<Longrightarrow> I x) \<Longrightarrow>
     ensures (\<lambda>s. P (files_of k s)) m (\<lambda>_ s. P (files_of k s)) (\<lambda>s. I (files_of k s))"
  by (rule ensures_weaken [OF keeps_ensures [of "files_of k" m P]]) auto

text \<open>Reading a pointer: what the file holds.\<close>

lemma read_json_Inr: "read_json file = Inr doc \<Longrightarrow> file_document file = Some doc"
  by (auto simp: file_document_def elim!: read_json.elims split: if_splits option.splits json.splits)

lemma read_signed_Inr: "read_signed_document env kind file = Inr doc \<Longrightarrow> file_document file = Some doc"
  by (auto simp: read_signed_document_def dest: read_json_Inr)

lemma read_pointer_Inr:
  assumes "read_runtime_pointer env store file = Inr p"
  obtains doc where "file_document file = Some doc" "rr_generation_id p = json_get_or ''generation_id'' (JStr []) doc"
    "rr_manifest_digest p = json_get_or ''manifest_digest'' (JStr []) doc"
    "verify_document env ''runtime_pointer'' doc = Inr (rr_pointer_digest p)"
    "rr_intent_digest p = json_get_or ''intent_digest'' JNull doc"
  using assms by (auto simp: read_runtime_pointer_def Let_def dest: read_json_Inr)

lemma written_document [simp]: "file_document (Some (written_json doc)) = Some doc"
  by (simp add: file_document_def written_json_def)

lemma update_map_of: "map_of (AList.update k v xs) k' = (if k' = k then Some v else map_of xs k')"
  by (simp add: update_conv')

lemma signed_fields:
  assumes "sign_document env payload = Inr doc"
  shows "k \<notin> {''document_digest'', ''signature''} \<Longrightarrow> json_get k doc = map_of payload k"
    and "json_get ''document_digest'' doc = Some (JStr (document_digest env payload))"
  using assms by (auto simp: sign_document_def json_merge_def json_get_def update_map_of Let_def)

text \<open>
  \<open>holds d\<close>: the file carries the pointer document \<open>d\<close>. \<open>targets\<close>: it carries the pointer that the
  intent's cutover writes. \<open>truthful\<close>: what a result says of the active runtime. \<open>authority_kept\<close> ties
  the three: the active pointer is the old one or the intent's target, and while it is the target the
  previous pointer is the old one.
\<close>

definition holds :: "json \<Rightarrow> fs_node option \<Rightarrow> bool" where
  "holds d file \<longleftrightarrow> file_document file = Some d"

definition targets :: "json \<Rightarrow> fs_node option \<Rightarrow> bool" where
  "targets intent file \<longleftrightarrow> (\<exists>doc. file_document file = Some doc
     \<and> json_get ''generation_id'' doc = json_get ''target_generation_id'' intent
     \<and> json_get ''manifest_digest'' doc = json_get ''target_manifest_digest'' intent
     \<and> json_get ''intent_digest'' doc = json_get ''document_digest'' intent)"

definition result_says :: "string \<Rightarrow> fs_node option \<Rightarrow> json \<Rightarrow> bool" where
  "result_says status file generation_id \<longleftrightarrow> (\<exists>res. file_document file = Some res
     \<and> json_get ''status'' res = Some (JStr status) \<and> json_get ''active_generation_id'' res = Some generation_id)"

definition truthful :: "json \<Rightarrow> json \<Rightarrow> fs_node option \<Rightarrow> fs_node option \<Rightarrow> fs_node option \<Rightarrow> bool" where
  "truthful d intent active previous res \<longleftrightarrow>
     (\<forall>g. result_says ''committed'' res g \<longrightarrow> Some g = json_get ''target_generation_id'' intent \<and> holds d previous) \<and>
     (\<forall>g. result_says ''rolled_back'' res g \<longrightarrow> g = json_get_or ''generation_id'' (JStr []) d \<and> holds d active)"

definition pointers_kept :: "json \<Rightarrow> fs_node option \<Rightarrow> json \<Rightarrow> fs_node option \<Rightarrow> fs_node option \<Rightarrow> bool" where
  "pointers_kept d p0 intent active previous \<longleftrightarrow>
     holds d active \<and> (previous = p0 \<or> holds d previous) \<or> targets intent active \<and> holds d previous"

definition authority_kept ::
  "json \<Rightarrow> fs_node option \<Rightarrow> json \<Rightarrow> fs_node option \<times> fs_node option \<times> fs_node option \<Rightarrow> bool" where
  "authority_kept d p0 intent = (\<lambda>(active, previous, res).
     pointers_kept d p0 intent active previous \<and> truthful d intent active previous res)"

lemma ensures_do_keeps:
  assumes "\<And>a. a \<in> set as \<Longrightarrow> keeps (files_of k) a" "\<And>x. P x \<Longrightarrow> I x"
    "ensures (\<lambda>s. P (files_of k s)) (do_all bs) (\<lambda>_ s. R (files_of k s)) (\<lambda>s. I (files_of k s))"
  shows "ensures (\<lambda>s. P (files_of k s)) (do_all (as @ bs)) (\<lambda>_ s. R (files_of k s)) (\<lambda>s. I (files_of k s))"
  using assms(1)
proof (induction as)
  case Nil
  then show ?case using assms(3) by simp
next
  case (Cons a as)
  have "ensures (\<lambda>s. P (files_of k s)) a (\<lambda>_ s. P (files_of k s)) (\<lambda>s. I (files_of k s))"
    by (rule ensures_keeps) (use Cons.prems assms(2) in auto)
  moreover have "ensures (\<lambda>s. P (files_of k s)) (do_all (as @ bs)) (\<lambda>_ s. R (files_of k s)) (\<lambda>s. I (files_of k s))"
    using Cons.IH Cons.prems by simp
  ultimately show ?case unfolding append_Cons by (rule ensures_do_all_Cons)
qed

text \<open>Where the target's pointer has been written and no result yet.\<close>

definition target_written :: "json \<Rightarrow> json \<Rightarrow> fs_node option \<times> fs_node option \<times> fs_node option \<Rightarrow> bool" where
  "target_written d intent = (\<lambda>(active, previous, res).
     targets intent active \<and> holds d previous \<and> (\<forall>g st. \<not> result_says st res g))"

lemma write_target_ensures:
  assumes "\<And>a p r. P (a, p, r) \<Longrightarrow> holds d p \<and> (\<forall>g st. \<not> result_says st r g)"
    "\<And>x. P x \<Longrightarrow> authority_kept d p0 intent x"
  shows "ensures (\<lambda>s. P (files_of k s)) (write_target_pointer cfg intent)
    (\<lambda>_ s. target_written d intent (files_of k s)) (\<lambda>s. authority_kept d p0 intent (files_of k s))"
  unfolding write_target_pointer_def with_target_def need_def write_active_def
proof (intro ensures_fetch)
  fix s path s1 g s2 m s3 digest s4 version s5 doc
  assume f: "of_option (Key_missing ''target_generation_id'') (json_get ''target_generation_id'' intent) = Inr g"
    "of_option (Key_missing ''target_manifest_digest'') (json_get ''target_manifest_digest'' intent) = Inr m"
    "of_option (Key_missing ''document_digest'') (json_get ''document_digest'' intent) = Inr digest"
    "build_runtime_pointer (sup_env cfg) g m path digest version (su_clock s5) = Inr doc"
  then have new: "targets intent (Some (written_json doc))"
    by (auto simp: build_runtime_pointer_def targets_def signed_fields pointer_payload_def split: json.splits)
  show "ensures (\<lambda>s. P (files_of k s)) (change (su_active_update (\<lambda>_. Some (written_json doc))))
     (\<lambda>_ s. target_written d intent (files_of k s)) (\<lambda>s. authority_kept d p0 intent (files_of k s))"
  proof (rule ensures_write)
    show "target_written d intent (files_of k (u\<lparr>su_active := Some (written_json doc)\<rparr>))" if "P (files_of k u)" for u
      using assms(1) that new by (auto simp: files_of_def target_written_def)
    show "authority_kept d p0 intent x" if "target_written d intent x" for x
      using that by (auto simp: target_written_def authority_kept_def pointers_kept_def truthful_def)
  qed (rule assms(2))
qed (use assms(2) in auto)

lemma and_then_assoc: "and_then (and_then m f) g = and_then m (\<lambda>x. and_then (f x) g)"
  by (rule ext) (auto simp: and_then_def split: prod.splits outcome.splits)

lemma ensures_read:
  assumes "\<And>x. ensures (\<lambda>s. P s \<and> g s = Inr x) (f x) R I" "\<And>s. P s \<Longrightarrow> I s"
  shows "ensures P (and_then (checked g) f) R I"
  using assms by (fastforce simp: ensures_def and_then_def checked_def split: sum.splits)

lemma and_then_checked: "g s = Inr x \<Longrightarrow> and_then (checked g) f s = f x s"
  by (simp add: and_then_def checked_def)

definition keyed :: "supervisor_cfg \<Rightarrow> json \<Rightarrow> string \<Rightarrow> bool" where
  "keyed cfg intent k \<longleftrightarrow> (\<forall>v. json_get ''intent_id'' intent = Some v \<longrightarrow> path_text cfg v = k)"

lemma put_result_ensures:
  assumes "keyed cfg intent k"
    "\<And>a p r r'. P (a, p, r) \<Longrightarrow> (\<And>st g. result_says st r' g \<Longrightarrow> st = rf_status rf \<and> g = rf_generation_id rf) \<Longrightarrow> Q (a, p, r')"
    "\<And>x. P x \<Longrightarrow> I x" "\<And>x. Q x \<Longrightarrow> I x"
  shows "ensures (\<lambda>s. P (files_of k s)) (put_result cfg intent rf) (\<lambda>_ s. Q (files_of k s)) (\<lambda>s. I (files_of k s))"
  unfolding put_result_def need_def
proof (intro ensures_fetch)
  fix s iid s1 digest s2 doc
  assume f: "of_option (Key_missing ''intent_id'') (json_get ''intent_id'' intent) = Inr iid"
    "sign_document (sup_env cfg) (result_payload cfg iid digest (child_pid s2) (su_clock s2) rf) = Inr doc"
  then have k: "path_text cfg iid = k" using assms(1) by (simp add: keyed_def)
  have doc: "st = rf_status rf \<and> g = rf_generation_id rf" if "result_says st (Some (written_json doc)) g" for st g
    using that signed_fields(1) [OF f(2)] by (auto simp: result_says_def result_payload_def)
  show "ensures (\<lambda>s. P (files_of k s))
      (change (\<lambda>s. s\<lparr>su_results := (su_results s)(path_text cfg iid := Some (written_json doc))\<rparr>))
      (\<lambda>_ s. Q (files_of k s)) (\<lambda>s. I (files_of k s))"
  proof (rule ensures_write)
    fix u assume "P (files_of k u)"
    then show "Q (files_of k (u\<lparr>su_results := (su_results u)(path_text cfg iid := Some (written_json doc))\<rparr>))"
      using assms(2) [of "su_active u" "su_previous u" "su_results u k" "Some (written_json doc)"] doc k
      by (simp add: files_of_def)
  qed (fact assms)+
qed (use assms(3) in auto)

lemma write_result_ensures:
  assumes "keyed cfg intent k"
    "\<And>a p r r'. P (a, p, r) \<Longrightarrow> (\<And>st g. result_says st r' g \<Longrightarrow> st = status \<and> g = rr_generation_id active) \<Longrightarrow> Q (a, p, r')"
    "\<And>x. P x \<Longrightarrow> I x" "\<And>x. Q x \<Longrightarrow> I x"
  shows "ensures (\<lambda>s. P (files_of k s)) (write_result cfg intent status active prev ev code)
    (\<lambda>_ s. Q (files_of k s)) (\<lambda>s. I (files_of k s))"
  unfolding write_result_def by (rule put_result_ensures) (use assms in \<open>simp_all\<close>)

text \<open>What the file of a pointer says once it was read.\<close>

lemma pointer_of_target:
  "targets intent file \<Longrightarrow> read_runtime_pointer env store file = Inr p \<Longrightarrow> json_get ''target_generation_id'' intent = Some g \<Longrightarrow>
     rr_generation_id p = g"
  by (auto simp: targets_def json_get_or_def elim!: read_pointer_Inr)

lemma pointer_of_holder:
  "holds d file \<Longrightarrow> read_runtime_pointer env store file = Inr p \<Longrightarrow>
     rr_generation_id p = json_get_or ''generation_id'' (JStr []) d"
  by (auto simp: holds_def elim!: read_pointer_Inr)

lemma target_written_kept: "target_written d intent x \<Longrightarrow> authority_kept d p0 intent x"
  by (auto simp: target_written_def authority_kept_def pointers_kept_def truthful_def)

lemma commit_ensures:
  assumes "keyed cfg intent k"
  shows "ensures (\<lambda>s. target_written d intent (files_of k s)) (commit_target cfg intent prev evidence)
    (\<lambda>_ s. authority_kept d p0 intent (files_of k s)) (\<lambda>s. authority_kept d p0 intent (files_of k s))"
  unfolding commit_target_def with_target_def need_def current_pointer_def and_then_assoc
proof (intro ensures_fetch)
  fix s path s1 g s2 m
  assume g: "of_option (Key_missing ''target_generation_id'') (json_get ''target_generation_id'' intent) = Inr g"
  let ?I = "authority_kept d p0 intent"
  have result: "ensures (\<lambda>s. target_written d intent (files_of k s) \<and>
        read_runtime_pointer (sup_env cfg) (su_store s) (su_active s) = Inr active)
      (do_all [write_result cfg intent ''committed'' active prev ev [], write_ack cfg intent ''committed'',
         reconcile_and_ack cfg intent]) (\<lambda>_ s. ?I (files_of k s)) (\<lambda>s. ?I (files_of k s))" for active ev
  proof (rule ensures_do_all_Cons)
    show "ensures (\<lambda>s. target_written d intent (files_of k s) \<and>
        read_runtime_pointer (sup_env cfg) (su_store s) (su_active s) = Inr active)
      (write_result cfg intent ''committed'' active prev ev []) (\<lambda>_ s. ?I (files_of k s)) (\<lambda>s. ?I (files_of k s))"
    proof (rule ensures_weaken [OF write_result_ensures
          [where P = "\<lambda>x. target_written d intent x \<and> rr_generation_id active = g" and Q = ?I and I = ?I, OF assms]])
      show "target_written d intent (files_of k s) \<and> rr_generation_id active = g"
        if "target_written d intent (files_of k s) \<and> read_runtime_pointer (sup_env cfg) (su_store s) (su_active s) = Inr active" for s
        using that g pointer_of_target [of intent "su_active s"] by (auto simp: target_written_def files_of_def)
    qed (use g in \<open>auto simp: target_written_def authority_kept_def pointers_kept_def truthful_def\<close>)
    show "ensures (\<lambda>s. ?I (files_of k s)) (do_all [write_ack cfg intent ''committed'', reconcile_and_ack cfg intent])
      (\<lambda>_ s. ?I (files_of k s)) (\<lambda>s. ?I (files_of k s))"
      by (intro ensures_keeps keeps_do_all) (auto intro: files.keeps_all)
  qed
  show "ensures (\<lambda>s. target_written d intent (files_of k s))
     (and_then (wait_ready cfg g m) (\<lambda>readiness. and_then (verify_runtime cfg intent) (\<lambda>unavailable.
        and_then (checked (\<lambda>s. read_runtime_pointer (sup_env cfg) (su_store s) (su_active s))) (\<lambda>active.
        do_all [write_result cfg intent ''committed'' active prev (evidence readiness unavailable) [],
          write_ack cfg intent ''committed'', reconcile_and_ack cfg intent]))))
     (\<lambda>_ s. ?I (files_of k s)) (\<lambda>s. ?I (files_of k s))"
    by (intro ensures_and_then [where Q = "\<lambda>_ s. target_written d intent (files_of k s)"] ensures_keeps files.keeps_all
        ensures_read result) (auto intro: target_written_kept)
qed (auto intro: target_written_kept)

text \<open>Putting the old pointer back keeps the authority, and then the rolled back result is true.\<close>

definition restored :: "json \<Rightarrow> fs_node option \<Rightarrow> json \<Rightarrow> fs_node option \<times> fs_node option \<times> fs_node option \<Rightarrow> bool" where
  "restored d p0 intent x \<longleftrightarrow> authority_kept d p0 intent x \<and> holds d (fst x)"

lemma write_old_ensures:
  "ensures (\<lambda>s. authority_kept d p0 intent (files_of k s)) (write_active d)
     (\<lambda>_ s. restored d p0 intent (files_of k s)) (\<lambda>s. authority_kept d p0 intent (files_of k s))"
  unfolding write_active_def
proof (rule ensures_write)
  fix u assume "authority_kept d p0 intent (files_of k u)"
  then show "restored d p0 intent (files_of k (u\<lparr>su_active := Some (written_json d)\<rparr>))"
    by (auto simp: authority_kept_def restored_def files_of_def pointers_kept_def truthful_def holds_def)
qed (auto simp: restored_def)

lemma rolled_back_kept:
  assumes "restored d p0 intent (a, p, r)"
    "\<And>st g. result_says st r' g \<Longrightarrow> st = ''rolled_back'' \<and> g = json_get_or ''generation_id'' (JStr []) d"
  shows "authority_kept d p0 intent (a, p, r')"
proof -
  have "\<not> result_says ''committed'' r' g" for g using assms(2) [of "''committed''" g] by auto
  moreover have "g = json_get_or ''generation_id'' (JStr []) d" if "result_says ''rolled_back'' r' g" for g
    using assms(2) [OF that] by simp
  ultimately show ?thesis
    using assms(1) unfolding restored_def authority_kept_def truthful_def by simp
qed

lemma restored_result_ensures:
  assumes "keyed cfg intent k"
  shows "ensures (\<lambda>s. restored d p0 intent (files_of k s)) (restored_result cfg intent g m ev code)
     (\<lambda>_ s. authority_kept d p0 intent (files_of k s)) (\<lambda>s. authority_kept d p0 intent (files_of k s))"
  unfolding restored_result_def current_pointer_def
proof (rule ensures_and_then [where Q = "\<lambda>_ s. restored d p0 intent (files_of k s)"])
  let ?I = "authority_kept d p0 intent"
  show "ensures (\<lambda>s. restored d p0 intent (files_of k s)) (wait_ready cfg g m)
     (\<lambda>_ s. restored d p0 intent (files_of k s)) (\<lambda>s. ?I (files_of k s))"
    by (rule ensures_keeps [OF files.keeps_waits(2)]) (simp add: restored_def)
  fix readiness
  have result: "ensures (\<lambda>s. restored d p0 intent (files_of k s) \<and> read_runtime_pointer (sup_env cfg) (su_store s) (su_active s) = Inr p)
     (do_all [write_result cfg intent ''rolled_back'' p g (readiness @ ev) code, write_ack cfg intent ''rolled_back'',
        reconcile_and_ack cfg intent]) (\<lambda>_ s. ?I (files_of k s)) (\<lambda>s. ?I (files_of k s))" for p
  proof (rule ensures_do_all_Cons)
    show "ensures (\<lambda>s. restored d p0 intent (files_of k s) \<and> read_runtime_pointer (sup_env cfg) (su_store s) (su_active s) = Inr p)
       (write_result cfg intent ''rolled_back'' p g (readiness @ ev) code) (\<lambda>_ s. ?I (files_of k s)) (\<lambda>s. ?I (files_of k s))"
    proof (rule ensures_weaken [OF write_result_ensures [where Q = ?I and I = ?I and
          P = "\<lambda>x. restored d p0 intent x \<and> rr_generation_id p = json_get_or ''generation_id'' (JStr []) d", OF assms]])
      show "restored d p0 intent (files_of k s) \<and> rr_generation_id p = json_get_or ''generation_id'' (JStr []) d"
        if "restored d p0 intent (files_of k s) \<and> read_runtime_pointer (sup_env cfg) (su_store s) (su_active s) = Inr p" for s
        using that pointer_of_holder [of d "su_active s"] by (auto simp: restored_def files_of_def)
    next
      fix a q r r'
      assume "restored d p0 intent (a, q, r) \<and> rr_generation_id p = json_get_or ''generation_id'' (JStr []) d"
        "\<And>st g. result_says st r' g \<Longrightarrow> st = ''rolled_back'' \<and> g = rr_generation_id p"
      then show "?I (a, q, r')" by (intro rolled_back_kept [of d p0 intent a q r]) simp_all
    qed (simp_all add: restored_def)
    show "ensures (\<lambda>s. ?I (files_of k s)) (do_all [write_ack cfg intent ''rolled_back'', reconcile_and_ack cfg intent])
      (\<lambda>_ s. ?I (files_of k s)) (\<lambda>s. ?I (files_of k s))"
      by (intro ensures_keeps keeps_do_all) (auto intro: files.keeps_all)
  qed
  show "ensures (\<lambda>s. restored d p0 intent (files_of k s))
     (and_then (checked (\<lambda>s. read_runtime_pointer (sup_env cfg) (su_store s) (su_active s))) (\<lambda>p.
        do_all [write_result cfg intent ''rolled_back'' p g (readiness @ ev) code, write_ack cfg intent ''rolled_back'',
          reconcile_and_ack cfg intent])) (\<lambda>_ s. ?I (files_of k s)) (\<lambda>s. ?I (files_of k s))"
    by (rule ensures_read [OF result]) (simp add: restored_def)
qed

lemma roll_back_ensures:
  assumes "keyed cfg intent k"
  shows "ensures (\<lambda>s. authority_kept d p0 intent (files_of k s)) (roll_back cfg intent cur d code)
     (\<lambda>_ s. authority_kept d p0 intent (files_of k s)) (\<lambda>s. authority_kept d p0 intent (files_of k s))"
proof -
  let ?I = "authority_kept d p0 intent"
  let ?tail = "[restored_result cfg intent (rr_generation_id cur) (rr_manifest_digest cur)
      [(''rollback_verification'', JStr ''passed'')] code]"
  have "ensures (\<lambda>s. restored d p0 intent (files_of k s)) (do_all ([runtime_writable cfg True cur, start_child cfg,
       write_ack cfg intent ''rollback_pointer_switched'', wait_maintenance_state cfg intent ''rollback_started''] @ ?tail))
     (\<lambda>_ s. ?I (files_of k s)) (\<lambda>s. ?I (files_of k s))"
    by (rule ensures_do_keeps [OF _ _ ensures_do_one [OF restored_result_ensures [OF assms]]])
      (auto simp: restored_def intro: files.keeps_all)
  note old = ensures_do_all_Cons [OF write_old_ensures this]
  have "ensures (\<lambda>s. ?I (files_of k s)) (do_all ([stop_child, write_ack cfg intent ''rollback_pending'',
       wait_maintenance_state cfg intent ''rollback_quiesced'', target_writable cfg intent False] @ write_active d #
       [runtime_writable cfg True cur, start_child cfg, write_ack cfg intent ''rollback_pointer_switched'',
        wait_maintenance_state cfg intent ''rollback_started''] @ ?tail))
     (\<lambda>_ s. ?I (files_of k s)) (\<lambda>s. ?I (files_of k s))"
    by (rule ensures_do_keeps [OF _ _ old]) (auto intro: files.keeps_all)
  then show ?thesis by (simp add: roll_back_def)
qed

lemma rollback_failed_ensures:
  assumes "keyed cfg intent k"
  shows "ensures (\<lambda>s. authority_kept d p0 intent (files_of k s)) (rollback_failed cfg intent cur)
     (\<lambda>_ s. authority_kept d p0 intent (files_of k s)) (\<lambda>s. authority_kept d p0 intent (files_of k s))"
  unfolding rollback_failed_def
  by (intro ensures_handle ensures_and_then [where Q = "\<lambda>_ s. authority_kept d p0 intent (files_of k s)"]
      ensures_keeps files.keeps_all write_result_ensures [OF assms] ensures_ret)
    (auto simp: authority_kept_def pointers_kept_def truthful_def)

text \<open>Before a cutover: the old pointer is active, and there is no result.\<close>

definition before_cutover :: "json \<Rightarrow> fs_node option \<Rightarrow> fs_node option \<times> fs_node option \<times> fs_node option \<Rightarrow> bool" where
  "before_cutover d p0 = (\<lambda>(active, previous, res).
     holds d active \<and> (previous = p0 \<or> holds d previous) \<and> (\<forall>g st. \<not> result_says st res g))"

lemma before_cutover_kept: "before_cutover d p0 x \<Longrightarrow> authority_kept d p0 intent x"
  by (auto simp: before_cutover_def authority_kept_def pointers_kept_def truthful_def)

lemma cut_over_ensures:
  assumes "keyed cfg intent k"
  shows "ensures (\<lambda>s. before_cutover d p0 (files_of k s)) (cut_over cfg intent cur d)
     (\<lambda>_ s. authority_kept d p0 intent (files_of k s)) (\<lambda>s. authority_kept d p0 intent (files_of k s))"
proof -
  let ?I = "authority_kept d p0 intent"
  let ?both = "\<lambda>x. before_cutover d p0 x \<and> holds d (fst (snd x))"
  let ?last = "[commit_target cfg intent (rr_generation_id cur) cutover_evidence]"
  let ?mid = "[target_writable cfg intent True, and_then (verify_runtime cfg intent) (\<lambda>_. ret ()), start_child cfg,
       write_ack cfg intent ''pointer_switched'', wait_maintenance_state cfg intent ''target_started'',
       write_ack cfg intent ''verifying'']"
  have "ensures (\<lambda>s. target_written d intent (files_of k s)) (do_all (?mid @ ?last))
      (\<lambda>_ s. ?I (files_of k s)) (\<lambda>s. ?I (files_of k s))"
    by (rule ensures_do_keeps [OF _ _ ensures_do_one [OF commit_ensures [OF assms]]])
      (auto intro: files.keeps_all keeps_simps keeps_and_then target_written_kept)
  moreover have "ensures (\<lambda>s. ?both (files_of k s)) (write_target_pointer cfg intent)
      (\<lambda>_ s. target_written d intent (files_of k s)) (\<lambda>s. ?I (files_of k s))"
    by (rule write_target_ensures) (auto simp: before_cutover_def intro: before_cutover_kept)
  moreover have "ensures (\<lambda>s. before_cutover d p0 (files_of k s)) (write_previous d)
      (\<lambda>_ s. ?both (files_of k s)) (\<lambda>s. ?I (files_of k s))"
    unfolding write_previous_def
    by (rule ensures_write) (auto simp: before_cutover_def files_of_def holds_def intro: before_cutover_kept)
  ultimately have "ensures (\<lambda>s. before_cutover d p0 (files_of k s))
      (do_all (write_previous d # write_target_pointer cfg intent # ?mid @ ?last))
      (\<lambda>_ s. ?I (files_of k s)) (\<lambda>s. ?I (files_of k s))"
    by (blast intro: ensures_do_all_Cons)
  then have "ensures (\<lambda>s. before_cutover d p0 (files_of k s)) (do_all ([stop_child, runtime_writable cfg False cur]
      @ write_previous d # write_target_pointer cfg intent # ?mid @ ?last))
      (\<lambda>_ s. ?I (files_of k s)) (\<lambda>s. ?I (files_of k s))"
    by (rule ensures_do_keeps [rotated 2]) (auto intro: files.keeps_all before_cutover_kept)
  then show ?thesis by (simp add: cut_over_def)
qed

lemma cut_over_or_back_ensures:
  assumes "keyed cfg intent k"
  shows "ensures (\<lambda>s. before_cutover d p0 (files_of k s)) (cut_over_or_back cfg intent cur d)
     (\<lambda>_ s. authority_kept d p0 intent (files_of k s)) (\<lambda>s. authority_kept d p0 intent (files_of k s))"
  unfolding cut_over_or_back_def
  by (intro ensures_handle cut_over_ensures roll_back_ensures rollback_failed_ensures assms)

lemma ensures_finally_keeps:
  assumes "ensures P m (\<lambda>_ s. I (files_of k s)) (\<lambda>s. I (files_of k s))" "keeps (files_of k) f"
  shows "ensures P (finally_do m f) (\<lambda>_ s. I (files_of k s)) (\<lambda>s. I (files_of k s))"
proof (rule ensuresI)
  have after: "I (files_of k t)" if s: "P s" and fin: "finally_do m f s = (t, r)" for s t r
    using fin
  proof (cases rule: finally_doE)
    case dies
    then show ?thesis using assms(1) s unfolding ensures_def by fastforce
  next
    case (ends u q r')
    then have "I (files_of k u)" using assms(1) s unfolding ensures_def by (cases q) fastforce+
    then show ?thesis using keepsD [OF assms(2) ends(3)] by simp
  qed
  then show "\<And>s t x. P s \<Longrightarrow> finally_do m f s = (t, Returns x) \<Longrightarrow> I (files_of k t)"
    "\<And>s t e. P s \<Longrightarrow> finally_do m f s = (t, Raises e) \<Longrightarrow> I (files_of k t)"
    "\<And>s t. P s \<Longrightarrow> finally_do m f s = (t, Dies) \<Longrightarrow> I (files_of k t)" by blast+
qed

text \<open>A failure without a cutover writes a result that claims neither a commit nor a rollback.\<close>

lemma failed_ensures:
  assumes "keyed cfg intent k"
  shows "ensures (\<lambda>s. authority_kept d p0 intent (files_of k s)) (write_failed_without_cutover cfg intent code)
     (\<lambda>_ s. authority_kept d p0 intent (files_of k s)) (\<lambda>s. authority_kept d p0 intent (files_of k s))"
  unfolding write_failed_without_cutover_def
proof (rule ensures_and_then [OF ensures_look [where Q = "\<lambda>_ s. authority_kept d p0 intent (files_of k s)"]])
  fix res
  have "ensures (\<lambda>s. authority_kept d p0 intent (files_of k s)) (write_result cfg intent ''failed'' active g [] code)
     (\<lambda>_ s. authority_kept d p0 intent (files_of k s)) (\<lambda>s. authority_kept d p0 intent (files_of k s))" for active g
    by (rule write_result_ensures [OF assms]) (auto simp: authority_kept_def truthful_def)
  then show "ensures (\<lambda>s. authority_kept d p0 intent (files_of k s))
     (case res of Inl (Runtime_control_error c) \<Rightarrow> ret () | Inl e \<Rightarrow> raise_exn e
      | Inr active \<Rightarrow> write_result cfg intent ''failed'' active (rr_generation_id active) [] code)
     (\<lambda>_ s. authority_kept d p0 intent (files_of k s)) (\<lambda>s. authority_kept d p0 intent (files_of k s))"
    by (auto split: sum.splits rt_exn.splits intro: ensures_ret ensures_raise)
qed

lemma under_lock_ensures:
  assumes "keyed cfg intent k"
  shows "ensures (\<lambda>s. before_cutover d p0 (files_of k s)) (under_lock cfg intent resumed)
     (\<lambda>_ s. authority_kept d p0 intent (files_of k s)) (\<lambda>s. authority_kept d p0 intent (files_of k s))"
  unfolding under_lock_def
proof (rule ensures_and_then)
  let ?B = "\<lambda>s. before_cutover d p0 (files_of k s)" and ?I = "authority_kept d p0 intent"
  let ?Q = "\<lambda>x s. ?B s \<and> (\<forall>c doc. x = Inr (c, doc) \<longrightarrow> doc = d)"
  have read: "ensures ?B (and_then (pointer_document cfg su_active) (\<lambda>doc. ret (Inr (c, doc)))) ?Q ?B" for c
    unfolding pointer_document_def
  proof (rule ensures_read)
    fix doc
    have "doc = d" if "?B s" "read_signed_document (sup_env cfg) ''runtime_pointer'' (su_active s) = Inr doc" for s
      using that read_signed_Inr [OF that(2)] by (simp add: before_cutover_def holds_def files_of_def)
    then show "ensures (\<lambda>s. ?B s \<and> read_signed_document (sup_env cfg) ''runtime_pointer'' (su_active s) = Inr doc)
      (ret (Inr (c, doc))) ?Q ?B" by (intro ensures_ret) blast
  qed
  have "ensures ?B (and_then (assert_cutover_authority cfg intent resumed)
      (\<lambda>c. and_then (pointer_document cfg su_active) (\<lambda>doc. ret (Inr (c, doc))))) ?Q ?B"
    by (rule ensures_and_then [OF ensures_keeps read]) (auto intro: files.keeps_all)
  then have "ensures ?B (handle_exn (and_then (assert_cutover_authority cfg intent resumed)
      (\<lambda>c. and_then (pointer_document cfg su_active) (\<lambda>doc. ret (Inr (c, doc)))))
      (\<lambda>e. case e of Supervisor_error c \<Rightarrow> ret (Inl c) | _ \<Rightarrow> raise_exn e)) ?Q ?B"
    by (rule ensures_handle) (auto split: rt_exn.splits intro: ensures_ret ensures_raise)
  then show "ensures ?B (handle_exn (and_then (assert_cutover_authority cfg intent resumed)
      (\<lambda>c. and_then (pointer_document cfg su_active) (\<lambda>doc. ret (Inr (c, doc)))))
      (\<lambda>e. case e of Supervisor_error c \<Rightarrow> ret (Inl c) | _ \<Rightarrow> raise_exn e)) ?Q (\<lambda>s. ?I (files_of k s))"
    by (rule ensures_weaken) (auto intro: before_cutover_kept)
  fix authority
  have failed: "ensures ?B (do_all [write_failed_without_cutover cfg intent c, release_lock cfg intent])
      (\<lambda>_ s. ?I (files_of k s)) (\<lambda>s. ?I (files_of k s))" for c
    by (rule ensures_weaken [OF ensures_do_all_Cons [OF failed_ensures [OF assms] ensures_do_one [OF ensures_keeps]]])
      (auto intro: files.keeps_all before_cutover_kept)
  have switch: "ensures ?B (finally_do (cut_over_or_back cfg intent c d) (release_lock cfg intent))
      (\<lambda>_ s. ?I (files_of k s)) (\<lambda>s. ?I (files_of k s))" for c
    by (rule ensures_finally_keeps [OF cut_over_or_back_ensures [OF assms] files.keeps_lock(2)])
  show "ensures (?Q authority) (case authority of
        Inl c \<Rightarrow> do_all [write_failed_without_cutover cfg intent c, release_lock cfg intent]
      | Inr (c, doc) \<Rightarrow> finally_do (cut_over_or_back cfg intent c doc) (release_lock cfg intent))
      (\<lambda>_ s. ?I (files_of k s)) (\<lambda>s. ?I (files_of k s))"
  proof (cases authority)
    case (Inl c)
    then show ?thesis using ensures_weaken [OF failed] by simp
  next
    case (Inr x)
    obtain c doc where x: "x = (c, doc)" by (cases x)
    show ?thesis
    proof (cases "doc = d")
      case True
      then show ?thesis using Inr x ensures_weaken [OF switch] by simp
    next
      case False
      then show ?thesis using Inr x by (simp add: ensures_def)
    qed
  qed
qed

lemma apply_current_ensures:
  assumes "keyed cfg intent k"
  shows "ensures (\<lambda>s. before_cutover d p0 (files_of k s)) (apply_current cfg intent)
     (\<lambda>_ s. authority_kept d p0 intent (files_of k s)) (\<lambda>s. authority_kept d p0 intent (files_of k s))"
proof -
  let ?B = "\<lambda>s. before_cutover d p0 (files_of k s)" and ?I = "\<lambda>s. authority_kept d p0 intent (files_of k s)"
  have quit: "ensures ?B (ret ()) (\<lambda>_. ?I) ?I" by (intro ensures_ret before_cutover_kept)
  have keep: "ensures ?B m (\<lambda>_. ?B) ?I" if "keeps (files_of k) m" for m :: "'z action"
    by (rule ensures_keeps [OF that]) (rule before_cutover_kept)
  have lock: "ensures ?B (case l of None \<Rightarrow> ret () | Some resumed \<Rightarrow> under_lock cfg intent resumed) (\<lambda>_. ?I) ?I" for l
    using quit under_lock_ensures [OF assms] by (cases l) auto
  have target: "keeps (files_of k) (with_target intent (check_workspace cfg True))"
    unfolding with_target_def by (auto intro!: keeps_intros files.keeps_all)
  have 1: "ensures ?B (and_then (pre_cutover_lock cfg intent)
      (\<lambda>l. case l of None \<Rightarrow> ret () | Some resumed \<Rightarrow> under_lock cfg intent resumed)) (\<lambda>_. ?I) ?I"
    by (rule ensures_and_then [OF keep lock]) (rule files.keeps_lock)
  have 2: "ensures ?B (and_then (may_apply cfg intent) (\<lambda>applying. if \<not> applying then ret () else
      and_then (pre_cutover_lock cfg intent)
      (\<lambda>l. case l of None \<Rightarrow> ret () | Some resumed \<Rightarrow> under_lock cfg intent resumed))) (\<lambda>_. ?I) ?I"
    by (rule ensures_and_then [OF keep [OF files.keeps_guards(2)]]) (simp add: quit 1)
  show ?thesis
    unfolding apply_current_def
  proof (rule ensures_and_then [OF keep [OF files.keeps_guards(1)]])
    fix quiesced
    show "ensures ?B (if \<not> quiesced then ret () else
       and_then (with_target intent (check_workspace cfg True)) (\<lambda>_.
       and_then (may_apply cfg intent) (\<lambda>applying. if \<not> applying then ret () else
       and_then (pre_cutover_lock cfg intent)
       (\<lambda>l. case l of None \<Rightarrow> ret () | Some resumed \<Rightarrow> under_lock cfg intent resumed)))) (\<lambda>_. ?I) ?I"
      using quit ensures_and_then [OF keep [OF target] 2] by simp
  qed
qed

subsection \<open>The cutover\<close>

text \<open>C34: Crash safety of the cutover. An intent that finds the pointer it was made for active leaves, however
  its run ends (it returns, raises, or the process dies at any step, with the maintenance supervisor
  acting in between), either the old pointer active, or its target active and then the old pointer kept
  as the previous one. A result that says committed names the target, and the old pointer is kept as the
  previous one; the target need not be active, as the old pointer may have been restored after it was
  written (\<^verbatim>\<open>committed_beside_old_pointer\<close>).
  A result that says rolled back names the old generation while the old pointer is active.\<close>

theorem cutover_keeps_authority:
  assumes "apply_intent cfg intent s = (t, r)" "json_get ''activation_mode'' intent \<noteq> Some (JStr ''initial'')"
    "read_runtime_pointer (sup_env cfg) (su_store s) (su_active s) = Inr cur" "file_document (su_active s) = Some d"
    "json_get ''previous_pointer_digest'' intent = Some (JStr (rr_pointer_digest cur))"
    "json_get ''previous_generation_id'' intent = Some (rr_generation_id cur)"
    "json_get ''intent_id'' intent = Some (JStr k)" "su_results s k = None"
  shows "pointers_kept d (su_previous s) intent (su_active t) (su_previous t) \<and>
    truthful d intent (su_active t) (su_previous t) (su_results t k)"
proof -
  let ?B = "\<lambda>x. before_cutover d (su_previous s) (files_of k x)"
  let ?I = "\<lambda>x. authority_kept d (su_previous s) intent (files_of k x)"
  have key: "keyed cfg intent k" using assms(7) by (simp add: keyed_def path_text_def)
  have start: "?B s" using assms(4,8) by (simp add: before_cutover_def files_of_def holds_def result_says_def file_document_def)
  have failed: "ensures ?B (write_failed_without_cutover cfg intent c) (\<lambda>_. ?I) ?I" for c
    by (rule ensures_weaken [OF failed_ensures [OF key]]) (auto intro: before_cutover_kept)
  have current: "ensures ?B (apply_current cfg intent) (\<lambda>_. ?I) ?I" by (rule apply_current_ensures [OF key])
  have rollback: "ensures ?B (and_then (rollback_admissible cfg intent cur) (\<lambda>ok. if ok then apply_current cfg intent
      else write_failed_without_cutover cfg intent ''rollback_previous_pointer_changed'')) (\<lambda>_. ?I) ?I"
    by (rule ensures_and_then [OF ensures_keeps]) (auto intro: files.keeps_all before_cutover_kept current failed)
  define m where "m = (if app_env cfg = ''production'' then write_failed_without_cutover cfg intent ''production_activation_disabled''
      else if app_env cfg \<noteq> ''staging'' \<or> \<not> activation_enabled cfg
      then write_failed_without_cutover cfg intent ''staging_activation_disabled''
      else if json_get ''activation_mode'' intent = Some (JStr ''rollback'')
      then and_then (rollback_admissible cfg intent cur) (\<lambda>ok. if ok then apply_current cfg intent
        else write_failed_without_cutover cfg intent ''rollback_previous_pointer_changed'')
      else apply_current cfg intent)"
  have "apply_intent cfg intent s = m s"
    using assms(2,3,5,6) by (simp add: m_def apply_intent_def current_pointer_def and_then_checked json_get_or_def)
  moreover have "ensures ?B m (\<lambda>_. ?I) ?I" using failed current rollback by (simp add: m_def)
  ultimately have "?I t" using start assms(1) unfolding ensures_def by (cases r) fastforce+
  then show ?thesis by (simp add: authority_kept_def files_of_def)
qed

text \<open>The process dies right after it wrote the target's pointer.\<close>

lemma sample_crash:
  "\<exists>t. apply_intent (sample_cfg ''web'') (sample_intent ''activate'') (sample_world (replicate 7 sample_step)) = (t, Dies) \<and>
     targets (sample_intent ''activate'') (su_active t) \<and> holds (sample_pointer ''gen-a'' ''a'') (su_previous t)"
proof -
  have "targets (sample_intent ''activate'') (Some (written_json (sample_signed
      (pointer_payload sample_rt_env (JStr ''gen-b'') (JStr (sample_manifest ''b'')) ''/r/b'' (JStr ''aa'') 1 now))))" for now
    by (simp add: targets_def sample_signed_get) (simp add: pointer_payload_def)
  moreover have "replicate 7 sample_step = [sample_step, sample_step, sample_step, sample_step, sample_step, sample_step, sample_step]"
    by (simp add: eval_nat_numeral)
  ultimately show ?thesis
    by (simp add: sample_run_defs sample_step_def holds_def)
qed

theorem cutover_keeps_authority_witness:
  "\<exists>t. apply_intent (sample_cfg ''web'') (sample_intent ''activate'') (sample_world (replicate 7 sample_step)) = (t, Dies) \<and>
     targets (sample_intent ''activate'') (su_active t) \<and>
     pointers_kept (sample_pointer ''gen-a'' ''a'') None (sample_intent ''activate'') (su_active t) (su_previous t)"
proof -
  obtain t where t: "apply_intent (sample_cfg ''web'') (sample_intent ''activate'') (sample_world (replicate 7 sample_step)) = (t, Dies)"
    "targets (sample_intent ''activate'') (su_active t)"
    using sample_crash by blast
  have "file_document (sample_file (sample_pointer ''gen-a'' ''a'')) = Some (sample_pointer ''gen-a'' ''a'')"
    by (simp add: sample_file_def file_document_def)
  then show ?thesis
    using cutover_keeps_authority [OF t(1), where cur = "sample_runtime ''gen-a'' ''a''" and d = "sample_pointer ''gen-a'' ''a''" and k = "''i1''"]
      t by auto
qed

end
