(* ===== verification/Runtime_Recovery.thy ===== *)
theory Runtime_Recovery
  imports Runtime_Supervisor_Safety
begin

section \<open>Interrupted cutovers, and what strands an activation\<close>

text \<open>
  What the web supervisor does when it finds that the pointer is no longer the one an intent was made
  for, and that a lock of another intent keeps an intent out, and so does an empty one that a crash left
  behind.
\<close>

subsection \<open>A cutover that was interrupted\<close>

text \<open>While an interrupted cutover is undone: the active pointer is the one that was found or the old one.\<close>

definition recovering ::
  "json \<Rightarrow> fs_node option \<Rightarrow> fs_node option \<Rightarrow> fs_node option \<times> fs_node option \<times> fs_node option \<Rightarrow> bool" where
  "recovering d found p0 = (\<lambda>(active, previous, res). previous = p0 \<and> holds d previous \<and> (active = found \<or> holds d active) \<and>
     (\<forall>g. result_says ''rolled_back'' res g \<longrightarrow> g = json_get_or ''generation_id'' (JStr []) d \<and> holds d active) \<and>
     (\<forall>g. \<not> result_says ''committed'' res g))"

definition recovered_pointer ::
  "json \<Rightarrow> fs_node option \<Rightarrow> fs_node option \<Rightarrow> fs_node option \<times> fs_node option \<times> fs_node option \<Rightarrow> bool" where
  "recovered_pointer d found p0 x \<longleftrightarrow> recovering d found p0 x \<and> holds d (fst x)"

lemma recovered_kept:
  assumes "recovered_pointer d found p0 (a, p, r)"
    "\<And>st g. result_says st r' g \<Longrightarrow> st = ''rolled_back'' \<and> g = json_get_or ''generation_id'' (JStr []) d"
  shows "recovering d found p0 (a, p, r')"
proof -
  have "\<not> result_says ''committed'' r' g" for g using assms(2) [of "''committed''" g] by auto
  moreover have "g = json_get_or ''generation_id'' (JStr []) d" if "result_says ''rolled_back'' r' g" for g
    using assms(2) [OF that] by simp
  ultimately show ?thesis using assms(1) unfolding recovered_pointer_def recovering_def prod.case fst_conv by blast
qed

lemma recover_restored_ensures:
  assumes "keyed cfg intent k"
  shows "ensures (\<lambda>s. recovered_pointer d found p0 (files_of k s)) (restored_result cfg intent g m ev code)
     (\<lambda>_ s. recovering d found p0 (files_of k s)) (\<lambda>s. recovering d found p0 (files_of k s))"
  unfolding restored_result_def current_pointer_def
proof (rule ensures_and_then [where Q = "\<lambda>_ s. recovered_pointer d found p0 (files_of k s)"])
  let ?I = "recovering d found p0"
  show "ensures (\<lambda>s. recovered_pointer d found p0 (files_of k s)) (wait_ready cfg g m)
     (\<lambda>_ s. recovered_pointer d found p0 (files_of k s)) (\<lambda>s. ?I (files_of k s))"
    by (rule ensures_keeps [OF files.keeps_waits(2)]) (simp add: recovered_pointer_def)
  fix readiness
  have acks: "ensures (\<lambda>s. ?I (files_of k s)) (do_all [write_ack cfg intent ''rolled_back'', reconcile_and_ack cfg intent])
      (\<lambda>_ s. ?I (files_of k s)) (\<lambda>s. ?I (files_of k s))"
    by (intro ensures_keeps keeps_do_all) (auto intro: files.keeps_all)
  have "ensures (\<lambda>s. recovered_pointer d found p0 (files_of k s) \<and>
        read_runtime_pointer (sup_env cfg) (su_store s) (su_active s) = Inr p)
       (write_result cfg intent ''rolled_back'' p g (readiness @ ev) code) (\<lambda>_ s. ?I (files_of k s)) (\<lambda>s. ?I (files_of k s))" for p
  proof (rule ensures_weaken [OF write_result_ensures [where Q = ?I and I = ?I and
        P = "\<lambda>x. recovered_pointer d found p0 x \<and> rr_generation_id p = json_get_or ''generation_id'' (JStr []) d", OF assms]])
    show "recovered_pointer d found p0 (files_of k s) \<and> rr_generation_id p = json_get_or ''generation_id'' (JStr []) d"
      if "recovered_pointer d found p0 (files_of k s) \<and> read_runtime_pointer (sup_env cfg) (su_store s) (su_active s) = Inr p" for s
      using that pointer_of_holder [of d "su_active s"] by (auto simp: recovered_pointer_def files_of_def)
  next
    fix a q res res'
    assume "recovered_pointer d found p0 (a, q, res) \<and> rr_generation_id p = json_get_or ''generation_id'' (JStr []) d"
      and says: "\<And>st g. result_says st res' g \<Longrightarrow> st = ''rolled_back'' \<and> g = rr_generation_id p"
    then show "?I (a, q, res')" by (intro recovered_kept [of d found p0 a q res]) simp_all
  qed (simp_all add: recovered_pointer_def)
  note step = ensures_do_all_Cons [OF this acks]
  show "ensures (\<lambda>s. recovered_pointer d found p0 (files_of k s))
     (and_then (checked (\<lambda>s. read_runtime_pointer (sup_env cfg) (su_store s) (su_active s))) (\<lambda>p.
        do_all [write_result cfg intent ''rolled_back'' p g (readiness @ ev) code, write_ack cfg intent ''rolled_back'',
          reconcile_and_ack cfg intent])) (\<lambda>_ s. ?I (files_of k s)) (\<lambda>s. ?I (files_of k s))"
    by (rule ensures_read [OF step]) (simp add: recovered_pointer_def)
qed

lemma recover_switch_ensures:
  assumes "keyed cfg intent k"
  shows "ensures (\<lambda>s. recovering d found p0 (files_of k s)) (recover_switch cfg intent cur)
     (\<lambda>_ s. recovering d found p0 (files_of k s)) (\<lambda>s. recovering d found p0 (files_of k s))"
  unfolding recover_switch_def pointer_document_def
proof (rule ensures_read)
  fix doc
  let ?I = "recovering d found p0"
  define thaw where "thaw = and_then (need ''runtime_path'' doc) (\<lambda>path. and_then (need ''generation_id'' doc) (\<lambda>generation_id.
     and_then (need ''manifest_digest'' doc) (set_writable cfg True path generation_id)))"
  define finish where "finish = and_then (need ''previous_generation_id'' intent) (\<lambda>generation_id.
     and_then (need ''manifest_digest'' doc) (\<lambda>manifest_digest. restored_result cfg intent generation_id manifest_digest
       [(''restart_reconciliation'', JStr ''rolled_back'')] ''activation_incomplete_recovered''))"
  have thaw: "keeps (files_of k) thaw" unfolding thaw_def by (intro keeps_intros files.keeps_all)
  have "ensures (\<lambda>s. recovered_pointer d found p0 (files_of k s)) finish (\<lambda>_ s. ?I (files_of k s)) (\<lambda>s. ?I (files_of k s))"
    unfolding finish_def need_def
    by (intro ensures_fetch recover_restored_ensures assms) (simp_all add: recovered_pointer_def)
  then have "ensures (\<lambda>s. recovered_pointer d found p0 (files_of k s))
      (do_all ([thaw, start_child cfg, write_ack cfg intent ''rollback_pointer_switched'',
        wait_maintenance_state cfg intent ''rollback_started''] @ [finish])) (\<lambda>_ s. ?I (files_of k s)) (\<lambda>s. ?I (files_of k s))"
    by (intro ensures_do_keeps ensures_do_one) (auto intro: files.keeps_all thaw simp: recovered_pointer_def)
  moreover have "ensures (\<lambda>s. ?I (files_of k s)) (write_active d) (\<lambda>_ s. recovered_pointer d found p0 (files_of k s)) (\<lambda>s. ?I (files_of k s))"
    unfolding write_active_def
    by (rule ensures_write) (auto simp: recovering_def recovered_pointer_def files_of_def holds_def)
  ultimately have undo: "ensures (\<lambda>s. ?I (files_of k s)) (do_all ([stop_child, write_ack cfg intent ''rollback_pending'',
      wait_maintenance_state cfg intent ''rollback_quiesced'', runtime_writable cfg False cur] @ write_active d #
      [thaw, start_child cfg, write_ack cfg intent ''rollback_pointer_switched'',
        wait_maintenance_state cfg intent ''rollback_started''] @ [finish])) (\<lambda>_ s. ?I (files_of k s)) (\<lambda>s. ?I (files_of k s))"
    by (intro ensures_do_keeps [OF _ _ ensures_do_all_Cons]) (auto intro: files.keeps_all)
  have same: "doc = d" if "?I (files_of k s)" "read_signed_document (sup_env cfg) ''runtime_pointer'' (su_previous s) = Inr doc" for s
    using that read_signed_Inr [OF that(2)] by (simp add: recovering_def holds_def files_of_def)
  show "ensures (\<lambda>s. ?I (files_of k s) \<and> read_signed_document (sup_env cfg) ''runtime_pointer'' (su_previous s) = Inr doc)
     (if json_get_or ''document_digest'' JNull doc \<noteq> json_get_or ''previous_pointer_digest'' JNull intent
        \<or> json_get_or ''generation_id'' JNull doc \<noteq> json_get_or ''previous_generation_id'' JNull intent
      then ret False
      else and_then (do_all [stop_child, write_ack cfg intent ''rollback_pending'',
         wait_maintenance_state cfg intent ''rollback_quiesced'', runtime_writable cfg False cur, write_active doc,
         and_then (need ''runtime_path'' doc) (\<lambda>path. and_then (need ''generation_id'' doc) (\<lambda>generation_id.
           and_then (need ''manifest_digest'' doc) (set_writable cfg True path generation_id))),
         start_child cfg, write_ack cfg intent ''rollback_pointer_switched'',
         wait_maintenance_state cfg intent ''rollback_started'',
         and_then (need ''previous_generation_id'' intent) (\<lambda>generation_id.
           and_then (need ''manifest_digest'' doc) (\<lambda>manifest_digest.
           restored_result cfg intent generation_id manifest_digest
             [(''restart_reconciliation'', JStr ''rolled_back'')] ''activation_incomplete_recovered''))]) (\<lambda>_. ret True))
     (\<lambda>_ s. ?I (files_of k s)) (\<lambda>s. ?I (files_of k s))"
  proof (cases "doc = d")
    case True
    show ?thesis
      unfolding True [symmetric] thaw_def [symmetric] finish_def [symmetric]
      by (auto intro!: ensures_ret ensures_then_ret ensures_weaken [OF undo [unfolded True [symmetric], simplified]])
  next
    case False
    show ?thesis by (rule ensures_absurd) (use False same in blast)
  qed
qed

text \<open>C36: Recovery of an interrupted cutover. An intent that finds another pointer active than the one it was
  made for never writes the previous pointer, and however it ends the active pointer is as it was found
  or is the document of the previous pointer; no result says committed, and a result that says rolled
  back names the generation of that document, which then is active.\<close>

theorem interrupted_cutover_recovers:
  assumes "apply_intent cfg intent s = (t, r)" "app_env cfg = ''staging''" "activation_enabled cfg"
    "json_get ''activation_mode'' intent \<noteq> Some (JStr ''initial'')"
    "read_runtime_pointer (sup_env cfg) (su_store s) (su_active s) = Inr cur"
    "json_get_or ''previous_pointer_digest'' JNull intent \<noteq> JStr (rr_pointer_digest cur)
      \<or> json_get_or ''previous_generation_id'' JNull intent \<noteq> rr_generation_id cur"
    "file_document (su_previous s) = Some d"
    "json_get ''intent_id'' intent = Some (JStr k)" "su_results s k = None"
  shows "su_previous t = su_previous s \<and> (su_active t = su_active s \<or> holds d (su_active t)) \<and>
    (\<forall>g. result_says ''rolled_back'' (su_results t k) g \<longrightarrow>
       g = json_get_or ''generation_id'' (JStr []) d \<and> holds d (su_active t)) \<and>
    (\<forall>g. \<not> result_says ''committed'' (su_results t k) g)"
proof -
  let ?I = "\<lambda>x. recovering d (su_active s) (su_previous s) (files_of k x)"
  have key: "keyed cfg intent k" using assms(8) by (simp add: keyed_def path_text_def)
  have start: "?I s" using assms(7,9) by (simp add: recovering_def files_of_def holds_def result_says_def file_document_def)
  have claim: "keeps (files_of k) (handle_exn (and_then (claim_recovery_lock cfg intent) (\<lambda>_. ret True))
      (\<lambda>e. case e of Supervisor_error c \<Rightarrow> ret False | _ \<Rightarrow> raise_exn e))"
    by (auto intro!: keeps_intros files.keeps_all split: rt_exn.splits)
  have "ensures ?I (recover_incomplete_cutover cfg intent cur) (\<lambda>_. ?I) ?I"
    unfolding recover_incomplete_cutover_def
    by (auto intro!: ensures_ret ensures_handle [OF recover_switch_ensures [OF key]])
  then have undo: "ensures ?I (finally_do (recover_incomplete_cutover cfg intent cur) (release_lock cfg intent)) (\<lambda>_. ?I) ?I"
    by (rule ensures_finally_keeps) (rule files.keeps_lock)
  have "ensures ?I (write_result cfg intent ''failed'' active g [] code) (\<lambda>_. ?I) ?I" for active g code
    by (rule write_result_ensures [OF key]) (auto simp: recovering_def)
  then have failed: "ensures ?I (write_failed_without_cutover cfg intent code) (\<lambda>_. ?I) ?I" for code
    unfolding write_failed_without_cutover_def
    by (intro ensures_and_then [OF ensures_look [where Q = "\<lambda>_. ?I"]])
      (auto split: sum.splits rt_exn.splits intro: ensures_ret ensures_raise)
  have "ensures ?I (recover_or_fail cfg intent cur) (\<lambda>_. ?I) ?I"
    unfolding recover_or_fail_def
  proof (rule ensures_and_then [OF ensures_keeps [OF claim]])
    fix claimed
    show "ensures ?I (if \<not> claimed then ret () else
        and_then (finally_do (recover_incomplete_cutover cfg intent cur) (release_lock cfg intent))
        (\<lambda>recovered. if recovered then ret ()
          else write_failed_without_cutover cfg intent ''activation_previous_pointer_changed'')) (\<lambda>_. ?I) ?I"
      using ensures_and_then [OF undo] failed by (auto intro!: ensures_ret ensures_and_then [OF undo])
  qed
  moreover have "apply_intent cfg intent s = recover_or_fail cfg intent cur s"
    using assms(2-6) by (auto simp: apply_intent_def current_pointer_def and_then_checked)
  ultimately have "?I t" using start assms(1) unfolding ensures_def by (cases r) fastforce+
  then show ?thesis by (simp add: recovering_def files_of_def)
qed

text \<open>The process dies right after it put the old pointer back.\<close>

definition sample_interrupted :: "happening list \<Rightarrow> supervisor_state" where
  "sample_interrupted hs = (sample_world hs)\<lparr>
     su_active := sample_file (sample_pointer ''gen-b'' ''b''), su_previous := sample_file (sample_pointer ''gen-a'' ''a''),
     su_acks := (\<lambda>_. None)((''i1'', ''maintenance'') := sample_file (sample_ack ''maintenance'' ''rollback_quiesced''))\<rparr>"

lemma sample_pointer_fields [simp]:
  "json_get ''document_digest'' (sample_pointer g c) = Some (JStr ''aa'')"
  "json_get ''generation_id'' (sample_pointer g c) = Some (JStr g)"
  "json_get ''runtime_path'' (sample_pointer g c) = Some (JStr (''/r/'' @ c))"
  "json_get ''manifest_digest'' (sample_pointer g c) = Some (JStr (sample_manifest c))"
  by (simp_all add: sample_pointer_def sample_signed_get pointer_payload_def) (simp add: sample_rt_env_def)

lemma sample_recovery_crash:
  "\<exists>t. apply_intent (sample_cfg ''web'') (sample_intent ''activate'') (sample_interrupted (replicate 6 sample_step)) = (t, Dies) \<and>
     holds (sample_pointer ''gen-a'' ''a'') (su_active t)"
proof -
  have "replicate 6 sample_step = [sample_step, sample_step, sample_step, sample_step, sample_step, sample_step]"
    by (simp add: eval_nat_numeral)
  then show ?thesis
    by (simp add: sample_run_defs sample_step_def sample_interrupted_def holds_def recover_or_fail_def claim_recovery_lock_def
        recover_incomplete_cutover_def recover_switch_def wait_maintenance_state_def nap_def start_child_def)
qed

theorem interrupted_cutover_recovers_witness:
  "\<exists>t. apply_intent (sample_cfg ''web'') (sample_intent ''activate'') (sample_interrupted (replicate 6 sample_step)) = (t, Dies) \<and>
     holds (sample_pointer ''gen-a'' ''a'') (su_active t) \<and> su_previous t = sample_file (sample_pointer ''gen-a'' ''a'')"
proof -
  obtain t where t: "apply_intent (sample_cfg ''web'') (sample_intent ''activate'') (sample_interrupted (replicate 6 sample_step)) = (t, Dies)"
    "holds (sample_pointer ''gen-a'' ''a'') (su_active t)"
    using sample_recovery_crash by blast
  have "file_document (sample_file (sample_pointer ''gen-a'' ''a'')) = Some (sample_pointer ''gen-a'' ''a'')"
    by (simp add: sample_file_def file_document_def)
  then show ?thesis
    using interrupted_cutover_recovers [OF t(1), where cur = "sample_runtime ''gen-b'' ''b''" and d = "sample_pointer ''gen-a'' ''a''" and k = "''i1''"]
      t by (auto simp: sample_interrupted_def json_get_or_def)
qed

text \<open>The restoration after an exception does not withdraw a result: when the acknowledgement of a commit raised, the committed result
  stands, and the process may die right after the old pointer is active again.\<close>

lemma committed_beside_old_pointer:
  "\<exists>t. roll_back (sample_cfg ''web'') (sample_intent ''activate'') (sample_runtime ''gen-a'' ''a'') (sample_pointer ''gen-a'' ''a'') code
      ((sample_interrupted (replicate 4 sample_step))\<lparr>su_results := committed\<rparr>) = (t, Dies)
    \<and> holds (sample_pointer ''gen-a'' ''a'') (su_active t) \<and> su_results t = committed"
proof -
  have "replicate 4 sample_step = [sample_step, sample_step, sample_step, sample_step]"
    by (simp add: eval_nat_numeral)
  then show ?thesis
    by (simp add: sample_run_defs sample_step_def sample_interrupted_def holds_def roll_back_def wait_maintenance_state_def nap_def)
qed

subsection \<open>A lock of another intent\<close>

text \<open>The pointers, the lock and the runtime directories.\<close>

definition deployment :: "supervisor_state \<Rightarrow> fs_node option \<times> fs_node option \<times> fs_node option \<times> runtime_store" where
  "deployment s = (su_active s, su_previous s, su_lock s, su_store s)"

interpretation deployed: observation deployment
  by unfold_locales (simp_all add: deployment_def pass_def)

text \<open>A lock file stands, and it is not one of this intent.\<close>

definition barred :: "json \<Rightarrow> fs_node option \<Rightarrow> bool" where
  "barred intent lock \<longleftrightarrow> lock \<noteq> None \<and>
     (\<forall>kvs. file_document lock = Some (JObj kvs) \<longrightarrow>
       Some (json_get_or ''intent_id'' JNull (JObj kvs)) \<noteq> json_get ''intent_id'' intent)"

abbreviation stands :: "(fs_node option \<times> fs_node option \<times> fs_node option \<times> runtime_store) \<Rightarrow> 'a action \<Rightarrow> bool" where
  "stands v m \<equiv> ensures (\<lambda>s. deployment s = v) m (\<lambda>_ s. deployment s = v) (\<lambda>s. deployment s = v)"

lemma keeps_stands: "keeps deployment m \<Longrightarrow> stands v m"
  by (rule keeps_ensures)

lemma stands_intros:
  "stands v (ret x)"
  "keeps deployment m \<Longrightarrow> (\<And>x. stands v (g x)) \<Longrightarrow> stands v (and_then m g)"
  "(b \<Longrightarrow> stands v h) \<Longrightarrow> (\<not> b \<Longrightarrow> stands v k) \<Longrightarrow> stands v (if b then h else k)"
  by (simp add: ensures_ret, rule ensures_and_then [OF keeps_stands], simp_all)

lemma keeps_target: "keeps deployment (with_target intent (check_workspace cfg w))"
  unfolding with_target_def by (auto intro!: keeps_intros deployed.keeps_around)

lemma keeps_initial: "keeps deployment (initial_pointer cfg intent)" "keeps deployment (initial_validated cfg intent)"
  unfolding initial_pointer_def initial_validated_def
  by (auto intro!: keeps_intros keeps_target split: sum.splits rt_exn.splits)

lemmas stands_steps = stands_intros(2) [OF keeps_target] stands_intros(2) [OF keeps_initial(1)]
  stands_intros(2) [OF keeps_initial(2)] stands_intros(2) [OF keeps_simps(3)]
  stands_intros(2) [OF deployed.keeps_guards(1)] stands_intros(2) [OF deployed.keeps_guards(2)]
  stands_intros(2) [OF deployed.keeps_guards(3)] stands_intros(2) [OF deployed.keeps_guards(9)]

lemma put_result_stands: "keeps deployment (put_result cfg intent r)"
  unfolding put_result_def by (intro keeps_intros deployed.keeps_change) (simp add: deployment_def)

lemma failure_stands: "keeps deployment (write_failed_without_cutover cfg intent c)"
  "keeps deployment (fail_initial_without_pointer cfg intent c)"
  unfolding write_failed_without_cutover_def fail_initial_without_pointer_def write_result_def write_initial_failure_def
  by (auto intro!: keeps_intros deployed.keeps_around put_result_stands split: sum.splits rt_exn.splits)

lemma claim_barred:
  assumes "barred intent lock"
  shows "ensures (\<lambda>s. deployment s = (a, p, lock, st)) (claim_recovery_lock cfg intent)
     (\<lambda>_ s. False) (\<lambda>s. deployment s = (a, p, lock, st))"
  using assms
  by (auto simp: ensures_def claim_recovery_lock_def and_then_def look_def raise_exn_def need_def lock_owner_def checked_def
      deployment_def barred_def of_option_def ret_def split: option.splits json.splits)

lemma pre_cutover_barred:
  assumes "barred intent lock"
  shows "ensures (\<lambda>s. deployment s = (a, p, lock, st)) (pre_cutover_lock cfg intent)
     (\<lambda>l s. l = None \<and> deployment s = (a, p, lock, st)) (\<lambda>s. deployment s = (a, p, lock, st))"
  unfolding pre_cutover_lock_def acquire_or_resume_pre_cutover_lock_def
proof (rule ensures_handle, rule ensures_and_then)
  let ?v = "(a, p, lock, st)"
  have claim: "ensures (\<lambda>s. deployment s = ?v) (and_then (claim_recovery_lock cfg intent) (\<lambda>_. ret True)) (\<lambda>_ _. False) (\<lambda>s. deployment s = ?v)"
    by (rule ensures_and_then [OF claim_barred [OF assms]]) (simp add: ensures_def)
  have "ensures (\<lambda>s. deployment s = ?v) (if b then raise_exn e else and_then (claim_recovery_lock cfg intent) (\<lambda>_. ret True))
      (\<lambda>_ _. False) (\<lambda>s. deployment s = ?v)" for b e
    using claim by (auto intro: ensures_raise)
  from ensures_and_then [OF keeps_stands [OF deployed.keeps_acks(2)] this]
  have waited: "ensures (\<lambda>s. deployment s = ?v) (and_then (read_ack cfg intent ''web'') (\<lambda>web_ack.
      if ack_state web_ack \<noteq> JStr ''applying'' then raise_exn (Supervisor_error ''runtime_activation_in_progress'')
      else and_then (claim_recovery_lock cfg intent) (\<lambda>_. ret True))) (\<lambda>_ _. False) (\<lambda>s. deployment s = ?v)" .
  show "ensures (\<lambda>s. deployment s = ?v) (and_then (look su_lock) (\<lambda>file.
      if file = None then and_then (acquire_lock cfg intent) (\<lambda>_. ret False)
      else and_then (read_ack cfg intent ''web'') (\<lambda>web_ack.
        if ack_state web_ack \<noteq> JStr ''applying'' then raise_exn (Supervisor_error ''runtime_activation_in_progress'')
        else and_then (claim_recovery_lock cfg intent) (\<lambda>_. ret True)))) (\<lambda>_ _. False) (\<lambda>s. deployment s = ?v)"
    by (rule ensures_and_then [OF ensures_look [where Q = "\<lambda>file s. file = lock \<and> deployment s = ?v"]])
      (use waited assms in \<open>auto simp: deployment_def barred_def ensures_def\<close>)
qed (auto intro: ensures_ret ensures_raise ensures_absurd split: rt_exn.splits)

text \<open>C35: Exclusion. While a lock file stands that does not carry the id of this intent, be it another intent's
  or the empty file that a crash left between creating and writing it, applying the intent changes
  neither pointer, nor the lock, nor a runtime directory, however it ends.\<close>

theorem foreign_lock_excludes:
  assumes "apply_intent cfg intent s = (t, r)" "barred intent (su_lock s)"
  shows "deployment t = deployment s"
proof -
  define v where "v = deployment s"
  have v: "v = (su_active s, su_previous s, su_lock s, su_store s)" by (simp add: v_def deployment_def)
  have locked: "stands v (and_then (pre_cutover_lock cfg intent) f)" if "stands v (f None)" for f :: "bool option \<Rightarrow> unit action"
    unfolding v
    by (rule ensures_and_then [OF pre_cutover_barred [OF assms(2)]], rename_tac l, case_tac l)
      (use that in \<open>auto simp: v ensures_def\<close>)
  have current: "stands v (apply_current cfg intent)"
    unfolding apply_current_def by (intro stands_steps stands_intros(1,3) locked) (simp add: stands_intros)
  have "ensures (\<lambda>s. deployment s = v) (handle_exn (and_then (claim_recovery_lock cfg intent) (\<lambda>_. ret True))
      (\<lambda>e. case e of Supervisor_error c \<Rightarrow> ret False | _ \<Rightarrow> raise_exn e))
      (\<lambda>b s. \<not> b \<and> deployment s = v) (\<lambda>s. deployment s = v)"
    unfolding v
    by (rule ensures_handle [OF ensures_and_then [OF claim_barred [OF assms(2)]]])
      (auto intro: ensures_ret ensures_raise ensures_absurd split: rt_exn.splits)
  then have recover: "stands v (recover_or_fail cfg intent cur)" for cur
    unfolding recover_or_fail_def
    by (rule ensures_and_then, rename_tac b, case_tac b) (auto intro: ensures_absurd ensures_ret)
  have initial: "stands v (apply_initial_intent cfg intent)"
    unfolding apply_initial_intent_def
    by (intro stands_steps stands_intros(1,3), simp only: split_beta, intro stands_intros(1,3) stands_steps)
      (auto intro!: stands_intros(1,3) stands_steps locked keeps_stands [OF failure_stands(2)] split: option.splits)
  have "stands v (apply_intent cfg intent)"
    unfolding apply_intent_def
    by (intro stands_steps stands_intros(1,3) current recover initial keeps_stands [OF failure_stands(1)])
  then show ?thesis using assms(1) unfolding ensures_def v_def by (cases r) fastforce+
qed

text \<open>The process dies after it created its lock file and before it wrote it: no intent gets past that file.\<close>

theorem foreign_lock_excludes_witness:
  "\<exists>t. apply_intent (sample_cfg ''web'') (sample_intent ''activate'') (sample_world (replicate 2 sample_step)) = (t, Dies) \<and>
     su_lock t = Some (Regular 384 1 0 None) \<and>
     (\<forall>cfg intent hs. deployment (fst (apply_intent cfg intent (t\<lparr>su_happenings := hs\<rparr>))) = deployment t)"
proof -
  have "replicate 2 sample_step = [sample_step, sample_step]"
    by (simp add: eval_nat_numeral)
  then have "\<exists>t. apply_intent (sample_cfg ''web'') (sample_intent ''activate'') (sample_world (replicate 2 sample_step)) = (t, Dies) \<and>
     su_lock t = Some (Regular 384 1 0 None)"
    by (simp add: sample_run_defs sample_step_def)
  then obtain t where t: "apply_intent (sample_cfg ''web'') (sample_intent ''activate'') (sample_world (replicate 2 sample_step)) = (t, Dies)"
    "su_lock t = Some (Regular 384 1 0 None)" by blast
  have "deployment (fst (apply_intent cfg intent (t\<lparr>su_happenings := hs\<rparr>))) = deployment t" for cfg intent hs
    using foreign_lock_excludes [OF surjective_pairing, of intent "t\<lparr>su_happenings := hs\<rparr>" cfg] t(2)
    by (simp add: barred_def file_document_def deployment_def)
  then show ?thesis using t by blast
qed

end
