(* ===== verification/Runtime_Stranded.thy ===== *)
theory Runtime_Stranded
  imports Runtime_Recovery
begin

section \<open>An intent that expires\<close>

text \<open>
  The maintenance supervisor stops its child for an intent and starts it again when it reads that
  intent with its result. An intent that expires in between is not read any more.
\<close>

subsection \<open>What holds through an action\<close>

abbreviation through :: "(supervisor_state \<Rightarrow> bool) \<Rightarrow> 'a action \<Rightarrow> bool" where
  "through P m \<equiv> ensures P m (\<lambda>_. P) P"

lemma through_basic: "through P (ret x)" "through P (raise_exn e)" "through P (look g)" "through P (checked c)"
  "through P (need k doc)"
  by (auto simp: ensures_def action_defs need_def split: sum.splits)

lemma through_and_then: "through P m \<Longrightarrow> (\<And>x. through P (g x)) \<Longrightarrow> through P (and_then m g)"
  by (rule ensures_and_then)

lemma through_handle: "through P m \<Longrightarrow> (\<And>e. through P (h e)) \<Longrightarrow> through P (handle_exn m h)"
  by (rule ensures_handle)

lemma through_if: "(b \<Longrightarrow> through P m) \<Longrightarrow> (\<not> b \<Longrightarrow> through P n) \<Longrightarrow> through P (if b then m else n)"
  by simp

lemmas through_intros = through_basic through_and_then through_handle through_if

locale lasting =
  fixes P :: "supervisor_state \<Rightarrow> bool"
  assumes lasts: "P s \<Longrightarrow> P (pass d acks exits (s\<lparr>su_happenings := hs\<rparr>))" "P s \<Longrightarrow> P (s\<lparr>su_happenings := hs\<rparr>)"
    "P s \<Longrightarrow> P (s\<lparr>su_acks := a\<rparr>)"
begin

lemma through_effect:
  assumes "\<And>a s t. g a s = Inr t \<Longrightarrow> P s \<Longrightarrow> P t"
  shows "through P (effect g)"
proof -
  have after: "P u \<Longrightarrow> P (case g a u of Inl _ \<Rightarrow> u | Inr t \<Rightarrow> t)" for a u
    using assms [of a u] by (cases "g a u") auto
  have "P (fst (effect g s))" if "P s" for s
  proof (cases "su_happenings s")
    case Nil
    then show ?thesis using that by (simp add: effect_def)
  next
    case (Cons h hs)
    show ?thesis
    proof (cases h)
      case (Goes d acks exits answer)
      let ?u = "pass d acks exits (s\<lparr>su_happenings := hs\<rparr>)"
      have "fst (effect g s) = (case g answer ?u of Inl _ \<Rightarrow> ?u | Inr t \<Rightarrow> t)"
        using Cons Goes by (auto simp: effect_def Let_def split: sum.splits)
      then show ?thesis by (simp add: after lasts that)
    next
      case (Breaks x ran)
      let ?u = "s\<lparr>su_happenings := hs\<rparr>"
      have "fst (effect g s) = (if ran then (case g JNull ?u of Inl _ \<Rightarrow> ?u | Inr t \<Rightarrow> t) else ?u)"
        using Cons Breaks by (simp add: effect_def Let_def)
      then show ?thesis by (simp add: after lasts that)
    next
      case Killed
      then show ?thesis using Cons lasts that by (simp add: effect_def)
    qed
  qed
  then show ?thesis by (intro ensuresI) (metis fst_conv)+
qed

lemma through_change: "(\<And>s. P s \<Longrightarrow> P (g s)) \<Longrightarrow> through P (change g)"
  unfolding change_def by (intro through_intros through_effect) auto

lemma through_acks: "through P (write_ack cfg intent st)" "through P (read_ack cfg intent role)"
  unfolding write_ack_def read_ack_def
  by (auto intro!: through_intros through_change lasts split: sum.splits rt_exn.splits)

lemma through_reconcile: "through P (reconcile_and_ack cfg intent)" "through P nap"
  unfolding reconcile_and_ack_def reconcile_result_best_effort_def run_manage_def resolved_process_environment_def nap_def
  by (auto intro!: through_intros through_acks through_effect through_change split: rt_exn.splits)

end

subsection \<open>The stopped child\<close>

text \<open>The supervisor stands paused for the intent \<open>k\<close>, its child stopped, and \<open>k\<close> can no longer be read.\<close>

definition unreadable :: "supervisor_cfg \<Rightarrow> string \<Rightarrow> int \<Rightarrow> (string \<times> fs_node) list \<Rightarrow> bool" where
  "unreadable cfg k now fs \<longleftrightarrow> (\<forall>node. (k, node) \<in> set fs \<longrightarrow> (\<exists>c. load_intent cfg now k node = Inl (Supervisor_error c)))"

definition stranded :: "supervisor_cfg \<Rightarrow> string \<Rightarrow> (string \<times> fs_node) list \<Rightarrow> supervisor_state \<Rightarrow> bool" where
  "stranded cfg k fs s \<longleftrightarrow> su_paused s = k \<and> k \<noteq> [] \<and> \<not> child_alive s \<and>
     unreadable cfg k (su_clock s) (su_intents s) \<and> unreadable cfg k (su_clock s) fs"

lemma load_expired_later:
  assumes "load_intent cfg now k node = Inl (Supervisor_error c)" "now \<le> later"
  shows "\<exists>c. load_intent cfg later k node = Inl (Supervisor_error c)"
  using assms
  by (auto simp: load_intent_def bind_res_def require_def of_option_def split: sum.splits if_splits option.splits)

lemma load_identity: "load_intent cfg now stem node = Inr intent \<Longrightarrow> json_get ''intent_id'' intent = Some (JStr stem)"
  by (auto simp: load_intent_def require_def of_option_def split: sum.splits if_splits option.splits)

lemma unreadable_later: "unreadable cfg k now fs \<Longrightarrow> now \<le> later \<Longrightarrow> unreadable cfg k later fs"
  unfolding unreadable_def using load_expired_later by metis

interpretation stopped: lasting "stranded cfg k fs" for cfg k fs
  by unfold_locales
    (auto simp: stranded_def pass_def child_alive_def split: option.splits elim!: unreadable_later)

lemma ensures_seen:
  "(\<And>x. ensures (\<lambda>s. P s \<and> g s = x) (f x) Q I) \<Longrightarrow> ensures P (and_then (look g) f) Q I"
  by (simp add: ensures_def and_then_def look_def)

text \<open>Another intent's result is acknowledged, but the child is not started for it.\<close>

lemma start_skipped:
  "i \<noteq> JStr k \<Longrightarrow> through (stranded cfg k fs) (and_then (look su_paused) (\<lambda>paused.
     if JStr paused = i then and_then (start_child cfg) (\<lambda>_. pause_for (JStr [])) else ret ()))"
  by (rule ensures_seen) (auto simp: ensures_def ret_def stranded_def)

lemma finish_stranded:
  assumes "i \<noteq> JStr k"
  shows "through (stranded cfg k fs) (maintenance_finish cfg intent i)"
  unfolding maintenance_finish_def
  by (intro through_and_then [OF stopped.through_acks(2)] through_and_then [of _ "if b then m else n" for b m n] start_skipped [OF assms])
    (simp add: stopped.through_reconcile through_basic)

lemma paused_skipped:
  assumes "i \<noteq> JStr k" "through (stranded cfg k fs) rest"
  shows "through (stranded cfg k fs) (and_then (look su_paused) (\<lambda>paused.
     if paused \<noteq> [] \<and> JStr paused \<noteq> i then rest
     else if JStr paused = i then maintenance_follow cfg intent
     else do_all [stop_child, write_ack cfg intent ''quiesced'', pause_for i]))"
  by (rule ensures_seen) (use assms in \<open>auto simp: ensures_def stranded_def split: prod.splits outcome.splits\<close>)

lemma tick_over_stranded:
  "set fs \<subseteq> set gs \<Longrightarrow> through (stranded cfg k gs) (maintenance_tick_over cfg fs)"
proof (induction fs)
  case Nil
  then show ?case by (simp add: through_basic)
next
  case (Cons f fs)
  let ?P = "stranded cfg k gs"
  have rest: "through ?P (maintenance_tick_over cfg fs)" using Cons by simp
  show ?case
    unfolding maintenance_tick_over.simps
  proof (rule ensures_seen)
    fix res
    let ?S = "\<lambda>s. ?P s \<and> load_intent cfg (su_clock s) (fst f) (snd f) = res"
    show "ensures ?S (case res of Inl (Supervisor_error c) \<Rightarrow> maintenance_tick_over cfg fs | Inl e \<Rightarrow> raise_exn e
       | Inr intent \<Rightarrow> and_then (need ''intent_id'' intent) (\<lambda>intent_id.
           and_then (result_exists cfg intent) (\<lambda>done.
           if done then and_then (maintenance_finish cfg intent intent_id) (\<lambda>_. maintenance_tick_over cfg fs)
           else if app_env cfg = ''production'' then maintenance_tick_over cfg fs
           else and_then (look su_paused) (\<lambda>paused.
             if paused \<noteq> [] \<and> JStr paused \<noteq> intent_id then maintenance_tick_over cfg fs
             else if JStr paused = intent_id then maintenance_follow cfg intent
             else do_all [stop_child, write_ack cfg intent ''quiesced'', pause_for intent_id])))) (\<lambda>_. ?P) ?P"
    proof (cases res)
      case (Inl e)
      have "ensures ?S (maintenance_tick_over cfg fs) (\<lambda>_. ?P) ?P" by (rule ensures_weaken [OF rest]) auto
      then show ?thesis using Inl by (cases e) (auto intro: ensures_raise)
    next
      case (Inr intent)
      show ?thesis
      proof (cases "fst f = k")
        case True
        have "(k, snd f) \<in> set gs" using Cons.prems True by auto
        then have "\<not> ?S s" for s using Inr True unfolding stranded_def unreadable_def by fastforce
        then show ?thesis by (intro ensures_absurd)
      next
        case other: False
        have "through ?P (and_then (need ''intent_id'' intent) (\<lambda>intent_id.
           and_then (result_exists cfg intent) (\<lambda>done.
           if done then and_then (maintenance_finish cfg intent intent_id) (\<lambda>_. maintenance_tick_over cfg fs)
           else if app_env cfg = ''production'' then maintenance_tick_over cfg fs
           else and_then (look su_paused) (\<lambda>paused.
             if paused \<noteq> [] \<and> JStr paused \<noteq> intent_id then maintenance_tick_over cfg fs
             else if JStr paused = intent_id then maintenance_follow cfg intent
             else do_all [stop_child, write_ack cfg intent ''quiesced'', pause_for intent_id]))))"
          if "json_get ''intent_id'' intent = Some (JStr (fst f))"
          unfolding need_def that of_option_def option.case result_exists_def
          using other by (intro ensures_fetch)
            (auto intro!: through_intros finish_stranded rest paused_skipped)
        then have "load_intent cfg now (fst f) (snd f) = Inr intent \<Longrightarrow> ?thesis" for now
          using Inr by (auto dest!: load_identity intro: ensures_weaken)
        then show ?thesis using Inr by (cases "\<exists>s. ?S s") (auto intro: ensures_absurd)
      qed
    qed
  qed
qed

text \<open>
  The life of the maintenance supervisor: its own rounds, and between them whatever others do with the
  pointers, the lock, the results, the runtime directories and the intent files, but for the file of \<open>k\<close>,
  which is created once and not written again.
\<close>

inductive supervised :: "supervisor_cfg \<Rightarrow> string \<Rightarrow> supervisor_state \<Rightarrow> supervisor_state \<Rightarrow> bool" for cfg k where
  begun: "supervised cfg k s s"
| round: "supervised cfg k s t \<Longrightarrow> run_round cfg t = (u, Returns False) \<Longrightarrow> supervised cfg k s u"
| others: "supervised cfg k s t \<Longrightarrow> {node. (k, node) \<in> set fs} \<subseteq> {node. (k, node) \<in> set (su_intents t)} \<Longrightarrow>
    supervised cfg k s (t\<lparr>su_active := a, su_previous := p, su_lock := l, su_results := rs, su_store := st,
      su_intents := fs, su_happenings := hs\<rparr>)"

definition stuck :: "supervisor_cfg \<Rightarrow> string \<Rightarrow> supervisor_state \<Rightarrow> bool" where
  "stuck cfg k = stranded cfg k []"

lemma tick_stuck: "through (stuck cfg k) (maintenance_tick cfg)"
  unfolding maintenance_tick_def
proof (rule ensures_seen)
  fix fs
  show "ensures (\<lambda>s. stuck cfg k s \<and> su_intents s = fs) (maintenance_tick_over cfg fs) (\<lambda>_. stuck cfg k) (stuck cfg k)"
    by (rule ensures_weaken [OF tick_over_stranded [OF subset_refl, of cfg k]])
      (auto simp: stuck_def stranded_def unreadable_def)
qed

lemma round_stuck:
  assumes "sc_role cfg = ''maintenance''"
  shows "ensures (stuck cfg k) (run_round cfg) (\<lambda>ended s. \<not> ended \<and> stuck cfg k s) (stuck cfg k)"
  unfolding run_round_def
proof (rule ensures_and_then [where Q = "\<lambda>_. stuck cfg k"])
  show "through (stuck cfg k) (if \<not> activation_enabled cfg then ret ()
       else if sc_role cfg = ''maintenance'' then maintenance_tick cfg else web_tick cfg)"
    using assms by (simp add: through_basic tick_stuck)
  have "through (stuck cfg k) nap" unfolding stuck_def by (rule stopped.through_reconcile)
  then have "ensures (stuck cfg k) (and_then nap (\<lambda>_. ret False)) (\<lambda>ended s. \<not> ended \<and> stuck cfg k s) (stuck cfg k)"
    by (rule ensures_and_then) (simp add: ensures_ret)
  then show "ensures (stuck cfg k) (and_then (look (\<lambda>s. su_child s \<noteq> None \<and> \<not> child_alive s \<and> su_paused s = []))
     (\<lambda>ended. if ended then ret True else and_then nap (\<lambda>_. ret False)))
     (\<lambda>ended s. \<not> ended \<and> stuck cfg k s) (stuck cfg k)"
    by (intro ensures_seen) (auto simp: ensures_def stuck_def stranded_def)
qed

lemma supervised_stuck:
  assumes "supervised cfg k s t" "sc_role cfg = ''maintenance''" "stuck cfg k s"
  shows "stuck cfg k t"
  using assms(1,3)
proof (induction rule: supervised.induct)
  case (round s t u)
  then show ?case using round_stuck [OF assms(2), of k] by (fastforce simp: ensures_def)
next
  case (others s t fs)
  then show ?case unfolding stuck_def stranded_def unreadable_def child_alive_def by auto
qed

text \<open>C38: An expired intent leaves the maintenance process stopped. Once the maintenance supervisor is paused
  for an intent, its child stopped, and the intent has expired or become unreadable, the child stays
  stopped and the supervisor keeps on running, in every later round and whatever others do meanwhile,
  a result for that intent included.\<close>

theorem expired_intent_strands_maintenance:
  assumes "supervised cfg k s t" "sc_role cfg = ''maintenance''"
    "su_paused s = k" "k \<noteq> []" "\<not> child_alive s" "unreadable cfg k (su_clock s) (su_intents s)"
  shows "\<not> child_alive t \<and> su_paused t = k \<and> (\<forall>u. run_round cfg t \<noteq> (u, Returns True))"
proof -
  have "stuck cfg k t"
    by (rule supervised_stuck [OF assms(1,2)]) (use assms(3-6) in \<open>simp add: stuck_def stranded_def unreadable_def\<close>)
  then show ?thesis using round_stuck [OF assms(2), of k] by (fastforce simp: ensures_def stuck_def stranded_def)
qed

text \<open>
  The maintenance supervisor stops its child for the intent, which expires before the next round; then the
  result is written.
\<close>

definition sample_node :: "json \<Rightarrow> fs_node" where
  "sample_node doc = Regular 384 1 900 (Some doc)"

definition sample_begun :: supervisor_state where
  "sample_begun = (sample_world [sample_step, sample_step, Goes 990 [] False JNull])\<lparr>
     su_intents := [(''i1'', sample_node (sample_intent ''activate''))]\<rparr>"

lemma sample_intent_loads:
  "load_intent (sample_cfg r) now ''i1'' (sample_node (sample_intent mode)) =
     (if now < 1000 then Inr (sample_intent mode) else Inl (Supervisor_error ''activation_intent_expired''))"
proof -
  have v: "verify_document sample_rt_env ''activation_intent'' (sample_intent mode) = Inr ''aa''"
    unfolding sample_intent_def by (rule sample_verified) simp_all
  have e: "json_get ''expires_at_unix'' (sample_intent mode) = Some (JInt 1000)"
    by (simp add: sample_intent_def sample_signed_get)
  have "read_json (Some (sample_node (sample_intent mode))) = Inr (sample_intent mode)"
    by (simp add: sample_node_def max_control_document_bytes_def sample_intent_def sample_signed_def)
  then show ?thesis using v e
    by (simp add: load_intent_def read_signed_document_def json_get_or_def of_option_def require_def)
qed

lemma sample_quiesced:
  "\<exists>s. run_round (sample_cfg ''maintenance'') sample_begun = (s, Returns False) \<and> su_paused s = ''i1'' \<and>
     \<not> child_alive s \<and> su_clock s = 1002 \<and> su_intents s = su_intents sample_begun"
  by (simp add: sample_world_def [THEN arg_cong, of su_paused] run_round_def maintenance_tick_def sample_begun_def sample_intent_loads result_exists_def pause_for_def
      sample_run_defs sample_step_def nap_def)

theorem expired_intent_strands_maintenance_witness:
  "\<exists>s t. run_round (sample_cfg ''maintenance'') sample_begun = (s, Returns False) \<and>
     t = s\<lparr>su_results := (su_results s)(''i1'' \<mapsto> written_json JNull), su_happenings := []\<rparr> \<and> \<not> child_alive t \<and>
     (\<forall>u. run_round (sample_cfg ''maintenance'') t \<noteq> (u, Returns True))"
proof -
  obtain s where s: "run_round (sample_cfg ''maintenance'') sample_begun = (s, Returns False)" "su_paused s = ''i1''"
    "\<not> child_alive s" "su_clock s = 1002" "su_intents s = su_intents sample_begun"
    using sample_quiesced by blast
  let ?t = "s\<lparr>su_active := su_active s, su_previous := su_previous s, su_lock := su_lock s,
    su_results := (su_results s)(''i1'' \<mapsto> written_json JNull), su_store := su_store s, su_intents := su_intents s,
    su_happenings := []\<rparr>"
  have "supervised (sample_cfg ''maintenance'') ''i1'' s ?t"
    by (intro supervised.others supervised.begun) simp
  moreover have "unreadable (sample_cfg ''maintenance'') ''i1'' (su_clock s) (su_intents s)"
    using s(4,5) by (simp add: unreadable_def sample_begun_def sample_intent_loads)
  ultimately show ?thesis
    using expired_intent_strands_maintenance [of "sample_cfg ''maintenance''" "''i1''" s ?t] s(1-3) by simp
qed

end
