(* ===== verification/Canonical_Reading.thy ===== *)
theory Canonical_Reading
  imports Canonical_Text
begin

section \<open>Canonical text determines its value\<close>

text \<open>
  Two JSON values have the same canonical text exactly when they are the same value up to the order of
  the items of their objects, so a digest of the text is a digest of the value. A text that follows a
  value is read from where the value ends.
\<close>

subsection \<open>Characters and quoted texts\<close>

definition hex_value :: "char \<Rightarrow> nat" where
  "hex_value c = (if of_char c < (58 :: nat) then of_char c - 48 else of_char c - 87)"

lemma hex_value_digit [simp]: "n < 16 \<Longrightarrow> hex_value (hex_digit n) = n"
  by (simp add: hex_value_def hex_digit_def)

definition read_char :: "string \<Rightarrow> char \<times> string" where
  "read_char s =
     (if hd s \<noteq> char_of (92 :: nat) then (hd s, tl s)
      else let n = (of_char (s ! 1) :: nat) in
        if n = 34 \<or> n = 92 then (s ! 1, drop 2 s)
        else if n = 110 then (char_of (10 :: nat), drop 2 s)
        else if n = 114 then (char_of (13 :: nat), drop 2 s)
        else if n = 116 then (char_of (9 :: nat), drop 2 s)
        else if n = 102 then (char_of (12 :: nat), drop 2 s)
        else if n = 98 then (char_of (8 :: nat), drop 2 s)
        else (char_of (16 * hex_value (s ! 4) + hex_value (s ! 5)), drop 6 s))"

lemma read_plain: "c \<noteq> char_of (92 :: nat) \<Longrightarrow> read_char (c # r) = (c, r)"
  by (simp add: read_char_def)

lemma read_pair:
  "read_char (char_of (92 :: nat) # d # r) = (let n = (of_char d :: nat) in
     if n = 34 \<or> n = 92 then (d, r)
     else if n = 110 then (char_of (10 :: nat), r)
     else if n = 114 then (char_of (13 :: nat), r)
     else if n = 116 then (char_of (9 :: nat), r)
     else if n = 102 then (char_of (12 :: nat), r)
     else if n = 98 then (char_of (8 :: nat), r)
     else (char_of (16 * hex_value (r ! 2) + hex_value (r ! 3)), drop 4 r))"
  by (simp add: read_char_def Let_def numeral_eq_Suc)

lemma letters: "of_char (CHR ''n'') = (110 :: nat)" "of_char (CHR ''r'') = (114 :: nat)" "of_char (CHR ''t'') = (116 :: nat)"
  "of_char (CHR ''f'') = (102 :: nat)" "of_char (CHR ''b'') = (98 :: nat)" "of_char (CHR ''u'') = (117 :: nat)"
  by code_simp+

lemma read_u:
  "read_char (char_of (92 :: nat) # ''u00'' @ [h, l] @ r) = (char_of (16 * hex_value h + hex_value l), r)"
  by (simp add: read_pair letters Let_def del: of_char_Char)

lemma read_escaped: "read_char (json_escape c @ r) = (c, r)"
proof -
  define n where "n = (of_char c :: nat)"
  have c: "c = char_of n" and n: "n < 256"
    unfolding n_def by (simp, metis mod_less_divisor of_char_mod_256 zero_less_numeral)
  have plain: "c \<noteq> char_of (92 :: nat)" if "n \<noteq> 92"
    using that unfolding n_def by auto
  have escape: "json_escape c = (if n = 34 \<or> n = 92 then [char_of (92 :: nat), c]
     else if n = 10 then [char_of (92 :: nat), CHR ''n'']
     else if n = 13 then [char_of (92 :: nat), CHR ''r'']
     else if n = 9 then [char_of (92 :: nat), CHR ''t'']
     else if n = 12 then [char_of (92 :: nat), CHR ''f'']
     else if n = 8 then [char_of (92 :: nat), CHR ''b'']
     else if 32 \<le> n \<and> n \<le> 126 then [c]
     else char_of (92 :: nat) # ''u00'' @ [hex_digit (n div 16), hex_digit (n mod 16)])"
    by (simp only: json_escape_def Let_def n_def [symmetric]) (simp add: c)
  consider "n = 34 \<or> n = 92" | "n = 10" | "n = 13" | "n = 9" | "n = 12" | "n = 8"
    | "32 \<le> n" "n \<le> 126" "n \<noteq> 34" "n \<noteq> 92"
    | "n \<noteq> 34" "n \<noteq> 92" "n \<noteq> 10" "n \<noteq> 13" "n \<noteq> 9" "n \<noteq> 12" "n \<noteq> 8" "\<not> (32 \<le> n \<and> n \<le> 126)" by blast
  then show ?thesis
  proof cases
    case 1
    then show ?thesis by (auto simp: escape read_pair n_def [symmetric] Let_def)
  next
    case 7
    then show ?thesis using plain by (simp add: escape read_plain)
  next
    case 8
    have "char_of (16 * hex_value (hex_digit (n div 16)) + hex_value (hex_digit (n mod 16))) = c"
      using n by (simp add: c less_mult_imp_div_less)
    moreover have "json_escape c = char_of (92 :: nat) # ''u00'' @ [hex_digit (n div 16), hex_digit (n mod 16)]"
      by (simp only: escape 8 if_False simp_thms)
    ultimately show ?thesis using read_u [of "hex_digit (n div 16)" "hex_digit (n mod 16)" r] by simp
  qed (simp_all add: escape read_pair letters Let_def del: of_char_Char, simp_all add: c)
qed

lemma escape_head: "\<exists>a as. json_escape c = a # as \<and> a \<noteq> CHR 0x22"
proof -
  have "char_of (92 :: nat) \<noteq> CHR 0x22" by code_simp
  then show ?thesis by (auto simp: json_escape_def Let_def)
qed

lemma quoted_reading:
  "concat (map json_escape s) @ CHR 0x22 # r = concat (map json_escape t) @ CHR 0x22 # q \<Longrightarrow> s = t \<and> r = q"
proof (induction s arbitrary: t)
  case Nil
  then show ?case using escape_head by (cases t) (auto, metis append_Cons list.inject)
next
  case (Cons c s)
  show ?case
  proof (cases t)
    case Nil
    then show ?thesis using Cons.prems escape_head [of c] by auto
  next
    case t: (Cons d u)
    have "read_char (json_escape c @ concat (map json_escape s) @ CHR 0x22 # r) =
        read_char (json_escape d @ concat (map json_escape u) @ CHR 0x22 # q)"
      using Cons.prems t by simp
    then have "c = d" "concat (map json_escape s) @ CHR 0x22 # r = concat (map json_escape u) @ CHR 0x22 # q"
      by (simp_all add: read_escaped)
    then show ?thesis using Cons.IH t by simp
  qed
qed

lemma quote_reading: "json_quote s @ r = json_quote t @ q \<Longrightarrow> s = t \<and> r = q"
  using quoted_reading [of s r t q] by (simp add: json_quote_def)

subsection \<open>Numbers\<close>

definition delimited :: "string \<Rightarrow> bool" where
  "delimited r = (r = [] \<or> hd r \<in> {CHR '','', CHR '']'', CHR ''}''})"

lemma takeWhile_delimited: "list_all digit_char ds \<Longrightarrow> delimited r \<Longrightarrow> takeWhile digit_char (ds @ r) = ds"
  by (cases r) (auto simp: takeWhile_append delimited_def list_all_iff digit_char_def less_eq_char_def)

lemma nat_reading:
  assumes "show_nat m @ r = show_nat n @ s" "delimited r" "delimited s"
  shows "m = n \<and> r = s"
proof -
  have "show_nat m = show_nat n"
    using arg_cong [OF assms(1), of "takeWhile digit_char"] assms(2,3) show_nat_digits by (simp add: takeWhile_delimited)
  then show ?thesis using assms(1) by (simp add: show_nat_inj)
qed

lemma show_nat_head: "show_nat m @ r \<noteq> CHR ''-'' # s"
  using show_nat_digits [of m] digit_char_neq by (cases "show_nat m") auto

lemma int_reading:
  assumes "show_int i @ r = show_int j @ s" "delimited r" "delimited s"
  shows "i = j \<and> r = s"
proof (cases "i < 0 \<longleftrightarrow> j < 0")
  case True
  define a b where "a = (if i < 0 then nat (- i) else nat i)" and "b = (if i < 0 then nat (- j) else nat j)"
  have "show_nat a @ r = show_nat b @ s"
    using assms(1) True by (cases "i < 0") (simp_all add: show_int_def a_def b_def)
  then have "a = b \<and> r = s" using assms(2,3) by (rule nat_reading)
  then show ?thesis using True by (auto simp: a_def b_def split: if_splits)
next
  case False
  show ?thesis
  proof (cases "i < 0")
    case True
    then have "show_nat (nat j) @ s = CHR ''-'' # show_nat (nat (- i)) @ r"
      using assms(1) False by (simp add: show_int_def)
    then show ?thesis by (simp add: show_nat_head)
  next
    case i: False
    then have "show_nat (nat i) @ r = CHR ''-'' # show_nat (nat (- j)) @ s"
      using assms(1) False by (simp add: show_int_def)
    then show ?thesis by (simp add: show_nat_head)
  qed
qed

subsection \<open>Lists\<close>

lemma join_with_Cons: "join_with sep (p # ps) = p @ (if ps = [] then [] else sep @ join_with sep ps)"
  by (cases ps) simp_all

lemma joined_reading:
  assumes "\<And>x y r s. x \<in> set xs \<Longrightarrow> f x @ r = f y @ s \<Longrightarrow> delimited r \<Longrightarrow> delimited s \<Longrightarrow> g x = g y \<and> r = s"
    and open_item: "\<And>y r t. f y @ r \<noteq> c # t" and close: "c \<in> {CHR '']'', CHR ''}''}"
    and "join_with '','' (map f xs) @ c # r = join_with '','' (map f ys) @ c # s"
  shows "map g xs = map g ys \<and> r = s"
  using assms(1,4)
proof (induction xs arbitrary: ys)
  case Nil
  show ?case
  proof (cases ys)
    case (Cons y ys')
    then have "f y @ (if ys' = [] then [] else '','' @ join_with '','' (map f ys')) @ c # s = c # r"
      using Nil.prems(2) by (simp add: join_with_Cons)
    then show ?thesis by (simp add: open_item)
  qed (use Nil.prems in simp)
next
  case (Cons x xs)
  define rest where "rest zs t = (if zs = [] then c # t else CHR '','' # join_with '','' (map f zs) @ c # t)" for zs t
  have delim: "delimited (rest zs t)" for zs t using close by (auto simp: rest_def delimited_def)
  have start: "join_with '','' (map f (x # xs)) @ c # r = f x @ rest xs r" by (simp add: join_with_Cons rest_def)
  have ys: "ys \<noteq> []"
  proof
    assume "ys = []"
    then have "f x @ rest xs r = c # s" using Cons.prems(2) start by simp
    then show False by (simp add: open_item)
  qed
  then obtain y ys' where y: "ys = y # ys'" by (cases ys) auto
  have "f x @ rest xs r = f y @ rest ys' s"
    using Cons.prems(2) unfolding start by (simp add: y join_with_Cons rest_def)
  then have head: "g x = g y" "rest xs r = rest ys' s" using Cons.prems(1) [of x] delim by auto
  have "map g xs = map g ys' \<and> r = s"
  proof (cases "xs = [] \<or> ys' = []")
    case True
    then show ?thesis using head(2) close by (auto simp: rest_def split: if_splits)
  next
    case False
    then have "join_with '','' (map f xs) @ c # r = join_with '','' (map f ys') @ c # s"
      using head(2) by (simp add: rest_def)
    then show ?thesis
    proof (rule Cons.IH [rotated])
      fix x' y' r' s'
      assume "x' \<in> set xs" "f x' @ r' = f y' @ s'" "delimited r'" "delimited s'"
      then show "g x' = g y' \<and> r' = s'" using Cons.prems(1) [of x' r' y' s'] by simp
    qed
  qed
  then show ?case using head(1) y by simp
qed

subsection \<open>Values\<close>

text \<open>The items of every object in the order of their keys.\<close>

fun json_ordered :: "json \<Rightarrow> json" where
  "json_ordered (JArr xs) = JArr (map json_ordered xs)"
| "json_ordered (JObj kvs) = JObj (sort_key fst (map (\<lambda>(k, v). (k, json_ordered v)) kvs))"
| "json_ordered v = v"

lemma insort_map: "(\<And>x. fst (h x) = fst x) \<Longrightarrow> insort_key fst (h x) (map h xs) = map h (insort_key fst x xs)"
  by (induction xs) auto

lemma sort_map: "(\<And>x. fst (h x) = fst x) \<Longrightarrow> sort_key fst (map h xs) = map h (sort_key fst xs)"
  by (induction xs) (simp_all add: insort_map)

lemma sort_items: "sort_key fst (map (\<lambda>(k, v). (k, f v)) kvs) = map (\<lambda>(k, v). (k, f v)) (sort_key fst kvs)"
  by (rule sort_map) (simp split: prod.splits)

lemma value_head: "\<exists>a as. canonical_json v = a # as \<and> a \<notin> {CHR '']'', CHR ''}'', CHR '',''}"
proof (cases v)
  case (JInt i)
  have digits: "\<exists>a as. show_nat n = a # as \<and> digit_char a" for n
    using show_nat_digits [of n] by (cases "show_nat n") auto
  have "\<exists>a as. show_int i = a # as \<and> (a = CHR ''-'' \<or> digit_char a)"
    using digits [of "nat i"] by (cases "i < 0") (auto simp: show_int_def)
  then show ?thesis using JInt by (auto simp: digit_char_def less_eq_char_def)
qed (auto simp: json_quote_def)

text \<open>The text of an item of an object.\<close>

definition item_text :: "string \<times> json \<Rightarrow> string" where
  "item_text = (\<lambda>(k, v). json_quote k @ '':'' @ canonical_json v)"

definition item_ordered :: "string \<times> json \<Rightarrow> string \<times> json" where
  "item_ordered = (\<lambda>(k, v). (k, json_ordered v))"

lemma object_text: "canonical_json (JObj kvs) = ''{'' @ join_with '','' (map item_text (sort_key fst kvs)) @ ''}''"
proof -
  have "(\<lambda>(k, t). json_quote k @ '':'' @ t) ((\<lambda>(k, v). (k, canonical_json v)) x) = item_text x" for x
    by (cases x) (simp add: item_text_def)
  then show ?thesis by (simp only: canonical_json.simps sort_items map_map comp_def)
qed

lemma object_ordered: "json_ordered (JObj kvs) = JObj (map item_ordered (sort_key fst kvs))"
  by (simp add: sort_items item_ordered_def)

declare canonical_json.simps(6) [simp del] json_ordered.simps(2) [simp del]

lemma item_head: "item_text kv @ r \<noteq> CHR ''}'' # t"
  by (cases kv) (simp add: item_text_def json_quote_def)

lemma value_open: "canonical_json v @ r \<noteq> CHR '']'' # t"
  using value_head [of v] by auto

fun kind_of_value :: "json \<Rightarrow> nat" where
  "kind_of_value JNull = 0"
| "kind_of_value (JBool b) = 1"
| "kind_of_value (JInt i) = 2"
| "kind_of_value (JStr s) = 3"
| "kind_of_value (JArr xs) = 4"
| "kind_of_value (JObj kvs) = 5"

definition kind_of_char :: "char \<Rightarrow> nat" where
  "kind_of_char c = (if c = CHR ''n'' then 0 else if c \<in> {CHR ''t'', CHR ''f''} then 1
     else if c = CHR 0x22 then 3 else if c = CHR ''['' then 4 else if c = CHR ''{'' then 5 else 2)"

lemma int_head: "\<exists>a as. show_int i = a # as \<and> kind_of_char a = 2"
proof -
  have digits: "\<exists>a as. show_nat n = a # as \<and> digit_char a" for n
    using show_nat_digits [of n] by (cases "show_nat n") auto
  have kind: "kind_of_char a = 2" if "digit_char a" for a
    using that by (auto simp: kind_of_char_def digit_char_def less_eq_char_def)
  show ?thesis
  proof (cases "i < 0")
    case True
    then show ?thesis by (simp add: show_int_def kind_of_char_def)
  next
    case False
    then show ?thesis using digits [of "nat i"] kind by (auto simp: show_int_def)
  qed
qed

lemma value_kind: "\<exists>a as. canonical_json v = a # as \<and> kind_of_char a = kind_of_value v"
  using int_head by (cases v) (auto simp: object_text json_quote_def kind_of_char_def)

lemma same_kind: "canonical_json v @ r = canonical_json w @ s \<Longrightarrow> kind_of_value v = kind_of_value w"
  using value_kind [of v] value_kind [of w] by auto

lemma element_size: "x \<in> set xs \<Longrightarrow> size x < size (JArr xs)"
  by (induction xs) auto

lemma item_size: "(k, w) \<in> set kvs \<Longrightarrow> size w < size (JObj kvs)"
  by (induction kvs) auto

lemma value_reading:
  "canonical_json v @ r = canonical_json w @ s \<Longrightarrow> delimited r \<Longrightarrow> delimited s \<Longrightarrow>
     json_ordered v = json_ordered w \<and> r = s"
proof (induction v arbitrary: w r s rule: measure_induct_rule [of size])
  case (less v)
  note kind = same_kind [OF less.prems(1)]
  show ?case
  proof (cases v)
    case JNull
    then show ?thesis using less.prems kind by (cases w) auto
  next
    case (JBool b)
    then show ?thesis using less.prems kind by (cases w) (auto split: if_splits)
  next
    case (JInt i)
    then obtain j where w: "w = JInt j" using kind by (cases w) auto
    then show ?thesis using less.prems JInt int_reading [of i r j s] by simp
  next
    case (JStr x)
    then obtain y where w: "w = JStr y" using kind by (cases w) auto
    then show ?thesis using less.prems JStr quote_reading [of x r y s] by simp
  next
    case (JArr xs)
    then obtain ys where w: "w = JArr ys" using kind by (cases w) auto
    have eq: "join_with '','' (map canonical_json xs) @ CHR '']'' # r = join_with '','' (map canonical_json ys) @ CHR '']'' # s"
      using less.prems(1) JArr w by simp
    have item: "json_ordered x = json_ordered y \<and> r' = s'"
      if "x \<in> set xs" "canonical_json x @ r' = canonical_json y @ s'" "delimited r'" "delimited s'" for x y r' s'
      by (rule less.IH [OF _ that(2-4)]) (use element_size [OF that(1)] JArr in simp)
    have "map json_ordered xs = map json_ordered ys \<and> r = s"
      by (rule joined_reading [OF item _ _ eq]) (simp_all add: value_open)
    then show ?thesis using JArr w by simp
  next
    case (JObj kvs)
    then obtain kws where w: "w = JObj kws" using kind by (cases w) auto
    have eq: "join_with '','' (map item_text (sort_key fst kvs)) @ CHR ''}'' # r =
        join_with '','' (map item_text (sort_key fst kws)) @ CHR ''}'' # s"
      using less.prems(1) JObj w by (simp add: object_text)
    have item: "item_ordered x = item_ordered y \<and> r' = s'"
      if "x \<in> set (sort_key fst kvs)" "item_text x @ r' = item_text y @ s'" "delimited r'" "delimited s'" for x y r' s'
    proof -
      obtain k v' l w' where x: "x = (k, v')" and y: "y = (l, w')" by (cases x, cases y)
      have "json_quote k @ CHR '':'' # canonical_json v' @ r' = json_quote l @ CHR '':'' # canonical_json w' @ s'"
        using that(2) by (simp add: x y item_text_def)
      then have "k = l \<and> CHR '':'' # canonical_json v' @ r' = CHR '':'' # canonical_json w' @ s'" by (rule quote_reading)
      then have "k = l" "canonical_json v' @ r' = canonical_json w' @ s'" by simp_all
      moreover have "size v' < size v" using that(1) item_size [of k v' kvs] JObj by (simp add: x)
      ultimately show ?thesis using less.IH [of v' r' w' s'] that(3,4) by (simp add: x y item_ordered_def)
    qed
    have "map item_ordered (sort_key fst kvs) = map item_ordered (sort_key fst kws) \<and> r = s"
      by (rule joined_reading [OF item _ _ eq]) (simp_all add: item_head)
    then show ?thesis using JObj w by (simp add: object_ordered)
  qed
qed

lemma canonical_json_inject: "canonical_json v = canonical_json w \<Longrightarrow> json_ordered v = json_ordered w"
  using value_reading [of v "[]" w "[]"] by (simp add: delimited_def)

text \<open>C40: The canonical text of a value (without floating-point numbers, with texts of the code points 0 to 255)
  determines the value up to the order of the items of its objects.\<close>

theorem canonical_json_determines:
  "canonical_json v = canonical_json w \<longleftrightarrow> json_ordered v = json_ordered w"
proof
  assume "canonical_json v = canonical_json w"
  then show "json_ordered v = json_ordered w" by (rule canonical_json_inject)
next
  have "canonical_json (json_ordered u) = canonical_json u" for u
  proof (induction u)
    case (JArr xs)
    then show ?case by (simp add: comp_def cong: map_cong)
  next
    case (JObj kvs)
    have "item_text (item_ordered kv) = item_text kv" if "kv \<in> set kvs" for kv
      using JObj [OF that] by (cases kv) (auto simp: item_text_def item_ordered_def)
    then have "map (item_text \<circ> item_ordered) (sort_key fst kvs) = map item_text (sort_key fst kvs)" by simp
    moreover have "sort_key fst (map item_ordered (sort_key fst kvs)) = map item_ordered (sort_key fst kvs)"
    proof -
      have "map fst (map item_ordered (sort_key fst kvs)) = map fst (sort_key fst kvs)"
        by (simp add: item_ordered_def split_beta comp_def)
      then have "sorted (map fst (map item_ordered (sort_key fst kvs)))" by (metis sorted_sort_key)
      then show ?thesis by (rule sort_key_id_if_sorted)
    qed
    ultimately show ?case by (simp only: object_ordered object_text map_map)
  qed simp_all
  then show "json_ordered v = json_ordered w \<Longrightarrow> canonical_json v = canonical_json w" by metis
qed

end
