(* ===== verification/Environment_Identity.thy ===== *)
theory Environment_Identity
  imports Flow_Prelude
begin

section \<open>The identity of an environment\<close>

text \<open>
  \<^verbatim>\<open>flowdocs/core/environment.py\<close>: the identity an instance resolves from its variables at startup
  and the check that refuses a contradictory one, and \<^verbatim>\<open>flowdocs/core/environment_policy.py\<close>: which
  operations an identity may perform, and in which direction.

  The variables are a function from names to texts, empty for a variable that is not set (every read
  has the empty text, or a text that means the same, as its default). What the identity takes from
  outside the variables (the instance file, the host, the label files of the image, random texts) is a
  record. The files of the image are data: a label may be any JSON value.
\<close>

subsection \<open>Choices\<close>

datatype environment_kind = Env_production | Env_staging | Env_development | Env_test | Env_review

datatype data_mode =
  Mode_empty | Mode_seed | Mode_local | Mode_s3_restore | Mode_s3_pinned | Mode_sanitized | Mode_exact

datatype backup_role = Role_writer | Role_reader | Role_disabled

datatype backup_sync_mode = Sync_manual | Sync_scheduled | Sync_event_driven | Sync_hybrid

datatype restore_policy = Restore_disabled | Restore_manual | Startup_latest | Startup_pinned

datatype side_effects_mode = Effects_enabled | Effects_disabled | Effects_sandbox

fun environment_value :: "environment_kind \<Rightarrow> string" where
  "environment_value Env_production = ''production''"
| "environment_value Env_staging = ''staging''"
| "environment_value Env_development = ''development''"
| "environment_value Env_test = ''test''"
| "environment_value Env_review = ''review''"

record env_identity =
  ei_app_env :: environment_kind
  ei_deployment_id :: string
  ei_instance_id :: string
  ei_replica_id :: string
  ei_dataset_id :: string
  ei_production_source_id :: string
  ei_authoritative_dataset_id :: string
  ei_restore_source_dataset_id :: string
  ei_data_mode :: data_mode
  ei_data_pinned_generation :: string
  ei_restore_policy :: restore_policy
  ei_backup_role :: backup_role
  ei_backup_sync_mode :: backup_sync_mode
  ei_maintenance_scheduler :: bool
  ei_side_effects :: side_effects_mode
  ei_nonprod_data_policy :: string
  ei_exact_approved :: bool
  ei_exact_approval_id :: string
  ei_app_image_digest :: json
  ei_app_release_version :: json
  ei_build_image_digest :: json
  ei_build_release_version :: json

definition is_production :: "env_identity \<Rightarrow> bool" where
  "is_production i = (ei_app_env i = Env_production)"

definition is_backup_writer :: "env_identity \<Rightarrow> bool" where
  "is_backup_writer i = (ei_backup_role i = Role_writer)"

definition external_effects_enabled :: "env_identity \<Rightarrow> bool" where
  "external_effects_enabled i = (ei_side_effects i = Effects_enabled)"

definition is_authoritative_writer :: "env_identity \<Rightarrow> bool" where
  "is_authoritative_writer i = (is_backup_writer i \<and> is_production i
     \<and> ei_dataset_id i = ei_authoritative_dataset_id i \<and> ei_production_source_id i \<noteq> [])"

subsection \<open>From the variables\<close>

text \<open>
  The instance file and the release file with their text, the two label files in the order they are
  read (absent or unreadable is \<^term>\<open>None\<close>), the host name, and the random texts.
\<close>

record env_surroundings =
  sr_instance_file :: "string option"
  sr_labels :: "json option list"
  sr_release_file :: "string option"
  sr_hostname :: string
  sr_random :: string
  sr_replica :: string
  sr_under_pytest :: bool

type_synonym variables = "string \<Rightarrow> string"

definition stripped :: "variables \<Rightarrow> string \<Rightarrow> string" where
  "stripped env name = py_strip (env name)"

definition flag :: "variables \<Rightarrow> string \<Rightarrow> bool" where
  "flag env name = (py_lower (stripped env name) \<in> {''1'', ''true'', ''yes''})"

definition wide_flag :: "variables \<Rightarrow> string \<Rightarrow> bool" where
  "wide_flag env name = (py_lower (stripped env name) \<in> {''1'', ''true'', ''yes'', ''on''})"

datatype identity_error = Unsafe_dataset_id | Long_dataset_id | Unprintable_dataset_id | Unknown_app_env | App_env_required

definition validate_dataset_id :: "string \<Rightarrow> identity_error + string" where
  "validate_dataset_id v =
     (if v = [] then Inr []
      else if CHR ''/'' \<in> set v \<or> contains_text ''..'' v \<or> char_of (92 :: nat) \<in> set v then Inl Unsafe_dataset_id
      else if 100 < length v then Inl Long_dataset_id
      else if list_ex (\<lambda>c. (of_char c :: nat) < 32 \<or> 126 < (of_char c :: nat)) v then Inl Unprintable_dataset_id
      else Inr v)"

definition app_envs :: "(string \<times> environment_kind) list" where
  "app_envs = [(''production'', Env_production), (''prod'', Env_production), (''staging'', Env_staging),
     (''stage'', Env_staging), (''development'', Env_development), (''dev'', Env_development), (''test'', Env_test),
     (''review'', Env_review)]"

definition parse_app_env :: "bool \<Rightarrow> string \<Rightarrow> identity_error + environment_kind" where
  "parse_app_env lenient value =
     (let v = py_lower (py_strip value) in
      case map_of app_envs v of Some e \<Rightarrow> Inr e
      | None \<Rightarrow> if v \<noteq> [] then Inl Unknown_app_env else if lenient then Inr Env_development else Inl App_env_required)"

definition data_modes :: "(string \<times> data_mode) list" where
  "data_modes = [(''empty'', Mode_empty), (''seed'', Mode_seed), (''local'', Mode_local), (''s3-restore'', Mode_s3_restore),
     (''s3-pinned'', Mode_s3_pinned), (''sanitized-production'', Mode_sanitized), (''exact-production'', Mode_exact)]"

text \<open>\<^verbatim>\<open>mapping.get(value.strip().lower(), default)\<close>.\<close>

definition choice :: "(string \<times> 'a) list \<Rightarrow> 'a \<Rightarrow> string \<Rightarrow> 'a" where
  "choice table dflt value = (case map_of table (py_lower (py_strip value)) of None \<Rightarrow> dflt | Some x \<Rightarrow> x)"

definition parse_data_mode :: "string \<Rightarrow> data_mode" where
  "parse_data_mode = choice data_modes Mode_local"

definition parse_backup_role :: "string \<Rightarrow> backup_role" where
  "parse_backup_role = choice [(''writer'', Role_writer), (''reader'', Role_reader), (''disabled'', Role_disabled)] Role_disabled"

definition parse_backup_sync_mode :: "string \<Rightarrow> backup_sync_mode" where
  "parse_backup_sync_mode = choice [(''manual'', Sync_manual), (''scheduled'', Sync_scheduled),
     (''event-driven'', Sync_event_driven), (''hybrid'', Sync_hybrid)] Sync_manual"

definition parse_restore_policy :: "string \<Rightarrow> data_mode \<Rightarrow> restore_policy" where
  "parse_restore_policy value mode =
     choice [(''disabled'', Restore_disabled), (''manual'', Restore_manual), (''startup-latest'', Startup_latest),
         (''startup-pinned'', Startup_pinned)]
       (if mode = Mode_s3_restore then Startup_latest
        else if mode \<in> {Mode_s3_pinned, Mode_sanitized} then Startup_pinned else Restore_disabled) value"

definition parse_side_effects_mode :: "string \<Rightarrow> environment_kind \<Rightarrow> side_effects_mode" where
  "parse_side_effects_mode value kind =
     choice [(''enabled'', Effects_enabled), (''disabled'', Effects_disabled), (''sandbox'', Effects_sandbox)]
       (if py_lower (py_strip value) = [] \<and> kind = Env_production then Effects_enabled else Effects_disabled) value"

text \<open>The value an \<^verbatim>\<open>or\<close> chain of look-ups gives: the first that is true, else the empty text.\<close>

definition first_true :: "string list \<Rightarrow> json \<Rightarrow> json" where
  "first_true keys doc = (case filter json_truthy (map (\<lambda>k. json_get_or k (JStr []) doc) keys) of
       [] \<Rightarrow> JStr [] | v # vs \<Rightarrow> v)"

definition json_or :: "json \<Rightarrow> json \<Rightarrow> json" where
  "json_or a b = (if json_truthy a then a else b)"

text \<open>The label files are read until one has a digest; each that is an object replaces both values.\<close>

fun read_labels :: "json option list \<Rightarrow> json \<times> json \<Rightarrow> json \<times> json" where
  "read_labels [] found = found"
| "read_labels (Some (JObj kvs) # ls) found =
     (let digest = first_true [''image_digest'', ''oci_revision''] (JObj kvs);
          release = first_true [''git_commit'', ''release_version''] (JObj kvs) in
      if json_truthy digest then (digest, release) else read_labels ls (digest, release))"
| "read_labels (_ # ls) found = read_labels ls found"

definition derive_build_identity :: "variables \<Rightarrow> env_surroundings \<Rightarrow> json \<times> json" where
  "derive_build_identity env sr =
     (let (d, r) = read_labels (sr_labels sr) (JStr [], JStr []);
          digest = json_or d (JStr (stripped env ''APP_IMAGE_DIGEST''));
          release = json_or r (JStr (stripped env ''APP_RELEASE_VERSION'')) in
      (if json_truthy digest then digest
       else case sr_release_file sr of None \<Rightarrow> digest
         | Some text \<Rightarrow> JStr (py_strip (hd (split_on (char_of (10 :: nat)) (py_strip text)))), release))"

text \<open>The identifier, and what the instance file holds afterwards.\<close>

definition resolve_instance_id :: "string \<Rightarrow> env_surroundings \<Rightarrow> string \<times> string option" where
  "resolve_instance_id value sr =
     (if value \<noteq> [] then (value, Some value)
      else case map_option py_strip (sr_instance_file sr) of
        Some raw \<Rightarrow> if 8 \<le> length raw then (raw, sr_instance_file sr)
          else (sr_hostname sr @ ''-'' @ sr_random sr, Some (sr_hostname sr @ ''-'' @ sr_random sr))
      | None \<Rightarrow> (sr_hostname sr @ ''-'' @ sr_random sr, Some (sr_hostname sr @ ''-'' @ sr_random sr)))"

definition identity_from_env :: "variables \<Rightarrow> env_surroundings \<Rightarrow> identity_error + env_identity" where
  "identity_from_env env sr =
     bind_res (parse_app_env (wide_flag env ''ALLOW_INSECURE_DEFAULTS'' \<or> sr_under_pytest sr) (env ''APP_ENV'')) (\<lambda>kind.
     bind_res (validate_dataset_id (stripped env ''DATASET_ID'')) (\<lambda>dataset.
     bind_res (validate_dataset_id (if stripped env ''AUTHORITATIVE_DATASET_ID'' \<noteq> []
         then stripped env ''AUTHORITATIVE_DATASET_ID'' else dataset)) (\<lambda>authoritative.
     let mode = parse_data_mode (env ''DATA_MODE''); policy = parse_restore_policy (env ''RESTORE_POLICY'') mode;
         (build_digest, build_release) = derive_build_identity env sr in
     Inr \<lparr>ei_app_env = kind, ei_deployment_id = stripped env ''DEPLOYMENT_ID'',
       ei_instance_id = fst (resolve_instance_id (stripped env ''INSTANCE_ID'') sr),
       ei_replica_id = (if env ''REPLICA_ID'' \<noteq> [] then env ''REPLICA_ID'' else sr_replica sr),
       ei_dataset_id = dataset, ei_production_source_id = stripped env ''PRODUCTION_SOURCE_ID'',
       ei_authoritative_dataset_id = authoritative,
       ei_restore_source_dataset_id = stripped env ''RESTORE_SOURCE_DATASET_ID'',
       ei_data_mode = mode,
       ei_data_pinned_generation = (if mode = Mode_s3_pinned \<or> policy = Startup_pinned
         then stripped env ''DATA_PINNED_GENERATION'' else []),
       ei_restore_policy = policy, ei_backup_role = parse_backup_role (env ''BACKUP_ROLE''),
       ei_backup_sync_mode = parse_backup_sync_mode (env ''BACKUP_SYNC_MODE''),
       ei_maintenance_scheduler = flag env ''MAINTENANCE_SCHEDULER_ENABLED'',
       ei_side_effects = parse_side_effects_mode (env ''EXTERNAL_SIDE_EFFECTS_MODE'') kind,
       ei_nonprod_data_policy = stripped env ''NONPROD_DATA_POLICY'',
       ei_exact_approved = flag env ''EXACT_PRODUCTION_DATA_APPROVED'',
       ei_exact_approval_id = stripped env ''EXACT_PRODUCTION_DATA_APPROVAL_ID'',
       ei_app_image_digest = json_or (JStr (stripped env ''APP_IMAGE_DIGEST'')) build_digest,
       ei_app_release_version = json_or (JStr (stripped env ''APP_RELEASE_VERSION'')) build_release,
       ei_build_image_digest = build_digest, ei_build_release_version = build_release\<rparr>)))"

subsection \<open>The check\<close>

text \<open>One constructor for each message, with what the message renders.\<close>

datatype config_error =
    Required_in_production string
  | Dataset_not_authoritative string string
  | Source_id_required_for_writer
  | Mode_not_allowed_in_production data_mode
  | Exact_not_allowed_in_production
  | Exact_policy_required
  | Exact_approval_required
  | Restore_source_required data_mode
  | Restore_source_is_own_dataset
  | Pinned_generation_required
  | Pinned_generation_required_by_policy
  | Vault_not_enabled
  | Vault_incomplete "string list"
  | Side_effects_required
  | Side_effects_forbidden
  | Restore_as_writer
  | Writer_outside_production environment_kind
  | Build_digest_mismatch json json

definition vault_variables :: "string list" where
  "vault_variables = [''ARTIFACT_VAULT_ENDPOINT'', ''ARTIFACT_VAULT_BUCKET'', ''ARTIFACT_VAULT_REGION'',
     ''ARTIFACT_VAULT_ACCESS_KEY'', ''ARTIFACT_VAULT_SECRET_KEY'']"

definition missing_vault_config :: "variables \<Rightarrow> string list" where
  "missing_vault_config env = filter (\<lambda>name. stripped env name = []) vault_variables"

definition production_errors :: "env_identity \<Rightarrow> config_error list" where
  "production_errors i =
     (if is_production i then
        only_if (ei_deployment_id i = []) (Required_in_production ''DEPLOYMENT_ID'')
        @ only_if (ei_dataset_id i = []) (Required_in_production ''DATASET_ID'')
        @ only_if (ei_production_source_id i = []) (Required_in_production ''PRODUCTION_SOURCE_ID'')
        @ only_if (ei_authoritative_dataset_id i = []) (Required_in_production ''AUTHORITATIVE_DATASET_ID'')
        @ only_if (ei_dataset_id i \<noteq> ei_authoritative_dataset_id i \<and> is_backup_writer i)
            (Dataset_not_authoritative (ei_dataset_id i) (ei_authoritative_dataset_id i))
      else [])"

definition mode_errors :: "env_identity \<Rightarrow> config_error list" where
  "mode_errors i =
     only_if (is_production i \<and> ei_data_mode i \<in> {Mode_empty, Mode_seed, Mode_exact, Mode_sanitized})
       (Mode_not_allowed_in_production (ei_data_mode i))
     @ (if ei_data_mode i = Mode_exact then
          only_if (is_production i) Exact_not_allowed_in_production
          @ only_if (ei_nonprod_data_policy i \<noteq> ''exact'') Exact_policy_required
          @ only_if (\<not> ei_exact_approved i) Exact_approval_required
        else [])
     @ (if ei_data_mode i \<in> {Mode_s3_restore, Mode_s3_pinned, Mode_sanitized} then
          only_if (ei_restore_source_dataset_id i = []) (Restore_source_required (ei_data_mode i))
          @ only_if (ei_restore_source_dataset_id i = ei_dataset_id i \<and> \<not> is_production i) Restore_source_is_own_dataset
        else [])
     @ only_if (ei_data_mode i = Mode_s3_pinned \<and> ei_data_pinned_generation i = []) Pinned_generation_required
     @ only_if (ei_restore_policy i = Startup_pinned \<and> ei_data_pinned_generation i = [])
         Pinned_generation_required_by_policy"

definition vault_errors :: "variables \<Rightarrow> env_identity \<Rightarrow> config_error list" where
  "vault_errors env i =
     (if is_backup_writer i then
        only_if (\<not> wide_flag env ''ARTIFACT_VAULT_ENABLED'') Vault_not_enabled
        @ only_if (missing_vault_config env \<noteq> []) (Vault_incomplete (missing_vault_config env))
      else [])"

definition effect_errors :: "env_identity \<Rightarrow> config_error list" where
  "effect_errors i =
     only_if (is_production i \<and> \<not> external_effects_enabled i) Side_effects_required
     @ only_if (\<not> is_production i \<and> external_effects_enabled i \<and> ei_data_mode i \<noteq> Mode_local
         \<and> ei_data_mode i \<noteq> Mode_empty \<and> ei_data_mode i \<noteq> Mode_seed) Side_effects_forbidden
     @ only_if (ei_data_mode i \<in> {Mode_s3_restore, Mode_s3_pinned, Mode_sanitized} \<and> is_backup_writer i) Restore_as_writer
     @ only_if (\<not> is_production i \<and> is_backup_writer i \<and> ei_authoritative_dataset_id i \<noteq> [])
         (Writer_outside_production (ei_app_env i))"

text \<open>
  The message about the digests takes the first 19 items of each, for which a label that is neither a
  text nor a list has no slice (a \<^verbatim>\<open>TypeError\<close>, the left).
\<close>

fun has_slice :: "json \<Rightarrow> bool" where
  "has_slice (JStr s) = True"
| "has_slice (JArr xs) = True"
| "has_slice _ = False"

definition digest_errors :: "env_identity \<Rightarrow> unit + config_error list" where
  "digest_errors i =
     (let b = ei_build_image_digest i; a = ei_app_image_digest i in
      if json_truthy b \<and> json_truthy a \<and> b \<noteq> a
      then if has_slice b \<and> has_slice a then Inr [Build_digest_mismatch b a] else Inl ()
      else Inr [])"

definition validate_identity :: "variables \<Rightarrow> env_identity \<Rightarrow> unit + config_error list" where
  "validate_identity env i =
     bind_res (digest_errors i) (\<lambda>digests.
     Inr (production_errors i
       @ only_if (is_backup_writer i \<and> ei_production_source_id i = []) Source_id_required_for_writer
       @ mode_errors i @ vault_errors env i @ effect_errors i @ digests))"

subsection \<open>Directions\<close>

datatype vault_operation = Op_backup | Op_sync | Op_promote | Op_restore | Op_activate | Op_rollback

record direction =
  dd_allowed :: bool
  dd_reason_code :: string
  dd_local_dataset_id :: string
  dd_remote_dataset_id :: string

definition incomplete_identity :: "env_identity \<Rightarrow> string \<Rightarrow> direction" where
  "incomplete_identity i remote = \<lparr>dd_allowed = False, dd_reason_code = ''environment_identity_incomplete'',
     dd_local_dataset_id = ei_dataset_id i, dd_remote_dataset_id = remote\<rparr>"

definition activation_direction :: "env_identity \<Rightarrow> string \<Rightarrow> direction" where
  "activation_direction i remote =
     (if ei_dataset_id i = [] \<or> ei_deployment_id i = [] then incomplete_identity i remote
      else let name = environment_value (ei_app_env i); production = is_production i \<or> name = ''production'';
             allowed = \<not> production \<and> name = ''staging'' in
        \<lparr>dd_allowed = allowed,
          dd_reason_code = (if allowed then [] else if production then ''production_activation_disabled''
            else ''staging_activation_disabled''),
          dd_local_dataset_id = ei_dataset_id i, dd_remote_dataset_id = remote\<rparr>)"

definition publication_direction :: "env_identity \<Rightarrow> string \<Rightarrow> direction" where
  "publication_direction i remote =
     (if ei_dataset_id i = [] then incomplete_identity i remote
      else let target = (if remote \<noteq> [] then remote else ei_dataset_id i);
             allowed = is_authoritative_writer i \<and> is_production i \<and> environment_value (ei_app_env i) = ''production''
               \<and> ei_authoritative_dataset_id i = ei_dataset_id i \<and> target = ei_dataset_id i in
        \<lparr>dd_allowed = allowed, dd_reason_code = (if allowed then [] else ''writer_environment_required''),
          dd_local_dataset_id = ei_dataset_id i, dd_remote_dataset_id = target\<rparr>)"

definition restore_direction :: "env_identity \<Rightarrow> string \<Rightarrow> direction" where
  "restore_direction i remote =
     (if ei_dataset_id i = [] then incomplete_identity i remote
      else let name = environment_value (ei_app_env i); production = is_production i \<or> name = ''production'';
             allowed = \<not> production \<and> name \<in> {''staging'', ''development'', ''review'', ''test''}
               \<and> remote \<noteq> [] \<and> remote \<noteq> ei_dataset_id i in
        \<lparr>dd_allowed = allowed,
          dd_reason_code = (if allowed then []
            else if remote = ei_dataset_id i \<and> remote \<noteq> [] then ''restore_dataset_mismatch''
            else ''restore_environment_required''),
          dd_local_dataset_id = ei_dataset_id i, dd_remote_dataset_id = remote\<rparr>)"

definition direction_decision :: "env_identity \<Rightarrow> vault_operation \<Rightarrow> string \<Rightarrow> direction" where
  "direction_decision i op remote =
     (if op \<in> {Op_activate, Op_rollback} then activation_direction i remote
      else if op \<in> {Op_backup, Op_sync, Op_promote} then publication_direction i remote
      else restore_direction i remote)"

subsection \<open>What an accepted identity may do\<close>

lemma only_if_Nil [simp]: "only_if b x = [] \<longleftrightarrow> \<not> b"
  by (simp add: only_if_def)

lemma validated_parts:
  assumes "validate_identity env i = Inr []"
  shows "production_errors i = []" "is_backup_writer i \<Longrightarrow> ei_production_source_id i \<noteq> []"
    "mode_errors i = []" "effect_errors i = []"
  using assms by (auto simp: validate_identity_def)

lemma authoritative_default:
  assumes "identity_from_env env sr = Inr i" "ei_dataset_id i \<noteq> []"
  shows "ei_authoritative_dataset_id i \<noteq> []"
proof -
  have "\<exists>raw. validate_dataset_id (if raw \<noteq> [] then raw else ei_dataset_id i) = Inr (ei_authoritative_dataset_id i)"
    using assms(1)
    by (simp only: identity_from_env_def bind_res_eq_Inr Let_def sum.inject split_beta)
      (elim exE conjE, rule exI, hypsubst, simp only: env_identity.simps)
  then show ?thesis using assms(2) by (auto simp: validate_dataset_id_def Let_def split: if_splits)
qed

lemma validated_writer:
  assumes "identity_from_env env sr = Inr i" "validate_identity env i = Inr []" "is_backup_writer i" "ei_dataset_id i \<noteq> []"
  shows "is_authoritative_writer i" "ei_data_mode i = Mode_local"
proof -
  note v = validated_parts [OF assms(2)]
  have "is_production i"
    using v(4) assms(3) authoritative_default [OF assms(1,4)] by (auto simp: effect_errors_def)
  then show "is_authoritative_writer i" "ei_data_mode i = Mode_local"
    using v assms(3)
    by (simp_all add: is_authoritative_writer_def production_errors_def mode_errors_def effect_errors_def)
      (cases "ei_data_mode i"; auto)
qed

text \<open>Separation of the environments. For an identity that was read from the variables and passed the
  check: publishing is allowed exactly to a backup writer with a dataset, in that dataset, and such an
  identity is in production, serves local data and may neither restore nor activate; a restore is allowed
  exactly outside production from another dataset than its own, an activation exactly in staging; and
  outside production data that derives from production leaves the external side effects off.\<close>

theorem valid_identity_directions:
  assumes "identity_from_env env sr = Inr i" "validate_identity env i = Inr []"
  shows "(op \<in> {Op_backup, Op_sync, Op_promote} \<longrightarrow>
       (dd_allowed (direction_decision i op remote) \<longleftrightarrow>
          is_backup_writer i \<and> ei_dataset_id i \<noteq> [] \<and> remote \<in> {[], ei_dataset_id i}) \<and>
       (dd_allowed (direction_decision i op remote) \<longrightarrow>
          is_production i \<and> ei_data_mode i = Mode_local \<and>
          (\<forall>op' other. op' \<in> {Op_restore, Op_activate, Op_rollback} \<longrightarrow> \<not> dd_allowed (direction_decision i op' other)))) \<and>
     (dd_allowed (direction_decision i Op_restore remote) \<longleftrightarrow>
        \<not> is_production i \<and> ei_dataset_id i \<noteq> [] \<and> remote \<notin> {[], ei_dataset_id i}) \<and>
     (dd_allowed (direction_decision i Op_activate remote) \<longleftrightarrow>
        ei_app_env i = Env_staging \<and> ei_dataset_id i \<noteq> [] \<and> ei_deployment_id i \<noteq> []) \<and>
     (\<not> is_production i \<and> ei_data_mode i \<in> {Mode_s3_restore, Mode_s3_pinned, Mode_sanitized, Mode_exact} \<longrightarrow>
        \<not> external_effects_enabled i)"
proof -
  have refused: "\<not> dd_allowed (direction_decision i op' other)"
    if "is_production i" "op' \<in> {Op_restore, Op_activate, Op_rollback}" for op' other
    using that by (auto simp: direction_decision_def activation_direction_def restore_direction_def incomplete_identity_def Let_def)
  have publishing: "dd_allowed (direction_decision i op remote) \<longleftrightarrow>
      is_backup_writer i \<and> ei_dataset_id i \<noteq> [] \<and> remote \<in> {[], ei_dataset_id i}" if "op \<in> {Op_backup, Op_sync, Op_promote}"
    using that validated_writer(1) [OF assms]
    by (auto simp: direction_decision_def publication_direction_def incomplete_identity_def is_authoritative_writer_def
        is_production_def Let_def)
  have restoring: "dd_allowed (direction_decision i Op_restore remote) \<longleftrightarrow>
      \<not> is_production i \<and> ei_dataset_id i \<noteq> [] \<and> remote \<notin> {[], ei_dataset_id i}"
    by (cases "ei_app_env i") (auto simp: direction_decision_def restore_direction_def incomplete_identity_def is_production_def Let_def)
  have activating: "dd_allowed (direction_decision i Op_activate remote) \<longleftrightarrow>
      ei_app_env i = Env_staging \<and> ei_dataset_id i \<noteq> [] \<and> ei_deployment_id i \<noteq> []"
    by (cases "ei_app_env i") (auto simp: direction_decision_def activation_direction_def incomplete_identity_def is_production_def Let_def)
  have effects: "\<not> external_effects_enabled i"
    if "\<not> is_production i" "ei_data_mode i \<in> {Mode_s3_restore, Mode_s3_pinned, Mode_sanitized, Mode_exact}"
    using validated_parts(4) [OF assms(2)] that by (auto simp: effect_errors_def)
  have "is_production i \<and> ei_data_mode i = Mode_local" if "is_backup_writer i" "ei_dataset_id i \<noteq> []"
    using validated_writer [OF assms that] by (simp add: is_authoritative_writer_def)
  then show ?thesis using publishing restoring activating effects refused by blast
qed

definition sample_variables :: variables where
  "sample_variables name = (case map_of [(''APP_ENV'', '' Prod''), (''DATASET_ID'', ''main''), (''DEPLOYMENT_ID'', ''d1''),
     (''PRODUCTION_SOURCE_ID'', ''src''), (''BACKUP_ROLE'', ''writer''), (''ARTIFACT_VAULT_ENABLED'', ''1''),
     (''ARTIFACT_VAULT_ENDPOINT'', ''e''), (''ARTIFACT_VAULT_BUCKET'', ''b''), (''ARTIFACT_VAULT_REGION'', ''r''),
     (''ARTIFACT_VAULT_ACCESS_KEY'', ''a''), (''ARTIFACT_VAULT_SECRET_KEY'', ''s'')] name of None \<Rightarrow> [] | Some v \<Rightarrow> v)"

definition sample_surroundings :: env_surroundings where
  "sample_surroundings = \<lparr>sr_instance_file = None, sr_labels = [None, Some (JObj [(''image_digest'', JStr ''sha'')])],
     sr_release_file = None, sr_hostname = ''h'', sr_random = ''x'', sr_replica = ''r'', sr_under_pytest = False\<rparr>"

definition sample_writer :: env_identity where
  "sample_writer = (case identity_from_env sample_variables sample_surroundings of Inr i \<Rightarrow> i)"

lemma sample_writer_read: "identity_from_env sample_variables sample_surroundings = Inr sample_writer"
  by code_simp

lemma sample_writer_valid: "validate_identity sample_variables sample_writer = Inr []"
  by code_simp

theorem valid_identity_directions_witness:
  "dd_allowed (direction_decision sample_writer Op_sync ''main'') \<and>
   \<not> dd_allowed (direction_decision sample_writer Op_restore ''other'')"
proof -
  have "is_backup_writer sample_writer" "ei_dataset_id sample_writer = ''main''" by code_simp+
  then show ?thesis
    using valid_identity_directions [OF sample_writer_read sample_writer_valid, of Op_sync "''main''"] by auto
qed

end
