(* ===== verification/Media_Evidence.thy ===== *)
theory Media_Evidence
  imports Canonical_Reading
begin

section \<open>Evidence of unavailable documents\<close>

text \<open>
  \<^verbatim>\<open>flowdocs/core/media_quarantine.py\<close>: what is recorded of a storage key, and the attestation of the
  unavailable documents of a generation, which names their number, the first identifiers and a digest
  of all records. SHA-256 is the parameter \<open>sha\<close>, \<open>repr\<close> renders lists and dictionaries. On the code
  points 0 to 255 every text is in normal form NFC. The verification of a file on disk through open
  descriptors is not modelled.
\<close>

subsection \<open>Storage keys\<close>

text \<open>
  \<^verbatim>\<open>PurePosixPath(key)\<close>: its root (one slash, two when there are exactly two, or none), and its parts
  without the empty ones and the single dots.
\<close>

definition posix_root :: "string \<Rightarrow> string" where
  "posix_root key = (let n = length (takeWhile (\<lambda>c. c = CHR ''/'') key) in
     if n = 0 then [] else if n = 2 then ''//'' else ''/'')"

definition posix_parts :: "string \<Rightarrow> string list" where
  "posix_parts key = filter (\<lambda>p. p \<noteq> [] \<and> p \<noteq> ''.'') (split_on (CHR ''/'') key)"

definition as_posix :: "string \<Rightarrow> string" where
  "as_posix key = (let t = posix_root key @ join_with ''/'' (posix_parts key) in if t = [] then ''.'' else t)"

definition ambiguous_key :: "string \<Rightarrow> bool" where
  "ambiguous_key key = (key \<noteq> py_strip key \<or> key \<noteq> as_posix key \<or> char_of (92 :: nat) \<in> set key
     \<or> list_ex (\<lambda>c. (of_char c :: nat) < 32 \<or> of_char c = (127 :: nat)) key)"

text \<open>The parts of a path begin with its root, when it has one; no part is empty or a dot.\<close>

definition storage_key_status :: "string \<Rightarrow> string" where
  "storage_key_status key =
     (if key = [] then ''blank''
      else if ambiguous_key key \<or> posix_root key \<noteq> [] \<or> ''..'' \<in> set (posix_parts key) then ''unsafe''
      else ''present'')"

definition storage_key_evidence :: "(string \<Rightarrow> digest) \<Rightarrow> string \<Rightarrow> json" where
  "storage_key_evidence sha key = JObj [(''status'', JStr (storage_key_status key)),
     (''token_sha256'', JStr (sha (if key = [] then [] else as_posix key)))]"

subsection \<open>Attestations\<close>

definition storage_key_statuses :: "string set" where
  "storage_key_statuses = {''blank'', ''present'', ''unsafe''}"

definition prior_lifecycles :: "string set" where
  "prior_lifecycles = {''uploaded'', ''processing'', ''ready'', ''deprecated'', ''archived''}"

definition max_attested_documents :: int where
  "max_attested_documents = 10000000"

definition max_expected_size :: int where
  "max_expected_size = 2 ^ 63 - 1"

datatype attest_error = Attest_value_error string | Attest_key_error string

text \<open>\<^verbatim>\<open>str(record.get(key) or "")\<close> and \<^verbatim>\<open>str(record[key])\<close>.\<close>

definition text_or_empty :: "(json \<Rightarrow> string) \<Rightarrow> string \<Rightarrow> json \<Rightarrow> string" where
  "text_or_empty repr k record =
     (let v = json_get_or k (JStr []) record in if json_truthy v then py_str repr v else [])"

definition lower_hex :: "string \<Rightarrow> bool" where
  "lower_hex s = list_all lower_hex_char s"

text \<open>The fields of a record, as the tuple that is digested.\<close>

record attest_row =
  ar_id :: json
  ar_lifecycle :: string
  ar_status :: string
  ar_token :: string
  ar_sha256 :: string
  ar_size :: json
  ar_prior :: string

definition attest_row_of :: "(json \<Rightarrow> string) \<Rightarrow> json \<Rightarrow> attest_error + attest_row" where
  "attest_row_of repr record =
     bind_res (of_option (Attest_key_error ''id'') (json_get ''id'' record)) (\<lambda>identifier.
     bind_res (of_option (Attest_key_error ''storage_key_status'') (json_get ''storage_key_status'' record)) (\<lambda>status.
     bind_res (of_option (Attest_key_error ''storage_key_token_sha256'') (json_get ''storage_key_token_sha256'' record)) (\<lambda>token.
     Inr \<lparr>ar_id = identifier, ar_lifecycle = text_or_empty repr ''lifecycle'' record, ar_status = py_str repr status,
       ar_token = py_str repr token, ar_sha256 = text_or_empty repr ''expected_sha256'' record,
       ar_size = json_get_or ''expected_size'' JNull record,
       ar_prior = text_or_empty repr ''prior_lifecycle'' record\<rparr>)))"

definition attested_media :: "attest_row \<Rightarrow> bool" where
  "attested_media r =
     ((ar_sha256 r \<noteq> [] \<and> (case ar_size r of JInt n \<Rightarrow> 0 \<le> n \<and> n \<le> max_expected_size | _ \<Rightarrow> False)
         \<and> ar_prior r \<in> prior_lifecycles)
      \<or> (ar_sha256 r = [] \<and> ar_size r = JNull \<and> (ar_prior r = [] \<or> ar_prior r \<in> prior_lifecycles)))"

definition attest_row_ok :: "int \<Rightarrow> attest_row \<Rightarrow> bool" where
  "attest_row_ok previous_id r =
     ((case ar_id r of JInt i \<Rightarrow> previous_id < i | _ \<Rightarrow> False) \<and> ar_lifecycle r = ''unavailable''
      \<and> ar_status r \<in> storage_key_statuses \<and> length (ar_token r) = 64 \<and> lower_hex (ar_token r)
      \<and> (ar_sha256 r = [] \<or> length (ar_sha256 r) = 64 \<and> lower_hex (ar_sha256 r)) \<and> attested_media r)"

fun json_int_value :: "json \<Rightarrow> int" where
  "json_int_value (JInt i) = i"
| "json_int_value (JBool b) = (if b then 1 else 0)"
| "json_int_value _ = 0"

text \<open>The records, checked in order, with the identifier of the last and the number so far.\<close>

fun attest_rows :: "(json \<Rightarrow> string) \<Rightarrow> int \<Rightarrow> nat \<Rightarrow> json list \<Rightarrow> attest_error + attest_row list" where
  "attest_rows repr previous_id n [] = Inr []"
| "attest_rows repr previous_id n (record # records) =
     bind_res (attest_row_of repr record) (\<lambda>r.
     bind_res (require (attest_row_ok previous_id r)
       (Attest_value_error ''unavailable attestation record is invalid'')) (\<lambda>_.
     bind_res (require (int (Suc n) \<le> max_attested_documents)
       (Attest_value_error ''unavailable attestation exceeds the approved bound'')) (\<lambda>_.
     bind_res (attest_rows repr (json_int_value (ar_id r)) (Suc n) records) (\<lambda>rs. Inr (r # rs)))))"

definition attest_tuple :: "attest_row \<Rightarrow> json" where
  "attest_tuple r = JArr [ar_id r, JStr (ar_lifecycle r), JStr (ar_status r), JStr (ar_token r), JStr (ar_sha256 r),
     ar_size r, JStr (ar_prior r)]"

text \<open>The text that is digested piece by piece.\<close>

definition attest_text :: "attest_row list \<Rightarrow> string" where
  "attest_text rs = ''['' @ join_with '','' (map (\<lambda>r. canonical_json (attest_tuple r)) rs) @ '']''"

definition attestation :: "nat \<Rightarrow> json list \<Rightarrow> bool \<Rightarrow> int \<Rightarrow> digest \<Rightarrow> json" where
  "attestation n ids truncated preview_limit digest = JObj [(''count'', JInt (int n)), (''ids'', JArr ids),
     (''truncated'', JBool truncated), (''preview_limit'', JInt preview_limit), (''set_sha256'', JStr digest)]"

definition build_unavailable_attestation ::
  "(string \<Rightarrow> digest) \<Rightarrow> (json \<Rightarrow> string) \<Rightarrow> int \<Rightarrow> json list \<Rightarrow> attest_error + json" where
  "build_unavailable_attestation sha repr id_limit records =
     bind_res (require (0 \<le> id_limit \<and> id_limit \<le> 100) (Attest_value_error ''id_limit must be between 0 and 100'')) (\<lambda>_.
     bind_res (attest_rows repr 0 0 records) (\<lambda>rs.
     Inr (attestation (length rs) (map ar_id (take (nat id_limit) rs)) (id_limit < int (length rs)) id_limit
       (sha (attest_text rs)))))"

fun is_int_value :: "json \<Rightarrow> bool" where
  "is_int_value (JInt i) = True"
| "is_int_value (JBool b) = True"
| "is_int_value _ = False"

definition attestation_valid :: "json \<Rightarrow> bool" where
  "attestation_valid v =
     (case (json_get ''count'' v, json_get ''ids'' v, json_get ''truncated'' v, json_get ''preview_limit'' v, json_get ''set_sha256'' v) of
        (Some (JInt n), Some (JArr ids), Some (JBool truncated), Some (JInt limit), Some (JStr digest)) \<Rightarrow>
          0 \<le> n \<and> length ids \<le> 100 \<and> 0 \<le> limit \<and> limit \<le> 100 \<and> int (length ids) \<le> limit
          \<and> list_all (\<lambda>i. is_int_value i \<and> 0 < json_int_value i) ids
          \<and> sorted_wrt (<) (map json_int_value ids) \<and> int (length ids) \<le> n
          \<and> truncated = (limit < n) \<and> int (length ids) = min n limit
          \<and> length digest = 64 \<and> lower_hex digest
      | _ \<Rightarrow> False)"

definition validate_unavailable_attestation :: "json \<Rightarrow> attest_error + json" where
  "validate_unavailable_attestation v =
     (case v of JObj kvs \<Rightarrow>
        if attestation_valid v
        then Inr (JObj (map (\<lambda>k. (k, json_get_or k JNull v)) [''count'', ''ids'', ''truncated'', ''preview_limit'', ''set_sha256'']))
        else Inl (Attest_value_error ''unavailable attestation is invalid'')
      | _ \<Rightarrow> Inl (Attest_value_error ''unavailable attestation must be an object''))"

subsection \<open>What an attestation says\<close>

lemma attest_row_ok_id: "attest_row_ok p r \<Longrightarrow> \<exists>i. ar_id r = JInt i \<and> p < i \<and> json_ordered (ar_size r) = ar_size r"
  by (cases "ar_id r"; cases "ar_size r") (auto simp: attest_row_ok_def attested_media_def)

lemma attest_rows_ok:
  "attest_rows repr p c records = Inr rs \<Longrightarrow>
     list_all (\<lambda>r. \<exists>i. ar_id r = JInt i \<and> p < i) rs \<and> sorted_wrt (<) (map (json_int_value \<circ> ar_id) rs) \<and>
     list_all (\<lambda>r. json_ordered (attest_tuple r) = attest_tuple r) rs"
proof (induction repr p c records arbitrary: rs rule: attest_rows.induct)
  case (2 repr p c x xs)
  then obtain r rs' where r: "rs = r # rs'" "attest_row_ok p r" "attest_rows repr (json_int_value (ar_id r)) (Suc c) xs = Inr rs'"
    by auto
  obtain i where i: "ar_id r = JInt i" "p < i" and size: "json_ordered (ar_size r) = ar_size r"
    using attest_row_ok_id [OF r(2)] by blast
  have id: "json_int_value (ar_id r) = i" using i(1) by simp
  have rec: "attest_row_of repr x = Inr r" "int (Suc c) \<le> max_attested_documents" using 2(2) r(1) by (auto simp: require_def split: if_splits)
  have "list_all (\<lambda>r. \<exists>j. ar_id r = JInt j \<and> i < j) rs' \<and> sorted_wrt (<) (map (json_int_value \<circ> ar_id) rs') \<and>
    list_all (\<lambda>r. json_ordered (attest_tuple r) = attest_tuple r) rs'"
    using "2.IH" [of r rs'] rec r(2,3) id by (simp add: comp_def)
  then show ?case using r(1) i size
    by (auto simp: list_all_iff attest_tuple_def comp_def)
qed simp

lemma attest_text_array: "attest_text rs = canonical_json (JArr (map attest_tuple rs))"
  by (simp add: attest_text_def comp_def)

lemma attest_tuple_inj: "attest_tuple r = attest_tuple r' \<Longrightarrow> r = r'"
  by (simp add: attest_tuple_def)

text \<open>C39: An attestation that was built is accepted as it is, and it binds the records: two lists of records
  with the same digest, which is of no other text, have the same rows in the same order.\<close>

theorem attestation_roundtrip:
  assumes "build_unavailable_attestation sha repr limit records = Inr v" "attest_rows repr 0 0 records = Inr rs"
    "sha256_text (sha (attest_text rs))"
  shows "validate_unavailable_attestation v = Inr v \<and>
     (\<forall>limit' records' v' rs'. build_unavailable_attestation sha repr limit' records' = Inr v' \<and>
        attest_rows repr 0 0 records' = Inr rs' \<and> json_get ''set_sha256'' v' = json_get ''set_sha256'' v \<and>
        (sha (attest_text rs) = sha (attest_text rs') \<longrightarrow> attest_text rs = attest_text rs') \<longrightarrow> rs' = rs)"
proof -
  note ok = attest_rows_ok [OF assms(2)]
  have v: "v = attestation (length rs) (map ar_id (take (nat limit) rs)) (limit < int (length rs)) limit (sha (attest_text rs))"
    "0 \<le> limit" "limit \<le> 100"
    using assms(1,2) by (auto simp: build_unavailable_attestation_def)
  let ?ids = "map ar_id (take (nat limit) rs)"
  have len: "int (length ?ids) = min (int (length rs)) limit" using v(2) by (simp add: min_def) linarith
  have ints: "list_all (\<lambda>i. is_int_value i \<and> 0 < json_int_value i) ?ids"
    using ok by (auto simp: list_all_iff dest!: in_set_takeD)
  have "map json_int_value ?ids = take (nat limit) (map (json_int_value \<circ> ar_id) rs)" by (simp add: take_map)
  then have sorted: "sorted_wrt (<) (map json_int_value ?ids)" using ok by (simp add: sorted_wrt_take)
  have "attestation_valid v"
    unfolding attestation_valid_def v(1) attestation_def
    using len ints sorted v(2,3) assms(3) by (simp add: json_get_def sha256_text_def lower_hex_def)
  then have "validate_unavailable_attestation v = Inr v"
    by (simp add: validate_unavailable_attestation_def v(1) attestation_def json_get_def json_get_or_def)
  moreover have "rs' = rs" if "build_unavailable_attestation sha repr limit' records' = Inr v'"
    "attest_rows repr 0 0 records' = Inr rs'" "json_get ''set_sha256'' v' = json_get ''set_sha256'' v"
    "sha (attest_text rs) = sha (attest_text rs') \<longrightarrow> attest_text rs = attest_text rs'" for limit' records' v' rs'
  proof -
    have "sha (attest_text rs') = sha (attest_text rs)"
      using that(1-3) by (auto simp: build_unavailable_attestation_def v(1) attestation_def json_get_def)
    then have "canonical_json (JArr (map attest_tuple rs)) = canonical_json (JArr (map attest_tuple rs'))"
      using that(4) by (simp only: attest_text_array simp_thms)
    then have "json_ordered (JArr (map attest_tuple rs)) = json_ordered (JArr (map attest_tuple rs'))"
      by (rule canonical_json_inject)
    moreover have "map (\<lambda>r. json_ordered (attest_tuple r)) qs = map attest_tuple qs"
      if "list_all (\<lambda>r. json_ordered (attest_tuple r) = attest_tuple r) qs" for qs
      using that by (simp add: list_all_iff)
    ultimately have "map attest_tuple rs = map attest_tuple rs'"
      using ok attest_rows_ok [OF that(2)] by (simp add: comp_def)
    then show ?thesis using map_injective [of attest_tuple rs rs'] attest_tuple_inj by (auto simp: inj_def)
  qed
  ultimately show ?thesis by blast
qed

text \<open>A generation with two unavailable documents, of which one is named.\<close>

definition sample_unavailable :: "json list" where
  "sample_unavailable =
     (let token = JStr (replicate 64 (CHR ''b'')) in
      [JObj [(''id'', JInt 4), (''lifecycle'', JStr ''unavailable''), (''storage_key_status'', JStr ''present''),
         (''storage_key_token_sha256'', token), (''expected_sha256'', token), (''expected_size'', JInt 12),
         (''prior_lifecycle'', JStr ''ready'')],
       JObj [(''id'', JInt 9), (''lifecycle'', JStr ''unavailable''), (''storage_key_status'', JStr ''blank''),
         (''storage_key_token_sha256'', token)]])"

lemma sample_unavailable_rows:
  "\<not> isl (attest_rows (\<lambda>_. []) 0 0 sample_unavailable) \<and>
     build_unavailable_attestation (\<lambda>_. replicate 64 (CHR ''a'')) (\<lambda>_. []) 1 sample_unavailable =
       Inr (attestation 2 [JInt 4] True 1 (replicate 64 (CHR ''a'')))"
  by code_simp

theorem attestation_roundtrip_witness:
  "\<exists>v. build_unavailable_attestation (\<lambda>_. replicate 64 (CHR ''a'')) (\<lambda>_. []) 1 sample_unavailable = Inr v \<and>
     validate_unavailable_attestation v = Inr v"
proof -
  obtain rs where "attest_rows (\<lambda>_. []) 0 0 sample_unavailable = Inr rs"
    "build_unavailable_attestation (\<lambda>_. replicate 64 (CHR ''a'')) (\<lambda>_. []) 1 sample_unavailable =
       Inr (attestation 2 [JInt 4] True 1 (replicate 64 (CHR ''a'')))"
    using sample_unavailable_rows by (cases "attest_rows (\<lambda>_. []) 0 0 sample_unavailable") auto
  moreover have "sha256_text ((\<lambda>_. replicate 64 (CHR ''a'')) (attest_text rs))" by code_simp
  ultimately show ?thesis
    using attestation_roundtrip [of "\<lambda>_. replicate 64 (CHR ''a'')" "\<lambda>_. []" 1 sample_unavailable] by blast
qed

end
