(* ===== verification/Vault_Activation.thy ===== *)
theory Vault_Activation
  imports Vault_Lifecycle Runtime_Control Media_Evidence Environment_Identity
begin

section \<open>Activation coordinator\<close>

text \<open>
  \<^verbatim>\<open>flowdocs/vaultops/services/activation.py\<close>: a signed intent is scheduled in the control database and
  written for the supervisors, and the signed result of the supervisor is projected back into the
  rows of the generations. What stands outside of the database when a handler looks at it is an
  \<open>activation_world\<close>. A handler that looks more than once takes one world for each time, and
  \<open>schedule_activation\<close> takes the database as it read it beside the one its transaction meets, so that
  other processes may act in between. Columns that hold JSON objects are written as objects only.
\<close>

record activation_env =
  ae_rt :: rt_env
  ae_identity :: env_identity
  ae_activation_enabled :: bool
  ae_initial_enabled :: bool
  ae_mutations_enabled :: bool
  ae_max_age_seconds :: int

text \<open>The smoke query file: none (or a link, or no regular file), one that cannot be read, its text and
  what the text parses to.\<close>

datatype smoke_file = Smoke_missing | Smoke_unreadable | Smoke_text string "json option"

text \<open>
  \<open>aw_superadmin\<close> is the check of the recovery administrator in a database file
  (\<^verbatim>\<open>core/recovery_auth.py\<close>, password hashing), \<open>aw_capacity\<close> the capacity report for a directory.
\<close>

record activation_world =
  aw_store :: runtime_store
  aw_active :: "fs_node option"
  aw_previous :: "fs_node option"
  aw_superadmin :: "string \<Rightarrow> bool"
  aw_smoke :: smoke_file
  aw_capacity :: "string \<Rightarrow> json"

datatype act_exn =
    Coordinator string
  | Control_exn rt_exn
  | Vault_exn vault_error
  | Row_missing
  | Rows_many
  | Integrity_error
  | Attribute_problem
  | Write_problem

fun lift_left :: "('e \<Rightarrow> 'f) \<Rightarrow> 'e + 'a \<Rightarrow> 'f + 'a" where
  "lift_left f (Inl e) = Inl (f e)"
| "lift_left f (Inr x) = Inr x"

text \<open>\<^verbatim>\<open>except RuntimeControlError as exc: raise ActivationCoordinatorError(code)\<close>.\<close>

fun coordinator_of :: "string \<Rightarrow> rt_exn \<Rightarrow> act_exn" where
  "coordinator_of code (Runtime_control_error c) = Coordinator code"
| "coordinator_of code e = Control_exn e"

text \<open>\<^verbatim>\<open>QuerySet.get\<close>.\<close>

fun get_one :: "'r list \<Rightarrow> act_exn + 'r" where
  "get_one [] = Inl Row_missing"
| "get_one [r] = Inr r"
| "get_one (r # s # rs) = Inl Rows_many"

fun missing_as :: "string \<Rightarrow> act_exn \<Rightarrow> act_exn" where
  "missing_as code Row_missing = Coordinator code"
| "missing_as code e = e"

fun not_one_as :: "string \<Rightarrow> act_exn \<Rightarrow> act_exn" where
  "not_one_as code Row_missing = Coordinator code"
| "not_one_as code Rows_many = Coordinator code"
| "not_one_as code e = e"

text \<open>\<^verbatim>\<open>order_by("-key").first()\<close>; of equal keys the first row.\<close>

fun latest :: "('r \<Rightarrow> instant) \<Rightarrow> 'r list \<Rightarrow> 'r option" where
  "latest key [] = None"
| "latest key (r # rs) = (case latest key rs of None \<Rightarrow> Some r
     | Some s \<Rightarrow> Some (if key r < key s then s else r))"

definition deployment_of :: "activation_env \<Rightarrow> string" where
  "deployment_of env = ei_deployment_id (ae_identity env)"

definition rt_for :: "activation_env \<Rightarrow> string \<Rightarrow> rt_env" where
  "rt_for env deployment = (ae_rt env)\<lparr>re_deployment_id := deployment\<rparr>"

text \<open>A value of a control document as a text column of the database takes it.\<close>

definition column :: "activation_env \<Rightarrow> json \<Rightarrow> string" where
  "column env v = py_str (re_repr (ae_rt env)) v"

subsection \<open>Guards\<close>

definition guard_activation_enabled :: "activation_env \<Rightarrow> act_exn + unit" where
  "guard_activation_enabled env =
     (let direction = direction_decision (ae_identity env) Op_activate [] in
     bind_res (require (dd_allowed direction) (Coordinator (dd_reason_code direction))) (\<lambda>_.
     bind_res (require (ae_activation_enabled env) (Coordinator ''staging_activation_disabled'')) (\<lambda>_.
     require (ae_mutations_enabled env) (Coordinator ''vault_admin_mutations_disabled''))))"

definition smoke_invalid :: act_exn where
  "smoke_invalid = Coordinator ''activation_smoke_queries_invalid''"

text \<open>The locale of an item; asking whether a list or an object is in a set is a \<^verbatim>\<open>TypeError\<close>.\<close>

definition smoke_item :: "json \<Rightarrow> act_exn + string" where
  "smoke_item item =
     (case item of JObj kvs \<Rightarrow>
        (case json_get_or ''locale'' JNull item of
           JArr vs \<Rightarrow> Inl (Control_exn Type_problem)
         | JObj vs \<Rightarrow> Inl (Control_exn Type_problem)
         | JStr l \<Rightarrow> (case json_get ''query'' item of
               Some (JStr q) \<Rightarrow> if l \<in> {''en'', ''mr''} \<and> py_strip q \<noteq> [] \<and> length q \<le> 240 then Inr l else Inl smoke_invalid
             | _ \<Rightarrow> Inl smoke_invalid)
         | _ \<Rightarrow> Inl smoke_invalid)
      | _ \<Rightarrow> Inl smoke_invalid)"

fun smoke_locales :: "json list \<Rightarrow> act_exn + string list" where
  "smoke_locales [] = Inr []"
| "smoke_locales (item # items) =
     bind_res (smoke_item item) (\<lambda>l. bind_res (smoke_locales items) (\<lambda>ls. Inr (l # ls)))"

definition read_smoke_queries :: "activation_env \<Rightarrow> smoke_file \<Rightarrow> act_exn + digest" where
  "read_smoke_queries env smoke =
     (case smoke of
        Smoke_missing \<Rightarrow> Inl (Coordinator ''activation_smoke_queries_missing'')
      | Smoke_unreadable \<Rightarrow> Inl smoke_invalid
      | Smoke_text raw parsed \<Rightarrow>
          if 64 * 1024 < length raw then Inl (Coordinator ''activation_smoke_queries_too_large'')
          else (case parsed of None \<Rightarrow> Inl smoke_invalid
            | Some payload \<Rightarrow> (case json_get ''queries'' payload of
                Some (JArr queries) \<Rightarrow>
                  if length queries < 2 then Inl smoke_invalid
                  else bind_res (smoke_locales queries) (\<lambda>ls.
                    if set ls = {''en'', ''mr''} then Inr (re_sha (ae_rt env) raw)
                    else Inl (Coordinator ''activation_smoke_locales_incomplete''))
              | _ \<Rightarrow> Inl smoke_invalid)))"

definition generation_of :: "restore_workspace \<Rightarrow> control_db \<Rightarrow> act_exn + artifact_generation" where
  "generation_of w db = of_option Row_missing (get_generation (rw_generation w) db)"

definition verify_recovery_superadmin :: "activation_world \<Rightarrow> string \<Rightarrow> act_exn + unit" where
  "verify_recovery_superadmin wd runtime =
     require (aw_superadmin wd (runtime @ ''/db.sqlite3'')) (Coordinator ''activation_recovery_superadmin_unproven'')"

definition older_than :: "int \<Rightarrow> instant \<Rightarrow> instant \<Rightarrow> bool" where
  "older_than max_seconds now t = (seconds max_seconds < now - t)"

definition rehearsal_matches :: "env_identity \<Rightarrow> json \<Rightarrow> bool" where
  "rehearsal_matches i rehearsal =
     (json_truthy (json_get_or ''success'' JNull rehearsal)
      \<and> json_get_or ''app_release'' JNull rehearsal = ei_app_release_version i
      \<and> json_get_or ''image_digest'' JNull rehearsal = ei_app_image_digest i)"

definition verify_workspace ::
  "activation_env \<Rightarrow> activation_world \<Rightarrow> instant \<Rightarrow> restore_workspace \<Rightarrow> control_db \<Rightarrow> act_exn + string" where
  "verify_workspace env wd now w db =
     bind_res (require (rw_state w = Activation_ready) (Coordinator ''workspace_not_activation_ready'')) (\<lambda>_.
     bind_res (require (rw_runtime_path w \<noteq> []) (Coordinator ''runtime_workspace_unprepared'')) (\<lambda>_.
     bind_res (of_option (Coordinator ''runtime_workspace_unprepared'') (rw_prepared_at w)) (\<lambda>prepared.
     bind_res (require (\<not> older_than (ae_max_age_seconds env) now prepared) (Coordinator ''activation_validation_expired'')) (\<lambda>_.
     bind_res (require (rehearsal_matches (ae_identity env) (rw_rehearsal_evidence w))
       (Coordinator ''activation_rehearsal_evidence_mismatch'')) (\<lambda>_.
     bind_res (generation_of w db) (\<lambda>g.
     bind_res (lift_left Control_exn (validate_runtime_workspace (ae_rt env) (aw_store wd) True (JStr (rw_runtime_path w))
         (JStr (ag_generation_id g)) (JStr (rw_manifest_digest w)))) (\<lambda>runtime.
     bind_res (verify_recovery_superadmin wd runtime) (\<lambda>_. Inr runtime))))))))"

definition activation_request_replay ::
  "string \<Rightarrow> string \<Rightarrow> restore_workspace \<Rightarrow> digest \<Rightarrow> control_db \<Rightarrow> act_exn + activation_intent option" where
  "activation_request_replay deployment key w state_digest db =
     (if key = [] then Inr None
      else case List.find (\<lambda>i. ai_deployment_id i = deployment \<and> ai_idempotency_key i = key) (intents db) of
        None \<Rightarrow> Inr None
      | Some existing \<Rightarrow>
          bind_res (generation_of w db) (\<lambda>g.
          bind_res (require (ai_workspace existing = Some (rw_pk w) \<and> ai_request_state_digest existing = state_digest
              \<and> ai_target_generation_id existing = ag_generation_id g \<and> ai_manifest_digest existing = rw_manifest_digest w)
            (Coordinator ''idempotency_conflict'')) (\<lambda>_.
          Inr (Some existing))))"

subsection \<open>One step back\<close>

text \<open>The active and the previous pointer, both signed for this deployment.\<close>

definition read_pointers ::
  "activation_env \<Rightarrow> activation_world \<Rightarrow> act_exn + resolved_runtime \<times> resolved_runtime" where
  "read_pointers env wd =
     (let rt = rt_for env (deployment_of env) in
     lift_left (coordinator_of ''rollback_pointer_unverified'')
       (bind_res (read_runtime_pointer rt (aw_store wd) (aw_active wd)) (\<lambda>active.
        bind_res (read_runtime_pointer rt (aw_store wd) (aw_previous wd)) (\<lambda>previous. Inr (active, previous)))))"

definition projected_generation ::
  "activation_env \<Rightarrow> resolved_runtime \<Rightarrow> control_db \<Rightarrow> act_exn + artifact_generation" where
  "projected_generation env p db =
     lift_left (missing_as ''rollback_generation_unprojected'')
       (get_one (filter (\<lambda>g. ag_deployment_id g = deployment_of env
          \<and> ag_generation_id g = column env (rr_generation_id p)) (generations db)))"

definition observed_pointers ::
  "activation_env \<Rightarrow> instant \<Rightarrow> json \<Rightarrow> json \<Rightarrow> digest \<Rightarrow> control_db \<Rightarrow> act_exn + unit" where
  "observed_pointers env now active previous pointer_digest db =
     require (case latest po_observed_at (filter (\<lambda>o'. po_deployment_id o' = deployment_of env) (observations db)) of
          None \<Rightarrow> False
        | Some seen \<Rightarrow> \<not> older_than (ae_max_age_seconds env) now (po_observed_at seen)
            \<and> JStr (po_active_generation_id seen) = active \<and> JStr (po_previous_generation_id seen) = previous
            \<and> po_pointer_digest seen = pointer_digest)
       (Coordinator ''rollback_pointer_observation_stale'')"

definition rollback_evidence ::
  "resolved_runtime \<Rightarrow> resolved_runtime \<Rightarrow> artifact_generation \<Rightarrow> artifact_generation \<Rightarrow> json" where
  "rollback_evidence active previous ga gp = JObj [
     (''purpose'', JStr ''one_step_runtime_rollback''),
     (''active_generation_id'', JStr (ag_generation_id ga)), (''active_manifest_digest'', JStr (ag_manifest_digest ga)),
     (''active_pointer_digest'', JStr (rr_pointer_digest active)),
     (''previous_generation_id'', JStr (ag_generation_id gp)), (''previous_manifest_digest'', JStr (ag_manifest_digest gp)),
     (''previous_pointer_digest'', JStr (rr_pointer_digest previous)),
     (''previous_runtime_path'', JStr (rr_runtime_path previous)), (''vault_authority_changed'', JBool False)]"

definition rollback_rehearsal :: "env_identity \<Rightarrow> json" where
  "rollback_rehearsal i = JObj [(''success'', JBool True), (''app_release'', ei_app_release_version i),
     (''image_digest'', ei_app_image_digest i), (''basis'', JStr ''previous_signed_runtime'')]"

definition rollback_workspace_for ::
  "artifact_generation \<Rightarrow> resolved_runtime \<Rightarrow> control_db \<Rightarrow> restore_workspace option" where
  "rollback_workspace_for gp previous db =
     latest rw_created_at (filter (\<lambda>w. rw_generation w = ag_pk gp \<and> rw_state w = Activation_ready
        \<and> rw_runtime_path w = rr_runtime_path previous
        \<and> json_get ''purpose'' (rw_validation_evidence w) = Some (JStr ''one_step_runtime_rollback'')) (workspaces db))"

definition next_workspace_pk :: "control_db \<Rightarrow> nat" where
  "next_workspace_pk db = Suc (fold max (map rw_pk (workspaces db)) 0)"

definition prepare_previous_runtime_rollback ::
  "activation_env \<Rightarrow> activation_world \<Rightarrow> instant \<Rightarrow> string \<Rightarrow> control_db \<Rightarrow> act_exn + control_db \<times> restore_workspace" where
  "prepare_previous_runtime_rollback env wd now public_id db =
     bind_res (guard_activation_enabled env) (\<lambda>_.
     bind_res (read_pointers env wd) (\<lambda>(active, previous).
     bind_res (projected_generation env active db) (\<lambda>ga.
     bind_res (projected_generation env previous db) (\<lambda>gp.
     bind_res (require (ag_origin ga = Local_maintenance \<and> ag_runtime_state ga = Active)
       (Coordinator ''rollback_active_generation_ineligible'')) (\<lambda>_.
     bind_res (require (ag_runtime_state gp = Previous \<and> ag_parent_generation_id ga = ag_generation_id gp
         \<and> ag_parent_manifest_digest ga = ag_manifest_digest gp
         \<and> rr_manifest_digest active = JStr (ag_manifest_digest ga) \<and> rr_manifest_digest previous = JStr (ag_manifest_digest gp))
       (Coordinator ''rollback_lineage_invalid'')) (\<lambda>_.
     bind_res (observed_pointers env now (JStr (ag_generation_id ga)) (JStr (ag_generation_id gp))
       (rr_pointer_digest active) db) (\<lambda>_.
     bind_res (verify_recovery_superadmin wd (rr_runtime_path previous)) (\<lambda>_.
     let evidence = rollback_evidence active previous ga gp; rehearsal = rollback_rehearsal (ae_identity env) in
     case rollback_workspace_for gp previous db of
       None \<Rightarrow>
         (let w = \<lparr>rw_pk = next_workspace_pk db, rw_public_id = public_id, rw_job = None, rw_generation = ag_pk gp,
             rw_state = Activation_ready, rw_manifest_digest = ag_manifest_digest gp,
             rw_pointer_digest = rr_pointer_digest active, rw_runtime_path = rr_runtime_path previous,
             rw_validation_evidence = evidence, rw_rehearsal_evidence = rehearsal, rw_prepared_at = Some now,
             rw_expires_at = Some (now + seconds 600), rw_created_at = now, rw_updated_at = now\<rparr> in
          Inr (db\<lparr>workspaces := workspaces db @ [w]\<rparr>, w))
     | Some w \<Rightarrow>
         (let w' = w\<lparr>rw_pointer_digest := rr_pointer_digest active, rw_validation_evidence := evidence,
             rw_rehearsal_evidence := rehearsal, rw_prepared_at := Some now,
             rw_expires_at := Some (now + seconds 600), rw_updated_at := now\<rparr> in
          Inr (put_workspace w' db, w'))))))))))"

definition rollback_authority ::
  "activation_env \<Rightarrow> resolved_runtime \<Rightarrow> resolved_runtime \<Rightarrow> json \<Rightarrow> restore_workspace \<Rightarrow> artifact_generation \<Rightarrow> bool" where
  "rollback_authority env active previous evidence w g =
     (rr_generation_id active = json_get_or ''active_generation_id'' JNull evidence
      \<and> rr_manifest_digest active = json_get_or ''active_manifest_digest'' JNull evidence
      \<and> JStr (rr_pointer_digest active) = json_get_or ''active_pointer_digest'' JNull evidence
      \<and> rr_generation_id previous = json_get_or ''previous_generation_id'' JNull evidence
      \<and> rr_manifest_digest previous = json_get_or ''previous_manifest_digest'' JNull evidence
      \<and> JStr (rr_pointer_digest previous) = json_get_or ''previous_pointer_digest'' JNull evidence
      \<and> JStr (rr_runtime_path previous) = json_get_or ''previous_runtime_path'' JNull evidence
      \<and> JStr (ag_generation_id g) = rr_generation_id previous
      \<and> JStr (rw_manifest_digest w) = rr_manifest_digest previous
      \<and> re_resolve (ae_rt env) (rw_runtime_path w) = rr_runtime_path previous)"

definition validate_previous_runtime_rollback ::
  "activation_env \<Rightarrow> activation_world \<Rightarrow> instant \<Rightarrow> restore_workspace \<Rightarrow> control_db \<Rightarrow>
   act_exn + resolved_runtime \<times> resolved_runtime" where
  "validate_previous_runtime_rollback env wd now w db =
     bind_res (guard_activation_enabled env) (\<lambda>_.
     let evidence = rw_validation_evidence w in
     bind_res (require (rw_state w = Activation_ready
         \<and> json_get_or ''purpose'' JNull evidence = JStr ''one_step_runtime_rollback'')
       (Coordinator ''rollback_workspace_invalid'')) (\<lambda>_.
     bind_res (read_pointers env wd) (\<lambda>(active, previous).
     bind_res (generation_of w db) (\<lambda>g.
     bind_res (require (rollback_authority env active previous evidence w g) (Coordinator ''rollback_authority_changed'')) (\<lambda>_.
     bind_res (projected_generation env active db) (\<lambda>ga.
     bind_res (require (ag_origin ga = Local_maintenance \<and> ag_runtime_state ga = Active
         \<and> JStr (ag_parent_generation_id ga) = rr_generation_id previous
         \<and> JStr (ag_parent_manifest_digest ga) = rr_manifest_digest previous)
       (Coordinator ''rollback_lineage_invalid'')) (\<lambda>_.
     bind_res (observed_pointers env now (rr_generation_id active) (rr_generation_id previous) (rr_pointer_digest active) db) (\<lambda>_.
     Inr (active, previous)))))))))"

subsection \<open>Scheduling\<close>

record activation_request =
  aq_actor_id :: "nat option"
  aq_actor_name :: string
  aq_confirmed :: bool
  aq_expires_seconds :: int
  aq_key :: string
  aq_state_digest :: digest
  aq_rollback :: bool
  aq_recovery_set_id :: string
  aq_public_id :: string

text \<open>What was found before the intent is written down.\<close>

record activation_plan =
  pl_workspace :: restore_workspace
  pl_target :: artifact_generation
  pl_runtime :: string
  pl_capacity :: json
  pl_smoke_digest :: digest
  pl_current :: "(resolved_runtime \<times> nat) option"
  pl_rollback :: "resolved_runtime option"
  pl_unavailable :: json

definition pl_initial :: "activation_plan \<Rightarrow> bool" where
  "pl_initial pl = (pl_current pl = None)"

definition capacity_ok :: "json \<Rightarrow> bool" where
  "capacity_ok report = (json_truthy (json_get_or ''byte_capacity_ok'' JNull report)
     \<and> json_truthy (json_get_or ''inode_capacity_ok'' JNull report))"

definition active_generations :: "string \<Rightarrow> control_db \<Rightarrow> artifact_generation list" where
  "active_generations deployment db =
     filter (\<lambda>g. ag_deployment_id g = deployment \<and> ag_runtime_state g = Active) (generations db)"

text \<open>The active pointer, or none when this is the first activation.\<close>

definition current_runtime ::
  "activation_env \<Rightarrow> activation_world \<Rightarrow> bool \<Rightarrow> control_db \<Rightarrow> act_exn + resolved_runtime option" where
  "current_runtime env wd rollback db =
     (case read_runtime_pointer (rt_for env (deployment_of env)) (aw_store wd) (aw_active wd) of
        Inr p \<Rightarrow> Inr (Some p)
      | Inl (Runtime_control_error c) \<Rightarrow>
          if rollback \<or> \<not> ae_initial_enabled env \<or> aw_active wd \<noteq> None \<or> aw_previous wd \<noteq> None
             \<or> active_generations (deployment_of env) db \<noteq> []
          then Inl (Coordinator ''activation_previous_runtime_invalid'') else Inr None
      | Inl e \<Rightarrow> Inl (Control_exn e))"

definition previous_generation ::
  "activation_env \<Rightarrow> resolved_runtime \<Rightarrow> control_db \<Rightarrow> act_exn + artifact_generation" where
  "previous_generation env p db =
     lift_left (not_one_as ''activation_previous_generation_unprojected'')
       (get_one (filter (\<lambda>g. ag_deployment_id g = deployment_of env \<and> ag_generation_id g = column env (rr_generation_id p)
          \<and> ag_manifest_digest g = column env (rr_manifest_digest p) \<and> ag_runtime_state g = Active) (generations db)))"

definition candidate_lineage :: "restore_workspace \<Rightarrow> artifact_generation \<Rightarrow> resolved_runtime \<Rightarrow> bool" where
  "candidate_lineage w g current =
     (ag_vault_state g = Vault_unknown \<and> JStr (ag_parent_generation_id g) = rr_generation_id current
      \<and> JStr (ag_parent_manifest_digest g) = rr_manifest_digest current \<and> rw_pointer_digest w = rr_pointer_digest current
      \<and> rw_manifest_digest w = ag_manifest_digest g
      \<and> json_get_or ''origin'' JNull (rw_validation_evidence w) = JStr ''local_maintenance'')"

definition unavailable_documents :: "activation_env \<Rightarrow> artifact_generation \<Rightarrow> act_exn + json" where
  "unavailable_documents env g =
     lift_left (\<lambda>_. Coordinator ''activation_unavailable_attestation_invalid'')
       (case json_get ''unavailable_documents'' (ag_manifest g) of Some v \<Rightarrow> validate_unavailable_attestation v
        | None \<Rightarrow> bind_res (build_unavailable_attestation (re_sha (ae_rt env)) (re_repr (ae_rt env)) 20 [])
            validate_unavailable_attestation)"

definition current_row ::
  "activation_env \<Rightarrow> resolved_runtime option \<Rightarrow> control_db \<Rightarrow> act_exn + (resolved_runtime \<times> nat) option" where
  "current_row env current db =
     (case current of None \<Rightarrow> Inr None
      | Some p \<Rightarrow> bind_res (previous_generation env p db) (\<lambda>g. Inr (Some (p, ag_pk g))))"

text \<open>A rollback is held against both pointers once more; the others keep what was read.\<close>

definition fence_rollback ::
  "activation_env \<Rightarrow> bool \<Rightarrow> activation_world \<Rightarrow> instant \<Rightarrow> restore_workspace \<Rightarrow> artifact_generation \<Rightarrow>
   (resolved_runtime \<times> nat) option \<Rightarrow> control_db \<Rightarrow> act_exn + (resolved_runtime \<times> nat) option \<times> resolved_runtime option" where
  "fence_rollback env rollback wd now w target current db =
     (if rollback
      then bind_res (validate_previous_runtime_rollback env wd now w db) (\<lambda>(active, previous).
        bind_res (require (JStr (ag_generation_id target) = rr_generation_id previous
            \<and> JStr (ag_manifest_digest target) = rr_manifest_digest previous) (Coordinator ''rollback_lineage_invalid'')) (\<lambda>_.
        Inr (map_option (\<lambda>(p, pk). (active, pk)) current, Some previous)))
      else Inr (current, None))"

definition check_lineage ::
  "bool \<Rightarrow> restore_workspace \<Rightarrow> artifact_generation \<Rightarrow> (resolved_runtime \<times> nat) option \<Rightarrow> act_exn + unit" where
  "check_lineage rollback w target current =
     (case current of
        Some (p, pk) \<Rightarrow> require (ag_origin target \<noteq> Local_maintenance \<or> rollback \<or> candidate_lineage w target p)
          (Coordinator ''maintenance_candidate_lineage_invalid'')
      | None \<Rightarrow> Inr ())"

text \<open>
  \<open>wd1\<close> is what stood outside when the request came, \<open>wd2\<close> after the runtime was verified and the
  capacity counted, when the pointers of a rollback are read once more.
\<close>

definition fresh_plan ::
  "activation_env \<Rightarrow> activation_request \<Rightarrow> activation_world \<Rightarrow> activation_world \<Rightarrow> instant \<Rightarrow> restore_workspace \<Rightarrow>
   control_db \<Rightarrow> act_exn + activation_plan" where
  "fresh_plan env q wd1 wd2 now w db =
     bind_res (if aq_rollback q then bind_res (validate_previous_runtime_rollback env wd1 now w db) (\<lambda>_. Inr ()) else Inr ()) (\<lambda>_.
     bind_res (verify_workspace env wd1 now w db) (\<lambda>runtime.
     bind_res (require (capacity_ok (aw_capacity wd1 runtime)) (Coordinator ''activation_capacity_insufficient'')) (\<lambda>_.
     bind_res (read_smoke_queries env (aw_smoke wd1)) (\<lambda>smoke.
     bind_res (current_runtime env wd1 (aq_rollback q) db) (\<lambda>current.
     bind_res (generation_of w db) (\<lambda>target.
     bind_res (require (map_option rr_generation_id current \<noteq> Some (JStr (ag_generation_id target)))
       (Coordinator ''generation_already_active'')) (\<lambda>_.
     bind_res (current_row env current db) (\<lambda>row.
     bind_res (fence_rollback env (aq_rollback q) wd2 now w target row db) (\<lambda>fenced.
     bind_res (check_lineage (aq_rollback q) w target (fst fenced)) (\<lambda>_.
     bind_res (unavailable_documents env target) (\<lambda>unavailable.
     Inr \<lparr>pl_workspace = w, pl_target = target, pl_runtime = runtime, pl_capacity = aw_capacity wd1 runtime,
       pl_smoke_digest = smoke, pl_current = fst fenced, pl_rollback = snd fenced, pl_unavailable = unavailable\<rparr>)))))))))))"

definition plan_activation ::
  "activation_env \<Rightarrow> activation_request \<Rightarrow> activation_world \<Rightarrow> activation_world \<Rightarrow> instant \<Rightarrow> restore_workspace \<Rightarrow>
   control_db \<Rightarrow> act_exn + activation_intent + activation_plan" where
  "plan_activation env q wd1 wd2 now w db =
     bind_res (guard_activation_enabled env) (\<lambda>_.
     bind_res (require (aq_confirmed q) (Coordinator ''typed_confirmation_required'')) (\<lambda>_.
     bind_res (require (30 \<le> aq_expires_seconds q \<and> aq_expires_seconds q \<le> 900)
       (Coordinator ''activation_intent_expiry_invalid'')) (\<lambda>_.
     bind_res (require (aq_key q = [] \<or> length (aq_state_digest q) = 64) (Coordinator ''activation_request_state_invalid'')) (\<lambda>_.
     bind_res (activation_request_replay (deployment_of env) (aq_key q) w (aq_state_digest q) db) (\<lambda>replay.
     case replay of Some existing \<Rightarrow> Inr (Inl existing)
     | None \<Rightarrow> bind_res (fresh_plan env q wd1 wd2 now w db) (\<lambda>pl. Inr (Inr pl)))))))"

definition current_field :: "activation_plan \<Rightarrow> (resolved_runtime \<Rightarrow> json) \<Rightarrow> json" where
  "current_field pl f = (case pl_current pl of Some (p, pk) \<Rightarrow> f p | None \<Rightarrow> JStr [])"

definition current_row_pk :: "activation_plan \<Rightarrow> json" where
  "current_row_pk pl = (case pl_current pl of Some (p, pk) \<Rightarrow> JInt (int pk) | None \<Rightarrow> JNull)"

definition activation_mode :: "activation_request \<Rightarrow> activation_plan \<Rightarrow> string" where
  "activation_mode q pl = (if aq_rollback q then ''rollback'' else if pl_initial pl then ''initial'' else ''activate'')"

definition rollback_fields :: "activation_plan \<Rightarrow> (string \<times> json) list" where
  "rollback_fields pl = (case pl_rollback pl of None \<Rightarrow> [] | Some p \<Rightarrow>
     [(''rollback_previous_generation_id'', rr_generation_id p), (''rollback_previous_manifest_digest'', rr_manifest_digest p),
      (''rollback_previous_pointer_digest'', JStr (rr_pointer_digest p))])"

definition intent_payload ::
  "activation_env \<Rightarrow> activation_request \<Rightarrow> activation_plan \<Rightarrow> instant \<Rightarrow> (string \<times> json) list" where
  "intent_payload env q pl expires_at =
     [(''schema_version'', JInt 1), (''kind'', JStr ''activation_intent''), (''intent_id'', JStr (aq_public_id q)),
      (''deployment_id'', JStr (deployment_of env)), (''target_generation_id'', JStr (ag_generation_id (pl_target pl))),
      (''target_manifest_digest'', JStr (rw_manifest_digest (pl_workspace pl))),
      (''target_runtime_path'', JStr (pl_runtime pl)),
      (''previous_generation_id'', current_field pl rr_generation_id),
      (''previous_generation_record_id'', current_row_pk pl),
      (''previous_manifest_digest'', current_field pl rr_manifest_digest),
      (''previous_pointer_digest'', current_field pl (\<lambda>p. JStr (rr_pointer_digest p))),
      (''activation_mode'', JStr (activation_mode q pl)), (''smoke_queries_digest'', JStr (pl_smoke_digest pl)),
      (''actor_id'', json_opt (\<lambda>n. JInt (int n)) (aq_actor_id q)), (''actor_name'', JStr (aq_actor_name q)),
      (''expires_at_unix'', JInt (expires_at div 1000000)), (''state_version'', JInt 1),
      (''recovery_set_id'', JStr (aq_recovery_set_id q)), (''unavailable_documents'', pl_unavailable pl)]
     @ rollback_fields pl"

definition rollback_field :: "activation_plan \<Rightarrow> (resolved_runtime \<Rightarrow> json) \<Rightarrow> json" where
  "rollback_field pl f = (case pl_rollback pl of Some p \<Rightarrow> f p | None \<Rightarrow> JStr [])"

definition intent_checkpoint :: "activation_request \<Rightarrow> activation_plan \<Rightarrow> json" where
  "intent_checkpoint q pl = JObj
     [(''previous_pointer_digest'', current_field pl (\<lambda>p. JStr (rr_pointer_digest p))),
      (''previous_generation_record_id'', current_row_pk pl),
      (''previous_manifest_digest'', current_field pl rr_manifest_digest),
      (''initial_activation'', JBool (pl_initial pl)),
      (''rollback_previous_generation_id'', rollback_field pl rr_generation_id),
      (''rollback_previous_manifest_digest'', rollback_field pl rr_manifest_digest),
      (''rollback_previous_pointer_digest'', rollback_field pl (\<lambda>p. JStr (rr_pointer_digest p))),
      (''target_runtime_path'', JStr (pl_runtime pl)), (''smoke_queries_digest'', JStr (pl_smoke_digest pl)),
      (''protocol_state'', JStr ''scheduled''), (''capacity_plan'', pl_capacity pl),
      (''recovery_set_id'', JStr (aq_recovery_set_id q))]"

definition new_intent ::
  "activation_env \<Rightarrow> activation_request \<Rightarrow> activation_plan \<Rightarrow> digest \<Rightarrow> instant \<Rightarrow> instant \<Rightarrow> activation_intent" where
  "new_intent env q pl digest expires_at now = \<lparr>ai_public_id = aq_public_id q, ai_workspace = Some (rw_pk (pl_workspace pl)),
     ai_deployment_id = deployment_of env, ai_target_generation_id = ag_generation_id (pl_target pl),
     ai_previous_generation_id = column env (current_field pl rr_generation_id),
     ai_manifest_digest = rw_manifest_digest (pl_workspace pl), ai_intent_digest = digest, ai_idempotency_key = aq_key q,
     ai_request_state_digest = aq_state_digest q, ai_state = Intent_pending, ai_checkpoint = intent_checkpoint q pl,
     ai_actor_id = aq_actor_id q, ai_actor_name = aq_actor_name q, ai_safe_error_code = [], ai_applied_at = None,
     ai_committed_at = None, ai_expires_at = expires_at, ai_updated_at = now\<rparr>"

subsection \<open>The transaction\<close>

definition intent_unfinished :: "activation_intent \<Rightarrow> bool" where
  "intent_unfinished i = (ai_state i \<in> {Intent_pending, Intent_applying})"

text \<open>Unique in the table: the identifier, the digest, and within a deployment the key when it has one.\<close>

definition intent_conflicts :: "activation_intent \<Rightarrow> activation_intent \<Rightarrow> bool" where
  "intent_conflicts i j = (ai_public_id i = ai_public_id j \<or> ai_intent_digest i = ai_intent_digest j
     \<or> (ai_idempotency_key i \<noteq> [] \<and> ai_deployment_id i = ai_deployment_id j \<and> ai_idempotency_key i = ai_idempotency_key j))"

text \<open>A row of a generation is saved; the database keeps one active generation for each deployment.\<close>

definition save_generation :: "artifact_generation \<Rightarrow> control_db \<Rightarrow> act_exn + control_db" where
  "save_generation g db =
     (if ag_runtime_state g = Active \<and> ag_deployment_id g \<noteq> []
         \<and> list_ex (\<lambda>h. ag_pk h \<noteq> ag_pk g) (active_generations (ag_deployment_id g) db)
      then Inl Integrity_error else Inr (put_generation g db))"

definition commit_intent :: "activation_intent \<Rightarrow> nat \<Rightarrow> instant \<Rightarrow> control_db \<Rightarrow> act_exn + control_db" where
  "commit_intent i target_pk now db =
     bind_res (require (\<not> list_ex (\<lambda>j. ai_deployment_id j = ai_deployment_id i \<and> intent_unfinished j) (intents db))
       (Coordinator ''runtime_activation_in_progress'')) (\<lambda>_.
     bind_res (require (\<not> list_ex (intent_conflicts i) (intents db)) Integrity_error) (\<lambda>_.
     let db1 = db\<lparr>intents := intents db @ [i]\<rparr> in
     bind_res (of_option Row_missing (get_generation target_pk db1)) (\<lambda>g.
     bind_res (save_generation (g\<lparr>ag_deployment_id := ai_deployment_id i, ag_updated_at := now\<rparr>) db1) (\<lambda>db2.
     bind_res (lift_left Vault_exn (transition_generation_runtime_state now target_pk Pending (ai_public_id i)
         (ai_actor_id i) (ai_actor_name i) [] db2)) (\<lambda>(db3, g'). Inr db3)))))"

text \<open>
  Writing the intent file: it appears or not, and the write raises or not; it may raise after the
  file was put in its place, when the directory cannot be synchronised.
\<close>

record write_outcome =
  wo_appears :: bool
  wo_raises :: bool

definition scheduled_event :: "activation_intent \<Rightarrow> audit_event" where
  "scheduled_event i = blank_event\<lparr>ev_action := ''activation_scheduled'', ev_result := ''succeeded'',
     ev_correlation_id := ai_public_id i, ev_actor_id := ai_actor_id i, ev_actor_name := ai_actor_name i,
     ev_after_state := JObj [(''intent_state'', JStr (intent_state_value (ai_state i))),
       (''runtime_state'', JStr (runtime_state_value Pending))],
     ev_evidence := JObj [(''intent_id'', JStr (ai_public_id i)), (''intent_digest'', JStr (ai_intent_digest i)),
       (''target_generation_id'', JStr (ai_target_generation_id i)),
       (''previous_generation_id'', JStr (ai_previous_generation_id i))]\<rparr>"

definition failed_write :: "instant \<Rightarrow> activation_intent \<Rightarrow> activation_intent" where
  "failed_write now i = i\<lparr>ai_state := Intent_failed, ai_safe_error_code := ''activation_intent_write_failed'',
     ai_updated_at := now\<rparr>"

text \<open>A planned activation is signed, committed and written; the file, when it appears, is the middle component.\<close>

definition launch_activation ::
  "activation_env \<Rightarrow> activation_request \<Rightarrow> activation_plan \<Rightarrow> instant \<Rightarrow> write_outcome \<Rightarrow> control_db \<Rightarrow>
   control_db \<times> json option \<times> (act_exn + activation_intent)" where
  "launch_activation env q pl now wo db =
     (let expires_at = now + seconds (aq_expires_seconds q); payload = intent_payload env q pl expires_at in
      case sign_document (ae_rt env) payload of Inl e \<Rightarrow> (db, None, Inl (Control_exn e))
      | Inr signed \<Rightarrow>
          (let i = new_intent env q pl (document_digest (ae_rt env) payload) expires_at now in
           case commit_intent i (ag_pk (pl_target pl)) now db of
             Inl Integrity_error \<Rightarrow>
               (db, None, bind_res (activation_request_replay (deployment_of env) (aq_key q) (pl_workspace pl)
                   (aq_state_digest q) db) (\<lambda>replay. of_option (Coordinator ''idempotency_conflict'') replay))
           | Inl e \<Rightarrow> (db, None, Inl e)
           | Inr db' \<Rightarrow>
               (let file = (if wo_appears wo then Some signed else None) in
                if wo_raises wo then (put_intent (failed_write now i) db', file, Inl (Coordinator ''activation_intent_write_failed''))
                else (append_event (scheduled_event i) db', file, Inr i))))"

definition schedule_activation ::
  "activation_env \<Rightarrow> activation_request \<Rightarrow> activation_world \<Rightarrow> activation_world \<Rightarrow> instant \<Rightarrow> restore_workspace \<Rightarrow>
   write_outcome \<Rightarrow> control_db \<Rightarrow> control_db \<Rightarrow> control_db \<times> json option \<times> (act_exn + activation_intent)" where
  "schedule_activation env q wd1 wd2 now w wo seen db =
     (case plan_activation env q wd1 wd2 now w seen of
        Inl e \<Rightarrow> (db, None, Inl e)
      | Inr (Inl existing) \<Rightarrow> (db, None, Inr existing)
      | Inr (Inr pl) \<Rightarrow> launch_activation env q pl now wo db)"

subsection \<open>Reconciling a result\<close>

text \<open>\<^verbatim>\<open>d.get(k, "")\<close>.\<close>

definition field_or_blank :: "string \<Rightarrow> json \<Rightarrow> json" where
  "field_or_blank k doc = json_get_or k (JStr []) doc"

definition result_statuses :: "string list" where
  "result_statuses = [''committed'', ''rolled_back'', ''failed'', ''rollback_failed'']"

fun result_status :: "json \<Rightarrow> act_exn + string" where
  "result_status (JStr s) = (if s \<in> set result_statuses then Inr s else Inl (Coordinator ''activation_result_invalid''))"
| "result_status (JArr vs) = Inl (Control_exn Type_problem)"
| "result_status (JObj kvs) = Inl (Control_exn Type_problem)"
| "result_status v = Inl (Coordinator ''activation_result_invalid'')"

definition runtime_mismatch :: act_exn where
  "runtime_mismatch = Coordinator ''activation_result_runtime_mismatch''"

definition identity_mismatch :: act_exn where
  "identity_mismatch = Coordinator ''activation_result_identity_mismatch''"

definition initial_intent :: "activation_intent \<Rightarrow> bool" where
  "initial_intent i = json_truthy (json_get_or ''initial_activation'' JNull (ai_checkpoint i))"

text \<open>A first activation that failed before there was a pointer.\<close>

definition failed_initially :: "activation_intent \<Rightarrow> string \<Rightarrow> json \<Rightarrow> bool" where
  "failed_initially i status active_id = (initial_intent i \<and> status = ''failed'' \<and> \<not> json_truthy active_id)"

definition status_matches :: "activation_intent \<Rightarrow> string \<Rightarrow> json \<Rightarrow> bool" where
  "status_matches i status active_id =
     ((status = ''committed'' \<longrightarrow> active_id = JStr (ai_target_generation_id i))
      \<and> (status \<in> {''rolled_back'', ''failed''} \<longrightarrow>
           active_id = JStr (ai_previous_generation_id i) \<or> failed_initially i status active_id))"

definition active_matches :: "json \<Rightarrow> resolved_runtime \<Rightarrow> bool" where
  "active_matches doc active =
     (field_or_blank ''active_generation_id'' doc = rr_generation_id active
      \<and> field_or_blank ''active_manifest_digest'' doc = rr_manifest_digest active
      \<and> field_or_blank ''active_pointer_digest'' doc = JStr (rr_pointer_digest active))"

text \<open>The readiness evidence names the active runtime; \<^term>\<open>None\<close> for a value without \<^verbatim>\<open>get\<close>, or no active runtime.\<close>

definition readiness_matches :: "json \<Rightarrow> resolved_runtime option \<Rightarrow> bool option" where
  "readiness_matches doc active =
     (case (json_get_or ''readiness_evidence'' (JObj []) doc, active) of
        (JObj kvs, Some p) \<Rightarrow> Some (json_get_or ''runtime_generation_id'' JNull (JObj kvs) = rr_generation_id p
          \<and> json_get_or ''runtime_manifest_digest'' JNull (JObj kvs) = rr_manifest_digest p)
      | _ \<Rightarrow> None)"

definition check_readiness :: "activation_intent \<Rightarrow> json \<Rightarrow> string \<Rightarrow> resolved_runtime option \<Rightarrow> act_exn + unit" where
  "check_readiness i doc status active =
     bind_res (require (field_or_blank ''previous_generation_id'' doc = JStr (ai_previous_generation_id i)) runtime_mismatch) (\<lambda>_.
     if status \<in> {''committed'', ''rolled_back''}
     then bind_res (of_option Attribute_problem (readiness_matches doc active)) (\<lambda>b. require b runtime_mismatch)
     else Inr ())"

text \<open>The checks before the transaction: the result, \<^term>\<open>None\<close> when it cannot be read, against the intent and
  the active pointer as it is now. The status is returned.\<close>

definition check_result ::
  "activation_env \<Rightarrow> activation_world \<Rightarrow> activation_intent \<Rightarrow> json option \<Rightarrow> act_exn + json \<times> string" where
  "check_result env wd i file =
     (let rt = rt_for env (ai_deployment_id i) in
     bind_res (of_option (Coordinator ''activation_result_invalid'') file) (\<lambda>doc.
     bind_res (lift_left (coordinator_of ''activation_result_invalid'') (verify_document rt ''activation_result'' doc)) (\<lambda>_.
     bind_res (require (json_get ''intent_id'' doc = Some (JStr (ai_public_id i))
         \<and> json_get ''intent_digest'' doc = Some (JStr (ai_intent_digest i))) identity_mismatch) (\<lambda>_.
     let active_id = field_or_blank ''active_generation_id'' doc in
     bind_res (result_status (json_get_or ''status'' JNull doc)) (\<lambda>status.
     bind_res (require (status_matches i status active_id) runtime_mismatch) (\<lambda>_.
     bind_res (case read_runtime_pointer rt (aw_store wd) (aw_active wd) of
         Inr p \<Rightarrow> bind_res (require (active_matches doc p) runtime_mismatch) (\<lambda>_. Inr (Some p))
       | Inl (Runtime_control_error c) \<Rightarrow>
           bind_res (require (failed_initially i status active_id) runtime_mismatch) (\<lambda>_. Inr None)
       | Inl e \<Rightarrow> Inl (Control_exn e)) (\<lambda>active.
     bind_res (check_readiness i doc status active) (\<lambda>_. Inr (doc, status)))))))))"

definition already_projected :: "activation_intent \<Rightarrow> json \<Rightarrow> string \<Rightarrow> bool" where
  "already_projected i doc status =
     (ai_state i \<in> {Intent_committed, Intent_rolled_back, Intent_failed}
      \<and> json_get_or ''active_pointer_digest'' JNull (ai_checkpoint i) = field_or_blank ''active_pointer_digest'' doc
      \<and> json_get_or ''protocol_state'' JNull (ai_checkpoint i) = JStr status)"

definition target_row :: "activation_intent \<Rightarrow> control_db \<Rightarrow> act_exn + artifact_generation" where
  "target_row i db =
     bind_res (case ai_workspace i of
         Some wpk \<Rightarrow> bind_res (of_option Row_missing (get_workspace wpk db)) (\<lambda>w. generation_of w db)
       | None \<Rightarrow> lift_left (not_one_as ''activation_result_identity_mismatch'')
           (get_one (filter (\<lambda>g. ag_deployment_id g = ai_deployment_id i \<and> ag_generation_id g = ai_target_generation_id i
              \<and> ag_manifest_digest g = ai_manifest_digest i \<and> ag_runtime_state g \<in> {Pending, Applying}) (generations db)))) (\<lambda>target.
     bind_res (require (ag_deployment_id target = ai_deployment_id i \<and> ag_generation_id target = ai_target_generation_id i
         \<and> ag_manifest_digest target = ai_manifest_digest i) identity_mismatch) (\<lambda>_. Inr target))"

text \<open>A recorded row number is looked up as it is.\<close>

definition previous_row :: "activation_intent \<Rightarrow> control_db \<Rightarrow> act_exn + artifact_generation" where
  "previous_row i db =
     (let recorded = json_get_or ''previous_generation_record_id'' JNull (ai_checkpoint i);
          digest = json_get_or ''previous_manifest_digest'' JNull (ai_checkpoint i) in
      bind_res (lift_left (not_one_as ''activation_result_identity_mismatch'')
        (get_one (if json_truthy recorded
           then filter (\<lambda>g. JInt (int (ag_pk g)) = recorded) (generations db)
           else filter (\<lambda>g. ag_generation_id g = ai_previous_generation_id i)
              (active_generations (ai_deployment_id i) db)))) (\<lambda>g.
      bind_res (require (ag_deployment_id g = ai_deployment_id i \<and> ag_generation_id g = ai_previous_generation_id i
          \<and> (json_truthy digest \<longrightarrow> digest = JStr (ag_manifest_digest g))) identity_mismatch) (\<lambda>_.
      Inr g)))"

definition set_runtime_state :: "instant \<Rightarrow> runtime_state \<Rightarrow> artifact_generation \<Rightarrow> control_db \<Rightarrow> act_exn + control_db" where
  "set_runtime_state now rs g db =
     bind_res (of_option Row_missing (get_generation (ag_pk g) db)) (\<lambda>row.
     save_generation (row\<lparr>ag_runtime_state := rs, ag_updated_at := now\<rparr>) db)"

definition set_if_present :: "instant \<Rightarrow> runtime_state \<Rightarrow> artifact_generation option \<Rightarrow> control_db \<Rightarrow> act_exn + control_db" where
  "set_if_present now rs g db = (case g of None \<Rightarrow> Inr db | Some r \<Rightarrow> set_runtime_state now rs r db)"

definition set_required :: "instant \<Rightarrow> runtime_state \<Rightarrow> artifact_generation option \<Rightarrow> control_db \<Rightarrow> act_exn + control_db" where
  "set_required now rs g db = (case g of None \<Rightarrow> Inl Attribute_problem | Some r \<Rightarrow> set_runtime_state now rs r db)"

text \<open>The rows of the generations for each status: the previous first, so that two are never active.\<close>

definition project_rows ::
  "instant \<Rightarrow> string \<Rightarrow> artifact_generation \<Rightarrow> artifact_generation option \<Rightarrow> control_db \<Rightarrow> act_exn + control_db" where
  "project_rows now status target previous db =
     (if status = ''committed''
      then bind_res (set_if_present now Previous previous db) (set_runtime_state now Active target)
      else if status = ''rolled_back''
      then bind_res (set_required now Active previous db) (set_runtime_state now Activation_failed target)
      else if status = ''failed''
      then bind_res (set_if_present now Active previous db) (set_runtime_state now Activation_failed target)
      else bind_res (set_required now Runtime_unknown previous db) (set_runtime_state now Runtime_unknown target))"

definition reconciled_intent :: "activation_env \<Rightarrow> instant \<Rightarrow> json \<Rightarrow> string \<Rightarrow> activation_intent \<Rightarrow> activation_intent" where
  "reconciled_intent env now doc status i =
     (let code = (\<lambda>dflt. column env (json_get_or ''safe_error_code'' (JStr dflt) doc)) in
      i\<lparr>ai_state := (if status = ''committed'' then Intent_committed
           else if status = ''rolled_back'' then Intent_rolled_back else Intent_failed),
        ai_committed_at := (if status = ''committed'' then Some now else ai_committed_at i),
        ai_safe_error_code := (if status = ''committed'' then []
           else if status = ''rolled_back'' then code ''activation_verification_failed''
           else if status = ''failed'' then code ''activation_failed'' else code ''activation_rollback_failed''),
        ai_applied_at := Some now,
        ai_checkpoint := json_merge (ai_checkpoint i) [(''protocol_state'', JStr status),
          (''active_pointer_digest'', field_or_blank ''active_pointer_digest'' doc)],
        ai_updated_at := now\<rparr>)"

definition result_observation :: "activation_env \<Rightarrow> instant \<Rightarrow> json \<Rightarrow> string \<Rightarrow> activation_intent \<Rightarrow> pointer_observation" where
  "result_observation env now doc status i = \<lparr>po_deployment_id = ai_deployment_id i,
     po_active_generation_id = column env (field_or_blank ''active_generation_id'' doc),
     po_previous_generation_id = column env (field_or_blank ''previous_generation_id'' doc),
     po_pointer_digest = column env (field_or_blank ''active_pointer_digest'' doc),
     po_process_identity = json_get_or ''process_identity'' (JObj []) doc,
     po_readiness_evidence = json_get_or ''readiness_evidence'' (JObj []) doc, po_status = status, po_observed_at = now\<rparr>"

text \<open>The columns of the intent and of the observation take no \<^verbatim>\<open>NULL\<close>.\<close>

definition storable_result :: "json \<Rightarrow> string \<Rightarrow> bool" where
  "storable_result doc status =
     (JNull \<notin> set (map (\<lambda>k. field_or_blank k doc) [''active_generation_id'', ''previous_generation_id'', ''active_pointer_digest'',
        ''process_identity'', ''readiness_evidence''])
      \<and> (status = ''committed'' \<or> field_or_blank ''safe_error_code'' doc \<noteq> JNull))"

definition reconciled_event :: "json \<Rightarrow> string \<Rightarrow> activation_intent \<Rightarrow> audit_event" where
  "reconciled_event doc status i = blank_event\<lparr>ev_action := ''activation_result_reconciled'',
     ev_result := (if status = ''committed'' then ''succeeded'' else ''failed''), ev_correlation_id := ai_public_id i,
     ev_actor_id := ai_actor_id i, ev_actor_name := ai_actor_name i, ev_safe_error_code := ai_safe_error_code i,
     ev_after_state := JObj [(''intent_state'', JStr (intent_state_value (ai_state i))),
       (''active_generation_id'', field_or_blank ''active_generation_id'' doc)],
     ev_evidence := JObj [(''intent_digest'', JStr (ai_intent_digest i))]\<rparr>"

text \<open>\<open>seen\<close> is the row the caller holds, which may be older than the table.\<close>

definition reconcile_activation_result ::
  "activation_env \<Rightarrow> activation_world \<Rightarrow> instant \<Rightarrow> json option \<Rightarrow> activation_intent \<Rightarrow> control_db \<Rightarrow>
   act_exn + control_db \<times> activation_intent" where
  "reconcile_activation_result env wd now file seen db =
     bind_res (check_result env wd seen file) (\<lambda>(doc, status).
     bind_res (of_option Row_missing (get_intent (ai_public_id seen) db)) (\<lambda>i.
     if already_projected i doc status then Inr (db, i)
     else
       bind_res (target_row i db) (\<lambda>target.
       bind_res (if initial_intent seen then Inr None else bind_res (previous_row i db) (\<lambda>g. Inr (Some g))) (\<lambda>previous.
       bind_res (project_rows now status target previous db) (\<lambda>db1.
       bind_res (require (storable_result doc status) Integrity_error) (\<lambda>_.
       let i' = reconciled_intent env now doc status i;
           db2 = (put_intent i' db1)\<lparr>observations := observations db1 @ [result_observation env now doc status i]\<rparr> in
       Inr (append_event (reconciled_event doc status i') db2, i')))))))"

end
