(* ===== verification/Vault_Activation_Safety.thy ===== *)
theory Vault_Activation_Safety
  imports Vault_Activation Runtime_Samples
begin

section \<open>What the activation coordinator guarantees\<close>

text \<open>
  The rows after a projection, the signed result against the pointer, and what a scheduled activation
  put in place: \<open>reconcile_mirrors_pointer\<close> and \<open>scheduled_intent_binds\<close>.
\<close>

lemma lift_left_Inr [simp]: "lift_left f m = Inr x \<longleftrightarrow> m = Inr x"
  by (cases m) auto

lemma get_one_Inr [simp]: "get_one rs = Inr r \<longleftrightarrow> rs = [r]"
  by (cases rs rule: get_one.cases) auto

lemma active_put:
  "active_generations d (put_generation g db) =
     filter (\<lambda>h. ag_deployment_id h = d \<and> ag_runtime_state h = Active) (put_row ag_pk g (generations db))"
  by (simp add: active_generations_def)

lemma filter_put_inactive:
  "\<not> P r \<Longrightarrow> filter P (put_row key r rows) = filter (\<lambda>x. P x \<and> key x \<noteq> key r) rows"
  by (induction rows) (auto simp: put_row_def)

text \<open>A row becomes the only active one, or stops being active.\<close>

lemma only_row:
  assumes "distinct (map key rows)" "r0 \<in> set rows" "key r0 = key r" "P r" "\<forall>x\<in>set rows. P x \<longrightarrow> key x = key r"
  shows "filter P (put_row key r rows) = [r]"
proof -
  obtain us vs where rows: "rows = us @ r0 # vs" using assms(2) by (auto dest: split_list)
  have "\<forall>x\<in>set us \<union> set vs. key x \<noteq> key r" using assms(1,3) rows by (auto simp: image_iff)
  then have "\<forall>x\<in>set us \<union> set vs. key x \<noteq> key r \<and> \<not> P x" using assms(5) rows by auto
  then have "filter P (put_row key r us) = []" "filter P (put_row key r vs) = []"
    by (simp_all add: put_row_def filter_empty_conv)
  then show ?thesis using assms(3,4) rows by (simp add: put_row_def)
qed

lemma get_generation_in: "get_generation pk db = Some g \<Longrightarrow> g \<in> set (generations db) \<and> ag_pk g = pk"
  unfolding get_generation_def by (rule find_row_Some)

lemma set_runtime_state_cases:
  assumes "set_runtime_state now rs g db = Inr db'"
  obtains row where "get_generation (ag_pk g) db = Some row" "ag_pk row = ag_pk g"
    "db' = put_generation (row\<lparr>ag_runtime_state := rs, ag_updated_at := now\<rparr>) db"
    "rs = Active \<Longrightarrow> ag_deployment_id row \<noteq> [] \<Longrightarrow>
      \<forall>h\<in>set (active_generations (ag_deployment_id row) db). ag_pk h = ag_pk g"
proof -
  obtain row where row: "get_generation (ag_pk g) db = Some row"
    "save_generation (row\<lparr>ag_runtime_state := rs, ag_updated_at := now\<rparr>) db = Inr db'"
    using assms by (auto simp: set_runtime_state_def)
  have pk: "ag_pk row = ag_pk g" using get_generation_in [OF row(1)] by simp
  show thesis
    using row(2) pk by (intro that [OF row(1) pk]) (auto simp: save_generation_def list_ex_iff split: if_splits)
qed

lemma set_active:
  assumes "set_runtime_state now Active g db = Inr db'" "distinct (map ag_pk (generations db))"
    "get_generation (ag_pk g) db = Some row" "ag_deployment_id row = d" "d \<noteq> []"
  shows "active_generations d db' = [row\<lparr>ag_runtime_state := Active, ag_updated_at := now\<rparr>]"
proof -
  obtain row' where r: "get_generation (ag_pk g) db = Some row'" "ag_pk row' = ag_pk g"
    "db' = put_generation (row'\<lparr>ag_runtime_state := Active, ag_updated_at := now\<rparr>) db"
    "Active = Active \<Longrightarrow> ag_deployment_id row' \<noteq> [] \<Longrightarrow>
      \<forall>h\<in>set (active_generations (ag_deployment_id row') db). ag_pk h = ag_pk g"
    using set_runtime_state_cases [OF assms(1)] by metis
  have "row' = row" using r(1) assms(3) by simp
  then have others: "\<forall>h\<in>set (generations db). ag_deployment_id h = d \<and> ag_runtime_state h = Active \<longrightarrow> ag_pk h = ag_pk g"
    using r(4) assms(4,5) by (auto simp: active_generations_def)
  show ?thesis
    unfolding r(3) active_put \<open>row' = row\<close>
    using get_generation_in [OF assms(3)] assms(2,4) others
    by (intro only_row [of ag_pk _ row]) auto
qed

lemma set_inactive:
  assumes "set_runtime_state now rs g db = Inr db'" "distinct (map ag_pk (generations db))" "rs \<noteq> Active"
  shows "active_generations d db' = filter (\<lambda>h. ag_pk h \<noteq> ag_pk g) (active_generations d db)"
proof -
  obtain row where r: "get_generation (ag_pk g) db = Some row" "ag_pk row = ag_pk g"
    "db' = put_generation (row\<lparr>ag_runtime_state := rs, ag_updated_at := now\<rparr>) db"
    using set_runtime_state_cases [OF assms(1)] by blast
  show ?thesis
    unfolding r(3) active_put
    using filter_put_inactive [of "\<lambda>h. ag_deployment_id h = d \<and> ag_runtime_state h = Active"
        "row\<lparr>ag_runtime_state := rs, ag_updated_at := now\<rparr>"
        ag_pk "generations db"] get_generation_in [OF r(1)] r(2) assms(2,3)
    by (simp add: active_generations_def conj_commute)
qed

lemma set_runtime_keeps:
  assumes "set_runtime_state now rs g db = Inr db'"
  shows "map ag_pk (generations db') = map ag_pk (generations db)" "intents db' = intents db"
    "observations db' = observations db" "pk \<noteq> ag_pk g \<Longrightarrow> get_generation pk db' = get_generation pk db"
    "get_generation pk db = Some r \<Longrightarrow> \<exists>r'. get_generation pk db' = Some r' \<and> ag_deployment_id r' = ag_deployment_id r
       \<and> ag_generation_id r' = ag_generation_id r"
proof -
  obtain row where r: "get_generation (ag_pk g) db = Some row" "ag_pk row = ag_pk g"
    "db' = put_generation (row\<lparr>ag_runtime_state := rs, ag_updated_at := now\<rparr>) db"
    using set_runtime_state_cases [OF assms(1)] by blast
  show "map ag_pk (generations db') = map ag_pk (generations db)" unfolding r(3) by simp
  show "intents db' = intents db" "observations db' = observations db" unfolding r(3) by (simp_all add: put_generation_def)
  show "pk \<noteq> ag_pk g \<Longrightarrow> get_generation pk db' = get_generation pk db"
    unfolding r(3) by (rule generation_rows.get_put_other) (simp add: r(2))
  show "get_generation pk db = Some r \<Longrightarrow> \<exists>r'. get_generation pk db' = Some r' \<and> ag_deployment_id r' = ag_deployment_id r
       \<and> ag_generation_id r' = ag_generation_id r"
    using generation_rows.get_put [of "row\<lparr>ag_runtime_state := rs, ag_updated_at := now\<rparr>" db row pk] r
    by (cases "pk = ag_pk g") auto
qed

lemma set_required_Some: "set_required now rs g db = Inr db' \<Longrightarrow> \<exists>r. g = Some r \<and> set_runtime_state now rs r db = Inr db'"
  by (cases g) (auto simp: set_required_def)

text \<open>What the projection leaves alone.\<close>

lemma project_keeps:
  assumes "project_rows now status target previous db = Inr db'"
  shows "map ag_pk (generations db') = map ag_pk (generations db)" "intents db' = intents db"
    "observations db' = observations db"
    "pk \<noteq> ag_pk target \<Longrightarrow> (\<And>q. previous = Some q \<Longrightarrow> pk \<noteq> ag_pk q) \<Longrightarrow> get_generation pk db' = get_generation pk db"
proof -
  obtain rs rs' db1 where s: "set_if_present now rs previous db = Inr db1" "set_runtime_state now rs' target db1 = Inr db'"
    using assms set_required_Some by (fastforce simp: project_rows_def set_if_present_def split: if_splits)
  note two = set_runtime_keeps [OF s(2)]
  show "map ag_pk (generations db') = map ag_pk (generations db)" "intents db' = intents db"
    "observations db' = observations db"
    using s(1) two(1-3) set_runtime_keeps(1-3) [of now rs _ db db1]
    by (auto simp: set_if_present_def split: option.splits)
  show "pk \<noteq> ag_pk target \<Longrightarrow> (\<And>q. previous = Some q \<Longrightarrow> pk \<noteq> ag_pk q) \<Longrightarrow> get_generation pk db' = get_generation pk db"
    using s(1) two(4) set_runtime_keeps(4) [of now rs _ db db1]
    by (auto simp: set_if_present_def split: option.splits)
qed

lemma project_committed:
  assumes "project_rows now ''committed'' target previous db = Inr db'" "distinct (map ag_pk (generations db))"
    "get_generation (ag_pk target) db = Some target" "ag_deployment_id target \<noteq> []"
  shows "\<exists>r. active_generations (ag_deployment_id target) db' = [r] \<and> ag_generation_id r = ag_generation_id target"
proof -
  obtain db1 where s: "set_if_present now Previous previous db = Inr db1" "set_runtime_state now Active target db1 = Inr db'"
    using assms(1) by (auto simp: project_rows_def)
  have "\<exists>r. get_generation (ag_pk target) db1 = Some r \<and> ag_deployment_id r = ag_deployment_id target \<and> ag_generation_id r = ag_generation_id target"
    using s(1) set_runtime_keeps(5) [of now Previous _ db db1, OF _ assms(3)] assms(3)
    by (auto simp: set_if_present_def split: option.splits)
  then obtain r where r: "get_generation (ag_pk target) db1 = Some r" "ag_deployment_id r = ag_deployment_id target"
    "ag_generation_id r = ag_generation_id target" by blast
  have "distinct (map ag_pk (generations db1))"
    using s(1) set_runtime_keeps(1) [of now Previous _ db db1] assms(2) by (auto simp: set_if_present_def split: option.splits)
  then show ?thesis using set_active [OF s(2) _ r(1,2) assms(4)] r(3) by simp
qed

lemma project_back:
  assumes "project_rows now status target (Some q) db = Inr db'" "status = ''rolled_back'' \<or> status = ''failed''"
    "distinct (map ag_pk (generations db))" "get_generation (ag_pk q) db = Some q" "ag_deployment_id q \<noteq> []" "ag_pk q \<noteq> ag_pk target"
  shows "\<exists>r. active_generations (ag_deployment_id q) db' = [r] \<and> ag_generation_id r = ag_generation_id q"
proof -
  obtain db1 where s: "set_runtime_state now Active q db = Inr db1" "set_runtime_state now Activation_failed target db1 = Inr db'"
    using assms(1,2) by (auto simp: project_rows_def set_if_present_def set_required_def)
  have "active_generations (ag_deployment_id q) db1 = [q\<lparr>ag_runtime_state := Active, ag_updated_at := now\<rparr>]"
    by (rule set_active [OF s(1) assms(3,4) refl assms(5)])
  moreover have "distinct (map ag_pk (generations db1))" using set_runtime_keeps(1) [OF s(1)] assms(3) by simp
  ultimately show ?thesis using set_inactive [OF s(2), of "ag_deployment_id q"] assms(6) by simp
qed

lemma target_row_cases:
  assumes "target_row i db = Inr target" "distinct (map ag_pk (generations db))"
  shows "get_generation (ag_pk target) db = Some target" "ag_deployment_id target = ai_deployment_id i"
    "ag_generation_id target = ai_target_generation_id i"
proof -
  have "target \<in> set (generations db)"
    using assms(1) get_generation_in
    by (fastforce simp: target_row_def generation_of_def split: option.splits dest!: arg_cong [where f = set])
  then show "get_generation (ag_pk target) db = Some target"
    unfolding get_generation_def using find_row_in [OF assms(2)] by blast
  show "ag_deployment_id target = ai_deployment_id i" "ag_generation_id target = ai_target_generation_id i"
    using assms(1) by (auto simp: target_row_def)
qed

lemma previous_row_cases:
  assumes "previous_row i db = Inr q" "distinct (map ag_pk (generations db))"
  shows "get_generation (ag_pk q) db = Some q" "ag_deployment_id q = ai_deployment_id i"
    "ag_generation_id q = ai_previous_generation_id i"
proof -
  have "q \<in> set (generations db)"
    using assms(1)
    by (auto simp: previous_row_def Let_def active_generations_def split: if_splits dest!: arg_cong [where f = set])
  then show "get_generation (ag_pk q) db = Some q"
    unfolding get_generation_def using find_row_in [OF assms(2)] by blast
  show "ag_deployment_id q = ai_deployment_id i" "ag_generation_id q = ai_previous_generation_id i"
    using assms(1) by (auto simp: previous_row_def Let_def)
qed


subsection \<open>The projection of a result\<close>

lemma pointer_has_generation:
  assumes "read_runtime_pointer rt store file = Inr p"
  shows "json_truthy (rr_generation_id p)"
  using assms by (auto simp: read_runtime_pointer_def pointer_shape_def Let_def split: if_splits)

lemma check_result_cases:
  assumes "check_result env wd i (Some doc) = Inr (doc', status)"
  shows "doc' = doc" "status \<in> set result_statuses" "json_get_or ''status'' JNull doc = JStr status"
    "status_matches i status (field_or_blank ''active_generation_id'' doc)"
    "read_runtime_pointer (rt_for env (ai_deployment_id i)) (aw_store wd) (aw_active wd) = Inr p \<Longrightarrow> active_matches doc p"
    "read_runtime_pointer (rt_for env (ai_deployment_id i)) (aw_store wd) (aw_active wd) = Inl e \<Longrightarrow>
       failed_initially i status (field_or_blank ''active_generation_id'' doc)"
proof -
  obtain active where c: "doc' = doc" "result_status (json_get_or ''status'' JNull doc) = Inr status"
    "status_matches i status (field_or_blank ''active_generation_id'' doc)"
    "(case read_runtime_pointer (rt_for env (ai_deployment_id i)) (aw_store wd) (aw_active wd) of
         Inr p \<Rightarrow> bind_res (require (active_matches doc p) runtime_mismatch) (\<lambda>_. Inr (Some p))
       | Inl (Runtime_control_error c) \<Rightarrow>
           bind_res (require (failed_initially i status (field_or_blank ''active_generation_id'' doc)) runtime_mismatch) (\<lambda>_. Inr None)
       | Inl e \<Rightarrow> Inl (Control_exn e)) = Inr active"
    using assms by (auto simp: check_result_def Let_def)
  show "doc' = doc" "status_matches i status (field_or_blank ''active_generation_id'' doc)" by (fact c(1)) (fact c(3))
  show "json_get_or ''status'' JNull doc = JStr status" "status \<in> set result_statuses"
    using c(2) by (cases "json_get_or ''status'' JNull doc"; simp split: if_splits)+
  show "read_runtime_pointer (rt_for env (ai_deployment_id i)) (aw_store wd) (aw_active wd) = Inr p \<Longrightarrow> active_matches doc p"
    using c(4) by simp
  show "read_runtime_pointer (rt_for env (ai_deployment_id i)) (aw_store wd) (aw_active wd) = Inl e \<Longrightarrow>
      failed_initially i status (field_or_blank ''active_generation_id'' doc)"
    using c(4) by (cases e) auto
qed

lemma no_result: "reconcile_activation_result env wd now None i db = Inl (Coordinator ''activation_result_invalid'')"
  by (simp add: reconcile_activation_result_def check_result_def Let_def)

lemma reconcile_cases:
  assumes "reconcile_activation_result env wd now (Some doc) seen db = Inr (db', i')" "get_intent (ai_public_id seen) db = Some i"
  obtains (already) status where "check_result env wd seen (Some doc) = Inr (doc, status)" "db' = db" "i' = i"
      "already_projected i doc status"
    | (projected) status target previous db1 where "check_result env wd seen (Some doc) = Inr (doc, status)"
      "target_row i db = Inr target"
      "if initial_intent seen then previous = None else (\<exists>q. previous = Some q \<and> previous_row i db = Inr q)"
      "project_rows now status target previous db = Inr db1" "i' = reconciled_intent env now doc status i"
      "db' = append_event (reconciled_event doc status i')
         ((put_intent i' db1)\<lparr>observations := observations db1 @ [result_observation env now doc status i]\<rparr>)"
proof -
  obtain doc' status where c: "check_result env wd seen (Some doc) = Inr (doc', status)"
    using assms(1) by (auto simp: reconcile_activation_result_def)
  have "doc' = doc" using c by (rule check_result_cases)
  note d = c [unfolded this]
  show thesis
  proof (cases "already_projected i doc status")
    case True
    then show ?thesis using assms d already by (auto simp: reconcile_activation_result_def)
  next
    case False
    obtain target previous db1 where "target_row i db = Inr target"
      "(if initial_intent seen then Inr None else bind_res (previous_row i db) (\<lambda>g. Inr (Some g))) = Inr previous"
      "project_rows now status target previous db = Inr db1"
      "i' = reconciled_intent env now doc status i"
      "db' = append_event (reconciled_event doc status i')
         ((put_intent i' db1)\<lparr>observations := observations db1 @ [result_observation env now doc status i]\<rparr>)"
      using assms d False by (auto simp: reconcile_activation_result_def Let_def)
    then show ?thesis using d by (intro projected [of status target previous db1]) (auto split: if_splits)
  qed
qed

lemma tables_after [simp]:
  "active_generations d (append_event ev db) = active_generations d db"
  "active_generations d (put_intent i db) = active_generations d db"
  "active_generations d (db\<lparr>observations := os\<rparr>) = active_generations d db"
  "get_generation pk (put_intent i db) = get_generation pk db"
  "get_generation pk (db\<lparr>observations := os\<rparr>) = get_generation pk db"
  "get_intent pid (append_event ev db) = get_intent pid db"
  "get_intent pid (db\<lparr>observations := os\<rparr>) = get_intent pid db"
  by (simp_all add: active_generations_def append_event_def put_intent_def get_generation_def get_intent_def)

text \<open>What scheduling establishes of an intent.\<close>

definition intent_wf :: "activation_intent \<Rightarrow> bool" where
  "intent_wf i = (ai_deployment_id i \<noteq> []
     \<and> (if initial_intent i then ai_previous_generation_id i = [] else ai_target_generation_id i \<noteq> ai_previous_generation_id i))"

lemma projected_row:
  assumes "check_result env wd i (Some doc) = Inr (doc, status)" "target_row i db = Inr target"
    "if initial_intent i then previous = None else (\<exists>q. previous = Some q \<and> previous_row i db = Inr q)"
    "project_rows now status target previous db = Inr db1" "distinct (map ag_pk (generations db))" "intent_wf i"
    "read_runtime_pointer (rt_for env (ai_deployment_id i)) (aw_store wd) (aw_active wd) = Inr p" "status \<noteq> ''rollback_failed''"
  shows "\<exists>g. active_generations (ai_deployment_id i) db1 = [g] \<and> JStr (ag_generation_id g) = rr_generation_id p"
proof -
  note t = target_row_cases [OF assms(2,5)]
  note c = check_result_cases [OF assms(1)]
  have active: "field_or_blank ''active_generation_id'' doc = rr_generation_id p"
    using c(5) [OF assms(7)] by (simp add: active_matches_def)
  have dep: "ai_deployment_id i \<noteq> []" using assms(6) by (simp add: intent_wf_def)
  show ?thesis
  proof (cases "status = ''committed''")
    case True
    have "rr_generation_id p = JStr (ai_target_generation_id i)" using c(4) True active by (simp add: status_matches_def)
    moreover obtain r where "active_generations (ag_deployment_id target) db1 = [r]" "ag_generation_id r = ag_generation_id target"
      using project_committed [OF assms(4) [unfolded True] assms(5) t(1)] t(2) dep by auto
    ultimately show ?thesis using t(2,3) by auto
  next
    case False
    then have kept: "status = ''rolled_back'' \<or> status = ''failed''" using c(2) assms(8) by (auto simp: result_statuses_def)
    have truthy: "json_truthy (rr_generation_id p)" by (rule pointer_has_generation [OF assms(7)])
    have previous_id: "rr_generation_id p = JStr (ai_previous_generation_id i)"
      using c(4) kept active truthy by (auto simp: status_matches_def failed_initially_def)
    then have repeated: "\<not> initial_intent i" using truthy assms(6) by (auto simp: intent_wf_def)
    obtain q where q: "previous = Some q" "previous_row i db = Inr q" using assms(3) repeated by auto
    note qs = previous_row_cases [OF q(2) assms(5)]
    have "ag_pk q \<noteq> ag_pk target"
    proof
      assume "ag_pk q = ag_pk target"
      then have "get_generation (ag_pk q) db = get_generation (ag_pk target) db" by (rule arg_cong)
      then have "q = target" unfolding qs(1) t(1) by (rule option.inject [THEN iffD1])
      then show False using qs(3) t(3) assms(6) repeated by (simp add: intent_wf_def)
    qed
    then obtain r where "active_generations (ag_deployment_id q) db1 = [r]" "ag_generation_id r = ag_generation_id q"
      using project_back [OF assms(4) [unfolded q(1)] kept assms(5) qs(1)] qs(2) dep by auto
    then show ?thesis using qs(2,3) previous_id by auto
  qed
qed

text \<open>Rows that no longer count as active: those of the generations \<open>names\<close> stand in the state \<open>rs\<close>, and the
  others that were active still are.\<close>

definition set_aside :: "runtime_state \<Rightarrow> string \<Rightarrow> string set \<Rightarrow> control_db \<Rightarrow> control_db \<Rightarrow> bool" where
  "set_aside rs d names db db' \<longleftrightarrow> (\<exists>rows. ag_generation_id ` rows = names
     \<and> (\<forall>g\<in>rows. get_generation (ag_pk g) db' = Some g \<and> ag_deployment_id g = d \<and> ag_runtime_state g = rs)
     \<and> active_generations d db' = filter (\<lambda>h. ag_pk h \<notin> ag_pk ` rows) (active_generations d db))"

lemma set_runtime_sets:
  assumes "set_runtime_state now rs g db = Inr db'" "get_generation (ag_pk g) db = Some g"
  shows "\<exists>r. get_generation (ag_pk g) db' = Some r \<and> ag_pk r = ag_pk g \<and> ag_runtime_state r = rs
    \<and> ag_deployment_id r = ag_deployment_id g \<and> ag_generation_id r = ag_generation_id g"
proof -
  obtain row where r: "get_generation (ag_pk g) db = Some row" "ag_pk row = ag_pk g"
    "db' = put_generation (row\<lparr>ag_runtime_state := rs, ag_updated_at := now\<rparr>) db"
    using set_runtime_state_cases [OF assms(1)] by blast
  then show ?thesis
    using assms(2) generation_rows.get_put_same [of "ag_pk g" db row "row\<lparr>ag_runtime_state := rs, ag_updated_at := now\<rparr>"]
    by auto
qed

lemma project_target_only:
  assumes "project_rows now ''failed'' target None db = Inr db'" "distinct (map ag_pk (generations db))"
    "get_generation (ag_pk target) db = Some target"
  shows "set_aside Activation_failed (ag_deployment_id target) {ag_generation_id target} db db'"
proof -
  have s: "set_runtime_state now Activation_failed target db = Inr db'"
    using assms(1) by (simp add: project_rows_def set_if_present_def)
  obtain r where "get_generation (ag_pk target) db' = Some r" "ag_pk r = ag_pk target" "ag_runtime_state r = Activation_failed"
    "ag_deployment_id r = ag_deployment_id target" "ag_generation_id r = ag_generation_id target"
    using set_runtime_sets [OF s assms(3)] by blast
  then show ?thesis using set_inactive [OF s assms(2)] unfolding set_aside_def by (intro exI [of _ "{r}"]) auto
qed

lemma project_unknown:
  assumes "project_rows now ''rollback_failed'' target previous db = Inr db'" "distinct (map ag_pk (generations db))"
    "get_generation (ag_pk target) db = Some target" "ag_deployment_id target = d"
    "\<And>q. previous = Some q \<Longrightarrow> get_generation (ag_pk q) db = Some q \<and> ag_deployment_id q = d \<and> ag_pk q \<noteq> ag_pk target"
  shows "\<exists>q. previous = Some q \<and> set_aside Runtime_unknown d {ag_generation_id q, ag_generation_id target} db db'"
proof -
  obtain q db1 where s: "previous = Some q" "set_runtime_state now Runtime_unknown q db = Inr db1"
    "set_runtime_state now Runtime_unknown target db1 = Inr db'"
    using assms(1) set_required_Some by (fastforce simp: project_rows_def)
  note q = assms(5) [OF s(1)]
  have t1: "get_generation (ag_pk target) db1 = Some target"
    using set_runtime_keeps(4) [OF s(2), of "ag_pk target"] assms(3) q by auto
  have d1: "distinct (map ag_pk (generations db1))" using set_runtime_keeps(1) [OF s(2)] assms(2) by simp
  obtain rq where rq: "get_generation (ag_pk q) db1 = Some rq" "ag_pk rq = ag_pk q" "ag_runtime_state rq = Runtime_unknown"
    "ag_deployment_id rq = d" "ag_generation_id rq = ag_generation_id q"
    using set_runtime_sets [OF s(2)] q by auto
  moreover have "get_generation (ag_pk q) db' = get_generation (ag_pk q) db1" by (rule set_runtime_keeps(4) [OF s(3)]) (use q in simp)
  moreover obtain rt where "get_generation (ag_pk target) db' = Some rt" "ag_pk rt = ag_pk target" "ag_runtime_state rt = Runtime_unknown"
    "ag_deployment_id rt = d" "ag_generation_id rt = ag_generation_id target"
    using set_runtime_sets [OF s(3) t1] assms(4) by auto
  moreover have "active_generations d db' = filter (\<lambda>h. ag_pk h \<noteq> ag_pk target) (filter (\<lambda>h. ag_pk h \<noteq> ag_pk q) (active_generations d db))"
    using set_inactive [OF s(2) assms(2)] set_inactive [OF s(3) d1] by simp
  ultimately have "set_aside Runtime_unknown d {ag_generation_id q, ag_generation_id target} db db'"
    unfolding set_aside_def by (intro exI [of _ "{rq, rt}"]) (auto simp: conj_commute)
  then show ?thesis using s(1) by blast
qed

lemma rows_differ:
  assumes "get_generation (ag_pk q) db = Some q" "get_generation (ag_pk target) db = Some target"
    "ag_generation_id q \<noteq> ag_generation_id target"
  shows "ag_pk q \<noteq> ag_pk target"
  using assms by (metis option.inject)

lemma set_aside_tables [simp]:
  "set_aside rs d names db (append_event ev db') = set_aside rs d names db db'"
  "set_aside rs d names db (put_intent i db') = set_aside rs d names db db'"
  "set_aside rs d names db (db'\<lparr>observations := os\<rparr>) = set_aside rs d names db db'"
  by (simp_all add: set_aside_def)

text \<open>What the projection of a checked result leaves, by the pointer on disk.\<close>

definition mirrors ::
  "activation_intent \<Rightarrow> json \<Rightarrow> rt_exn + resolved_runtime \<Rightarrow> control_db \<Rightarrow> control_db \<Rightarrow> bool" where
  "mirrors i doc pointer db db' = (case pointer of
     Inr p \<Rightarrow> if json_get ''status'' doc = Some (JStr ''rollback_failed'')
        then set_aside Runtime_unknown (ai_deployment_id i) {ai_previous_generation_id i, ai_target_generation_id i} db db'
        else (\<exists>g. active_generations (ai_deployment_id i) db' = [g] \<and> JStr (ag_generation_id g) = rr_generation_id p)
   | Inl e \<Rightarrow> initial_intent i \<and> json_get ''status'' doc = Some (JStr ''failed'')
        \<and> set_aside Activation_failed (ai_deployment_id i) {ai_target_generation_id i} db db')"

lemma projected_mirrors:
  assumes "check_result env wd i (Some doc) = Inr (doc, status)" "target_row i db = Inr target"
    "if initial_intent i then previous = None else (\<exists>q. previous = Some q \<and> previous_row i db = Inr q)"
    "project_rows now status target previous db = Inr db1" "distinct (map ag_pk (generations db))" "intent_wf i"
  shows "mirrors i doc (read_runtime_pointer (rt_for env (ai_deployment_id i)) (aw_store wd) (aw_active wd)) db db1"
proof -
  note t = target_row_cases [OF assms(2,5)]
  note c = check_result_cases [OF assms(1)]
  have status: "json_get ''status'' doc = Some (JStr status)" using c(3) by (auto simp: json_get_or_def split: option.splits)
  show ?thesis
  proof (cases "read_runtime_pointer (rt_for env (ai_deployment_id i)) (aw_store wd) (aw_active wd)")
    case (Inl e)
    then have first: "initial_intent i" "status = ''failed''" using c(6) by (auto simp: failed_initially_def)
    then have "project_rows now ''failed'' target None db = Inr db1" using assms(3,4) by simp
    from project_target_only [OF this assms(5) t(1)] show ?thesis using Inl first status t(2,3) by (simp add: mirrors_def)
  next
    case (Inr p)
    show ?thesis
    proof (cases "status = ''rollback_failed''")
      case True
      have rows: "get_generation (ag_pk q) db = Some q \<and> ag_deployment_id q = ai_deployment_id i \<and> ag_pk q \<noteq> ag_pk target
          \<and> ag_generation_id q = ai_previous_generation_id i" if "previous = Some q" for q
      proof -
        have "\<not> initial_intent i" "previous_row i db = Inr q" using assms(3) that by (auto split: if_splits)
        note q = previous_row_cases [OF this(2) assms(5)]
        have "ag_generation_id q \<noteq> ag_generation_id target"
          using \<open>\<not> initial_intent i\<close> assms(6) q(3) t(3) by (auto simp: intent_wf_def)
        from rows_differ [OF q(1) t(1) this] show ?thesis using q by simp
      qed
      obtain q where "previous = Some q"
        "set_aside Runtime_unknown (ai_deployment_id i) {ag_generation_id q, ag_generation_id target} db db1"
        using project_unknown [OF assms(4) [unfolded True] assms(5) t(1,2)] rows by blast
      then show ?thesis using Inr True status rows t(3) by (simp add: mirrors_def)
    next
      case False
      then show ?thesis using projected_row [OF assms(1-6) Inr] Inr status by (simp add: mirrors_def)
    qed
  qed
qed

text \<open>C9: A result is projected only while the pointer it names is the one on disk. Unless it reports a failed rollback
  the database then says what the pointer says: exactly one generation of the deployment is active, the one the pointer
  names. A failed rollback leaves the rows of both generations unknown, so neither counts as active, whatever the
  pointer names. Without a readable pointer only the failure of a first activation is projected, and the row of its
  target is marked as failed. Besides these rows of the target and the previous generation no row of a generation
  changes, the intent is finished, and with a pointer the observation recorded last names it.\<close>

theorem reconcile_mirrors_pointer:
  assumes "reconcile_activation_result env wd now (Some doc) i db = Inr (db', i')" "get_intent (ai_public_id i) db = Some i"
    "intent_unfinished i" "intent_wf i" "distinct (map ag_pk (generations db))"
  shows "mirrors i doc (read_runtime_pointer (rt_for env (ai_deployment_id i)) (aw_store wd) (aw_active wd)) db db'
     \<and> (\<forall>pk g. get_generation pk db = Some g \<and> get_generation pk db' \<noteq> Some g \<longrightarrow>
          ag_generation_id g \<in> {ai_target_generation_id i, ai_previous_generation_id i})
     \<and> get_intent (ai_public_id i) db' = Some i' \<and> \<not> intent_unfinished i'
     \<and> (\<exists>seen. observations db' = observations db @ [seen]
          \<and> (\<forall>p. read_runtime_pointer (rt_for env (ai_deployment_id i)) (aw_store wd) (aw_active wd) = Inr p \<longrightarrow>
               po_pointer_digest seen = rr_pointer_digest p \<and> po_active_generation_id seen = column env (rr_generation_id p)))"
  using assms(1,2)
proof (cases rule: reconcile_cases)
  case (already status)
  then show ?thesis using assms(3) by (auto simp: already_projected_def intent_unfinished_def)
next
  case (projected status target previous db1)
  note rows = projected_mirrors [OF projected(1-4) assms(5,4)]
  have rows': "mirrors i doc pointer db db' = mirrors i doc pointer db db1" for pointer
    unfolding projected(6) mirrors_def by (cases pointer) simp_all
  note k = project_keeps [OF projected(4)]
  have id: "ai_public_id i' = ai_public_id i" by (simp add: projected(5) reconciled_intent_def Let_def)
  have intent: "get_intent (ai_public_id i) (put_intent i' db1) = Some i'"
    using assms(2) k(2) intent_rows.get_put_same [of "ai_public_id i" db1 i i'] id by (simp add: get_intent_def)
  have finished: "\<not> intent_unfinished i'" by (simp add: projected(5) reconciled_intent_def intent_unfinished_def Let_def)
  have same: "ag_generation_id g \<in> {ai_target_generation_id i, ai_previous_generation_id i}"
    if g: "get_generation pk db = Some g" "get_generation pk db1 \<noteq> Some g" for pk g
  proof (rule ccontr)
    assume other: "\<not> ?thesis"
    have "pk \<noteq> ag_pk target" using target_row_cases [OF projected(2) assms(5)] g(1) other by auto
    moreover have "pk \<noteq> ag_pk q" if "previous = Some q" for q
      using previous_row_cases [of i db q] projected(3) assms(5) that g(1) other by (auto split: if_splits)
    ultimately show False using k(4) [of pk] g by auto
  qed
  have "po_pointer_digest (result_observation env now doc status i) = rr_pointer_digest p"
    "po_active_generation_id (result_observation env now doc status i) = column env (rr_generation_id p)"
    if "read_runtime_pointer (rt_for env (ai_deployment_id i)) (aw_store wd) (aw_active wd) = Inr p" for p
    using check_result_cases(5) [OF projected(1) that]
    by (simp_all add: result_observation_def active_matches_def column_def)
  then have seen: "\<exists>seen. observations db' = observations db @ [seen]
      \<and> (\<forall>p. read_runtime_pointer (rt_for env (ai_deployment_id i)) (aw_store wd) (aw_active wd) = Inr p \<longrightarrow>
           po_pointer_digest seen = rr_pointer_digest p \<and> po_active_generation_id seen = column env (rr_generation_id p))"
    using k(3) by (intro exI [of _ "result_observation env now doc status i"]) (simp add: projected(6))
  have "\<forall>pk g. get_generation pk db = Some g \<and> get_generation pk db' \<noteq> Some g \<longrightarrow>
      ag_generation_id g \<in> {ai_target_generation_id i, ai_previous_generation_id i}"
    using same by (auto simp: projected(6))
  then show ?thesis using rows rows' intent finished seen by (simp add: projected(6))
qed


subsection \<open>What is scheduled\<close>

lemma signed_document_verifies:
  assumes "sign_document rt payload = Inr signed" "fst ` set payload \<inter> {''document_digest'', ''signature''} = {}"
    "\<And>t. ascii_text (re_sha rt t)" "\<And>k t. ascii_text (re_mac rt k t)"
    "map_of payload ''schema_version'' = Some (JInt 1)" "map_of payload ''kind'' = Some (JStr kind)"
    "map_of payload ''deployment_id'' = Some (JStr d)"
  shows "verify_document (rt\<lparr>re_deployment_id := d\<rparr>) kind signed = Inr (document_digest rt payload)"
    "k \<in> fst ` set payload \<Longrightarrow> json_get k signed = map_of payload k"
proof -
  let ?digest = "document_digest rt payload"
  let ?extra = "[(''document_digest'', JStr ?digest), (''signature'', JStr (re_mac rt (re_signing_key rt) ?digest))]"
  have absent: "''document_digest'' \<notin> fst ` set payload" "''signature'' \<notin> fst ` set payload"
    using assms(2) by auto
  have signed: "signed = JObj (payload @ ?extra)" and long: "32 \<le> length (re_signing_key rt)"
    using assms(1) absent by (auto simp: sign_document_def json_merge_def update_absent Let_def)
  have "filter (\<lambda>(k, v). k \<notin> {''document_digest'', ''signature''}) payload = payload"
    using absent by (auto simp: filter_id_conv) force+
  then have "unsigned signed = payload" by (simp add: signed unsigned_def)
  moreover have get: "json_get k signed = map_of payload k" if "k \<in> fst ` set payload" for k
    using that by (auto simp: signed json_get_def map_add_def map_of_append dest: weak_map_of_SomeI split: option.splits)
  moreover have "json_get ''document_digest'' signed = Some (JStr ?digest)"
    "json_get ''signature'' signed = Some (JStr (re_mac rt (re_signing_key rt) ?digest))"
    using absent map_of_eq_None_iff [of payload "''document_digest''"] map_of_eq_None_iff [of payload "''signature''"]
    by (simp_all add: signed json_get_def map_add_def)
  moreover have "json_get ''schema_version'' signed = Some (JInt 1)" "json_get ''kind'' signed = Some (JStr kind)"
    "json_get ''deployment_id'' signed = Some (JStr d)"
    using get assms(5-7) by (metis domI dom_map_of_conv_image_fst)+
  moreover have "ascii_text ?digest" using assms(3) by (simp add: document_digest_def)
  ultimately show "verify_document (rt\<lparr>re_deployment_id := d\<rparr>) kind signed = Inr ?digest"
    using long assms(4)
    by (simp add: verify_document_def signature_valid_def same_digest_def json_get_or_def document_digest_def signed)
  show "k \<in> fst ` set payload \<Longrightarrow> json_get k signed = map_of payload k" by (rule get)
qed

lemma find_row_new: "key r \<notin> key ` set rows \<Longrightarrow> find_row key (key r) (rows @ [r]) = Some r"
  by (induction rows) (auto simp: find_row_def)

lemma payload_keys:
  "fst ` set (intent_payload env q pl expires) \<inter> {''document_digest'', ''signature''} = {}"
  by (auto simp: intent_payload_def rollback_fields_def split: option.splits)

lemma put_row_filter_same:
  "\<not> P r \<Longrightarrow> \<forall>x\<in>set rows. key x = key r \<longrightarrow> \<not> P x \<Longrightarrow> filter P (put_row key r rows) = filter P rows"
  by (induction rows) (auto simp: put_row_def)

lemma commit_intent_cases:
  assumes "commit_intent i pk now db = Inr db'"
  shows "intents db' = intents db @ [i]" "\<forall>j\<in>set (intents db). \<not> intent_conflicts i j"
    "\<forall>j\<in>set (intents db). ai_deployment_id j = ai_deployment_id i \<longrightarrow> \<not> intent_unfinished j"
    "map ag_pk (generations db') = map ag_pk (generations db)"
    "\<exists>g. get_generation pk db' = Some g \<and> ag_runtime_state g = Pending \<and> ag_deployment_id g = ai_deployment_id i"
    "distinct (map ag_pk (generations db)) \<Longrightarrow> active_generations d db' = active_generations d db"
    "observations db' = observations db" "workspaces db' = workspaces db"
proof -
  define db1 where "db1 = db\<lparr>intents := intents db @ [i]\<rparr>"
  obtain g db2 g' where c: "\<not> list_ex (\<lambda>j. ai_deployment_id j = ai_deployment_id i \<and> intent_unfinished j) (intents db)"
    "\<not> list_ex (intent_conflicts i) (intents db)" "get_generation pk db1 = Some g"
    "save_generation (g\<lparr>ag_deployment_id := ai_deployment_id i, ag_updated_at := now\<rparr>) db1 = Inr db2"
    "transition_generation_runtime_state now pk Pending (ai_public_id i) (ai_actor_id i) (ai_actor_name i) [] db2 = Inr (db', g')"
    using assms by (auto simp: commit_intent_def db1_def Let_def)
  define g1 where "g1 = g\<lparr>ag_deployment_id := ai_deployment_id i, ag_updated_at := now\<rparr>"
  have pk: "ag_pk g = pk" "g \<in> set (generations db1)" using get_generation_in [OF c(3)] by auto
  have db2: "db2 = put_generation g1 db1" using c(4) by (auto simp: save_generation_def g1_def split: if_splits)
  have row: "get_generation pk db2 = Some g1"
    unfolding db2 by (rule generation_rows.get_put_same [OF c(3)]) (simp add: g1_def pk)
  obtain g2 where t: "get_generation pk db2 = Some g2" "runtime_table.edge (ag_runtime_state g2) Pending"
    "ag_runtime_state g' = Pending" "get_generation pk db' = Some g'" "ag_pk g' = pk"
    "db' = db2 \<and> g' = g2 \<or> (\<exists>ev. db' = append_event ev (put_generation g' db2))"
    by (rule guarded_runtime_edge [OF c(5)])
  have inactive: "ag_runtime_state g \<noteq> Active" using t(1,2) row by (auto simp: g1_def runtime_table.edge_def)
  have kept: "ag_deployment_id g' = ai_deployment_id i"
    using c(5) row by (auto simp: transition_generation_runtime_state_def g1_def Let_def split: if_splits)
  have same: "intents db1 = intents db @ [i]" "generations db1 = generations db" "observations db1 = observations db"
    "workspaces db1 = workspaces db" by (simp_all add: db1_def)
  show "intents db' = intents db @ [i]" "observations db' = observations db" "workspaces db' = workspaces db"
    using t(6) same by (auto simp: db2 put_generation_def append_event_def)
  show "\<forall>j\<in>set (intents db). \<not> intent_conflicts i j"
    "\<forall>j\<in>set (intents db). ai_deployment_id j = ai_deployment_id i \<longrightarrow> \<not> intent_unfinished j"
    using c(1,2) by (auto simp: list_ex_iff)
  show "map ag_pk (generations db') = map ag_pk (generations db)" using t(6) same(2) by (auto simp: db2)
  show "\<exists>g. get_generation pk db' = Some g \<and> ag_runtime_state g = Pending \<and> ag_deployment_id g = ai_deployment_id i"
    using t(3,4) kept by blast
  show "active_generations d db' = active_generations d db" if distinct: "distinct (map ag_pk (generations db))"
  proof -
    let ?P = "\<lambda>h. ag_deployment_id h = d \<and> ag_runtime_state h = Active"
    have old: "h = g" if "h \<in> set (generations db)" "ag_pk h = pk" for h
      using that pk distinct same(2) by (metis distinct_map inj_onD)
    have 1: "filter ?P (generations db2) = filter ?P (generations db)"
      unfolding db2 using old inactive pk(1) same(2) by (simp, intro put_row_filter_same) (auto simp: g1_def)
    have "filter ?P (generations db') = filter ?P (generations db2)" if differs: "db' \<noteq> db2"
    proof -
      obtain ev where "db' = append_event ev (put_generation g' db2)" using t(6) differs by blast
      moreover have "\<not> ?P h" if "h \<in> set (generations db2)" "ag_pk h = ag_pk g'" for h
        using that set_put_row [of ag_pk g1 "generations db"] old inactive t(5) same(2) unfolding db2 by (auto simp: g1_def)
      ultimately show ?thesis using t(3) by (simp, intro put_row_filter_same) auto
    qed
    then have "filter ?P (generations db') = filter ?P (generations db)" using 1 by (cases "db' = db2") auto
    then show ?thesis unfolding active_generations_def .
  qed
qed

lemma launch_cases:
  assumes "launch_activation env q pl now wo db = (db', f, r)"
  obtains (refused) e where "db' = db" "f = None" "r = Inl e"
    | (replayed) i where "db' = db" "f = None" "r = Inr i" "i \<in> set (intents db)"
    | (launched) signed db1 i where "sign_document (ae_rt env) (intent_payload env q pl (now + seconds (aq_expires_seconds q))) = Inr signed"
      "i = new_intent env q pl (document_digest (ae_rt env) (intent_payload env q pl (now + seconds (aq_expires_seconds q))))
         (now + seconds (aq_expires_seconds q)) now"
      "commit_intent i (ag_pk (pl_target pl)) now db = Inr db1"
      "f = (if wo_appears wo then Some signed else None)"
      "if wo_raises wo then db' = put_intent (failed_write now i) db1 \<and> r = Inl (Coordinator ''activation_intent_write_failed'')
       else db' = append_event (scheduled_event i) db1 \<and> r = Inr i"
proof -
  define payload where "payload = intent_payload env q pl (now + seconds (aq_expires_seconds q))"
  define i where "i = new_intent env q pl (document_digest (ae_rt env) payload) (now + seconds (aq_expires_seconds q)) now"
  note l = assms [unfolded launch_activation_def Let_def, folded payload_def, folded i_def]
  show thesis
  proof (cases "sign_document (ae_rt env) payload")
    case (Inl e)
    then show ?thesis using l refused by auto
  next
    case signed: (Inr signed)
    show ?thesis
    proof (cases "commit_intent i (ag_pk (pl_target pl)) now db")
      case (Inr db1)
      then show ?thesis
        using l signed by (intro launched [of signed i db1, folded payload_def, folded i_def]) (auto split: if_splits)
    next
      case (Inl e)
      show ?thesis
      proof (cases "e = Integrity_error")
        case True
        define replay where "replay = activation_request_replay (deployment_of env) (aq_key q) (pl_workspace pl) (aq_state_digest q) db"
        have d: "db' = db" "f = None" "r = bind_res replay (\<lambda>o'. of_option (Coordinator ''idempotency_conflict'') o')"
          using l signed Inl True by (auto simp: replay_def)
        have found: "j \<in> set (intents db)" if "replay = Inr (Some j)" for j
          using that by (auto simp: replay_def activation_request_replay_def find_Some_iff split: if_splits option.splits)
        show ?thesis
        proof (cases r)
          case (Inr j)
          then have "replay = Inr (Some j)" using d(3) by auto
          then show ?thesis using replayed [of j] d(1,2) Inr found by blast
        qed (use d refused in auto)
      next
        case False
        then show ?thesis using l signed Inl refused by (cases e) auto
      qed
    qed
  qed
qed


lemma plan_cases:
  assumes "plan_activation env q wd1 wd2 now w db = Inr (Inr pl)"
  obtains current row where "guard_activation_enabled env = Inr ()" "pl_workspace pl = w"
    "generation_of w db = Inr (pl_target pl)" "current_runtime env wd1 (aq_rollback q) db = Inr current"
    "map_option rr_generation_id current \<noteq> Some (JStr (ag_generation_id (pl_target pl)))"
    "current_row env current db = Inr row"
    "fence_rollback env (aq_rollback q) wd2 now w (pl_target pl) row db = Inr (pl_current pl, pl_rollback pl)"
    "verify_workspace env wd1 now w db = Inr (pl_runtime pl)"
    "aq_rollback q \<Longrightarrow> \<exists>x. validate_previous_runtime_rollback env wd1 now w db = Inr x"
proof -
  have g: "guard_activation_enabled env = Inr ()" and plan: "fresh_plan env q wd1 wd2 now w db = Inr pl"
    using assms by (auto simp: plan_activation_def split: option.splits)
  have first: "aq_rollback q \<Longrightarrow> \<exists>x. validate_previous_runtime_rollback env wd1 now w db = Inr x"
    using plan by (auto simp: fresh_plan_def)
  obtain current row where "verify_workspace env wd1 now w db = Inr (pl_runtime pl)" "pl_workspace pl = w"
    "generation_of w db = Inr (pl_target pl)" "current_runtime env wd1 (aq_rollback q) db = Inr current"
    "map_option rr_generation_id current \<noteq> Some (JStr (ag_generation_id (pl_target pl)))"
    "current_row env current db = Inr row"
    "fence_rollback env (aq_rollback q) wd2 now w (pl_target pl) row db = Inr (pl_current pl, pl_rollback pl)"
    using plan unfolding fresh_plan_def by auto
  then show thesis using g first that by blast
qed

lemma validated_active:
  assumes "validate_previous_runtime_rollback env wd now w db = Inr (active, previous)"
  shows "read_runtime_pointer (rt_for env (deployment_of env)) (aw_store wd) (aw_active wd) = Inr active"
    "rr_generation_id active = json_get_or ''active_generation_id'' JNull (rw_validation_evidence w)"
  using assms by (auto simp: validate_previous_runtime_rollback_def read_pointers_def rollback_authority_def Let_def)

lemma current_runtime_cases:
  "current_runtime env wd rollback db = Inr (Some p) \<Longrightarrow>
     read_runtime_pointer (rt_for env (deployment_of env)) (aw_store wd) (aw_active wd) = Inr p"
  "current_runtime env wd rollback db = Inr None \<Longrightarrow>
     \<not> rollback \<and> aw_active wd = None \<and> aw_previous wd = None \<and> active_generations (deployment_of env) db = []"
  by (auto simp: current_runtime_def split: sum.splits rt_exn.splits if_splits)

text \<open>The pointer a plan is fenced against.\<close>

lemma plan_pointer:
  assumes "plan_activation env q wd1 wd2 now w db = Inr (Inr pl)" "wd = (if aq_rollback q then wd2 else wd1)"
  shows "if pl_initial pl then \<not> aq_rollback q \<and> aw_active wd1 = None \<and> aw_previous wd1 = None \<and> active_generations (deployment_of env) db = []
    else \<exists>p pk. pl_current pl = Some (p, pk) \<and> rr_generation_id p \<noteq> JStr (ag_generation_id (pl_target pl))
      \<and> read_runtime_pointer (rt_for env (deployment_of env)) (aw_store wd) (aw_active wd) = Inr p"
proof -
  obtain current row where c: "current_runtime env wd1 (aq_rollback q) db = Inr current"
    "map_option rr_generation_id current \<noteq> Some (JStr (ag_generation_id (pl_target pl)))"
    "current_row env current db = Inr row"
    "fence_rollback env (aq_rollback q) wd2 now w (pl_target pl) row db = Inr (pl_current pl, pl_rollback pl)"
    "aq_rollback q \<Longrightarrow> \<exists>x. validate_previous_runtime_rollback env wd1 now w db = Inr x"
    using plan_cases [OF assms(1)] by metis
  show ?thesis
  proof (cases current)
    case None
    then have "\<not> aq_rollback q" "row = None" using current_runtime_cases(2) c(1,3) by (auto simp: current_row_def)
    then show ?thesis using None c(1,4) current_runtime_cases(2) by (auto simp: fence_rollback_def pl_initial_def)
  next
    case (Some p)
    then obtain pk where row: "row = Some (p, pk)" using c(3) by (auto simp: current_row_def)
    have p: "read_runtime_pointer (rt_for env (deployment_of env)) (aw_store wd1) (aw_active wd1) = Inr p"
      using c(1) Some by (intro current_runtime_cases) simp
    show ?thesis
    proof (cases "aq_rollback q")
      case False
      then show ?thesis using c(2,4) Some row p assms(2) by (auto simp: fence_rollback_def pl_initial_def)
    next
      case True
      obtain a1 b1 where 1: "validate_previous_runtime_rollback env wd1 now w db = Inr (a1, b1)" using c(5) True by auto
      obtain a2 b2 where 2: "validate_previous_runtime_rollback env wd2 now w db = Inr (a2, b2)" "pl_current pl = Some (a2, pk)"
        using c(4) True row by (auto simp: fence_rollback_def)
      have "a1 = p" using validated_active(1) [OF 1] p by simp
      then have "rr_generation_id a2 = rr_generation_id p" using validated_active(2) [OF 1] validated_active(2) [OF 2(1)] by simp
      then show ?thesis using c(2) Some 2(2) validated_active(1) [OF 2(1)] True assms(2) by (auto simp: pl_initial_def)
    qed
  qed
qed

lemma payload_fields:
  "map_of (intent_payload env q pl expires) ''schema_version'' = Some (JInt 1)"
  "map_of (intent_payload env q pl expires) ''kind'' = Some (JStr ''activation_intent'')"
  "map_of (intent_payload env q pl expires) ''deployment_id'' = Some (JStr (deployment_of env))"
  "map_of (intent_payload env q pl expires) ''intent_id'' = Some (JStr (aq_public_id q))"
  "map_of (intent_payload env q pl expires) ''target_generation_id'' = Some (JStr (ag_generation_id (pl_target pl)))"
  "map_of (intent_payload env q pl expires) ''target_manifest_digest'' = Some (JStr (rw_manifest_digest (pl_workspace pl)))"
  "map_of (intent_payload env q pl expires) ''previous_generation_id'' = Some (current_field pl rr_generation_id)"
  "map_of (intent_payload env q pl expires) ''previous_pointer_digest'' = Some (current_field pl (\<lambda>p. JStr (rr_pointer_digest p)))"
  "map_of (intent_payload env q pl expires) ''activation_mode'' = Some (JStr (activation_mode q pl))"
  by (simp_all add: intent_payload_def)

text \<open>C10: An activation that was scheduled put a file in place that the supervisors accept, whose digest is
  that of the row; the file names the row's intent, target and manifest, and the active pointer as it was read
  (of a rollback, read last), which is of another generation, or else there was no pointer and no active
  generation. The row is the only unfinished intent of the deployment, the target is pending, and no
  other generation became active or stopped being so.\<close>

theorem scheduled_intent_binds:
  assumes "schedule_activation env q wd1 wd2 now w wo seen db = (db', Some signed, Inr i)"
    "\<And>t. ascii_text (re_sha (ae_rt env) t)" "\<And>k t. ascii_text (re_mac (ae_rt env) k t)"
    "distinct (map ag_pk (generations db))"
  shows "verify_document (rt_for env (ai_deployment_id i)) ''activation_intent'' signed = Inr (ai_intent_digest i)
     \<and> json_get ''intent_id'' signed = Some (JStr (ai_public_id i))
     \<and> json_get ''target_generation_id'' signed = Some (JStr (ai_target_generation_id i))
     \<and> json_get ''target_manifest_digest'' signed = Some (JStr (ai_manifest_digest i))
     \<and> (if initial_intent i then \<not> aq_rollback q \<and> aw_active wd1 = None \<and> aw_previous wd1 = None
             \<and> active_generations (ai_deployment_id i) seen = []
        else let wd = if aq_rollback q then wd2 else wd1 in
          \<exists>p. read_runtime_pointer (rt_for env (ai_deployment_id i)) (aw_store wd) (aw_active wd) = Inr p
            \<and> rr_generation_id p \<noteq> JStr (ai_target_generation_id i)
            \<and> json_get ''previous_generation_id'' signed = Some (rr_generation_id p)
            \<and> json_get ''previous_pointer_digest'' signed = Some (JStr (rr_pointer_digest p)))
     \<and> get_intent (ai_public_id i) db' = Some i
     \<and> filter (\<lambda>j. ai_deployment_id j = ai_deployment_id i \<and> intent_unfinished j) (intents db') = [i]
     \<and> (\<exists>g. get_generation (rw_generation w) db' = Some g \<and> ag_runtime_state g = Pending \<and> ag_deployment_id g = ai_deployment_id i)
     \<and> (\<forall>d. active_generations d db' = active_generations d db)"
proof -
  obtain pl where plan: "plan_activation env q wd1 wd2 now w seen = Inr (Inr pl)"
    and launch: "launch_activation env q pl now wo db = (db', Some signed, Inr i)"
    using assms(1) by (auto simp: schedule_activation_def split: sum.splits)
  define expires where "expires = now + seconds (aq_expires_seconds q)"
  obtain db1 where l: "sign_document (ae_rt env) (intent_payload env q pl expires) = Inr signed"
    "i = new_intent env q pl (document_digest (ae_rt env) (intent_payload env q pl expires)) expires now"
    "commit_intent i (ag_pk (pl_target pl)) now db = Inr db1" "db' = append_event (scheduled_event i) db1"
    using launch by (cases rule: launch_cases) (auto simp: expires_def split: if_splits)
  obtain w': "pl_workspace pl = w" and target: "generation_of w seen = Inr (pl_target pl)"
    using plan_cases [OF plan] by metis
  have pk: "ag_pk (pl_target pl) = rw_generation w" using target get_generation_in by (auto simp: generation_of_def)
  have i: "ai_public_id i = aq_public_id q" "ai_deployment_id i = deployment_of env"
    "ai_target_generation_id i = ag_generation_id (pl_target pl)" "ai_manifest_digest i = rw_manifest_digest w"
    "ai_intent_digest i = document_digest (ae_rt env) (intent_payload env q pl expires)" "intent_unfinished i"
    "initial_intent i = pl_initial pl"
    by (simp_all add: l(2) new_intent_def w' intent_unfinished_def initial_intent_def intent_checkpoint_def json_get_or_def json_get_def)
  note signed = signed_document_verifies [OF l(1) payload_keys assms(2,3) payload_fields(1-3)]
  have get: "json_get k signed = Some v" if "map_of (intent_payload env q pl expires) k = Some v" for k v
    using signed(2) [of k] that by (metis domI dom_map_of_conv_image_fst)
  note c = commit_intent_cases [OF l(3)]
  have intent: "get_intent (ai_public_id i) db' = Some i"
    unfolding get_intent_def using c(1,2) find_row_new [of ai_public_id i "intents db"]
    by (fastforce simp: l(4) intent_conflicts_def)
  have only: "filter (\<lambda>j. ai_deployment_id j = ai_deployment_id i \<and> intent_unfinished j) (intents db') = [i]"
    using c(1,3) i(6) by (auto simp: l(4) filter_empty_conv)
  have rows: "\<exists>g. get_generation (rw_generation w) db' = Some g \<and> ag_runtime_state g = Pending \<and> ag_deployment_id g = ai_deployment_id i"
    "\<forall>d. active_generations d db' = active_generations d db"
    using c(5,6) assms(4) pk by (simp_all add: l(4))
  have verified: "verify_document (rt_for env (ai_deployment_id i)) ''activation_intent'' signed = Inr (ai_intent_digest i)"
    using signed(1) by (simp add: rt_for_def i)
  have fields: "json_get ''intent_id'' signed = Some (JStr (ai_public_id i))"
    "json_get ''target_generation_id'' signed = Some (JStr (ai_target_generation_id i))"
    "json_get ''target_manifest_digest'' signed = Some (JStr (ai_manifest_digest i))"
    by (simp_all add: get payload_fields i w')
  have pointer: "if initial_intent i then \<not> aq_rollback q \<and> aw_active wd1 = None \<and> aw_previous wd1 = None
             \<and> active_generations (ai_deployment_id i) seen = []
        else let wd = if aq_rollback q then wd2 else wd1 in
          \<exists>p. read_runtime_pointer (rt_for env (ai_deployment_id i)) (aw_store wd) (aw_active wd) = Inr p
            \<and> rr_generation_id p \<noteq> JStr (ai_target_generation_id i)
            \<and> json_get ''previous_generation_id'' signed = Some (rr_generation_id p)
            \<and> json_get ''previous_pointer_digest'' signed = Some (JStr (rr_pointer_digest p))"
    using plan_pointer [OF plan refl] get [OF payload_fields(7)] get [OF payload_fields(8)]
    unfolding i(2,3,7) Let_def by (auto simp: current_field_def split: if_split_asm)
  show ?thesis using verified fields pointer intent only rows by (intro conjI) assumption+
qed

subsection \<open>A sample activation\<close>

text \<open>A staging deployment whose first generation is active, and a prepared workspace of the second.\<close>

definition act_identity :: env_identity where
  "act_identity = \<lparr>ei_app_env = Env_staging, ei_deployment_id = ''d'', ei_instance_id = ''i'', ei_replica_id = ''r'',
     ei_dataset_id = ''s'', ei_production_source_id = [], ei_authoritative_dataset_id = ''s'',
     ei_restore_source_dataset_id = [], ei_data_mode = Mode_local, ei_data_pinned_generation = [],
     ei_restore_policy = Restore_manual, ei_backup_role = Role_reader, ei_backup_sync_mode = Sync_manual,
     ei_maintenance_scheduler = False, ei_side_effects = Effects_disabled, ei_nonprod_data_policy = [],
     ei_exact_approved = False, ei_exact_approval_id = [], ei_app_image_digest = JStr ''m'',
     ei_app_release_version = JStr ''v'', ei_build_image_digest = JNull, ei_build_release_version = JNull\<rparr>"

definition act_env :: activation_env where
  "act_env = \<lparr>ae_rt = sample_rt_env, ae_identity = act_identity, ae_activation_enabled = True,
     ae_initial_enabled = False, ae_mutations_enabled = True, ae_max_age_seconds = 3600\<rparr>"

definition act_smoke :: smoke_file where
  "act_smoke = (let item = (\<lambda>l. JObj [(''locale'', JStr l), (''query'', JStr ''q'')]) in
     Smoke_text ''smoke'' (Some (JObj [(''queries'', JArr [item ''en'', item ''mr''])])))"

definition act_world :: "string \<Rightarrow> string \<Rightarrow> activation_world" where
  "act_world g c = \<lparr>aw_store = sample_store, aw_active = sample_file (sample_pointer g c), aw_previous = None,
     aw_superadmin = (\<lambda>_. True), aw_smoke = act_smoke,
     aw_capacity = (\<lambda>_. JObj [(''byte_capacity_ok'', JBool True), (''inode_capacity_ok'', JBool True)])\<rparr>"

definition act_generation :: "nat \<Rightarrow> string \<Rightarrow> string \<Rightarrow> runtime_state \<Rightarrow> artifact_generation" where
  "act_generation pk g c rs = \<lparr>ag_pk = pk, ag_profile = 1, ag_origin = Vault_generation, ag_dataset_id = ''s'',
     ag_generation_id = g, ag_manifest_digest = sample_manifest c,
     ag_manifest = JObj [(''unavailable_documents'', attestation 0 [] False 20 (replicate 64 CHR ''a''))],
     ag_vault_state = Authoritative, ag_runtime_state = rs, ag_deployment_id = ''d'', ag_parent_generation_id = [],
     ag_parent_manifest_digest = [], ag_updated_at = 0\<rparr>"

definition act_workspace :: restore_workspace where
  "act_workspace = \<lparr>rw_pk = 1, rw_public_id = ''w'', rw_job = None, rw_generation = 2, rw_state = Activation_ready,
     rw_manifest_digest = sample_manifest ''b'', rw_pointer_digest = [], rw_runtime_path = ''/r/b'',
     rw_validation_evidence = JObj [],
     rw_rehearsal_evidence = JObj [(''success'', JBool True), (''app_release'', JStr ''v''), (''image_digest'', JStr ''m'')],
     rw_prepared_at = Some 0, rw_expires_at = None, rw_created_at = 0, rw_updated_at = 0\<rparr>"

definition act_db :: "runtime_state \<Rightarrow> activation_intent list \<Rightarrow> control_db" where
  "act_db rs is = empty_db\<lparr>generations := [act_generation 1 ''gen-a'' ''a'' Active, act_generation 2 ''gen-b'' ''b'' rs],
     workspaces := [act_workspace], intents := is\<rparr>"

definition act_request :: activation_request where
  "act_request = \<lparr>aq_actor_id = None, aq_actor_name = ''op'', aq_confirmed = True, aq_expires_seconds = 300, aq_key = [],
     aq_state_digest = [], aq_rollback = False, aq_recovery_set_id = [], aq_public_id = ''i1''\<rparr>"

lemma act_rt_for [simp]: "rt_for act_env ''d'' = sample_rt_env" "deployment_of act_env = ''d''"
  "ae_rt act_env = sample_rt_env" "ae_identity act_env = act_identity" "ae_max_age_seconds act_env = 3600"
  by (simp_all add: rt_for_def act_env_def deployment_of_def act_identity_def) (simp add: sample_rt_env_def)

lemma act_guard: "guard_activation_enabled act_env = Inr ()"
  by (simp add: guard_activation_enabled_def)
    (simp add: act_env_def act_identity_def direction_decision_def activation_direction_def is_production_def Let_def)

lemma act_column [simp]: "column act_env (JStr s) = s"
  by (simp add: column_def)

lemma act_world_simps [simp]: "aw_store (act_world g c) = sample_store" "aw_active (act_world g c) = sample_file (sample_pointer g c)"
  "aw_previous (act_world g c) = None" "aw_superadmin (act_world g c) = (\<lambda>_. True)" "aw_smoke (act_world g c) = act_smoke"
  "capacity_ok (aw_capacity (act_world g c) r)"
  by (simp_all add: act_world_def capacity_ok_def json_get_or_def json_get_def)

lemma act_generation_simps [simp]:
  "ag_pk (act_generation pk g c rs) = pk" "ag_generation_id (act_generation pk g c rs) = g"
  "ag_manifest_digest (act_generation pk g c rs) = sample_manifest c" "ag_runtime_state (act_generation pk g c rs) = rs"
  "ag_deployment_id (act_generation pk g c rs) = ''d''" "ag_origin (act_generation pk g c rs) = Vault_generation"
  by (simp_all add: act_generation_def)

lemma act_db_simps [simp]:
  "generations (act_db rs is) = [act_generation 1 ''gen-a'' ''a'' Active, act_generation 2 ''gen-b'' ''b'' rs]"
  "intents (act_db rs is) = is" "workspaces (act_db rs is) = [act_workspace]"
  by (simp_all add: act_db_def)

lemma act_workspace_simps [simp]: "rw_pk act_workspace = 1" "rw_generation act_workspace = 2"
  "rw_manifest_digest act_workspace = sample_manifest ''b''" "rw_state act_workspace = Activation_ready"
  "rw_runtime_path act_workspace = ''/r/b''" "rw_prepared_at act_workspace = Some 0"
  "rehearsal_matches act_identity (rw_rehearsal_evidence act_workspace)"
  by (simp_all add: act_workspace_def rehearsal_matches_def act_identity_def json_get_or_def json_get_def)

lemma act_target: "generation_of act_workspace (act_db rs is) = Inr (act_generation 2 ''gen-b'' ''b'' rs)"
  by (simp add: generation_of_def get_generation_def find_row_def)

lemma act_smoke_read: "read_smoke_queries act_env act_smoke = Inr ''aa''"
proof -
  have "py_strip ''q'' \<noteq> []" by code_simp
  then show ?thesis
    by (simp add: read_smoke_queries_def act_smoke_def smoke_item_def json_get_or_def json_get_def) (simp add: sample_rt_env_def)
qed

lemma act_unavailable_ok: "\<exists>v. unavailable_documents act_env (act_generation pk g c rs) = Inr v"
proof -
  have "attestation_valid (attestation 0 [] False 20 (replicate 64 CHR ''a''))" by code_simp
  then show ?thesis
    by (simp add: unavailable_documents_def act_generation_def json_get_def [of "''unavailable_documents''"]
        validate_unavailable_attestation_def attestation_def)
qed

lemma act_verified_workspace:
  "verify_workspace act_env (act_world g c) 0 act_workspace (act_db rs is) = Inr ''/r/b''"
  by (simp add: verify_workspace_def act_target older_than_def seconds_def validate_runtime_workspace_def
      verify_recovery_superadmin_def)

lemma act_plan:
  "\<exists>pl. plan_activation act_env act_request (act_world ''gen-a'' ''a'') (act_world ''gen-a'' ''a'') 0 act_workspace
       (act_db Inactive []) = Inr (Inr pl)
     \<and> pl_target pl = act_generation 2 ''gen-b'' ''b'' Inactive \<and> pl_workspace pl = act_workspace
     \<and> pl_current pl = Some (sample_runtime ''gen-a'' ''a'', 1)"
proof -
  let ?db = "act_db Inactive []"
  obtain v where v: "unavailable_documents act_env (act_generation 2 ''gen-b'' ''b'' Inactive) = Inr v"
    using act_unavailable_ok by blast
  have current: "current_runtime act_env (act_world ''gen-a'' ''a'') False ?db = Inr (Some (sample_runtime ''gen-a'' ''a''))"
    by (simp add: current_runtime_def)
  have row: "current_row act_env (Some (sample_runtime ''gen-a'' ''a'')) ?db = Inr (Some (sample_runtime ''gen-a'' ''a'', 1))"
    by (simp add: current_row_def previous_generation_def sample_manifest_def)
  show ?thesis
    by (simp add: plan_activation_def fresh_plan_def act_guard act_request_def activation_request_replay_def
        act_verified_workspace act_smoke_read current act_target row fence_rollback_def check_lineage_def v)
qed

lemma act_scheduled:
  "\<exists>db' signed i. schedule_activation act_env act_request (act_world ''gen-a'' ''a'') (act_world ''gen-a'' ''a'') 0 act_workspace
       \<lparr>wo_appears = True, wo_raises = False\<rparr> (act_db Inactive []) (act_db Inactive []) = (db', Some signed, Inr i)
     \<and> ai_deployment_id i = ''d'' \<and> \<not> initial_intent i"
proof -
  obtain pl where pl: "plan_activation act_env act_request (act_world ''gen-a'' ''a'') (act_world ''gen-a'' ''a'') 0 act_workspace
       (act_db Inactive []) = Inr (Inr pl)" "pl_target pl = act_generation 2 ''gen-b'' ''b'' Inactive"
    "pl_current pl = Some (sample_runtime ''gen-a'' ''a'', 1)"
    using act_plan by blast
  define payload where "payload = intent_payload act_env act_request pl (seconds (aq_expires_seconds act_request))"
  define i where "i = new_intent act_env act_request pl (document_digest sample_rt_env payload) (seconds (aq_expires_seconds act_request)) 0"
  have "sign_document sample_rt_env payload = Inr (sample_signed payload)"
    using payload_keys [of act_env act_request pl "seconds (aq_expires_seconds act_request)"]
    by (intro sample_sign) (auto simp: payload_def)
  moreover have id: "ai_deployment_id i = ''d''" "\<not> initial_intent i"
    using pl(3) by (simp_all add: i_def new_intent_def initial_intent_def intent_checkpoint_def pl_initial_def json_get_or_def json_get_def)
  moreover have "\<exists>db'. commit_intent i 2 0 (act_db Inactive []) = Inr db'"
    by (simp add: commit_intent_def get_generation_def find_row_def save_generation_def put_generation_def put_row_def
        transition_generation_runtime_state_def guard_transition_def Let_def)
  ultimately show ?thesis
    using pl(1,2) by (auto simp: schedule_activation_def launch_activation_def payload_def [symmetric] i_def [symmetric] Let_def)
qed

theorem scheduled_intent_binds_witness:
  "\<exists>signed db' digest. verify_document sample_rt_env ''activation_intent'' signed = Inr digest \<and>
     json_get ''previous_pointer_digest'' signed = Some (JStr ''aa'') \<and> (\<exists>g. get_generation 2 db' = Some g \<and> ag_runtime_state g = Pending)"
proof -
  obtain db' signed i where s: "schedule_activation act_env act_request (act_world ''gen-a'' ''a'') (act_world ''gen-a'' ''a'') 0 act_workspace
       \<lparr>wo_appears = True, wo_raises = False\<rparr> (act_db Inactive []) (act_db Inactive []) = (db', Some signed, Inr i)"
    "ai_deployment_id i = ''d''" "\<not> initial_intent i"
    using act_scheduled by blast
  have "ascii_text (re_sha sample_rt_env t)" "ascii_text (re_mac sample_rt_env k t)" for k t
    by (simp_all add: sample_rt_env_def sample_strip)
  moreover have "distinct (map ag_pk (generations (act_db Inactive [])))" by simp
  ultimately show ?thesis
    using scheduled_intent_binds [OF s(1)] s(2,3)
    by (intro exI [of _ signed] exI [of _ db'] exI [of _ "ai_intent_digest i"]) (auto simp: act_request_def Let_def)
qed

definition act_intent :: activation_intent where
  "act_intent = \<lparr>ai_public_id = ''i1'', ai_workspace = Some 1, ai_deployment_id = ''d'', ai_target_generation_id = ''gen-b'',
     ai_previous_generation_id = ''gen-a'', ai_manifest_digest = sample_manifest ''b'', ai_intent_digest = ''aa'',
     ai_idempotency_key = [], ai_request_state_digest = [], ai_state = Intent_pending,
     ai_checkpoint = JObj [(''previous_generation_record_id'', JInt 1), (''initial_activation'', JBool False)],
     ai_actor_id = None, ai_actor_name = ''op'', ai_safe_error_code = [], ai_applied_at = None, ai_committed_at = None,
     ai_expires_at = 300, ai_updated_at = 0\<rparr>"

definition act_result :: "string \<Rightarrow> string \<Rightarrow> string \<Rightarrow> json" where
  "act_result status g c = sample_signed
     [(''schema_version'', JInt 1), (''kind'', JStr ''activation_result''), (''deployment_id'', JStr ''d''),
      (''intent_id'', JStr ''i1''), (''intent_digest'', JStr ''aa''), (''status'', JStr status),
      (''active_generation_id'', JStr g), (''active_manifest_digest'', JStr (sample_manifest c)),
      (''active_pointer_digest'', JStr ''aa''), (''previous_generation_id'', JStr ''gen-a''),
      (''readiness_evidence'', JObj [(''runtime_generation_id'', JStr g), (''runtime_manifest_digest'', JStr (sample_manifest c))])]"

lemma act_result_fields [simp]:
  "json_get ''intent_id'' (act_result s g c) = Some (JStr ''i1'')" "json_get ''intent_digest'' (act_result s g c) = Some (JStr ''aa'')"
  "json_get ''status'' (act_result s g c) = Some (JStr s)" "field_or_blank ''active_generation_id'' (act_result s g c) = JStr g"
  "field_or_blank ''active_manifest_digest'' (act_result s g c) = JStr (sample_manifest c)"
  "field_or_blank ''active_pointer_digest'' (act_result s g c) = JStr ''aa''"
  "field_or_blank ''previous_generation_id'' (act_result s g c) = JStr ''gen-a''"
  "json_get ''readiness_evidence'' (act_result s g c) =
     Some (JObj [(''runtime_generation_id'', JStr g), (''runtime_manifest_digest'', JStr (sample_manifest c))])"
  by (simp_all add: act_result_def sample_signed_def json_get_def field_or_blank_def json_get_or_def)

lemma act_result_verified: "verify_document sample_rt_env ''activation_result'' (act_result s g c) = Inr ''aa''"
  unfolding act_result_def by (rule sample_verified) simp_all

lemma act_intent_simps [simp]:
  "ai_public_id act_intent = ''i1''" "ai_deployment_id act_intent = ''d''" "ai_target_generation_id act_intent = ''gen-b''"
  "ai_previous_generation_id act_intent = ''gen-a''" "ai_manifest_digest act_intent = sample_manifest ''b''"
  "ai_intent_digest act_intent = ''aa''" "ai_workspace act_intent = Some 1" "\<not> initial_intent act_intent" "intent_unfinished act_intent"
  "ai_state act_intent = Intent_pending" "json_get_or ''previous_generation_record_id'' JNull (ai_checkpoint act_intent) = JInt 1"
  "json_get_or ''previous_manifest_digest'' JNull (ai_checkpoint act_intent) = JNull"
  by (simp_all add: act_intent_def initial_intent_def intent_unfinished_def json_get_or_def json_get_def)

lemma act_intent_row: "get_intent ''i1'' (act_db rs [act_intent]) = Some act_intent"
  by (simp add: get_intent_def find_row_def)

lemma act_checked:
  "check_result act_env (act_world ''gen-b'' ''b'') act_intent (Some (act_result ''committed'' ''gen-b'' ''b'')) =
     Inr (act_result ''committed'' ''gen-b'' ''b'', ''committed'')"
  by (simp add: check_result_def act_result_verified json_get_or_def result_statuses_def status_matches_def active_matches_def
      check_readiness_def readiness_matches_def json_get_def [of "''runtime_generation_id''"]
      json_get_def [of "''runtime_manifest_digest''"])

lemma act_reconciled:
  "\<exists>db' i'. reconcile_activation_result act_env (act_world ''gen-b'' ''b'') 9 (Some (act_result ''committed'' ''gen-b'' ''b''))
     act_intent (act_db Pending [act_intent]) = Inr (db', i')"
proof -
  have target: "target_row act_intent (act_db Pending [act_intent]) = Inr (act_generation 2 ''gen-b'' ''b'' Pending)"
    by (simp add: target_row_def get_workspace_def find_row_def act_target)
  have previous: "previous_row act_intent (act_db Pending [act_intent]) = Inr (act_generation 1 ''gen-a'' ''a'' Active)"
    by (simp add: previous_row_def)
  have "\<exists>db1. project_rows 9 ''committed'' (act_generation 2 ''gen-b'' ''b'' Pending) (Some (act_generation 1 ''gen-a'' ''a'' Active))
      (act_db Pending [act_intent]) = Inr db1"
    by (simp add: project_rows_def set_if_present_def set_runtime_state_def get_generation_def find_row_def save_generation_def
        put_generation_def put_row_def active_generations_def)
  moreover have stored: "storable_result (act_result s g c) ''committed''" for s g c
    by (simp add: storable_result_def) (simp add: act_result_def sample_signed_def field_or_blank_def json_get_or_def json_get_def)
  ultimately show ?thesis
    using act_intent_row [of Pending] by (auto simp: reconcile_activation_result_def act_checked target previous already_projected_def stored Let_def)
qed

lemma act_status: "json_get ''status'' (act_result s g c) = Some (JStr s)"
  by (simp add: act_result_def sample_signed_def json_get_def)

theorem reconcile_mirrors_pointer_witness:
  "\<exists>db' i' g. reconcile_activation_result act_env (act_world ''gen-b'' ''b'') 9 (Some (act_result ''committed'' ''gen-b'' ''b''))
     act_intent (act_db Pending [act_intent]) = Inr (db', i') \<and> active_generations ''d'' db' = [g] \<and> ag_generation_id g = ''gen-b''"
proof -
  obtain db' i' where r: "reconcile_activation_result act_env (act_world ''gen-b'' ''b'') 9
      (Some (act_result ''committed'' ''gen-b'' ''b'')) act_intent (act_db Pending [act_intent]) = Inr (db', i')"
    using act_reconciled by blast
  have "read_runtime_pointer (rt_for act_env (ai_deployment_id act_intent)) (aw_store (act_world ''gen-b'' ''b''))
      (aw_active (act_world ''gen-b'' ''b'')) = Inr (sample_runtime ''gen-b'' ''b'')" by simp
  then show ?thesis
    using reconcile_mirrors_pointer [OF r] act_intent_row [of Pending] r
    by (auto simp: intent_wf_def mirrors_def act_status)
qed

end
