(* ===== verification/Vault_Activation_Runs.thy ===== *)
theory Vault_Activation_Runs
  imports Vault_Activation_Safety
begin

section \<open>Runs of the activation coordinator\<close>

text \<open>
  Requests, rollback preparations and reconciliations interleaved: the invariant of the control
  database, the result that blocks a deployment, and the rollback by one step from its preparation to
  its validation.
\<close>

subsection \<open>Any interleaving\<close>

text \<open>
  Requests, operators preparing a rollback and reconciliations in any order. A request may have read any
  database and any files before its transaction starts. \<open>results\<close> are the result files.
\<close>

inductive activation_step :: "activation_env \<Rightarrow> (string \<Rightarrow> json option) \<Rightarrow> control_db \<Rightarrow> control_db \<Rightarrow> bool"
  for env results where
  schedule: "schedule_activation env q wd1 wd2 now w wo seen db = (db', f, r) \<Longrightarrow> activation_step env results db db'"
| prepare: "prepare_previous_runtime_rollback env wd now public_id db = Inr (db', w) \<Longrightarrow> activation_step env results db db'"
| reconcile: "get_intent (ai_public_id i) db = Some i \<Longrightarrow>
    reconcile_activation_result env wd now (results (ai_public_id i)) i db = Inr (db', i') \<Longrightarrow> activation_step env results db db'"

definition unfinished_intents :: "string \<Rightarrow> control_db \<Rightarrow> activation_intent list" where
  "unfinished_intents d db = filter (\<lambda>j. ai_deployment_id j = d \<and> intent_unfinished j) (intents db)"

definition activation_inv :: "control_db \<Rightarrow> bool" where
  "activation_inv db = (distinct (map ai_public_id (intents db)) \<and> distinct (map ag_pk (generations db))
     \<and> (\<forall>d. length (unfinished_intents d db) \<le> 1) \<and> (\<forall>d. d \<noteq> [] \<longrightarrow> length (active_generations d db) \<le> 1))"

lemma filter_put_shorter:
  "\<not> P r \<Longrightarrow> length (filter P (put_row key r rows)) \<le> length (filter P rows)"
  by (induction rows) (auto simp: put_row_def)

lemma schedule_cases:
  assumes "schedule_activation env q wd1 wd2 now w wo seen db = (db', f, r)"
  obtains (refused) e where "db' = db" "f = None" "r = Inl e"
    | (replayed) i where "db' = db" "f = None" "r = Inr i"
    | (scheduled) db1 i where "ai_deployment_id i = deployment_of env" "commit_intent i (rw_generation w) now db = Inr db1"
      "intents db' = intents db @ [i] \<or> intents db' = put_row ai_public_id (failed_write now i) (intents db @ [i])"
      "generations db' = generations db1"
proof (cases "plan_activation env q wd1 wd2 now w seen")
  case (Inl e)
  then show ?thesis using assms refused by (auto simp: schedule_activation_def)
next
  case (Inr x)
  show ?thesis
  proof (cases x)
    case (Inl existing)
    then show ?thesis using assms Inr replayed by (auto simp: schedule_activation_def)
  next
    case pl: (Inr pl)
    have target: "ag_pk (pl_target pl) = rw_generation w"
      using plan_cases [OF Inr [unfolded pl]] get_generation_in by (metis generation_of_def of_option_eq(1))
    have "launch_activation env q pl now wo db = (db', f, r)" using assms Inr pl by (simp add: schedule_activation_def)
    then show ?thesis
    proof (cases rule: launch_cases)
      case (launched signed db1 i)
      note c = commit_intent_cases [OF launched(3)]
      have "ai_deployment_id i = deployment_of env" by (simp add: launched(2) new_intent_def)
      moreover have "intents db' = intents db @ [i] \<or> intents db' = put_row ai_public_id (failed_write now i) (intents db @ [i])"
        "generations db' = generations db1"
        using launched(5) c(1) by (auto split: if_splits)
      ultimately show ?thesis using scheduled launched(3) target by metis
    qed (use refused replayed in blast)+
  qed
qed

lemma set_runtime_single:
  assumes "set_runtime_state now rs g db = Inr db'" "distinct (map ag_pk (generations db))" "d \<noteq> []"
    "length (active_generations d db) \<le> 1"
  shows "length (active_generations d db') \<le> 1"
proof (cases "rs = Active")
  case False
  then show ?thesis using set_inactive [OF assms(1,2)] assms(4) by (simp add: le_trans [OF length_filter_le])
next
  case True
  obtain row where r: "get_generation (ag_pk g) db = Some row"
    "db' = put_generation (row\<lparr>ag_runtime_state := rs, ag_updated_at := now\<rparr>) db"
    using set_runtime_state_cases [OF assms(1)] by metis
  show ?thesis
  proof (cases "ag_deployment_id row = d")
    case same: True
    then show ?thesis using set_active [OF assms(1) [unfolded True] assms(2) r(1) same assms(3)] by simp
  next
    case False
    then show ?thesis
      using filter_put_shorter [of "\<lambda>h. ag_deployment_id h = d \<and> ag_runtime_state h = Active"
          "row\<lparr>ag_runtime_state := rs, ag_updated_at := now\<rparr>" ag_pk "generations db"] assms(4)
      by (simp add: r(2) active_put) (simp add: active_generations_def)
  qed
qed

lemma project_single:
  assumes "project_rows now status target previous db = Inr db'" "distinct (map ag_pk (generations db))" "d \<noteq> []"
    "length (active_generations d db) \<le> 1"
  shows "length (active_generations d db') \<le> 1"
proof -
  obtain rs rs' db1 where s: "set_if_present now rs previous db = Inr db1" "set_runtime_state now rs' target db1 = Inr db'"
    using assms(1) set_required_Some by (fastforce simp: project_rows_def set_if_present_def split: if_splits)
  have "distinct (map ag_pk (generations db1))" "length (active_generations d db1) \<le> 1"
    using s(1) set_runtime_single [of now rs _ db db1, OF _ assms(2-4)] set_runtime_keeps(1) [of now rs _ db db1] assms(2,4)
    by (auto simp: set_if_present_def split: option.splits)
  then show ?thesis using set_runtime_single [OF s(2)] assms(3) by blast
qed

lemma activation_step_inv: "activation_step env results db db' \<Longrightarrow> activation_inv db \<Longrightarrow> activation_inv db'"
proof (induction rule: activation_step.induct)
  case (schedule q wd1 wd2 now w wo seen db db' f r)
  from schedule(1) show ?case
  proof (cases rule: schedule_cases)
    case (scheduled db1 i)
    note c = commit_intent_cases [OF scheduled(2)]
    have inv: "distinct (map ai_public_id (intents db))" "distinct (map ag_pk (generations db))"
      "\<And>d. length (unfinished_intents d db) \<le> 1" "\<And>d. d \<noteq> [] \<Longrightarrow> length (active_generations d db) \<le> 1"
      using schedule(2) by (auto simp: activation_inv_def)
    have none: "unfinished_intents (ai_deployment_id i) db = []" using c(3) by (auto simp: unfinished_intents_def filter_empty_conv)
    have "length (filter (\<lambda>j. ai_deployment_id j = d \<and> intent_unfinished j) (intents db @ [i])) \<le> 1" for d
      using none inv(3) [of d] by (cases "d = ai_deployment_id i") (auto simp: unfinished_intents_def)
    moreover have "\<not> intent_unfinished (failed_write now i)" by (simp add: failed_write_def intent_unfinished_def)
    ultimately have "length (unfinished_intents d db') \<le> 1" for d
      using scheduled(3) filter_put_shorter [of "\<lambda>j. ai_deployment_id j = d \<and> intent_unfinished j" "failed_write now i" ai_public_id "intents db @ [i]"]
      unfolding unfinished_intents_def by (metis (no_types, lifting) le_trans)
    moreover have "map ai_public_id (intents db') = map ai_public_id (intents db @ [i])"
      using scheduled(3) map_key_put_row [of ai_public_id "failed_write now i" "intents db @ [i]"] by auto
    moreover have "distinct (map ai_public_id (intents db @ [i]))" using inv(1) c(2) by (auto simp: intent_conflicts_def)
    moreover have "active_generations d db' = active_generations d db" for d
      using c(6) [OF inv(2)] scheduled(4) by (simp add: active_generations_def)
    ultimately show ?thesis using inv(2,4) c(4) scheduled(4) by (simp add: activation_inv_def)
  qed (use schedule(2) in simp_all)
next
  case (prepare wd now public_id db db' w)
  then show ?case
    by (auto simp: prepare_previous_runtime_rollback_def Let_def activation_inv_def unfinished_intents_def active_generations_def
        split: option.splits prod.splits)
next
  case (reconcile i db wd now db' i')
  obtain doc where doc: "results (ai_public_id i) = Some doc"
    using reconcile(2) no_result by (cases "results (ai_public_id i)") auto
  from reconcile(2) [unfolded doc] reconcile(1) show ?case
  proof (cases rule: reconcile_cases)
    case (already status)
    then show ?thesis using reconcile(3) by simp
  next
    case (projected status target previous db1)
    note k = project_keeps [OF projected(4)]
    have inv: "distinct (map ai_public_id (intents db))" "distinct (map ag_pk (generations db))"
      "\<And>d. length (unfinished_intents d db) \<le> 1" "\<And>d. d \<noteq> [] \<Longrightarrow> length (active_generations d db) \<le> 1"
      using reconcile(3) by (auto simp: activation_inv_def)
    have "\<not> intent_unfinished i'" by (simp add: projected(5) reconciled_intent_def intent_unfinished_def Let_def)
    then have fewer: "length (unfinished_intents d db') \<le> length (unfinished_intents d db)" for d
      using filter_put_shorter [of "\<lambda>j. ai_deployment_id j = d \<and> intent_unfinished j" i' ai_public_id "intents db"] k(2)
      by (simp add: projected(6) unfinished_intents_def)
    have "length (active_generations d db') \<le> 1" if "d \<noteq> []" for d
      using project_single [OF projected(4) inv(2) that inv(4) [OF that]] by (simp add: projected(6))
    moreover have "length (unfinished_intents d db') \<le> 1" for d using fewer inv(3) by (rule le_trans)
    moreover have "map ai_public_id (intents db') = map ai_public_id (intents db)"
      "map ag_pk (generations db') = map ag_pk (generations db)" using k(1,2) by (simp_all add: projected(6))
    ultimately show ?thesis using inv(1,2) unfolding activation_inv_def by simp
  qed
qed

interpretation activation_runs: invariant_steps "activation_step env results" activation_inv for env results
  by unfold_locales (rule activation_step_inv)


text \<open>C22: Over any interleaving of requests, of which each may have been prepared against an outdated view, and
  reconciliations there is at most one unfinished intent and at most one active generation in a
  deployment.\<close>

theorem one_unfinished_intent:
  assumes "(activation_step env results)\<^sup>*\<^sup>* db db'" "activation_inv db"
  shows "length (unfinished_intents d db') \<le> 1 \<and> (d \<noteq> [] \<longrightarrow> length (active_generations d db') \<le> 1)"
  using activation_runs.run_inv [OF assms] by (auto simp: activation_inv_def)

subsection \<open>A result that cannot be projected\<close>

text \<open>The result of a supervisor that found another active generation than the intent names.\<close>

definition pointer_changed_result :: "activation_intent \<Rightarrow> json \<Rightarrow> bool" where
  "pointer_changed_result i doc = (json_get ''status'' doc = Some (JStr ''failed'')
     \<and> field_or_blank ''active_generation_id'' doc \<noteq> JStr (ai_previous_generation_id i)
     \<and> json_truthy (field_or_blank ''active_generation_id'' doc))"

lemma pointer_changed_unprojected:
  assumes "pointer_changed_result i doc"
  shows "reconcile_activation_result env wd now (Some doc) i db \<noteq> Inr x"
proof
  assume "reconcile_activation_result env wd now (Some doc) i db = Inr x"
  then obtain doc' status where c: "check_result env wd i (Some doc) = Inr (doc', status)"
    by (auto simp: reconcile_activation_result_def)
  have "status = ''failed''" using check_result_cases(3) [OF c] assms by (auto simp: pointer_changed_result_def json_get_or_def)
  then show False using check_result_cases(4) [OF c] assms
    by (auto simp: pointer_changed_result_def status_matches_def failed_initially_def)
qed

text \<open>An unfinished intent refuses every other one in its deployment.\<close>

lemma unfinished_refuses:
  assumes "j \<in> set (intents db)" "ai_deployment_id j = deployment_of env" "intent_unfinished j"
    "schedule_activation env q wd1 wd2 now w wo seen db = (db', f, r)"
  shows "db' = db \<and> f = None"
  using assms(4)
proof (cases rule: schedule_cases)
  case (scheduled db1 i)
  then show ?thesis using commit_intent_cases(3) [OF scheduled(2)] assms(1-3) by metis
qed simp_all

lemma step_keeps_intent:
  assumes "activation_step env results db db'" "get_intent pid db = Some i" "intent_unfinished i" "results pid = Some doc"
    "pointer_changed_result i doc"
  shows "get_intent pid db' = Some i"
  using assms
proof (induction rule: activation_step.induct)
  case (schedule q wd1 wd2 now w wo seen db db' f r)
  from schedule(1) show ?case
  proof (cases rule: schedule_cases)
    case (scheduled db1 j)
    have found: "find_row ai_public_id pid (intents db) = Some i" using schedule(2) by (simp add: get_intent_def)
    then have i: "i \<in> set (intents db)" "ai_public_id i = pid" by (auto dest: find_row_Some)
    then have "pid \<noteq> ai_public_id j" using commit_intent_cases(2) [OF scheduled(2)] by (auto simp: intent_conflicts_def)
    then have "find_row ai_public_id pid (put_row ai_public_id (failed_write now j) (intents db @ [j])) = find_row ai_public_id pid (intents db @ [j])"
      by (intro find_row_put_other) (simp add: failed_write_def)
    moreover have "find_row ai_public_id pid (intents db @ [j]) = Some i"
      using found by (induction "intents db") (auto simp: find_row_def find_Some_iff nth_append)
    ultimately show ?thesis using scheduled(3) by (auto simp: get_intent_def)
  qed (use schedule(2) in simp_all)
next
  case (prepare wd now public_id db db' w)
  then have "intents db' = intents db"
    by (auto simp: prepare_previous_runtime_rollback_def Let_def split: option.splits prod.splits)
  then show ?case using prepare(2) by (simp add: get_intent_def)
next
  case (reconcile j db wd now db' j')
  have other: "pid \<noteq> ai_public_id j"
  proof
    assume "pid = ai_public_id j"
    then have "j = i" "results (ai_public_id j) = Some doc" using reconcile(1,3,5) by auto
    then show False using reconcile(2,6) pointer_changed_unprojected by metis
  qed
  obtain doc' where doc: "results (ai_public_id j) = Some doc'"
    using reconcile(2) no_result by (cases "results (ai_public_id j)") auto
  from reconcile(2) [unfolded doc] reconcile(1) show ?case
  proof (cases rule: reconcile_cases)
    case (projected status target previous db1)
    have "ai_public_id j' = ai_public_id j" by (simp add: projected(5) reconciled_intent_def Let_def)
    then have "find_row ai_public_id pid (put_row ai_public_id j' (intents db)) = find_row ai_public_id pid (intents db)"
      using other by (intro find_row_put_other) simp
    then show ?thesis using project_keeps(2) [OF projected(4)] reconcile(3) by (simp add: projected(6) get_intent_def)
  qed (use reconcile(3) in simp)
qed

text \<open>C37: When the supervisor answered an intent with a failure because the active pointer had changed since
  the intent was planned, the answer is never projected, the intent stays unfinished whatever its
  expiry, and in its deployment no activation is ever scheduled again.\<close>

theorem changed_pointer_blocks_activation:
  assumes "get_intent pid db = Some i" "intent_unfinished i" "results pid = Some doc" "pointer_changed_result i doc"
    "ai_deployment_id i = deployment_of env" "(activation_step env results)\<^sup>*\<^sup>* db db'"
  shows "get_intent pid db' = Some i \<and> (\<forall>q wd1 wd2 now w wo seen db'' f r.
     schedule_activation env q wd1 wd2 now w wo seen db' = (db'', f, r) \<longrightarrow> db'' = db' \<and> f = None)"
proof -
  have stays: "get_intent pid db' = Some i"
    using assms(6,1) by (induction rule: rtranclp_induct) (auto intro: step_keeps_intent [where results = results and doc = doc] assms(2-4))
  then have "i \<in> set (intents db')" unfolding get_intent_def by (auto dest: find_row_Some)
  then show ?thesis using stays unfinished_refuses [OF _ assms(5,2)] by blast
qed


subsection \<open>Witnesses\<close>

lemma act_db_inv: "activation_inv (act_db Inactive [])" "activation_inv (act_db Pending [act_intent])"
  by (simp_all add: activation_inv_def unfinished_intents_def active_generations_def)

theorem one_unfinished_intent_witness:
  "\<exists>db'. activation_step act_env (\<lambda>_. None) (act_db Inactive []) db' \<and> length (unfinished_intents ''d'' db') \<le> 1"
proof -
  obtain db' signed i where "schedule_activation act_env act_request (act_world ''gen-a'' ''a'') (act_world ''gen-a'' ''a'') 0 act_workspace
       \<lparr>wo_appears = True, wo_raises = False\<rparr> (act_db Inactive []) (act_db Inactive []) = (db', Some signed, Inr i)"
    using act_scheduled by blast
  then have step: "activation_step act_env (\<lambda>_. None) (act_db Inactive []) db'" by (rule activation_step.schedule)
  show ?thesis
    using one_unfinished_intent [OF r_into_rtranclp [of "activation_step act_env (\<lambda>_. None)", OF step] act_db_inv(1)] step by blast
qed

text \<open>The supervisor found the third generation active.\<close>

theorem changed_pointer_blocks_activation_witness:
  "\<exists>results. results ''i1'' = Some (act_result ''failed'' ''gen-c'' ''c'') \<and>
     (\<forall>db'. (activation_step act_env results)\<^sup>*\<^sup>* (act_db Pending [act_intent]) db' \<longrightarrow> get_intent ''i1'' db' = Some act_intent)"
proof -
  define results where "results = (\<lambda>_ :: string. Some (act_result ''failed'' ''gen-c'' ''c''))"
  have "pointer_changed_result act_intent (act_result ''failed'' ''gen-c'' ''c'')" by (simp add: pointer_changed_result_def)
  then show ?thesis
    using changed_pointer_blocks_activation [OF act_intent_row, of results _ act_env Pending]
    by (intro exI [of _ results]) (auto simp: results_def)
qed

subsection \<open>One step back\<close>

lemma rollback_evidence_fields [simp]:
  "json_get_or ''purpose'' JNull (rollback_evidence active previous ga gp) = JStr ''one_step_runtime_rollback''"
  "json_get_or ''active_generation_id'' JNull (rollback_evidence active previous ga gp) = JStr (ag_generation_id ga)"
  "json_get_or ''active_manifest_digest'' JNull (rollback_evidence active previous ga gp) = JStr (ag_manifest_digest ga)"
  "json_get_or ''active_pointer_digest'' JNull (rollback_evidence active previous ga gp) = JStr (rr_pointer_digest active)"
  "json_get_or ''previous_generation_id'' JNull (rollback_evidence active previous ga gp) = JStr (ag_generation_id gp)"
  "json_get_or ''previous_manifest_digest'' JNull (rollback_evidence active previous ga gp) = JStr (ag_manifest_digest gp)"
  "json_get_or ''previous_pointer_digest'' JNull (rollback_evidence active previous ga gp) = JStr (rr_pointer_digest previous)"
  "json_get_or ''previous_runtime_path'' JNull (rollback_evidence active previous ga gp) = JStr (rr_runtime_path previous)"
  by (simp_all add: rollback_evidence_def json_get_or_def json_get_def)

lemma latest_in: "latest key rs = Some r \<Longrightarrow> r \<in> set rs"
  by (induction rs arbitrary: r) (auto split: option.splits if_splits)

lemma prepared_cases:
  assumes "prepare_previous_runtime_rollback env wd now public_id db = Inr (db', w)" "read_pointers env wd = Inr (active, previous)"
  obtains ga gp where "guard_activation_enabled env = Inr ()" "projected_generation env active db = Inr ga"
    "projected_generation env previous db = Inr gp" "ag_origin ga = Local_maintenance" "ag_runtime_state ga = Active"
    "ag_parent_generation_id ga = ag_generation_id gp" "ag_parent_manifest_digest ga = ag_manifest_digest gp"
    "rr_manifest_digest active = JStr (ag_manifest_digest ga)" "rr_manifest_digest previous = JStr (ag_manifest_digest gp)"
    "rw_validation_evidence w = rollback_evidence active previous ga gp" "rw_state w = Activation_ready"
    "rw_generation w = ag_pk gp"
    "rw_runtime_path w = rr_runtime_path previous" "generations db' = generations db" "observations db' = observations db"
    "rw_manifest_digest w = ag_manifest_digest gp
      \<or> (\<exists>x\<in>set (workspaces db). rw_pk x = rw_pk w \<and> rw_manifest_digest x = rw_manifest_digest w)"
proof -
  obtain ga gp where p: "guard_activation_enabled env = Inr ()" "projected_generation env active db = Inr ga"
    "projected_generation env previous db = Inr gp" "ag_origin ga = Local_maintenance" "ag_runtime_state ga = Active"
    "ag_parent_generation_id ga = ag_generation_id gp" "ag_parent_manifest_digest ga = ag_manifest_digest gp"
    "rr_manifest_digest active = JStr (ag_manifest_digest ga)" "rr_manifest_digest previous = JStr (ag_manifest_digest gp)"
    and row: "(case rollback_workspace_for gp previous db of
       None \<Rightarrow>
         (let w = \<lparr>rw_pk = next_workspace_pk db, rw_public_id = public_id, rw_job = None, rw_generation = ag_pk gp,
             rw_state = Activation_ready, rw_manifest_digest = ag_manifest_digest gp,
             rw_pointer_digest = rr_pointer_digest active, rw_runtime_path = rr_runtime_path previous,
             rw_validation_evidence = rollback_evidence active previous ga gp,
             rw_rehearsal_evidence = rollback_rehearsal (ae_identity env), rw_prepared_at = Some now,
             rw_expires_at = Some (now + seconds 600), rw_created_at = now, rw_updated_at = now\<rparr> in
          Inr (db\<lparr>workspaces := workspaces db @ [w]\<rparr>, w))
     | Some w \<Rightarrow>
         (let w' = w\<lparr>rw_pointer_digest := rr_pointer_digest active,
             rw_validation_evidence := rollback_evidence active previous ga gp,
             rw_rehearsal_evidence := rollback_rehearsal (ae_identity env), rw_prepared_at := Some now,
             rw_expires_at := Some (now + seconds 600), rw_updated_at := now\<rparr> in
          Inr (put_workspace w' db, w'))) = (Inr (db', w) :: act_exn + control_db \<times> restore_workspace)"
    using assms by (auto simp: prepare_previous_runtime_rollback_def Let_def)
  have found: "x \<in> set (workspaces db) \<and> rw_generation x = ag_pk gp \<and> rw_state x = Activation_ready \<and> rw_runtime_path x = rr_runtime_path previous"
    if "rollback_workspace_for gp previous db = Some x" for x
    using latest_in [OF that [unfolded rollback_workspace_for_def]] by simp
  show thesis
    using row found by (intro that [OF p]; cases "rollback_workspace_for gp previous db") (auto simp: Let_def)
qed

lemma projected_in:
  assumes "projected_generation env p db = Inr g"
  shows "g \<in> set (generations db)" "ag_generation_id g = column env (rr_generation_id p)" "ag_deployment_id g = deployment_of env"
  using assms by (auto simp: projected_generation_def dest!: arg_cong [where f = set])

lemma workspace_resolved:
  "validate_runtime_workspace rt store immutable v g m = Inr runtime \<Longrightarrow> \<exists>path. runtime = re_resolve rt path"
  by (cases v) (auto simp: validate_runtime_workspace_def contained_runtime_path_def Let_def split: option.splits)

lemma pointer_path_resolved:
  assumes "read_runtime_pointer rt store file = Inr p"
  shows "\<exists>path. rr_runtime_path p = re_resolve rt path"
  using assms workspace_resolved by (fastforce simp: read_runtime_pointer_def Let_def)

text \<open>C23: Whether a rollback that was prepared is validated, while both pointers and the observation stand, hangs on one
  column alone: the preparation of a workspace that was there before does not write its manifest digest, so a
  workspace whose digest is not the previous pointer's is refused as changed, though nothing has changed. That only
  happens to a row that had such a digest before the preparation; a fresh one is validated. And a prepared rollback is
  validated against no other pointers than those it was prepared for, whatever happened in between.\<close>

theorem prepared_rollback_validates:
  assumes "prepare_previous_runtime_rollback env wd now public_id db = Inr (db', w)" "read_pointers env wd = Inr (active, previous)"
    "rr_generation_id active = JStr a" "rr_generation_id previous = JStr b"
    "distinct (map ag_pk (generations db))" "\<And>path. re_resolve (ae_rt env) (re_resolve (ae_rt env) path) = re_resolve (ae_rt env) path"
    "observed_pointers env later (JStr a) (JStr b) (rr_pointer_digest active) db = Inr ()"
  shows "validate_previous_runtime_rollback env wd later w db' =
       (if JStr (rw_manifest_digest w) = rr_manifest_digest previous then Inr (active, previous)
        else Inl (Coordinator ''rollback_authority_changed''))
     \<and> (JStr (rw_manifest_digest w) = rr_manifest_digest previous
          \<or> (\<exists>x\<in>set (workspaces db). rw_pk x = rw_pk w \<and> rw_manifest_digest x = rw_manifest_digest w))
     \<and> (\<forall>wd' t db'' active' previous'. validate_previous_runtime_rollback env wd' t w db'' = Inr (active', previous') \<longrightarrow>
          rr_generation_id active' = JStr a \<and> rr_pointer_digest active' = rr_pointer_digest active \<and>
          rr_generation_id previous' = JStr b \<and> rr_pointer_digest previous' = rr_pointer_digest previous \<and>
          rr_runtime_path previous' = rr_runtime_path previous)"
  using assms(1,2)
proof (rule prepared_cases)
  fix ga gp
  assume p: "guard_activation_enabled env = Inr ()" "projected_generation env active db = Inr ga"
    "projected_generation env previous db = Inr gp" "ag_origin ga = Local_maintenance" "ag_runtime_state ga = Active"
    "ag_parent_generation_id ga = ag_generation_id gp" "ag_parent_manifest_digest ga = ag_manifest_digest gp"
    "rr_manifest_digest active = JStr (ag_manifest_digest ga)" "rr_manifest_digest previous = JStr (ag_manifest_digest gp)"
    "rw_validation_evidence w = rollback_evidence active previous ga gp" "rw_state w = Activation_ready"
    "rw_generation w = ag_pk gp" "rw_runtime_path w = rr_runtime_path previous" "generations db' = generations db"
    "observations db' = observations db"
    "rw_manifest_digest w = ag_manifest_digest gp
      \<or> (\<exists>x\<in>set (workspaces db). rw_pk x = rw_pk w \<and> rw_manifest_digest x = rw_manifest_digest w)"
  have ids: "ag_generation_id ga = a" "ag_generation_id gp = b"
    using projected_in(2) [OF p(2)] projected_in(2) [OF p(3)] assms(3,4) by (simp_all add: column_def)
  have "get_generation (ag_pk gp) db' = Some gp"
    unfolding get_generation_def p(14) using projected_in(1) [OF p(3)] assms(5) by (rule find_row_in [rotated])
  then have target: "generation_of w db' = Inr gp" by (simp add: generation_of_def p(12))
  have "\<exists>path. rr_runtime_path previous = re_resolve (ae_rt env) path"
    using assms(2) pointer_path_resolved by (fastforce simp: read_pointers_def rt_for_def Let_def)
  then have resolved: "re_resolve (ae_rt env) (rr_runtime_path previous) = rr_runtime_path previous" using assms(6) by auto
  have same: "projected_generation env active db' = Inr ga" "observed_pointers env later (JStr a) (JStr b) (rr_pointer_digest active) db' = Inr ()"
    using p(2) assms(7) by (simp_all add: projected_generation_def observed_pointers_def p(14,15))
  have "rollback_authority env active previous (rw_validation_evidence w) w gp \<longleftrightarrow> JStr (rw_manifest_digest w) = rr_manifest_digest previous"
    using assms(3,4) p(8,9) ids resolved by (simp add: rollback_authority_def p(10,13))
  then have "validate_previous_runtime_rollback env wd later w db' =
       (if JStr (rw_manifest_digest w) = rr_manifest_digest previous then Inr (active, previous)
        else Inl (Coordinator ''rollback_authority_changed''))"
    using p(1,4-7,9,11) assms(2-4) ids target same by (simp add: validate_previous_runtime_rollback_def Let_def p(10))
  moreover have "JStr (rw_manifest_digest w) = rr_manifest_digest previous
      \<or> (\<exists>x\<in>set (workspaces db). rw_pk x = rw_pk w \<and> rw_manifest_digest x = rw_manifest_digest w)"
    using p(9,16) by auto
  moreover have "rr_generation_id active' = JStr a \<and> rr_pointer_digest active' = rr_pointer_digest active \<and>
      rr_generation_id previous' = JStr b \<and> rr_pointer_digest previous' = rr_pointer_digest previous \<and>
      rr_runtime_path previous' = rr_runtime_path previous"
    if "validate_previous_runtime_rollback env wd' t w db'' = Inr (active', previous')" for wd' t db'' active' previous'
    using that ids by (auto simp: validate_previous_runtime_rollback_def rollback_authority_def p(10) Let_def)
  ultimately show ?thesis by blast
qed


definition rollback_world :: activation_world where
  "rollback_world = (act_world ''gen-b'' ''b'')\<lparr>aw_previous := sample_file (sample_pointer ''gen-a'' ''a'')\<rparr>"

definition rollback_db :: control_db where
  "rollback_db = empty_db\<lparr>generations := [act_generation 1 ''gen-a'' ''a'' Previous,
       (act_generation 2 ''gen-b'' ''b'' Active)\<lparr>ag_origin := Local_maintenance, ag_parent_generation_id := ''gen-a'',
         ag_parent_manifest_digest := sample_manifest ''a''\<rparr>],
     observations := [\<lparr>po_deployment_id = ''d'', po_active_generation_id = ''gen-b'', po_previous_generation_id = ''gen-a'',
       po_pointer_digest = ''aa'', po_process_identity = JObj [], po_readiness_evidence = JObj [], po_status = ''committed'',
       po_observed_at = 0\<rparr>]\<rparr>"

lemma rollback_pointers:
  "read_pointers act_env rollback_world = Inr (sample_runtime ''gen-b'' ''b'', sample_runtime ''gen-a'' ''a'')"
  by (simp add: read_pointers_def rollback_world_def)

lemma rollback_observed: "observed_pointers act_env 9 (JStr ''gen-b'') (JStr ''gen-a'') ''aa'' rollback_db = Inr ()"
  by (simp add: observed_pointers_def rollback_db_def older_than_def seconds_def)

lemma rollback_prepared:
  "\<exists>db' w. prepare_previous_runtime_rollback act_env rollback_world 9 ''w2'' rollback_db = Inr (db', w)
     \<and> rw_manifest_digest w = sample_manifest ''a''"
proof -
  have "projected_generation act_env (sample_runtime ''gen-a'' ''a'') rollback_db = Inr (act_generation 1 ''gen-a'' ''a'' Previous)"
    by (simp add: projected_generation_def rollback_db_def)
  moreover have "\<exists>ga. projected_generation act_env (sample_runtime ''gen-b'' ''b'') rollback_db = Inr ga \<and> ag_generation_id ga = ''gen-b''
      \<and> ag_manifest_digest ga = sample_manifest ''b'' \<and> ag_origin ga = Local_maintenance \<and> ag_runtime_state ga = Active
      \<and> ag_parent_generation_id ga = ''gen-a'' \<and> ag_parent_manifest_digest ga = sample_manifest ''a''"
    by (simp add: projected_generation_def rollback_db_def)
  moreover have "workspaces rollback_db = []" by (simp add: rollback_db_def empty_db_def)
  moreover have admin: "aw_superadmin rollback_world path" for path by (simp add: rollback_world_def)
  ultimately show ?thesis
    using rollback_observed
    by (auto simp: prepare_previous_runtime_rollback_def act_guard rollback_pointers verify_recovery_superadmin_def
        rollback_workspace_for_def admin Let_def)
qed

theorem prepared_rollback_validates_witness:
  "\<exists>db' w. prepare_previous_runtime_rollback act_env rollback_world 9 ''w2'' rollback_db = Inr (db', w) \<and>
     validate_previous_runtime_rollback act_env rollback_world 9 w db' = Inr (sample_runtime ''gen-b'' ''b'', sample_runtime ''gen-a'' ''a'')"
proof -
  obtain db' w where w: "prepare_previous_runtime_rollback act_env rollback_world 9 ''w2'' rollback_db = Inr (db', w)"
    "rw_manifest_digest w = sample_manifest ''a''"
    using rollback_prepared by blast
  have "re_resolve (ae_rt act_env) (re_resolve (ae_rt act_env) path) = re_resolve (ae_rt act_env) path" for path
    by (simp add: sample_rt_env_def)
  moreover have "distinct (map ag_pk (generations rollback_db))" by (simp add: rollback_db_def)
  ultimately show ?thesis
    using prepared_rollback_validates [OF w(1) rollback_pointers, of "''gen-b''" "''gen-a''" 9] w rollback_observed by auto
qed

end
