(* ===== verification/Authoritative_Pointer.thy ===== *)
theory Authoritative_Pointer
  imports Global_Writer
begin

section \<open>Registration and the authoritative pointer\<close>

text \<open>
  \<^verbatim>\<open>flowdocs/core/registration.py\<close>: the registration record of a dataset, and the pointer to its
  authoritative generation, which is replaced by a conditional write. Both are JSON objects in the
  store of \<open>Global_Writer\<close>; \<^verbatim>\<open>json.dumps(..., indent=2, sort_keys=True)\<close> and \<^verbatim>\<open>json.loads\<close> are the
  parameters of a \<open>json_codec\<close>. The head, get and put requests of \<^verbatim>\<open>ArtifactVault\<close>, of which none has a
  condition, are those of a \<open>plain_store\<close>; their exceptions are told apart as far as the code does.
  Messages are given without the values they render.
\<close>

record json_codec =
  jc_dumps :: "json \<Rightarrow> string"
  jc_loads :: "string \<Rightarrow> json option"

record 's plain_store =
  ps_head :: "'s \<Rightarrow> string \<Rightarrow> bool"
  ps_get :: "'s \<Rightarrow> string \<Rightarrow> string option"
  ps_put :: "'s \<Rightarrow> string \<Rightarrow> string \<Rightarrow> 's \<times> (string + unit)"

datatype registration_error =
    Registration_error string
  | Registration_conflict string
  | Registration_key_error key_error
  | Registration_type_error
  | Artifact_vault_error string

subsection \<open>Registration\<close>

definition registration_version :: int where
  "registration_version = 1"

definition manifest_schema_range :: json where
  "manifest_schema_range = JObj [(''min'', JInt 1), (''max'', JInt 1)]"

definition registration_record :: "string \<Rightarrow> string \<Rightarrow> string \<Rightarrow> string \<Rightarrow> string \<Rightarrow> string \<Rightarrow> string \<Rightarrow> json" where
  "registration_record ds source instance_id app org nonce created = JObj
     [(''dataset_id'', JStr ds), (''registration_version'', JInt registration_version),
      (''manifest_schema_range'', manifest_schema_range), (''app_identifier'', JStr app),
      (''production_source_id'', JStr source), (''initial_instance_id'', JStr instance_id), (''org_name'', JStr org),
      (''registration_nonce'', JStr nonce), (''created_at'', JStr created)]"

text \<open>The head request, after which another process may act, and the put: \<open>seen\<close> is what the request said.\<close>

definition register_write ::
  "'s plain_store \<Rightarrow> json_codec \<Rightarrow> string \<Rightarrow> bool \<Rightarrow> json \<Rightarrow> 's \<Rightarrow> 's \<times> (registration_error + json)" where
  "register_write ps jc key seen reg s =
     (if seen then (s, Inl (Registration_conflict (''Dataset is already registered at '' @ key)))
      else let (t, res) = ps_put ps s key (jc_dumps jc reg) in
        (t, case res of Inl e \<Rightarrow> Inl (Artifact_vault_error e) | Inr u \<Rightarrow> Inr reg))"

definition register_dataset ::
  "'s plain_store \<Rightarrow> json_codec \<Rightarrow> string \<Rightarrow> string \<Rightarrow> string \<Rightarrow> string \<Rightarrow> string \<Rightarrow> string \<Rightarrow> string \<Rightarrow> 's \<Rightarrow>
   's \<times> (registration_error + json)" where
  "register_dataset ps jc ds source instance_id app org nonce created s =
     (case key_builder_init ds of Inl e \<Rightarrow> (s, Inl (Registration_key_error e))
      | Inr kb \<Rightarrow> register_write ps jc (control_registration kb) (ps_head ps s (control_registration kb))
          (registration_record ds source instance_id app org nonce created) s)"

fun json_object :: "json option \<Rightarrow> bool" where
  "json_object (Some (JObj kvs)) = True"
| "json_object _ = False"

fun schema_supported :: "json \<Rightarrow> bool" where
  "schema_supported (JObj kvs) =
     (case (map_of kvs ''min'', map_of kvs ''max'') of (Some (JInt a), Some (JInt b)) \<Rightarrow> a \<le> 1 \<and> 1 \<le> b | _ \<Rightarrow> False)"
| "schema_supported _ = False"

definition registration_ok :: "string \<Rightarrow> string \<Rightarrow> string \<Rightarrow> json \<Rightarrow> registration_error + unit" where
  "registration_ok ds app source reg =
     bind_res (require (json_get ''dataset_id'' reg = Some (JStr ds))
       (Registration_error ''Registration dataset_id does not match configured'')) (\<lambda>_.
     bind_res (require (json_get ''registration_version'' reg \<in> {Some (JInt registration_version), Some (JBool True)})
       (Registration_error ''Unsupported registration version'')) (\<lambda>_.
     bind_res (require (json_get ''app_identifier'' reg = Some (JStr app))
       (Registration_error ''Registration app_identifier does not match configured'')) (\<lambda>_.
     bind_res (require (source = [] \<or> json_get ''production_source_id'' reg = Some (JStr source))
       (Registration_error ''Registration production_source_id does not match configured'')) (\<lambda>_.
     bind_res (require (json_object (json_get ''manifest_schema_range'' reg))
       (Registration_error ''Registration manifest_schema_range is missing'')) (\<lambda>_.
     require (schema_supported (json_get_or ''manifest_schema_range'' JNull reg))
       (Registration_error ''Registration manifest_schema_range does not support 1..1''))))))"

definition validate_registration ::
  "'s plain_store \<Rightarrow> json_codec \<Rightarrow> string \<Rightarrow> string \<Rightarrow> string \<Rightarrow> 's \<Rightarrow> registration_error + json" where
  "validate_registration ps jc ds app source s =
     (case key_builder_init ds of Inl e \<Rightarrow> Inl (Registration_key_error e)
      | Inr kb \<Rightarrow>
          bind_res (of_option (Registration_error ''Dataset is not registered'') (ps_get ps s (control_registration kb))) (\<lambda>data.
          bind_res (of_option (Registration_error ''Registration record is corrupted'') (jc_loads jc data)) (\<lambda>reg.
          case reg of JObj kvs \<Rightarrow> bind_res (registration_ok ds app source reg) (\<lambda>_. Inr reg)
          | _ \<Rightarrow> Inl (Registration_error ''Registration record is not a JSON object''))))"

text \<open>Every exception of the read is absence; \<^verbatim>\<open>KeyBuilder\<close>'s is not caught.\<close>

definition get_registration :: "'s plain_store \<Rightarrow> json_codec \<Rightarrow> string \<Rightarrow> 's \<Rightarrow> key_error + json option" where
  "get_registration ps jc ds s = (case key_builder_init ds of Inl e \<Rightarrow> Inl e
     | Inr kb \<Rightarrow> Inr (case ps_get ps s (control_registration kb) of None \<Rightarrow> None | Some data \<Rightarrow> jc_loads jc data))"

subsection \<open>The pointer\<close>

text \<open>A pointer that was read, with its entity tag (\<^verbatim>\<open>_etag\<close>) and digest.\<close>

record pointer_view =
  pv_doc :: json
  pv_etag :: string
  pv_digest :: digest

definition pointer_key :: "string \<Rightarrow> registration_error + string" where
  "pointer_key ds = (case key_builder_init ds of Inl e \<Rightarrow> Inl (Registration_key_error e) | Inr kb \<Rightarrow> Inr (control_authoritative kb))"

definition read_pointer ::
  "'s writer_env \<Rightarrow> json_codec \<Rightarrow> string \<Rightarrow> 's \<Rightarrow> registration_error + pointer_view option" where
  "read_pointer env jc key s =
     (case os_get env s key of
        Inl code \<Rightarrow> if code \<in> set missing_codes then Inr None
          else Inl (Registration_error ''authoritative_pointer_read_failed'')
      | Inr obj \<Rightarrow>
          bind_res (require (json_object (jc_loads jc (so_body obj))) (Registration_error ''authoritative_pointer_malformed'')) (\<lambda>_.
          bind_res (require (so_sha obj = [] \<or> so_sha obj = hash env (so_body obj))
            (Registration_error ''authoritative_pointer_digest_mismatch'')) (\<lambda>_.
          Inr (Some \<lparr>pv_doc = the (jc_loads jc (so_body obj)), pv_etag = so_etag obj, pv_digest = hash env (so_body obj)\<rparr>))))"

record publish_request =
  pq_dataset_id :: string
  pq_generation_id :: string
  pq_manifest_object_key :: string
  pq_manifest_sha256 :: digest
  pq_writer_epoch :: json
  pq_writer_token_hash :: json
  pq_production_source_id :: string
  pq_instance_id :: string
  pq_app_release :: string
  pq_image_digest :: string
  pq_database_schema :: json
  pq_previous_generation_id :: json

text \<open>A number that can be compared, \<^term>\<open>None\<close> for the \<^verbatim>\<open>TypeError\<close> of its comparison with a number.\<close>

fun json_number :: "json \<Rightarrow> int option" where
  "json_number (JInt i) = Some i"
| "json_number (JBool b) = Some (if b then 1 else 0)"
| "json_number _ = None"

definition pointer_epoch :: "json \<Rightarrow> int option" where
  "pointer_epoch doc = json_number (json_get_or ''writer_epoch'' (JInt 0) doc)"

text \<open>What is checked against the pointer read by the update itself.\<close>

definition check_previous :: "publish_request \<Rightarrow> string option \<Rightarrow> pointer_view option \<Rightarrow> registration_error + unit" where
  "check_previous q expected previous =
     (case previous of None \<Rightarrow> Inr ()
      | Some v \<Rightarrow>
          bind_res (require (expected \<noteq> None)
            (Registration_error ''Authoritative pointer already exists; use expected_pointer_etag for CAS replacement'')) (\<lambda>_.
          bind_res (of_option Registration_type_error (pointer_epoch (pv_doc v))) (\<lambda>old.
          bind_res (of_option Registration_type_error (json_number (pq_writer_epoch q))) (\<lambda>new.
          require (old \<le> new)
            (Registration_error ''Cannot publish: current writer_epoch is greater than provided'')))))"

definition pointer_doc :: "publish_request \<Rightarrow> pointer_view option \<Rightarrow> string \<Rightarrow> json" where
  "pointer_doc q previous published_at = JObj
     [(''schema_version'', JInt 1), (''dataset_id'', JStr (pq_dataset_id q)), (''generation_id'', JStr (pq_generation_id q)),
      (''manifest_object_key'', JStr (pq_manifest_object_key q)), (''manifest_sha256'', JStr (pq_manifest_sha256 q)),
      (''writer_epoch'', pq_writer_epoch q), (''writer_token_hash'', pq_writer_token_hash q),
      (''production_source_id'', JStr (pq_production_source_id q)), (''instance_id'', JStr (pq_instance_id q)),
      (''app_release'', JStr (pq_app_release q)), (''image_digest'', JStr (pq_image_digest q)),
      (''database_schema'', pq_database_schema q), (''previous_generation_id'', pq_previous_generation_id q),
      (''previous_pointer_hash'', (case previous of None \<Rightarrow> JStr [] | Some v \<Rightarrow> json_get_or ''manifest_sha256'' (JStr []) (pv_doc v))),
      (''published_at'', JStr published_at)]"

definition publish_condition :: "string option \<Rightarrow> precondition" where
  "publish_condition expected = (case expected of None \<Rightarrow> If_none_match | Some e \<Rightarrow> If_match e)"

definition write_pointer ::
  "'s writer_env \<Rightarrow> json_codec \<Rightarrow> string \<Rightarrow> publish_request \<Rightarrow> string option \<Rightarrow> pointer_view option \<Rightarrow> string \<Rightarrow> 's \<Rightarrow>
   's \<times> (registration_error + pointer_view)" where
  "write_pointer env jc key q expected previous published_at s =
     (let doc = pointer_doc q previous published_at; data = jc_dumps jc doc;
          (t, res) = os_put env s key data (hash env data) (publish_condition expected) in
      (t, case res of
          Inl e \<Rightarrow> Inl (Registration_error (''Cannot update authoritative pointer: CAS precondition failed ('' @ e @ '')''))
        | Inr etag \<Rightarrow> Inr \<lparr>pv_doc = doc, pv_etag = etag, pv_digest = []\<rparr>))"

definition update_authoritative_pointer ::
  "'s writer_env \<Rightarrow> json_codec \<Rightarrow> publish_request \<Rightarrow> string option \<Rightarrow> string \<Rightarrow> 's \<Rightarrow> 's \<times> (registration_error + pointer_view)" where
  "update_authoritative_pointer env jc q expected published_at s =
     (case bind_res (pointer_key (pq_dataset_id q)) (\<lambda>key.
        bind_res (read_pointer env jc key s) (\<lambda>previous.
        bind_res (check_previous q expected previous) (\<lambda>_. Inr (key, previous)))) of
        Inl e \<Rightarrow> (s, Inl e)
      | Inr (key, previous) \<Rightarrow> write_pointer env jc key q expected previous published_at s)"

text \<open>The tag is read first, then the update reads the pointer again; \<open>s\<close> is the store at the first read.\<close>

definition update_authoritative_pointer_cas ::
  "'s writer_env \<Rightarrow> json_codec \<Rightarrow> publish_request \<Rightarrow> json \<Rightarrow> string \<Rightarrow> 's \<Rightarrow> 's \<Rightarrow> 's \<times> (registration_error + pointer_view)" where
  "update_authoritative_pointer_cas env jc q writer published_at s0 s =
     (case bind_res (pointer_key (pq_dataset_id q)) (\<lambda>key. read_pointer env jc key s0) of
        Inl e \<Rightarrow> (s, Inl e)
      | Inr current \<Rightarrow> update_authoritative_pointer env jc
          (q\<lparr>pq_writer_epoch := json_get_or ''writer_epoch'' (JInt 0) writer,
             pq_writer_token_hash := json_get_or ''owner_token_hash'' (JStr []) writer\<rparr>)
          (map_option pv_etag current) published_at s)"

end
