(* ===== verification/Publication_Promotion.thy ===== *)
theory Publication_Promotion
  imports Authoritative_Pointer Environment_Identity Vault_Lifecycle
begin

section \<open>Promotion of a candidate\<close>

text \<open>
  \<^verbatim>\<open>flowdocs/vaultops/services/publication.py\<close>: \<^verbatim>\<open>promote_candidate\<close> makes a validated candidate the
  authoritative generation of its dataset, under the global writer's authority, by a conditional
  write of the pointer and then a transaction on the control database. Other processes may act on
  the store before each of its requests: \<open>others i\<close> is what they did before the request numbered \<open>i\<close>.
  The database is given as it is when the transaction begins. Clock, tokens and rendered times are
  arguments; the capability probe is that of \<open>Store_Capabilities\<close>, of which the verdict is an argument.
\<close>

subsection \<open>Arguments and errors\<close>

datatype promotion_error =
    Promotion_error string
  | Publication_error string
  | Promotion_key key_error
  | Promotion_writer writer_error
  | Promotion_pointer registration_error
  | Promotion_lifecycle vault_error
  | Promotion_attribute_error

text \<open>The columns of \<^verbatim>\<open>ArtifactValidation\<close> that are looked at.\<close>

datatype validation_status = Passed | Failed_validation | Warned | Unknown_validation

record artifact_validation =
  av_generation :: nat
  av_status :: validation_status
  av_manifest_digest :: digest
  av_expires_at :: "instant option"

text \<open>What one promotion draws: the times of its steps, the writer's token, the registration's nonce and two rendered
  times, and the identity's release and image as text. \<open>pr_time 0\<close> is that of the validation's expiry, 1 of the
  acquisition, 2 of the writer's validation, 3 and 4 of its release, 5 of the transaction.\<close>

record promotion_run =
  pr_time :: "nat \<Rightarrow> instant"
  pr_token :: string
  pr_nonce :: string
  pr_created_at :: string
  pr_published_at :: string
  pr_app_release :: string
  pr_image_digest :: string
  pr_probe :: bool
  pr_writer_probe :: bool

subsection \<open>Control objects\<close>

definition read_control_object ::
  "'s writer_env \<Rightarrow> json_codec \<Rightarrow> string \<Rightarrow> bool \<Rightarrow> 's \<Rightarrow> promotion_error + pointer_view option" where
  "read_control_object env jc key missing_allowed s =
     (case os_get env s key of
        Inl code \<Rightarrow> if missing_allowed \<and> code \<in> set missing_codes then Inr None
          else Inl (Publication_error ''vault_control_read_failed'')
      | Inr obj \<Rightarrow>
          bind_res (require (json_object (jc_loads jc (so_body obj))) (Publication_error ''vault_control_malformed'')) (\<lambda>_.
          bind_res (require (so_sha obj = [] \<or> so_sha obj = hash env (so_body obj))
            (Publication_error ''vault_control_digest_mismatch'')) (\<lambda>_.
          Inr (Some \<lparr>pv_doc = the (jc_loads jc (so_body obj)), pv_etag = so_etag obj, pv_digest = hash env (so_body obj)\<rparr>))))"

definition vault_registration :: "string \<Rightarrow> string \<Rightarrow> string \<Rightarrow> string \<Rightarrow> string \<Rightarrow> json" where
  "vault_registration ds source instance_id nonce created = JObj
     [(''dataset_id'', JStr ds), (''registration_version'', JInt 1), (''manifest_schema_range'', manifest_schema_range),
      (''app_identifier'', JStr ''pdfsearch''), (''production_source_id'', JStr source), (''initial_instance_id'', JStr instance_id),
      (''registration_nonce'', JStr nonce), (''created_at'', JStr created)]"

text \<open>\<^verbatim>\<open>True\<close> equals 1, and objects are equal as dictionaries.\<close>

definition equals_one :: "json option \<Rightarrow> bool" where
  "equals_one x \<longleftrightarrow> x = Some (JInt 1) \<or> x = Some (JBool True)"

fun is_schema_one :: "json option \<Rightarrow> bool" where
  "is_schema_one (Some (JObj kvs)) =
     (set (map fst kvs) = {''min'', ''max''} \<and> equals_one (map_of kvs ''min'') \<and> equals_one (map_of kvs ''max''))"
| "is_schema_one _ = False"

definition registration_matches :: "string \<Rightarrow> string \<Rightarrow> json \<Rightarrow> bool" where
  "registration_matches ds source reg \<longleftrightarrow> json_get ''dataset_id'' reg = Some (JStr ds) \<and> equals_one (json_get ''registration_version'' reg)
     \<and> json_get ''app_identifier'' reg = Some (JStr ''pdfsearch'') \<and> json_get ''production_source_id'' reg = Some (JStr source)
     \<and> is_schema_one (json_get ''manifest_schema_range'' reg)"

definition check_registration :: "string \<Rightarrow> string \<Rightarrow> promotion_error + pointer_view option \<Rightarrow> promotion_error + json" where
  "check_registration ds source existing = bind_res existing (\<lambda>v. case v of
     None \<Rightarrow> Inl (Publication_error ''vault_control_read_failed'')
   | Some x \<Rightarrow> bind_res (require (registration_matches ds source (pv_doc x)) (Publication_error ''registration_identity_mismatch''))
       (\<lambda>_. Inr (pv_doc x)))"

text \<open>Requests 1 to 3: read, conditional write of which every error is passed over, and read again.\<close>

definition ensure_registration ::
  "'s writer_env \<Rightarrow> json_codec \<Rightarrow> (nat \<Rightarrow> 's \<Rightarrow> 's) \<Rightarrow> string \<Rightarrow> string \<Rightarrow> string \<Rightarrow> promotion_run \<Rightarrow> 's \<Rightarrow>
   's \<times> (promotion_error + json)" where
  "ensure_registration env jc others ds source instance_id run s =
     (case key_builder_init ds of Inl e \<Rightarrow> (s, Inl (Promotion_key e))
      | Inr kb \<Rightarrow>
          (let key = control_registration kb; s1 = others 1 s in
           case read_control_object env jc key True s1 of
             Inl e \<Rightarrow> (s1, Inl e)
           | Inr (Some v) \<Rightarrow> (s1, check_registration ds source (Inr (Some v)))
           | Inr None \<Rightarrow>
               (let data = canonical_json (vault_registration ds source instance_id (pr_nonce run) (pr_created_at run));
                    s2 = fst (os_put env (others 2 s1) key data (hash env data) If_none_match);
                    s3 = others 3 s2 in
                (s3, check_registration ds source (read_control_object env jc key False s3)))))"

subsection \<open>Before the writer\<close>

definition fresh_validation :: "instant \<Rightarrow> artifact_generation \<Rightarrow> artifact_validation list \<Rightarrow> bool" where
  "fresh_validation now g validations \<longleftrightarrow> list_ex (\<lambda>v. av_generation v = ag_pk g \<and> av_status v = Passed
     \<and> av_manifest_digest v = ag_manifest_digest g \<and> (case av_expires_at v of None \<Rightarrow> False | Some e \<Rightarrow> now < e)) validations"

definition promotion_guard ::
  "env_identity \<Rightarrow> bool \<Rightarrow> artifact_generation \<Rightarrow> vault_job \<Rightarrow> digest \<Rightarrow> vault_profile \<Rightarrow> artifact_validation list \<Rightarrow> promotion_run \<Rightarrow>
   promotion_error + string" where
  "promotion_guard i confirmed g job job_fingerprint profile validations run =
     bind_res (require confirmed (Promotion_error ''typed_confirmation_required'')) (\<lambda>_.
     let dd = direction_decision i Op_promote (ag_dataset_id g) in
     bind_res (require (dd_allowed dd) (Promotion_error (dd_reason_code dd))) (\<lambda>_.
     bind_res (require (pf_dataset_id profile = ag_dataset_id g \<and> ag_profile g = pf_pk profile
         \<and> job_profile job = Some (pf_pk profile) \<and> job_dataset_id job = ag_dataset_id g)
       (Promotion_error ''profile_identity_mismatch'')) (\<lambda>_.
     bind_res (require (ag_vault_state g = Candidate) (Promotion_error ''generation_not_candidate'')) (\<lambda>_.
     bind_res (require (job_fingerprint = pf_fingerprint profile) (Promotion_error ''profile_fingerprint_changed'')) (\<lambda>_.
     bind_res (require (pr_probe run) (Promotion_error ''conditional_operations_unsupported'')) (\<lambda>_.
     bind_res (require (fresh_validation (pr_time run 0) g validations) (Promotion_error ''fresh_validation_required'')) (\<lambda>_.
     case bind_res (key_builder_init (ag_dataset_id g)) (\<lambda>kb. generation_manifest kb (ag_generation_id g)) of
       Inl e \<Rightarrow> Inl (Promotion_key e) | Inr key \<Rightarrow> Inr key)))))))"

definition check_manifest :: "digest \<Rightarrow> promotion_error + pointer_view option \<Rightarrow> promotion_error + unit" where
  "check_manifest expected found = bind_res found (\<lambda>v. case v of
     None \<Rightarrow> Inl (Publication_error ''vault_control_read_failed'')
   | Some x \<Rightarrow> require (pv_digest x = expected) (Promotion_error ''manifest_digest_mismatch''))"

definition writer_request_of :: "env_identity \<Rightarrow> string \<Rightarrow> promotion_run \<Rightarrow> writer_request" where
  "writer_request_of i ds run = \<lparr>wq_dataset_id = ds, wq_production_source_id = ei_production_source_id i,
     wq_instance_id = ei_instance_id i, wq_deployment_id = ei_deployment_id i, wq_replica_id = ei_replica_id i,
     wq_app_release = pr_app_release run, wq_image_digest = pr_image_digest run, wq_ttl_seconds = 300,
     wq_force_takeover = False, wq_takeover_reason = []\<rparr>"

text \<open>Requests 4 and 5; between the two another writer may act.\<close>

definition take_writer ::
  "'s writer_env \<Rightarrow> (nat \<Rightarrow> 's \<Rightarrow> 's) \<Rightarrow> writer_request \<Rightarrow> promotion_run \<Rightarrow> 's \<Rightarrow> 's \<times> (promotion_error + writer_handle)" where
  "take_writer env others q run s =
     (if \<not> pr_writer_probe run then (s, Inl (Promotion_writer (Global_writer_error
        ''S3 endpoint does not support conditional operations required for global writer fencing'')))
      else case writer_key (wq_dataset_id q) of Inl e \<Rightarrow> (s, Inl (Promotion_writer (Writer_key_error e)))
      | Inr key \<Rightarrow> (case read_writer_record env key (others 4 s) of
            Inl e \<Rightarrow> (others 4 s, Inl (Promotion_writer e))
          | Inr existing \<Rightarrow>
              (let (t, res) = acquire_write env key q (pr_time run 1) (pr_token run) existing (others 5 (others 4 s)) in
               (t, case res of Inl e \<Rightarrow> Inl (Promotion_writer e) | Inr h \<Rightarrow> Inr h))))"

subsection \<open>Under the writer\<close>

text \<open>\<^verbatim>\<open>generation.manifest.get("database", {}).get("migrations", {}).get("latest", "")\<close>.\<close>

fun attribute_get :: "string \<Rightarrow> json \<Rightarrow> json \<Rightarrow> promotion_error + json" where
  "attribute_get k dflt (JObj kvs) = Inr (json_get_or k dflt (JObj kvs))"
| "attribute_get k dflt _ = Inl Promotion_attribute_error"

definition database_schema :: "json \<Rightarrow> promotion_error + json" where
  "database_schema manifest = bind_res (attribute_get ''database'' (JObj []) manifest) (\<lambda>d.
     bind_res (attribute_get ''migrations'' (JObj []) d) (\<lambda>m. attribute_get ''latest'' (JStr []) m))"

definition promotion_request ::
  "env_identity \<Rightarrow> artifact_generation \<Rightarrow> string \<Rightarrow> writer_control \<Rightarrow> json \<Rightarrow> pointer_view option \<Rightarrow> promotion_run \<Rightarrow> publish_request" where
  "promotion_request i g manifest_key writer schema current run =
     \<lparr>pq_dataset_id = ag_dataset_id g, pq_generation_id = ag_generation_id g, pq_manifest_object_key = manifest_key,
      pq_manifest_sha256 = ag_manifest_digest g, pq_writer_epoch = JInt (int (wc_writer_epoch writer)),
      pq_writer_token_hash = JStr (wc_owner_token_hash writer), pq_production_source_id = ei_production_source_id i,
      pq_instance_id = ei_instance_id i, pq_app_release = pr_app_release run, pq_image_digest = pr_image_digest run,
      pq_database_schema = schema,
      pq_previous_generation_id = (case current of None \<Rightarrow> JStr [] | Some v \<Rightarrow> json_get_or ''generation_id'' (JStr []) (pv_doc v))\<rparr>"

text \<open>Requests 8 and 9: the update's own read of the pointer, and its write.\<close>

definition move_pointer ::
  "'s writer_env \<Rightarrow> json_codec \<Rightarrow> (nat \<Rightarrow> 's \<Rightarrow> 's) \<Rightarrow> string \<Rightarrow> publish_request \<Rightarrow> pointer_view option \<Rightarrow> promotion_run \<Rightarrow> 's \<Rightarrow>
   's \<times> (promotion_error + pointer_view)" where
  "move_pointer env jc others key q current run s =
     (let s8 = others 8 s; expected = map_option pv_etag current in
      case bind_res (read_pointer env jc key s8) (\<lambda>previous. bind_res (check_previous q expected previous) (\<lambda>_. Inr previous)) of
        Inl e \<Rightarrow> (s8, Inl (Promotion_pointer e))
      | Inr previous \<Rightarrow> (let (t, res) = write_pointer env jc key q expected previous (pr_published_at run) (others 9 s8) in
          (t, case res of Inl e \<Rightarrow> Inl (Promotion_pointer e) | Inr v \<Rightarrow> Inr v)))"

text \<open>The transaction: every other authoritative row of the profile's dataset steps back, then the row is promoted.\<close>

definition authoritative_rows :: "nat \<Rightarrow> string \<Rightarrow> control_db \<Rightarrow> artifact_generation list" where
  "authoritative_rows profile ds db = filter (\<lambda>h. ag_profile h = profile \<and> ag_dataset_id h = ds \<and> ag_vault_state h = Authoritative)
     (generations db)"

fun step_back :: "instant \<Rightarrow> string \<Rightarrow> nat list \<Rightarrow> control_db \<Rightarrow> vault_error + control_db" where
  "step_back clk cor [] db = Inr db"
| "step_back clk cor (pk # pks) db =
     bind_res (transition_generation_vault_state clk pk Candidate cor None [] ''superseded_by_pointer_cas'' db)
       (\<lambda>(db1, h). step_back clk cor pks db1)"

definition commit_promotion ::
  "instant \<Rightarrow> artifact_generation \<Rightarrow> vault_job \<Rightarrow> vault_profile \<Rightarrow> control_db \<Rightarrow> vault_error + control_db \<times> artifact_generation" where
  "commit_promotion clk g job profile db =
     (let prior = filter (\<lambda>pk. pk \<noteq> ag_pk g) (map ag_pk (authoritative_rows (pf_pk profile) (ag_dataset_id g) db)) in
      bind_res (step_back clk (job_correlation_id job) prior db) (\<lambda>db1.
      transition_generation_vault_state clk (ag_pk g) Authoritative (job_correlation_id job)
        (job_requested_by_id job) (job_requested_by_name job) ''pointer_cas_succeeded'' db1))"

text \<open>Requests 6 to 9 and the transaction; also the handle the release uses, which a validated writer replaces.\<close>

definition promote_under ::
  "'s writer_env \<Rightarrow> json_codec \<Rightarrow> (nat \<Rightarrow> 's \<Rightarrow> 's) \<Rightarrow> env_identity \<Rightarrow> artifact_generation \<Rightarrow> vault_job \<Rightarrow> vault_profile \<Rightarrow>
   string \<Rightarrow> promotion_run \<Rightarrow> writer_handle \<Rightarrow> 's \<Rightarrow> control_db \<Rightarrow>
   's \<times> control_db \<times> writer_handle \<times> (promotion_error + artifact_generation \<times> pointer_view)" where
  "promote_under env jc others i g job profile manifest_key run h s db =
     (let ds = ag_dataset_id g; s6 = others 6 s in
      case validate_writer_for_publication env ds h (ei_production_source_id i) (ei_instance_id i)
          (Some (wc_writer_epoch (wh_record h))) (pr_time run 2) s6 of
        Inl e \<Rightarrow> (s6, db, h, Inl (Promotion_writer e))
      | Inr w \<Rightarrow>
          (let s7 = others 7 s6 in
           case key_builder_init ds of Inl e \<Rightarrow> (s6, db, w, Inl (Promotion_key e))
           | Inr kb \<Rightarrow> (case bind_res (read_control_object env jc (control_authoritative kb) True s7) (\<lambda>current.
                 bind_res (database_schema (ag_manifest g)) (\<lambda>schema. Inr (current, schema))) of
               Inl e \<Rightarrow> (s7, db, w, Inl e)
             | Inr (current, schema) \<Rightarrow>
                 (case move_pointer env jc others (control_authoritative kb)
                     (promotion_request i g manifest_key (wh_record w) schema current run) current run s7 of
                    (t, Inl e) \<Rightarrow> (t, db, w, Inl e)
                  | (t, Inr v) \<Rightarrow> (case commit_promotion (pr_time run 5) g job profile db of
                        Inl e \<Rightarrow> (t, db, w, Inl (Promotion_lifecycle e))
                      | Inr (db', g') \<Rightarrow> (t, db', w, Inr (g', v)))))))"

text \<open>Requests 10 and 11, of which every error is passed over.\<close>

definition give_back ::
  "'s writer_env \<Rightarrow> (nat \<Rightarrow> 's \<Rightarrow> 's) \<Rightarrow> string \<Rightarrow> promotion_run \<Rightarrow> writer_handle \<Rightarrow> 's \<Rightarrow> 's" where
  "give_back env others ds run h s = (case writer_key ds of Inl e \<Rightarrow> s
     | Inr key \<Rightarrow> (case read_writer_record env key (others 10 s) of Inl e \<Rightarrow> others 10 s
         | Inr current \<Rightarrow> fst (release_write env key h (pr_time run 3) (pr_time run 4) current (others 11 (others 10 s)))))"

definition promote_candidate ::
  "'s writer_env \<Rightarrow> json_codec \<Rightarrow> (nat \<Rightarrow> 's \<Rightarrow> 's) \<Rightarrow> env_identity \<Rightarrow> bool \<Rightarrow> artifact_generation \<Rightarrow> vault_job \<Rightarrow> digest \<Rightarrow>
   vault_profile \<Rightarrow> artifact_validation list \<Rightarrow> promotion_run \<Rightarrow> 's \<Rightarrow> control_db \<Rightarrow>
   's \<times> control_db \<times> (promotion_error + artifact_generation \<times> pointer_view)" where
  "promote_candidate env jc others i confirmed g job job_fingerprint profile validations run s db =
     (case promotion_guard i confirmed g job job_fingerprint profile validations run of Inl e \<Rightarrow> (s, db, Inl e)
      | Inr manifest_key \<Rightarrow>
          (let ds = ag_dataset_id g; s0 = others 0 s in
           case check_manifest (ag_manifest_digest g) (read_control_object env jc manifest_key False s0) of Inl e \<Rightarrow> (s0, db, Inl e)
           | Inr u \<Rightarrow> (case ensure_registration env jc others ds (ei_production_source_id i) (ei_instance_id i) run s0 of
                (s3, Inl e) \<Rightarrow> (s3, db, Inl e)
              | (s3, Inr reg) \<Rightarrow> (case take_writer env others (writer_request_of i ds run) run s3 of
                    (s5, Inl e) \<Rightarrow> (s5, db, Inl e)
                  | (s5, Inr h) \<Rightarrow>
                      (let (t, db', w, res) = promote_under env jc others i g job profile manifest_key run h s5 db in
                       (give_back env others ds run w t, db', res))))))"

end
