(* ===== verification/Pointer_Safety.thy ===== *)
theory Pointer_Safety
  imports Authoritative_Pointer Global_Writer_Safety
begin

section \<open>The epoch of the authoritative pointer\<close>

text \<open>
  Publishers of one dataset against one object store: a publisher reads the pointer for its tag, later
  reads it again and checks its epoch, and later still writes under the tag, with any other
  publisher's steps in between. Then the epoch of the pointer never falls, also when a write fails after it was carried out.
\<close>

subsection \<open>Runs\<close>

text \<open>The codec reads an object back with every key as it was.\<close>

definition lawful_codec_of :: "json_codec \<Rightarrow> bool" where
  "lawful_codec_of jc \<longleftrightarrow> (\<forall>kvs. \<exists>kvs'. jc_loads jc (jc_dumps jc (JObj kvs)) = Some (JObj kvs')
     \<and> (\<forall>k. json_get k (JObj kvs') = json_get k (JObj kvs)))"

text \<open>A readable pointer of the epoch stands under the key.\<close>

definition published ::
  "json_codec \<Rightarrow> ('s \<Rightarrow> string \<Rightarrow> stored_object option) \<Rightarrow> string \<Rightarrow> int \<Rightarrow> 's \<Rightarrow> bool" where
  "published jc contents key e s \<longleftrightarrow> (\<exists>obj kvs. contents s key = Some obj \<and> jc_loads jc (so_body obj) = Some (JObj kvs)
     \<and> pointer_epoch (JObj kvs) = Some e)"

type_synonym pending_write = "publish_request \<times> pointer_view option \<times> pointer_view option"

record 's publisher_sys =
  ps_store :: 's
  looks :: "pointer_view option list"
  prepared :: "pending_write list"

text \<open>
  \<open>look\<close> is the read that gives the expected tag, \<open>prepare\<close> the read and the check of the update, \<open>publish\<close>
  its conditional write. The epochs of writer records are numbers. \<open>elsewhere\<close> leaves the pointer alone.
\<close>

inductive publisher_step ::
  "'s writer_env \<Rightarrow> json_codec \<Rightarrow> ('s \<Rightarrow> string \<Rightarrow> stored_object option) \<Rightarrow> string \<Rightarrow> 's publisher_sys \<Rightarrow> 's publisher_sys \<Rightarrow> bool"
  for env jc contents key where
  look: "read_pointer env jc key (ps_store st) = Inr v \<Longrightarrow> publisher_step env jc contents key st (st\<lparr>looks := v # looks st\<rparr>)"
| prepare: "v1 \<in> set (looks st) \<Longrightarrow> json_number (pq_writer_epoch q) \<noteq> None \<Longrightarrow> read_pointer env jc key (ps_store st) = Inr v2 \<Longrightarrow>
    check_previous q (map_option pv_etag v1) v2 = Inr () \<Longrightarrow>
    publisher_step env jc contents key st (st\<lparr>prepared := (q, v1, v2) # prepared st\<rparr>)"
| publish: "(q, v1, v2) \<in> set (prepared st) \<Longrightarrow>
    write_pointer env jc key q (map_option pv_etag v1) v2 moment (ps_store st) = (t, res) \<Longrightarrow>
    publisher_step env jc contents key st (st\<lparr>ps_store := t\<rparr>)"
| elsewhere: "contents t key = contents (ps_store st) key \<Longrightarrow> publisher_step env jc contents key st (st\<lparr>ps_store := t\<rparr>)"

text \<open>A view is of a pointer at most as new as the current one, and where its tag is the current one, so is its text.\<close>

definition view_ok ::
  "json_codec \<Rightarrow> ('s \<Rightarrow> string \<Rightarrow> stored_object option) \<Rightarrow> string \<Rightarrow> 's \<Rightarrow> pointer_view option \<Rightarrow> bool" where
  "view_ok jc contents key s v \<longleftrightarrow> (case v of None \<Rightarrow> True
     | Some pv \<Rightarrow> (\<exists>e now. pointer_epoch (pv_doc pv) = Some e \<and> published jc contents key now s \<and> e \<le> now)
         \<and> (\<forall>s' obj. contents s' key = Some obj \<and> so_etag obj = pv_etag pv \<longrightarrow> jc_loads jc (so_body obj) = Some (pv_doc pv)))"

definition view_epoch :: "pointer_view option \<Rightarrow> int option" where
  "view_epoch v = (case v of None \<Rightarrow> None | Some pv \<Rightarrow> pointer_epoch (pv_doc pv))"

text \<open>The second read of a prepared write is as new as the first, and no newer than the writer.\<close>

definition prepared_ok :: "pending_write \<Rightarrow> bool" where
  "prepared_ok p = (case p of (q, v1, v2) \<Rightarrow> (\<exists>e. json_number (pq_writer_epoch q) = Some e
     \<and> (\<forall>e1. view_epoch v1 = Some e1 \<longrightarrow> (\<exists>e2. view_epoch v2 = Some e2 \<and> e1 \<le> e2))
     \<and> (\<forall>e2. view_epoch v2 = Some e2 \<longrightarrow> e2 \<le> e)))"

definition publisher_inv ::
  "json_codec \<Rightarrow> ('s \<Rightarrow> string \<Rightarrow> stored_object option) \<Rightarrow> string \<Rightarrow> 's publisher_sys \<Rightarrow> bool" where
  "publisher_inv jc contents key st \<longleftrightarrow>
     (contents (ps_store st) key = None \<or> (\<exists>e. published jc contents key e (ps_store st)))
     \<and> (\<forall>v\<in>set (looks st). view_ok jc contents key (ps_store st) v)
     \<and> (\<forall>(q, v1, v2)\<in>set (prepared st). view_ok jc contents key (ps_store st) v1 \<and> prepared_ok (q, v1, v2))"

lemma published_unique: "published jc contents key e s \<Longrightarrow> published jc contents key e' s \<Longrightarrow> e = e'"
  by (auto simp: published_def)

lemma read_pointer_view:
  assumes "lawful_store env contents" "read_pointer env jc key s = Inr v"
    "contents s key = None \<or> (\<exists>e. published jc contents key e s)"
  shows "view_ok jc contents key s v" "contents s key = None \<longleftrightarrow> v = None"
    "v \<noteq> None \<Longrightarrow> view_epoch v = Some e \<longleftrightarrow> published jc contents key e s"
proof -
  consider (missing) c where "os_get env s key = Inl c" "c \<in> set missing_codes" "v = None"
    | (found) obj kvs where "os_get env s key = Inr obj" "jc_loads jc (so_body obj) = Some (JObj kvs)"
      "v = Some \<lparr>pv_doc = JObj kvs, pv_etag = so_etag obj, pv_digest = hash env (so_body obj)\<rparr>"
    using assms(2) by (auto simp: read_pointer_def elim!: json_object.elims split: sum.splits if_splits)
  then have "view_ok jc contents key s v \<and> (contents s key = None \<longleftrightarrow> v = None)
      \<and> (v \<noteq> None \<longrightarrow> (view_epoch v = Some e \<longleftrightarrow> published jc contents key e s))"
  proof cases
    case missing
    then show ?thesis using lawful_missing [OF assms(1)] by (simp add: view_ok_def)
  next
    case found
    then have c: "contents s key = Some obj" using lawful_get [OF assms(1)] by blast
    then obtain e' where e': "pointer_epoch (JObj kvs) = Some e'" "published jc contents key e' s"
      using assms(3) found(2) by (auto simp: published_def)
    moreover have "jc_loads jc (so_body obj') = Some (JObj kvs)" if "contents s' key = Some obj'" "so_etag obj' = so_etag obj" for s' obj'
      using lawful_etag [OF assms(1) c that(1)] that(2) found(2) by auto
    ultimately show ?thesis using found(3) c published_unique [OF e'(2), of e]
      by (auto simp: view_ok_def view_epoch_def)
  qed
  then show "view_ok jc contents key s v" "contents s key = None \<longleftrightarrow> v = None"
    "v \<noteq> None \<Longrightarrow> view_epoch v = Some e \<longleftrightarrow> published jc contents key e s" by auto
qed

lemma view_ok_mono:
  assumes "view_ok jc contents key s v" "\<And>e. published jc contents key e s \<Longrightarrow> \<exists>e'. published jc contents key e' t \<and> e \<le> e'"
  shows "view_ok jc contents key t v"
proof (cases v)
  case (Some pv)
  then obtain e now where "pointer_epoch (pv_doc pv) = Some e" "published jc contents key now s" "e \<le> now"
    using assms(1) by (auto simp: view_ok_def)
  moreover obtain later where "published jc contents key later t" "now \<le> later" using assms(2) calculation(2) by blast
  ultimately have "\<exists>e now. pointer_epoch (pv_doc pv) = Some e \<and> published jc contents key now t \<and> e \<le> now"
    by (meson order_trans)
  then show ?thesis using assms(1) Some by (auto simp: view_ok_def)
qed (simp add: view_ok_def)

lemma written_published:
  assumes "lawful_codec_of jc" "contents t key = Some \<lparr>so_body = jc_dumps jc (pointer_doc q v2 moment), so_sha = sha, so_etag = etag\<rparr>"
    "json_number (pq_writer_epoch q) = Some e"
  shows "published jc contents key e t"
proof -
  obtain kvs where kvs: "pointer_doc q v2 moment = JObj kvs" "json_get ''writer_epoch'' (JObj kvs) = Some (pq_writer_epoch q)"
    by (simp add: pointer_doc_def json_get_def)
  obtain kvs' where "jc_loads jc (jc_dumps jc (JObj kvs)) = Some (JObj kvs')" "json_get ''writer_epoch'' (JObj kvs') = Some (pq_writer_epoch q)"
    using assms(1) kvs(2) by (metis lawful_codec_of_def)
  then show ?thesis using assms(2,3) kvs(1) by (auto simp: published_def pointer_epoch_def json_get_or_def)
qed

text \<open>Where the condition of a prepared write holds, the writer is at least as new as the pointer it replaces.\<close>

lemma condition_current:
  assumes "view_ok jc contents key s v1" "prepared_ok (q, v1, v2)" "json_number (pq_writer_epoch q) = Some e"
    "cond_holds (publish_condition (map_option pv_etag v1)) (contents s key)" "published jc contents key old s"
  shows "old \<le> e"
proof (cases v1)
  case None
  then show ?thesis using assms(4,5) by (auto simp: cond_holds_def publish_condition_def published_def)
next
  case (Some pv)
  then obtain obj where obj: "contents s key = Some obj" "so_etag obj = pv_etag pv"
    using assms(4) by (auto simp: cond_holds_def publish_condition_def)
  then have "jc_loads jc (so_body obj) = Some (pv_doc pv)" using assms(1) Some by (auto simp: view_ok_def)
  then have "pointer_epoch (pv_doc pv) = Some old" using assms(5) obj(1) by (auto simp: published_def)
  then show ?thesis using assms(2,3) Some by (fastforce simp: prepared_ok_def view_epoch_def)
qed

lemma write_pointer_cases:
  assumes "lawful_store env contents" "lawful_codec_of jc" "view_ok jc contents key s v1" "prepared_ok (q, v1, v2)"
    "write_pointer env jc key q (map_option pv_etag v1) v2 moment s = (t, res)"
  shows "contents t key = contents s key \<or> (\<exists>e. json_number (pq_writer_epoch q) = Some e \<and> published jc contents key e t
      \<and> (\<forall>old. published jc contents key old s \<longrightarrow> old \<le> e))"
    "res = Inr v \<Longrightarrow> \<exists>e. json_number (pq_writer_epoch q) = Some e \<and> published jc contents key e t
      \<and> (\<forall>old. published jc contents key old s \<longrightarrow> old \<le> e)"
proof -
  obtain e where e: "json_number (pq_writer_epoch q) = Some e" using assms(4) by (auto simp: prepared_ok_def)
  define body where "body = jc_dumps jc (pointer_doc q v2 moment)"
  obtain r where r: "os_put env s key body (hash env body) (publish_condition (map_option pv_etag v1)) = (t, r)"
    "(\<exists>v. res = Inr v) \<longleftrightarrow> (\<exists>etag. r = Inr etag)"
    using assms(5) by (auto simp: write_pointer_def body_def Let_def split: prod.splits sum.splits)
  have put: "published jc contents key e t \<and> (\<forall>old. published jc contents key old s \<longrightarrow> old \<le> e)"
    if "cond_holds (publish_condition (map_option pv_etag v1)) (contents s key)"
      "contents t key = Some \<lparr>so_body = body, so_sha = hash env body, so_etag = etag\<rparr>" for etag
    using written_published [OF assms(2) _ e, where contents = contents and key = key and t = t] that(2)
      condition_current [OF assms(3,4) e that(1)] unfolding body_def by blast
  show "contents t key = contents s key \<or> (\<exists>e. json_number (pq_writer_epoch q) = Some e \<and> published jc contents key e t
      \<and> (\<forall>old. published jc contents key old s \<longrightarrow> old \<le> e))"
  proof (cases r)
    case (Inl c)
    then show ?thesis using lawful_put_error [OF assms(1) r(1) [unfolded Inl]] put e by blast
  next
    case (Inr etag)
    then show ?thesis using lawful_put_ok [OF assms(1) r(1) [unfolded Inr]] put e by blast
  qed
  show "res = Inr v \<Longrightarrow> \<exists>e. json_number (pq_writer_epoch q) = Some e \<and> published jc contents key e t
      \<and> (\<forall>old. published jc contents key old s \<longrightarrow> old \<le> e)"
    using r(2) lawful_put_ok [OF assms(1)] r(1) put e by blast
qed

text \<open>The pointer is at least as new as \<open>low\<close>.\<close>

definition epoch_at_least ::
  "json_codec \<Rightarrow> ('s \<Rightarrow> string \<Rightarrow> stored_object option) \<Rightarrow> string \<Rightarrow> int \<Rightarrow> 's \<Rightarrow> bool" where
  "epoch_at_least jc contents key low s \<longleftrightarrow> (\<exists>e. published jc contents key e s \<and> low \<le> e)"

lemma view_ok_later:
  assumes "view_ok jc contents key s v"
    "contents t key = contents s key \<or> (\<exists>e. published jc contents key e t \<and> (\<forall>old. published jc contents key old s \<longrightarrow> old \<le> e))"
  shows "view_ok jc contents key t v"
  by (rule view_ok_mono [OF assms(1)]) (use assms(2) in \<open>auto simp: published_def\<close>)

lemma epoch_later:
  assumes "epoch_at_least jc contents key low s"
    "contents t key = contents s key \<or> (\<exists>e. published jc contents key e t \<and> (\<forall>old. published jc contents key old s \<longrightarrow> old \<le> e))"
  shows "epoch_at_least jc contents key low t"
  using assms by (fastforce simp: epoch_at_least_def published_def)

lemma store_later_inv:
  assumes "publisher_inv jc contents key st"
    "contents t key = contents (ps_store st) key
      \<or> (\<exists>e. published jc contents key e t \<and> (\<forall>old. published jc contents key old (ps_store st) \<longrightarrow> old \<le> e))"
  shows "publisher_inv jc contents key (st\<lparr>ps_store := t\<rparr>)"
proof -
  have "contents t key = None \<or> (\<exists>e. published jc contents key e t)"
    using assms by (auto simp: publisher_inv_def published_def)
  then show ?thesis using assms(1) view_ok_later [OF _ assms(2)] by (fastforce simp: publisher_inv_def)
qed

lemma prepare_ok:
  assumes "lawful_store env contents" "publisher_inv jc contents key st" "v1 \<in> set (looks st)"
    "json_number (pq_writer_epoch q) \<noteq> None" "read_pointer env jc key (ps_store st) = Inr v2"
    "check_previous q (map_option pv_etag v1) v2 = Inr ()"
  shows "prepared_ok (q, v1, v2)"
proof -
  have v1: "view_ok jc contents key (ps_store st) v1"
    and here: "contents (ps_store st) key = None \<or> (\<exists>e. published jc contents key e (ps_store st))"
    using assms(2,3) by (auto simp: publisher_inv_def)
  note v2 = read_pointer_view [OF assms(1,5) here]
  have "\<exists>e2. view_epoch v2 = Some e2 \<and> e1 \<le> e2" if e1: "view_epoch v1 = Some e1" for e1
  proof -
    obtain now where now: "published jc contents key now (ps_store st)" "e1 \<le> now"
      using v1 e1 by (auto simp: view_ok_def view_epoch_def split: option.splits)
    then show ?thesis using v2(2) v2(3) by (auto simp: published_def)
  qed
  moreover have "\<exists>e. json_number (pq_writer_epoch q) = Some e \<and> (\<forall>e2. view_epoch v2 = Some e2 \<longrightarrow> e2 \<le> e)"
    using assms(4,6) by (auto simp: check_previous_def view_epoch_def bind_res_eq_Inr require_eq split: option.splits)
  ultimately show ?thesis by (auto simp: prepared_ok_def)
qed

lemma publisher_step_later:
  assumes "lawful_store env contents" "lawful_codec_of jc" "publisher_step env jc contents key st st'" "publisher_inv jc contents key st"
  shows "publisher_inv jc contents key st' \<and> (epoch_at_least jc contents key low (ps_store st) \<longrightarrow> epoch_at_least jc contents key low (ps_store st'))"
  using assms(3)
proof cases
  case (look v)
  have "view_ok jc contents key (ps_store st) v"
    using read_pointer_view(1) [OF assms(1) look(2)] assms(4) by (simp add: publisher_inv_def)
  then show ?thesis using look(1) assms(4) by (simp add: publisher_inv_def)
next
  case (prepare v1 q v2)
  note p = prepare_ok [OF assms(1,4) prepare(2-5)]
  show ?thesis unfolding prepare(1) using assms(4) p prepare(2) by (simp add: publisher_inv_def)
next
  case (publish q v1 v2 moment t res)
  then have "view_ok jc contents key (ps_store st) v1" "prepared_ok (q, v1, v2)"
    using assms(4) by (auto simp: publisher_inv_def)
  from write_pointer_cases(1) [OF assms(1,2) this publish(3)]
  have "contents t key = contents (ps_store st) key
      \<or> (\<exists>e. published jc contents key e t \<and> (\<forall>old. published jc contents key old (ps_store st) \<longrightarrow> old \<le> e))" by blast
  then show ?thesis using store_later_inv [OF assms(4)] epoch_later [of jc contents key low "ps_store st" t] publish(1) by simp
next
  case (elsewhere t)
  then show ?thesis using store_later_inv [OF assms(4)] epoch_later [of jc contents key low "ps_store st" t] by simp
qed

text \<open>The laws of the store and the codec are a part of the invariant, as the locale has no premises.\<close>

definition lawful_run ::
  "'s writer_env \<Rightarrow> json_codec \<Rightarrow> ('s \<Rightarrow> string \<Rightarrow> stored_object option) \<Rightarrow> string \<Rightarrow> 's publisher_sys \<Rightarrow> bool" where
  "lawful_run env jc contents key st \<longleftrightarrow>
     lawful_store env contents \<and> lawful_codec_of jc \<and> publisher_inv jc contents key st"

interpretation publisher_runs: invariant_steps "publisher_step env jc contents key" "lawful_run env jc contents key"
  for env jc contents key
  by unfold_locales (auto simp: lawful_run_def dest: publisher_step_later)

interpretation epoch_rises: invariant_steps "publisher_step env jc contents key"
    "\<lambda>st. lawful_run env jc contents key st \<and> epoch_at_least jc contents key low (ps_store st)"
  for env jc contents key low
  by unfold_locales (auto simp: lawful_run_def dest: publisher_step_later)

definition first_publishers :: "'s \<Rightarrow> 's publisher_sys" where
  "first_publishers s = \<lparr>ps_store = s, looks = [], prepared = []\<rparr>"

text \<open>A prepared write that succeeds publishes the epoch of its writer.\<close>

definition publishes ::
  "'s writer_env \<Rightarrow> json_codec \<Rightarrow> string \<Rightarrow> 's publisher_sys \<Rightarrow> int \<Rightarrow> 's publisher_sys \<Rightarrow> bool" where
  "publishes env jc key st e st' \<longleftrightarrow> (\<exists>q v1 v2 moment t v. (q, v1, v2) \<in> set (prepared st) \<and> json_number (pq_writer_epoch q) = Some e
     \<and> write_pointer env jc key q (map_option pv_etag v1) v2 moment (ps_store st) = (t, Inr v) \<and> st' = st\<lparr>ps_store := t\<rparr>)"

lemma publishes_raises:
  assumes "lawful_run env jc contents key st" "publishes env jc key st e st'"
  shows "publisher_step env jc contents key st st'" "published jc contents key e (ps_store st')"
    "epoch_at_least jc contents key low (ps_store st) \<Longrightarrow> low \<le> e"
proof -
  obtain q v1 v2 moment t v where q: "(q, v1, v2) \<in> set (prepared st)" "json_number (pq_writer_epoch q) = Some e"
    "write_pointer env jc key q (map_option pv_etag v1) v2 moment (ps_store st) = (t, Inr v)" "st' = st\<lparr>ps_store := t\<rparr>"
    using assms(2) by (auto simp: publishes_def)
  have ok: "view_ok jc contents key (ps_store st) v1" "prepared_ok (q, v1, v2)"
    using assms(1) q(1) by (auto simp: lawful_run_def publisher_inv_def)
  have laws: "lawful_store env contents" "lawful_codec_of jc" using assms(1) by (auto simp: lawful_run_def)
  show "publisher_step env jc contents key st st'" using publisher_step.publish [OF q(1,3)] q(4) by simp
  have p: "published jc contents key e t \<and> (\<forall>old. published jc contents key old (ps_store st) \<longrightarrow> old \<le> e)"
    using write_pointer_cases(2) [OF laws ok q(3) refl] q(2) by auto
  then show "published jc contents key e (ps_store st')" using q(4) by simp
  show "epoch_at_least jc contents key low (ps_store st) \<Longrightarrow> low \<le> e"
    using p by (fastforce simp: epoch_at_least_def)
qed

text \<open>C3: The epoch of the pointer never falls. In any interleaving of publishers, from a store with no pointer or a readable
  one: whatever epoch the pointer has at any point of the run, be it the initial one, that of a publication or
  that of a write that raised an error and was carried out all the same, at every later point a pointer stands
  there that is at least as new. And a publication that succeeds at a later point leaves the epoch
  of its own writer there, so none succeeds for a writer older than the pointer ever was.\<close>

theorem published_epoch_fences:
  assumes "lawful_store env contents" "lawful_codec_of jc"
    "contents s key = None \<or> (\<exists>e0. published jc contents key e0 s)"
    "(publisher_step env jc contents key)\<^sup>*\<^sup>* (first_publishers s) st" "(publisher_step env jc contents key)\<^sup>*\<^sup>* st st'"
    "published jc contents key e (ps_store st)"
  shows "(\<exists>now. published jc contents key now (ps_store st') \<and> e \<le> now)
    \<and> (\<forall>e' st''. publishes env jc key st' e' st'' \<longrightarrow> published jc contents key e' (ps_store st'') \<and> e \<le> e')"
proof -
  have "lawful_run env jc contents key (first_publishers s)"
    using assms(1-3) by (simp add: lawful_run_def publisher_inv_def first_publishers_def)
  then have "lawful_run env jc contents key st" by (rule publisher_runs.run_inv [OF assms(4)])
  then have later: "lawful_run env jc contents key st' \<and> epoch_at_least jc contents key e (ps_store st')"
    using epoch_rises.run_inv [OF assms(5)] assms(6) by (auto simp: epoch_at_least_def)
  then have "published jc contents key e' (ps_store st'') \<and> e \<le> e'" if "publishes env jc key st' e' st''" for e' st''
    using publishes_raises(2,3) that by blast
  then show ?thesis using later by (auto simp: epoch_at_least_def)
qed

subsection \<open>Registration\<close>

text \<open>A put that answers is read back by the next get.\<close>

definition reads_back :: "'s plain_store \<Rightarrow> bool" where
  "reads_back ps \<longleftrightarrow> (\<forall>s k b t. ps_put ps s k b = (t, Inr ()) \<longrightarrow> ps_get ps t k = Some b)"

lemma register_write_reads:
  assumes "reads_back ps" "lawful_codec_of jc" "register_write ps jc key seen (JObj kvs) s = (t, Inr reg)"
  shows "\<exists>data kvs'. ps_get ps t key = Some data \<and> jc_loads jc data = Some (JObj kvs') \<and> (\<forall>k. json_get k (JObj kvs') = json_get k (JObj kvs))"
proof -
  have "ps_get ps t key = Some (jc_dumps jc (JObj kvs))"
    using assms(1,3) by (auto simp: reads_back_def register_write_def Let_def split: if_splits prod.splits sum.splits)
  then show ?thesis using assms(2) unfolding lawful_codec_of_def by blast
qed

text \<open>A registration validates afterwards, for the source and the application it was made for.\<close>

lemma registered_validates:
  assumes "reads_back ps" "lawful_codec_of jc" "register_dataset ps jc ds source inst app org nonce created s = (t, Inr reg)"
  shows "\<exists>reg'. validate_registration ps jc ds app source t = Inr reg'"
proof -
  obtain kb where kb: "key_builder_init ds = Inr kb"
    "register_write ps jc (control_registration kb) (ps_head ps s (control_registration kb))
       (registration_record ds source inst app org nonce created) s = (t, Inr reg)"
    using assms(3) by (auto simp: register_dataset_def split: sum.splits)
  obtain data kvs where r: "ps_get ps t (control_registration kb) = Some data" "jc_loads jc data = Some (JObj kvs)"
    "\<And>k. json_get k (JObj kvs) = json_get k (registration_record ds source inst app org nonce created)"
    using register_write_reads [OF assms(1,2) kb(2) [unfolded registration_record_def]] unfolding registration_record_def by blast
  have "registration_ok ds app source (JObj kvs) = Inr ()"
    by (simp add: registration_ok_def r(3) json_get_or_def) (simp add: registration_record_def json_get_def manifest_schema_range_def)
  then show ?thesis using kb(1) r by (simp add: validate_registration_def)
qed

text \<open>Two registrations whose head requests found nothing both succeed, and the second replaces the first.\<close>

lemma concurrent_registrations_succeed:
  assumes "reads_back ps" "lawful_codec_of jc" "snd (ps_put ps s key (jc_dumps jc (JObj a))) = Inr ()"
    "\<And>u. snd (ps_put ps u key (jc_dumps jc (JObj b))) = Inr ()"
  shows "\<exists>t u. register_write ps jc key False (JObj a) s = (t, Inr (JObj a)) \<and> register_write ps jc key False (JObj b) t = (u, Inr (JObj b))
    \<and> (\<exists>data kvs. ps_get ps u key = Some data \<and> jc_loads jc data = Some (JObj kvs) \<and> (\<forall>k. json_get k (JObj kvs) = json_get k (JObj b)))"
proof -
  obtain t where t: "register_write ps jc key False (JObj a) s = (t, Inr (JObj a))"
    using assms(3) by (cases "ps_put ps s key (jc_dumps jc (JObj a))") (auto simp: register_write_def)
  obtain u where u: "register_write ps jc key False (JObj b) t = (u, Inr (JObj b))"
    using assms(4) [of t] by (cases "ps_put ps t key (jc_dumps jc (JObj b))") (auto simp: register_write_def)
  show ?thesis using t u register_write_reads [OF assms(1,2) u] by blast
qed

subsection \<open>A concrete codec, and a run\<close>

text \<open>JSON values as nested fields, each behind a letter for its kind; the reader descends at most as deep as the text is long.\<close>

fun enc_json :: "json \<Rightarrow> string" where
  "enc_json JNull = ''n''"
| "enc_json (JBool b) = (if b then ''bt'' else ''b'')"
| "enc_json (JInt i) = CHR ''i'' # enc_int i"
| "enc_json (JStr x) = CHR ''s'' # x"
| "enc_json (JArr xs) = CHR ''a'' # enc_fields (map enc_json xs)"
| "enc_json (JObj kvs) = CHR ''o'' # enc_fields (concat (map (\<lambda>(k, v). [k, enc_json v]) kvs))"

fun pair_up :: "(string \<Rightarrow> json) \<Rightarrow> string list \<Rightarrow> (string \<times> json) list" where
  "pair_up f (k # v # r) = (k, f v) # pair_up f r"
| "pair_up f _ = []"

primrec dec_json :: "nat \<Rightarrow> string \<Rightarrow> json" where
  "dec_json 0 x = JNull"
| "dec_json (Suc n) x = (case x of [] \<Rightarrow> JNull
     | c # r \<Rightarrow> if c = CHR ''n'' then JNull else if c = CHR ''b'' then JBool (r \<noteq> []) else if c = CHR ''i'' then JInt (dec_int r)
         else if c = CHR ''s'' then JStr r else if c = CHR ''a'' then JArr (map (dec_json n) (dec_fields r))
         else JObj (pair_up (dec_json n) (dec_fields r)))"

lemma enc_fields_length: "f \<in> set fs \<Longrightarrow> length f < length (enc_fields fs)"
  by (induction fs) (auto simp: length_concat comp_def sum_list_triv)

lemma pair_up_all: "\<forall>(k, v)\<in>set kvs. f (g v) = v \<Longrightarrow> pair_up f (concat (map (\<lambda>(k, v). [k, g v]) kvs)) = kvs"
  by (induction kvs) auto

lemma dec_enc_json: "length (enc_json j) \<le> n \<Longrightarrow> dec_json n (enc_json j) = j"
proof (induction j arbitrary: n rule: enc_json.induct)
  case (5 xs)
  then obtain m where m: "n = Suc m" "length (enc_fields (map enc_json xs)) \<le> m" by (cases n) auto
  have "dec_json m (enc_json x) = x" if "x \<in> set xs" for x
    using 5(1) [OF that] enc_fields_length [of "enc_json x" "map enc_json xs"] that m(2) by fastforce
  then show ?case using m(1) by (simp add: dec_enc_fields map_idI)
next
  case (6 kvs)
  let ?fs = "concat (map (\<lambda>(k, v). [k, enc_json v]) kvs)"
  obtain m where m: "n = Suc m" "length (enc_fields ?fs) \<le> m" using 6(2) by (cases n) auto
  have "dec_json m (enc_json v) = v" if "(k, v) \<in> set kvs" for k v
  proof -
    have "enc_json v \<in> set ?fs" using that by auto
    from enc_fields_length [OF this] show ?thesis using 6(1) [OF that refl] m(2) by simp
  qed
  then show ?case using m(1) pair_up_all [of kvs "dec_json m" enc_json] by (auto simp: dec_enc_fields)
next
  case (2 b)
  then show ?case by (cases n; cases b) simp_all
next
  case (3 i)
  then show ?case by (cases n) simp_all
qed (case_tac n; simp)+

definition toy_json :: json_codec where
  "toy_json = \<lparr>jc_dumps = enc_json, jc_loads = (\<lambda>x. Some (dec_json (length x) x))\<rparr>"

lemma toy_json_lawful: "lawful_codec_of toy_json"
  unfolding lawful_codec_of_def toy_json_def by (auto simp: dec_enc_json simp del: enc_json.simps)

definition toy_publish :: "int \<Rightarrow> publish_request" where
  "toy_publish e = \<lparr>pq_dataset_id = ''d'', pq_generation_id = ''g'', pq_manifest_object_key = ''m'', pq_manifest_sha256 = ''h'',
     pq_writer_epoch = JInt e, pq_writer_token_hash = JStr ''t'', pq_production_source_id = ''p'', pq_instance_id = ''i'',
     pq_app_release = [], pq_image_digest = [], pq_database_schema = JStr [], pq_previous_generation_id = JStr []\<rparr>"

definition toy_published :: "int \<Rightarrow> toy_store" where
  "toy_published e = (let body = enc_json (pointer_doc (toy_publish e) None ''now'') in (\<lambda>_. None)(''k'' := Some (body, CHR ''h'' # body)))"

text \<open>Two publishers read that there is no pointer; the writer of epoch 3 publishes first, and the one of epoch 2 no longer can.\<close>

theorem published_epoch_fences_witness:
  "\<nexists>st. publishes toy_env toy_json ''k''
     \<lparr>ps_store = toy_published 3, looks = [None], prepared = [(toy_publish 2, None, None), (toy_publish 3, None, None)]\<rparr> 2 st"
proof -
  let ?step = "publisher_step toy_env toy_json toy_contents ''k''"
  let ?s = "\<lambda>l p. \<lparr>ps_store = (\<lambda>_. None) :: toy_store, looks = l, prepared = p\<rparr>"
  let ?p3 = "(toy_publish 3, None, None)" and ?p2 = "(toy_publish 2, None, None)"
  have empty: "read_pointer toy_env toy_json ''k'' (\<lambda>_. None) = Inr None"
    by (simp add: read_pointer_def toy_env_def missing_codes_def)
  have "?step (?s [] []) (?s [None] [])"
    using publisher_step.look [of toy_env toy_json "''k''" "?s [] []" None] empty by simp
  moreover have "?step (?s [None] []) (?s [None] [?p3])"
    using publisher_step.prepare [of None "?s [None] []" "toy_publish 3" toy_env toy_json "''k''" None] empty
    by (simp add: toy_publish_def check_previous_def)
  moreover have "?step (?s [None] [?p3]) (?s [None] [?p2, ?p3])"
    using publisher_step.prepare [of None "?s [None] [?p3]" "toy_publish 2" toy_env toy_json "''k''" None] empty
    by (simp add: toy_publish_def check_previous_def)
  ultimately have run: "?step\<^sup>*\<^sup>* (first_publishers (\<lambda>_. None)) (?s [None] [?p2, ?p3])"
    unfolding first_publishers_def by (meson converse_rtranclp_into_rtranclp r_into_rtranclp)
  have put: "\<exists>v. write_pointer toy_env toy_json ''k'' (toy_publish 3) None None ''now'' (\<lambda>_. None) = (toy_published 3, Inr v)"
    by (simp add: write_pointer_def Let_def toy_published_def toy_json_def publish_condition_def del: enc_json.simps)
      (simp add: toy_env_def del: enc_json.simps)
  have "publishes toy_env toy_json ''k'' (?s [None] [?p2, ?p3]) 3 \<lparr>ps_store = toy_published 3, looks = [None], prepared = [?p2, ?p3]\<rparr>"
    using put unfolding publishes_def
    by (intro exI [of _ "toy_publish 3"] exI [of _ None] exI [of _ "''now''"] exI [of _ "toy_published 3"]) (simp add: toy_publish_def)
  moreover have "lawful_run toy_env toy_json toy_contents ''k'' (first_publishers (\<lambda>_. None))"
    by (simp add: lawful_run_def publisher_inv_def first_publishers_def toy_contents_def toy_lawful toy_json_lawful)
  note publisher_runs.run_inv [OF run this]
  ultimately have step: "?step (?s [None] [?p2, ?p3]) \<lparr>ps_store = toy_published 3, looks = [None], prepared = [?p2, ?p3]\<rparr>"
    and three: "published toy_json toy_contents ''k'' 3 (toy_published 3)"
    using publishes_raises(1,2) [of toy_env toy_json toy_contents "''k''" "?s [None] [?p2, ?p3]" 3] by fastforce+
  have empty_start: "toy_contents (\<lambda>_. None) ''k'' = None" by (simp add: toy_contents_def)
  from three have here: "published toy_json toy_contents ''k'' 3
      (ps_store \<lparr>ps_store = toy_published 3, looks = [None], prepared = [?p2, ?p3]\<rparr>)" by simp
  from published_epoch_fences [OF toy_lawful toy_json_lawful disjI1 [OF empty_start]
      rtranclp.rtrancl_into_rtrancl [OF run step] rtranclp.rtrancl_refl here]
  have "3 \<le> e'" if "publishes toy_env toy_json ''k'' \<lparr>ps_store = toy_published 3, looks = [None], prepared = [?p2, ?p3]\<rparr> e' st''"
    for e' st'' using that by blast
  from this [of 2] show ?thesis by auto
qed

end
