(* ===== verification/Promotion_Safety.thy ===== *)
theory Promotion_Safety
  imports Publication_Promotion Pointer_Safety
begin

section \<open>What a promotion does\<close>

text \<open>
  A promotion that returns has moved the pointer, under a writer it validated, to a candidate with a
  fresh validation, and left it the only authoritative row of its profile's dataset. One that raises
  leaves the database as it was; the pointer may then have moved all the same.
\<close>

subsection \<open>The transaction\<close>

lemma transition_rows:
  assumes "transition_generation_vault_state clk pk req cor aid an rc db = Inr (db', g')" "distinct (map ag_pk (generations db))"
  shows "map ag_pk (generations db') = map ag_pk (generations db)"
    "h \<in> set (generations db') \<Longrightarrow> h \<in> set (generations db) \<and> ag_pk h \<noteq> pk \<or> h = g'"
    "ag_vault_state g' = req" "ag_pk g' = pk" "get_generation pk db' = Some g'"
proof -
  obtain g where g: "get_generation pk db = Some g" "ag_vault_state g' = req" "get_generation pk db' = Some g'" "ag_pk g' = pk"
    "db' = db \<and> g' = g \<or> (\<exists>ev. db' = append_event ev (put_generation g' db))"
    by (rule guarded_generation_edge [OF assms(1)])
  show "ag_vault_state g' = req" "ag_pk g' = pk" "get_generation pk db' = Some g'" by (fact g)+
  show "map ag_pk (generations db') = map ag_pk (generations db)"
    using g(5) by (auto simp: append_event_def put_generation_def)
  have row: "g \<in> set (generations db)" "ag_pk g = pk"
    using g(1) by (auto simp: get_generation_def dest: find_row_Some)
  show "h \<in> set (generations db') \<Longrightarrow> h \<in> set (generations db) \<and> ag_pk h \<noteq> pk \<or> h = g'"
    using g(4,5) row assms(2)
    by (auto simp: append_event_def put_generation_def put_row_def distinct_map inj_on_def split: if_splits)
qed

lemma step_back_rows:
  assumes "step_back clk cor pks db = Inr db1" "distinct (map ag_pk (generations db))"
  shows "map ag_pk (generations db1) = map ag_pk (generations db)
    \<and> (\<forall>h\<in>set (generations db1). ag_vault_state h = Authoritative \<longrightarrow> h \<in> set (generations db) \<and> ag_pk h \<notin> set pks)"
  using assms
proof (induction pks arbitrary: db)
  case (Cons pk pks)
  obtain db2 g' where t: "transition_generation_vault_state clk pk Candidate cor None [] ''superseded_by_pointer_cas'' db = Inr (db2, g')"
    "step_back clk cor pks db2 = Inr db1"
    using Cons.prems(1) by (auto simp: bind_res_eq_Inr)
  note rows = transition_rows [OF t(1) Cons.prems(2)]
  have "distinct (map ag_pk (generations db2))" using rows(1) Cons.prems(2) by simp
  from Cons.IH [OF t(2) this] show ?case using rows(1-4) by fastforce
qed simp

lemma commit_promotion_rows:
  assumes "commit_promotion clk g job profile db = Inr (db', g')" "distinct (map ag_pk (generations db))"
  shows "get_generation (ag_pk g) db' = Some g'" "ag_vault_state g' = Authoritative"
    "\<forall>h\<in>set (authoritative_rows (pf_pk profile) (ag_dataset_id g) db'). ag_pk h = ag_pk g"
proof -
  define prior where "prior = filter (\<lambda>pk. pk \<noteq> ag_pk g) (map ag_pk (authoritative_rows (pf_pk profile) (ag_dataset_id g) db))"
  obtain db1 where db1: "step_back clk (job_correlation_id job) prior db = Inr db1"
    "transition_generation_vault_state clk (ag_pk g) Authoritative (job_correlation_id job)
        (job_requested_by_id job) (job_requested_by_name job) ''pointer_cas_succeeded'' db1 = Inr (db', g')"
    using assms(1) by (auto simp: commit_promotion_def prior_def bind_res_eq_Inr Let_def)
  note stepped = step_back_rows [OF db1(1) assms(2)]
  have "distinct (map ag_pk (generations db1))" using stepped assms(2) by simp
  note last = transition_rows [OF db1(2) this]
  show "get_generation (ag_pk g) db' = Some g'" "ag_vault_state g' = Authoritative" by (fact last)+
  have "ag_pk h = ag_pk g" if h: "h \<in> set (generations db')" "ag_profile h = pf_pk profile" "ag_dataset_id h = ag_dataset_id g"
    "ag_vault_state h = Authoritative" for h
  proof (rule ccontr)
    assume other: "ag_pk h \<noteq> ag_pk g"
    then have "h \<in> set (generations db1)" using last(2,4) h(1) by auto
    then have "h \<in> set (generations db)" "ag_pk h \<notin> set prior" using stepped h(4) by auto
    then show False using h other by (auto simp: prior_def authoritative_rows_def)
  qed
  then show "\<forall>h\<in>set (authoritative_rows (pf_pk profile) (ag_dataset_id g) db'). ag_pk h = ag_pk g"
    by (auto simp: authoritative_rows_def)
qed

subsection \<open>The parts of a promotion\<close>

lemma promotion_guard_holds:
  assumes "promotion_guard i confirmed g job fp profile validations run = Inr key"
  shows "confirmed \<and> is_production i \<and> is_authoritative_writer i \<and> ag_dataset_id g = ei_dataset_id i
    \<and> ag_vault_state g = Candidate \<and> ag_profile g = pf_pk profile \<and> fp = pf_fingerprint profile
    \<and> fresh_validation (pr_time run 0) g validations"
    "\<exists>kb. key_builder_init (ag_dataset_id g) = Inr kb \<and> generation_manifest kb (ag_generation_id g) = Inr key"
proof -
  have g: "confirmed" "dd_allowed (direction_decision i Op_promote (ag_dataset_id g))" "ag_vault_state g = Candidate"
    "ag_profile g = pf_pk profile" "fp = pf_fingerprint profile" "fresh_validation (pr_time run 0) g validations"
    "bind_res (key_builder_init (ag_dataset_id g)) (\<lambda>kb. generation_manifest kb (ag_generation_id g)) = Inr key"
    using assms by (auto simp: promotion_guard_def Let_def bind_res_eq_Inr require_eq split: if_splits sum.splits)
  obtain kb where kb: "key_builder_init (ag_dataset_id g) = Inr kb" "generation_manifest kb (ag_generation_id g) = Inr key"
    using g(7) by (auto simp: bind_res_eq_Inr)
  then have "ag_dataset_id g \<noteq> []" by (auto simp: key_builder_init_def Core_Keys.validate_dataset_id_def bind_res_eq_Inr require_eq)
  then show "confirmed \<and> is_production i \<and> is_authoritative_writer i \<and> ag_dataset_id g = ei_dataset_id i
    \<and> ag_vault_state g = Candidate \<and> ag_profile g = pf_pk profile \<and> fp = pf_fingerprint profile
    \<and> fresh_validation (pr_time run 0) g validations"
    using g by (auto simp: direction_decision_def publication_direction_def incomplete_identity_def Let_def split: if_splits)
  show "\<exists>kb. key_builder_init (ag_dataset_id g) = Inr kb \<and> generation_manifest kb (ag_generation_id g) = Inr key"
    using kb by blast
qed

lemma move_pointer_writes:
  assumes "move_pointer env jc others key q current run s = (t, Inr v)"
  obtains previous where "write_pointer env jc key q (map_option pv_etag current) previous (pr_published_at run) (others 9 (others 8 s)) = (t, Inr v)"
  using assms by (auto simp: move_pointer_def Let_def bind_res_eq_Inr split: sum.splits prod.splits)

lemma promote_under_parts:
  assumes "promote_under env jc others i g job profile key run h s db = (t, db', w, Inr (g', v))"
  obtains kb current schema where
    "validate_writer_for_publication env (ag_dataset_id g) h (ei_production_source_id i) (ei_instance_id i)
       (Some (wc_writer_epoch (wh_record h))) (pr_time run 2) (others 6 s) = Inr w"
    "key_builder_init (ag_dataset_id g) = Inr kb"
    "read_control_object env jc (control_authoritative kb) True (others 7 (others 6 s)) = Inr current"
    "move_pointer env jc others (control_authoritative kb) (promotion_request i g key (wh_record w) schema current run) current run
       (others 7 (others 6 s)) = (t, Inr v)"
    "commit_promotion (pr_time run 5) g job profile db = Inr (db', g')"
  using assms by (auto simp: promote_under_def Let_def bind_res_eq_Inr split: sum.splits prod.splits)

lemma promote_parts:
  assumes "promote_candidate env jc others i confirmed g job fp profile validations run s db = (t, db', Inr (g', v))"
  obtains key s3 reg s5 h t1 w where "promotion_guard i confirmed g job fp profile validations run = Inr key"
    "check_manifest (ag_manifest_digest g) (read_control_object env jc key False (others 0 s)) = Inr ()"
    "ensure_registration env jc others (ag_dataset_id g) (ei_production_source_id i) (ei_instance_id i) run (others 0 s) = (s3, Inr reg)"
    "take_writer env others (writer_request_of i (ag_dataset_id g) run) run s3 = (s5, Inr h)"
    "promote_under env jc others i g job profile key run h s5 db = (t1, db', w, Inr (g', v))"
    "t = give_back env others (ag_dataset_id g) run w t1"
  using assms by (auto simp: promote_candidate_def Let_def split: sum.splits prod.splits)

lemma take_writer_token:
  assumes "take_writer env others q run s = (t, Inr h)"
  shows "wh_token h = pr_token run"
  using assms by (auto simp: take_writer_def acquire_write_def put_record_def Let_def split: if_splits sum.splits prod.splits)

text \<open>The other control keys are not the pointer's, so writes to them leave the pointer alone.\<close>

lemma control_keys_differ:
  "control_registration kb \<noteq> control_authoritative kb" "control_global_writer kb \<noteq> control_authoritative kb"
  by (simp_all add: control_registration_def control_authoritative_def control_global_writer_def)

lemma put_elsewhere:
  assumes "lawful_store env contents" "k' \<noteq> k"
  shows "contents (fst (os_put env s k body sha cond)) k' = contents s k'"
proof -
  have "\<forall>s k body sha cond k'. k' \<noteq> k \<longrightarrow> contents (fst (os_put env s k body sha cond)) k' = contents s k'"
    using assms(1) unfolding lawful_store_def by (elim conjE) assumption
  then show ?thesis using assms(2) by simp
qed

text \<open>What \<^verbatim>\<open>validate_writer_for_publication\<close> accepted.\<close>

lemma accepted_writer:
  assumes "validate_writer_for_publication env ds h psid inst (Some e) now s = Inr w"
  shows "wc_writer_epoch (wh_record w) = e"
    "now \<le> wc_expires_at (wh_record w)" "hash env (wh_token h) = wc_owner_token_hash (wh_record w)"
    "wc_production_source_id (wh_record w) = psid" "\<exists>c. get_global_writer env ds s = Inr (Some c) \<and> wh_record c = wh_record w"
  using assms by (auto simp: validate_writer_for_publication_def Let_def bind_res_eq_Inr require_eq of_option_def split: option.splits)

lemma manifest_checked:
  assumes "check_manifest digest (read_control_object env jc key False s) = Inr ()" "lawful_store env contents"
  shows "\<exists>obj. contents s key = Some obj \<and> hash env (so_body obj) = digest"
  using assms(1) lawful_get [OF assms(2)]
  by (auto simp: check_manifest_def read_control_object_def bind_res_eq_Inr require_eq split: sum.splits option.splits if_splits)

text \<open>The pointer a write left names what was asked for.\<close>

definition names_generation :: "json_codec \<Rightarrow> stored_object \<Rightarrow> artifact_generation \<Rightarrow> writer_control \<Rightarrow> bool" where
  "names_generation jc obj g writer \<longleftrightarrow> (\<exists>kvs. jc_loads jc (so_body obj) = Some (JObj kvs)
     \<and> json_get ''generation_id'' (JObj kvs) = Some (JStr (ag_generation_id g))
     \<and> json_get ''manifest_sha256'' (JObj kvs) = Some (JStr (ag_manifest_digest g))
     \<and> json_get ''writer_epoch'' (JObj kvs) = Some (JInt (int (wc_writer_epoch writer)))
     \<and> json_get ''writer_token_hash'' (JObj kvs) = Some (JStr (wc_owner_token_hash writer)))"

lemma written_names:
  assumes "lawful_codec_of jc" "so_body obj = jc_dumps jc (pointer_doc (promotion_request i g key writer schema current run) previous moment)"
  shows "names_generation jc obj g writer"
proof -
  obtain kvs where kvs: "pointer_doc (promotion_request i g key writer schema current run) previous moment = JObj kvs"
    by (simp add: pointer_doc_def)
  obtain kvs' where "jc_loads jc (so_body obj) = Some (JObj kvs')" "\<And>k. json_get k (JObj kvs') = json_get k (JObj kvs)"
    using assms unfolding kvs lawful_codec_of_def by metis
  then show ?thesis
    unfolding names_generation_def kvs [symmetric] by (auto simp: pointer_doc_def promotion_request_def json_get_def)
qed

lemma pointer_written:
  assumes "lawful_store env contents" "lawful_codec_of jc"
    "write_pointer env jc key (promotion_request i g mkey writer schema current run) expected previous moment s = (t, Inr v)"
  shows "\<exists>obj. contents t key = Some obj \<and> so_etag obj = pv_etag v \<and> names_generation jc obj g writer"
    "cond_holds (publish_condition expected) (contents s key)"
    "k \<noteq> key \<Longrightarrow> contents t k = contents s k"
proof -
  define body where "body = jc_dumps jc (pointer_doc (promotion_request i g mkey writer schema current run) previous moment)"
  obtain etag where put: "os_put env s key body (hash env body) (publish_condition expected) = (t, Inr etag)" "pv_etag v = etag"
    using assms(3) by (auto simp: write_pointer_def body_def Let_def split: prod.splits sum.splits)
  show "\<exists>obj. contents t key = Some obj \<and> so_etag obj = pv_etag v \<and> names_generation jc obj g writer"
    "cond_holds (publish_condition expected) (contents s key)"
    using lawful_put_ok [OF assms(1) put(1)] put(2)
      written_names [OF assms(2), of "\<lparr>so_body = body, so_sha = hash env body, so_etag = etag\<rparr>"] by (auto simp: body_def)
  show "k \<noteq> key \<Longrightarrow> contents t k = contents s k"
    using put_elsewhere [OF assms(1), of k key s body "hash env body" "publish_condition expected"] put(1) by simp
qed

text \<open>Where the condition of a write holds, the pointer has the text it had when it was read.\<close>

lemma condition_unchanged:
  assumes "lawful_store env contents" "read_control_object env jc key True seen = Inr current"
    "cond_holds (publish_condition (map_option pv_etag current)) (contents before key)"
  shows "map_option so_body (contents before key) = map_option so_body (contents seen key)"
proof (cases current)
  case None
  then have "contents seen key = None"
    using assms(2) lawful_missing [OF assms(1)]
    by (auto simp: read_control_object_def bind_res_eq_Inr split: sum.splits if_splits)
  then show ?thesis using assms(3) None by (simp add: publish_condition_def cond_holds_def)
next
  case (Some v)
  then obtain obj where obj: "os_get env seen key = Inr obj" "so_etag obj = pv_etag v"
    using assms(2) by (auto simp: read_control_object_def bind_res_eq_Inr split: sum.splits if_splits)
  moreover obtain now where "contents before key = Some now" "so_etag now = pv_etag v"
    using assms(3) Some by (auto simp: publish_condition_def cond_holds_def)
  ultimately show ?thesis
    using lawful_get [OF assms(1) obj(1)] lawful_etag [OF assms(1), of before key now seen obj] by simp
qed

text \<open>C4: What a promotion that returns has done. It was confirmed, by the authoritative writer's production identity, for a
  candidate of the identity's own dataset with an unexpired passed validation of its manifest, whose text
  in the store has the digest when the run reads it. The run ensured the registration and took the writer, and the
  record that stands in the store after that, when the writer is validated, is unexpired and carries the
  epoch of the run's handle, its token and its source. The pointer is read after this validation, and has the same text
  (or is still absent) when the run's write replaces it; the write changes no other key and leaves a pointer that names the
  generation with the writer's epoch and token; after it the run only gives the writer back. The row is the
  only authoritative one of its profile's dataset. Other processes may do anything to the store before each request.\<close>

theorem promotion_effect:
  assumes "lawful_store env contents" "lawful_codec_of jc" "distinct (map ag_pk (generations db))"
    "promote_candidate env jc others i confirmed g job fp profile validations run s db = (t, db', Inr (g', v))"
  shows "confirmed \<and> is_production i \<and> is_authoritative_writer i \<and> ag_dataset_id g = ei_dataset_id i
    \<and> ag_vault_state g = Candidate \<and> fresh_validation (pr_time run 0) g validations
    \<and> get_generation (ag_pk g) db' = Some g' \<and> ag_vault_state g' = Authoritative
    \<and> (\<forall>h\<in>set (authoritative_rows (pf_pk profile) (ag_dataset_id g) db'). ag_pk h = ag_pk g)
    \<and> (\<exists>kb manifest_key manifest s3 reg s5 h validated seen before after obj (w :: writer_handle).
      key_builder_init (ag_dataset_id g) = Inr kb \<and> generation_manifest kb (ag_generation_id g) = Inr manifest_key
      \<and> contents (others 0 s) manifest_key = Some manifest \<and> hash env (so_body manifest) = ag_manifest_digest g
      \<and> ensure_registration env jc others (ag_dataset_id g) (ei_production_source_id i) (ei_instance_id i) run (others 0 s) = (s3, Inr reg)
      \<and> take_writer env others (writer_request_of i (ag_dataset_id g) run) run s3 = (s5, Inr h)
      \<and> validated = others 6 s5 \<and> seen = others 7 validated \<and> before = others 9 (others 8 seen)
      \<and> current_record env contents (control_global_writer kb) validated = Some (wh_record w)
      \<and> pr_time run 2 \<le> wc_expires_at (wh_record w) \<and> wc_writer_epoch (wh_record w) = wc_writer_epoch (wh_record h)
      \<and> wc_owner_token_hash (wh_record w) = hash env (pr_token run)
      \<and> wc_production_source_id (wh_record w) = ei_production_source_id i
      \<and> map_option so_body (contents before (control_authoritative kb)) = map_option so_body (contents seen (control_authoritative kb))
      \<and> (\<forall>k. k \<noteq> control_authoritative kb \<longrightarrow> contents after k = contents before k)
      \<and> contents after (control_authoritative kb) = Some obj \<and> so_etag obj = pv_etag v \<and> names_generation jc obj g (wh_record w)
      \<and> t = give_back env others (ag_dataset_id g) run w after)"
proof -
  obtain key s3 reg s5 h t1 w where p: "promotion_guard i confirmed g job fp profile validations run = Inr key"
    "check_manifest (ag_manifest_digest g) (read_control_object env jc key False (others 0 s)) = Inr ()"
    "ensure_registration env jc others (ag_dataset_id g) (ei_production_source_id i) (ei_instance_id i) run (others 0 s) = (s3, Inr reg)"
    "take_writer env others (writer_request_of i (ag_dataset_id g) run) run s3 = (s5, Inr h)"
    "promote_under env jc others i g job profile key run h s5 db = (t1, db', w, Inr (g', v))"
    "t = give_back env others (ag_dataset_id g) run w t1"
    by (rule promote_parts [OF assms(4)])
  let ?validated = "others 6 s5"
  let ?seen = "others 7 ?validated"
  obtain kb current schema where u:
    "validate_writer_for_publication env (ag_dataset_id g) h (ei_production_source_id i) (ei_instance_id i)
       (Some (wc_writer_epoch (wh_record h))) (pr_time run 2) ?validated = Inr w"
    "key_builder_init (ag_dataset_id g) = Inr kb" "read_control_object env jc (control_authoritative kb) True ?seen = Inr current"
    "move_pointer env jc others (control_authoritative kb) (promotion_request i g key (wh_record w) schema current run) current run ?seen
       = (t1, Inr v)"
    "commit_promotion (pr_time run 5) g job profile db = Inr (db', g')"
    by (rule promote_under_parts [OF p(5)])
  obtain previous where put: "write_pointer env jc (control_authoritative kb)
      (promotion_request i g key (wh_record w) schema current run) (map_option pv_etag current) previous (pr_published_at run)
      (others 9 (others 8 ?seen)) = (t1, Inr v)"
    by (rule move_pointer_writes [OF u(4)])
  have manifest_key: "generation_manifest kb (ag_generation_id g) = Inr key"
    using promotion_guard_holds(2) [OF p(1)] u(2) by auto
  have wkey: "writer_key (ag_dataset_id g) = Inr (control_global_writer kb)"
    using u(2) by (simp add: writer_key_def)
  obtain c where c: "get_global_writer env (ag_dataset_id g) ?validated = Inr (Some c)" "wh_record c = wh_record w"
    using accepted_writer(5) [OF u(1)] by blast
  have cur: "current_record env contents (control_global_writer kb) ?validated = Some (wh_record w)"
    using read_bound [OF assms(1), of "control_global_writer kb" ?validated "Some c"] c wkey
    by (auto simp: get_global_writer_def current_record_def)
  obtain manifest where m: "contents (others 0 s) key = Some manifest" "hash env (so_body manifest) = ag_manifest_digest g"
    using manifest_checked [OF p(2) assms(1)] by blast
  note written = pointer_written [OF assms(1,2) put]
  obtain obj where o: "contents t1 (control_authoritative kb) = Some obj" "so_etag obj = pv_etag v" "names_generation jc obj g (wh_record w)"
    using written(1) by blast
  note same = condition_unchanged [OF assms(1) u(3) written(2)]
  have token: "wc_owner_token_hash (wh_record w) = hash env (pr_token run)"
    using accepted_writer(3) [OF u(1)] take_writer_token [OF p(4)] by simp
  have run: "key_builder_init (ag_dataset_id g) = Inr kb \<and> generation_manifest kb (ag_generation_id g) = Inr key
      \<and> contents (others 0 s) key = Some manifest \<and> hash env (so_body manifest) = ag_manifest_digest g
      \<and> ensure_registration env jc others (ag_dataset_id g) (ei_production_source_id i) (ei_instance_id i) run (others 0 s) = (s3, Inr reg)
      \<and> take_writer env others (writer_request_of i (ag_dataset_id g) run) run s3 = (s5, Inr h)
      \<and> current_record env contents (control_global_writer kb) ?validated = Some (wh_record w)
      \<and> pr_time run 2 \<le> wc_expires_at (wh_record w) \<and> wc_writer_epoch (wh_record w) = wc_writer_epoch (wh_record h)
      \<and> wc_owner_token_hash (wh_record w) = hash env (pr_token run)
      \<and> wc_production_source_id (wh_record w) = ei_production_source_id i"
    using u(2) manifest_key m p(3,4) cur accepted_writer(1,2,4) [OF u(1)] token by blast
  have moved: "map_option so_body (contents (others 9 (others 8 ?seen)) (control_authoritative kb))
        = map_option so_body (contents ?seen (control_authoritative kb))
      \<and> (\<forall>k. k \<noteq> control_authoritative kb \<longrightarrow> contents t1 k = contents (others 9 (others 8 ?seen)) k)
      \<and> contents t1 (control_authoritative kb) = Some obj \<and> so_etag obj = pv_etag v \<and> names_generation jc obj g (wh_record w)
      \<and> t = give_back env others (ag_dataset_id g) run w t1"
    using same written(3) o p(6) by blast
  show ?thesis
    using promotion_guard_holds(1) [OF p(1)] commit_promotion_rows [OF u(5) assms(3)] run moved by blast
qed

subsection \<open>A promotion that raises\<close>

lemma acquire_write_elsewhere:
  assumes "lawful_store env contents" "k \<noteq> key"
  shows "contents (fst (acquire_write env key q now token existing s)) k = contents s k"
  using put_elsewhere [OF assms]
  by (auto simp: acquire_write_def put_record_def Let_def split: sum.split prod.split) (metis fst_conv)

lemma release_write_elsewhere:
  assumes "lawful_store env contents" "k \<noteq> key"
  shows "contents (fst (release_write env key h now now' current s)) k = contents s k"
  using put_elsewhere [OF assms]
  by (auto simp: release_write_def Let_def split: sum.split prod.split) (metis fst_conv)

text \<open>Other processes leave the pointer of the dataset alone.\<close>

definition others_spare :: "('s \<Rightarrow> string \<Rightarrow> stored_object option) \<Rightarrow> string \<Rightarrow> (nat \<Rightarrow> 's \<Rightarrow> 's) \<Rightarrow> bool" where
  "others_spare contents key others \<longleftrightarrow> (\<forall>j u. contents (others j u) key = contents u key)"

lemma steps_spare_pointer:
  assumes "lawful_store env contents" "others_spare contents (control_authoritative kb) others" "key_builder_init ds = Inr kb"
  shows "contents (fst (ensure_registration env jc others ds source inst run s)) (control_authoritative kb) = contents s (control_authoritative kb)"
    "wq_dataset_id q = ds \<Longrightarrow>
      contents (fst (take_writer env others q run s)) (control_authoritative kb) = contents s (control_authoritative kb)"
    "contents (give_back env others ds run h s) (control_authoritative kb) = contents s (control_authoritative kb)"
proof -
  have spare: "contents (others j u) (control_authoritative kb) = contents u (control_authoritative kb)" for j u
    using assms(2) by (simp add: others_spare_def)
  have wkey: "writer_key ds = Inr (control_global_writer kb)" using assms(3) by (simp add: writer_key_def)
  note reg = put_elsewhere [OF assms(1) control_keys_differ(1) [symmetric, of kb]]
  note acq = acquire_write_elsewhere [OF assms(1) control_keys_differ(2) [symmetric, of kb]]
  note rel = release_write_elsewhere [OF assms(1) control_keys_differ(2) [symmetric, of kb]]
  show "contents (fst (ensure_registration env jc others ds source inst run s)) (control_authoritative kb) = contents s (control_authoritative kb)"
    using assms(3) by (simp add: ensure_registration_def Let_def spare reg split: sum.split option.split)
  show "wq_dataset_id q = ds \<Longrightarrow>
      contents (fst (take_writer env others q run s)) (control_authoritative kb) = contents s (control_authoritative kb)"
    using wkey acq [unfolded case_prod_unfold]
    by (simp add: take_writer_def Let_def spare acq case_prod_unfold split: sum.split)
  show "contents (give_back env others ds run h s) (control_authoritative kb) = contents s (control_authoritative kb)"
    using wkey by (simp add: give_back_def spare rel split: sum.split)
qed

lemma failed_pointer_write:
  assumes "lawful_store env contents" "lawful_codec_of jc"
    "write_pointer env jc key (promotion_request i g mkey writer schema current run) expected previous moment s = (t, res)"
  shows "contents t key = contents s key \<or> (\<exists>obj. contents t key = Some obj \<and> names_generation jc obj g writer)"
    "res = Inl e \<Longrightarrow> \<exists>x. e = Registration_error x"
proof -
  define body where "body = jc_dumps jc (pointer_doc (promotion_request i g mkey writer schema current run) previous moment)"
  obtain r where put: "os_put env s key body (hash env body) (publish_condition expected) = (t, r)"
    using assms(3) by (auto simp: write_pointer_def body_def Let_def split: prod.splits)
  have names: "names_generation jc \<lparr>so_body = body, so_sha = hash env body, so_etag = etag\<rparr> g writer" for etag
    by (rule written_names [OF assms(2)]) (simp add: body_def)
  show "contents t key = contents s key \<or> (\<exists>obj. contents t key = Some obj \<and> names_generation jc obj g writer)"
  proof (cases r)
    case (Inl c)
    then show ?thesis using lawful_put_error [OF assms(1) put [unfolded Inl]] names by blast
  next
    case (Inr etag)
    then show ?thesis using lawful_put_ok [OF assms(1) put [unfolded Inr]] names by blast
  qed
  show "res = Inl e \<Longrightarrow> \<exists>x. e = Registration_error x"
    using assms(3) by (auto simp: write_pointer_def Let_def split: prod.splits sum.splits)
qed

lemma move_pointer_ends:
  assumes "others_spare contents key others" "move_pointer env jc others key q current run s = (t, res)"
  shows "contents t key = contents s key \<or> (\<exists>previous s9 r.
      write_pointer env jc key q (map_option pv_etag current) previous (pr_published_at run) s9 = (t, r)
      \<and> contents s9 key = contents s key \<and> (\<forall>x. res = Inl x \<longrightarrow> (\<exists>y. r = Inl y \<and> x = Promotion_pointer y)))"
proof -
  have spare: "contents (others j u) key = contents u key" for j u using assms(1) by (simp add: others_spare_def)
  define s9 where "s9 = others 9 (others 8 s)"
  have s9: "contents s9 key = contents s key" "contents (others 8 s) key = contents s key" by (simp_all add: s9_def spare)
  show ?thesis
    using assms(2) s9 unfolding move_pointer_def Let_def s9_def [symmetric]
    by (fastforce split: sum.splits prod.splits)
qed

lemma promote_under_ends:
  assumes "key_builder_init (ag_dataset_id g) = Inr kb" "promote_under env jc others i g job profile key run h s db = (t, db', w', Inl e)"
  shows "db' = db" "t \<in> {others 6 s, others 7 (others 6 s)} \<or> (\<exists>(w :: writer_handle) schema current res.
      move_pointer env jc others (control_authoritative kb) (promotion_request i g key (wh_record w) schema current run) current run
        (others 7 (others 6 s)) = (t, res) \<and> (res = Inl e \<or> (\<exists>x. e = Promotion_lifecycle x)))"
  using assms by (auto simp: promote_under_def Let_def split: sum.splits prod.splits)

text \<open>Under the writer, where the pointer may already have moved.\<close>

lemma promote_under_raises:
  assumes "lawful_store env contents" "lawful_codec_of jc" "others_spare contents (control_authoritative kb) others"
    "key_builder_init (ag_dataset_id g) = Inr kb"
    "promote_under env jc others i g job profile key run h s db = (t, db', w', Inl e)"
  shows "db' = db"
    "contents t (control_authoritative kb) = contents s (control_authoritative kb)
     \<or> (\<exists>obj writer. contents t (control_authoritative kb) = Some obj \<and> names_generation jc obj g writer)
       \<and> ((\<exists>x. e = Promotion_lifecycle x) \<or> (\<exists>x. e = Promotion_pointer (Registration_error x)))"
proof -
  have spare: "contents (others j u) (control_authoritative kb) = contents u (control_authoritative kb)" for j u
    using assms(3) by (simp add: others_spare_def)
  show "db' = db" by (rule promote_under_ends(1) [OF assms(4,5)])
  note ends = promote_under_ends(2) [OF assms(4,5)]
  show "contents t (control_authoritative kb) = contents s (control_authoritative kb)
     \<or> (\<exists>obj writer. contents t (control_authoritative kb) = Some obj \<and> names_generation jc obj g writer)
       \<and> ((\<exists>x. e = Promotion_lifecycle x) \<or> (\<exists>x. e = Promotion_pointer (Registration_error x)))"
  proof (cases "contents t (control_authoritative kb) = contents s (control_authoritative kb)")
    case False
    then have "t \<notin> {others 6 s, others 7 (others 6 s)}" by (auto simp: spare)
    then obtain w :: writer_handle and schema current res where m: "move_pointer env jc others (control_authoritative kb)
        (promotion_request i g key (wh_record w) schema current run) current run (others 7 (others 6 s)) = (t, res)"
      "res = Inl e \<or> (\<exists>x. e = Promotion_lifecycle x)"
      using ends by blast
    obtain previous s9 r where put: "write_pointer env jc (control_authoritative kb)
        (promotion_request i g key (wh_record w) schema current run) (map_option pv_etag current) previous (pr_published_at run) s9 = (t, r)"
      "contents s9 (control_authoritative kb) = contents s (control_authoritative kb)"
      "\<And>x. res = Inl x \<Longrightarrow> \<exists>y. r = Inl y \<and> x = Promotion_pointer y"
      using move_pointer_ends [OF assms(3) m(1)] False by (auto simp: spare)
    note written = failed_pointer_write [OF assms(1,2) put(1)]
    have "(\<exists>x. e = Promotion_lifecycle x) \<or> (\<exists>x. e = Promotion_pointer (Registration_error x))"
      using m(2) put(3) written(2) by blast
    then show ?thesis using written(1) put(2) by auto
  qed simp
qed

text \<open>C15: Where a promotion that raises can leave the two stores apart. It leaves the database as it was. Unless other processes touch the
  pointer, it also leaves the pointer as it was, except for two errors: the conflict of a write that was
  carried out all the same, and the conflict of the transaction, which comes after the pointer moved.\<close>

theorem promotion_failure:
  assumes "lawful_store env contents" "lawful_codec_of jc" "others_spare contents (control_authoritative kb) others"
    "key_builder_init (ag_dataset_id g) = Inr kb"
    "promote_candidate env jc others i confirmed g job fp profile validations run s db = (t, db', Inl e)"
  shows "db' = db
    \<and> (contents t (control_authoritative kb) = contents s (control_authoritative kb)
     \<or> (\<exists>obj writer. contents t (control_authoritative kb) = Some obj \<and> names_generation jc obj g writer)
       \<and> ((\<exists>x. e = Promotion_lifecycle x) \<or> (\<exists>x. e = Promotion_pointer (Registration_error x))))"
proof -
  have spare: "contents (others j u) (control_authoritative kb) = contents u (control_authoritative kb)" for j u
    using assms(3) by (simp add: others_spare_def)
  note steps = steps_spare_pointer [OF assms(1,3,4)]
  have "db' = db \<and> contents t (control_authoritative kb) = contents s (control_authoritative kb)
    \<or> (\<exists>key h s5 w t1. promote_under env jc others i g job profile key run h s5 db = (t1, db', w, Inl e)
        \<and> t = give_back env others (ag_dataset_id g) run w t1
        \<and> contents s5 (control_authoritative kb) = contents s (control_authoritative kb))"
  proof (cases "promotion_guard i confirmed g job fp profile validations run")
    case (Inl x)
    then show ?thesis using assms(5) by (auto simp: promote_candidate_def)
  next
    case (Inr key)
    let ?q = "writer_request_of i (ag_dataset_id g) run"
    obtain s3 r where r: "ensure_registration env jc others (ag_dataset_id g) (ei_production_source_id i) (ei_instance_id i) run (others 0 s) = (s3, r)"
      by fastforce
    obtain s5 h where h: "take_writer env others ?q run s3 = (s5, h)" by fastforce
    have s3: "contents s3 (control_authoritative kb) = contents s (control_authoritative kb)"
      using steps(1) [of jc "ei_production_source_id i" "ei_instance_id i" run "others 0 s"] r spare by simp
    moreover have "contents s5 (control_authoritative kb) = contents s3 (control_authoritative kb)"
      using steps(2) [of ?q run s3] h by (simp add: writer_request_of_def)
    ultimately show ?thesis using assms(5) Inr r h spare
      by (auto simp: promote_candidate_def Let_def split: sum.splits prod.splits)
  qed
  then show ?thesis using promote_under_raises [OF assms(1-4)] steps(3) by metis
qed

subsection \<open>A concrete promotion\<close>

text \<open>The production writer of \<open>d\<close> promotes its candidate \<open>g\<close>; \<open>row\<close> is the state its row has when the transaction begins.\<close>

definition toy_identity :: env_identity where
  "toy_identity = sample_writer\<lparr>ei_dataset_id := ''d'', ei_authoritative_dataset_id := ''d''\<rparr>"

definition toy_manifest :: string where
  "toy_manifest = enc_json (JObj [])"

definition toy_candidate :: "vault_state \<Rightarrow> artifact_generation" where
  "toy_candidate st = \<lparr>ag_pk = 1, ag_profile = 1, ag_origin = Vault_generation, ag_dataset_id = ''d'', ag_generation_id = ''g'',
     ag_manifest_digest = CHR ''h'' # toy_manifest, ag_manifest = JObj [], ag_vault_state = st, ag_runtime_state = Inactive,
     ag_deployment_id = [], ag_parent_generation_id = [], ag_parent_manifest_digest = [], ag_updated_at = 0\<rparr>"

definition toy_predecessor :: "vault_state \<Rightarrow> artifact_generation" where
  "toy_predecessor st = (toy_candidate st)\<lparr>ag_pk := 2, ag_generation_id := ''f''\<rparr>"

definition toy_control :: "vault_state \<Rightarrow> control_db" where
  "toy_control st = empty_db\<lparr>generations := [toy_candidate st, toy_predecessor Authoritative]\<rparr>"

definition toy_profile :: vault_profile where
  "toy_profile = \<lparr>pf_pk = 1, pf_key = ''k'', pf_dataset_id = ''d'', pf_fingerprint = ''f''\<rparr>"

definition toy_job :: vault_job where
  "toy_job = \<lparr>job_pk = 1, job_public_id = ''j'', job_operation = ''promote_generation'', job_phase = [], job_status = Running,
     job_profile = Some 1, job_dataset_id = ''d'', job_generation_id = ''g'', job_progress = JObj [], job_claim_token_hash = [],
     job_claimed_by = [], job_fencing_epoch = 1, job_heartbeat_at = None, job_correlation_id = ''c'', job_idempotency_key = [],
     job_cancellation_requested_at = None, job_safe_error_code = [], job_retry_count = 0, job_state_version = 1,
     job_requested_by_id = None, job_requested_by_name = [], job_started_at = None, job_finished_at = None,
     job_created_at = 0, job_updated_at = 0\<rparr>"

definition toy_run :: promotion_run where
  "toy_run = \<lparr>pr_time = (\<lambda>j. int j), pr_token = ''t'', pr_nonce = ''n'', pr_created_at = ''c'', pr_published_at = ''now'',
     pr_app_release = ''r'', pr_image_digest = ''i'', pr_probe = True, pr_writer_probe = True\<rparr>"

lemma toy_run_simps [simp]: "pr_time toy_run j = int j" "pr_token toy_run = ''t''" "pr_writer_probe toy_run" "pr_probe toy_run"
  by (simp_all add: toy_run_def)

lemma toy_request_dataset [simp]: "wq_dataset_id (writer_request_of i ds run) = ds" "wq_ttl_seconds (writer_request_of i ds run) = 300"
  by (simp_all add: writer_request_of_def)

definition toy_validation :: artifact_validation where
  "toy_validation = \<lparr>av_generation = 1, av_status = Passed, av_manifest_digest = CHR ''h'' # toy_manifest, av_expires_at = Some 9\<rparr>"

definition toy_registered :: toy_store where
  "toy_registered = (\<lambda>_. None)(''datasets/d/generations/g/manifest.json'' := Some (toy_manifest, []),
     ''datasets/d/control/registration.json'' := Some (enc_json (vault_registration ''d'' ''src'' ''i'' ''n'' ''c''), []))"

abbreviation toy_promote :: "vault_state \<Rightarrow> toy_store \<times> control_db \<times> (promotion_error + artifact_generation \<times> pointer_view)" where
  "toy_promote st \<equiv> promote_candidate toy_env toy_json (\<lambda>j u. u) toy_identity True (toy_candidate Candidate) toy_job ''f'' toy_profile
     [toy_validation] toy_run toy_registered (toy_control st)"

lemma toy_identity_fields:
  "ei_dataset_id toy_identity = ''d''" "ei_production_source_id toy_identity = ''src''"
  "direction_decision toy_identity Op_promote ''d'' = \<lparr>dd_allowed = True, dd_reason_code = [], dd_local_dataset_id = ''d'', dd_remote_dataset_id = ''d''\<rparr>"
proof -
  have w: "is_production sample_writer" "is_backup_writer sample_writer" "ei_production_source_id sample_writer = ''src''" by code_simp+
  then show "ei_dataset_id toy_identity = ''d''" "ei_production_source_id toy_identity = ''src''"
    "direction_decision toy_identity Op_promote ''d'' = \<lparr>dd_allowed = True, dd_reason_code = [], dd_local_dataset_id = ''d'', dd_remote_dataset_id = ''d''\<rparr>"
    by (simp_all add: toy_identity_def direction_decision_def publication_direction_def is_authoritative_writer_def is_production_def
        is_backup_writer_def Let_def)
qed

lemma toy_candidate_simps [simp]:
  "ag_pk (toy_candidate st) = 1" "ag_profile (toy_candidate st) = 1" "ag_dataset_id (toy_candidate st) = ''d''"
  "ag_generation_id (toy_candidate st) = ''g''" "ag_manifest_digest (toy_candidate st) = CHR ''h'' # toy_manifest"
  "ag_manifest (toy_candidate st) = JObj []" "ag_vault_state (toy_candidate st) = st" "ag_origin (toy_candidate st) = Vault_generation"
  "ag_pk (toy_predecessor st) = 2" "ag_profile (toy_predecessor st) = 1" "ag_dataset_id (toy_predecessor st) = ''d''"
  "ag_vault_state (toy_predecessor st) = st" "ag_origin (toy_predecessor st) = Vault_generation"
  by (simp_all add: toy_candidate_def toy_predecessor_def)

lemma toy_key_builder: "key_builder_init ''d'' = Inr \<lparr>kb_dataset_id = ''d''\<rparr>"
  "generation_manifest \<lparr>kb_dataset_id = ''d''\<rparr> ''g'' = Inr ''datasets/d/generations/g/manifest.json''"
  "control_registration \<lparr>kb_dataset_id = ''d''\<rparr> = ''datasets/d/control/registration.json''"
  "control_authoritative \<lparr>kb_dataset_id = ''d''\<rparr> = ''datasets/d/control/authoritative.json''" "writer_key ''d'' = Inr toy_key"
  by code_simp+

lemma toy_get: "os_get toy_env u k = (case u k of None \<Rightarrow> Inl ''404'' | Some p \<Rightarrow> Inr (toy_object p))"
  by (simp add: toy_env_def)

lemma toy_put_new: "u k = None \<Longrightarrow> os_put toy_env u k body sha If_none_match = (u(k := Some (body, sha)), Inr (CHR ''e'' # body))"
  by (simp add: toy_env_def)

lemma toy_guard:
  "promotion_guard toy_identity True (toy_candidate Candidate) toy_job ''f'' toy_profile [toy_validation] toy_run
     = Inr ''datasets/d/generations/g/manifest.json''"
  by (simp add: promotion_guard_def toy_identity_fields toy_profile_def toy_job_def toy_run_def toy_validation_def fresh_validation_def
      toy_key_builder Let_def)

lemma toy_loads_object: "jc_loads toy_json (enc_json j) = Some j"
  by (simp add: toy_json_def dec_enc_json del: enc_json.simps)

lemma toy_manifest_read: "check_manifest (CHR ''h'' # toy_manifest)
    (read_control_object toy_env toy_json ''datasets/d/generations/g/manifest.json'' False toy_registered) = Inr ()"
  by (simp add: check_manifest_def read_control_object_def toy_get toy_registered_def toy_object_def toy_manifest_def toy_loads_object
      del: enc_json.simps)

lemma toy_registration: "\<exists>reg. ensure_registration toy_env toy_json (\<lambda>j u. u) ''d'' ''src'' inst toy_run toy_registered = (toy_registered, Inr reg)"
  by (simp add: ensure_registration_def toy_key_builder read_control_object_def toy_get toy_registered_def toy_object_def toy_loads_object
      check_registration_def registration_matches_def vault_registration_def manifest_schema_range_def equals_one_def json_get_def Let_def
      del: enc_json.simps)

definition toy_taken :: "writer_control \<Rightarrow> toy_store" where
  "toy_taken r = toy_registered(toy_key := Some (toy_dumps r, CHR ''h'' # toy_dumps r))"

lemma toy_take:
  obtains r where "take_writer toy_env (\<lambda>j u. u) (writer_request_of toy_identity ''d'' toy_run) toy_run toy_registered
      = (toy_taken r, Inr \<lparr>wh_record = r, wh_etag = CHR ''e'' # toy_dumps r, wh_token = ''t''\<rparr>)"
    "wc_expires_at r = 300000001" "wc_owner_token_hash r = ''ht''" "wc_production_source_id r = ''src''"
    "wc_instance_id r = ei_instance_id toy_identity"
proof -
  let ?q = "writer_request_of toy_identity ''d'' toy_run"
  define r where "r = acquire_record toy_env ?q 1 ''t'' None"
  have free: "toy_registered toy_key = None" by (simp add: toy_registered_def toy_key_def)
  have "read_writer_record toy_env toy_key toy_registered = Inr None"
    by (simp add: read_writer_record_def toy_get free missing_codes_def)
  moreover have "acquire_write toy_env toy_key ?q 1 ''t'' None toy_registered =
      (toy_taken r, Inr \<lparr>wh_record = r, wh_etag = CHR ''e'' # toy_dumps r, wh_token = ''t''\<rparr>)"
    by (simp add: acquire_write_def acquire_guard_def put_record_def toy_put_new [where u = toy_registered, OF free] r_def [symmetric] toy_taken_def)
  ultimately have "take_writer toy_env (\<lambda>j u. u) ?q toy_run toy_registered
      = (toy_taken r, Inr \<lparr>wh_record = r, wh_etag = CHR ''e'' # toy_dumps r, wh_token = ''t''\<rparr>)"
    by (simp add: take_writer_def toy_key_builder)
  then show thesis
    by (rule that) (simp_all add: r_def acquire_record_def writer_request_of_def toy_identity_fields seconds_def)
qed

lemma toy_validated:
  assumes "wc_expires_at r = 300000001" "wc_owner_token_hash r = ''ht''" "wc_production_source_id r = ''src''" "wc_instance_id r = inst"
  shows "validate_writer_for_publication toy_env ''d'' \<lparr>wh_record = r, wh_etag = etag, wh_token = ''t''\<rparr> ''src'' inst
      (Some (wc_writer_epoch r)) 2 (toy_taken r) = Inr \<lparr>wh_record = r, wh_etag = CHR ''e'' # toy_dumps r, wh_token = ''t''\<rparr>"
proof -
  have "read_writer_record toy_env toy_key (toy_taken r) = Inr (Some \<lparr>wh_record = r, wh_etag = CHR ''e'' # toy_dumps r, wh_token = []\<rparr>)"
    by (simp add: read_writer_record_def toy_get toy_taken_def toy_object_def toy_codec)
  then show ?thesis
    using assms by (simp add: validate_writer_for_publication_def get_global_writer_def toy_key_builder Let_def)
qed

lemma toy_under:
  assumes "wc_expires_at r = 300000001" "wc_owner_token_hash r = ''ht''" "wc_production_source_id r = ''src''"
    "wc_instance_id r = ei_instance_id toy_identity"
  shows "\<exists>t w v. promote_under toy_env toy_json (\<lambda>j u. u) toy_identity (toy_candidate Candidate) toy_job toy_profile mkey toy_run
      \<lparr>wh_record = r, wh_etag = CHR ''e'' # toy_dumps r, wh_token = ''t''\<rparr> (toy_taken r) db
     = (case commit_promotion 5 (toy_candidate Candidate) toy_job toy_profile db of
          Inl e \<Rightarrow> (t, db, w, Inl (Promotion_lifecycle e)) | Inr (db', g') \<Rightarrow> (t, db', w, Inr (g', v)))
    \<and> t ''datasets/d/control/authoritative.json'' \<noteq> None"
proof -
  let ?key = "''datasets/d/control/authoritative.json''"
  have free: "toy_taken r ?key = None" by (simp add: toy_taken_def toy_registered_def toy_key_def)
  have none: "read_control_object toy_env toy_json ?key True (toy_taken r) = Inr None" "read_pointer toy_env toy_json ?key (toy_taken r) = Inr None"
    by (simp_all add: read_control_object_def read_pointer_def toy_get free missing_codes_def)
  have schema: "database_schema (JObj []) = Inr (JStr [])"
    by (simp add: database_schema_def json_get_or_def json_get_def)
  define q where "q = promotion_request toy_identity (toy_candidate Candidate) mkey r (JStr []) None toy_run"
  obtain t v where t: "move_pointer toy_env toy_json (\<lambda>j u. u) ?key q None toy_run (toy_taken r) = (t, Inr v)" "t ?key \<noteq> None"
    by (simp add: move_pointer_def none check_previous_def write_pointer_def publish_condition_def toy_put_new [where u = "toy_taken r", OF free] Let_def)
  show ?thesis
    using t toy_validated [OF assms, of "CHR ''e'' # toy_dumps r"]
    by (simp add: promote_under_def toy_identity_fields toy_key_builder none schema q_def [symmetric] Let_def
        split: sum.split)
qed

text \<open>The run up to the transaction.\<close>

lemma toy_promotion_run:
  "\<exists>t v. toy_promote st = (case commit_promotion 5 (toy_candidate Candidate) toy_job toy_profile (toy_control st) of
      Inl e \<Rightarrow> (t, toy_control st, Inl (Promotion_lifecycle e)) | Inr (db', g') \<Rightarrow> (t, db', Inr (g', v)))
    \<and> toy_contents t ''datasets/d/control/authoritative.json'' \<noteq> None"
proof -
  obtain r where r: "take_writer toy_env (\<lambda>j u. u) (writer_request_of toy_identity ''d'' toy_run) toy_run toy_registered
      = (toy_taken r, Inr \<lparr>wh_record = r, wh_etag = CHR ''e'' # toy_dumps r, wh_token = ''t''\<rparr>)"
    "wc_expires_at r = 300000001" "wc_owner_token_hash r = ''ht''" "wc_production_source_id r = ''src''"
    "wc_instance_id r = ei_instance_id toy_identity"
    by (rule toy_take)
  let ?key = "''datasets/d/control/authoritative.json''"
  obtain t w v where u: "promote_under toy_env toy_json (\<lambda>j u. u) toy_identity (toy_candidate Candidate) toy_job toy_profile
      ''datasets/d/generations/g/manifest.json'' toy_run
      \<lparr>wh_record = r, wh_etag = CHR ''e'' # toy_dumps r, wh_token = ''t''\<rparr> (toy_taken r) (toy_control st)
     = (case commit_promotion 5 (toy_candidate Candidate) toy_job toy_profile (toy_control st) of
          Inl e \<Rightarrow> (t, toy_control st, w, Inl (Promotion_lifecycle e)) | Inr (db', g') \<Rightarrow> (t, db', w, Inr (g', v)))"
    "t ?key \<noteq> None"
    using toy_under [OF r(2-5)] by blast
  obtain reg where reg: "ensure_registration toy_env toy_json (\<lambda>j u. u) ''d'' ''src'' (ei_instance_id toy_identity) toy_run toy_registered
      = (toy_registered, Inr reg)"
    using toy_registration by blast
  have spare: "others_spare toy_contents (control_authoritative \<lparr>kb_dataset_id = ''d''\<rparr>) (\<lambda>j u. u)" by (simp add: others_spare_def)
  have kept: "toy_contents (give_back toy_env (\<lambda>j u. u) ''d'' toy_run w t) ?key = toy_contents t ?key"
    using steps_spare_pointer(3) [OF toy_lawful spare toy_key_builder(1), of toy_run w t] by (simp add: toy_key_builder)
  have "toy_promote st = (case commit_promotion 5 (toy_candidate Candidate) toy_job toy_profile (toy_control st) of
      Inl e \<Rightarrow> (give_back toy_env (\<lambda>j u. u) ''d'' toy_run w t, toy_control st, Inl (Promotion_lifecycle e))
    | Inr (db', g') \<Rightarrow> (give_back toy_env (\<lambda>j u. u) ''d'' toy_run w t, db', Inr (g', v)))"
    using u(1) r(1) reg
    by (simp add: promote_candidate_def toy_guard toy_manifest_read toy_identity_fields Let_def split: sum.split prod.split)
  moreover have "toy_contents (give_back toy_env (\<lambda>j u. u) ''d'' toy_run w t) ?key \<noteq> None"
    using kept u(2) by (simp add: toy_contents_def)
  ultimately show ?thesis by blast
qed

lemma toy_commit:
  "\<exists>db' g'. commit_promotion 5 (toy_candidate Candidate) toy_job toy_profile (toy_control Candidate) = Inr (db', g')"
  "\<exists>e. commit_promotion 5 (toy_candidate Candidate) toy_job toy_profile (toy_control Retired) = Inl e"
  by (simp_all add: commit_promotion_def authoritative_rows_def toy_control_def toy_profile_def transition_generation_vault_state_def
      get_generation_def find_row_def put_generation_def put_row_def append_event_def guard_transition_def Let_def)

theorem promotion_effect_witness:
  "\<exists>t db' g' v after obj (w :: writer_handle). toy_promote Candidate = (t, db', Inr (g', v)) \<and> ag_vault_state g' = Authoritative
     \<and> ag_pk ` set (authoritative_rows 1 ''d'' db') \<subseteq> {1} \<and> t = give_back toy_env (\<lambda>j u. u) ''d'' toy_run w after
     \<and> toy_contents after ''datasets/d/control/authoritative.json'' = Some obj
     \<and> names_generation toy_json obj (toy_candidate Candidate) (wh_record w) \<and> wc_owner_token_hash (wh_record w) = ''ht''"
proof -
  obtain db' g' where c: "commit_promotion 5 (toy_candidate Candidate) toy_job toy_profile (toy_control Candidate) = Inr (db', g')"
    using toy_commit(1) by blast
  obtain t v where t: "toy_promote Candidate = (t, db', Inr (g', v))" using toy_promotion_run [of Candidate] c by auto
  have rows: "distinct (map ag_pk (generations (toy_control Candidate)))" by (simp add: toy_control_def)
  have hash: "hash toy_env ''t'' = ''ht''" by (simp add: toy_env_def)
  note effect = promotion_effect [OF toy_lawful toy_json_lawful rows t]
  have row: "ag_vault_state g' = Authoritative" "ag_pk ` set (authoritative_rows 1 ''d'' db') \<subseteq> {1}"
    using effect by (auto simp: toy_profile_def)
  from effect obtain kb after obj and w :: writer_handle where "key_builder_init ''d'' = Inr kb"
    "wc_owner_token_hash (wh_record w) = ''ht''" "toy_contents after (control_authoritative kb) = Some obj"
    "names_generation toy_json obj (toy_candidate Candidate) (wh_record w)" "t = give_back toy_env (\<lambda>j u. u) ''d'' toy_run w after"
    unfolding toy_candidate_simps toy_run_simps hash by blast
  then show ?thesis using t row by (auto simp: toy_key_builder intro!: exI [of _ after] exI [of _ w])
qed

text \<open>The row was retired after the candidate was read: the transaction refuses it, and the pointer names it.\<close>

theorem promotion_failure_witness:
  "\<exists>t e obj writer. toy_promote Retired = (t, toy_control Retired, Inl e)
     \<and> toy_contents t ''datasets/d/control/authoritative.json'' = Some obj \<and> names_generation toy_json obj (toy_candidate Candidate) writer"
proof -
  obtain e where "commit_promotion 5 (toy_candidate Candidate) toy_job toy_profile (toy_control Retired) = Inl e"
    using toy_commit(2) by blast
  then obtain t where t: "toy_promote Retired = (t, toy_control Retired, Inl (Promotion_lifecycle e))"
    "toy_contents t ''datasets/d/control/authoritative.json'' \<noteq> None" using toy_promotion_run [of Retired] by auto
  have spare: "others_spare toy_contents (control_authoritative \<lparr>kb_dataset_id = ''d''\<rparr>) (\<lambda>j u. u)" by (simp add: others_spare_def)
  have kb: "key_builder_init (ag_dataset_id (toy_candidate Candidate)) = Inr \<lparr>kb_dataset_id = ''d''\<rparr>" by (simp add: toy_key_builder)
  have "toy_contents toy_registered ''datasets/d/control/authoritative.json'' = None" by (simp add: toy_contents_def toy_registered_def)
  then show ?thesis
    using promotion_failure [OF toy_lawful toy_json_lawful spare kb t(1)] t by (auto simp: toy_key_builder)
qed

end
