(* ===== verification/Store_Capabilities.thy ===== *)
theory Store_Capabilities
  imports Global_Writer_Safety
begin

section \<open>What the object store can do\<close>

text \<open>
  \<^verbatim>\<open>flowdocs/core/object_store_capabilities.py\<close>: the probes of conditional writes that decide whether
  an endpoint may carry an authoritative publication, and their cleanup. The client of the store is a
  parameter: each request is a function of the store that answers or raises; \<open>None\<close> is an exception.
  The bucket and the content type of a request are left out. The tokens drawn for the keys, the
  times, and the endpoint's names are arguments.
\<close>

subsection \<open>Client and result\<close>

record put_answer =
  pa_etag :: "string option"
  pa_version :: "string option"

type_synonym metadata = "(string \<times> string) list"

record 's probe_client =
  pc_head_bucket :: "'s \<Rightarrow> unit option"
  pc_put :: "'s \<Rightarrow> string \<Rightarrow> string \<Rightarrow> precondition option \<Rightarrow> metadata \<Rightarrow> 's \<times> put_answer option"
  pc_get :: "'s \<Rightarrow> string \<Rightarrow> string option"
  pc_head :: "'s \<Rightarrow> string \<Rightarrow> metadata option"
  pc_versioning :: "'s \<Rightarrow> string option"
  pc_list :: "'s \<Rightarrow> string \<Rightarrow> string list option"
  pc_delete_all :: "'s \<Rightarrow> string list \<Rightarrow> 's \<times> unit option"
  pc_delete :: "'s \<Rightarrow> string \<Rightarrow> 's \<times> unit option"

record store_capabilities =
  sc_endpoint :: string
  sc_bucket :: string
  sc_probed_at :: string
  bucket_accessible :: bool
  conditional_create_supported :: bool
  conditional_replace_supported :: bool
  etag_available :: bool
  version_id_available :: bool
  read_after_write_consistent :: bool
  metadata_supported :: bool
  bucket_versioning_enabled :: bool
  server_side_encryption :: string
  authoritative_publication_allowed :: bool
  sc_errors :: "string list"

definition blank_capabilities :: "string \<Rightarrow> string \<Rightarrow> string \<Rightarrow> store_capabilities" where
  "blank_capabilities endpoint bucket stamp = \<lparr>sc_endpoint = endpoint, sc_bucket = bucket, sc_probed_at = stamp,
     bucket_accessible = False, conditional_create_supported = False, conditional_replace_supported = False,
     etag_available = False, version_id_available = False, read_after_write_consistent = False, metadata_supported = False,
     bucket_versioning_enabled = False, server_side_encryption = [], authoritative_publication_allowed = False, sc_errors = []\<rparr>"

text \<open>What a run draws: the five tokens of the keys, the value of the consistency probe and the time in the first body.\<close>

record probe_draws =
  pd_create :: string
  pd_replace :: string
  pd_etag :: string
  pd_raw :: string
  pd_meta :: string
  pd_value :: string
  pd_ts :: string

definition probe_key :: "string \<Rightarrow> string \<Rightarrow> string \<Rightarrow> string" where
  "probe_key pre stem token = pre @ ''/'' @ stem @ ''-'' @ token @ ''.json''"

subsection \<open>The probes\<close>

text \<open>\<open>None\<close> as a result is the exception the probe ends with.\<close>

definition probe_conditional_create :: "'s probe_client \<Rightarrow> string \<Rightarrow> probe_draws \<Rightarrow> 's \<Rightarrow> 's \<times> bool option" where
  "probe_conditional_create c pre d s =
     (let key = probe_key pre ''cond-create'' (pd_create d);
          data = ''{'' @ json_quote ''probe'' @ '': '' @ json_quote ''conditional-create'' @ '', '' @ json_quote ''ts'' @ '': '' @ pd_ts d @ ''}'' in
      case pc_put c s key data (Some If_none_match) [] of
        (s1, Some a) \<Rightarrow> (case pc_put c s1 key data (Some If_none_match) [] of
            (s2, Some b) \<Rightarrow> (s2, Some False)
          | (s2, None) \<Rightarrow> (s2, Some True))
      | (s1, None) \<Rightarrow> (case pc_put c s1 key data None [] of
            (s2, Some a) \<Rightarrow> (s2, if pa_etag a \<noteq> None then Some False else None)
          | (s2, None) \<Rightarrow> (s2, None)))"

definition wrong_etag :: string where
  "wrong_etag = json_quote ''wrong-etag''"

definition version_body :: "string \<Rightarrow> string" where
  "version_body v = ''{'' @ json_quote ''v'' @ '': '' @ v @ ''}''"

definition probe_conditional_replace :: "'s probe_client \<Rightarrow> string \<Rightarrow> probe_draws \<Rightarrow> 's \<Rightarrow> 's \<times> bool option" where
  "probe_conditional_replace c pre d s =
     (let key = probe_key pre ''cond-replace'' (pd_replace d) in
      case pc_put c s key (version_body ''1'') None [] of
        (s1, None) \<Rightarrow> (s1, None)
      | (s1, Some a) \<Rightarrow>
          (let etag = (case pa_etag a of None \<Rightarrow> [] | Some e \<Rightarrow> e) in
           if etag = [] then (s1, Some False)
           else case pc_put c s1 key (version_body ''2'') (Some (If_match wrong_etag)) [] of
               (s2, Some b) \<Rightarrow> (s2, Some False)
             | (s2, None) \<Rightarrow> (case pc_put c s2 key (version_body ''2'') (Some (If_match etag)) [] of
                   (s3, Some b) \<Rightarrow> (s3, Some True)
                 | (s3, None) \<Rightarrow> (s3, Some False))))"

definition filled :: "string option \<Rightarrow> bool" where
  "filled x \<longleftrightarrow> (case x of None \<Rightarrow> False | Some y \<Rightarrow> y \<noteq> [])"

definition probe_etag_and_version :: "'s probe_client \<Rightarrow> string \<Rightarrow> probe_draws \<Rightarrow> 's \<Rightarrow> 's \<times> (bool \<times> bool) option" where
  "probe_etag_and_version c pre d s =
     (let (t, res) = pc_put c s (probe_key pre ''etag-probe'' (pd_etag d)) ''etag-probe'' None [] in
      (t, map_option (\<lambda>a. (filled (pa_etag a), filled (pa_version a))) res))"

definition probe_read_after_write :: "'s probe_client \<Rightarrow> string \<Rightarrow> probe_draws \<Rightarrow> 's \<Rightarrow> 's \<times> bool option" where
  "probe_read_after_write c pre d s =
     (let key = probe_key pre ''raw-probe'' (pd_raw d); val = ''raw-'' @ pd_value d in
      case pc_put c s key val None [] of
        (t, None) \<Rightarrow> (t, None)
      | (t, Some a) \<Rightarrow> (t, map_option (\<lambda>body. body = val) (pc_get c t key)))"

definition ascii_lower :: "char \<Rightarrow> char" where
  "ascii_lower ch = (if 65 \<le> (of_char ch :: nat) \<and> (of_char ch :: nat) \<le> 90 then char_of ((of_char ch :: nat) + 32) else ch)"

text \<open>Of two names that agree in lower case the later one counts.\<close>

definition probe_metadata :: "'s probe_client \<Rightarrow> string \<Rightarrow> probe_draws \<Rightarrow> 's \<Rightarrow> 's \<times> bool option" where
  "probe_metadata c pre d s =
     (let key = probe_key pre ''meta-probe'' (pd_meta d) in
      case pc_put c s key ''metadata-probe'' None [(''test-key'', ''test-value'')] of
        (t, None) \<Rightarrow> (t, None)
      | (t, Some a) \<Rightarrow> (t, map_option
          (\<lambda>meta. map_of (rev (map (\<lambda>(n, v). (map ascii_lower n, v)) meta)) ''test-key'' = Some ''test-value'') (pc_head c t key)))"

definition probe_bucket_versioning :: "'s probe_client \<Rightarrow> 's \<Rightarrow> 's \<times> bool option" where
  "probe_bucket_versioning c s = (s, Some (pc_versioning c s = Some ''Enabled''))"

subsection \<open>Cleanup\<close>

fun delete_each :: "'s probe_client \<Rightarrow> string list \<Rightarrow> 's \<Rightarrow> 's" where
  "delete_each c [] s = s"
| "delete_each c (k # ks) s = delete_each c ks (fst (pc_delete c s k))"

definition cleanup_probes :: "'s probe_client \<Rightarrow> string \<Rightarrow> 's \<Rightarrow> 's" where
  "cleanup_probes c pre s = (case pc_list c s pre of
     None \<Rightarrow> s
   | Some keys \<Rightarrow> if keys = [] then s
       else (case pc_delete_all c s keys of (t, Some u) \<Rightarrow> t | (t, None) \<Rightarrow> delete_each c keys t))"

subsection \<open>The run\<close>

definition take_probe ::
  "('s \<Rightarrow> 's \<times> 'a option) \<Rightarrow> ('a \<Rightarrow> store_capabilities \<Rightarrow> store_capabilities) \<Rightarrow> string \<Rightarrow>
   's \<times> store_capabilities \<Rightarrow> 's \<times> store_capabilities" where
  "take_probe p keep err st = (case p (fst st) of
     (t, Some v) \<Rightarrow> (t, keep v (snd st))
   | (t, None) \<Rightarrow> (t, (snd st)\<lparr>sc_errors := sc_errors (snd st) @ [err]\<rparr>))"

definition probe_prefix :: "string \<Rightarrow> string" where
  "probe_prefix deploy_id = ''system-capability-probes/'' @ deploy_id"

definition run_probes :: "'s probe_client \<Rightarrow> string \<Rightarrow> probe_draws \<Rightarrow> 's \<times> store_capabilities \<Rightarrow> 's \<times> store_capabilities" where
  "run_probes c pre d st0 =
     (let st1 = take_probe (probe_conditional_create c pre d) (\<lambda>v cap. cap\<lparr>conditional_create_supported := v\<rparr>)
                  ''conditional_create_probe_failed'' st0;
          st2 = take_probe (probe_conditional_replace c pre d) (\<lambda>v cap. cap\<lparr>conditional_replace_supported := v\<rparr>)
                  ''conditional_replace_probe_failed'' st1;
          st3 = take_probe (probe_etag_and_version c pre d)
                  (\<lambda>v cap. cap\<lparr>etag_available := fst v, version_id_available := snd v\<rparr>) ''etag_version_probe_failed'' st2;
          st4 = take_probe (probe_read_after_write c pre d) (\<lambda>v cap. cap\<lparr>read_after_write_consistent := v\<rparr>)
                  ''read_after_write_probe_failed'' st3;
          st5 = take_probe (probe_metadata c pre d) (\<lambda>v cap. cap\<lparr>metadata_supported := v\<rparr>) ''metadata_probe_failed'' st4;
          st6 = take_probe (probe_bucket_versioning c) (\<lambda>v cap. cap\<lparr>bucket_versioning_enabled := v\<rparr>)
                  ''bucket_versioning_probe_failed'' st5 in
      (fst st6, (snd st6)\<lparr>authoritative_publication_allowed :=
         conditional_create_supported (snd st6) \<and> conditional_replace_supported (snd st6)\<rparr>))"

text \<open>\<open>fallback\<close> is the identifier drawn for a blank deployment.\<close>

definition probe_s3_capabilities ::
  "'s probe_client \<Rightarrow> string \<Rightarrow> string \<Rightarrow> string \<Rightarrow> string \<Rightarrow> string \<Rightarrow> probe_draws \<Rightarrow> 's \<Rightarrow> 's \<times> store_capabilities" where
  "probe_s3_capabilities c endpoint bucket deployment fallback stamp d s =
     (let cap = blank_capabilities endpoint bucket stamp in
      case pc_head_bucket c s of
        None \<Rightarrow> (s, cap\<lparr>sc_errors := [''bucket_access_failed'']\<rparr>)
      | Some u \<Rightarrow>
          (let pre = probe_prefix (if deployment \<noteq> [] then deployment else fallback);
               (t, found) = run_probes c pre d (s, cap\<lparr>bucket_accessible := True\<rparr>) in
           (cleanup_probes c pre t, found)))"

definition probe_capabilities ::
  "'s probe_client \<Rightarrow> bool \<Rightarrow> string \<Rightarrow> string \<Rightarrow> string \<Rightarrow> string \<Rightarrow> string \<Rightarrow> probe_draws \<Rightarrow> 's \<Rightarrow> 's \<times> store_capabilities" where
  "probe_capabilities c enabled endpoint bucket deployment fallback stamp d s =
     (if \<not> enabled then (s, (blank_capabilities endpoint bucket stamp)\<lparr>sc_errors := [''store_disabled'']\<rparr>)
      else probe_s3_capabilities c endpoint bucket deployment fallback stamp d s)"

end
