(* ===== verification/Store_Capabilities_Safety.thy ===== *)
theory Store_Capabilities_Safety
  imports Store_Capabilities
begin

section \<open>The verdict of the probes\<close>

text \<open>
  An endpoint that honours conditions may carry a publication, one that takes no notice of either
  condition may not; a run leaves every object outside its prefix alone. The prefix has no closing
  slash, so the cleanup of one deployment also removes the probes of those whose name it begins.
\<close>

subsection \<open>What stores do\<close>

text \<open>Requests change only the keys they name, and a listing has only keys with the prefix.\<close>

definition confined_client :: "'s probe_client \<Rightarrow> ('s \<Rightarrow> string \<Rightarrow> stored_object option) \<Rightarrow> bool" where
  "confined_client c contents \<longleftrightarrow>
     (\<forall>s k b cond m k'. k' \<noteq> k \<longrightarrow> contents (fst (pc_put c s k b cond m)) k' = contents s k') \<and>
     (\<forall>s ks k'. k' \<notin> set ks \<longrightarrow> contents (fst (pc_delete_all c s ks)) k' = contents s k') \<and>
     (\<forall>s k k'. k' \<noteq> k \<longrightarrow> contents (fst (pc_delete c s k)) k' = contents s k') \<and>
     (\<forall>s p ks. pc_list c s p = Some ks \<longrightarrow> (\<forall>k\<in>set ks. prefix p k))"

text \<open>A write answers exactly where its condition holds, with a tag that is not the wrong one of the probe.\<close>

definition honours_conditions :: "'s probe_client \<Rightarrow> ('s \<Rightarrow> string \<Rightarrow> stored_object option) \<Rightarrow> bool" where
  "honours_conditions c contents \<longleftrightarrow> (\<forall>s k b cond m.
     if (case cond of None \<Rightarrow> True | Some r \<Rightarrow> cond_holds r (contents s k))
     then \<exists>t a obj. pc_put c s k b cond m = (t, Some a) \<and> contents t k = Some obj \<and> pa_etag a = Some (so_etag obj)
       \<and> so_etag obj \<notin> {[], wrong_etag}
     else \<exists>t. pc_put c s k b cond m = (t, None) \<and> contents t k = contents s k)"

text \<open>Writes under the condition are carried out whatever the store holds.\<close>

definition ignores_condition :: "'s probe_client \<Rightarrow> precondition \<Rightarrow> bool" where
  "ignores_condition c cond \<longleftrightarrow> (\<forall>s k b m. snd (pc_put c s k b (Some cond) m) \<noteq> None)"

subsection \<open>The prefix\<close>

definition same_outside :: "('s \<Rightarrow> string \<Rightarrow> 'o) \<Rightarrow> string \<Rightarrow> 's \<Rightarrow> 's \<Rightarrow> bool" where
  "same_outside contents pre s t \<longleftrightarrow> (\<forall>k. \<not> prefix pre k \<longrightarrow> contents t k = contents s k)"

lemma same_outside_refl [simp, intro]: "same_outside contents pre s s"
  by (simp add: same_outside_def)

lemma same_outside_trans [trans]: "same_outside contents pre s t \<Longrightarrow> same_outside contents pre t u \<Longrightarrow> same_outside contents pre s u"
  by (simp add: same_outside_def)

lemma put_outside:
  assumes "confined_client c contents" "pc_put c s (probe_key pre stem token) b cond m = (t, res)"
  shows "same_outside contents pre s t"
proof -
  have "contents (fst (pc_put c s (probe_key pre stem token) b cond m)) k = contents s k" if "\<not> prefix pre k" for k
    using assms(1) that unfolding confined_client_def probe_key_def by (metis prefixI)
  then show ?thesis using assms(2) by (simp add: same_outside_def)
qed

lemma probe_create_outside:
  assumes "confined_client c contents"
  shows "same_outside contents pre s (fst (probe_conditional_create c pre d s))"
  unfolding probe_conditional_create_def Let_def
  by (auto split: prod.splits option.splits dest!: put_outside [OF assms] intro: same_outside_trans)

lemma probe_replace_outside:
  assumes "confined_client c contents"
  shows "same_outside contents pre s (fst (probe_conditional_replace c pre d s))"
proof -
  let ?k = "probe_key pre ''cond-replace'' (pd_replace d)"
  obtain s1 r1 where 1: "pc_put c s ?k (version_body ''1'') None [] = (s1, r1)" by fastforce
  obtain s2 r2 where 2: "pc_put c s1 ?k (version_body ''2'') (Some (If_match wrong_etag)) [] = (s2, r2)" by fastforce
  define etag where "etag = (case r1 of None \<Rightarrow> [] | Some a \<Rightarrow> (case pa_etag a of None \<Rightarrow> [] | Some e \<Rightarrow> e))"
  obtain s3 r3 where 3: "pc_put c s2 ?k (version_body ''2'') (Some (If_match etag)) [] = (s3, r3)" by fastforce
  have "fst (probe_conditional_replace c pre d s) \<in> {s1, s2, s3}"
    using 1 2 3 by (cases r1; cases r2; cases r3) (auto simp: probe_conditional_replace_def etag_def Let_def split: option.splits)
  moreover note put_outside [OF assms 1] put_outside [OF assms 2] put_outside [OF assms 3]
  ultimately show ?thesis by (metis insertE same_outside_trans singletonD)
qed

lemma probe_rest_outside:
  assumes "confined_client c contents"
  shows "same_outside contents pre s (fst (probe_etag_and_version c pre d s))"
    "same_outside contents pre s (fst (probe_read_after_write c pre d s))"
    "same_outside contents pre s (fst (probe_metadata c pre d s))"
    "same_outside contents pre s (fst (probe_bucket_versioning c s))"
  by (auto simp: probe_etag_and_version_def probe_read_after_write_def probe_metadata_def probe_bucket_versioning_def Let_def
      split: prod.splits option.splits dest: put_outside [OF assms])

lemma take_probe_outside:
  "(\<And>s. same_outside contents pre s (fst (p s))) \<Longrightarrow> same_outside contents pre (fst st) (fst (take_probe p keep err st))"
  by (simp add: take_probe_def split: prod.splits option.splits) (metis fst_conv)

lemma delete_each_outside:
  assumes "confined_client c contents"
  shows "\<forall>k\<in>set ks. prefix pre k \<Longrightarrow> same_outside contents pre s (delete_each c ks s)"
proof (induction ks arbitrary: s)
  case (Cons k ks)
  have "same_outside contents pre s (fst (pc_delete c s k))"
    using assms Cons.prems by (auto simp: confined_client_def same_outside_def)
  also have "same_outside contents pre \<dots> (delete_each c (k # ks) s)" using Cons by simp
  finally show ?case .
qed simp

lemma cleanup_outside:
  assumes "confined_client c contents"
  shows "same_outside contents pre s (cleanup_probes c pre s)"
proof (cases "pc_list c s pre")
  case (Some keys)
  then have pre: "\<forall>k\<in>set keys. prefix pre k" using assms by (auto simp: confined_client_def)
  obtain t res where t: "pc_delete_all c s keys = (t, res)" by fastforce
  then have "same_outside contents pre s t"
    using assms pre unfolding confined_client_def same_outside_def by (metis fst_conv)
  then show ?thesis using Some t same_outside_trans [OF _ delete_each_outside [OF assms pre]]
    by (auto simp: cleanup_probes_def split: option.splits)
qed (simp add: cleanup_probes_def)

theorem probe_confined:
  assumes "confined_client c contents" "\<not> prefix (probe_prefix (if deployment \<noteq> [] then deployment else fallback)) k"
  shows "contents (fst (probe_capabilities c enabled endpoint bucket deployment fallback stamp d s)) k = contents s k"
proof -
  define pre where "pre = probe_prefix (if deployment \<noteq> [] then deployment else fallback)"
  note probes = take_probe_outside [of contents pre, OF probe_create_outside [OF assms(1)]]
    take_probe_outside [of contents pre, OF probe_replace_outside [OF assms(1)]]
    take_probe_outside [of contents pre, OF probe_rest_outside(1) [OF assms(1)]]
    take_probe_outside [of contents pre, OF probe_rest_outside(2) [OF assms(1)]]
    take_probe_outside [of contents pre, OF probe_rest_outside(3) [OF assms(1)]]
    take_probe_outside [of contents pre, OF probe_rest_outside(4) [OF assms(1)]]
  have run: "same_outside contents pre (fst st) (fst (run_probes c pre d st))" for st
    unfolding run_probes_def Let_def fst_conv
    by (rule same_outside_trans [OF same_outside_trans [OF same_outside_trans [OF same_outside_trans
          [OF same_outside_trans [OF probes(1) probes(2)] probes(3)] probes(4)] probes(5)] probes(6)])
  have "same_outside contents pre s (cleanup_probes c pre (fst (run_probes c pre d (s, cap))))" for cap
    by (rule same_outside_trans [OF run [of "(s, cap)", unfolded fst_conv] cleanup_outside [OF assms(1)]])
  moreover have "fst (probe_capabilities c enabled endpoint bucket deployment fallback stamp d s)
      \<in> {s, cleanup_probes c pre (fst (run_probes c pre d (s, (blank_capabilities endpoint bucket stamp)\<lparr>bucket_accessible := True\<rparr>)))}"
    by (simp add: probe_capabilities_def probe_s3_capabilities_def Let_def pre_def split: option.split prod.split)
  ultimately have "same_outside contents pre s (fst (probe_capabilities c enabled endpoint bucket deployment fallback stamp d s))"
    by (metis empty_iff insert_iff same_outside_refl)
  then show ?thesis using assms(2) unfolding pre_def by (simp add: same_outside_def)
qed

text \<open>Where a listing has every key with the prefix and deletions are carried out, the probes of a
  deployment whose name begins with this one's go too.\<close>

lemma cleanup_removes_other_deployments:
  assumes "\<And>s p. \<exists>ks. pc_list c s p = Some ks \<and> {k. contents s k \<noteq> None \<and> prefix p k} \<subseteq> set ks"
    "\<And>s ks. \<exists>t. pc_delete_all c s ks = (t, Some ()) \<and> (\<forall>k. contents t k = (if k \<in> set ks then None else contents s k))"
  shows "contents (cleanup_probes c (probe_prefix deployment) s) (probe_key (probe_prefix (deployment @ rest)) stem token) = None"
proof -
  let ?p = "probe_prefix deployment" and ?k = "probe_key (probe_prefix (deployment @ rest)) stem token"
  obtain ks where ks: "pc_list c s ?p = Some ks" "{k. contents s k \<noteq> None \<and> prefix ?p k} \<subseteq> set ks" using assms(1) by blast
  have "prefix ?p ?k" by (simp add: probe_key_def probe_prefix_def)
  then have "?k \<in> set ks \<or> contents s ?k = None" using ks(2) by blast
  moreover obtain t where "pc_delete_all c s ks = (t, Some ())" "\<forall>k. contents t k = (if k \<in> set ks then None else contents s k)"
    using assms(2) by blast
  ultimately show ?thesis using ks(1) by (auto simp: cleanup_probes_def)
qed

subsection \<open>The verdict\<close>

lemma ignored_put:
  assumes "ignores_condition c cond"
  obtains t a where "pc_put c s k b (Some cond) m = (t, Some a)"
  using assms unfolding ignores_condition_def by (metis option.exhaust prod.exhaust_sel)

lemma create_refuted:
  assumes "ignores_condition c If_none_match"
  shows "snd (probe_conditional_create c pre d s) = Some False"
proof -
  let ?k = "probe_key pre ''cond-create'' (pd_create d)"
  define data where "data = ''{'' @ json_quote ''probe'' @ '': '' @ json_quote ''conditional-create'' @ '', '' @ json_quote ''ts'' @ '': '' @ pd_ts d @ ''}''"
  obtain t a where t: "pc_put c s ?k data (Some If_none_match) [] = (t, Some a)" by (rule ignored_put [OF assms])
  obtain u b where "pc_put c t ?k data (Some If_none_match) [] = (u, Some b)" by (rule ignored_put [OF assms])
  then show ?thesis using t unfolding probe_conditional_create_def Let_def data_def [symmetric] by simp
qed

lemma replace_refuted:
  assumes "ignores_condition c (If_match wrong_etag)"
  shows "snd (probe_conditional_replace c pre d s) \<noteq> Some True"
proof -
  let ?k = "probe_key pre ''cond-replace'' (pd_replace d)"
  obtain t r where t: "pc_put c s ?k (version_body ''1'') None [] = (t, r)" by fastforce
  obtain u b where "pc_put c t ?k (version_body ''2'') (Some (If_match wrong_etag)) [] = (u, Some b)" by (rule ignored_put [OF assms])
  then show ?thesis using t by (cases r) (auto simp: probe_conditional_replace_def Let_def)
qed

lemma put_taken:
  assumes "honours_conditions c contents" "case cond of None \<Rightarrow> True | Some r \<Rightarrow> cond_holds r (contents s k)"
  shows "\<exists>t a obj. pc_put c s k b cond m = (t, Some a) \<and> contents t k = Some obj \<and> pa_etag a = Some (so_etag obj)
    \<and> so_etag obj \<noteq> [] \<and> so_etag obj \<noteq> wrong_etag"
proof -
  have "if (case cond of None \<Rightarrow> True | Some r \<Rightarrow> cond_holds r (contents s k))
     then \<exists>t a obj. pc_put c s k b cond m = (t, Some a) \<and> contents t k = Some obj \<and> pa_etag a = Some (so_etag obj)
       \<and> so_etag obj \<notin> {[], wrong_etag}
     else \<exists>t. pc_put c s k b cond m = (t, None) \<and> contents t k = contents s k"
    using assms(1) unfolding honours_conditions_def by blast
  then show ?thesis using assms(2) by simp
qed

lemma put_refused:
  assumes "honours_conditions c contents" "\<not> cond_holds r (contents s k)"
  shows "\<exists>t. pc_put c s k b (Some r) m = (t, None) \<and> contents t k = contents s k"
proof -
  have "if (case Some r of None \<Rightarrow> True | Some r \<Rightarrow> cond_holds r (contents s k))
     then \<exists>t a obj. pc_put c s k b (Some r) m = (t, Some a) \<and> contents t k = Some obj \<and> pa_etag a = Some (so_etag obj)
       \<and> so_etag obj \<notin> {[], wrong_etag}
     else \<exists>t. pc_put c s k b (Some r) m = (t, None) \<and> contents t k = contents s k"
    using assms(1) unfolding honours_conditions_def by blast
  then show ?thesis using assms(2) by simp
qed

lemma cond_holds_simps [simp]:
  "cond_holds If_none_match cur \<longleftrightarrow> cur = None"
  "cond_holds (If_match e) None \<longleftrightarrow> False"
  "cond_holds (If_match e) (Some obj) \<longleftrightarrow> so_etag obj = e"
  by (simp_all add: cond_holds_def)

lemma create_confirmed:
  assumes "honours_conditions c contents" "contents s (probe_key pre ''cond-create'' (pd_create d)) = None"
  shows "snd (probe_conditional_create c pre d s) = Some True"
proof -
  let ?k = "probe_key pre ''cond-create'' (pd_create d)"
  define data where "data = ''{'' @ json_quote ''probe'' @ '': '' @ json_quote ''conditional-create'' @ '', '' @ json_quote ''ts'' @ '': '' @ pd_ts d @ ''}''"
  obtain t a obj where t: "pc_put c s ?k data (Some If_none_match) [] = (t, Some a)" "contents t ?k = Some obj"
    using put_taken [OF assms(1), of s ?k "Some If_none_match" data "[]"] assms(2) by (auto simp: cond_holds_def)
  then obtain u where "pc_put c t ?k data (Some If_none_match) [] = (u, None)"
    using put_refused [OF assms(1), of If_none_match t ?k data "[]"] by (auto simp: cond_holds_def)
  then show ?thesis using t(1) unfolding probe_conditional_create_def Let_def data_def [symmetric] by simp
qed

lemma replace_confirmed:
  assumes "honours_conditions c contents"
  shows "snd (probe_conditional_replace c pre d s) = Some True"
proof -
  let ?k = "probe_key pre ''cond-replace'' (pd_replace d)"
  obtain t a obj where t: "pc_put c s ?k (version_body ''1'') None [] = (t, Some a)" "contents t ?k = Some obj"
    "pa_etag a = Some (so_etag obj)" "so_etag obj \<noteq> []" "so_etag obj \<noteq> wrong_etag"
    using put_taken [OF assms, of s ?k None "version_body ''1''" "[]"] by auto
  obtain u where u: "pc_put c t ?k (version_body ''2'') (Some (If_match wrong_etag)) [] = (u, None)" "contents u ?k = Some obj"
    using put_refused [OF assms, of "If_match wrong_etag" t ?k "version_body ''2''" "[]"] t(2,5) by (auto simp: cond_holds_def)
  obtain w b where "pc_put c u ?k (version_body ''2'') (Some (If_match (so_etag obj))) [] = (w, Some b)"
    using put_taken [OF assms, of u ?k "Some (If_match (so_etag obj))" "version_body ''2''" "[]"] u(2) by (auto simp: cond_holds_def)
  then show ?thesis using t u(1) by (simp add: probe_conditional_replace_def)
qed

text \<open>The verdict of a run is that of its first two probes.\<close>

lemma verdict_of_probes:
  assumes "probe_conditional_create c pre d s = (s1, created)" "probe_conditional_replace c pre d s1 = (s2, replaced)"
    "\<not> conditional_create_supported cap" "\<not> conditional_replace_supported cap"
  shows "authoritative_publication_allowed (snd (run_probes c pre d (s, cap))) \<longleftrightarrow> created = Some True \<and> replaced = Some True"
proof -
  have keep: "conditional_create_supported (snd (take_probe p g err st)) = conditional_create_supported (snd st)"
    "conditional_replace_supported (snd (take_probe p g err st)) = conditional_replace_supported (snd st)"
    if "\<And>v x. conditional_create_supported (g v x) = conditional_create_supported x"
      "\<And>v x. conditional_replace_supported (g v x) = conditional_replace_supported x" for p g err st
    using that by (auto simp: take_probe_def split: prod.splits option.splits)
  show ?thesis
    unfolding run_probes_def Let_def using assms
    by (simp add: keep) (auto simp: take_probe_def split: option.splits)
qed

text \<open>C21: What the verdict is worth. An endpoint that can be reached and honours the conditions of writes may carry a
  publication, where the key drawn for the first probe is free; one that takes no notice of
  \<open>If-None-Match\<close>, or of an \<open>If-Match\<close> with a tag that is not the object's, may not, and neither may a disabled or an unreachable store.\<close>

theorem probe_verdict:
  "let allowed = authoritative_publication_allowed (snd (probe_capabilities c enabled endpoint bucket deployment fallback stamp d s));
       pre = probe_prefix (if deployment \<noteq> [] then deployment else fallback) in
     (honours_conditions c contents \<and> enabled \<and> pc_head_bucket c s \<noteq> None
        \<and> contents s (probe_key pre ''cond-create'' (pd_create d)) = None \<longrightarrow> allowed)
     \<and> (ignores_condition c If_none_match \<or> ignores_condition c (If_match wrong_etag) \<or> \<not> enabled \<or> pc_head_bucket c s = None
        \<longrightarrow> \<not> allowed)"
proof -
  let ?cap = "blank_capabilities endpoint bucket stamp"
  define pre where "pre = probe_prefix (if deployment \<noteq> [] then deployment else fallback)"
  obtain s1 created s2 replaced where p: "probe_conditional_create c pre d s = (s1, created)"
    "probe_conditional_replace c pre d s1 = (s2, replaced)" by fastforce
  have "authoritative_publication_allowed (snd (probe_capabilities c enabled endpoint bucket deployment fallback stamp d s))
      \<longleftrightarrow> enabled \<and> pc_head_bucket c s \<noteq> None \<and> created = Some True \<and> replaced = Some True"
    using verdict_of_probes [OF p, of "?cap\<lparr>bucket_accessible := True\<rparr>"]
    by (auto simp: probe_capabilities_def probe_s3_capabilities_def blank_capabilities_def pre_def Let_def split: option.splits prod.splits)
  then show ?thesis
    using create_confirmed [of c contents s pre d] replace_confirmed [of c contents pre d s1]
      create_refuted [of c pre d s] replace_refuted [of c pre d s1] p unfolding Let_def pre_def [symmetric] by auto
qed

subsection \<open>Concrete stores\<close>

text \<open>A store of bodies with their tags, whose client honours conditions or ignores them.\<close>

type_synonym toy_bucket = "(string \<times> stored_object) list"

definition toy_put :: "bool \<Rightarrow> toy_bucket \<Rightarrow> string \<Rightarrow> string \<Rightarrow> precondition option \<Rightarrow> metadata \<Rightarrow> toy_bucket \<times> put_answer option" where
  "toy_put honours s k body cond m =
     (if honours \<and> (case cond of None \<Rightarrow> False | Some r \<Rightarrow> \<not> cond_holds r (map_of s k)) then (s, None)
      else ((k, \<lparr>so_body = body, so_sha = [], so_etag = CHR ''e'' # body\<rparr>) # s,
        Some \<lparr>pa_etag = Some (CHR ''e'' # body), pa_version = None\<rparr>))"

definition toy_client :: "bool \<Rightarrow> toy_bucket probe_client" where
  "toy_client honours = \<lparr>pc_head_bucket = (\<lambda>s. Some ()), pc_put = toy_put honours, pc_get = (\<lambda>s k. map_option so_body (map_of s k)),
     pc_head = (\<lambda>s k. map_option (\<lambda>obj. []) (map_of s k)), pc_versioning = (\<lambda>s. None),
     pc_list = (\<lambda>s p. Some (filter (prefix p) (map fst s))), pc_delete_all = (\<lambda>s ks. (s, None)),
     pc_delete = (\<lambda>s k. (filter (\<lambda>x. fst x \<noteq> k) s, Some ()))\<rparr>"

definition toy_draws :: probe_draws where
  "toy_draws = \<lparr>pd_create = ''c'', pd_replace = ''r'', pd_etag = ''e'', pd_raw = ''w'', pd_meta = ''m'', pd_value = ''v'', pd_ts = ''0''\<rparr>"

lemma toy_client_simps [simp]:
  "pc_put (toy_client honours) = toy_put honours" "pc_head_bucket (toy_client honours) s = Some ()"
  by (simp_all add: toy_client_def)

lemma toy_honours: "honours_conditions (toy_client True) map_of"
  unfolding honours_conditions_def
  by (auto simp: toy_put_def wrong_etag_def json_quote_def split: option.split)

theorem probe_verdict_witness:
  "authoritative_publication_allowed (snd (probe_capabilities (toy_client True) True ''e'' ''b'' ''d'' [] [] toy_draws []))
   \<and> \<not> authoritative_publication_allowed (snd (probe_capabilities (toy_client False) True ''e'' ''b'' ''d'' [] [] toy_draws []))"
proof -
  have one: "authoritative_publication_allowed (snd (probe_capabilities (toy_client True) True ''e'' ''b'' ''d'' [] [] toy_draws []))"
    using probe_verdict [of "toy_client True" True "''e''" "''b''" "''d''" "[]" "[]" toy_draws "[]" map_of] toy_honours
    by (simp add: Let_def)
  have "ignores_condition (toy_client False) If_none_match" by (simp add: ignores_condition_def toy_put_def)
  then have "\<not> authoritative_publication_allowed (snd (probe_capabilities (toy_client False) True ''e'' ''b'' ''d'' [] [] toy_draws []))"
    using probe_verdict [of "toy_client False" True "''e''" "''b''" "''d''" "[]" "[]" toy_draws "[]" map_of]
    by (simp add: Let_def)
  then show ?thesis using one by blast
qed

text \<open>A store that ignores both conditions and now and then fails also passes: the count of the writes is its
  state, and the second and the fourth of them raise.\<close>

definition flaky_client :: "nat probe_client" where
  "flaky_client = \<lparr>pc_head_bucket = (\<lambda>s. Some ()),
     pc_put = (\<lambda>s k b cond m. (Suc s, if s = 1 \<or> s = 3 then None else Some \<lparr>pa_etag = Some ''e'', pa_version = None\<rparr>)),
     pc_get = (\<lambda>s k. None), pc_head = (\<lambda>s k. None), pc_versioning = (\<lambda>s. None), pc_list = (\<lambda>s p. None),
     pc_delete_all = (\<lambda>s ks. (s, None)), pc_delete = (\<lambda>s k. (s, None))\<rparr>"

lemma flaky_store_passes:
  "authoritative_publication_allowed (snd (probe_capabilities flaky_client True ''e'' ''b'' ''d'' [] [] toy_draws 0))"
proof -
  let ?cap = "(blank_capabilities ''e'' ''b'' [])\<lparr>bucket_accessible := True\<rparr>" and ?pre = "probe_prefix ''d''"
  have p: "probe_conditional_create flaky_client ?pre toy_draws 0 = (2, Some True)"
    "probe_conditional_replace flaky_client ?pre toy_draws 2 = (5, Some True)"
    by (simp_all add: probe_conditional_create_def probe_conditional_replace_def flaky_client_def Let_def)
  have "authoritative_publication_allowed (snd (run_probes flaky_client ?pre toy_draws (0, ?cap)))"
    using verdict_of_probes [OF p, of ?cap] by (simp add: blank_capabilities_def)
  moreover have "pc_head_bucket flaky_client 0 = Some ()" by (simp add: flaky_client_def)
  ultimately show ?thesis by (auto simp: probe_capabilities_def probe_s3_capabilities_def Let_def split: prod.split)
qed

end
