(* ===== verification/Docs_Generations.thy ===== *)
theory Docs_Generations
  imports Docs_Lifecycle
begin

section \<open>Local generations\<close>

text \<open>
  The promotion, rollback and purge of local generations in \<^verbatim>\<open>flowdocs/core/maintenance.py\<close>. An
  operation returns the database it leaves with its result, because what a rollback saved before it
  raised stays. A query set without an order of its own is read newest first, the order of the model's
  \<^verbatim>\<open>Meta\<close>. An expiry past the last day of the calendar raises.
\<close>

definition last_instant :: instant where
  "last_instant = seconds 253402300800 - 1"

definition newest_first :: "core_generation list \<Rightarrow> core_generation list" where
  "newest_first gs = sort_key (\<lambda>g. - cg_created_at g) gs"

definition active_generations :: "core_db \<Rightarrow> core_generation list" where
  "active_generations db = newest_first (filter (\<lambda>g. cg_status g = Gen_active) (core_generations db))"

definition first_of :: "'a list \<Rightarrow> 'a option" where
  "first_of xs = (case xs of [] \<Rightarrow> None | x # _ \<Rightarrow> Some x)"

definition apply_retention_expiry :: "instant \<Rightarrow> core_generation \<Rightarrow> doc_error + core_generation" where
  "apply_retention_expiry clk g =
     (case (cg_retention_policy g, cg_retention_value g) of
        (Age_based, Some (Suc n)) \<Rightarrow>
          let t = clk + seconds (86400 * int (Suc n)) in
          bind_res (require (t \<le> last_instant) Date_overflow) (\<lambda>_. Inr (g\<lparr>cg_expires_at := Some t\<rparr>))
      | _ \<Rightarrow> Inr (g\<lparr>cg_expires_at := None\<rparr>))"

definition missing_generation :: "string \<Rightarrow> doc_error" where
  "missing_generation gid = Integrity (''Generation '' @ gid @ '' does not exist'')"

fun generation_status_value :: "generation_status \<Rightarrow> string" where
  "generation_status_value Staged = ''staged''"
| "generation_status_value Validated = ''validated''"
| "generation_status_value Gen_active = ''active''"
| "generation_status_value Gen_failed = ''failed''"
| "generation_status_value Superseded = ''superseded''"
| "generation_status_value Purged = ''purged''"

definition generation_payload :: "string \<Rightarrow> json" where
  "generation_payload gid = JObj [(''generation_id'', JStr gid)]"

subsection \<open>Promotion\<close>

definition supersede_prior :: "core_generation \<Rightarrow> core_db \<Rightarrow> core_db \<times> core_generation option" where
  "supersede_prior g db =
     (case first_of (filter (\<lambda>p. cg_pk p \<noteq> cg_pk g) (active_generations db)) of
        None \<Rightarrow> (db, None)
      | Some p \<Rightarrow> (put_core_generation (p\<lparr>cg_status := Superseded, cg_superseded_by := Some (cg_pk g)\<rparr>) db, Some p))"

text \<open>The transaction rolls back when the expiry raises; the audit event follows the commit.\<close>

definition promote_active_generation ::
  "instant \<Rightarrow> string \<Rightarrow> string option \<Rightarrow> core_db \<Rightarrow> core_db \<times> (doc_error + core_generation)" where
  "promote_active_generation clk gid actor db =
     (case generation_by_id gid db of
        None \<Rightarrow> (db, Inl (missing_generation gid))
      | Some g \<Rightarrow>
          if cg_status g \<notin> {Validated, Gen_active} then
            (db, Inl (Integrity (''Generation '' @ gid @ '' must be validated before promotion (current: '' @
               generation_status_value (cg_status g) @ '')'')))
          else
            let (db1, prior) = supersede_prior g db in
            (case apply_retention_expiry clk (g\<lparr>cg_status := Gen_active, cg_promoted_at := Some clk\<rparr>) of
               Inl e \<Rightarrow> (db, Inl e)
             | Inr g' \<Rightarrow>
                 (audit None ''promoted'' actor (JObj [(''generation_id'', JStr (cg_generation_id g)),
                      (''superseded'', json_opt (JStr \<circ> cg_generation_id) prior)])
                    (put_core_generation g' db1), Inr g')))"

subsection \<open>Rollback\<close>

definition restage :: "instant \<Rightarrow> core_generation \<Rightarrow> core_db \<Rightarrow> core_db" where
  "restage clk g db = (if cg_status g = Validated then db
     else put_core_generation (g\<lparr>cg_status := Validated, cg_validated_at := Some clk\<rparr>) db)"

definition rollback_to_generation ::
  "instant \<Rightarrow> string \<Rightarrow> string option \<Rightarrow> core_db \<Rightarrow> core_db \<times> (doc_error + core_generation)" where
  "rollback_to_generation clk gid actor db =
     (case generation_by_id gid db of
        None \<Rightarrow> (db, Inl (missing_generation gid))
      | Some g \<Rightarrow>
          if cg_status g \<notin> {Superseded, Validated, Gen_active, Staged} then
            (db, Inl (Integrity (''Generation '' @ gid @ '' cannot be rolled back to (current: '' @
               generation_status_value (cg_status g) @ '')'')))
          else
            (case promote_active_generation clk gid actor (restage clk g db) of
               (db2, Inl e) \<Rightarrow> (db2, Inl e)
             | (db2, Inr r) \<Rightarrow> (audit None ''rolled_back'' actor (generation_payload gid) db2, Inr r)))"

subsection \<open>Purge\<close>

definition expired_generations :: "instant \<Rightarrow> core_db \<Rightarrow> core_generation list" where
  "expired_generations clk db =
     newest_first (filter (\<lambda>g. (case cg_expires_at g of None \<Rightarrow> False | Some t \<Rightarrow> t < clk) \<and> cg_status g \<noteq> Gen_active)
       (core_generations db))"

definition spared_by_purge :: "core_db \<Rightarrow> nat option" where
  "spared_by_purge db = (case first_of (active_generations db) of None \<Rightarrow> None | Some a \<Rightarrow> cg_superseded_by a)"

definition purge_targets :: "instant \<Rightarrow> core_db \<Rightarrow> core_generation list" where
  "purge_targets clk db = (case spared_by_purge db of None \<Rightarrow> expired_generations clk db
     | Some k \<Rightarrow> filter (\<lambda>g. cg_pk g \<noteq> k) (expired_generations clk db))"

definition purge_rows :: "core_generation list \<Rightarrow> core_db \<Rightarrow> core_db" where
  "purge_rows gs db = db\<lparr>core_generations :=
     map (\<lambda>r. if cg_pk r \<in> cg_pk ` set gs then r\<lparr>cg_status := Purged\<rparr> else r) (core_generations db)\<rparr>"

definition purge_expired_generations ::
  "instant \<Rightarrow> string option \<Rightarrow> core_db \<Rightarrow> core_db \<times> string list" where
  "purge_expired_generations clk actor db =
     (let gs = purge_targets clk db; ids = map cg_generation_id gs in
     (fold (\<lambda>gid d. audit None ''purged'' actor (generation_payload gid) d) ids (purge_rows gs db), ids))"

definition purge_generation ::
  "string \<Rightarrow> string option \<Rightarrow> core_db \<Rightarrow> core_db \<times> (doc_error + core_generation)" where
  "purge_generation gid actor db =
     (case generation_by_id gid db of
        None \<Rightarrow> (db, Inl (missing_generation gid))
      | Some g \<Rightarrow>
          if cg_status g = Gen_active then (db, Inl (Integrity ''Cannot purge the active generation''))
          else if cg_status g = Purged then (db, Inr g)
          else let g' = g\<lparr>cg_status := Purged\<rparr> in
            (audit None ''purged'' actor (generation_payload gid) (put_core_generation g' db), Inr g'))"

subsection \<open>Staging\<close>

text \<open>The row \<^verbatim>\<open>stage_generation\<close> writes once the download is verified (\<^verbatim>\<open>update_or_create\<close>).\<close>

definition next_generation_pk :: "core_db \<Rightarrow> nat" where
  "next_generation_pk db = Suc (fold max (map cg_pk (core_generations db)) 0)"

definition stage_row :: "instant \<Rightarrow> string \<Rightarrow> core_db \<Rightarrow> core_db" where
  "stage_row clk gid db =
     (case generation_by_id gid db of
        Some g \<Rightarrow> put_core_generation (g\<lparr>cg_status := Validated, cg_validated_at := Some clk\<rparr>) db
      | None \<Rightarrow> db\<lparr>core_generations := core_generations db @
          [\<lparr>cg_pk = next_generation_pk db, cg_generation_id = gid, cg_status = Validated,
            cg_validated_at = Some clk, cg_promoted_at = None, cg_superseded_by = None,
            cg_retention_policy = Keep_all, cg_retention_value = None, cg_expires_at = None,
            cg_created_at = clk\<rparr>]\<rparr>)"

end
