(* ===== verification/Docs_Generation_Safety.thy ===== *)
theory Docs_Generation_Safety
  imports Docs_Generations
begin

section \<open>What promotion and purge guarantee\<close>

text \<open>
  At most one generation is ever active; a promotion supersedes exactly the one that was; a purge never
  touches the active generation. It does not spare the active generation's predecessor, though.
\<close>

definition generation_keys :: "core_db \<Rightarrow> bool" where
  "generation_keys db = (distinct (map cg_pk (core_generations db)) \<and>
     distinct (map cg_generation_id (core_generations db)))"

definition actives :: "core_db \<Rightarrow> core_generation list" where
  "actives db = filter (\<lambda>g. cg_status g = Gen_active) (core_generations db)"

definition single_active :: "core_db \<Rightarrow> bool" where
  "single_active db = (generation_keys db \<and> length (actives db) \<le> 1)"

inductive generation_step :: "core_db \<Rightarrow> core_db \<Rightarrow> bool" where
  promote: "generation_step db (fst (promote_active_generation clk gid actor db))"
| rollback: "generation_step db (fst (rollback_to_generation clk gid actor db))"
| purge_expired: "generation_step db (fst (purge_expired_generations clk actor db))"
| purge: "generation_step db (fst (purge_generation gid actor db))"
| stage: "generation_step db (stage_row clk gid db)"

subsection \<open>Row lemmas\<close>

lemma active_newest: "active_generations db = newest_first (actives db)"
  by (simp add: active_generations_def actives_def)

lemma set_newest [simp]: "set (newest_first gs) = set gs"
  by (simp add: newest_first_def)

lemma newest_short [simp]: "length gs \<le> 1 \<Longrightarrow> newest_first gs = gs"
  by (cases gs rule: list.exhaust) (auto simp: newest_first_def)

lemma generation_by_id_in:
  "generation_by_id gid db = Some g \<Longrightarrow> g \<in> set (core_generations db) \<and> cg_generation_id g = gid"
  by (auto simp: generation_by_id_def dest: find_row_Some)

lemma same_pk:
  "generation_keys db \<Longrightarrow> a \<in> set (core_generations db) \<Longrightarrow> b \<in> set (core_generations db) \<Longrightarrow>
   cg_pk a = cg_pk b \<Longrightarrow> a = b"
  by (auto simp: generation_keys_def distinct_map dest: inj_onD)

lemma get_core_generation_in:
  "generation_keys db \<Longrightarrow> g \<in> set (core_generations db) \<Longrightarrow> get_core_generation (cg_pk g) db = Some g"
  by (simp add: get_core_generation_def generation_keys_def find_row_in)

lemma put_generation_rows [simp]:
  "core_generations (put_core_generation g db) = put_row cg_pk g (core_generations db)"
  by (simp add: put_core_generation_def)

lemma put_keys:
  assumes "generation_keys db" "g0 \<in> set (core_generations db)" "cg_pk g = cg_pk g0" "cg_generation_id g = cg_generation_id g0"
  shows "generation_keys (put_core_generation g db)"
  using assms map_put_row [of cg_pk "core_generations db" g0 g cg_generation_id]
  by (simp add: generation_keys_def)

lemma keys_audit [simp]: "generation_keys (audit j e a p db) = generation_keys db"
  by (simp add: generation_keys_def)

lemma actives_in: "x \<in> set (actives db) \<longleftrightarrow> x \<in> set (core_generations db) \<and> cg_status x = Gen_active"
  by (auto simp: actives_def)

text \<open>The active rows after one row is written.\<close>

lemma filter_put_row:
  assumes "distinct (map cg_pk rows)" "g0 \<in> set rows" "cg_pk g = cg_pk g0"
  shows "length (filter P (put_row cg_pk g rows)) + (if P g0 then 1 else 0) = length (filter P rows) + (if P g then 1 else 0)"
  using assms
proof (induction rows)
  case (Cons r rows)
  show ?case
  proof (cases "r = g0")
    case True
    then have "cg_pk g \<notin> cg_pk ` set rows" using Cons.prems by simp
    then have "cg_pk x \<noteq> cg_pk g" if "x \<in> set rows" for x using that by (metis imageI)
    then have "put_row cg_pk g rows = rows" unfolding put_row_def by (intro map_idI) auto
    then show ?thesis using True Cons.prems by (simp add: put_row_def)
  next
    case False
    then have "g0 \<in> set rows" "cg_pk r \<noteq> cg_pk g" using Cons.prems by force+
    then show ?thesis using Cons by (simp add: put_row_def)
  qed
qed simp

lemma actives_put:
  assumes "generation_keys db" "g0 \<in> set (core_generations db)" "cg_pk g = cg_pk g0"
  shows "length (actives (put_core_generation g db)) + (if cg_status g0 = Gen_active then 1 else 0) =
    length (actives db) + (if cg_status g = Gen_active then 1 else 0)"
  using filter_put_row [of "core_generations db" g0 g "\<lambda>x. cg_status x = Gen_active"] assms
  by (simp add: generation_keys_def actives_def)

lemma actives_audit [simp]: "actives (audit j e a p db) = actives db"
  by (simp add: actives_def)

lemma single_audit [simp]: "single_active (audit j e a p db) = single_active db"
  by (simp add: single_active_def)

lemma single_put:
  assumes "single_active db" "g0 \<in> set (core_generations db)" "cg_pk g = cg_pk g0" "cg_generation_id g = cg_generation_id g0"
    "cg_status g = Gen_active \<Longrightarrow> cg_status g0 = Gen_active \<or> actives db = []"
  shows "single_active (put_core_generation g db)"
proof -
  have k: "generation_keys db" "length (actives db) \<le> 1" using assms(1) by (auto simp: single_active_def)
  show ?thesis
    using put_keys [OF k(1) assms(2-4)] actives_put [OF k(1) assms(2,3)] k(2) assms(5)
    by (auto simp: single_active_def split: if_splits)
qed


lemma actives_cases:
  assumes "single_active db"
  obtains "actives db = []" | a where "actives db = [a]" "a \<in> set (core_generations db)" "cg_status a = Gen_active"
proof (cases "actives db")
  case (Cons a as)
  then have "actives db = [a]" using assms by (cases as) (auto simp: single_active_def)
  moreover from this have "a \<in> set (actives db)" by simp
  ultimately show thesis using that(2) unfolding actives_in by blast
qed (rule that(1))

text \<open>The active generation, if there is another than the one to promote, is superseded by it.\<close>

lemma supersede_cases:
  assumes "single_active db" "g \<in> set (core_generations db)" "supersede_prior g db = (db1, prior)"
  shows "(prior = None \<and> db1 = db \<and> (\<forall>a \<in> set (actives db). a = g)) \<or>
    (\<exists>p. prior = Some p \<and> actives db = [p] \<and> p \<noteq> g \<and> cg_pk p \<noteq> cg_pk g \<and> cg_status g \<noteq> Gen_active \<and>
       db1 = put_core_generation (p\<lparr>cg_status := Superseded, cg_superseded_by := Some (cg_pk g)\<rparr>) db \<and> actives db1 = [])"
proof (rule actives_cases [OF assms(1)])
  assume "actives db = []"
  then show ?thesis using assms(3) by (auto simp: supersede_prior_def active_newest first_of_def)
next
  fix a assume a: "actives db = [a]" "a \<in> set (core_generations db)" "cg_status a = Gen_active"
  have k: "generation_keys db" using assms(1) by (simp add: single_active_def)
  show ?thesis
  proof (cases "cg_pk a = cg_pk g")
    case True
    then have "a = g" using same_pk [OF k a(2) assms(2)] by simp
    then show ?thesis using a assms(3) by (auto simp: supersede_prior_def active_newest first_of_def)
  next
    case False
    let ?p = "a\<lparr>cg_status := Superseded, cg_superseded_by := Some (cg_pk g)\<rparr>"
    have "cg_status g \<noteq> Gen_active"
    proof
      assume "cg_status g = Gen_active"
      then have "g \<in> set (actives db)" using assms(2) by (simp add: actives_def)
      then show False using a(1) False by simp
    qed
    moreover have "actives (put_core_generation ?p db) = []"
      using actives_put [OF k a(2), of ?p] a(1,3) by simp
    ultimately show ?thesis using a False assms(3) by (auto simp: supersede_prior_def active_newest first_of_def)
  qed
qed

lemma expiry_fields:
  assumes "apply_retention_expiry clk g = Inr g'"
  shows "\<exists>t. g' = g\<lparr>cg_expires_at := t\<rparr>"
  using assms by (auto simp: apply_retention_expiry_def Let_def split: retention_policy.splits option.splits nat.splits)

text \<open>What a promotion that returns leaves.\<close>

lemma promote_cases:
  assumes "promote_active_generation clk gid actor db = (db', Inr g')" "single_active db"
  obtains g db1 prior t j where "generation_by_id gid db = Some g" "cg_status g \<in> {Validated, Gen_active}"
    "supersede_prior g db = (db1, prior)"
    "g' = g\<lparr>cg_status := Gen_active, cg_promoted_at := Some clk, cg_expires_at := t\<rparr>"
    "db' = audit None ''promoted'' actor j (put_core_generation g' db1)"
proof -
  obtain g where g: "generation_by_id gid db = Some g" "cg_status g \<in> {Validated, Gen_active}"
    using assms(1) by (auto simp: promote_active_generation_def split: option.splits if_splits)
  obtain db1 prior where s: "supersede_prior g db = (db1, prior)" by (cases "supersede_prior g db")
  have run: "apply_retention_expiry clk (g\<lparr>cg_status := Gen_active, cg_promoted_at := Some clk\<rparr>) = Inr g'"
    "db' = audit None ''promoted'' actor (JObj [(''generation_id'', JStr (cg_generation_id g)),
        (''superseded'', json_opt (JStr \<circ> cg_generation_id) prior)]) (put_core_generation g' db1)"
    using assms(1) g s by (auto simp: promote_active_generation_def split: sum.splits)
  obtain t where "g' = g\<lparr>cg_status := Gen_active, cg_promoted_at := Some clk, cg_expires_at := t\<rparr>"
    using expiry_fields [OF run(1)] by auto
  then show thesis by (rule that [OF g s]) (rule run(2))
qed

lemma promote_error:
  "promote_active_generation clk gid actor db = (db', Inl e) \<Longrightarrow> db' = db"
  by (auto simp: promote_active_generation_def Let_def split: option.splits if_splits sum.splits prod.splits)

text \<open>What promoting a generation does. Where at most one generation is active, a promotion that
  returns leaves exactly the generation it was asked for active, stamped with the time; the generation
  that was active before, if it is another one, is superseded and points to it; every other row is what
  it was. A promotion that raises changes nothing.\<close>

theorem promote_effect:
  assumes "promote_active_generation clk gid actor db = (db', res)" "single_active db"
  shows "(case res of
      Inl e \<Rightarrow> db' = db
    | Inr g' \<Rightarrow> active_generations db' = [g'] \<and> cg_generation_id g' = gid \<and> cg_promoted_at g' = Some clk \<and>
        (\<forall>r \<in> set (core_generations db). cg_generation_id r \<noteq> gid \<longrightarrow>
           (if cg_status r = Gen_active then r\<lparr>cg_status := Superseded, cg_superseded_by := Some (cg_pk g')\<rparr> else r)
             \<in> set (core_generations db')))"
proof (cases res)
  case (Inl e)
  then show ?thesis using promote_error assms(1) by auto
next
  case (Inr g')
  have k: "generation_keys db" using assms(2) by (simp add: single_active_def)
  obtain g db1 prior t j where c: "generation_by_id gid db = Some g"
    "supersede_prior g db = (db1, prior)"
    "g' = g\<lparr>cg_status := Gen_active, cg_promoted_at := Some clk, cg_expires_at := t\<rparr>"
    "db' = audit None ''promoted'' actor j (put_core_generation g' db1)"
    by (rule promote_cases [OF assms(1) [unfolded Inr] assms(2)])
  note g = generation_by_id_in [OF c(1)]
  have other: "cg_pk r \<noteq> cg_pk g" if "r \<in> set (core_generations db)" "cg_generation_id r \<noteq> gid" for r
    using same_pk [OF k that(1), of g] g that(2) by auto
  note sup = supersede_cases [OF assms(2) g [THEN conjunct1] c(2)]
  show ?thesis
  proof (cases prior)
    case None
    then have n: "db1 = db" "\<forall>a \<in> set (actives db). a = g" using sup by auto
    have "length (actives db) = (if cg_status g = Gen_active then 1 else 0)"
      by (rule actives_cases [OF assms(2)]) (use n(2) g actives_in [of g db] in auto)
    then have "length (actives (put_core_generation g' db)) = 1"
      using actives_put [OF k g [THEN conjunct1], of g'] c(3) by (simp split: if_splits)
    moreover have "g' \<in> set (actives (put_core_generation g' db))"
      using g c(3) by (auto simp: actives_def put_row_def)
    ultimately have "actives db' = [g']" using c(4) n(1)
      by (cases "actives (put_core_generation g' db)") auto
    moreover have "\<forall>r \<in> set (core_generations db). cg_generation_id r \<noteq> gid \<longrightarrow> cg_status r \<noteq> Gen_active"
      using n(2) g by (auto simp: actives_def)
    ultimately show ?thesis using Inr c n other g by (auto simp: active_newest put_row_def)
  next
    case (Some p)
    let ?p = "p\<lparr>cg_status := Superseded, cg_superseded_by := Some (cg_pk g)\<rparr>"
    have p: "actives db = [p]" "cg_pk p \<noteq> cg_pk g" "cg_status g \<noteq> Gen_active" "db1 = put_core_generation ?p db" "actives db1 = []"
      using sup Some by auto
    have pin: "p \<in> set (core_generations db)" "cg_status p = Gen_active"
      using arg_cong [OF p(1), of set] by (auto simp: actives_def)
    have k1: "generation_keys db1" unfolding p(4) by (rule put_keys [OF k pin(1)]) auto
    have gin: "g \<in> set (core_generations db1)" using g p(2) unfolding p(4) by (auto simp: put_row_def)
    have "length (actives (put_core_generation g' db1)) = 1"
      using actives_put [OF k1 gin, of g'] p(3,5) c(3) by simp
    moreover have "g' \<in> set (actives (put_core_generation g' db1))"
      using gin c(3) by (auto simp: actives_def put_row_def)
    ultimately have act: "actives db' = [g']" using c(4)
      by (cases "actives (put_core_generation g' db1)") auto
    have rows: "(if cg_status r = Gen_active then r\<lparr>cg_status := Superseded, cg_superseded_by := Some (cg_pk g')\<rparr> else r)
             \<in> set (core_generations db')"
      if r: "r \<in> set (core_generations db)" "cg_generation_id r \<noteq> gid" for r
    proof -
      have m: "x \<in> set (core_generations db')" if "x \<in> set (core_generations db1)" "cg_pk x \<noteq> cg_pk g" for x
        using that c(3,4) by (auto simp: put_row_def)
      have "(if cg_pk r = cg_pk p then ?p else r) \<in> set (core_generations db1)" using r(1) unfolding p(4) by (auto simp: put_row_def)
      moreover have "cg_status r = Gen_active \<longleftrightarrow> r = p" using p(1) r(1) actives_in [of r db] by simp
      moreover have "cg_pk r = cg_pk p \<longleftrightarrow> r = p" using same_pk [OF k r(1) pin(1)] by auto
      ultimately show ?thesis using m [of "if cg_pk r = cg_pk p then ?p else r"] other [OF r] p(2) c(3) by (auto split: if_splits)
    qed
    have "active_generations db' = [g'] \<and> cg_generation_id g' = gid \<and> cg_promoted_at g' = Some clk"
      using act c(3) g by (simp add: active_newest)
    then show ?thesis using Inr rows by simp
  qed
qed


subsection \<open>One active generation\<close>

lemma single_promote:
  assumes "single_active db"
  shows "single_active (fst (promote_active_generation clk gid actor db))"
proof (cases "promote_active_generation clk gid actor db")
  case (Pair db' res)
  show ?thesis
  proof (cases res)
    case (Inl e)
    then show ?thesis using promote_error [of clk gid actor db db' e] Pair assms by simp
  next
    case (Inr g')
    obtain g db1 prior t j where c: "generation_by_id gid db = Some g" "supersede_prior g db = (db1, prior)"
      "g' = g\<lparr>cg_status := Gen_active, cg_promoted_at := Some clk, cg_expires_at := t\<rparr>"
      "db' = audit None ''promoted'' actor j (put_core_generation g' db1)"
      by (rule promote_cases [OF Pair [unfolded Inr] assms])
    note g = generation_by_id_in [OF c(1)]
    have s: "single_active db1 \<and> g \<in> set (core_generations db1) \<and> (cg_status g = Gen_active \<or> actives db1 = [])"
      using supersede_cases [OF assms g [THEN conjunct1] c(2)]
    proof (elim disjE exE conjE)
      assume n: "db1 = db" "\<forall>a \<in> set (actives db). a = g"
      have "actives db = [] \<or> cg_status g = Gen_active" using n(2) actives_in [of g db]
        by (cases "actives db") (auto simp: actives_in)
      then show ?thesis using n assms g by auto
    next
      fix p assume p: "actives db = [p]" "cg_pk p \<noteq> cg_pk g" "actives db1 = []"
        "db1 = put_core_generation (p\<lparr>cg_status := Superseded, cg_superseded_by := Some (cg_pk g)\<rparr>) db"
      have "p \<in> set (core_generations db)" using actives_in [of p db] p(1) by simp
      then have "single_active db1" unfolding p(4) by (intro single_put [OF assms]) auto
      moreover have "g \<in> set (core_generations db1)" using g p(2) unfolding p(4) by (auto simp: put_row_def)
      ultimately show ?thesis using p(3) by simp
    qed
    then have "single_active (put_core_generation g' db1)"
      using c(3) by (intro single_put [of db1 g]) auto
    then show ?thesis using Pair c(4) by simp
  qed
qed

lemma single_restage:
  "single_active db \<Longrightarrow> g \<in> set (core_generations db) \<Longrightarrow> single_active (restage clk g db)"
  by (auto simp: restage_def intro!: single_put)

lemma single_rollback:
  assumes "single_active db"
  shows "single_active (fst (rollback_to_generation clk gid actor db))"
proof -
  have "single_active (fst (promote_active_generation clk gid actor (restage clk g db)))"
    if "generation_by_id gid db = Some g" for g
    using single_promote single_restage [OF assms] generation_by_id_in [OF that] by blast
  then show ?thesis using assms
    by (auto simp: rollback_to_generation_def split: option.splits if_splits prod.splits sum.splits)
qed

lemma audit_fold_rows [simp]:
  "core_generations (fold (\<lambda>gid d. audit None et actor (f gid) d) ids db) = core_generations db"
  by (induction ids arbitrary: db) auto

lemma purge_expired_rows:
  "core_generations (fst (purge_expired_generations clk actor db)) =
     map (\<lambda>r. if cg_pk r \<in> cg_pk ` set (purge_targets clk db) then r\<lparr>cg_status := Purged\<rparr> else r) (core_generations db)"
  by (simp add: purge_expired_generations_def Let_def purge_rows_def)

lemma single_purged:
  assumes "single_active db" "core_generations db' = map (\<lambda>r. if P r then r\<lparr>cg_status := Purged\<rparr> else r) (core_generations db)"
  shows "single_active db'"
proof -
  have "map cg_pk (core_generations db') = map cg_pk (core_generations db)"
    "map cg_generation_id (core_generations db') = map cg_generation_id (core_generations db)"
    using assms(2) by auto
  moreover have "length (filter (\<lambda>g. cg_status g = Gen_active) (map (\<lambda>r. if P r then r\<lparr>cg_status := Purged\<rparr> else r) rows)) \<le>
      length (filter (\<lambda>g. cg_status g = Gen_active) rows)" for rows
    by (induction rows) auto
  then have "length (actives db') \<le> length (actives db)" unfolding actives_def assms(2) .
  ultimately show ?thesis using assms(1) unfolding single_active_def generation_keys_def by simp
qed

lemma single_purge: "single_active db \<Longrightarrow> single_active (fst (purge_generation gid actor db))"
  by (auto simp: purge_generation_def Let_def split: option.splits dest: generation_by_id_in intro!: single_put)

lemma single_stage:
  assumes "single_active db"
  shows "single_active (stage_row clk gid db)"
proof (cases "generation_by_id gid db")
  case None
  have "next_generation_pk db \<notin> cg_pk ` set (core_generations db)"
  proof
    assume "next_generation_pk db \<in> cg_pk ` set (core_generations db)"
    then have "next_generation_pk db \<le> fold max (map cg_pk (core_generations db)) 0" by (intro fold_max_ge) simp
    then show False by (simp add: next_generation_pk_def)
  qed
  moreover have "gid \<notin> cg_generation_id ` set (core_generations db)"
    using None by (simp add: generation_by_id_def find_row_None)
  ultimately show ?thesis using assms None
    by (auto simp: stage_row_def single_active_def generation_keys_def actives_def)
next
  case (Some g)
  then show ?thesis using assms generation_by_id_in [OF Some]
    by (auto simp: stage_row_def intro!: single_put)
qed

interpretation generation_runs: invariant_steps generation_step single_active
proof unfold_locales
  fix s t assume "generation_step s t" "single_active s"
  then show "single_active t"
    by (induction rule: generation_step.induct)
      (auto intro: single_promote single_rollback single_purge single_stage single_purged [OF _ purge_expired_rows])
qed

text \<open>C31: There is never a second active generation. From a table with unique keys and at most one active
  generation, no sequence of promotions, rollbacks, purges and stagings, whether they return or raise,
  leads to two active generations or to two rows with one generation id.\<close>

theorem one_active_generation:
  assumes "generation_step\<^sup>*\<^sup>* db db'" "single_active db"
  shows "length (active_generations db') \<le> 1 \<and> distinct (map cg_generation_id (core_generations db'))"
  using generation_runs.run_inv [OF assms]
  by (simp add: single_active_def generation_keys_def active_newest)


subsection \<open>Purge\<close>

lemma purge_targets_iff:
  "g \<in> set (purge_targets clk db) \<longleftrightarrow> g \<in> set (core_generations db) \<and> cg_status g \<noteq> Gen_active \<and>
     (\<exists>t. cg_expires_at g = Some t \<and> t < clk) \<and> spared_by_purge db \<noteq> Some (cg_pk g)"
  by (auto simp: purge_targets_def expired_generations_def split: option.splits)

lemma filter_update:
  "(\<And>r. r \<in> set rows \<Longrightarrow> Q r \<Longrightarrow> \<not> P r \<and> \<not> P (f r)) \<Longrightarrow>
   filter P (map (\<lambda>r. if Q r then f r else r) rows) = filter P rows"
  by (induction rows) auto

text \<open>A purge leaves the active generations alone.\<close>

lemma purge_keeps_active:
  assumes "generation_keys db"
  shows "actives (fst (purge_expired_generations clk actor db)) = actives db"
  unfolding actives_def purge_expired_rows
proof (rule filter_update)
  fix r assume r: "r \<in> set (core_generations db)" "cg_pk r \<in> cg_pk ` set (purge_targets clk db)"
  then obtain x where "x \<in> set (purge_targets clk db)" "cg_pk r = cg_pk x" by auto
  then have "r = x" "cg_status x \<noteq> Gen_active" using same_pk [OF assms r(1)] by (auto simp: purge_targets_iff)
  then show "\<not> cg_status r = Gen_active \<and> \<not> cg_status (r\<lparr>cg_status := Purged\<rparr>) = Gen_active" by simp
qed

text \<open>A purge can delete the predecessor it means to spare. After a promotion the generation that was
  active is the immediate predecessor of the active one, and points to it. Once its own retention ran
  out the next purge takes it all the same: what the purge spares is what the active generation was
  superseded by, not what it superseded. The active generation itself is never purged.\<close>

theorem predecessor_purged:
  assumes "single_active db" "active_generations db = [p]"
    "promote_active_generation clk gid actor db = (db1, Inr g')" "cg_pk g' \<noteq> cg_pk p"
    "cg_superseded_by g' \<noteq> Some (cg_pk p)" "cg_expires_at p = Some t" "t < clk'"
  shows "cg_generation_id p \<in> set (snd (purge_expired_generations clk' actor' db1)) \<and>
    p\<lparr>cg_superseded_by := Some (cg_pk g'), cg_status := Purged\<rparr>
      \<in> set (core_generations (fst (purge_expired_generations clk' actor' db1))) \<and>
    active_generations (fst (purge_expired_generations clk' actor' db1)) = [g']"
proof -
  obtain g db0 prior t' j where c: "generation_by_id gid db = Some g" "supersede_prior g db = (db0, prior)"
    "g' = g\<lparr>cg_status := Gen_active, cg_promoted_at := Some clk, cg_expires_at := t'\<rparr>"
    "db1 = audit None ''promoted'' actor j (put_core_generation g' db0)"
    by (rule promote_cases [OF assms(3,1)])
  note g = generation_by_id_in [OF c(1)]
  have ap: "actives db = [p]" using assms(1,2) by (simp add: active_newest single_active_def)
  have pin: "p \<in> set (core_generations db)" using actives_in [of p db] ap by simp
  let ?p = "p\<lparr>cg_status := Superseded, cg_superseded_by := Some (cg_pk g')\<rparr>"
  have s: "db0 = put_core_generation ?p db" "cg_status g \<noteq> Gen_active" "actives db0 = []"
    using supersede_cases [OF assms(1) g [THEN conjunct1] c(2)] ap c(3) assms(4) by auto
  have k: "generation_keys db" using assms(1) by (simp add: single_active_def)
  have k0: "generation_keys db0" unfolding s(1) by (rule put_keys [OF k pin]) auto
  have gin: "g \<in> set (core_generations db0)" using g assms(4) c(3) unfolding s(1) by (auto simp: put_row_def)
  have "length (actives db1) = 1" using actives_put [OF k0 gin, of g'] s(2,3) c(3,4) by simp
  moreover have "g' \<in> set (actives db1)" using gin c(3,4) by (auto simp: actives_in put_row_def)
  ultimately have a1: "actives db1 = [g']" by (cases "actives db1") auto
  have spared: "spared_by_purge db1 = cg_superseded_by g'"
    using a1 by (simp add: spared_by_purge_def active_newest first_of_def)
  have "?p \<in> set (core_generations db0)" using pin unfolding s(1) by (force simp: put_row_def)
  then have p1: "?p \<in> set (core_generations db1)" using c(3,4) assms(4) by (force simp: put_row_def)
  have target: "?p \<in> set (purge_targets clk' db1)"
    using p1 assms(5-7) spared by (simp add: purge_targets_iff)
  have ids: "cg_generation_id p \<in> set (snd (purge_expired_generations clk' actor' db1))"
    using imageI [OF target, of cg_generation_id] by (simp add: purge_expired_generations_def Let_def)
  have k1: "generation_keys db1" using k0 put_keys [OF k0 gin, of g'] c(3,4) by simp
  have "actives (fst (purge_expired_generations clk' actor' db1)) = actives db1"
    by (rule purge_keeps_active [OF k1])
  then have act: "active_generations (fst (purge_expired_generations clk' actor' db1)) = [g']"
    using a1 by (simp add: active_newest)
  have "(\<lambda>r. if cg_pk r \<in> cg_pk ` set (purge_targets clk' db1) then r\<lparr>cg_status := Purged\<rparr> else r) ?p
      \<in> set (core_generations (fst (purge_expired_generations clk' actor' db1)))"
    unfolding purge_expired_rows set_map by (rule imageI [OF p1])
  then show ?thesis using ids act imageI [OF target, of cg_pk] by simp
qed

subsection \<open>Witnesses\<close>

definition sample_generation :: "nat \<Rightarrow> string \<Rightarrow> generation_status \<Rightarrow> core_generation" where
  "sample_generation k gid st = \<lparr>cg_pk = k, cg_generation_id = gid, cg_status = st, cg_validated_at = None,
     cg_promoted_at = None, cg_superseded_by = None, cg_retention_policy = Age_based, cg_retention_value = Some 1,
     cg_expires_at = Some 50, cg_created_at = int k\<rparr>"

definition sample_generations :: core_db where
  "sample_generations = \<lparr>pdfs = [], folders = [], core_generations =
     [sample_generation 1 ''a'' Gen_active, sample_generation 2 ''b'' Validated], mjobs = [], mitems = [], mevents = []\<rparr>"

lemma sample_single: "single_active sample_generations"
  by (simp add: single_active_def generation_keys_def actives_def sample_generations_def sample_generation_def)

lemma sample_promotion: "\<exists>db'. promote_active_generation 100 ''b'' None sample_generations =
    (db', Inr ((sample_generation 2 ''b'' Gen_active)\<lparr>cg_promoted_at := Some 100, cg_expires_at := Some 86400000100\<rparr>))"
  by (simp add: promote_active_generation_def generation_by_id_def find_row_def sample_generations_def sample_generation_def
      apply_retention_expiry_def seconds_def last_instant_def split: prod.split)

theorem promote_effect_witness:
  "length (active_generations (fst (promote_active_generation 100 ''b'' None sample_generations))) = 1"
proof -
  obtain db' where r: "promote_active_generation 100 ''b'' None sample_generations =
    (db', Inr ((sample_generation 2 ''b'' Gen_active)\<lparr>cg_promoted_at := Some 100, cg_expires_at := Some 86400000100\<rparr>))"
    using sample_promotion by blast
  show ?thesis using promote_effect [OF r sample_single] r by simp
qed

theorem one_active_generation_witness:
  "length (active_generations (fst (promote_active_generation 100 ''b'' None sample_generations))) \<le> 1"
  using one_active_generation [OF r_into_rtranclp [of generation_step, OF generation_step.promote] sample_single] by blast

theorem predecessor_purged_witness:
  "''a'' \<in> set (snd (purge_expired_generations 200 None (fst (promote_active_generation 100 ''b'' None sample_generations))))"
proof -
  obtain db' where r: "promote_active_generation 100 ''b'' None sample_generations =
    (db', Inr ((sample_generation 2 ''b'' Gen_active)\<lparr>cg_promoted_at := Some 100, cg_expires_at := Some 86400000100\<rparr>))"
    using sample_promotion by blast
  have a: "active_generations sample_generations = [sample_generation 1 ''a'' Gen_active]"
    using sample_single by (simp add: active_newest single_active_def)
      (simp add: actives_def sample_generations_def sample_generation_def)
  show ?thesis using predecessor_purged [OF sample_single a r, of 50 200] r
    by (auto simp: sample_generation_def)
qed

end
