(* ===== verification/Search_Chunks.thy ===== *)
theory Search_Chunks
  imports Flow_Prelude
begin

section \<open>Chunks of text\<close>

text \<open>
  \<^verbatim>\<open>chunk_text\<close> of \<^verbatim>\<open>flowdocs/core/utils.py\<close>, which cuts the text of a document into overlapping
  chunks before it is embedded. The sizes come from the settings, so they are integers; a size that is
  not positive slices as Python does.
\<close>

definition py_slice :: "int \<Rightarrow> int \<Rightarrow> string \<Rightarrow> string" where
  "py_slice a b s = (let n = int (length s);
     lo = (if a < 0 then max 0 (n + a) else min a n);
     hi = (if b < 0 then max 0 (n + b) else min b n) in
     drop (nat lo) (take (nat hi) s))"

definition chunk_step :: "int \<Rightarrow> int \<Rightarrow> int" where
  "chunk_step size' overlap = max 1 (size' - overlap)"

function chunks_from :: "int \<Rightarrow> int \<Rightarrow> string \<Rightarrow> int \<Rightarrow> string list" where
  "chunks_from size' overlap s start =
     (if start < int (length s) then
        py_slice start (min (start + size') (int (length s))) s #
          chunks_from size' overlap s (start + chunk_step size' overlap)
      else [])"
  by pat_completeness auto

termination
  by (relation "measure (\<lambda>(_, _, s, start). nat (int (length s) - start))") (auto simp: chunk_step_def)

declare chunks_from.simps [simp del]

lemma chunks_from_end: "\<not> start < int (length s) \<Longrightarrow> chunks_from size' overlap s start = []"
  by (simp add: chunks_from.simps)

lemma chunks_from_more: "start < int (length s) \<Longrightarrow> chunks_from size' overlap s start =
    py_slice start (min (start + size') (int (length s))) s #
      chunks_from size' overlap s (start + chunk_step size' overlap)"
  by (subst chunks_from.simps) simp

definition chunk_text :: "string \<Rightarrow> int \<Rightarrow> int \<Rightarrow> string list" where
  "chunk_text s size' overlap = (if s = [] then [] else chunks_from size' overlap s 0)"

subsection \<open>Coverage\<close>

lemma py_slice_nat: "0 \<le> a \<Longrightarrow> 0 \<le> b \<Longrightarrow> py_slice a b s = drop (nat a) (take (nat b) s)"
proof -
  assume ab: "0 \<le> a" "0 \<le> b"
  have d: "drop (nat (min a (int (length s)))) xs = drop (nat a) xs" if "length xs \<le> length s" for xs :: string
    using that ab by (cases "a \<le> int (length s)") auto
  have t: "take (nat (min b (int (length s)))) s = take (nat b) s"
    using ab by (cases "b \<le> int (length s)") auto
  show ?thesis using ab d [of "take (nat b) s"] t by (simp add: py_slice_def Let_def)
qed

lemma chunks_from_member:
  assumes "0 < size'" "0 \<le> overlap" "overlap < size'" "0 \<le> start"
    "start + int k * chunk_step size' overlap < int (length s)"
  shows "drop (nat (start + int k * chunk_step size' overlap))
      (take (nat (start + int k * chunk_step size' overlap + size')) s) \<in> set (chunks_from size' overlap s start)"
  using assms(4,5)
proof (induction k arbitrary: start)
  case 0
  have "py_slice start (min (start + size') (int (length s))) s = drop (nat start) (take (nat (start + size')) s)"
    using assms(1) 0 by (subst py_slice_nat) (auto simp: min_def)
  then show ?case using 0 by (simp add: chunks_from_more)
next
  case (Suc k)
  have p: "0 < chunk_step size' overlap" by (simp add: chunk_step_def)
  have e: "start + int (Suc k) * chunk_step size' overlap = (start + chunk_step size' overlap) + int k * chunk_step size' overlap"
    by (simp add: algebra_simps)
  have n: "0 \<le> start + chunk_step size' overlap" using p Suc.prems(1) by simp
  have "0 \<le> int (Suc k) * chunk_step size' overlap" using p by simp
  then have "start < int (length s)" using Suc.prems(2) by linarith
  then show ?case
    using Suc.IH [OF n] Suc.prems(2) unfolding e by (simp add: chunks_from_more)
qed

text \<open>No window of text is lost at a chunk border. With a positive chunk size and an overlap below it,
  every piece of the text no longer than the overlap plus one character stands in full inside one
  chunk, at the place it has in the text; so the overlap is what the search can rely on.\<close>

theorem chunk_windows_covered:
  assumes "0 \<le> overlap" "overlap < size'" "s = pre @ w @ post" "int (length w) \<le> overlap + 1" "w \<noteq> []"
  shows "\<exists>c a b. c \<in> set (chunk_text s size' overlap) \<and> c = a @ w @ b"
proof -
  let ?d = "chunk_step size' overlap"
  have d: "?d = size' - overlap" "0 < ?d" using assms(2) by (auto simp: chunk_step_def)
  let ?i = "int (length pre)"
  let ?k = "?i div ?d"
  have k0: "0 \<le> ?k" using d by (simp add: pos_imp_zdiv_nonneg_iff)
  have "?i = ?k * ?d + ?i mod ?d" by (simp only: div_mult_mod_eq)
  then have k: "?k * ?d \<le> ?i" "?i - ?k * ?d < ?d"
    using pos_mod_sign [OF d(2), of ?i] pos_mod_bound [OF d(2), of ?i] by linarith+
  have len: "?i < int (length s)" using assms(3,5) by (cases w) auto
  let ?c = "drop (nat (?k * ?d)) (take (nat (?k * ?d + size')) s)"
  have mem: "?c \<in> set (chunk_text s size' overlap)"
    using chunks_from_member [of size' overlap 0 "nat ?k" s] assms(1,2,3,5) k0 k(1) len
    by (auto simp: chunk_text_def)
  have kn: "nat (?k * ?d) \<le> length pre" using k(1) by linarith
  have hi: "length (pre @ w) \<le> nat (?k * ?d + size')" using k(2) d(1) assms(4) by simp
  obtain rest where "take (nat (?k * ?d + size')) s = pre @ w @ rest"
  proof -
    have "take (nat (?k * ?d + size')) s = (pre @ w) @ take (nat (?k * ?d + size') - length (pre @ w)) post"
      using hi by (simp add: assms(3) append_assoc [symmetric] del: append_assoc)
    then show thesis using that by simp
  qed
  then have "?c = drop (nat (?k * ?d)) pre @ w @ rest" using kn by simp
  with mem show ?thesis by blast
qed

theorem chunk_windows_covered_witness:
  "\<exists>c a b. c \<in> set (chunk_text ''abcdefgh'' 4 2) \<and> c = a @ ''def'' @ b"
  using chunk_windows_covered [of 2 4 "''abcdefgh''" "''abc''" "''def''" "''gh''"] by simp

text \<open>Every chunk is a piece of the text of at most the chunk size.\<close>

lemma chunks_bounded:
  assumes "0 < size'" "0 \<le> start" "c \<in> set (chunks_from size' overlap s start)"
  shows "int (length c) \<le> size' \<and> (\<exists>a b. s = a @ c @ b)"
  using assms
proof (induction size' overlap s start rule: chunks_from.induct)
  case (1 size' overlap s start)
  show ?case
  proof (cases "start < int (length s)")
    case False
    then show ?thesis using 1(4) by (simp add: chunks_from_end)
  next
    case True
    have st: "0 \<le> start + chunk_step size' overlap" using 1 by (simp add: chunk_step_def)
    let ?c = "drop (nat start) (take (nat (min (start + size') (int (length s)))) s)"
    have head: "py_slice start (min (start + size') (int (length s))) s = ?c"
      using 1 True by (subst py_slice_nat) auto
    consider "c = ?c" | "c \<in> set (chunks_from size' overlap s (start + chunk_step size' overlap))"
      using 1(4) True head by (auto simp: chunks_from_more)
    then show ?thesis
    proof cases
      case 1
      have "int (length ?c) \<le> size'" using True "1.prems"(1,2) by auto
      moreover have "s = take (nat start) s @ ?c @ drop (nat (min (start + size') (int (length s)))) s"
      proof -
        let ?e = "nat (min (start + size') (int (length s)))"
        have "take (nat start) s = take (nat start) (take ?e s)"
          using True "1.prems"(1,2) by (auto simp: min_def nat_le_iff)
        then have "take (nat start) s @ ?c = take ?e s" by (metis append_take_drop_id)
        then show ?thesis by (metis append_assoc append_take_drop_id)
      qed
      ultimately show ?thesis using 1 by blast
    next
      case 2
      then show ?thesis using "1.IH" [OF True] "1.prems"(1) st by blast
    qed
  qed
qed


subsection \<open>A closed form\<close>

text \<open>The chunk that starts at \<open>a\<close>. A size that is not positive gives an end before the start, which is an empty chunk,
  unless it lies before the text and counts from its end.\<close>

definition chunk_window :: "string \<Rightarrow> int \<Rightarrow> nat \<Rightarrow> string" where
  "chunk_window s size' a =
     (if 0 < size' then take (nat size') (drop a s)
      else if int a + size' < 0 then take (nat (int (length s) + size')) (drop a s) else [])"

lemma slice_window:
  assumes "a < length s"
  shows "py_slice (int a) (min (int a + size') (int (length s))) s = chunk_window s size' a"
proof (cases "0 < size'")
  case True
  have "nat (min (int a + size') (int (length s))) = min (a + nat size') (length s)" using True assms by auto
  then show ?thesis
    using True assms by (subst py_slice_nat) (auto simp: chunk_window_def take_drop min_def add.commute)
next
  case False
  have lo: "nat (min (int a) (int (length s))) = a" using assms by simp
  have hi: "min (int a + size') (int (length s)) = int a + size'" using False assms by simp
  show ?thesis
  proof (cases "int a + size' < 0")
    case True
    have "nat (max 0 (int (length s) + (int a + size'))) = a + nat (int (length s) + size') \<or> int (length s) + size' \<le> 0"
      by linarith
    then show ?thesis
    proof
      assume "nat (max 0 (int (length s) + (int a + size'))) = a + nat (int (length s) + size')"
      then show ?thesis using False True lo unfolding hi
        by (simp add: py_slice_def chunk_window_def Let_def take_drop add.commute)
    next
      assume "int (length s) + size' \<le> 0"
      then show ?thesis using False True lo unfolding hi
        by (simp add: py_slice_def chunk_window_def Let_def)
    qed
  next
    case inside: False
    then have "nat (min (int a + size') (int (length s))) \<le> a" using False by linarith
    then show ?thesis using False inside lo unfolding hi
      by (simp add: py_slice_def chunk_window_def Let_def)
  qed
qed

lemma chunks_from_closed:
  assumes "d = nat (chunk_step size' overlap)"
  shows "chunks_from size' overlap s (int a) =
    map (\<lambda>k. chunk_window s size' (a + k * d)) [0..<(length s - a + d - 1) div d]"
proof (induction "length s - a" arbitrary: a rule: less_induct)
  case less
  have d: "0 < d" "int d = chunk_step size' overlap" using assms by (auto simp: chunk_step_def)
  show ?case
  proof (cases "a < length s")
    case False
    then show ?thesis using d(1) by (simp add: chunks_from_end)
  next
    case True
    have IH: "chunks_from size' overlap s (int (a + d)) =
        map (\<lambda>k. chunk_window s size' (a + d + k * d)) [0..<(length s - (a + d) + d - 1) div d]"
      using True d(1) by (intro less.hyps) auto
    have n: "(length s - a + d - 1) div d = Suc ((length s - (a + d) + d - 1) div d)"
    proof (cases "a + d \<le> length s")
      case True
      then have e: "length s - a + d - 1 = (length s - (a + d) + d - 1) + d" using d(1) by linarith
      show ?thesis by (subst e) (use d(1) in \<open>simp only: div_add_self2 Suc_eq_plus1\<close>)
    next
      case False
      have "(length s - a + d - 1) div d = 1"
        using False True d(1) by (intro div_nat_eqI) auto
      then show ?thesis using False d(1) by simp
    qed
    define w where "w k = chunk_window s size' (a + k * d)" for k
    have "chunks_from size' overlap s (int a) = w 0 # map (\<lambda>k. w (Suc k)) [0..<(length s - (a + d) + d - 1) div d]"
      using chunks_from_more [of "int a" s size' overlap] True slice_window [OF True] IH d(2)
      by (simp add: w_def add.assoc)
    also have "\<dots> = map w [0..<Suc ((length s - (a + d) + d - 1) div d)]"
      by (simp add: map_upt_Suc del: upt_Suc)
    also have "\<dots> = map w [0..<(length s - a + d - 1) div d]" by (simp only: n)
    finally show ?thesis unfolding w_def .
  qed
qed

text \<open>C33: The chunking loop computes the plain list of windows, for every size and overlap, negative ones included. They
  start at every multiple of the step, where the step is the size less the
  overlap but at least one; so it ends after as many chunks as the text has steps. For a positive size a window
  has that size, cut off at the end of the text. For another it is empty, unless the size reaches back before the beginning
  of the text: then it leaves out as many characters as the size is negative.\<close>

theorem chunk_text_reference:
  "chunk_text s size' overlap =
    map (\<lambda>k. chunk_window s size' (k * nat (chunk_step size' overlap)))
      [0..<(length s + nat (chunk_step size' overlap) - 1) div nat (chunk_step size' overlap)]"
proof (cases "s = []")
  case True
  have "0 < nat (chunk_step size' overlap)" by (simp add: chunk_step_def)
  then show ?thesis using True by (simp add: chunk_text_def)
next
  case False
  then show ?thesis using chunks_from_closed [OF refl, of size' overlap s 0] by (simp add: chunk_text_def)
qed

theorem chunk_text_reference_witness:
  "chunk_text ''abcdefg'' 4 1 = [''abcd'', ''defg'', ''g''] \<and> chunk_text ''abcd'' (- 1) 1 = [''abc'', [], [], []]"
  using chunk_text_reference [of "''abcdefg''" 4 1] chunk_text_reference [of "''abcd''" "- 1" 1]
  by (simp add: chunk_step_def upt_rec chunk_window_def)

end
