(* ===== verification/Docs_Jobs.thy ===== *)
theory Docs_Jobs
  imports Docs_Generations Search_Chunks
begin

section \<open>The maintenance queue\<close>

text \<open>
  The durable queue of \<^verbatim>\<open>flowdocs/core/maintenance.py\<close> and its worker, \<^verbatim>\<open>run_maintenance_jobs.py\<close>.

  What the run calls outside the database is a field of \<open>job_env\<close>: the text extraction and the
  embedding provider, the index builder, the storage, the object-store transfers of a generation. The
  field \<open>jx_between\<close> is what other transactions do before the run reads the job's status for the n-th
  time. One run reads one clock value. The run keeps its own copy of the job, as the code does, and
  every save writes the columns it names; an exception that leaves the run keeps what was saved.
\<close>

record exn =
  ex_integrity :: bool
  ex_class :: string
  ex_text :: string
  ex_reason :: "string option"

definition search_integrity :: "string \<Rightarrow> exn" where
  "search_integrity m = \<lparr>ex_integrity = True, ex_class = ''searchdataintegrityerror'', ex_text = m, ex_reason = None\<rparr>"

definition other_exn :: "string \<Rightarrow> string \<Rightarrow> exn" where
  "other_exn cls m = \<lparr>ex_integrity = False, ex_class = cls, ex_text = m, ex_reason = None\<rparr>"

definition does_not_exist :: exn where
  "does_not_exist = other_exn ''doesnotexist'' ''matching query does not exist.''"

fun scope_exn :: "mutation_error \<Rightarrow> exn" where
  "scope_exn (Snapshot_barrier_active c) = (other_exn ''snapshotbarrieractive'' c)\<lparr>ex_reason := Some c\<rparr>"
| "scope_exn (Consistent_snapshot_unproven c) = (other_exn ''consistentsnapshotunproven'' c)\<lparr>ex_reason := Some c\<rparr>"
| "scope_exn (Barrier_ownership_lost c) = (other_exn ''barrierownershiplost'' c)\<lparr>ex_reason := Some c\<rparr>"
| "scope_exn State_missing = does_not_exist"

fun exn_of :: "doc_error \<Rightarrow> exn" where
  "exn_of (Integrity m) = search_integrity m"
| "exn_of Media_absent = search_integrity ''Document media is absent from approved local storage''"
| "exn_of (Rejected c) = other_exn ''lifecycledecisionrejected'' c"
| "exn_of Row_missing = does_not_exist"
| "exn_of Index_error = other_exn ''indexerror'' ''tuple index out of range''"
| "exn_of Date_overflow = other_exn ''overflowerror'' ''date value out of range''"
| "exn_of (Scope_refused e) = scope_exn e"

definition error_code :: "exn \<Rightarrow> string" where
  "error_code e = (if ex_integrity e then ''integrity'' else take 64 (ex_class e))"

record job_env =
  jx_clock :: instant
  jx_repr :: "json \<Rightarrow> string"
  jx_chunk_size :: int
  jx_chunk_overlap :: int
  jx_embed_model :: string
  jx_extract :: "string \<Rightarrow> exn + string"
  jx_embed :: "string list \<Rightarrow> exn + json list"
  jx_build_index :: "nat \<Rightarrow> core_db \<Rightarrow> exn + bool"
  jx_storage :: "string \<Rightarrow> bool"
  jx_sync :: "core_db \<Rightarrow> core_db \<times> (exn + string)"
  jx_stage :: "string \<Rightarrow> core_db \<Rightarrow> core_db \<times> (exn + string)"
  jx_between :: "nat \<Rightarrow> core_db \<Rightarrow> core_db"

subsection \<open>Rows\<close>

definition get_mjob :: "nat \<Rightarrow> core_db \<Rightarrow> maintenance_job option" where
  "get_mjob pk db = find_row mj_pk pk (mjobs db)"

definition upd_mjob :: "nat \<Rightarrow> (maintenance_job \<Rightarrow> maintenance_job) \<Rightarrow> core_db \<Rightarrow> core_db" where
  "upd_mjob pk f db = db\<lparr>mjobs := map (\<lambda>r. if mj_pk r = pk then f r else r) (mjobs db)\<rparr>"

definition upd_item :: "nat \<Rightarrow> (job_item \<Rightarrow> job_item) \<Rightarrow> core_db \<Rightarrow> core_db" where
  "upd_item pk f db = db\<lparr>mitems := map (\<lambda>r. if it_pk r = pk then f r else r) (mitems db)\<rparr>"

definition upd_pdf :: "nat \<Rightarrow> (pdf_file \<Rightarrow> pdf_file) \<Rightarrow> core_db \<Rightarrow> core_db" where
  "upd_pdf pk f db = db\<lparr>pdfs := map (\<lambda>r. if pdf_pk r = pk then f r else r) (pdfs db)\<rparr>"

definition next_pk :: "nat list \<Rightarrow> nat" where
  "next_pk ks = Suc (fold max ks 0)"

subsection \<open>Queueing and claiming\<close>

definition new_item :: "nat \<Rightarrow> nat \<Rightarrow> nat option \<Rightarrow> nat option \<Rightarrow> job_item" where
  "new_item pk job p f = \<lparr>it_pk = pk, it_job = job, it_pdf = p, it_folder = f, it_status = It_queued,
     it_attempts = 0, it_error_code = [], it_error_message = [], it_started_at = None, it_finished_at = None\<rparr>"

definition new_items :: "nat \<Rightarrow> core_db \<Rightarrow> pdf_file list \<Rightarrow> nat list \<Rightarrow> job_item list" where
  "new_items job db ps fs = (let k = next_pk (map it_pk (mitems db)) in
     if ps \<noteq> [] then map (\<lambda>(i, p). new_item (k + i) job (Some (pdf_pk p)) (pdf_folder p)) (enumerate 0 ps)
     else map (\<lambda>(i, f). new_item (k + i) job None (Some f)) (enumerate 0 fs))"

text \<open>A document may stand in a job once; the constraint undoes the whole transaction.\<close>

definition queue_job ::
  "instant \<Rightarrow> string \<Rightarrow> string \<Rightarrow> string option \<Rightarrow> pdf_file list \<Rightarrow> nat list \<Rightarrow> json \<Rightarrow> json \<Rightarrow> core_db \<Rightarrow>
   exn + core_db \<times> maintenance_job" where
  "queue_job clk pid kind actor ps fs scope options db =
     bind_res (require (distinct (map pdf_pk ps)) (other_exn ''integrityerror''
       ''UNIQUE constraint failed: core_maintenancejobitem.job_id, core_maintenancejobitem.pdf_id'')) (\<lambda>_.
     let pk = next_pk (map mj_pk (mjobs db));
          total = (if ps \<noteq> [] then length ps else if fs \<noteq> [] then length fs
                   else if kind = ''sync_generation'' then 1 else 0);
          job = \<lparr>mj_pk = pk, mj_public_id = pid, mj_kind = kind, mj_status = Mj_queued,
            mj_scope = json_or scope (JObj []), mj_options = json_or options (JObj []), mj_total_items = total,
            mj_completed_items = 0, mj_failed_items = 0, mj_error_summary = [], mj_requested_by = actor,
            mj_created_at = clk, mj_started_at = None, mj_finished_at = None, mj_updated_at = clk\<rparr>;
          db1 = db\<lparr>mjobs := mjobs db @ [job], mitems := mitems db @ new_items pk db ps fs\<rparr> in
     Inr (audit (Some pk) ''queued'' actor (JObj [(''kind'', JStr kind), (''total_items'', JInt (int total))]) db1, job))"

text \<open>\<open>race\<close> is what other transactions commit between the read and the conditional update.\<close>

definition oldest_queued :: "core_db \<Rightarrow> maintenance_job option" where
  "oldest_queued db = first_of (sort_key mj_created_at (filter (\<lambda>j. mj_status j = Mj_queued) (mjobs db)))"

definition claim_next_job ::
  "instant \<Rightarrow> (core_db \<Rightarrow> core_db) \<Rightarrow> core_db \<Rightarrow> core_db \<times> maintenance_job option" where
  "claim_next_job clk race db0 =
     (case oldest_queued db0 of
        None \<Rightarrow> (db0, None)
      | Some seen \<Rightarrow>
          let db = race db0 in
          (case get_mjob (mj_pk seen) db of
             None \<Rightarrow> (db, None)
           | Some j \<Rightarrow>
               if mj_status j \<noteq> Mj_queued then (db, None)
               else let j' = j\<lparr>mj_status := Mj_running, mj_started_at := Some clk\<rparr> in
                 (audit (Some (mj_pk j)) ''claimed'' None (JObj []) (upd_mjob (mj_pk j) (\<lambda>_. j') db), Some j')))"

definition item_pdf :: "job_item \<Rightarrow> core_db \<Rightarrow> exn + pdf_file option" where
  "item_pdf item db = (case it_pdf item of None \<Rightarrow> Inr None
     | Some k \<Rightarrow> (case get_pdf k db of None \<Rightarrow> Inl does_not_exist | Some p \<Rightarrow> Inr (Some p)))"

definition item_folder :: "job_item \<Rightarrow> core_db \<Rightarrow> exn + nat option" where
  "item_folder item db = (case it_folder item of None \<Rightarrow> Inr None
     | Some k \<Rightarrow> if find_row fo_pk k (folders db) = None then Inl does_not_exist else Inr (Some k))"

subsection \<open>The work of one item\<close>

definition as_list :: "json \<Rightarrow> json list option" where
  "as_list j = (case j of JArr xs \<Rightarrow> Some xs | _ \<Rightarrow> None)"

definition stored_artifacts :: "pdf_file \<Rightarrow> bool" where
  "stored_artifacts p = (case (as_list (pdf_page_chunks p), as_list (pdf_chunk_embeddings p)) of
       (Some cs, Some es) \<Rightarrow> cs \<noteq> [] \<and> length cs = length es
     | _ \<Rightarrow> False)"

definition precompute_pdf_embeddings :: "job_env \<Rightarrow> pdf_file \<Rightarrow> core_db \<Rightarrow> core_db \<times> (exn + unit)" where
  "precompute_pdf_embeddings e p db =
     (let pre = ''PDF '' @ show_nat (pdf_pk p) in
      case bind_res (jx_extract e (pdf_name p)) (\<lambda>text.
        bind_res (require (text \<noteq> []) (search_integrity (pre @ '' has no extractable text''))) (\<lambda>_.
        let chunks = filter (\<lambda>c. c \<noteq> [] \<and> 30 < length (py_strip c))
              (chunk_text text (jx_chunk_size e) (jx_chunk_overlap e)) in
        bind_res (require (chunks \<noteq> []) (search_integrity (pre @ '' produced no searchable chunks''))) (\<lambda>_.
        bind_res (jx_embed e chunks) (\<lambda>embs.
        bind_res (require (length embs = length chunks)
          (search_integrity (pre @ '' embedding count does not match chunk count''))) (\<lambda>_. Inr (chunks, embs)))))) of
        Inl x \<Rightarrow> (db, Inl x)
      | Inr (chunks, embs) \<Rightarrow>
          (upd_pdf (pdf_pk p) (\<lambda>r. r\<lparr>pdf_page_chunks := JArr (map JStr chunks), pdf_chunk_embeddings := JArr embs,
             pdf_indexed := False\<rparr>) db, Inr ()))"

definition embedding_dimension :: "pdf_file \<Rightarrow> nat option" where
  "embedding_dimension p = (case as_list (pdf_chunk_embeddings p) of
       Some (JArr v # _) \<Rightarrow> Some (length v) | _ \<Rightarrow> None)"

definition processing_row :: "instant \<Rightarrow> nat \<Rightarrow> pdf_file \<Rightarrow> pdf_file" where
  "processing_row clk attempts r = r\<lparr>pdf_lifecycle := Processing, pdf_processing_status := ''running'',
     pdf_processing_attempts := attempts, pdf_processing_started_at := Some clk,
     pdf_processing_error_code := [], pdf_processing_error_message := []\<rparr>"

definition ready_row :: "job_env \<Rightarrow> nat option \<Rightarrow> pdf_file \<Rightarrow> pdf_file" where
  "ready_row e dim r = r\<lparr>pdf_embedding_provider := ''openai'', pdf_embedding_model := jx_embed_model e,
     pdf_embedding_dimension := dim, pdf_lifecycle := Ready, pdf_processing_status := ''ready'',
     pdf_processing_finished_at := Some (jx_clock e), pdf_processing_error_code := [],
     pdf_processing_error_message := []\<rparr>"

definition process_pdf :: "job_env \<Rightarrow> nat \<Rightarrow> pdf_file option \<Rightarrow> core_db \<Rightarrow> core_db \<times> (exn + unit)" where
  "process_pdf e attempts m db = (case m of
       None \<Rightarrow> (db, Inl (search_integrity ''PDF no longer exists''))
     | Some p \<Rightarrow>
         let db1 = upd_pdf (pdf_pk p) (processing_row (jx_clock e) attempts) db in
         (case precompute_pdf_embeddings e p db1 of
            (db2, Inl x) \<Rightarrow> (db2, Inl x)
          | (db2, Inr _) \<Rightarrow>
              (case get_pdf (pdf_pk p) db2 of
                 None \<Rightarrow> (db2, Inl does_not_exist)
               | Some q \<Rightarrow> (upd_pdf (pdf_pk p) (ready_row e (embedding_dimension q)) db2, Inr ()))))"

definition repairable :: "job_env \<Rightarrow> nat \<Rightarrow> pdf_file \<Rightarrow> bool" where
  "repairable e f p = (pdf_folder p = Some f \<and> pdf_lifecycle p \<in> set searchable_pdf_lifecycles \<and>
     stored_artifacts p \<and> pdf_name p \<noteq> [] \<and> jx_storage e (pdf_name p))"

definition repair_folder :: "job_env \<Rightarrow> nat \<Rightarrow> core_db \<Rightarrow> core_db \<times> (exn + unit)" where
  "repair_folder e f db =
     (let eligible = map pdf_pk (filter (repairable e f) (pdfs db)) in
      if eligible = [] then (db, Inl (search_integrity ''No stored chunks or embeddings are available''))
      else (case jx_build_index e f db of
          Inl x \<Rightarrow> (db, Inl x)
        | Inr built \<Rightarrow>
            if \<not> built then (db, Inl (search_integrity ''No searchable artifacts were available''))
            else (db\<lparr>pdfs := map (\<lambda>r. if pdf_pk r \<in> set eligible then r\<lparr>pdf_indexed := True\<rparr> else r) (pdfs db)\<rparr>, Inr ())))"

definition validate_pdf :: "job_env \<Rightarrow> pdf_file option \<Rightarrow> exn + unit" where
  "validate_pdf e m = (case m of
       None \<Rightarrow> Inl (search_integrity ''PDF file is unavailable'')
     | Some p \<Rightarrow>
         bind_res (require (pdf_name p \<noteq> []) (search_integrity ''PDF file is unavailable'')) (\<lambda>_.
         require (jx_storage e (pdf_name p)) (search_integrity ''PDF file is missing from configured storage'')))"

definition pdf_processing_kinds :: "string list" where
  "pdf_processing_kinds = [''process_pdf'', ''reindex_needed'', ''reindex_all'', ''reindex_selected'']"

definition item_work :: "job_env \<Rightarrow> string \<Rightarrow> job_item \<Rightarrow> core_db \<Rightarrow> core_db \<times> (exn + unit)" where
  "item_work e kind item db =
     (if kind \<in> set pdf_processing_kinds then
        (case item_pdf item db of Inl x \<Rightarrow> (db, Inl x) | Inr m \<Rightarrow> process_pdf e (it_attempts item) m db)
      else if kind = ''repair_indexes'' then
        (case item_folder item db of
           Inl x \<Rightarrow> (db, Inl x)
         | Inr None \<Rightarrow> (db, Inl (search_integrity ''Category no longer exists''))
         | Inr (Some f) \<Rightarrow> repair_folder e f db)
      else if kind = ''validate'' then (db, bind_res (item_pdf item db) (validate_pdf e))
      else (db, Inl (search_integrity (''Job kind '' @ [CHR 0x27] @ kind @ [CHR 0x27] @ '' requires the generation worker''))))"

subsection \<open>The item loop\<close>

definition started_item :: "instant \<Rightarrow> job_item \<Rightarrow> job_item" where
  "started_item clk it = it\<lparr>it_status := It_running, it_attempts := it_attempts it + 1, it_started_at := Some clk,
     it_error_code := [], it_error_message := []\<rparr>"

definition save_item :: "job_item \<Rightarrow> core_db \<Rightarrow> core_db" where
  "save_item it db = upd_item (it_pk it) (\<lambda>r. r\<lparr>it_status := it_status it, it_attempts := it_attempts it,
     it_started_at := it_started_at it, it_finished_at := it_finished_at it, it_error_code := it_error_code it,
     it_error_message := it_error_message it\<rparr>) db"

text \<open>The save at the start of an item leaves the column of its end alone.\<close>

definition save_started :: "job_item \<Rightarrow> core_db \<Rightarrow> core_db" where
  "save_started it db = upd_item (it_pk it) (\<lambda>r. r\<lparr>it_status := it_status it, it_attempts := it_attempts it,
     it_started_at := it_started_at it, it_error_code := it_error_code it, it_error_message := it_error_message it\<rparr>) db"

definition save_counts :: "instant \<Rightarrow> maintenance_job \<Rightarrow> core_db \<Rightarrow> core_db" where
  "save_counts clk j db = upd_mjob (mj_pk j) (\<lambda>r. r\<lparr>mj_completed_items := mj_completed_items j,
     mj_failed_items := mj_failed_items j, mj_updated_at := clk\<rparr>) db"

definition undo_processing :: "instant \<Rightarrow> pdf_lifecycle \<Rightarrow> exn \<Rightarrow> pdf_file \<Rightarrow> pdf_file" where
  "undo_processing clk prior x r = (if pdf_lifecycle r \<noteq> Processing then r
     else r\<lparr>pdf_lifecycle := prior, pdf_processing_status := ''failed'', pdf_processing_finished_at := Some clk,
       pdf_processing_error_code := error_code x, pdf_processing_error_message := take 2000 (ex_text x)\<rparr>)"

definition failed_item :: "instant \<Rightarrow> exn \<Rightarrow> job_item \<Rightarrow> job_item" where
  "failed_item clk x it = it\<lparr>it_status := It_failed, it_error_code := error_code x,
     it_error_message := take 2000 (ex_text x), it_finished_at := Some clk\<rparr>"

definition undo_document :: "job_env \<Rightarrow> pdf_lifecycle \<Rightarrow> exn \<Rightarrow> bool \<Rightarrow> job_item \<Rightarrow> core_db \<Rightarrow> core_db" where
  "undo_document e prior x pdf_kind it db = (case it_pdf it of None \<Rightarrow> db
     | Some k \<Rightarrow> if pdf_kind then upd_pdf k (undo_processing (jx_clock e) prior x) db else db)"

definition checkpointed_item :: "instant \<Rightarrow> job_item \<Rightarrow> job_item" where
  "checkpointed_item clk it = it\<lparr>it_status := It_completed, it_error_code := ''stored_artifact_checkpoint'',
     it_error_message := ''Stored OCR/search artifacts preserved for final index build'', it_finished_at := Some clk\<rparr>"

definition checkpoint_item :: "instant \<Rightarrow> job_item \<Rightarrow> maintenance_job \<Rightarrow> core_db \<Rightarrow> core_db \<times> maintenance_job" where
  "checkpoint_item clk it job db = (let job' = job\<lparr>mj_completed_items := mj_completed_items job + 1\<rparr> in
     (upd_mjob (mj_pk job) (\<lambda>r. r\<lparr>mj_completed_items := mj_completed_items job', mj_updated_at := clk\<rparr>)
        (save_item (checkpointed_item clk it) db), job'))"

definition count_failure :: "instant \<Rightarrow> exn \<Rightarrow> job_item \<Rightarrow> maintenance_job \<Rightarrow> core_db \<Rightarrow> core_db \<times> maintenance_job" where
  "count_failure clk x it job db =
     (let it' = failed_item clk x it; job' = job\<lparr>mj_failed_items := mj_failed_items job + 1\<rparr>;
          db2 = upd_mjob (mj_pk job) (\<lambda>r. r\<lparr>mj_failed_items := mj_failed_items job', mj_error_summary := it_error_message it',
                  mj_updated_at := clk\<rparr>) (save_item it' db) in
      (save_counts clk job' (audit (Some (mj_pk job)) ''item_failed'' None (JObj [(''item_id'', JInt (int (it_pk it))),
         (''error_code'', JStr (it_error_code it')), (''error_message'', JStr (take 200 (it_error_message it')))]) db2),
       job'))"

text \<open>
  The \<^verbatim>\<open>except\<close> block. \<open>prior\<close> is the lifecycle the item's document had; where the code has none yet
  there is no row for it to write to. Looking the document up
  again can raise, and then the run is left. A document whose stored artifacts are whole counts as done.
\<close>

definition item_failed ::
  "job_env \<Rightarrow> pdf_lifecycle \<Rightarrow> exn \<Rightarrow> job_item \<Rightarrow> maintenance_job \<Rightarrow> core_db \<Rightarrow> core_db \<times> (exn + maintenance_job)" where
  "item_failed e prior x it job db =
     (let pdf_kind = (mj_kind job \<in> set pdf_processing_kinds); db1 = undo_document e prior x pdf_kind it db in
      case (if pdf_kind then item_pdf it db1 else Inr None) of
        Inl y \<Rightarrow> (db1, Inl y)
      | Inr m \<Rightarrow>
          (case (if (case m of Some p \<Rightarrow> stored_artifacts p | None \<Rightarrow> False) then checkpoint_item (jx_clock e) it job db1
                 else count_failure (jx_clock e) x it job db1) of
             (db2, job') \<Rightarrow> (db2, Inr job')))"

definition run_item ::
  "job_env \<Rightarrow> job_item \<Rightarrow> maintenance_job \<Rightarrow> core_db \<Rightarrow> core_db \<times> (exn + maintenance_job)" where
  "run_item e it0 job db =
     (let it = started_item (jx_clock e) it0; db1 = save_started it db;
          prior = (case item_pdf it db1 of Inr (Some p) \<Rightarrow> pdf_lifecycle p | _ \<Rightarrow> Uploaded) in
      case item_work e (mj_kind job) it db1 of
        (db2, Inl x) \<Rightarrow> item_failed e prior x it job db2
      | (db2, Inr _) \<Rightarrow>
          let it' = it\<lparr>it_status := It_completed, it_finished_at := Some (jx_clock e)\<rparr>;
              job' = job\<lparr>mj_completed_items := mj_completed_items job + 1\<rparr> in
          (save_counts (jx_clock e) job' (audit (Some (mj_pk job)) ''item_completed'' None
             (JObj [(''item_id'', JInt (int (it_pk it))), (''pdf_id'', json_opt (JInt \<circ> int) (it_pdf it)),
                (''folder_id'', json_opt (JInt \<circ> int) (it_folder it))]) (save_item it' db2)), Inr job'))"

definition finish_job :: "instant \<Rightarrow> mjob_status \<Rightarrow> nat \<Rightarrow> core_db \<Rightarrow> core_db" where
  "finish_job clk st pk db = upd_mjob pk (\<lambda>r. r\<lparr>mj_status := st, mj_finished_at := Some clk, mj_updated_at := clk\<rparr>) db"

text \<open>The loop over the items read at its start; the second component says whether it was cancelled.\<close>

fun run_items ::
  "job_env \<Rightarrow> nat \<Rightarrow> job_item list \<Rightarrow> maintenance_job \<Rightarrow> core_db \<Rightarrow> core_db \<times> (exn + maintenance_job \<times> bool)" where
  "run_items e n [] job db = (db, Inr (job, False))"
| "run_items e n (it # its) job db0 =
     (let db = jx_between e n db0 in
      case get_mjob (mj_pk job) db of
        None \<Rightarrow> (db, Inl does_not_exist)
      | Some row \<Rightarrow>
          let job1 = job\<lparr>mj_status := mj_status row\<rparr> in
          if mj_status row = Mj_cancel_requested then
            (finish_job (jx_clock e) Mj_cancelled (mj_pk job) db,
             Inr (job1\<lparr>mj_status := Mj_cancelled, mj_finished_at := Some (jx_clock e)\<rparr>, True))
          else (case run_item e it job1 db of
              (db1, Inl x) \<Rightarrow> (db1, Inl x)
            | (db1, Inr job2) \<Rightarrow> run_items e (Suc n) its job2 db1))"


subsection \<open>The index of every folder\<close>

text \<open>
  The option \<^verbatim>\<open>completed_folder_ids\<close> is a list of integers and \<^verbatim>\<open>folder_build_attempts\<close> a dictionary
  of counts; only the run itself writes them. Anything else makes the comprehension raise.
\<close>

definition json_ids :: "json \<Rightarrow> int list option" where
  "json_ids j = (case j of
       JArr xs \<Rightarrow> those (map (\<lambda>x. case x of JInt i \<Rightarrow> Some i | _ \<Rightarrow> None) xs) | _ \<Rightarrow> None)"

definition json_counts :: "json \<Rightarrow> (string \<times> int) list option" where
  "json_counts j = (case j of
       JObj kvs \<Rightarrow> those (map (\<lambda>(k, v). map_option (Pair k) (py_int v)) kvs) | _ \<Rightarrow> None)"

definition type_error :: exn where
  "type_error = other_exn ''typeerror'' ''unsupported operand''"

definition all_folder_ids :: "nat \<Rightarrow> core_db \<Rightarrow> nat list" where
  "all_folder_ids pk db = remdups (List.map_filter it_folder (filter (\<lambda>it. it_job it = pk) (mitems db)))"

definition save_build :: "instant \<Rightarrow> maintenance_job \<Rightarrow> core_db \<Rightarrow> core_db" where
  "save_build clk j db = upd_mjob (mj_pk j) (\<lambda>r. r\<lparr>mj_failed_items := mj_failed_items j,
     mj_error_summary := mj_error_summary j, mj_options := mj_options j, mj_updated_at := clk\<rparr>) db"

definition count_attempt :: "nat \<Rightarrow> json \<Rightarrow> exn + json" where
  "count_attempt f options =
     bind_res (of_option type_error (json_counts (json_get_or ''folder_build_attempts'' (JObj []) options))) (\<lambda>kvs.
     let k = show_nat f; n = (case map_of kvs k of None \<Rightarrow> 0 | Some i \<Rightarrow> i) + 1 in
     Inr (json_merge options [(''folder_build_attempts'',
       JObj (map (\<lambda>(k, i). (k, JInt i)) (AList.update k n kvs)))]))"

definition folder_completed :: "nat \<Rightarrow> json \<Rightarrow> int list \<Rightarrow> json \<times> int list" where
  "folder_completed f options done' = (let ids = List.insert (int f) done' in
     (json_merge options [(''completed_folder_ids'', JArr (map JInt (sort ids)))], ids))"

fun build_folders ::
  "job_env \<Rightarrow> int list \<Rightarrow> nat list \<Rightarrow> maintenance_job \<Rightarrow> core_db \<Rightarrow> core_db \<times> (exn + maintenance_job)" where
  "build_folders e done' [] job db = (db, Inr job)"
| "build_folders e done' (f # fs) job db =
     (case count_attempt f (mj_options job) of
        Inl x \<Rightarrow> (db, Inl x)
      | Inr opts \<Rightarrow>
          let job1 = job\<lparr>mj_options := opts\<rparr>;
              db1 = upd_mjob (mj_pk job) (\<lambda>r. r\<lparr>mj_options := opts, mj_updated_at := jx_clock e\<rparr>) db in
          (case (if find_row fo_pk f (folders db1) = None then (db1, Inl does_not_exist) else repair_folder e f db1) of
             (db2, Inl x) \<Rightarrow>
               let job2 = job1\<lparr>mj_failed_items := mj_failed_items job1 + 1, mj_error_summary := take 2000 (ex_text x)\<rparr> in
               build_folders e done' fs job2 (save_build (jx_clock e) job2 (audit (Some (mj_pk job)) ''item_failed'' None
                 (JObj [(''folder_id'', JInt (int f)), (''error_code'', JStr (error_code x)),
                    (''phase'', JStr ''final_index_build'')]) db2))
           | (db2, Inr _) \<Rightarrow>
               let (opts2, done2) = folder_completed f (mj_options job1) done'; job2 = job1\<lparr>mj_options := opts2\<rparr> in
               build_folders e done2 fs job2 (save_build (jx_clock e) job2 db2)))"

definition build_phase :: "job_env \<Rightarrow> maintenance_job \<Rightarrow> core_db \<Rightarrow> core_db \<times> (exn + maintenance_job)" where
  "build_phase e job db =
     (if mj_kind job \<notin> set pdf_processing_kinds then (db, Inr job)
      else (case json_ids (json_get_or ''completed_folder_ids'' (JArr []) (mj_options job)) of
          None \<Rightarrow> (db, Inl type_error)
        | Some done' \<Rightarrow> build_folders e done'
            (sort (filter (\<lambda>f. int f \<notin> set done') (all_folder_ids (mj_pk job) db))) job db))"

subsection \<open>Generation jobs\<close>

text \<open>The columns every generation job saves, from the run's copy of the job.\<close>

definition save_generation_job :: "instant \<Rightarrow> maintenance_job \<Rightarrow> core_db \<Rightarrow> core_db \<times> maintenance_job" where
  "save_generation_job clk j db = (let j' = j\<lparr>mj_finished_at := Some clk, mj_updated_at := clk\<rparr> in
     (upd_mjob (mj_pk j) (\<lambda>r. r\<lparr>mj_status := mj_status j', mj_failed_items := mj_failed_items j',
        mj_completed_items := mj_completed_items j', mj_error_summary := mj_error_summary j',
        mj_options := mj_options j', mj_finished_at := mj_finished_at j', mj_updated_at := clk\<rparr>) db, j'))"

definition generation_job_done ::
  "instant \<Rightarrow> maintenance_job \<Rightarrow> core_db \<times> (exn + nat \<times> (string \<times> json) list) \<Rightarrow> core_db \<times> maintenance_job" where
  "generation_job_done clk job out = (case out of
       (db, Inl x) \<Rightarrow> save_generation_job clk
          (job\<lparr>mj_status := Mj_failed, mj_failed_items := 1, mj_error_summary := take 2000 (ex_text x)\<rparr>) db
     | (db, Inr (n, kvs)) \<Rightarrow> save_generation_job clk
          (job\<lparr>mj_status := Mj_completed, mj_completed_items := n, mj_options := json_merge (mj_options job) kvs\<rparr>) db)"

definition job_generation_id :: "job_env \<Rightarrow> maintenance_job \<Rightarrow> json" where
  "job_generation_id e job = json_get_or ''generation_id'' (JStr []) (mj_options job)"

definition with_flag :: "string option \<Rightarrow> core_db \<times> (doc_error + core_generation) \<Rightarrow>
  core_db \<times> (exn + nat \<times> (string \<times> json) list)" where
  "with_flag flag out = (case out of
       (db, Inl x) \<Rightarrow> (db, Inl (exn_of x))
     | (db, Inr g) \<Rightarrow> (db, Inr (1, (''generation_id'', JStr (cg_generation_id g)) #
          (case flag of None \<Rightarrow> [] | Some k \<Rightarrow> [(k, JBool True)]))))"

definition purge_work :: "job_env \<Rightarrow> maintenance_job \<Rightarrow> core_db \<Rightarrow> core_db \<times> (exn + nat \<times> (string \<times> json) list)" where
  "purge_work e job db =
     (let v = job_generation_id e job; gid = py_str (jx_repr e) v in
      if json_truthy v then
        (case purge_generation gid (mj_requested_by job) db of
           (db1, Inl x) \<Rightarrow> (db1, Inl (exn_of x))
         | (db1, Inr _) \<Rightarrow> (db1, Inr (1, [(''purged_ids'', JArr [v])])))
      else (case purge_expired_generations (jx_clock e) (mj_requested_by job) db of
           (db1, ids) \<Rightarrow> (db1, Inr (length ids, [(''purged_ids'', JArr (map JStr ids))]))))"

definition transfer_work ::
  "(string \<times> json) list \<Rightarrow> core_db \<times> (exn + string) \<Rightarrow> core_db \<times> (exn + nat \<times> (string \<times> json) list)" where
  "transfer_work kvs out = (case out of
       (db, Inl x) \<Rightarrow> (db, Inl x)
     | (db, Inr gid) \<Rightarrow> (db, Inr (1, (''generation_id'', JStr gid) # kvs)))"

definition generation_work ::
  "job_env \<Rightarrow> maintenance_job \<Rightarrow> core_db \<Rightarrow> (core_db \<times> (exn + nat \<times> (string \<times> json) list)) option" where
  "generation_work e job db =
     (let gid = py_str (jx_repr e) (job_generation_id e job); clk = jx_clock e; who = mj_requested_by job in
      if mj_kind job = ''sync_generation'' then Some (transfer_work [] (jx_sync e db))
      else if mj_kind job = ''restore_generation'' then Some (transfer_work [(''staged'', JBool True)] (jx_stage e gid db))
      else if mj_kind job = ''promote_generation'' then
        Some (with_flag (Some ''promoted'') (promote_active_generation clk gid who db))
      else if mj_kind job = ''rollback_generation'' then
        Some (with_flag (Some ''rolled_back'') (rollback_to_generation clk gid who db))
      else if mj_kind job = ''purge_generation'' then Some (purge_work e job db)
      else None)"

subsection \<open>The run\<close>

definition pending_items :: "nat \<Rightarrow> core_db \<Rightarrow> job_item list" where
  "pending_items pk db = sort_key it_pk
     (filter (\<lambda>it. it_job it = pk \<and> it_status it \<in> {It_queued, It_failed}) (mitems db))"

fun mjob_status_value :: "mjob_status \<Rightarrow> string" where
  "mjob_status_value Mj_queued = ''queued''"
| "mjob_status_value Mj_running = ''running''"
| "mjob_status_value Mj_paused = ''paused''"
| "mjob_status_value Mj_cancel_requested = ''cancel_requested''"
| "mjob_status_value Mj_completed = ''completed''"
| "mjob_status_value Mj_failed = ''failed''"
| "mjob_status_value Mj_cancelled = ''cancelled''"

definition conclude :: "instant \<Rightarrow> maintenance_job \<Rightarrow> core_db \<Rightarrow> core_db \<times> (exn + maintenance_job)" where
  "conclude clk job db = (case get_mjob (mj_pk job) db of
       None \<Rightarrow> (db, Inl does_not_exist)
     | Some row \<Rightarrow>
         let st = (if mj_failed_items row \<noteq> 0 then Mj_failed else Mj_completed);
             row' = row\<lparr>mj_status := st, mj_finished_at := Some clk, mj_updated_at := clk\<rparr> in
         (audit (Some (mj_pk row)) (mjob_status_value st) None (JObj
            [(''completed_items'', JInt (int (mj_completed_items row))), (''failed_items'', JInt (int (mj_failed_items row)))])
            (upd_mjob (mj_pk row) (\<lambda>_. row') db), Inr row'))"

definition run_document_job :: "job_env \<Rightarrow> maintenance_job \<Rightarrow> core_db \<Rightarrow> core_db \<times> (exn + maintenance_job)" where
  "run_document_job e job db =
     (let its = pending_items (mj_pk job) db in
      case run_items e 0 its job db of
        (db1, Inl x) \<Rightarrow> (db1, Inl x)
      | (db1, Inr (job1, cancelled)) \<Rightarrow>
          if cancelled then (db1, Inr job1)
          else (case build_phase e job1 db1 of
              (db2, Inl x) \<Rightarrow> (db2, Inl x)
            | (db2, Inr job2) \<Rightarrow> conclude (jx_clock e) job2 (jx_between e (length its) db2)))"

definition run_job :: "job_env \<Rightarrow> maintenance_job \<Rightarrow> core_db \<Rightarrow> core_db \<times> (exn + maintenance_job)" where
  "run_job e job0 db0 =
     (let clk = jx_clock e;
          (db, job) = (if mj_status job0 = Mj_queued then
             (upd_mjob (mj_pk job0) (\<lambda>r. r\<lparr>mj_status := Mj_running, mj_started_at := Some clk, mj_updated_at := clk\<rparr>) db0,
              job0\<lparr>mj_status := Mj_running, mj_started_at := Some clk, mj_updated_at := clk\<rparr>) else (db0, job0)) in
      if mj_status job \<noteq> Mj_running then (db, Inr job)
      else (case generation_work e job db of
          Some out \<Rightarrow> (case generation_job_done clk job out of (db1, j) \<Rightarrow> (db1, Inr j))
        | None \<Rightarrow> run_document_job e job db))"

end
