(* ===== verification/Docs_Worker.thy ===== *)
theory Docs_Worker
  imports Docs_Jobs
begin

section \<open>The maintenance worker\<close>

text \<open>
  The queue side of \<^verbatim>\<open>flowdocs/core/management/commands/run_maintenance_jobs.py\<close>, recovery of
  orphaned jobs, the run of one claimed job in its mutation scope and the failure of a job whose run
  was left by an exception, with the cancel and retry actions of the operator in
  \<^verbatim>\<open>flowdocs/vaultops/views.py\<close>.
\<close>

subsection \<open>Orphaned jobs\<close>

definition orphan_timeout :: instant where
  "orphan_timeout = seconds 300"

definition orphaned :: "instant \<Rightarrow> maintenance_job \<Rightarrow> bool" where
  "orphaned cutoff j = (mj_status j = Mj_running \<and> (case mj_started_at j of None \<Rightarrow> False | Some t \<Rightarrow> t < cutoff))"

definition recover_orphan :: "instant \<Rightarrow> maintenance_job \<Rightarrow> core_db \<Rightarrow> core_db" where
  "recover_orphan cutoff j db =
     (let db1 = upd_mjob (mj_pk j) (\<lambda>r. r\<lparr>mj_status := Mj_queued, mj_started_at := None\<rparr>) db;
          db2 = audit (Some (mj_pk j)) ''worker_died'' None (JObj
            [(''previous_status'', JStr ''running''), (''started_at'', JStr (datetime_text '' '' cutoff)),
             (''writer_lock_released'', JBool False), (''reason'', JStr ''stale_running_job_recovered'')]) db1 in
      db2\<lparr>mitems := map (\<lambda>it. if it_job it = mj_pk j \<and> it_status it = It_running
          then it\<lparr>it_status := It_queued, it_started_at := None\<rparr> else it) (mitems db2)\<rparr>)"

definition recover_orphaned_jobs :: "instant \<Rightarrow> core_db \<Rightarrow> core_db \<times> nat" where
  "recover_orphaned_jobs clk db =
     (let cutoff = clk - orphan_timeout;
          js = sort_key (\<lambda>j. - mj_created_at j) (filter (orphaned cutoff) (mjobs db)) in
      (fold (recover_orphan cutoff) js db, length js))"

subsection \<open>One claimed job\<close>

record worker_env =
  we_job_env :: job_env
  we_scope_env :: scope_env
  we_candidate_execution :: bool
  we_candidate :: "maintenance_job \<Rightarrow> core_db \<Rightarrow> core_db \<times> (exn + maintenance_job)"

definition candidate_required :: "maintenance_job \<Rightarrow> bool" where
  "candidate_required j = json_truthy (json_get_or ''candidate_required'' JNull (mj_options j))"

definition requires_source_mutation_scope :: "worker_env \<Rightarrow> maintenance_job \<Rightarrow> bool" where
  "requires_source_mutation_scope w j = (\<not> (candidate_required j \<and> \<not> we_candidate_execution w))"

definition execute_local_job :: "worker_env \<Rightarrow> maintenance_job \<Rightarrow> core_db \<Rightarrow> core_db \<times> (exn + maintenance_job)" where
  "execute_local_job w j db =
     (if candidate_required j \<and> \<not> we_candidate_execution w then we_candidate w j db
      else run_job (we_job_env w) j db)"

definition fail_unhandled_local_job ::
  "instant \<Rightarrow> exn \<Rightarrow> nat \<Rightarrow> core_db \<Rightarrow> core_db \<times> (exn + maintenance_job)" where
  "fail_unhandled_local_job clk x pk db = (case get_mjob pk db of
       None \<Rightarrow> (db, Inl does_not_exist)
     | Some r \<Rightarrow>
         let reason = (case ex_reason x of None \<Rightarrow> ''maintenance_job_failed'' | Some c \<Rightarrow> c);
             r' = r\<lparr>mj_status := Mj_failed,
               mj_failed_items := max (mj_failed_items r) (mj_total_items r - mj_completed_items r),
               mj_error_summary := reason, mj_finished_at := Some clk, mj_updated_at := clk\<rparr> in
         (audit (Some pk) ''failed'' None (JObj [(''reason_code'', JStr reason), (''result'', JStr ''failed'')])
            (upd_mjob pk (\<lambda>_. r') db), Inr r'))"

definition maintenance_scope :: "scope_env \<Rightarrow> maintenance_job \<Rightarrow> scope_context" where
  "maintenance_scope e j = idle_context\<lparr>sx_deployment := se_deployment e, sx_category := ''maintenance'',
     sx_relative_path := mj_public_id j, sx_operation := mj_kind j, sx_correlation_id := se_correlation e\<rparr>"

definition defer_job :: "maintenance_job \<Rightarrow> core_db \<Rightarrow> core_db" where
  "defer_job j db = audit (Some (mj_pk j)) ''retried'' None (JObj
       [(''reason_code'', JStr ''snapshot_barrier_active''), (''result'', JStr ''deferred'')])
     (upd_mjob (mj_pk j) (\<lambda>r. r\<lparr>mj_status := Mj_queued, mj_started_at := None\<rparr>) db)"

text \<open>
  The scope is closed however the run ended. The barrier is reported when the scope is entered; the
  claimed job is then put back.
\<close>

datatype job_outcome = Deferred | Finished maintenance_job | Worker_crashed exn

definition settle :: "worker_env \<Rightarrow> nat \<Rightarrow> doc_state \<times> (exn + maintenance_job) \<Rightarrow> doc_state \<times> job_outcome" where
  "settle w pk out = (case out of
       (s, Inr j) \<Rightarrow> (s, Finished j)
     | (s, Inl x) \<Rightarrow> (case fail_unhandled_local_job (jx_clock (we_job_env w)) x pk (ds_core s) of
           (core, Inr j) \<Rightarrow> (s\<lparr>ds_core := core\<rparr>, Finished j)
         | (core, Inl y) \<Rightarrow> (s\<lparr>ds_core := core\<rparr>, Worker_crashed y)))"

definition run_claimed_job :: "worker_env \<Rightarrow> maintenance_job \<Rightarrow> doc_state \<Rightarrow> doc_state \<times> job_outcome" where
  "run_claimed_job w j s =
     (let e = we_scope_env w in
      if se_tracking e \<and> requires_source_mutation_scope w j then
        (case enter_scope True False (maintenance_scope e j) (ds_scope s) (ds_control s) of
           Inl (Snapshot_barrier_active c) \<Rightarrow> (s\<lparr>ds_core := defer_job j (ds_core s)\<rparr>, Deferred)
         | Inl x \<Rightarrow> settle w (mj_pk j) (s, Inl (scope_exn x))
         | Inr (control, c) \<Rightarrow>
             (case execute_local_job w j (ds_core s) of
                (core, res) \<Rightarrow>
                  (case leave_scope True (se_clock e) c control of
                     Inl x \<Rightarrow> settle w (mj_pk j)
                       (\<lparr>ds_core = core, ds_control = control, ds_scope = idle_context\<rparr>, Inl (scope_exn x))
                   | Inr (control', c') \<Rightarrow>
                       settle w (mj_pk j) (\<lparr>ds_core = core, ds_control = control', ds_scope = c'\<rparr>, res))))
      else (case execute_local_job w j (ds_core s) of
          (core, res) \<Rightarrow> settle w (mj_pk j) (s\<lparr>ds_core := core\<rparr>, res)))"

subsection \<open>Operator actions\<close>

text \<open>
  \<^verbatim>\<open>_local_job_action\<close>. The version of a job is the digest of its JSON text with sorted keys and the
  default separators; \<open>reasons\<close> is the capability gate of an operation.
\<close>

definition local_job_version_text :: "maintenance_job \<Rightarrow> string" where
  "local_job_version_text j =
     ''{'' @ json_quote ''completed_items'' @ '': '' @ show_nat (mj_completed_items j) @
     '', '' @ json_quote ''failed_items'' @ '': '' @ show_nat (mj_failed_items j) @
     '', '' @ json_quote ''public_id'' @ '': '' @ json_quote (mj_public_id j) @
     '', '' @ json_quote ''status'' @ '': '' @ json_quote (mjob_status_value (mj_status j)) @
     '', '' @ json_quote ''updated_at'' @ '': '' @ json_quote (datetime_text ''T'' (mj_updated_at j)) @ ''}''"

datatype job_action = Cancel_job | Retry_job

definition local_job_kinds :: "string list" where
  "local_job_kinds = [''validate'', ''repair_indexes'', ''reindex_needed'', ''reindex_selected'']"

definition retried_item :: "job_item \<Rightarrow> job_item" where
  "retried_item it = it\<lparr>it_status := It_queued, it_error_code := [], it_error_message := [], it_finished_at := None\<rparr>"

definition local_job_action ::
  "(string \<Rightarrow> digest) \<Rightarrow> (string \<Rightarrow> string) \<Rightarrow> instant \<Rightarrow> string \<Rightarrow> string option \<Rightarrow> string \<Rightarrow> job_action \<Rightarrow>
   core_db \<Rightarrow> doc_error + core_db \<times> maintenance_job" where
  "local_job_action hash reasons clk pid actor version action db =
     bind_res (of_option Row_missing (List.find (\<lambda>j. mj_public_id j = pid \<and> mj_kind j \<in> set local_job_kinds) (mjobs db))) (\<lambda>j.
     bind_res (require (version = hash (local_job_version_text j)) (Rejected ''stale_state_version'')) (\<lambda>_.
     let log = (\<lambda>ev. audit (Some (mj_pk j)) ev actor (JObj [(''source'', JStr ''vault_workbench'')])) in
     if action = Cancel_job \<and> mj_status j \<in> {Mj_queued, Mj_running} then
       let j' = (if mj_status j = Mj_running then j\<lparr>mj_status := Mj_cancel_requested, mj_updated_at := clk\<rparr>
                 else j\<lparr>mj_status := Mj_cancelled, mj_finished_at := Some clk, mj_updated_at := clk\<rparr>) in
       Inr (log ''cancelled'' (upd_mjob (mj_pk j) (\<lambda>r. r\<lparr>mj_status := mj_status j', mj_finished_at := mj_finished_at j',
              mj_updated_at := clk\<rparr>) db), j')
     else if action = Retry_job \<and> mj_status j = Mj_failed then
       bind_res (require (reasons (mj_kind j) = []) (Rejected (reasons (mj_kind j)))) (\<lambda>_.
       let j' = j\<lparr>mj_status := Mj_queued, mj_error_summary := [], mj_finished_at := None, mj_failed_items := 0,
                 mj_updated_at := clk\<rparr>;
           db1 = db\<lparr>mitems := map (\<lambda>it. if it_job it = mj_pk j \<and> it_status it = It_failed then retried_item it else it) (mitems db)\<rparr> in
       Inr (log ''retried'' (upd_mjob (mj_pk j) (\<lambda>r. r\<lparr>mj_status := Mj_queued, mj_error_summary := [],
              mj_finished_at := None, mj_failed_items := 0, mj_updated_at := clk\<rparr>) db1), j'))
     else Inl (Rejected ''maintenance_job_action_not_allowed'')))"

end
