(* ===== verification/Docs_Job_Safety.thy ===== *)
theory Docs_Job_Safety
  imports Docs_Worker Docs_Safety
begin

section \<open>What the maintenance queue guarantees\<close>

text \<open>
  A job is claimed by one worker, oldest first; a run touches only the items that are queued or failed,
  and its counters are the counts of its items, with one failure more for a folder whose index a
  processing job could not build. A cancellation that arrives after the last item was
  begun is lost, and a queued processing job brings a document back that was removed meanwhile.
\<close>

subsection \<open>Frames\<close>

lemma upd_frame [simp]:
  "mitems (upd_mjob pk f db) = mitems db" "pdfs (upd_mjob pk f db) = pdfs db" "folders (upd_mjob pk f db) = folders db"
  "mjobs (upd_mjob pk f db) = map (\<lambda>r. if mj_pk r = pk then f r else r) (mjobs db)"
  "mjobs (upd_item pk2 g db) = mjobs db" "pdfs (upd_item pk2 g db) = pdfs db" "folders (upd_item pk2 g db) = folders db"
  "mitems (upd_item pk2 g db) = map (\<lambda>r. if it_pk r = pk2 then g r else r) (mitems db)"
  "mitems (upd_pdf pk3 h db) = mitems db" "mjobs (upd_pdf pk3 h db) = mjobs db" "folders (upd_pdf pk3 h db) = folders db"
  "mitems (audit j ev a p db) = mitems db" "mjobs (audit j ev a p db) = mjobs db" "folders (audit j ev a p db) = folders db"
  by (simp_all add: upd_mjob_def upd_item_def upd_pdf_def audit_def)

lemma get_mjob_frame [simp]:
  "get_mjob pk (upd_item k g db) = get_mjob pk db" "get_mjob pk (upd_pdf k h db) = get_mjob pk db"
  "get_mjob pk (audit j ev a p db) = get_mjob pk db"
  by (simp_all add: get_mjob_def)

lemma get_pdf_frame [simp]:
  "get_pdf k (upd_mjob pk f db) = get_pdf k db" "get_pdf k (upd_item pk2 g db) = get_pdf k db"
  by (simp_all add: get_pdf_def)

lemma find_row_map_upd:
  "(\<And>r. key r = k \<Longrightarrow> key (f r) = k) \<Longrightarrow>
   find_row key k' (map (\<lambda>r. if key r = k then f r else r) rows) =
     (if k' = k then map_option f (find_row key k rows) else find_row key k' rows)"
  by (induction rows) (auto simp: find_row_def)

lemma get_upd_mjob:
  "(\<And>r. mj_pk (f r) = mj_pk r) \<Longrightarrow>
   get_mjob k (upd_mjob pk f db) = (if k = pk then map_option f (get_mjob pk db) else get_mjob k db)"
  unfolding get_mjob_def upd_mjob_def by (simp add: find_row_map_upd)

lemma get_set_mjob:
  "get_mjob k db = Some cur \<Longrightarrow> mj_pk row = k \<Longrightarrow> get_mjob k (upd_mjob k (\<lambda>_. row) db) = Some row"
  using find_row_map_upd [of mj_pk k "\<lambda>_. row" k "mjobs db"] by (simp add: get_mjob_def)

lemma get_upd_pdf:
  "(\<And>r. pdf_pk (f r) = pdf_pk r) \<Longrightarrow>
   get_pdf k (upd_pdf pk f db) = (if k = pk then map_option f (get_pdf pk db) else get_pdf k db)"
  unfolding get_pdf_def upd_pdf_def by (simp add: find_row_map_upd)

lemma get_mjob_pk: "get_mjob k db = Some j \<Longrightarrow> mj_pk j = k"
  by (auto simp: get_mjob_def dest: find_row_Some)

text \<open>The work of an item touches documents only.\<close>

lemma precompute_frame:
  assumes "precompute_pdf_embeddings e p db = (db', r)"
  shows "mitems db' = mitems db \<and> mjobs db' = mjobs db"
  using assms by (auto simp: precompute_pdf_embeddings_def Let_def split: sum.splits)

lemma process_frame:
  assumes "process_pdf e n m db = (db', r)"
  shows "mitems db' = mitems db \<and> mjobs db' = mjobs db"
  using assms by (auto simp: process_pdf_def Let_def split: option.splits prod.splits sum.splits dest!: precompute_frame)

lemma repair_frame:
  assumes "repair_folder e f db = (db', r)"
  shows "mitems db' = mitems db \<and> mjobs db' = mjobs db"
  using assms by (auto simp: repair_folder_def Let_def split: sum.splits if_splits)

lemma item_work_frame:
  assumes "item_work e kind it db = (db', r)"
  shows "mitems db' = mitems db \<and> mjobs db' = mjobs db"
  using assms
  by (auto simp: item_work_def split: if_splits sum.splits option.splits dest: process_frame repair_frame)

subsection \<open>Claiming\<close>

lemma sort_key_head:
  assumes "sort_key f xs = y # ys"
  shows "y \<in> set xs \<and> (\<forall>x \<in> set xs. f y \<le> f x)"
proof -
  have "sorted (map f (sort_key f xs))" by (rule sorted_sort_key)
  then have s: "\<forall>x \<in> set ys. f y \<le> f x" using assms by simp
  have "set (y # ys) = set xs" using arg_cong [OF assms, of set] by simp
  then show ?thesis using s by auto
qed

text \<open>Claiming a job. A claim returns a job that was queued when it was taken, now running; of the jobs
  that were queued when the claim looked it is the oldest; and whatever other transactions did in
  between, a job another worker has taken is not returned again. A claim that returns none changes
  nothing of its own.\<close>

theorem claim_takes_queued:
  assumes "claim_next_job clk race db = (db', res)"
  shows "(case res of
      None \<Rightarrow> db' = db \<or> db' = race db
    | Some j \<Rightarrow> (\<exists>row. get_mjob (mj_pk j) (race db) = Some row \<and> mj_status row = Mj_queued \<and>
          j = row\<lparr>mj_status := Mj_running, mj_started_at := Some clk\<rparr> \<and> get_mjob (mj_pk j) db' = Some j \<and>
          (\<forall>k. k \<noteq> mj_pk j \<longrightarrow> get_mjob k db' = get_mjob k (race db))) \<and>
        (\<exists>seen \<in> set (mjobs db). mj_pk seen = mj_pk j \<and>
           (\<forall>q \<in> set (mjobs db). mj_status q = Mj_queued \<longrightarrow> mj_created_at seen \<le> mj_created_at q)))"
proof (cases "oldest_queued db")
  case None
  then show ?thesis using assms by (auto simp: claim_next_job_def)
next
  case (Some seen)
  then obtain ys where "sort_key mj_created_at (filter (\<lambda>j. mj_status j = Mj_queued) (mjobs db)) = seen # ys"
    by (auto simp: oldest_queued_def first_of_def split: list.splits)
  from sort_key_head [OF this] have seen: "seen \<in> set (mjobs db)"
    "\<forall>q \<in> set (mjobs db). mj_status q = Mj_queued \<longrightarrow> mj_created_at seen \<le> mj_created_at q" by auto
  show ?thesis
  proof (cases "get_mjob (mj_pk seen) (race db)")
    case None
    then show ?thesis using assms Some by (auto simp: claim_next_job_def Let_def)
  next
    case (Some row)
    have pk: "mj_pk row = mj_pk seen" by (rule get_mjob_pk [OF Some])
    let ?j = "row\<lparr>mj_status := Mj_running, mj_started_at := Some clk\<rparr>"
    have upd: "get_mjob k (upd_mjob (mj_pk row) (\<lambda>_. ?j) (race db)) =
        (if k = mj_pk row then Some ?j else get_mjob k (race db))" for k
      unfolding get_mjob_def upd_mjob_def
      using find_row_map_upd [of mj_pk "mj_pk row" "\<lambda>_. ?j" k "mjobs (race db)"] Some [folded pk]
      by (simp add: get_mjob_def)
    show ?thesis
    proof (cases "mj_status row = Mj_queued")
      case False
      then show ?thesis using assms Some \<open>oldest_queued db = Some seen\<close> by (auto simp: claim_next_job_def Let_def)
    next
      case True
      then have res: "res = Some ?j"
        "db' = audit (Some (mj_pk row)) ''claimed'' None (JObj []) (upd_mjob (mj_pk row) (\<lambda>_. ?j) (race db))"
        using assms Some \<open>oldest_queued db = Some seen\<close> by (auto simp: claim_next_job_def Let_def)
      have "get_mjob (mj_pk ?j) db' = Some ?j" "\<forall>k. k \<noteq> mj_pk ?j \<longrightarrow> get_mjob k db' = get_mjob k (race db)"
        using upd by (auto simp: res(2))
      then show ?thesis using res(1) True Some pk seen by auto
    qed
  qed
qed


subsection \<open>Running the items\<close>

text \<open>What ending an item does: it is completed or failed, and its job's counter goes up with it.\<close>

definition counters :: "maintenance_job \<Rightarrow> nat \<times> nat" where
  "counters j = (mj_completed_items j, mj_failed_items j)"

definition counted :: "item_status \<Rightarrow> maintenance_job \<Rightarrow> maintenance_job \<Rightarrow> bool" where
  "counted S j j' = (mj_pk j' = mj_pk j \<and> mj_kind j' = mj_kind j \<and> mj_options j' = mj_options j \<and>
     S \<in> {It_completed, It_failed} \<and>
     counters j' = (mj_completed_items j + (if S = It_completed then 1 else 0),
                    mj_failed_items j + (if S = It_failed then 1 else 0)))"

definition item_ended :: "nat \<Rightarrow> item_status \<Rightarrow> core_db \<Rightarrow> core_db \<Rightarrow> bool" where
  "item_ended k S db db' = (\<exists>f. (\<forall>r. it_pk (f r) = it_pk r \<and> it_job (f r) = it_job r \<and> it_status (f r) = S) \<and>
     mitems db' = map (\<lambda>r. if it_pk r = k then f r else r) (mitems db))"

lemma item_ended_saved:
  assumes "mitems db1 = map (\<lambda>r. if it_pk r = k then g r else r) (mitems db)" "\<forall>r. it_pk (g r) = it_pk r \<and> it_job (g r) = it_job r"
    "it_pk it = k" "mitems db2 = mitems db1" "mitems db3 = mitems (save_item it db2)"
  shows "item_ended k (it_status it) db db3"
  unfolding item_ended_def
  by (rule exI [of _ "\<lambda>r. (g r)\<lparr>it_status := it_status it, it_attempts := it_attempts it,
     it_started_at := it_started_at it, it_finished_at := it_finished_at it, it_error_code := it_error_code it,
     it_error_message := it_error_message it\<rparr>"]) (use assms in \<open>auto simp: save_item_def\<close>)

lemma started_rows:
  "mitems (save_started it db) = map (\<lambda>r. if it_pk r = it_pk it then r\<lparr>it_status := it_status it, it_attempts := it_attempts it,
     it_started_at := it_started_at it, it_error_code := it_error_code it, it_error_message := it_error_message it\<rparr> else r) (mitems db)"
  by (simp add: save_started_def)

lemma save_frames [simp]:
  "mjobs (save_started it db) = mjobs db" "mjobs (save_item it db) = mjobs db" "mitems (save_counts clk j db) = mitems db"
  "get_mjob pk (save_started it db) = get_mjob pk db" "get_mjob pk (save_item it db) = get_mjob pk db"
  by (simp_all add: save_started_def save_item_def save_counts_def)

lemma get_save_counts:
  "get_mjob k (save_counts clk j db) = (if k = mj_pk j then map_option (\<lambda>r. r\<lparr>mj_completed_items := mj_completed_items j,
     mj_failed_items := mj_failed_items j, mj_updated_at := clk\<rparr>) (get_mjob k db) else get_mjob k db)"
  by (simp add: save_counts_def get_upd_mjob)

definition tracks :: "core_db \<Rightarrow> maintenance_job \<Rightarrow> bool" where
  "tracks db j = (\<exists>row. get_mjob (mj_pk j) db = Some row \<and> counters row = counters j)"

lemma undo_frame [simp]:
  "mitems (undo_document e prior x c it db) = mitems db" "mjobs (undo_document e prior x c it db) = mjobs db"
  by (simp_all add: undo_document_def split: option.splits)

lemma item_status_ends [simp]:
  "it_pk (checkpointed_item clk it) = it_pk it" "it_status (checkpointed_item clk it) = It_completed"
  "it_pk (failed_item clk x it) = it_pk it" "it_status (failed_item clk x it) = It_failed"
  by (simp_all add: checkpointed_item_def failed_item_def)

lemma item_failed_ends:
  assumes "item_failed e prior x it job db = (db', Inr job')" "tracks db job"
    "mitems db = map (\<lambda>r. if it_pk r = it_pk it then g r else r) (mitems db0)"
    "\<forall>r. it_pk (g r) = it_pk r \<and> it_job (g r) = it_job r"
  shows "\<exists>S. item_ended (it_pk it) S db0 db' \<and> counted S job job' \<and> tracks db' job'"
proof -
  define db1 where "db1 = undo_document e prior x (mj_kind job \<in> set pdf_processing_kinds) it db"
  have t1: "tracks db1 job" using assms(2) by (simp add: tracks_def get_mjob_def db1_def)
  then obtain row where row: "get_mjob (mj_pk job) db1 = Some row" "counters row = counters job"
    by (auto simp: tracks_def)
  have rows1: "mitems db1 = map (\<lambda>r. if it_pk r = it_pk it then g r else r) (mitems db0)"
    using assms(3) by (simp add: db1_def)
  consider "(db', job') = checkpoint_item (jx_clock e) it job db1" | "(db', job') = count_failure (jx_clock e) x it job db1"
    using assms(1) by (cases "mj_kind job \<in> set pdf_processing_kinds")
      (auto simp: item_failed_def Let_def db1_def split: sum.splits prod.splits if_splits)
  then show ?thesis
  proof cases
    case 1
    then have out: "job' = job\<lparr>mj_completed_items := mj_completed_items job + 1\<rparr>"
      "db' = upd_mjob (mj_pk job) (\<lambda>r. r\<lparr>mj_completed_items := mj_completed_items job', mj_updated_at := jx_clock e\<rparr>)
         (save_item (checkpointed_item (jx_clock e) it) db1)"
      by (auto simp: checkpoint_item_def Let_def)
    have "item_ended (it_pk it) (it_status (checkpointed_item (jx_clock e) it)) db0 db'"
      by (rule item_ended_saved [OF rows1 assms(4), of _ db1]) (simp_all add: out(2))
    moreover have "tracks db' job'" using row by (auto simp: tracks_def out get_upd_mjob counters_def)
    ultimately show ?thesis by (intro exI [of _ It_completed]) (auto simp: counted_def counters_def out(1))
  next
    case 2
    define db2 where "db2 = upd_mjob (mj_pk job) (\<lambda>r. r\<lparr>mj_failed_items := mj_failed_items job + 1,
       mj_error_summary := it_error_message (failed_item (jx_clock e) x it), mj_updated_at := jx_clock e\<rparr>)
       (save_item (failed_item (jx_clock e) x it) db1)"
    have out: "job' = job\<lparr>mj_failed_items := mj_failed_items job + 1\<rparr>"
      "\<exists>j. db' = save_counts (jx_clock e) job' (audit (Some (mj_pk job)) ''item_failed'' None j db2)"
      using 2 by (auto simp: count_failure_def Let_def db2_def)
    have "item_ended (it_pk it) (it_status (failed_item (jx_clock e) x it)) db0 db'"
      by (rule item_ended_saved [OF rows1 assms(4), of _ db1]) (use out(2) in \<open>auto simp: db2_def\<close>)
    moreover have "tracks db' job'"
    proof -
      have "\<exists>r2. get_mjob (mj_pk job) db2 = Some r2" using row by (simp add: db2_def get_upd_mjob)
      then show ?thesis using out by (auto simp: tracks_def get_save_counts counters_def)
    qed
    ultimately show ?thesis by (intro exI [of _ It_failed]) (auto simp: counted_def counters_def out(1))
  qed
qed

lemma run_item_ends:
  assumes "run_item e it0 job db = (db', Inr job')" "tracks db job"
  shows "\<exists>S. item_ended (it_pk it0) S db db' \<and> counted S job job' \<and> tracks db' job'"
proof -
  define it where "it = started_item (jx_clock e) it0"
  have pk: "it_pk it = it_pk it0" by (simp add: it_def started_item_def)
  obtain g where g: "mitems (save_started it db) = map (\<lambda>r. if it_pk r = it_pk it then g r else r) (mitems db)"
    "\<forall>r. it_pk (g r) = it_pk r \<and> it_job (g r) = it_job r"
  proof
    show "mitems (save_started it db) = map (\<lambda>r. if it_pk r = it_pk it then r\<lparr>it_status := it_status it, it_attempts := it_attempts it,
     it_started_at := it_started_at it, it_error_code := it_error_code it, it_error_message := it_error_message it\<rparr> else r) (mitems db)"
      by (rule started_rows)
  qed simp
  obtain db2 r where w: "item_work e (mj_kind job) it (save_started it db) = (db2, r)" by (cases "item_work e (mj_kind job) it (save_started it db)")
  note fr = item_work_frame [OF w]
  have t2: "tracks db2 job" using assms(2) fr by (simp add: tracks_def get_mjob_def)
  have rows: "mitems db2 = map (\<lambda>r. if it_pk r = it_pk it then g r else r) (mitems db)" using fr g(1) by simp
  show ?thesis
  proof (cases r)
    case (Inl x)
    then obtain prior where "item_failed e prior x it job db2 = (db', Inr job')"
      using assms(1) w by (auto simp: run_item_def Let_def it_def [symmetric])
    from item_failed_ends [OF this t2 rows g(2)] show ?thesis by (simp add: pk)
  next
    case (Inr u)
    define it' where "it' = it\<lparr>it_status := It_completed, it_finished_at := Some (jx_clock e)\<rparr>"
    have out: "job' = job\<lparr>mj_completed_items := mj_completed_items job + 1\<rparr>"
      "\<exists>j. db' = save_counts (jx_clock e) job' (audit (Some (mj_pk job)) ''item_completed'' None j (save_item it' db2))"
      using assms(1) w Inr by (auto simp: run_item_def Let_def it_def [symmetric] it'_def)
    have "item_ended (it_pk it) (it_status it') db db'"
      by (rule item_ended_saved [OF rows g(2), of it' db2]) (use out(2) in \<open>auto simp: it'_def\<close>)
    moreover have "tracks db' job'" using t2 out by (auto simp: tracks_def get_save_counts counters_def)
    ultimately show ?thesis by (intro exI [of _ It_completed]) (auto simp: it'_def pk counted_def counters_def out(1))
  qed
qed


text \<open>The other transactions, while a job runs, at most record a request to cancel it.\<close>

definition quiet :: "job_env \<Rightarrow> nat \<Rightarrow> bool" where
  "quiet e pk = (\<forall>n db. jx_between e n db = db \<or>
     (\<exists>t. jx_between e n db = upd_mjob pk (\<lambda>r. r\<lparr>mj_status := Mj_cancel_requested, mj_updated_at := t\<rparr>) db))"

definition cnt :: "item_status \<Rightarrow> nat \<Rightarrow> core_db \<Rightarrow> nat" where
  "cnt S k db = length (filter (\<lambda>it. it_job it = k \<and> it_status it = S) (mitems db))"

definition item_keys :: "core_db \<Rightarrow> bool" where
  "item_keys db = distinct (map it_pk (mitems db))"

lemma quiet_rows: "quiet e pk \<Longrightarrow> mitems (jx_between e n db) = mitems db"
  unfolding quiet_def by (metis upd_frame(1))

lemma tracks_upd:
  "tracks db j \<Longrightarrow> (\<And>r. mj_pk (f r) = mj_pk r) \<Longrightarrow> (\<And>r. counters (f r) = counters r) \<Longrightarrow> tracks (upd_mjob k f db) j"
  by (auto simp: tracks_def get_upd_mjob)

lemma quiet_tracks:
  assumes "quiet e pk" "tracks db j"
  shows "tracks (jx_between e n db) j"
proof -
  consider "jx_between e n db = db" | t where
    "jx_between e n db = upd_mjob pk (\<lambda>r. r\<lparr>mj_status := Mj_cancel_requested, mj_updated_at := t\<rparr>) db"
    using assms(1) unfolding quiet_def by blast
  then show ?thesis
    by cases (use assms(2) in \<open>auto intro!: tracks_upd simp: counters_def\<close>)
qed

lemma cnt_rows: "mitems db' = mitems db \<Longrightarrow> cnt S k db' = cnt S k db"
  by (simp add: cnt_def)

lemma count_map_upd:
  assumes "distinct (map it_pk rows)" "r0 \<in> set rows" "it_pk r0 = p" "it_job r0 = k"
    "\<forall>r. it_pk (f r) = it_pk r \<and> it_job (f r) = it_job r \<and> it_status (f r) = S"
  shows "length (filter (\<lambda>it. it_job it = k \<and> it_status it = T) (map (\<lambda>r. if it_pk r = p then f r else r) rows)) +
      (if it_status r0 = T then 1 else 0) =
    length (filter (\<lambda>it. it_job it = k \<and> it_status it = T) rows) + (if S = T then 1 else 0)"
  using assms(1,2)
proof (induction rows)
  case (Cons r rows)
  show ?case
  proof (cases "r = r0")
    case True
    then have "p \<notin> it_pk ` set rows" using Cons.prems(1) assms(3) by simp
    then have "map (\<lambda>r. if it_pk r = p then f r else r) rows = rows" by (intro map_idI) auto
    then show ?thesis using True assms(3-5) by auto
  next
    case False
    then have "r0 \<in> set rows" "it_pk r \<noteq> p" using Cons.prems assms(3) by (auto dest: imageI [of r0 _ it_pk])
    then show ?thesis using Cons by auto
  qed
qed simp

lemma item_ended_facts:
  assumes "item_ended p S db db'" "item_keys db" "r0 \<in> set (mitems db)" "it_pk r0 = p" "it_job r0 = k"
  shows "cnt T k db' + (if it_status r0 = T then 1 else 0) = cnt T k db + (if S = T then 1 else 0)"
    "item_keys db'" "\<And>r. r \<in> set (mitems db) \<Longrightarrow> it_pk r \<noteq> p \<Longrightarrow> r \<in> set (mitems db')"
    "\<exists>r \<in> set (mitems db'). it_pk r = p \<and> it_job r = k \<and> it_status r = S"
proof -
  obtain f where f: "\<forall>r. it_pk (f r) = it_pk r \<and> it_job (f r) = it_job r \<and> it_status (f r) = S"
    "mitems db' = map (\<lambda>r. if it_pk r = p then f r else r) (mitems db)" using assms(1) by (auto simp: item_ended_def)
  show "cnt T k db' + (if it_status r0 = T then 1 else 0) = cnt T k db + (if S = T then 1 else 0)"
    using count_map_upd [OF assms(2) [unfolded item_keys_def] assms(3-5) f(1)] by (simp add: cnt_def f(2))
  have "map it_pk (mitems db') = map it_pk (mitems db)" using f by auto
  then show "item_keys db'" using assms(2) by (simp add: item_keys_def)
  show "r \<in> set (mitems db')" if "r \<in> set (mitems db)" "it_pk r \<noteq> p" for r using that f(2) by force
  have "f r0 \<in> set (mitems db')" using assms(3,4) f(2) by force
  then show "\<exists>r \<in> set (mitems db'). it_pk r = p \<and> it_job r = k \<and> it_status r = S" using f(1) assms(4,5) by auto
qed

text \<open>The run's account of its items: queued ones before, ended ones after, each counted once.\<close>

definition queued_rows :: "job_item list \<Rightarrow> nat \<Rightarrow> core_db \<Rightarrow> bool" where
  "queued_rows its k db = (\<forall>it \<in> set its. \<exists>r \<in> set (mitems db). it_pk r = it_pk it \<and> it_job r = k \<and> it_status r = It_queued)"

definition balanced :: "maintenance_job \<Rightarrow> core_db \<Rightarrow> maintenance_job \<Rightarrow> core_db \<Rightarrow> bool" where
  "balanced j db j' db' = (mj_pk j' = mj_pk j \<and> mj_kind j' = mj_kind j \<and> mj_options j' = mj_options j \<and>
     mj_completed_items j' + cnt It_completed (mj_pk j) db = mj_completed_items j + cnt It_completed (mj_pk j) db' \<and>
     mj_failed_items j' + cnt It_failed (mj_pk j) db = mj_failed_items j + cnt It_failed (mj_pk j) db')"

definition ended_rows :: "job_item list \<Rightarrow> nat \<Rightarrow> core_db \<Rightarrow> bool" where
  "ended_rows its k db = (\<forall>it \<in> set its. \<exists>r \<in> set (mitems db). it_pk r = it_pk it \<and> it_job r = k \<and>
     it_status r \<in> {It_completed, It_failed})"

definition others_kept :: "job_item list \<Rightarrow> core_db \<Rightarrow> core_db \<Rightarrow> bool" where
  "others_kept its db db' = (\<forall>r \<in> set (mitems db). it_pk r \<notin> it_pk ` set its \<longrightarrow> r \<in> set (mitems db'))"

lemma run_items_account:
  assumes "run_items e n its job db = (db', Inr (job', c))" "quiet e (mj_pk job)" "tracks db job" "item_keys db"
    "queued_rows its (mj_pk job) db" "distinct (map it_pk its)"
  shows "balanced job db job' db' \<and> tracks db' job' \<and> item_keys db' \<and> others_kept its db db' \<and>
    (if c then mj_status job' = Mj_cancelled \<and> (\<exists>row. get_mjob (mj_pk job) db' = Some row \<and> mj_status row = Mj_cancelled)
     else ended_rows its (mj_pk job) db')"
  using assms
proof (induction e n its job db arbitrary: db' job' c rule: run_items.induct)
  case (1 e n job db)
  then show ?case by (simp add: balanced_def others_kept_def ended_rows_def)
next
  case (2 e n it its job db0)
  define db where "db = jx_between e n db0"
  have rows: "mitems db = mitems db0" unfolding db_def by (rule quiet_rows [OF "2.prems"(2)])
  have t: "tracks db job" unfolding db_def by (rule quiet_tracks [OF "2.prems"(2,3)])
  then obtain row where row: "get_mjob (mj_pk job) db = Some row" "counters row = counters job" by (auto simp: tracks_def)
  define job1 where "job1 = job\<lparr>mj_status := mj_status row\<rparr>"
  have j1: "mj_pk job1 = mj_pk job" "mj_kind job1 = mj_kind job" "mj_options job1 = mj_options job" "counters job1 = counters job"
    by (simp_all add: job1_def counters_def)
  have t1: "tracks db job1" using t j1 by (simp add: tracks_def)
  show ?case
  proof (cases "mj_status row = Mj_cancel_requested")
    case True
    then have out: "db' = finish_job (jx_clock e) Mj_cancelled (mj_pk job) db" "c"
      "job' = job1\<lparr>mj_status := Mj_cancelled, mj_finished_at := Some (jx_clock e)\<rparr>"
      using "2.prems"(1) row by (auto simp: Let_def db_def [symmetric] job1_def)
    have "mitems db' = mitems db0" by (simp add: out finish_job_def rows)
    then show ?thesis
      using "2.prems"(3,4) row out
      by (auto simp: balanced_def cnt_def item_keys_def others_kept_def job1_def tracks_def finish_job_def get_upd_mjob counters_def)
  next
    case False
    then obtain db1 job2 where ri: "run_item e it job1 db = (db1, Inr job2)"
      and rec: "run_items e (Suc n) its job2 db1 = (db', Inr (job', c))"
      using "2.prems"(1) row by (auto simp: Let_def db_def [symmetric] job1_def split: prod.splits sum.splits)
    obtain S where S: "item_ended (it_pk it) S db db1" "counted S job1 job2" "tracks db1 job2"
      using run_item_ends [OF ri t1] by blast
    have pk2: "mj_pk job2 = mj_pk job" "S \<in> {It_completed, It_failed}" using S(2) j1 by (auto simp: counted_def)
    obtain r0 where r0: "r0 \<in> set (mitems db)" "it_pk r0 = it_pk it" "it_job r0 = mj_pk job" "it_status r0 = It_queued"
      using "2.prems"(5) rows by (auto simp: queued_rows_def)
    have ik: "item_keys db" using "2.prems"(4) rows by (simp add: item_keys_def)
    note f = item_ended_facts [OF S(1) ik r0(1-3)]
    have notin: "it_pk it \<notin> it_pk ` set its" using "2.prems"(6) by simp
    have q1: "queued_rows its (mj_pk job2) db1"
      unfolding queued_rows_def
    proof
      fix i assume i: "i \<in> set its"
      then obtain r where r: "r \<in> set (mitems db)" "it_pk r = it_pk i" "it_job r = mj_pk job" "it_status r = It_queued"
        using "2.prems"(5) rows by (auto simp: queued_rows_def)
      moreover have "it_pk r \<noteq> it_pk it" using i notin r(2) by (metis imageI)
      ultimately show "\<exists>r \<in> set (mitems db1). it_pk r = it_pk i \<and> it_job r = mj_pk job2 \<and> it_status r = It_queued"
        using f(3) pk2(1) by auto
    qed
    have IH: "balanced job2 db1 job' db' \<and> tracks db' job' \<and> item_keys db' \<and> others_kept its db1 db' \<and>
      (if c then mj_status job' = Mj_cancelled \<and> (\<exists>row. get_mjob (mj_pk job2) db' = Some row \<and> mj_status row = Mj_cancelled)
       else ended_rows its (mj_pk job2) db')"
      using "2.IH" [OF db_def row(1) job1_def False ri [symmetric] refl rec] "2.prems"(2,6) S(3) f(2) q1 pk2(1) by (auto split: if_splits)
    have bal: "balanced job db0 job' db'"
      using IH S(2) j1 f(1) [of It_completed] f(1) [of It_failed] r0(4) cnt_rows [OF rows] pk2
      by (auto simp: balanced_def counted_def counters_def)
    have oth: "others_kept (it # its) db0 db'"
      using IH f(3) rows by (auto simp: others_kept_def)
    obtain r1 where r1: "r1 \<in> set (mitems db1)" "it_pk r1 = it_pk it" "it_job r1 = mj_pk job" "it_status r1 = S"
      using f(4) by blast
    have "r1 \<in> set (mitems db')" using IH r1(1,2) notin by (auto simp: others_kept_def)
    then have "\<not> c \<Longrightarrow> ended_rows (it # its) (mj_pk job) db'"
      using IH r1 pk2 by (auto simp: ended_rows_def)
    then show ?thesis using IH bal oth pk2(1) by auto
  qed
qed


lemma pending_queued:
  assumes "item_keys db" "\<forall>it \<in> set (mitems db). it_job it = k \<longrightarrow> it_status it \<noteq> It_failed"
  shows "queued_rows (pending_items k db) k db" "distinct (map it_pk (pending_items k db))"
    "set (pending_items k db) = {it \<in> set (mitems db). it_job it = k \<and> it_status it = It_queued}"
proof -
  show s: "set (pending_items k db) = {it \<in> set (mitems db). it_job it = k \<and> it_status it = It_queued}"
    using assms(2) by (auto simp: pending_items_def)
  then show "queued_rows (pending_items k db) k db" by (auto simp: queued_rows_def)
  have "distinct (map it_pk (filter (\<lambda>it. it_job it = k \<and> it_status it \<in> {It_queued, It_failed}) (mitems db)))"
    using assms(1) unfolding item_keys_def by (rule distinct_map_filter)
  then show "distinct (map it_pk (pending_items k db))"
    unfolding pending_items_def by (simp only: distinct_map distinct_sort set_sort)
qed

lemma conclude_outcome:
  assumes "conclude clk j db = (db', Inr j')" "tracks db j"
  shows "mitems db' = mitems db \<and> counters j' = counters j \<and> mj_pk j' = mj_pk j \<and>
    mj_status j' = (if mj_failed_items j' \<noteq> 0 then Mj_failed else Mj_completed)"
  using assms by (auto simp: conclude_def tracks_def counters_def Let_def get_mjob_pk)

text \<open>The phase that builds the index of every folder touches no item; it counts at most one failure for each folder.\<close>

lemma build_folders_account:
  assumes "build_folders e done' fs job db = (db', Inr job')" "tracks db job"
  shows "mitems db' = mitems db \<and> tracks db' job' \<and> mj_pk job' = mj_pk job \<and> mj_completed_items job' = mj_completed_items job
    \<and> mj_failed_items job \<le> mj_failed_items job' \<and> mj_failed_items job' \<le> mj_failed_items job + length fs"
  using assms
proof (induction e done' fs job db rule: build_folders.induct)
  case (2 e done' f fs job db)
  obtain opts where opts: "count_attempt f (mj_options job) = Inr opts"
    using "2.prems"(1) by (auto split: sum.splits)
  define job1 where "job1 = job\<lparr>mj_options := opts\<rparr>"
  define db1 where "db1 = upd_mjob (mj_pk job) (\<lambda>r. r\<lparr>mj_options := opts, mj_updated_at := jx_clock e\<rparr>) db"
  define out where "out = (if find_row fo_pk f (folders db1) = None then (db1, Inl does_not_exist) else repair_folder e f db1)"
  have step: "build_folders e done' (f # fs) job db = (case out of
      (db2, Inl x) \<Rightarrow>
        let job2 = job1\<lparr>mj_failed_items := mj_failed_items job1 + 1, mj_error_summary := take 2000 (ex_text x)\<rparr> in
        build_folders e done' fs job2 (save_build (jx_clock e) job2 (audit (Some (mj_pk job)) ''item_failed'' None
          (JObj [(''folder_id'', JInt (int f)), (''error_code'', JStr (error_code x)), (''phase'', JStr ''final_index_build'')]) db2))
    | (db2, Inr u) \<Rightarrow> let (opts2, done2) = folder_completed f (mj_options job1) done'; job2 = job1\<lparr>mj_options := opts2\<rparr> in
        build_folders e done2 fs job2 (save_build (jx_clock e) job2 db2))"
    unfolding build_folders.simps(2) opts sum.case out_def db1_def job1_def Let_def ..
  obtain db2 r where w: "out = (db2, r)" by fastforce
  have fr: "mitems db2 = mitems db" "mjobs db2 = mjobs db1"
    using w repair_frame [of e f db1 db2 r] by (auto simp: out_def db1_def split: if_splits)
  obtain row where row: "get_mjob (mj_pk job) db2 = Some row" "counters row = counters job"
    using "2.prems"(2) fr by (auto simp: tracks_def get_mjob_def db1_def counters_def find_row_map_upd)
  have saved: "tracks (save_build (jx_clock e) j db3) j \<and> mitems (save_build (jx_clock e) j db3) = mitems db"
    if "mj_pk j = mj_pk job" "mj_completed_items j = mj_completed_items job" "mjobs db3 = mjobs db2" "mitems db3 = mitems db2" for j db3
    using that row fr by (auto simp: save_build_def tracks_def get_mjob_def counters_def find_row_map_upd)
  show ?case
  proof (cases r)
    case (Inl x)
    define job2 where "job2 = job1\<lparr>mj_failed_items := mj_failed_items job1 + 1, mj_error_summary := take 2000 (ex_text x)\<rparr>"
    define db3 where "db3 = audit (Some (mj_pk job)) ''item_failed'' None (JObj [(''folder_id'', JInt (int f)),
      (''error_code'', JStr (error_code x)), (''phase'', JStr ''final_index_build'')]) db2"
    have rec: "build_folders e done' fs job2 (save_build (jx_clock e) job2 db3) = (db', Inr job')"
      using "2.prems"(1) unfolding step w Inl by (simp add: job2_def db3_def Let_def)
    have j2: "mj_pk job2 = mj_pk job" "mj_completed_items job2 = mj_completed_items job" "mj_failed_items job2 = mj_failed_items job + 1"
      by (simp_all add: job2_def job1_def)
    have "tracks (save_build (jx_clock e) job2 db3) job2 \<and> mitems (save_build (jx_clock e) job2 db3) = mitems db"
      using saved [of job2 db3] j2 by (simp add: db3_def)
    then show ?thesis
      using "2.IH"(1) [OF opts job1_def db1_def w [symmetric, unfolded out_def] Inl job2_def] rec j2
      by (simp add: db3_def)
  next
    case (Inr u)
    obtain opts2 done2 where fc: "folder_completed f (mj_options job1) done' = (opts2, done2)" by fastforce
    define job2 where "job2 = job1\<lparr>mj_options := opts2\<rparr>"
    have rec: "build_folders e done2 fs job2 (save_build (jx_clock e) job2 db2) = (db', Inr job')"
      using "2.prems"(1) unfolding step w Inr by (simp add: fc job2_def Let_def)
    have j2: "mj_pk job2 = mj_pk job" "mj_completed_items job2 = mj_completed_items job" "mj_failed_items job2 = mj_failed_items job"
      by (simp_all add: job2_def job1_def)
    have "tracks (save_build (jx_clock e) job2 db2) job2 \<and> mitems (save_build (jx_clock e) job2 db2) = mitems db"
      using saved [of job2 db2] j2 by simp
    then show ?thesis
      using "2.IH"(2) [OF opts job1_def db1_def w [symmetric, unfolded out_def] Inr fc [symmetric] refl job2_def] rec j2
      by simp
  qed
qed (simp add: tracks_def)

lemma build_phase_account:
  assumes "build_phase e job db = (db', Inr job')" "tracks db job"
  shows "mitems db' = mitems db \<and> tracks db' job' \<and> mj_pk job' = mj_pk job \<and> mj_completed_items job' = mj_completed_items job
    \<and> mj_failed_items job \<le> mj_failed_items job'
    \<and> mj_failed_items job' \<le> mj_failed_items job
        + (if mj_kind job \<in> set pdf_processing_kinds then length (all_folder_ids (mj_pk job) db) else 0)"
proof (cases "mj_kind job \<in> set pdf_processing_kinds")
  case False
  then show ?thesis using assms by (simp add: build_phase_def)
next
  case True
  then obtain done' where "build_folders e done' (sort (filter (\<lambda>f. int f \<notin> set done') (all_folder_ids (mj_pk job) db))) job db = (db', Inr job')"
    using assms(1) by (auto simp: build_phase_def split: option.splits)
  from build_folders_account [OF this assms(2)] show ?thesis
    using True le_trans [OF _ add_left_mono [OF length_filter_le]] by auto
qed

text \<open>The kinds of job that work on items.\<close>

definition document_kinds :: "string list" where
  "document_kinds = [''validate'', ''repair_indexes''] @ pdf_processing_kinds"

text \<open>C18: The counters of a job are the counts of its items. Of a job that validates, repairs indexes or processes
  documents, none of whose items had failed before and whose counters were exact, while other transactions at most ask for its
  cancellation: the run returns a job whose completed counter is the number of its completed items. The failed
  counter is the number of its failed items, to which a processing job adds at most one for each of its folders
  whose index could not be built. Unless the run was cancelled every item that was queued has ended, and
  the job failed if and only if this counter is not 0. Items of other jobs, and items that had ended before, are
  left as they were.\<close>

theorem job_counters_exact:
  assumes "run_job e job db = (db', Inr job')" "mj_status job = Mj_running"
    "mj_kind job \<in> set document_kinds" "get_mjob (mj_pk job) db = Some job"
    "quiet e (mj_pk job)" "item_keys db"
    "\<forall>it \<in> set (mitems db). it_job it = mj_pk job \<longrightarrow> it_status it \<noteq> It_failed"
    "mj_completed_items job = cnt It_completed (mj_pk job) db" "mj_failed_items job = 0"
  shows "mj_pk job' = mj_pk job \<and> mj_completed_items job' = cnt It_completed (mj_pk job) db' \<and>
    (\<exists>folder_failures. mj_failed_items job' = cnt It_failed (mj_pk job) db' + folder_failures \<and>
       folder_failures \<le> (if mj_kind job \<in> set pdf_processing_kinds \<and> mj_status job' \<noteq> Mj_cancelled
                           then length (all_folder_ids (mj_pk job) db') else 0)) \<and>
    (mj_status job' = Mj_cancelled \<or>
     mj_status job' = (if mj_failed_items job' = 0 then Mj_completed else Mj_failed) \<and>
     (\<forall>r \<in> set (mitems db). it_job r = mj_pk job \<and> it_status r = It_queued \<longrightarrow>
        (\<exists>r' \<in> set (mitems db'). it_pk r' = it_pk r \<and> it_status r' \<in> {It_completed, It_failed}))) \<and>
    (\<forall>r \<in> set (mitems db). it_job r \<noteq> mj_pk job \<or> it_status r \<noteq> It_queued \<longrightarrow> r \<in> set (mitems db'))"
proof -
  let ?its = "pending_items (mj_pk job) db"
  note p = pending_queued [OF assms(6,7)]
  have doc: "run_document_job e job db = (db', Inr job')"
    using assms(1-3) by (auto simp: run_job_def generation_work_def document_kinds_def pdf_processing_kinds_def Let_def)
  obtain db1 job1 c where run: "run_items e 0 ?its job db = (db1, Inr (job1, c))"
    using doc by (auto simp: run_document_job_def Let_def split: prod.splits sum.splits)
  have t: "tracks db job" using assms(4) by (simp add: tracks_def)
  have zero: "cnt It_failed (mj_pk job) db = 0" using assms(7) by (auto simp: cnt_def filter_empty_conv)
  note acc = run_items_account [OF run assms(5) t assms(6) p(1,2)]
  have bal: "mj_pk job1 = mj_pk job" "mj_kind job1 = mj_kind job"
    "mj_completed_items job1 = cnt It_completed (mj_pk job) db1" "mj_failed_items job1 = cnt It_failed (mj_pk job) db1"
    using acc assms(8,9) zero by (auto simp: balanced_def)
  have kept: "r \<in> set (mitems db1)" if "r \<in> set (mitems db)" "it_job r \<noteq> mj_pk job \<or> it_status r \<noteq> It_queued" for r
  proof -
    have "it_pk r \<notin> it_pk ` set ?its"
    proof
      assume "it_pk r \<in> it_pk ` set ?its"
      then obtain i where "i \<in> set (mitems db)" "it_pk i = it_pk r" "it_job i = mj_pk job" "it_status i = It_queued"
        unfolding p(3) by auto
      moreover then have "i = r" using assms(6) that(1) unfolding item_keys_def by (auto simp: distinct_map dest: inj_onD)
      ultimately show False using that(2) by auto
    qed
    then show ?thesis using acc that(1) by (auto simp: others_kept_def)
  qed
  show ?thesis
  proof (cases c)
    case True
    then have "db' = db1" "job' = job1" "mj_status job' = Mj_cancelled"
      using doc run acc by (auto simp: run_document_job_def Let_def)
    then show ?thesis using bal kept by auto
  next
    case False
    obtain db2 job2 where built: "build_phase e job1 db1 = (db2, Inr job2)"
      and "conclude (jx_clock e) job2 (jx_between e (length ?its) db2) = (db', Inr job')"
      using doc run False by (auto simp: run_document_job_def Let_def split: prod.splits sum.splits)
    moreover have "tracks db1 job1" using acc by auto
    note phase = build_phase_account [OF built this]
    ultimately have con: "conclude (jx_clock e) job2 (jx_between e (length ?its) db2) = (db', Inr job')" by blast
    have "tracks (jx_between e (length ?its) db2) job2" using phase by (intro quiet_tracks [OF assms(5)]) auto
    note fin = conclude_outcome [OF con this]
    have items: "mitems db' = mitems db1" using fin phase quiet_rows [OF assms(5)] by simp
    have ended: "ended_rows ?its (mj_pk job) db1" using acc False by simp
    have "\<forall>r \<in> set (mitems db). it_job r = mj_pk job \<and> it_status r = It_queued \<longrightarrow>
        (\<exists>r' \<in> set (mitems db'). it_pk r' = it_pk r \<and> it_status r' \<in> {It_completed, It_failed})"
    proof (intro ballI impI)
      fix r assume "r \<in> set (mitems db)" "it_job r = mj_pk job \<and> it_status r = It_queued"
      then have "r \<in> set ?its" unfolding p(3) by simp
      then show "\<exists>r' \<in> set (mitems db'). it_pk r' = it_pk r \<and> it_status r' \<in> {It_completed, It_failed}"
        using ended items unfolding ended_rows_def by metis
    qed
    moreover have same: "mj_completed_items job' = mj_completed_items job2" "mj_failed_items job' = mj_failed_items job2"
      "mj_pk job' = mj_pk job" "mj_status job' = (if mj_failed_items job' \<noteq> 0 then Mj_failed else Mj_completed)"
      using fin phase bal(1) by (auto simp: counters_def)
    moreover have "all_folder_ids (mj_pk job) db' = all_folder_ids (mj_pk job) db1"
      by (simp add: all_folder_ids_def items)
    then have "\<exists>n. mj_failed_items job' = cnt It_failed (mj_pk job) db' + n \<and>
       n \<le> (if mj_kind job \<in> set pdf_processing_kinds \<and> mj_status job' \<noteq> Mj_cancelled
              then length (all_folder_ids (mj_pk job) db') else 0)"
      using phase bal same cnt_rows [OF items]
      by (intro exI [of _ "mj_failed_items job2 - mj_failed_items job1"]) (auto split: if_splits)
    ultimately show ?thesis
      using bal kept items cnt_rows [OF items] phase by auto
  qed
qed


subsection \<open>What the queue does not guarantee\<close>

lemma cancel_request_row:
  assumes "local_job_action hash reasons clk pid actor version Cancel_job db = Inr (db', j)" "mj_status j = Mj_cancel_requested"
  shows "\<exists>row. get_mjob (mj_pk j) db' = Some row \<and> (\<exists>ev \<in> set (mevents db'). me_event_type ev = ''cancelled'' \<and> me_job ev = Some (mj_pk j))"
proof -
  obtain r where r: "List.find (\<lambda>j. mj_public_id j = pid \<and> mj_kind j \<in> set local_job_kinds) (mjobs db) = Some r" "mj_pk j = mj_pk r"
    and db': "db' = audit (Some (mj_pk r)) ''cancelled'' actor (JObj [(''source'', JStr ''vault_workbench'')])
      (upd_mjob (mj_pk r) (\<lambda>x. x\<lparr>mj_status := Mj_cancel_requested, mj_finished_at := mj_finished_at r, mj_updated_at := clk\<rparr>) db)"
    using assms by (auto simp: local_job_action_def Let_def split: if_splits)
  have "r \<in> set (mjobs db)" using r(1) by (auto simp: find_Some_iff)
  then have "get_mjob (mj_pk r) db \<noteq> None" by (auto simp: get_mjob_def find_row_None)
  then show ?thesis using r(2) by (auto simp: db' get_upd_mjob)
qed

text \<open>A cancellation can be lost. When the operator's request to cancel is accepted after the run began
  its last item, nothing looks at it any more: the run ends the job as completed or failed and
  overwrites the request, though the audit log says it was cancelled.\<close>

theorem late_cancel_lost:
  assumes "run_items e 0 (pending_items (mj_pk job) db) job db = (db1, Inr (job1, False))"
    "build_phase e job1 db1 = (db2, Inr job2)"
    "local_job_action hash reasons clk pid actor version Cancel_job db2 = Inr (db3, row)"
    "mj_status row = Mj_cancel_requested" "mj_pk row = mj_pk job2"
    "jx_between e (length (pending_items (mj_pk job) db)) db2 = db3"
  shows "\<exists>db' j. run_document_job e job db = (db', Inr j) \<and> mj_status j \<in> {Mj_completed, Mj_failed} \<and>
    get_mjob (mj_pk job2) db' = Some j \<and>
    (\<exists>ev \<in> set (mevents db'). me_event_type ev = ''cancelled'' \<and> me_job ev = Some (mj_pk job2))"
proof -
  obtain cur ev where cur: "get_mjob (mj_pk job2) db3 = Some cur" and ev: "ev \<in> set (mevents db3)"
    "me_event_type ev = ''cancelled''" "me_job ev = Some (mj_pk job2)"
    using cancel_request_row [OF assms(3,4)] assms(5) by auto
  have pk: "mj_pk cur = mj_pk job2" by (rule get_mjob_pk [OF cur])
  let ?st = "if mj_failed_items cur \<noteq> 0 then Mj_failed else Mj_completed"
  let ?row = "cur\<lparr>mj_status := ?st, mj_finished_at := Some (jx_clock e), mj_updated_at := jx_clock e\<rparr>"
  define db' where "db' = audit (Some (mj_pk cur)) (mjob_status_value ?st) None
    (JObj [(''completed_items'', JInt (int (mj_completed_items cur))), (''failed_items'', JInt (int (mj_failed_items cur)))])
    (upd_mjob (mj_pk cur) (\<lambda>_. ?row) db3)"
  have "conclude (jx_clock e) job2 db3 = (db', Inr ?row)"
    using cur by (simp add: conclude_def Let_def db'_def)
  then have "run_document_job e job db = (db', Inr ?row)"
    using assms(1,2,6) by (simp add: run_document_job_def Let_def)
  moreover have "get_mjob (mj_pk job2) db' = Some ?row"
    unfolding db'_def get_mjob_frame pk by (rule get_set_mjob [OF cur]) (simp add: pk)
  moreover have "ev \<in> set (mevents db')" using ev(1) by (simp add: db'_def upd_mjob_def)
  ultimately show ?thesis using ev(2,3) by auto
qed

text \<open>A processing job brings back a document that was removed from search. A job that was queued for a
  document does not look at the document's state when its turn comes: where the text can be extracted
  and embedded, an item whose document was deprecated, archived or made unavailable in the meantime
  completes, and the document is ready and visible to search again, without a recovery.\<close>

theorem removed_document_revived:
  assumes "get_pdf k db = Some p" "\<not> searchable p" "it_pdf it = Some k" "mj_kind job \<in> set pdf_processing_kinds"
    "jx_extract e (pdf_name p) = Inr text"
    "chunks = filter (\<lambda>c. c \<noteq> [] \<and> 30 < length (py_strip c)) (chunk_text text (jx_chunk_size e) (jx_chunk_overlap e))"
    "chunks \<noteq> []" "jx_embed e chunks = Inr embs" "length embs = length chunks"
  shows "\<exists>db' job' q. run_item e it job db = (db', Inr job') \<and> mj_completed_items job' = mj_completed_items job + 1 \<and>
    get_pdf k db' = Some q \<and> pdf_lifecycle q = Ready \<and> searchable q"
proof -
  define st where "st = started_item (jx_clock e) it"
  define db1 where "db1 = save_started st db"
  have got: "get_pdf k db1 = Some p" using assms(1) by (simp add: db1_def save_started_def)
  have pk: "pdf_pk p = k" by (rule pdf_key [OF assms(1)])
  have nonempty: "text \<noteq> []" using assms(6,7) by (auto simp: chunk_text_def)
  define db2 where "db2 = upd_pdf k (processing_row (jx_clock e) (it_attempts st)) db1"
  have g2: "get_pdf k db2 = Some (processing_row (jx_clock e) (it_attempts st) p)"
    using got by (simp add: db2_def get_upd_pdf processing_row_def)
  define f where "f = (\<lambda>r :: pdf_file. r\<lparr>pdf_page_chunks := JArr (map JStr chunks), pdf_chunk_embeddings := JArr embs, pdf_indexed := False\<rparr>)"
  have pre: "precompute_pdf_embeddings e p db2 = (upd_pdf k f db2, Inr ())"
    using assms(5,7-9) nonempty pk by (simp add: precompute_pdf_embeddings_def Let_def assms(6) [symmetric] f_def)
  obtain q2 where q2: "get_pdf k (upd_pdf k f db2) = Some q2"
    using g2 by (simp add: get_upd_pdf f_def)
  define db3 where "db3 = upd_pdf k (ready_row e (embedding_dimension q2)) (upd_pdf k f db2)"
  have g3: "get_pdf k db3 = Some (ready_row e (embedding_dimension q2) q2)"
    using q2 by (simp add: db3_def get_upd_pdf ready_row_def)
  have work: "item_work e (mj_kind job) st db1 = (db3, Inr ())"
    using assms(3,4) got pre q2 pk
    by (simp add: item_work_def item_pdf_def process_pdf_def st_def started_item_def db2_def db3_def Let_def)
  then show ?thesis
    using g3 by (simp add: run_item_def Let_def st_def [symmetric] db1_def [symmetric] save_counts_def save_item_def
        searchable_iff ready_row_def)
qed


subsection \<open>Witnesses\<close>

definition sample_hash :: "string \<Rightarrow> digest" where
  "sample_hash x = CHR ''h'' # x"

definition sample_cancel :: "core_db \<Rightarrow> doc_error + core_db \<times> maintenance_job" where
  "sample_cancel db = local_job_action sample_hash (\<lambda>_. []) 5 ''u'' None
     (sample_hash (local_job_version_text (hd (mjobs db)))) Cancel_job db"

definition sample_job_env :: job_env where
  "sample_job_env = \<lparr>jx_clock = 1000, jx_repr = (\<lambda>_. []), jx_chunk_size = 1200, jx_chunk_overlap = 200,
     jx_embed_model = ''m'', jx_extract = (\<lambda>_. Inr (replicate 40 (CHR ''a''))),
     jx_embed = (\<lambda>cs. Inr (map (\<lambda>_. JArr [JInt 1]) cs)), jx_build_index = (\<lambda>_ _. Inr True),
     jx_storage = (\<lambda>_. True), jx_sync = (\<lambda>db. (db, Inr ''g'')), jx_stage = (\<lambda>g db. (db, Inr g)),
     jx_between = (\<lambda>_ db. db)\<rparr>"

definition late_cancel_env :: job_env where
  "late_cancel_env = sample_job_env\<lparr>jx_between := (\<lambda>n db. if n = 1 then fst (projr (sample_cancel db)) else db)\<rparr>"

definition sample_job :: "nat \<Rightarrow> nat \<Rightarrow> maintenance_job" where
  "sample_job completed failed = \<lparr>mj_pk = 1, mj_public_id = ''u'', mj_kind = ''validate'', mj_status = Mj_running,
     mj_scope = JObj [], mj_options = JObj [], mj_total_items = 2, mj_completed_items = completed,
     mj_failed_items = failed, mj_error_summary = [], mj_requested_by = None, mj_created_at = 0,
     mj_started_at = Some 0, mj_finished_at = None, mj_updated_at = 0\<rparr>"

definition sample_item :: "nat \<Rightarrow> item_status \<Rightarrow> job_item" where
  "sample_item k st = (new_item k 1 (Some 1) None)\<lparr>it_status := st\<rparr>"

definition sample_queue :: "nat \<Rightarrow> job_item list \<Rightarrow> core_db" where
  "sample_queue failed its = (sample_core sample_pdf)\<lparr>mjobs := [sample_job 0 failed], mitems := its\<rparr>"

lemma sample_queue_simps [simp]:
  "mitems (sample_queue f its) = its" "mjobs (sample_queue f its) = [sample_job 0 f]"
  "get_mjob (Suc 0) (sample_queue f its) = Some (sample_job 0 f)" "mj_pk (sample_job c f) = 1"
  "mj_status (sample_job c f) = Mj_running" "mj_kind (sample_job c f) = ''validate''"
  "get_pdf (Suc 0) (sample_queue f its) = Some sample_pdf" "mj_public_id (sample_job c f) = ''u''"
  by (simp_all add: sample_queue_def get_mjob_def find_row_def sample_job_def get_pdf_def sample_core_def sample_pdf_def)

lemma sample_running [simp]: "sample_job c f\<lparr>mj_status := Mj_running\<rparr> = sample_job c f"
  by (simp add: sample_job_def)

lemma sample_env_between [simp]: "jx_between sample_job_env n db = db" "jx_clock sample_job_env = 1000"
  by (simp_all add: sample_job_env_def)

theorem claim_takes_queued_witness:
  "\<exists>j. snd (claim_next_job 7 (\<lambda>d. d) ((sample_queue 0 [])\<lparr>mjobs := [(sample_job 0 0)\<lparr>mj_status := Mj_queued\<rparr>]\<rparr>)) = Some j \<and>
     mj_status j = Mj_running"
proof -
  let ?db = "(sample_queue 0 [])\<lparr>mjobs := [(sample_job 0 0)\<lparr>mj_status := Mj_queued\<rparr>]\<rparr>"
  have "\<exists>j. snd (claim_next_job 7 (\<lambda>d. d) ?db) = Some j"
    by (simp add: claim_next_job_def oldest_queued_def first_of_def get_mjob_def find_row_def Let_def)
  then obtain j where j: "claim_next_job 7 (\<lambda>d. d) ?db = (fst (claim_next_job 7 (\<lambda>d. d) ?db), Some j)"
    by (metis prod.collapse)
  show ?thesis using claim_takes_queued [OF j] j by (auto dest: arg_cong [of _ _ snd])
qed

lemma sample_quiet: "quiet sample_job_env k"
  by (simp add: quiet_def sample_job_env_def)

lemma sample_validate:
  "get_pdf 1 db = Some sample_pdf \<Longrightarrow> jx_storage e = (\<lambda>_. True) \<Longrightarrow> it_pdf it = Some 1 \<Longrightarrow>
   item_work e ''validate'' it db = (db, Inr ())"
  by (simp add: item_work_def pdf_processing_kinds_def item_pdf_def validate_pdf_def sample_pdf_def)

theorem job_counters_exact_witness:
  "\<exists>db' job'. run_job sample_job_env (sample_job 0 0) (sample_queue 0 [sample_item 1 It_queued]) = (db', Inr job') \<and>
     mj_completed_items job' = cnt It_completed 1 db'"
proof -
  let ?db = "sample_queue 0 [sample_item 1 It_queued]"
  have "\<exists>db' job'. run_job sample_job_env (sample_job 0 0) ?db = (db', Inr job')"
  proof -
    have p: "pending_items 1 ?db = [sample_item 1 It_queued]"
      by (simp add: pending_items_def sample_item_def new_item_def)
    have "\<exists>db1 job1. run_item sample_job_env (sample_item 1 It_queued) (sample_job 0 0) ?db = (db1, Inr job1)"
      using sample_validate [of "save_started (started_item 1000 (sample_item 1 It_queued)) ?db" sample_job_env "started_item 1000 (sample_item 1 It_queued)"]
      by (simp add: run_item_def Let_def sample_job_env_def save_started_def started_item_def sample_item_def new_item_def)
    then obtain db1 job1 where r: "run_item sample_job_env (sample_item 1 It_queued) (sample_job 0 0) ?db = (db1, Inr job1)" by blast
    have t: "tracks ?db (sample_job 0 0)" by (simp add: tracks_def)
    from run_item_ends [OF r t] have e: "tracks db1 job1" "mj_kind job1 = ''validate''" by (auto simp: counted_def)
    have "run_items sample_job_env 0 [sample_item 1 It_queued] (sample_job 0 0) ?db = (db1, Inr (job1, False))"
      using r by (simp add: Let_def)
    then show ?thesis using p e
      by (auto simp: run_job_def generation_work_def run_document_job_def build_phase_def pdf_processing_kinds_def
          conclude_def tracks_def Let_def)
  qed
  then obtain db' job' where r: "run_job sample_job_env (sample_job 0 0) ?db = (db', Inr job')" by blast
  have "mj_completed_items job' = cnt It_completed (mj_pk (sample_job 0 0)) db'"
    using job_counters_exact [OF r _ _ _ sample_quiet]
    by (simp add: item_keys_def cnt_def sample_item_def new_item_def) (simp add: sample_job_def document_kinds_def)
  then show ?thesis using r by simp
qed


theorem removed_document_revived_witness:
  "\<exists>db' job' q. run_item sample_job_env (sample_item 1 It_queued) ((sample_job 0 0)\<lparr>mj_kind := ''process_pdf''\<rparr>)
     (sample_core (sample_pdf\<lparr>pdf_lifecycle := Archived\<rparr>)) = (db', Inr job') \<and> get_pdf 1 db' = Some q \<and> searchable q"
proof -
  let ?p = "sample_pdf\<lparr>pdf_lifecycle := Archived\<rparr>"
  have got: "get_pdf 1 (sample_core ?p) = Some ?p"
    using sample_docs_simps(4) [of ?p] by (simp add: sample_pdf_def)
  let ?text = "replicate 40 (CHR ''a'')"
  have ck: "filter (\<lambda>c. c \<noteq> [] \<and> 30 < length (py_strip c)) (chunk_text ?text 1200 200) = [?text]" by code_simp
  from removed_document_revived [OF got, of "sample_item 1 It_queued" "(sample_job 0 0)\<lparr>mj_kind := ''process_pdf''\<rparr>"
      sample_job_env ?text "[?text]" "[JArr [JInt 1]]"]
  show ?thesis using ck
    by (auto simp: searchable_iff sample_item_def new_item_def pdf_processing_kinds_def sample_job_env_def)
qed


lemma late_cancel_simps [simp]:
  "jx_clock late_cancel_env = 1000" "jx_storage late_cancel_env = (\<lambda>_. True)"
  "jx_between late_cancel_env n db = (if n = 1 then fst (projr (sample_cancel db)) else db)"
  by (simp_all add: late_cancel_env_def sample_job_env_def)

lemma sample_run_item: "\<exists>db1. run_item late_cancel_env (sample_item 1 It_queued) (sample_job 0 0) (sample_queue 0 [sample_item 1 It_queued]) =
    (db1, Inr (sample_job 1 0)) \<and> mjobs db1 = [(sample_job 1 0)\<lparr>mj_updated_at := 1000\<rparr>]"
  using sample_validate [of "save_started (started_item 1000 (sample_item 1 It_queued)) (sample_queue 0 [sample_item 1 It_queued])"
      late_cancel_env "started_item 1000 (sample_item 1 It_queued)"]
  by (simp add: run_item_def Let_def started_item_def sample_item_def new_item_def save_started_def)
    (simp add: save_counts_def sample_job_def save_item_def)

theorem late_cancel_lost_witness:
  "\<exists>db' j. run_document_job late_cancel_env (sample_job 0 0) (sample_queue 0 [sample_item 1 It_queued]) = (db', Inr j) \<and>
     mj_status j \<in> {Mj_completed, Mj_failed}"
proof -
  let ?db = "sample_queue 0 [sample_item 1 It_queued]"
  obtain db1 where r: "run_item late_cancel_env (sample_item 1 It_queued) (sample_job 0 0) ?db = (db1, Inr (sample_job 1 0))"
    "mjobs db1 = [(sample_job 1 0)\<lparr>mj_updated_at := 1000\<rparr>]" using sample_run_item by blast
  have p: "pending_items (mj_pk (sample_job 0 0)) ?db = [sample_item 1 It_queued]"
    by (simp add: pending_items_def sample_item_def new_item_def)
  have run: "run_items late_cancel_env 0 (pending_items (mj_pk (sample_job 0 0)) ?db) (sample_job 0 0) ?db =
      (db1, Inr (sample_job 1 0, False))"
    unfolding p using r(1) by (simp add: Let_def)
  have b: "build_phase late_cancel_env (sample_job 1 0) db1 = (db1, Inr (sample_job 1 0))"
    by (simp add: build_phase_def pdf_processing_kinds_def)
  let ?row = "(sample_job 1 0)\<lparr>mj_status := Mj_cancel_requested, mj_updated_at := 5\<rparr>"
  have "\<exists>db3. sample_cancel db1 = Inr (db3, ?row)"
    using r(2) by (simp add: sample_cancel_def local_job_action_def local_job_kinds_def Let_def)
  then obtain db3 where c: "sample_cancel db1 = Inr (db3, ?row)" by blast
  have bt: "jx_between late_cancel_env (length (pending_items (mj_pk (sample_job 0 0)) ?db)) db1 = db3"
    unfolding p using c by simp
  from late_cancel_lost [OF run b c [unfolded sample_cancel_def] _ _ bt]
  show ?thesis by auto
qed

text \<open>
  A failure that was counted before the worker died stays counted when the item is run again: the job
  is recovered and run, every item completes, and the job is still recorded as failed, with more items
  accounted for than it has.
\<close>

definition orphan_sample :: "core_db \<times> (exn + maintenance_job)" where
  "orphan_sample = run_job sample_job_env ((sample_job 0 1)\<lparr>mj_status := Mj_queued\<rparr>)
     (fst (recover_orphaned_jobs 400000000 (sample_queue 1 [sample_item 1 It_failed, sample_item 2 It_running])))"


lemma orphan_retry_miscounted:
  "map_sum ex_text (\<lambda>j. (mj_status j, mj_completed_items j, mj_failed_items j)) (snd orphan_sample) = Inr (Mj_failed, 2, 1) \<and>
   map it_status (mitems (fst orphan_sample)) = [It_completed, It_completed]"
  by code_simp

end
