(* ===== verification/DataOps_Worker.thy ===== *)
theory DataOps_Worker
  imports Flow_Prelude
begin

section \<open>The data-operations worker\<close>

text \<open>
  \<^verbatim>\<open>flowdocs/dataops/worker.py\<close> on the operation table of \<^verbatim>\<open>flowdocs/dataops/models.py\<close>: workers
  claim queued operations (and running ones whose lease expired) under a random lease token, run
  them outside any transaction, and write the result back while they still own the row.

  A worker holds a copy of the row it claimed and saves named fields of that copy; the model keeps
  copy and row apart, because the row may have moved on. What other workers do while the operation
  executes is the function \<open>meanwhile\<close> on the database, and the executor's outcome is a parameter:
  a result, a pipeline error, or an unexpected exception. The setting
  \<^verbatim>\<open>DATAOPS_OPERATION_LEASE_SECONDS\<close> is \<^term>\<open>None\<close> when it is not an integer.
\<close>

datatype op_kind =
    Health_refresh | Op_backup | Op_restore | Clone_rebind | Op_import | Test_recovery | Op_rollback
  | Op_reindex | Auto_heal | Op_sync

datatype op_state = Op_queued | Op_running | Op_succeeded | Op_failed | Op_cancelled | Waiting_approval

fun op_state_value :: "op_state \<Rightarrow> string" where
  "op_state_value Op_queued = ''queued''"
| "op_state_value Op_running = ''running''"
| "op_state_value Op_succeeded = ''succeeded''"
| "op_state_value Op_failed = ''failed''"
| "op_state_value Op_cancelled = ''cancelled''"
| "op_state_value Waiting_approval = ''waiting_approval''"

record data_operation =
  op_pk :: nat
  op_public_id :: string
  op_kind :: op_kind
  op_state :: op_state
  op_profile_key :: string
  op_source_profile_key :: string
  op_destination_profile_key :: string
  op_connection :: "nat option"
  op_release_id :: string
  op_pipeline_stage :: string
  op_request_id :: string
  op_idempotency_key :: string
  op_checkpoint :: json
  op_lifecycle_route :: string
  op_lifecycle_plan :: json
  op_lifecycle_plan_digest :: string
  op_result :: json
  op_error_code :: string
  op_error_detail :: string
  op_started_at :: "instant option"
  op_finished_at :: "instant option"
  op_attempt :: nat
  op_lease_token :: string
  op_lease_expires_at :: "instant option"
  op_created_at :: instant
  op_updated_at :: instant

record dataops_event =
  de_actor_id :: "nat option"
  de_actor_name :: string
  de_action :: string
  de_operation_id :: "string option"
  de_profile_key :: string
  de_outcome :: string
  de_evidence :: json

record dataops_db =
  operations :: "data_operation list"
  op_events :: "dataops_event list"

datatype dataops_error =
    Operation_missing
  | Row_not_saved
  | Pipeline_error string string bool json
  | Value_error string

definition get_op :: "nat \<Rightarrow> dataops_db \<Rightarrow> data_operation option" where
  "get_op pk db = find_row op_pk pk (operations db)"

definition put_op :: "data_operation \<Rightarrow> dataops_db \<Rightarrow> dataops_db" where
  "put_op op db = db\<lparr>operations := put_row op_pk op (operations db)\<rparr>"

definition log_op :: "dataops_event \<Rightarrow> dataops_db \<Rightarrow> dataops_db" where
  "log_op ev db = db\<lparr>op_events := op_events db @ [ev]\<rparr>"

definition blank_op_event :: dataops_event where
  "blank_op_event = \<lparr>de_actor_id = None, de_actor_name = '''', de_action = '''', de_operation_id = None,
     de_profile_key = '''', de_outcome = ''recorded'', de_evidence = JObj []\<rparr>"

interpretation op_rows: row_store get_op put_op op_pk
  by unfold_locales (auto simp: get_op_def put_op_def table_simps dest: find_row_Some)

lemma op_frame [simp]:
  "get_op pk (log_op ev db) = get_op pk db" "op_events (put_op op db) = op_events db"
  "operations (log_op ev db) = operations db" "op_events (log_op ev db) = op_events db @ [ev]"
  "operations (put_op op db) = put_row op_pk op (operations db)"
  by (simp_all add: get_op_def log_op_def put_op_def)

subsection \<open>Leases\<close>

definition lease_deadline :: "int option \<Rightarrow> instant \<Rightarrow> instant" where
  "lease_deadline setting clk =
     clk + 1000000 * max 60 (case setting of None \<Rightarrow> 3600 | Some n \<Rightarrow> n)"

definition owns_lease :: "nat \<Rightarrow> string \<Rightarrow> dataops_db \<Rightarrow> bool" where
  "owns_lease pk token db =
     (case get_op pk db of None \<Rightarrow> False
      | Some row \<Rightarrow> op_state row = Op_running \<and> op_lease_token row = token)"

definition renew_operation_lease ::
  "int option \<Rightarrow> instant \<Rightarrow> string \<Rightarrow> nat \<Rightarrow> string \<Rightarrow> dataops_db \<Rightarrow> dataops_error + dataops_db \<times> string" where
  "renew_operation_lease setting clk fresh pk lease_token db =
     (if lease_token = '''' then Inr (db, fresh)
      else case get_op pk db of
        Some row \<Rightarrow>
          if op_state row = Op_running \<and> op_lease_token row = lease_token
          then Inr (put_op (row\<lparr>op_lease_expires_at := Some (lease_deadline setting clk),
                                op_updated_at := clk\<rparr>) db, lease_token)
          else Inl (Pipeline_error ''operation_lease_lost'' ''lease'' True (JObj []))
      | None \<Rightarrow> Inl (Pipeline_error ''operation_lease_lost'' ''lease'' True (JObj [])))"

definition lease_expired :: "instant \<Rightarrow> data_operation \<Rightarrow> bool" where
  "lease_expired clk op =
     (op_state op = Op_running \<and> (case op_lease_expires_at op of None \<Rightarrow> True | Some t \<Rightarrow> t \<le> clk))"

definition claimed_op :: "int option \<Rightarrow> instant \<Rightarrow> string \<Rightarrow> data_operation \<Rightarrow> data_operation" where
  "claimed_op setting clk token op =
     op\<lparr>op_state := Op_running, op_pipeline_stage := ''preflight'',
        op_started_at := (case op_started_at op of None \<Rightarrow> Some clk | Some t \<Rightarrow> Some t),
        op_lease_token := token, op_lease_expires_at := Some (lease_deadline setting clk),
        op_updated_at := clk\<rparr>"

definition claim_pipeline_operation ::
  "int option \<Rightarrow> instant \<Rightarrow> string \<Rightarrow> nat \<Rightarrow> dataops_db \<Rightarrow>
   dataops_error + dataops_db \<times> (data_operation \<times> string) option" where
  "claim_pipeline_operation setting clk token pk db =
     bind_res (of_option Operation_missing (get_op pk db)) (\<lambda>current.
     if op_state current \<noteq> Op_queued \<and> \<not> lease_expired clk current then Inr (db, None)
     else let current' = claimed_op setting clk token current in
          Inr (put_op current' db, Some (current', token)))"

subsection \<open>Running one operation\<close>

text \<open>
  \<open>finish_begin\<close> is the save before the executor runs, \<open>executor_of\<close> the choice of the executor,
  \<open>finish_failed\<close> and \<open>finish_crashed\<close> the two exception handlers, \<open>finish_published\<close> the renewal
  and the locked publication of the receipt. Each returns the worker's copy of the row.
\<close>

definition begun :: "int option \<Rightarrow> instant \<Rightarrow> string \<Rightarrow> data_operation \<Rightarrow> data_operation" where
  "begun setting clk lease_token op =
     (let token = (if lease_token \<noteq> '''' then lease_token else op_lease_token op) in
      op\<lparr>op_attempt := op_attempt op + 1, op_state := Op_running, op_pipeline_stage := ''preflight'',
         op_started_at := (case op_started_at op of None \<Rightarrow> Some clk | Some t \<Rightarrow> Some t),
         op_lease_token := token,
         op_lease_expires_at :=
           (if token \<noteq> '''' then Some (lease_deadline setting clk) else op_lease_expires_at op),
         op_updated_at := clk\<rparr>)"

definition save_begin_fields :: "data_operation \<Rightarrow> data_operation \<Rightarrow> data_operation" where
  "save_begin_fields op row =
     row\<lparr>op_attempt := op_attempt op, op_state := op_state op,
         op_pipeline_stage := op_pipeline_stage op, op_started_at := op_started_at op,
         op_lease_token := op_lease_token op, op_lease_expires_at := op_lease_expires_at op,
         op_updated_at := op_updated_at op\<rparr>"

definition finish_begin ::
  "int option \<Rightarrow> instant \<Rightarrow> string \<Rightarrow> data_operation \<Rightarrow> dataops_db \<Rightarrow>
   dataops_error + dataops_db \<times> data_operation" where
  "finish_begin setting clk lease_token op db =
     bind_res (of_option Row_not_saved (get_op (op_pk op) db)) (\<lambda>row.
     let op' = begun setting clk lease_token op in
     Inr (put_op (save_begin_fields op' row) db, op'))"

datatype executor = V3_backup | V3_legacy_import | V3_restore | Sync_job | Record_pipeline

definition executor_of :: "data_operation \<Rightarrow> executor" where
  "executor_of op =
     (if op_kind op \<in> {Op_backup, Op_restore, Test_recovery, Op_import}
         \<and> json_get ''contract_version'' (op_lifecycle_plan op) = Some (JInt 3)
      then if op_kind op = Op_backup then V3_backup
           else if op_kind op = Op_import then V3_legacy_import else V3_restore
      else if op_kind op = Op_sync then Sync_job else Record_pipeline)"

definition json_safe_detail :: "(json \<Rightarrow> string option) \<Rightarrow> json \<Rightarrow> string" where
  "json_safe_detail dumps value =
     (case value of JObj kvs \<Rightarrow> (case dumps value of None \<Rightarrow> '''' | Some t \<Rightarrow> take 4000 t) | _ \<Rightarrow> '''')"

definition save_end_fields :: "data_operation \<Rightarrow> data_operation \<Rightarrow> data_operation" where
  "save_end_fields op row =
     row\<lparr>op_state := op_state op, op_pipeline_stage := op_pipeline_stage op,
         op_error_code := op_error_code op, op_error_detail := op_error_detail op,
         op_finished_at := op_finished_at op, op_lease_token := op_lease_token op,
         op_lease_expires_at := op_lease_expires_at op, op_updated_at := op_updated_at op\<rparr>"

definition text_or :: "string \<Rightarrow> string \<Rightarrow> string" where
  "text_or a b = (if a \<noteq> '''' then a else b)"

definition failed_op ::
  "(json \<Rightarrow> string option) \<Rightarrow> int option \<Rightarrow> instant \<Rightarrow> string \<Rightarrow> string \<Rightarrow> bool \<Rightarrow> json \<Rightarrow>
   data_operation \<Rightarrow> data_operation" where
  "failed_op dumps max_retries clk code stage retryable details op =
     (let again = retryable \<and> int (op_attempt op) \<le> (case max_retries of None \<Rightarrow> 3 | Some n \<Rightarrow> n) in
      op\<lparr>op_error_code := code, op_error_detail := json_safe_detail dumps details,
         op_pipeline_stage := text_or stage ''unknown'',
         op_state := (if again then Op_queued else Op_failed),
         op_finished_at := (if again then None else Some clk),
         op_lease_token := '''', op_lease_expires_at := None, op_updated_at := clk\<rparr>)"

definition finish_failed ::
  "(json \<Rightarrow> string option) \<Rightarrow> int option \<Rightarrow> instant \<Rightarrow> string \<Rightarrow> string \<Rightarrow> bool \<Rightarrow> json \<Rightarrow>
   data_operation \<Rightarrow> dataops_db \<Rightarrow> dataops_error + dataops_db \<times> data_operation" where
  "finish_failed dumps max_retries clk code stage retryable details op db =
     (if op_lease_token op \<noteq> '''' \<and> \<not> owns_lease (op_pk op) (op_lease_token op) db then Inr (db, op)
      else
      bind_res (of_option Row_not_saved (get_op (op_pk op) db)) (\<lambda>row.
      let op' = failed_op dumps max_retries clk code stage retryable details op in
      Inr (log_op (blank_op_event\<lparr>de_operation_id := Some (op_public_id op'),
             de_profile_key := text_or (op_destination_profile_key op')
               (text_or (op_source_profile_key op') (op_profile_key op')),
             de_action := ''pipeline_failed'', de_outcome := op_state_value (op_state op'),
             de_evidence := JObj [(''code'', JStr (op_error_code op')),
               (''stage'', JStr (op_pipeline_stage op')), (''attempt'', JInt (int (op_attempt op')))]\<rparr>)
           (put_op (save_end_fields op' row) db), op')))"

definition crashed_op :: "instant \<Rightarrow> data_operation \<Rightarrow> data_operation" where
  "crashed_op clk op =
     op\<lparr>op_state := Op_failed, op_pipeline_stage := ''unknown'',
        op_error_code := ''operation_executor_failed'',
        op_error_detail := ''The executor returned an unexpected failure.'',
        op_finished_at := Some clk, op_lease_token := '''', op_lease_expires_at := None,
        op_updated_at := clk\<rparr>"

definition finish_crashed ::
  "instant \<Rightarrow> data_operation \<Rightarrow> dataops_db \<Rightarrow> dataops_error + dataops_db \<times> data_operation" where
  "finish_crashed clk op db =
     (if op_lease_token op \<noteq> '''' \<and> \<not> owns_lease (op_pk op) (op_lease_token op) db then Inr (db, op)
      else
      bind_res (of_option Row_not_saved (get_op (op_pk op) db)) (\<lambda>row.
      let op' = crashed_op clk op in Inr (put_op (save_end_fields op' row) db, op')))"

definition published_op :: "(json \<Rightarrow> string) \<Rightarrow> instant \<Rightarrow> json \<Rightarrow> data_operation \<Rightarrow> data_operation" where
  "published_op repr clk result row =
     (let field = (\<lambda>k old. py_str repr (json_or (json_get_or k (JStr old) result) (JStr old))) in
      row\<lparr>op_state := Op_succeeded, op_pipeline_stage := ''publish_receipt'', op_result := result,
          op_release_id := field ''release_id'' (op_release_id row),
          op_source_profile_key := field ''source_profile'' (op_source_profile_key row),
          op_destination_profile_key := field ''destination_profile'' (op_destination_profile_key row),
          op_error_code := '''', op_error_detail := '''', op_finished_at := Some clk,
          op_lease_token := '''', op_lease_expires_at := None, op_updated_at := clk\<rparr>)"

text \<open>The flag tells whether the worker clears the dirty mark of the backup policy afterwards.\<close>

definition finish_published ::
  "(json \<Rightarrow> string) \<Rightarrow> int option \<Rightarrow> instant \<Rightarrow> json \<Rightarrow> data_operation \<Rightarrow> dataops_db \<Rightarrow>
   dataops_error + dataops_db \<times> data_operation \<times> bool" where
  "finish_published repr setting clk result op db =
     (case (if op_lease_token op = '''' then Inr (db, '''')
            else renew_operation_lease setting clk '''' (op_pk op) (op_lease_token op) db) of
        Inl e \<Rightarrow> Inr (db, op, False)
      | Inr (db1, t) \<Rightarrow>
          bind_res (of_option Operation_missing (get_op (op_pk op) db1)) (\<lambda>current.
          if op_lease_token op \<noteq> '''' \<and>
             (op_state current \<noteq> Op_running \<or> op_lease_token current \<noteq> op_lease_token op)
          then Inr (db1, op, False)
          else
          let current' = published_op repr clk result current;
              activation = (case json_get ''activation'' result of Some (JObj kvs) \<Rightarrow> JObj kvs | _ \<Rightarrow> JObj [])
          in Inr (log_op (blank_op_event\<lparr>de_operation_id := Some (op_public_id current'),
                 de_profile_key := text_or (op_destination_profile_key current')
                   (text_or (op_source_profile_key current') (op_profile_key current')),
                 de_action := ''pipeline_receipt_published'',
                 de_outcome := op_state_value (op_state current'),
                 de_evidence := JObj [
                   (''manifest_digest'', json_get_or ''manifest_digest'' (JStr '''') result),
                   (''active_generation'', json_get_or ''active_generation'' (JStr '''') activation),
                   (''source_profile'', json_get_or ''source_profile'' (JStr '''') result),
                   (''destination_profile'', json_get_or ''destination_profile'' (JStr '''') result)]\<rparr>)
               (put_op current' db1), current', op_kind current' = Op_backup)))"

datatype execution = Returned json | Raised_pipeline string string bool json | Raised_other

definition finish_pipeline_operation ::
  "(json \<Rightarrow> string) \<Rightarrow> (json \<Rightarrow> string option) \<Rightarrow> int option \<Rightarrow> int option \<Rightarrow> instant \<Rightarrow> instant \<Rightarrow>
   (executor \<Rightarrow> data_operation \<Rightarrow> execution) \<Rightarrow> (dataops_db \<Rightarrow> dataops_db) \<Rightarrow>
   data_operation \<Rightarrow> string \<Rightarrow> dataops_db \<Rightarrow> dataops_error + dataops_db \<times> data_operation \<times> bool" where
  "finish_pipeline_operation repr dumps setting max_retries clk1 clk2 execute meanwhile op lease_token db =
     bind_res (finish_begin setting clk1 lease_token op db) (\<lambda>(db1, op1).
     let db2 = meanwhile db1 in
     case execute (executor_of op1) op1 of
       Returned result \<Rightarrow> finish_published repr setting clk2 result op1 db2
     | Raised_pipeline code stage retryable details \<Rightarrow>
         bind_res (finish_failed dumps max_retries clk2 code stage retryable details op1 db2)
           (\<lambda>(db3, op3). Inr (db3, op3, False))
     | Raised_other \<Rightarrow>
         bind_res (finish_crashed clk2 op1 db2) (\<lambda>(db3, op3). Inr (db3, op3, False)))"

subsection \<open>Reconciling receipts\<close>

text \<open>
  The maintenance job a request id names is looked up in \<open>jobs\<close> (\<^verbatim>\<open>MaintenanceJob.objects.get\<close>,
  \<^term>\<open>None\<close> when it does not exist or the id is not a UUID).
\<close>

record maintenance_receipt =
  mr_public_id :: string
  mr_status :: string
  mr_completed_items :: nat
  mr_failed_items :: nat

definition pipeline_kinds :: "op_kind set" where
  "pipeline_kinds = {Op_backup, Op_restore, Test_recovery, Op_import, Clone_rebind, Op_sync}"

definition reconciled_op ::
  "(string \<Rightarrow> maintenance_receipt option) \<Rightarrow> instant \<Rightarrow> data_operation \<Rightarrow> data_operation" where
  "reconciled_op receipts clk op =
     (let failed = (\<lambda>code. op\<lparr>op_state := Op_failed, op_error_code := code, op_finished_at := Some clk,
                             op_updated_at := clk\<rparr>) in
      if op_request_id op = '''' then failed ''operation_executor_missing''
      else case receipts (op_request_id op) of
        None \<Rightarrow> failed ''maintenance_receipt_missing''
      | Some job \<Rightarrow>
          if mr_status job \<in> {''completed'', ''succeeded''}
          then op\<lparr>op_state := Op_succeeded,
                  op_result := JObj [(''maintenance_job_id'', JStr (mr_public_id job)),
                    (''completed_items'', JInt (int (mr_completed_items job))),
                    (''failed_items'', JInt (int (mr_failed_items job)))],
                  op_finished_at := Some clk, op_updated_at := clk\<rparr>
          else if mr_status job \<in> {''failed'', ''cancelled''} then failed ''maintenance_job_failed''
          else op\<lparr>op_state := Op_running,
                  op_started_at := (case op_started_at op of None \<Rightarrow> Some clk | Some t \<Rightarrow> Some t),
                  op_updated_at := clk\<rparr>)"

definition reconcile_one ::
  "(string \<Rightarrow> maintenance_receipt option) \<Rightarrow> instant \<Rightarrow> nat \<Rightarrow> dataops_db \<Rightarrow>
   dataops_error + dataops_db \<times> bool" where
  "reconcile_one receipts clk pk db =
     bind_res (of_option Operation_missing (get_op pk db)) (\<lambda>current.
     if op_state current \<noteq> Op_queued then Inr (db, False)
     else let current' = reconciled_op receipts clk current in
          Inr (log_op (blank_op_event\<lparr>de_operation_id := Some (op_public_id current'),
                 de_action := ''receipt_reconciled'', de_outcome := op_state_value (op_state current'),
                 de_evidence := JObj [(''error_code'', JStr (op_error_code current'))]\<rparr>)
               (put_op current' db), True))"

definition ordered_pks :: "(data_operation \<Rightarrow> bool) \<Rightarrow> nat \<Rightarrow> dataops_db \<Rightarrow> nat list" where
  "ordered_pks p n db = take n (map op_pk (sort_key op_created_at (filter p (operations db))))"

fun reconcile_each ::
  "(string \<Rightarrow> maintenance_receipt option) \<Rightarrow> instant \<Rightarrow> nat list \<Rightarrow> dataops_db \<Rightarrow>
   dataops_error + dataops_db \<times> nat" where
  "reconcile_each receipts clk [] db = Inr (db, 0)"
| "reconcile_each receipts clk (pk # pks) db =
     bind_res (reconcile_one receipts clk pk db) (\<lambda>(db1, done).
     bind_res (reconcile_each receipts clk pks db1) (\<lambda>(db2, n).
     Inr (db2, if done then n + 1 else n)))"

fun claim_each ::
  "int option \<Rightarrow> instant \<Rightarrow> (nat \<Rightarrow> string) \<Rightarrow> nat list \<Rightarrow> dataops_db \<Rightarrow>
   dataops_error + dataops_db \<times> (data_operation \<times> string) list" where
  "claim_each setting clk token [] db = Inr (db, [])"
| "claim_each setting clk token (pk # pks) db =
     bind_res (claim_pipeline_operation setting clk (token pk) pk db) (\<lambda>(db1, claim).
     bind_res (claim_each setting clk token pks db1) (\<lambda>(db2, claims).
     Inr (db2, (case claim of None \<Rightarrow> claims | Some c \<Rightarrow> c # claims))))"

fun finish_each ::
  "(data_operation \<Rightarrow> string \<Rightarrow> dataops_db \<Rightarrow> dataops_error + dataops_db \<times> data_operation \<times> bool) \<Rightarrow>
   (data_operation \<times> string) list \<Rightarrow> dataops_db \<Rightarrow> dataops_error + dataops_db \<times> unit" where
  "finish_each finish [] db = Inr (db, ())"
| "finish_each finish ((op, token) # claims) db =
     bind_res (finish op token db) (\<lambda>(db1, r). finish_each finish claims db1)"

text \<open>
  \<open>claim_queued\<close> and \<open>claim_stale\<close> are the two claiming loops, \<open>reconcile_receipts\<close> the whole sweep
  with the executor's runs given as \<open>finish\<close>.
\<close>

definition claim_pipelines ::
  "int option \<Rightarrow> instant \<Rightarrow> (nat \<Rightarrow> string) \<Rightarrow> nat \<Rightarrow> dataops_db \<Rightarrow>
   dataops_error + dataops_db \<times> (data_operation \<times> string) list" where
  "claim_pipelines setting clk token limit db =
     bind_res (claim_each setting clk token
       (ordered_pks (\<lambda>op. op_state op = Op_queued \<and> op_kind op \<in> pipeline_kinds) limit db) db)
       (\<lambda>(db1, claims).
     let remaining = limit - length claims in
     if remaining = 0 then Inr (db1, claims)
     else bind_res (claim_each setting clk token
         (ordered_pks (\<lambda>op. lease_expired clk op \<and> op_kind op \<in> pipeline_kinds) remaining db1) db1)
       (\<lambda>(db2, stale). Inr (db2, claims @ stale)))"

definition reconcile_receipts ::
  "(string \<Rightarrow> maintenance_receipt option) \<Rightarrow> int option \<Rightarrow> instant \<Rightarrow> (nat \<Rightarrow> string) \<Rightarrow>
   (data_operation \<Rightarrow> string \<Rightarrow> dataops_db \<Rightarrow> dataops_error + dataops_db \<times> data_operation \<times> bool) \<Rightarrow>
   int \<Rightarrow> dataops_db \<Rightarrow> dataops_error + dataops_db \<times> nat" where
  "reconcile_receipts receipts setting clk token finish limit db =
     bind_res (require (1 \<le> limit \<and> limit \<le> 200) (Value_error ''limit must be between 1 and 200'')) (\<lambda>_.
     bind_res (reconcile_each receipts clk
       (ordered_pks (\<lambda>op. op_state op = Op_queued \<and> op_kind op \<notin> pipeline_kinds) (nat limit) db) db)
       (\<lambda>(db1, changed).
     bind_res (claim_pipelines setting clk token (nat limit) db1) (\<lambda>(db2, claims).
     bind_res (finish_each finish claims db2) (\<lambda>(db3, u).
     Inr (db3, changed + length claims)))))"

subsection \<open>Queueing automatic backups\<close>

text \<open>
  The runtime configuration, the status of the backup action and the compiled plan come from
  \<^verbatim>\<open>v3_planning.py\<close> and \<^verbatim>\<open>v3_config.py\<close>; the caller passes what they return, \<^term>\<open>None\<close> where they
  raise. \<open>dirty_at\<close> is the cached change mark in seconds, if set.
\<close>

record backup_config =
  bc_backup_policy :: json
  bc_connection_source :: "string option"
  bc_connection_row :: "nat option"
  bc_backup_status :: "string option"
  bc_digest :: digest

record backup_plan =
  bp_allowed :: bool
  bp_contract_version :: int
  bp_configuration_digest :: digest
  bp_route :: string
  bp_plan_digest :: digest
  bp_as_dict :: json

definition backup_mode :: "(json \<Rightarrow> string) \<Rightarrow> json \<Rightarrow> string" where
  "backup_mode repr policy =
     py_lower (py_strip (py_str repr
       (json_or (json_get_or ''mode'' (JStr ''manual'') policy) (JStr ''manual''))))"

definition backup_interval :: "json \<Rightarrow> int option" where
  "backup_interval policy =
     map_option (max 1) (py_int
       (json_or (json_get_or ''interval_seconds'' JNull policy)
         (json_or (json_get_or ''maximum_delay_seconds'' JNull policy) (JInt 900))))"

definition quiet_elapsed :: "json \<Rightarrow> int option \<Rightarrow> instant \<Rightarrow> bool" where
  "quiet_elapsed policy dirty_at clk =
     (case (dirty_at, py_int (json_get_or ''quiet_period_seconds'' (JInt 120) policy)) of
        (Some d, Some quiet) \<Rightarrow> clk - 1000000 * d \<ge> 1000000 * quiet
      | _ \<Rightarrow> False)"

definition latest_backup :: "dataops_db \<Rightarrow> data_operation option" where
  "latest_backup db =
     (case sort_key (\<lambda>op. - op_created_at op)
             (filter (\<lambda>op. op_kind op = Op_backup \<and> op_state op = Op_succeeded \<and>
                json_get ''contract_version'' (op_lifecycle_plan op) = Some (JInt 3)) (operations db)) of
        [] \<Rightarrow> None | op # _ \<Rightarrow> Some op)"

definition backup_recent :: "int \<Rightarrow> instant \<Rightarrow> dataops_db \<Rightarrow> bool" where
  "backup_recent interval clk db =
     (case latest_backup db of None \<Rightarrow> False
      | Some op \<Rightarrow> (case op_finished_at op of None \<Rightarrow> False
                   | Some t \<Rightarrow> clk - t < 1000000 * interval))"

definition backup_due ::
  "(json \<Rightarrow> string) \<Rightarrow> bool \<Rightarrow> bool \<Rightarrow> backup_config option \<Rightarrow> backup_plan option \<Rightarrow> int option \<Rightarrow>
   string \<Rightarrow> bool \<Rightarrow> instant \<Rightarrow> dataops_db \<Rightarrow> (backup_config \<times> backup_plan \<times> nat \<times> int) option" where
  "backup_due repr enabled scheduling config plan dirty_at trigger force clk db =
     (if \<not> enabled \<or> (\<not> force \<and> \<not> scheduling) then None
      else case config of None \<Rightarrow> None | Some c \<Rightarrow>
        (case bc_backup_policy c of JObj kvs \<Rightarrow>
           let policy = JObj kvs; mode = backup_mode repr policy in
           if (mode = ''manual'' \<and> \<not> force) \<or> mode \<notin> {''manual'', ''scheduled'', ''changes''}
              \<or> bc_connection_source c \<noteq> Some ''control_database'' \<or> bc_backup_status c \<noteq> Some ''ready''
              \<or> (\<not> force \<and> trigger = ''change'' \<and> mode \<noteq> ''changes'')
              \<or> (mode = ''changes'' \<and> \<not> force \<and> \<not> quiet_elapsed policy dirty_at clk)
           then None
           else case backup_interval policy of None \<Rightarrow> None | Some interval \<Rightarrow>
             if \<not> force \<and> backup_recent interval clk db then None
             else case plan of None \<Rightarrow> None | Some p \<Rightarrow>
               if \<not> bp_allowed p \<or> bp_contract_version p \<noteq> 3 \<or> bp_configuration_digest p \<noteq> bc_digest c
               then None
               else map_option (\<lambda>row. (c, p, row, interval)) (bc_connection_row c)
         | _ \<Rightarrow> None))"

definition backup_key :: "(json \<Rightarrow> string) \<Rightarrow> backup_config \<Rightarrow> int \<Rightarrow> instant \<Rightarrow> string" where
  "backup_key repr c interval clk =
     ''dataops-v3-backup:'' @ take 16 (bc_digest c) @ '':'' @ backup_mode repr (bc_backup_policy c)
       @ '':'' @ show_int (clk div (1000000 * max 1 interval))"

definition queued_backup ::
  "nat \<Rightarrow> string \<Rightarrow> string \<Rightarrow> nat \<Rightarrow> backup_config \<Rightarrow> backup_plan \<Rightarrow> string \<Rightarrow> nat option \<Rightarrow> instant \<Rightarrow>
   data_operation" where
  "queued_backup pk public_id key connection c p trigger requested_by clk =
     \<lparr>op_pk = pk, op_public_id = public_id, op_kind = Op_backup, op_state = Op_queued,
      op_profile_key = '''', op_source_profile_key = '''', op_destination_profile_key = '''',
      op_connection = Some connection, op_release_id = '''', op_pipeline_stage = ''planned'',
      op_request_id = (case requested_by of None \<Rightarrow> '''' | Some i \<Rightarrow> if i = 0 then '''' else show_nat i),
      op_idempotency_key = key,
      op_checkpoint = JObj [(''configuration_digest'', JStr (bc_digest c)), (''trigger'', JStr trigger)],
      op_lifecycle_route = bp_route p, op_lifecycle_plan = bp_as_dict p,
      op_lifecycle_plan_digest = bp_plan_digest p, op_result = JObj [], op_error_code = '''',
      op_error_detail = '''', op_started_at = None, op_finished_at = None, op_attempt = 0,
      op_lease_token = '''', op_lease_expires_at = None, op_created_at = clk, op_updated_at = clk\<rparr>"

definition queue_backup_if_due ::
  "(json \<Rightarrow> string) \<Rightarrow> bool \<Rightarrow> bool \<Rightarrow> backup_config option \<Rightarrow> backup_plan option \<Rightarrow> int option \<Rightarrow>
   string \<Rightarrow> bool \<Rightarrow> nat option \<Rightarrow> string \<Rightarrow> instant \<Rightarrow> nat \<Rightarrow> string \<Rightarrow> dataops_db \<Rightarrow>
   dataops_db \<times> data_operation option" where
  "queue_backup_if_due repr enabled scheduling config plan dirty_at trigger force requested_by_id
     requested_by_name clk pk public_id db =
     (case backup_due repr enabled scheduling config plan dirty_at trigger force clk db of
        None \<Rightarrow> (db, None)
      | Some (c, p, connection, interval) \<Rightarrow>
          let key = backup_key repr c interval clk in
          if list_ex (\<lambda>op. op_kind op = Op_backup \<and> op_idempotency_key op = key) (operations db)
          then (db, None)
          else let op = queued_backup pk public_id key connection c p trigger requested_by_id clk in
            (log_op (blank_op_event\<lparr>de_actor_id := requested_by_id, de_actor_name := requested_by_name,
               de_action := ''backup_queued_automatically'', de_operation_id := Some public_id,
               de_outcome := ''queued'',
               de_evidence := JObj [(''trigger'', JStr trigger),
                 (''mode'', JStr (backup_mode repr (bc_backup_policy c))),
                 (''plan_digest'', JStr (bp_plan_digest p)),
                 (''configuration_digest'', JStr (bc_digest c))]\<rparr>)
               (db\<lparr>operations := operations db @ [op]\<rparr>), Some op))"

end
