(* ===== verification/DataOps_Safety.thy ===== *)
theory DataOps_Safety
  imports DataOps_Worker
begin

section \<open>What the data-operations worker guarantees\<close>

text \<open>
  Leases exclude other workers until they expire; a worker that lost its lease while executing
  writes nothing; automatic retries are bounded; automatic backups coalesce. Two gaps are stated as
  they are: the save before execution does not check the lease, and a receipt that was still in
  progress is not looked at again.
\<close>

lemma put_op_get:
  "get_op (op_pk op) db = Some r \<Longrightarrow> get_op pk (put_op op db) = (if pk = op_pk op then Some op else get_op pk db)"
  by (rule op_rows.get_put)

lemma op_changes_simps [simp]:
  "op_pk (claimed_op setting clk token op) = op_pk op" "op_pk (begun setting clk token op) = op_pk op"
  "op_pk (save_begin_fields op row) = op_pk row" "op_pk (save_end_fields op row) = op_pk row"
  "op_pk (failed_op dumps m clk code st re det op) = op_pk op" "op_pk (crashed_op clk op) = op_pk op"
  "op_pk (published_op repr clk result op) = op_pk op"
  "op_kind (claimed_op setting clk token op) = op_kind op" "op_kind (begun setting clk token op) = op_kind op"
  "op_kind (save_begin_fields op row) = op_kind row" "op_kind (save_end_fields op row) = op_kind row"
  "op_kind (published_op repr clk result op) = op_kind op"
  by (simp_all add: claimed_op_def begun_def save_begin_fields_def save_end_fields_def failed_op_def
      crashed_op_def published_op_def Let_def)

lemma reconciled_op_simps [simp]:
  "op_pk (reconciled_op receipts clk op) = op_pk op" "op_kind (reconciled_op receipts clk op) = op_kind op"
  by (simp_all add: reconciled_op_def Let_def split: option.splits)

lemma lease_deadline_later: "clk + 60000000 \<le> lease_deadline setting clk"
  by (auto simp: lease_deadline_def split: option.splits)

lemma claim_row:
  assumes "claim_pipeline_operation setting clk token pk db = Inr (db', Some (op, t))"
  obtains row where "get_op pk db = Some row" "op_state row = Op_queued \<or> lease_expired clk row"
    "op = claimed_op setting clk token row" "t = token" "op_pk op = pk" "get_op pk db' = Some op"
    "db' = put_op op db"
proof -
  from assms obtain row where row: "get_op pk db = Some row"
    by (auto simp: claim_pipeline_operation_def)
  then have "op_pk row = pk" by (rule op_rows.get_key)
  then show thesis
    using assms row
    by (intro that [of row])
      (auto simp: claim_pipeline_operation_def Let_def op_rows.get_put_same split: if_splits)
qed

subsection \<open>A concrete table\<close>

definition sample_op :: data_operation where
  "sample_op = \<lparr>op_pk = 1, op_public_id = ''o'', op_kind = Op_backup, op_state = Op_queued,
     op_profile_key = ''p'', op_source_profile_key = '''', op_destination_profile_key = '''',
     op_connection = None, op_release_id = '''', op_pipeline_stage = ''planned'', op_request_id = '''',
     op_idempotency_key = ''k'', op_checkpoint = JObj [], op_lifecycle_route = '''',
     op_lifecycle_plan = JObj [], op_lifecycle_plan_digest = '''', op_result = JObj [],
     op_error_code = '''', op_error_detail = '''', op_started_at = None, op_finished_at = None,
     op_attempt = 0, op_lease_token = '''', op_lease_expires_at = None, op_created_at = 0,
     op_updated_at = 0\<rparr>"

definition sample_receipt_op :: data_operation where
  "sample_receipt_op = sample_op\<lparr>op_pk := 2, op_kind := Op_reindex, op_state := Op_running,
     op_request_id := ''m''\<rparr>"

definition sample_ops :: dataops_db where
  "sample_ops = \<lparr>operations = [sample_op, sample_receipt_op], op_events = []\<rparr>"

definition sample_ops1 :: dataops_db where
  "sample_ops1 = state_after (claim_pipeline_operation None 0 ''a'' 1) sample_ops"

definition sample_ops2 :: dataops_db where
  "sample_ops2 = state_after (claim_pipeline_operation None 3600000000 ''b'' 1) sample_ops1"

lemma sample_claims:
  "claim_pipeline_operation None 0 ''a'' 1 sample_ops
     = Inr (sample_ops1, Some (claimed_op None 0 ''a'' sample_op, ''a''))"
  "claim_pipeline_operation None 3600000000 ''b'' 1 sample_ops1
     = Inr (sample_ops2, Some (claimed_op None 3600000000 ''b'' (claimed_op None 0 ''a'' sample_op), ''b''))"
proof -
  have q: "get_op 1 sample_ops = Some sample_op" "op_state sample_op = Op_queued" "op_pk sample_op = 1"
    by (simp_all add: get_op_def sample_ops_def sample_op_def find_row_def)
  then show 1: "claim_pipeline_operation None 0 ''a'' 1 sample_ops
      = Inr (sample_ops1, Some (claimed_op None 0 ''a'' sample_op, ''a''))"
    by (simp add: claim_pipeline_operation_def sample_ops1_def state_after_def Let_def)
  from 1 have g: "get_op 1 sample_ops1 = Some (claimed_op None 0 ''a'' sample_op)"
    by (auto elim: claim_row)
  have "lease_expired 3600000000 (claimed_op None 0 ''a'' sample_op)"
    by (simp add: lease_expired_def claimed_op_def lease_deadline_def)
  then show "claim_pipeline_operation None 3600000000 ''b'' 1 sample_ops1
      = Inr (sample_ops2, Some (claimed_op None 3600000000 ''b'' (claimed_op None 0 ''a'' sample_op), ''b''))"
    using g by (simp add: claim_pipeline_operation_def sample_ops2_def state_after_def Let_def)
qed

subsection \<open>Properties\<close>

text \<open>C7: Leases exclude: once a worker claimed an operation, every other claim of the row, as long as
  the row keeps that lease and for at least a minute, finds nothing to claim and changes nothing.\<close>

theorem lease_excludes_claims:
  assumes "claim_pipeline_operation setting clk token pk db = Inr (db', Some (op, t))"
    and "get_op pk later = get_op pk db'" and "clk' < clk + 60000000 \<or> clk' < lease_deadline setting clk"
  shows "claim_pipeline_operation setting' clk' token' pk later = Inr (later, None)"
proof -
  have "clk' < lease_deadline setting clk"
    using assms(3) lease_deadline_later [of clk setting] by auto
  then show ?thesis
    using assms(1,2)
    by (elim claim_row) (auto simp: claim_pipeline_operation_def lease_expired_def claimed_op_def)
qed

lemma lease_excludes_claims_witness:
  "claim_pipeline_operation (Some 5) 59999999 ''c'' 1 sample_ops1 = Inr (sample_ops1, None)"
  by (rule lease_excludes_claims [OF sample_claims(1) refl]) simp

text \<open>C20: A worker that lost its lease while the executor ran discards the outcome: whether the executor
  returned, failed or crashed, the database is left exactly as the others made it.\<close>

theorem lost_lease_discards_outcome:
  assumes "finish_begin setting clk1 token op db = Inr (db1, op1)" "op_lease_token op1 \<noteq> ''''"
    and "\<not> owns_lease (op_pk op) (op_lease_token op1) (meanwhile db1)"
  shows "finish_pipeline_operation repr dumps setting max_retries clk1 clk2 execute meanwhile op token db
    = Inr (meanwhile db1, op1, False)"
proof -
  have "op_pk op1 = op_pk op"
    using assms(1) by (auto simp: finish_begin_def Let_def)
  then show ?thesis
    using assms
    by (auto simp: finish_pipeline_operation_def Let_def finish_failed_def finish_crashed_def
        finish_published_def renew_operation_lease_def owns_lease_def
        split: execution.splits option.splits)
qed

lemma lost_lease_discards_outcome_witness:
  "\<exists>db1 op1. finish_pipeline_operation (\<lambda>j. '''') (\<lambda>j. None) None None 0 9 (\<lambda>e op. Raised_other)
     (\<lambda>db. db\<lparr>operations := []\<rparr>) sample_op ''a'' sample_ops = Inr (db1, op1, False)"
proof -
  let ?op = "begun None 0 ''a'' sample_op"
  let ?db = "put_op (save_begin_fields ?op sample_op) sample_ops"
  have "finish_begin None 0 ''a'' sample_op sample_ops = Inr (?db, ?op)"
    by (simp add: finish_begin_def Let_def get_op_def sample_ops_def sample_op_def find_row_def)
  from lost_lease_discards_outcome [OF this, where meanwhile = "\<lambda>db. db\<lparr>operations := []\<rparr>"]
  show ?thesis by (auto simp: begun_def Let_def owns_lease_def get_op_def find_row_def)
qed

text \<open>The save before execution takes no account of ownership. A worker that claimed a batch and
  reaches an operation after its lease expired and another worker reclaimed it writes its own token
  over the other's, and the rightful owner's next renewal fails with \<^verbatim>\<open>operation_lease_lost\<close>.\<close>

theorem late_begin_steals_lease:
  assumes "claim_pipeline_operation setting clk1 a pk db = Inr (db1, Some (op, a'))" "a \<noteq> ''''"
    and "claim_pipeline_operation setting clk2 b pk db1 = Inr (db2, Some (op2, b'))" "b \<noteq> a" "b \<noteq> ''''"
  shows "\<exists>db3 op3. finish_begin setting clk3 a op db2 = Inr (db3, op3)
    \<and> owns_lease pk a db3
    \<and> renew_operation_lease setting clk4 fresh pk b db3
        = Inl (Pipeline_error ''operation_lease_lost'' ''lease'' True (JObj []))"
proof -
  from assms(1) have op: "op_pk op = pk" by (auto elim: claim_row)
  from assms(3) obtain row where row: "get_op pk db2 = Some row" "op_pk row = pk"
    by (auto elim!: claim_row)
  let ?op3 = "begun setting clk3 a op"
  let ?db3 = "put_op (save_begin_fields ?op3 row) db2"
  have "get_op pk ?db3 = Some (save_begin_fields ?op3 row)"
    using row by (simp add: op_rows.get_put_same)
  moreover have "op_state (save_begin_fields ?op3 row) = Op_running"
    "op_lease_token (save_begin_fields ?op3 row) = a"
    using assms(2) by (simp_all add: save_begin_fields_def begun_def Let_def)
  ultimately show ?thesis
    using row op assms(4,5)
    by (intro exI [of _ ?db3] exI [of _ ?op3])
      (auto simp: finish_begin_def Let_def owns_lease_def renew_operation_lease_def)
qed

lemma late_begin_steals_lease_witness:
  "\<exists>db3 op3. finish_begin None 3600000001 ''a'' (claimed_op None 0 ''a'' sample_op) sample_ops2 = Inr (db3, op3)
    \<and> renew_operation_lease None 3600000002 '''' 1 ''b'' db3
        = Inl (Pipeline_error ''operation_lease_lost'' ''lease'' True (JObj []))"
  using late_begin_steals_lease [OF sample_claims(1) _ sample_claims(2), where ?clk3.0 = 3600000001
      and ?clk4.0 = 3600000002 and fresh = "''''"] by auto

text \<open>One cycle of a failing operation: it is claimed, run, and fails with a retryable error.\<close>

definition failing_cycle ::
  "(json \<Rightarrow> string option) \<Rightarrow> int option \<Rightarrow> int option \<Rightarrow> instant \<Rightarrow> string \<Rightarrow> string \<Rightarrow> json \<Rightarrow> string \<Rightarrow>
   nat \<Rightarrow> dataops_db \<Rightarrow> dataops_db" where
  "failing_cycle dumps setting max_retries clk code stage details token pk db =
     (case claim_pipeline_operation setting clk token pk db of
        Inr (db1, Some (op, t)) \<Rightarrow>
          state_after (finish_pipeline_operation (\<lambda>j. '''') dumps setting max_retries clk clk
            (\<lambda>e op. Raised_pipeline code stage True details) (\<lambda>db. db) op t) db1
      | _ \<Rightarrow> db)"

lemma failing_cycle_row:
  assumes "get_op pk db = Some row" "op_state row = Op_queued" "token \<noteq> ''''"
  shows "\<exists>row'. get_op pk (failing_cycle dumps setting (Some m) clk code stage details token pk db) = Some row'
    \<and> op_attempt row' = op_attempt row + 1
    \<and> op_state row' = (if int (op_attempt row) + 1 \<le> m then Op_queued else Op_failed)
    \<and> op_lease_expires_at row' = None"
proof -
  have pk: "op_pk row = pk" using assms(1) by (rule op_rows.get_key)
  let ?c = "claimed_op setting clk token row"
  let ?b = "begun setting clk token ?c"
  let ?f = "failed_op dumps (Some m) clk code stage True details ?b"
  let ?db1 = "put_op ?c db"
  let ?r = "save_begin_fields ?b ?c"
  let ?db2 = "put_op ?r ?db1"
  have c: "claim_pipeline_operation setting clk token pk db = Inr (?db1, Some (?c, token))"
    using assms by (simp add: claim_pipeline_operation_def Let_def)
  have g1: "get_op pk ?db1 = Some ?c" using assms(1) pk by (simp add: op_rows.get_put_same)
  have b: "finish_begin setting clk token ?c ?db1 = Inr (?db2, ?b)"
    using g1 pk by (simp add: finish_begin_def Let_def)
  have g2: "get_op pk ?db2 = Some ?r" using g1 pk by (simp add: op_rows.get_put_same)
  have tok: "op_lease_token ?b = token" "op_lease_token ?r = token" "op_state ?r = Op_running"
    "op_attempt ?r = op_attempt row + 1"
    using assms(3) by (simp_all add: begun_def Let_def save_begin_fields_def claimed_op_def)
  then have own: "owns_lease pk token ?db2" using g2 by (simp add: owns_lease_def)
  obtain ev where
    f: "finish_failed dumps (Some m) clk code stage True details ?b ?db2
      = Inr (log_op ev (put_op (save_end_fields ?f ?r) ?db2), ?f)"
    using own tok(1) g2 pk by (simp add: finish_failed_def Let_def)
  have "failing_cycle dumps setting (Some m) clk code stage details token pk db
      = log_op ev (put_op (save_end_fields ?f ?r) ?db2)"
    using c b f by (simp add: failing_cycle_def finish_pipeline_operation_def state_after_def Let_def)
  then have "get_op pk (failing_cycle dumps setting (Some m) clk code stage details token pk db)
      = Some (save_end_fields ?f ?r)"
    using g2 pk by (simp add: op_rows.get_put_same)
  then show ?thesis
    using tok(4)
    by (simp add: save_end_fields_def failed_op_def begun_def save_begin_fields_def claimed_op_def Let_def)
qed

text \<open>C30: Automatic retries are bounded: an operation that fails with a retryable error in every run is
  queued again after each of its first \<open>m\<close> runs and is failed for good after run \<open>m + 1\<close>, with \<open>m\<close> the
  configured maximum; no later cycle runs it again.\<close>

theorem auto_retry_bounded:
  assumes "get_op pk db = Some row" "op_state row = Op_queued" "op_attempt row = 0" "token \<noteq> ''''"
  shows "\<exists>row'. get_op pk ((failing_cycle dumps setting (Some (int m)) clk code stage details token pk ^^ k) db)
      = Some row'
    \<and> op_attempt row' = min k (m + 1) \<and> op_state row' = (if k \<le> m then Op_queued else Op_failed)"
proof (induction k)
  case 0
  then show ?case using assms by simp
next
  case (Suc k)
  let ?cycle = "failing_cycle dumps setting (Some (int m)) clk code stage details token pk"
  from Suc obtain r where r: "get_op pk ((?cycle ^^ k) db) = Some r" "op_attempt r = min k (m + 1)"
    "op_state r = (if k \<le> m then Op_queued else Op_failed)" by blast
  show ?case
  proof (cases "k \<le> m")
    case True
    then show ?thesis
      using failing_cycle_row [OF r(1) _ assms(4), of dumps setting "int m" clk code stage details] r
      by (auto simp: min_def split: if_splits)
  next
    case False
    then have "claim_pipeline_operation setting clk token pk ((?cycle ^^ k) db) = Inr ((?cycle ^^ k) db, None)"
      using r by (simp add: claim_pipeline_operation_def lease_expired_def)
    then have "?cycle ((?cycle ^^ k) db) = (?cycle ^^ k) db" by (simp add: failing_cycle_def)
    then show ?thesis using r False by simp
  qed
qed

lemma auto_retry_bounded_witness:
  "\<exists>row. get_op 1 ((failing_cycle (\<lambda>j. None) None (Some (int 3)) 0 ''c'' ''s'' (JObj []) ''t'' 1 ^^ 5) sample_ops)
      = Some row \<and> op_attempt row = 4 \<and> op_state row = Op_failed"
proof -
  have "get_op 1 sample_ops = Some sample_op"
    by (simp add: get_op_def sample_ops_def sample_op_def find_row_def)
  from auto_retry_bounded [OF this, where token = "''t''" and m = 3 and k = 5] show ?thesis
    by (simp add: sample_op_def)
qed

subsection \<open>Receipts\<close>

definition ops_wf :: "dataops_db \<Rightarrow> bool" where
  "ops_wf db = distinct (map op_pk (operations db))"

text \<open>\<open>leaves pk db db'\<close>: the keys stand and the row \<open>pk\<close> is as it was.\<close>

definition leaves :: "nat \<Rightarrow> dataops_db \<Rightarrow> dataops_db \<Rightarrow> bool" where
  "leaves pk db db' = (map op_pk (operations db') = map op_pk (operations db) \<and> get_op pk db' = get_op pk db)"

lemma leaves_refl [simp]: "leaves pk db db"
  by (simp add: leaves_def)

lemma leaves_trans: "leaves pk a b \<Longrightarrow> leaves pk b c \<Longrightarrow> leaves pk a c"
  by (simp add: leaves_def)

lemma leaves_log [simp]: "leaves pk db (log_op ev db') = leaves pk db db'"
  by (simp add: leaves_def)

lemma leaves_put [simp]: "pk \<noteq> op_pk op \<Longrightarrow> leaves pk db (put_op op db') = leaves pk db db'"
  by (simp add: leaves_def op_rows.get_put_other)

lemma leaves_wf: "leaves pk a b \<Longrightarrow> ops_wf a \<Longrightarrow> ops_wf b"
  by (simp add: leaves_def ops_wf_def)

lemma reconcile_one_leaves:
  assumes "reconcile_one receipts clk k db = Inr (db', b)" "get_op pk db = Some row" "op_state row = Op_running"
  shows "leaves pk db db'"
proof -
  obtain cur where cur: "get_op k db = Some cur" using assms(1) by (auto simp: reconcile_one_def)
  have "op_pk cur = k" using cur by (rule op_rows.get_key)
  then show ?thesis
    using assms cur
    by (cases "k = pk") (auto simp: reconcile_one_def Let_def split: if_splits)
qed

lemma reconcile_each_leaves:
  "reconcile_each receipts clk pks db = Inr (db', n) \<Longrightarrow> get_op pk db = Some row \<Longrightarrow>
   op_state row = Op_running \<Longrightarrow> leaves pk db db'"
proof (induction pks arbitrary: db n)
  case (Cons k pks)
  then obtain db1 b m where 1: "reconcile_one receipts clk k db = Inr (db1, b)"
    "reconcile_each receipts clk pks db1 = Inr (db', m)" by (auto split: if_splits)
  have "leaves pk db db1" using reconcile_one_leaves [OF 1(1) Cons.prems(2,3)] .
  moreover from this have "leaves pk db1 db'"
    using Cons.IH [OF 1(2) _ Cons.prems(3)] Cons.prems(2) by (simp add: leaves_def)
  ultimately show ?case by (rule leaves_trans)
qed simp

lemma claim_leaves:
  assumes "claim_pipeline_operation setting clk token k db = Inr (db', c)" "k \<noteq> pk"
  shows "leaves pk db db'"
proof -
  obtain cur where cur: "get_op k db = Some cur" using assms(1) by (auto simp: claim_pipeline_operation_def)
  have "op_pk cur = k" using cur by (rule op_rows.get_key)
  then show ?thesis
    using assms cur by (auto simp: claim_pipeline_operation_def Let_def split: if_splits)
qed

lemma claim_each_leaves:
  "claim_each setting clk token pks db = Inr (db', cs) \<Longrightarrow> pk \<notin> set pks \<Longrightarrow>
   leaves pk db db' \<and> (\<forall>(op, t)\<in>set cs. op_pk op \<noteq> pk)"
proof (induction pks arbitrary: db cs)
  case (Cons k pks)
  then obtain db1 c cs' where 1: "claim_pipeline_operation setting clk (token k) k db = Inr (db1, c)"
    "claim_each setting clk token pks db1 = Inr (db', cs')"
    "cs = (case c of None \<Rightarrow> cs' | Some c \<Rightarrow> c # cs')" by auto
  have "op_pk (fst o') = k" if "c = Some o'" for o'
    using 1(1) that by (cases o') (auto elim: claim_row)
  then show ?case
    using Cons.IH [OF 1(2)] claim_leaves [OF 1(1), of pk] 1(3) Cons.prems(2)
    by (auto intro: leaves_trans split: option.splits)
qed simp

lemma ordered_pks_other:
  assumes "ops_wf db" "get_op pk db = Some row" "\<not> p row"
  shows "pk \<notin> set (ordered_pks p n db)"
proof
  assume "pk \<in> set (ordered_pks p n db)"
  then obtain op where op: "op \<in> set (operations db)" "p op" "op_pk op = pk"
    by (auto simp: ordered_pks_def dest!: in_set_takeD)
  then have "get_op pk db = Some op"
    using assms(1) find_row_in [of op_pk "operations db" op] by (simp add: get_op_def ops_wf_def)
  then show False using assms(2,3) op(2) by simp
qed

lemma finish_leaves:
  assumes "finish_pipeline_operation repr dumps setting mr clk1 clk2 execute (\<lambda>db. db) op token db = Inr (db', r)"
    "op_pk op \<noteq> pk"
  shows "leaves pk db db'"
proof -
  from assms(1) obtain db1 op1 where b: "finish_begin setting clk1 token op db = Inr (db1, op1)"
    by (auto simp: finish_pipeline_operation_def)
  have key: "op_pk row = k" if "get_op k d = Some row" for k d row using that by (rule op_rows.get_key)
  have 1: "leaves pk db db1" "op_pk op1 = op_pk op"
    using b assms(2) key by (auto simp: finish_begin_def Let_def)
  have "leaves pk db1 db'"
    using assms b 1(2) key
    by (auto simp: finish_pipeline_operation_def Let_def finish_failed_def finish_crashed_def
        finish_published_def renew_operation_lease_def split: execution.splits if_splits option.splits)
  then show ?thesis using 1(1) leaves_trans by blast
qed

lemma finish_each_leaves:
  assumes "\<And>op t d d' r. finish op t d = Inr (d', r) \<Longrightarrow> op_pk op \<noteq> pk \<Longrightarrow> leaves pk d d'"
  shows "finish_each finish cs db = Inr (db', u) \<Longrightarrow> \<forall>(op, t)\<in>set cs. op_pk op \<noteq> pk \<Longrightarrow> leaves pk db db'"
proof (induction cs arbitrary: db)
  case (Cons c cs)
  obtain op t where c: "c = (op, t)" by (cases c)
  from Cons.prems(1) c obtain d r where d: "finish op t db = Inr (d, r)" "finish_each finish cs d = Inr (db', u)"
    by (auto)
  have "leaves pk db d" using assms [OF d(1)] Cons.prems(2) c by simp
  moreover have "leaves pk d db'" using Cons.IH [OF d(2)] Cons.prems(2) by simp
  ultimately show ?case by (rule leaves_trans)
qed simp

text \<open>A receipt operation whose maintenance job was still in progress when it was first reconciled is
  marked running and never looked at again: whatever the job's status becomes, no sweep changes its
  row, so it stays running for ever.\<close>

theorem running_receipt_never_reconciled:
  assumes "ops_wf db" "get_op pk db = Some row" "op_state row = Op_running" "op_kind row \<notin> pipeline_kinds"
    and "reconcile_receipts receipts setting clk token
      (finish_pipeline_operation repr dumps setting max_retries clk1 clk2 execute (\<lambda>db. db)) limit db
      = Inr (db', n)"
  shows "get_op pk db' = Some row"
proof -
  let ?fin = "finish_pipeline_operation repr dumps setting max_retries clk1 clk2 execute (\<lambda>db. db)"
  from assms(5) obtain db1 c db2 cs where
    1: "reconcile_each receipts clk
       (ordered_pks (\<lambda>op. op_state op = Op_queued \<and> op_kind op \<notin> pipeline_kinds) (nat limit) db) db = Inr (db1, c)"
    and 2: "claim_pipelines setting clk token (nat limit) db1 = Inr (db2, cs)"
    and 3: "finish_each ?fin cs db2 = Inr (db', ())"
    by (auto simp: reconcile_receipts_def)
  have l1: "leaves pk db db1" using reconcile_each_leaves [OF 1 assms(2,3)] .
  then have r1: "get_op pk db1 = Some row" "ops_wf db1"
    using assms(2) l1 leaves_wf [OF l1 assms(1)] by (simp_all add: leaves_def)
  have l2: "leaves pk db1 db2 \<and> (\<forall>(op, t)\<in>set cs. op_pk op \<noteq> pk)"
  proof -
    from 2 obtain dq cq where q: "claim_each setting clk token
        (ordered_pks (\<lambda>op. op_state op = Op_queued \<and> op_kind op \<in> pipeline_kinds) (nat limit) db1) db1 = Inr (dq, cq)"
      by (auto simp: claim_pipelines_def Let_def)
    have lq: "leaves pk db1 dq \<and> (\<forall>(op, t)\<in>set cq. op_pk op \<noteq> pk)"
      using claim_each_leaves [OF q] ordered_pks_other [OF r1(2,1)] assms(4) by simp
    then have rq: "get_op pk dq = Some row" "ops_wf dq"
      using r1 leaves_wf [of pk db1 dq] by (simp_all add: leaves_def)
    show ?thesis
    proof (cases "nat limit - length cq = 0")
      case True
      then show ?thesis using 2 q lq by (auto simp: claim_pipelines_def Let_def)
    next
      case False
      with 2 q obtain ds where s: "claim_each setting clk token (ordered_pks
          (\<lambda>op. lease_expired clk op \<and> op_kind op \<in> pipeline_kinds) (nat limit - length cq) dq) dq = Inr (db2, ds)"
        "cs = cq @ ds" by (auto simp: claim_pipelines_def Let_def)
      have "leaves pk dq db2 \<and> (\<forall>(op, t)\<in>set ds. op_pk op \<noteq> pk)"
        using claim_each_leaves [OF s(1)] ordered_pks_other [OF rq(2,1)] assms(4) by simp
      then show ?thesis using lq s(2) leaves_trans by auto
    qed
  qed
  have "leaves pk db2 db'"
    by (rule finish_each_leaves [OF _ 3]) (use finish_leaves l2 in blast)+
  then have "leaves pk db db'" using l1 l2 leaves_trans by blast
  then show ?thesis using assms(2) by (simp add: leaves_def)
qed

lemma running_receipt_never_reconciled_witness:
  "\<exists>db' n. reconcile_receipts (\<lambda>i. Some \<lparr>mr_public_id = i, mr_status = ''succeeded'', mr_completed_items = 1,
      mr_failed_items = 0\<rparr>) None 5 (\<lambda>pk. ''t'')
     (finish_pipeline_operation (\<lambda>j. '''') (\<lambda>j. None) None None 6 7 (\<lambda>e op. Returned (JObj [])) (\<lambda>db. db))
     10 sample_ops = Inr (db', n) \<and> get_op 2 db' = Some sample_receipt_op"
proof -
  let ?r = "reconcile_receipts (\<lambda>i. Some \<lparr>mr_public_id = i, mr_status = ''succeeded'', mr_completed_items = 1,
      mr_failed_items = 0\<rparr>) None 5 (\<lambda>pk. ''t'')
     (finish_pipeline_operation (\<lambda>j. '''') (\<lambda>j. None) None None 6 7 (\<lambda>e op. Returned (JObj [])) (\<lambda>db. db))
     10 sample_ops"
  have "succeeds ?r" by code_simp
  then obtain db' n where r: "?r = Inr (db', n)"
    by (cases ?r) (auto simp: succeeds_def)
  have "ops_wf sample_ops" "get_op 2 sample_ops = Some sample_receipt_op"
    "op_state sample_receipt_op = Op_running" "op_kind sample_receipt_op \<notin> pipeline_kinds"
    by (simp_all add: ops_wf_def get_op_def sample_ops_def sample_receipt_op_def sample_op_def
        find_row_def pipeline_kinds_def)
  from running_receipt_never_reconciled [OF this r] r show ?thesis by blast
qed

subsection \<open>Automatic backups\<close>

text \<open>No two operations of one kind share a non-empty idempotency key.\<close>

definition keys_unique :: "dataops_db \<Rightarrow> bool" where
  "keys_unique db = distinct (map (\<lambda>op. (op_kind op, op_idempotency_key op))
     (filter (\<lambda>op. op_idempotency_key op \<noteq> '''') (operations db)))"

lemma queued_cases:
  assumes "queue_backup_if_due repr en sch config plan dirty trigger force who name clk pk pid db = (db', Some op)"
  obtains c p row interval where
    "backup_due repr en sch config plan dirty trigger force clk db = Some (c, p, row, interval)"
    "op = queued_backup pk pid (backup_key repr c interval clk) row c p trigger who clk"
    "operations db' = operations db @ [op]"
    "\<not> list_ex (\<lambda>o'. op_kind o' = Op_backup \<and> op_idempotency_key o' = op_idempotency_key op) (operations db)"
  using assms
  by (auto simp: queue_backup_if_due_def Let_def queued_backup_def split: option.splits if_splits prod.splits)

lemma backup_due_config:
  "backup_due repr en sch config plan dirty trigger force clk db = Some (c, p, row, interval) \<Longrightarrow>
   en \<and> (force \<or> sch) \<and> config = Some c \<and> plan = Some p \<and> backup_interval (bc_backup_policy c) = Some interval
   \<and> bp_allowed p \<and> bp_contract_version p = 3 \<and> bc_backup_status c = Some ''ready''
   \<and> bp_configuration_digest p = bc_digest c \<and> 1 \<le> interval"
  by (auto simp: backup_due_def Let_def backup_interval_def split: if_splits option.splits json.splits)

text \<open>Automatic backups coalesce. Once a call queued an operation, a call under the same
  configuration in the same interval bucket, with whatever trigger, force, plan or caller, adds
  nothing as long as the queued row is still in the table.\<close>

theorem backup_coalesces:
  assumes "queue_backup_if_due repr en sch (Some c) plan dirty trigger force who name clk pk pid db = (db', Some op)"
    and "backup_interval (bc_backup_policy c) = Some interval"
    and "clk' div (1000000 * interval) = clk div (1000000 * interval)"
    and "\<exists>o'\<in>set (operations later). op_kind o' = op_kind op \<and> op_idempotency_key o' = op_idempotency_key op"
  shows "queue_backup_if_due repr en' sch' (Some c) plan' dirty' trigger' force' who' name' clk' pk' pid' later
    = (later, None)"
proof (cases "backup_due repr en' sch' (Some c) plan' dirty' trigger' force' clk' later")
  case None
  then show ?thesis by (simp add: queue_backup_if_due_def)
next
  case (Some q)
  obtain c' p' row' i' where q: "q = (c', p', row', i')" by (cases q) auto
  with Some have eq: "c' = c" "i' = interval" "1 \<le> interval"
    using backup_due_config assms(2) by fastforce+
  from assms(1) obtain p row where op:
    "op = queued_backup pk pid (backup_key repr c interval clk) row c p trigger who clk"
    by (rule queued_cases) (use backup_due_config assms(2) in fastforce)
  have "backup_key repr c interval clk' = backup_key repr c interval clk"
    using assms(3) eq(3) by (simp add: backup_key_def max_def)
  then have "list_ex (\<lambda>o'. op_kind o' = Op_backup \<and> op_idempotency_key o' = backup_key repr c interval clk')
      (operations later)"
    using assms(4) op by (auto simp: queued_backup_def list_ex_iff)
  then show ?thesis using Some q eq by (simp add: queue_backup_if_due_def Let_def)
qed

text \<open>An automatic backup is queued only when data operations are enabled, scheduling is on or the call
  is forced, the action is ready, and an allowed version-3 plan for the very configuration exists; it
  is appended queued and without a lease, and no idempotency key is ever taken twice.\<close>

theorem backup_queued_guarded:
  assumes "queue_backup_if_due repr en sch config plan dirty trigger force who name clk pk pid db = (db', Some op)"
  shows "(keys_unique db \<longrightarrow> keys_unique db') \<and> operations db' = operations db @ [op]
    \<and> op_kind op = Op_backup \<and> op_state op = Op_queued \<and> op_lease_token op = ''''
    \<and> en \<and> (force \<or> sch) \<and> (\<exists>c p. config = Some c \<and> plan = Some p \<and> bp_allowed p
        \<and> bp_contract_version p = 3 \<and> bp_configuration_digest p = bc_digest c
        \<and> bc_backup_status c = Some ''ready'')"
proof -
  from assms obtain c p row i where q:
    "backup_due repr en sch config plan dirty trigger force clk db = Some (c, p, row, i)"
    "op = queued_backup pk pid (backup_key repr c i clk) row c p trigger who clk"
    "operations db' = operations db @ [op]"
    "\<not> list_ex (\<lambda>o'. op_kind o' = Op_backup \<and> op_idempotency_key o' = op_idempotency_key op) (operations db)"
    by (rule queued_cases)
  have op: "op_kind op = Op_backup" "op_state op = Op_queued" "op_lease_token op = ''''"
    using q(2) by (simp_all add: queued_backup_def)
  have "keys_unique db'" if "keys_unique db"
    using that q(3,4) op by (auto simp: keys_unique_def list_ex_iff)
  then show ?thesis using backup_due_config [OF q(1)] q(3) op by blast
qed

definition sample_config :: backup_config where
  "sample_config = \<lparr>bc_backup_policy = JObj [(''mode'', JStr '' Scheduled ''), (''interval_seconds'', JStr ''600'')],
     bc_connection_source = Some ''control_database'', bc_connection_row = Some 4,
     bc_backup_status = Some ''ready'', bc_digest = ''0123456789abcdefXYZ''\<rparr>"

definition sample_plan :: backup_plan where
  "sample_plan = \<lparr>bp_allowed = True, bp_contract_version = 3,
     bp_configuration_digest = ''0123456789abcdefXYZ'', bp_route = ''r'', bp_plan_digest = ''pd'',
     bp_as_dict = JObj []\<rparr>"

lemma sample_queue:
  "\<exists>db' op. queue_backup_if_due (\<lambda>j. '''') True True (Some sample_config) (Some sample_plan) None ''scheduled''
     False None '''' 600000000 7 ''u'' sample_ops = (db', Some op)"
proof -
  have "snd (queue_backup_if_due (\<lambda>j. '''') True True (Some sample_config) (Some sample_plan) None ''scheduled''
     False None '''' 600000000 7 ''u'' sample_ops) \<noteq> None" by code_simp
  then show ?thesis by (metis not_None_eq prod.collapse)
qed

lemma backup_coalesces_witness:
  "\<exists>db' op. queue_backup_if_due (\<lambda>j. '''') True True (Some sample_config) (Some sample_plan) None ''scheduled''
     False None '''' 600000000 7 ''u'' sample_ops = (db', Some op)
   \<and> queue_backup_if_due (\<lambda>j. '''') True True (Some sample_config) (Some sample_plan) None ''change''
     True (Some 3) ''x'' 1199999999 8 ''v'' db' = (db', None)"
proof -
  obtain db' op where q: "queue_backup_if_due (\<lambda>j. '''') True True (Some sample_config) (Some sample_plan) None
     ''scheduled'' False None '''' 600000000 7 ''u'' sample_ops = (db', Some op)"
    using sample_queue by blast
  have i: "backup_interval (bc_backup_policy sample_config) = Some 600" by code_simp
  have m: "\<exists>o'\<in>set (operations db'). op_kind o' = op_kind op \<and> op_idempotency_key o' = op_idempotency_key op"
    using q by (auto elim: queued_cases)
  show ?thesis
    using backup_coalesces [OF q i _ m, where clk' = 1199999999] q by simp
qed

lemma backup_queued_guarded_witness:
  "\<exists>db' op. queue_backup_if_due (\<lambda>j. '''') True True (Some sample_config) (Some sample_plan) None ''scheduled''
     False None '''' 600000000 7 ''u'' sample_ops = (db', Some op) \<and> op_state op = Op_queued"
proof -
  obtain db' op where q: "queue_backup_if_due (\<lambda>j. '''') True True (Some sample_config) (Some sample_plan) None
     ''scheduled'' False None '''' 600000000 7 ''u'' sample_ops = (db', Some op)"
    using sample_queue by blast
  with backup_queued_guarded [OF q] show ?thesis by blast
qed

end
