(* ===== verification/DataOps_Schedule.thy ===== *)
theory DataOps_Schedule
  imports Flow_Prelude
begin

section \<open>Schedules and repair budgets\<close>

text \<open>
  \<^verbatim>\<open>flowdocs/dataops/job_scheduler.py\<close>, the cron expressions of backup jobs, and
  \<^verbatim>\<open>flowdocs/dataops/reconciler.py\<close>, the budget of automatic repairs. A field of an expression is the
  list of the values it names. \<open>localize\<close> is the time-zone database: the local time of an instant in
  a named zone, \<^term>\<open>None\<close> for an unknown zone.
\<close>

subsection \<open>Cron expressions\<close>

datatype schedule_error = Schedule_configuration_error string

text \<open>\<^verbatim>\<open>str.partition\<close> and \<^verbatim>\<open>str.split\<close> without arguments.\<close>

definition partition_at :: "char \<Rightarrow> string \<Rightarrow> string \<times> bool \<times> string" where
  "partition_at d s =
     (takeWhile (\<lambda>c. c \<noteq> d) s, d \<in> set s, drop 1 (dropWhile (\<lambda>c. c \<noteq> d) s))"

fun split_blank_aux :: "string \<Rightarrow> string \<Rightarrow> string list" where
  "split_blank_aux acc [] = (if acc = [] then [] else [rev acc])"
| "split_blank_aux acc (c # cs) =
     (if py_space c then (if acc = [] then split_blank_aux [] cs else rev acc # split_blank_aux [] cs)
      else split_blank_aux (c # acc) cs)"

definition split_blank :: "string \<Rightarrow> string list" where
  "split_blank s = split_blank_aux [] s"

definition py_range :: "int \<Rightarrow> int \<Rightarrow> int \<Rightarrow> int list" where
  "py_range start stop step = filter (\<lambda>i. (i - start) mod step = 0) [start..stop - 1]"

definition cron_item :: "int \<Rightarrow> int \<Rightarrow> string \<Rightarrow> schedule_error + int list" where
  "cron_item minimum maximum raw =
     (let item = py_strip raw; (base, separator, step_text) = partition_at (CHR ''/'') item in
      if item = '''' then Inl (Schedule_configuration_error ''cron_field_empty'')
      else
      bind_res (if separator then of_option (Schedule_configuration_error ''cron_step_invalid'') (py_int_text step_text)
                else Inr 1) (\<lambda>step.
      bind_res (require (1 \<le> step) (Schedule_configuration_error ''cron_step_invalid'')) (\<lambda>_.
      bind_res
        (if base = ''*'' then Inr (minimum, maximum)
         else if CHR ''-'' \<in> set base then
           (case partition_at (CHR ''-'') base of (start_text, b, end_text) \<Rightarrow>
              (case (py_int_text start_text, py_int_text end_text) of
                 (Some start, Some stop) \<Rightarrow> Inr (start, stop)
               | _ \<Rightarrow> Inl (Schedule_configuration_error ''cron_range_invalid'')))
         else (case py_int_text base of
                 None \<Rightarrow> Inl (Schedule_configuration_error ''cron_value_invalid'')
               | Some v \<Rightarrow> Inr (v, v))) (\<lambda>(start, stop).
      bind_res (require (minimum \<le> start \<and> stop \<le> maximum \<and> start \<le> stop)
        (Schedule_configuration_error ''cron_value_out_of_range'')) (\<lambda>_.
      Inr (py_range start (stop + 1) step))))))"

fun cron_items :: "int \<Rightarrow> int \<Rightarrow> string list \<Rightarrow> schedule_error + int list" where
  "cron_items minimum maximum [] = Inr []"
| "cron_items minimum maximum (item # items) =
     bind_res (cron_item minimum maximum item) (\<lambda>vs.
     bind_res (cron_items minimum maximum items) (\<lambda>rest. Inr (vs @ rest)))"

definition cron_field :: "string \<Rightarrow> int \<Rightarrow> int \<Rightarrow> schedule_error + int list \<times> bool" where
  "cron_field value minimum maximum =
     bind_res (cron_items minimum maximum (split_on (CHR '','') value)) (\<lambda>vs.
     Inr (vs, value \<in> {''*'', ''*/1''}))"

record cron =
  cr_minute :: "int list"
  cr_hour :: "int list"
  cr_day :: "int list"
  cr_month :: "int list"
  cr_weekday :: "int list"
  cr_day_wildcard :: bool
  cr_weekday_wildcard :: bool

definition fold_sunday :: "int list \<Rightarrow> int list" where
  "fold_sunday weekday = (if 7 \<in> set weekday then 0 # removeAll 7 weekday else weekday)"

definition parse_schedule :: "string \<Rightarrow> schedule_error + cron" where
  "parse_schedule expression =
     (case split_blank expression of
        [p0, p1, p2, p3, p4] \<Rightarrow>
          bind_res (cron_field p0 0 59) (\<lambda>(minute, _).
          bind_res (cron_field p1 0 23) (\<lambda>(hour, _).
          bind_res (cron_field p2 1 31) (\<lambda>(day, day_wildcard).
          bind_res (cron_field p3 1 12) (\<lambda>(month, _).
          bind_res (cron_field p4 0 7) (\<lambda>(weekday, weekday_wildcard).
          Inr \<lparr>cr_minute = minute, cr_hour = hour, cr_day = day, cr_month = month,
               cr_weekday = fold_sunday weekday, cr_day_wildcard = day_wildcard,
               cr_weekday_wildcard = weekday_wildcard\<rparr>)))))
      | _ \<Rightarrow> Inl (Schedule_configuration_error ''cron_requires_five_fields''))"

text \<open>A local time; the weekday counts from Monday, which is 0.\<close>

record local_time =
  lt_minute :: int
  lt_hour :: int
  lt_day :: int
  lt_month :: int
  lt_weekday :: int

definition cron_matches :: "cron \<Rightarrow> local_time \<Rightarrow> bool" where
  "cron_matches c t =
     (let cron_weekday = (lt_weekday t + 1) mod 7;
          day_matches = lt_day t \<in> set (cr_day c);
          weekday_matches = cron_weekday \<in> set (cr_weekday c);
          calendar_match =
            (if \<not> cr_day_wildcard c \<and> \<not> cr_weekday_wildcard c then day_matches \<or> weekday_matches
             else day_matches \<and> weekday_matches)
      in lt_minute t \<in> set (cr_minute c) \<and> lt_hour t \<in> set (cr_hour c)
         \<and> lt_month t \<in> set (cr_month c) \<and> calendar_match)"

definition schedule_matches ::
  "(string \<Rightarrow> instant \<Rightarrow> local_time option) \<Rightarrow> string \<Rightarrow> instant \<Rightarrow> string \<Rightarrow> schedule_error + bool" where
  "schedule_matches localize expression moment timezone_name =
     bind_res (of_option (Schedule_configuration_error ''timezone_invalid'') (localize timezone_name moment)) (\<lambda>t.
     bind_res (parse_schedule expression) (\<lambda>c. Inr (cron_matches c t)))"

record backup_job =
  bj_pk :: nat
  bj_slug :: string
  bj_source_profile_key :: string
  bj_target_profile_key :: string
  bj_source_prefix :: string
  bj_target_prefix :: string
  bj_mode :: string
  bj_schedule :: string
  bj_timezone :: string
  bj_enabled :: bool
  bj_delete_orphans :: bool
  bj_bandwidth_limit_bps :: nat
  bj_retry_limit :: nat
  bj_mirror_delete_max_objects :: nat
  bj_mirror_delete_max_percent :: nat
  bj_last_run_at :: "instant option"
  bj_last_run_status :: string

text \<open>
  \<^verbatim>\<open>automatic_backup_scheduling_enabled\<close>: the explicit setting, else the environment's identity.
\<close>

definition automatic_backup_scheduling_enabled :: "json option \<Rightarrow> bool option \<Rightarrow> bool" where
  "automatic_backup_scheduling_enabled explicit identity =
     (case explicit of Some v \<Rightarrow> if v = JNull then identity = Some True else json_truthy v
      | None \<Rightarrow> identity = Some True)"

definition stamped_job :: "(string \<Rightarrow> instant \<Rightarrow> local_time option) \<Rightarrow> instant \<Rightarrow> backup_job \<Rightarrow> backup_job" where
  "stamped_job localize moment job =
     (if \<not> bj_enabled job \<or> bj_schedule job = '''' then job
      else case schedule_matches localize (bj_schedule job) moment (bj_timezone job) of
        Inl (Schedule_configuration_error m) \<Rightarrow> job\<lparr>bj_last_run_status := ''invalid: '' @ m\<rparr>
      | Inr True \<Rightarrow> job\<lparr>bj_last_run_status := ''manual_required:v3_only''\<rparr>
      | Inr False \<Rightarrow> job)"

definition queue_due_backup_jobs ::
  "(string \<Rightarrow> instant \<Rightarrow> local_time option) \<Rightarrow> bool \<Rightarrow> instant \<Rightarrow> backup_job list \<Rightarrow> backup_job list \<times> nat" where
  "queue_due_backup_jobs localize scheduling moment jobs =
     (if \<not> scheduling then (jobs, 0) else (map (stamped_job localize moment) jobs, 0))"

lemma set_py_range: "1 \<le> step \<Longrightarrow> set (py_range start stop step) \<subseteq> {start..<stop}"
  by (auto simp: py_range_def)

lemma cron_item_range: "cron_item lo hi s = Inr vs \<Longrightarrow> set vs \<subseteq> {lo..hi} \<and> vs \<noteq> []"
proof -
  assume a: "cron_item lo hi s = Inr vs"
  then obtain step start stop where "1 \<le> step" "lo \<le> start" "stop \<le> hi" "start \<le> stop"
    "vs = py_range start (stop + 1) step"
    by (auto simp: cron_item_def Let_def split: prod.splits if_splits)
  moreover have "start \<in> set (py_range start (stop + 1) step)" if "start \<le> stop" for start stop step
    using that by (simp add: py_range_def)
  ultimately show ?thesis using set_py_range [of step start "stop + 1"] by fastforce
qed

lemma cron_items_range: "cron_items lo hi ss = Inr vs \<Longrightarrow> set vs \<subseteq> {lo..hi} \<and> (ss \<noteq> [] \<longrightarrow> vs \<noteq> [])"
proof (induction ss arbitrary: vs)
  case (Cons a ss)
  then obtain x y where "cron_item lo hi a = Inr x" "cron_items lo hi ss = Inr y" "vs = x @ y" by auto
  then show ?case using Cons.IH cron_item_range [of lo hi a x] by simp
qed simp

lemma cron_field_range: "cron_field s lo hi = Inr (vs, w) \<Longrightarrow> set vs \<subseteq> {lo..hi} \<and> vs \<noteq> []"
  by (auto simp: cron_field_def dest!: cron_items_range)

text \<open>A cron expression that parses names, in every field, at least one value and only values of the
  field's calendar range, with Sunday always 0: whatever it matches is a real minute, hour, day, month
  and weekday.\<close>

theorem parse_schedule_ranges:
  assumes "parse_schedule expression = Inr c"
  shows "set (cr_minute c) \<subseteq> {0..59} \<and> set (cr_hour c) \<subseteq> {0..23} \<and> set (cr_day c) \<subseteq> {1..31}
    \<and> set (cr_month c) \<subseteq> {1..12} \<and> set (cr_weekday c) \<subseteq> {0..6}
    \<and> cr_minute c \<noteq> [] \<and> cr_hour c \<noteq> [] \<and> cr_day c \<noteq> [] \<and> cr_month c \<noteq> [] \<and> cr_weekday c \<noteq> []"
proof -
  obtain p0 p1 p2 p3 p4 minute hour day month weekday w0 w1 w2 w3 w4 where
    f: "cron_field p0 0 59 = Inr (minute, w0)" "cron_field p1 0 23 = Inr (hour, w1)"
    "cron_field p2 1 31 = Inr (day, w2)" "cron_field p3 1 12 = Inr (month, w3)"
    "cron_field p4 0 7 = Inr (weekday, w4)"
    "c = \<lparr>cr_minute = minute, cr_hour = hour, cr_day = day, cr_month = month,
       cr_weekday = fold_sunday weekday, cr_day_wildcard = w2, cr_weekday_wildcard = w4\<rparr>"
    using assms by (auto simp: parse_schedule_def split: list.splits)
  have w: "0 \<le> x \<and> x \<le> 6" if "x \<in> set weekday" "x \<noteq> 7" for x
  proof -
    have "0 \<le> x" "x \<le> 7" using cron_field_range [OF f(5)] that(1) by auto
    then show ?thesis using that(2) by linarith
  qed
  have "set (fold_sunday weekday) \<subseteq> {0..6}"
  proof
    fix x assume "x \<in> set (fold_sunday weekday)"
    then consider "x = 0" | "x \<in> set weekday" "x \<noteq> 7"
      by (auto simp: fold_sunday_def split: if_splits)
    then show "x \<in> {0..6}" by cases (use w in auto)
  qed
  moreover have "fold_sunday weekday \<noteq> []"
    using cron_field_range [OF f(5)] by (auto simp: fold_sunday_def)
  ultimately show ?thesis
    using f(6) cron_field_range [OF f(1)] cron_field_range [OF f(2)] cron_field_range [OF f(3)]
      cron_field_range [OF f(4)] by simp
qed

lemma parse_schedule_ranges_witness:
  "\<exists>c. parse_schedule ''*/15 0-5 1 * 5-7'' = Inr c \<and> set (cr_weekday c) \<subseteq> {0..6} \<and> 7 \<notin> set (cr_weekday c)"
proof -
  have "succeeds (parse_schedule ''*/15 0-5 1 * 5-7'')" by code_simp
  then obtain c where c: "parse_schedule ''*/15 0-5 1 * 5-7'' = Inr c"
    by (cases "parse_schedule ''*/15 0-5 1 * 5-7''") (auto simp: succeeds_def)
  from parse_schedule_ranges [OF c] c show ?thesis by force
qed

subsection \<open>Repair budgets\<close>

text \<open>
  An observation is a JSON object. A count that is not an integer raises; the decisions taken so far
  are lost with the exception, the budget they took stays spent.
\<close>

record heal_budget =
  hb_per_run :: int
  hb_per_day :: int
  hb_used_run :: int
  hb_used_day :: int

definition budget_remaining :: "heal_budget \<Rightarrow> int" where
  "budget_remaining b = max 0 (min (hb_per_run b - hb_used_run b) (hb_per_day b - hb_used_day b))"

definition budget_take :: "int \<Rightarrow> heal_budget \<Rightarrow> heal_budget \<times> int" where
  "budget_take requested b =
     (let amount = max 0 (min requested (budget_remaining b)) in
      (b\<lparr>hb_used_run := hb_used_run b + amount, hb_used_day := hb_used_day b + amount\<rparr>, amount))"

record recovery_decision =
  rd_action :: string
  rd_reason :: string
  rd_count :: int
  rd_requires_approval :: bool
  rd_evidence :: json

definition safe_actions :: "string set" where
  "safe_actions = {''recover_orphan_jobs'', ''refresh_observation'', ''repair_indexes'',
     ''reindex_documents'', ''cleanup_temp_workspace''}"

definition approval_actions :: "string set" where
  "approval_actions = {''restore_candidate'', ''activate_staging'', ''activate_production''}"

definition observed_count :: "json \<Rightarrow> int option" where
  "observed_count o' = py_int (json_or (json_get_or ''count'' (JInt 1) o') (JInt 1))"

definition choose_repair ::
  "(json \<Rightarrow> string) \<Rightarrow> json \<Rightarrow> heal_budget \<Rightarrow> heal_budget \<times> recovery_decision list option" where
  "choose_repair repr observation b =
     (let condition = py_strip (py_str repr (json_get_or ''condition'' (JStr '''') observation));
          evidence = JObj [(''observation_id'', json_get_or ''id'' (JStr '''') observation)];
          decide = (\<lambda>reason count approval.
            \<lparr>rd_action = condition, rd_reason = reason, rd_count = count,
             rd_requires_approval = approval, rd_evidence = evidence\<rparr>) in
      if condition \<in> safe_actions then
        (case observed_count observation of
           None \<Rightarrow> (b, None)
         | Some requested \<Rightarrow>
             (case budget_take requested b of (b', count) \<Rightarrow>
               if count \<noteq> 0 then (b', Some [decide ''bounded_safe_repair'' count False])
               else if requested \<noteq> 0 then (b', Some [decide ''budget_exhausted'' 0 False])
               else (b', Some [])))
      else if condition \<in> approval_actions then
        (case observed_count observation of
           None \<Rightarrow> (b, None)
         | Some n \<Rightarrow> (b, Some [decide ''operator_approval_required'' n True]))
      else if condition \<noteq> '''' then (b, Some [decide ''unknown_condition_stopped'' 0 False])
      else (b, Some []))"

fun choose_repairs ::
  "(json \<Rightarrow> string) \<Rightarrow> json list \<Rightarrow> heal_budget \<Rightarrow> heal_budget \<times> recovery_decision list option" where
  "choose_repairs repr [] b = (b, Some [])"
| "choose_repairs repr (observation # rest) b =
     (case choose_repair repr observation b of
        (b1, None) \<Rightarrow> (b1, None)
      | (b1, Some ds) \<Rightarrow>
          (case choose_repairs repr rest b1 of
             (b2, None) \<Rightarrow> (b2, None)
           | (b2, Some es) \<Rightarrow> (b2, Some (ds @ es))))"

text \<open>What the decisions grant: the counts of those that run without approval.\<close>

definition granted :: "recovery_decision list \<Rightarrow> int" where
  "granted ds = sum_list (map rd_count (filter (\<lambda>d. \<not> rd_requires_approval d) ds))"

definition budget_ok :: "heal_budget \<Rightarrow> bool" where
  "budget_ok b = (hb_used_run b \<le> hb_per_run b \<and> hb_used_day b \<le> hb_per_day b)"

lemma budget_take_spends:
  "budget_take n b = (b', amount) \<Longrightarrow>
   hb_per_run b' = hb_per_run b \<and> hb_per_day b' = hb_per_day b
   \<and> hb_used_run b' = hb_used_run b + amount \<and> hb_used_day b' = hb_used_day b + amount
   \<and> 0 \<le> amount \<and> (budget_ok b \<longrightarrow> budget_ok b')"
proof -
  assume t: "budget_take n b = (b', amount)"
  then have a: "amount = max 0 (min n (budget_remaining b))"
    and b': "b' = b\<lparr>hb_used_run := hb_used_run b + amount, hb_used_day := hb_used_day b + amount\<rparr>"
    by (auto simp: budget_take_def Let_def)
  have "0 \<le> amount" using a by simp
  moreover have "budget_ok b'" if "budget_ok b"
  proof -
    have "0 \<le> budget_remaining b" by (simp add: budget_remaining_def)
    then have "amount \<le> budget_remaining b" using a by (simp add: max_def min_def)
    moreover have "budget_remaining b = min (hb_per_run b - hb_used_run b) (hb_per_day b - hb_used_day b)"
      using that by (simp add: budget_remaining_def budget_ok_def)
    ultimately show ?thesis using b' by (simp add: budget_ok_def)
  qed
  ultimately show ?thesis using b' by simp
qed

lemma choose_repair_spends:
  assumes "choose_repair repr ob b = (b', ds)"
  shows "hb_per_run b' = hb_per_run b \<and> hb_per_day b' = hb_per_day b
    \<and> hb_used_run b' = hb_used_run b + granted (case ds of None \<Rightarrow> [] | Some xs \<Rightarrow> xs)
    \<and> hb_used_day b' = hb_used_day b + granted (case ds of None \<Rightarrow> [] | Some xs \<Rightarrow> xs)
    \<and> (budget_ok b \<longrightarrow> budget_ok b')
    \<and> (\<forall>d\<in>set (case ds of None \<Rightarrow> [] | Some xs \<Rightarrow> xs).
        (rd_requires_approval d \<longleftrightarrow> rd_action d \<in> approval_actions)
        \<and> (rd_count d \<noteq> 0 \<longrightarrow> rd_action d \<in> safe_actions \<union> approval_actions))"
proof (cases "py_strip (py_str repr (json_get_or ''condition'' (JStr '''') ob)) \<in> safe_actions")
  case True
  then have disj: "py_strip (py_str repr (json_get_or ''condition'' (JStr '''') ob)) \<notin> approval_actions"
    by (auto simp: safe_actions_def approval_actions_def)
  show ?thesis
  proof (cases "observed_count ob")
    case None
    then show ?thesis using assms True by (simp add: choose_repair_def Let_def granted_def)
  next
    case (Some n)
    obtain b1 amount where t: "budget_take n b = (b1, amount)" by (cases "budget_take n b")
    have "b' = b1" "ds = Some (if amount = 0 \<and> n = 0 then [] else
        [\<lparr>rd_action = py_strip (py_str repr (json_get_or ''condition'' (JStr '''') ob)),
          rd_reason = (if amount = 0 then ''budget_exhausted'' else ''bounded_safe_repair''),
          rd_count = amount, rd_requires_approval = False,
          rd_evidence = JObj [(''observation_id'', json_get_or ''id'' (JStr '''') ob)]\<rparr>])"
      using assms True Some t by (auto simp: choose_repair_def Let_def split: if_splits)
    then show ?thesis using budget_take_spends [OF t] True disj by (simp add: granted_def)
  qed
next
  case False
  have "b' = b" "granted (case ds of None \<Rightarrow> [] | Some xs \<Rightarrow> xs) = 0"
    "\<forall>d\<in>set (case ds of None \<Rightarrow> [] | Some xs \<Rightarrow> xs).
        (rd_requires_approval d \<longleftrightarrow> rd_action d \<in> approval_actions)
        \<and> (rd_count d \<noteq> 0 \<longrightarrow> rd_action d \<in> safe_actions \<union> approval_actions)"
    using assms False
    by (auto simp: choose_repair_def Let_def granted_def split: if_splits option.splits)
  then show ?thesis by simp
qed

text \<open>C32: Automatic repairs stay within their budget. Whatever is observed, both counters rise by exactly
  the total granted, never past the limits of the run and of the day, each grant is for a safe action,
  and exactly the restore and activation actions are left to an operator's approval.\<close>

theorem repairs_within_budget:
  assumes "choose_repairs repr obs b = (b', Some ds)" "budget_ok b"
  shows "hb_used_run b' = hb_used_run b + granted ds \<and> hb_used_day b' = hb_used_day b + granted ds
    \<and> hb_used_run b' \<le> hb_per_run b \<and> hb_used_day b' \<le> hb_per_day b
    \<and> (\<forall>d\<in>set ds. (rd_requires_approval d \<longleftrightarrow> rd_action d \<in> approval_actions)
        \<and> (rd_count d \<noteq> 0 \<longrightarrow> rd_action d \<in> safe_actions \<union> approval_actions))"
proof -
  have "hb_per_run b' = hb_per_run b \<and> hb_per_day b' = hb_per_day b \<and> budget_ok b'
    \<and> hb_used_run b' = hb_used_run b + granted ds \<and> hb_used_day b' = hb_used_day b + granted ds
    \<and> (\<forall>d\<in>set ds. (rd_requires_approval d \<longleftrightarrow> rd_action d \<in> approval_actions)
        \<and> (rd_count d \<noteq> 0 \<longrightarrow> rd_action d \<in> safe_actions \<union> approval_actions))"
    using assms
  proof (induction obs arbitrary: b ds)
    case Nil
    then show ?case by (simp add: granted_def)
  next
    case (Cons ob obs)
    obtain b1 xs where 1: "choose_repair repr ob b = (b1, Some xs)"
      using Cons.prems(1) by (auto split: prod.splits option.splits)
    then obtain ys where 2: "choose_repairs repr obs b1 = (b', Some ys)" "ds = xs @ ys"
      using Cons.prems(1) by (auto split: prod.splits option.splits)
    have s: "hb_per_run b1 = hb_per_run b" "hb_per_day b1 = hb_per_day b" "budget_ok b1"
      "hb_used_run b1 = hb_used_run b + granted xs" "hb_used_day b1 = hb_used_day b + granted xs"
      "\<forall>d\<in>set xs. (rd_requires_approval d \<longleftrightarrow> rd_action d \<in> approval_actions)
        \<and> (rd_count d \<noteq> 0 \<longrightarrow> rd_action d \<in> safe_actions \<union> approval_actions)"
      using choose_repair_spends [OF 1] Cons.prems(2) by simp_all
    have "granted ds = granted xs + granted ys" by (simp add: 2(2) granted_def)
    then show ?case using Cons.IH [OF 2(1) s(3)] s 2(2) by auto
  qed
  then show ?thesis by (auto simp: budget_ok_def)
qed

lemma repairs_within_budget_witness:
  "\<exists>b' ds. choose_repairs (\<lambda>j. '''')
     [JObj [(''condition'', JStr ''repair_indexes''), (''count'', JInt 7)],
      JObj [(''condition'', JStr ''activate_production'')]]
     \<lparr>hb_per_run = 5, hb_per_day = 20, hb_used_run = 0, hb_used_day = 0\<rparr> = (b', Some ds)
   \<and> hb_used_run b' \<le> 5"
proof -
  let ?r = "choose_repairs (\<lambda>j. '''')
     [JObj [(''condition'', JStr ''repair_indexes''), (''count'', JInt 7)],
      JObj [(''condition'', JStr ''activate_production'')]]
     \<lparr>hb_per_run = 5, hb_per_day = 20, hb_used_run = 0, hb_used_day = 0\<rparr>"
  have "snd ?r \<noteq> None" by code_simp
  then obtain b' ds where r: "?r = (b', Some ds)" by (metis not_None_eq prod.collapse)
  from repairs_within_budget [OF r] r show ?thesis by (simp add: budget_ok_def)
qed

end
