(* ===== verification/DataOps_Sync.thy ===== *)
theory DataOps_Sync
  imports DataOps_Schedule "HOL-Library.Product_Lexorder"
begin

section \<open>Bucket-to-bucket synchronisation and mirror deletion\<close>

text \<open>
  \<^verbatim>\<open>flowdocs/dataops/job_executor.py\<close> and \<^verbatim>\<open>mirror.py\<close>. The object stores are third-party services: a
  store is a value of an arbitrary type with the client calls as functions; a copy or a deletion that
  raises may have been carried out. Listing the source is a
  function from continuation tokens to pages; \<open>head\<close> gives an object's size and the source tag in its
  metadata, \<^term>\<open>None\<close> when the call raises; \<open>upload n item key\<close> is the \<open>n\<close>-th attempt to stream the
  source object to a key and tells whether it came back without an exception; \<open>lease\<close> tells whether
  the worker's lease could be renewed before an object. Pauses between attempts are left out.
\<close>

datatype sync_error =
    Sync_error string string
  | Client_failure
  | Listing_diverges

subsection \<open>Keys and listings\<close>

definition strip_char :: "char \<Rightarrow> string \<Rightarrow> string" where
  "strip_char c s = strip_by (\<lambda>x. x = c) s"

definition s3_prefix :: "string \<Rightarrow> string" where
  "s3_prefix value =
     (let v = strip_char (CHR ''/'') (py_strip value) in if v = '''' then '''' else v @ ''/'')"

record s3_item =
  it_key :: string
  it_size :: int
  it_etag :: string

record s3_page =
  pg_contents :: "s3_item list"
  pg_truncated :: bool
  pg_next_token :: string

definition is_object :: "s3_item \<Rightarrow> bool" where
  "is_object item = (it_key item \<noteq> '''' \<and> last (it_key item) \<noteq> CHR ''/'')"

text \<open>
  The generator that walks the pages: the objects in order and whether the walk ended well. It may
  run for ever on a listing whose tokens form a cycle, so it is a partial function.
\<close>

partial_function (option) list_objects ::
  "(string \<Rightarrow> s3_page) \<Rightarrow> string \<Rightarrow> (s3_item list \<times> bool) option" where
  "list_objects pages token =
     (let page = pages token; here = filter is_object (pg_contents page) in
      if \<not> pg_truncated page then Some (here, True)
      else if pg_next_token page = '''' then Some (here, False)
      else Option.bind (list_objects pages (pg_next_token page))
             (\<lambda>(rest, ok). Some (here @ rest, ok)))"

definition target_key :: "string \<Rightarrow> string \<Rightarrow> string \<Rightarrow> string" where
  "target_key source_key source_prefix target_prefix =
     (let relative = (if source_prefix \<noteq> '''' \<and> prefix source_prefix source_key
                      then drop (length source_prefix) source_key else source_key)
      in target_prefix @ lstrip_char (CHR ''/'') relative)"

subsection \<open>Transferring objects\<close>

text \<open>One object: up to \<open>left + 1\<close> attempts, each checked against the source size.\<close>

fun transfer_object ::
  "('t \<Rightarrow> string \<Rightarrow> (int \<times> string) option) \<Rightarrow> (nat \<Rightarrow> s3_item \<Rightarrow> string \<Rightarrow> 't \<Rightarrow> 't \<times> bool) \<Rightarrow>
   s3_item \<Rightarrow> string \<Rightarrow> nat \<Rightarrow> nat \<Rightarrow> 't \<Rightarrow> 't \<times> bool" where
  "transfer_object head upload item dest attempt left t =
     (case upload attempt item dest t of (t1, ok) \<Rightarrow>
        if ok \<and> map_option fst (head t1 dest) = Some (it_size item) then (t1, True)
        else (case left of 0 \<Rightarrow> (t1, False)
              | Suc n \<Rightarrow> transfer_object head upload item dest (attempt + 1) n t1))"

declare transfer_object.simps [simp del]

record sync_counts =
  sc_copied :: nat
  sc_skipped :: nat
  sc_bytes :: int
  sc_last_key :: string
  sc_saved_key :: string

definition unchanged_object :: "(int \<times> string) option \<Rightarrow> s3_item \<Rightarrow> bool" where
  "unchanged_object existing item =
     (case existing of None \<Rightarrow> False
      | Some (bytes, tag) \<Rightarrow> bytes = it_size item \<and> tag = strip_char (CHR 0x22) (it_etag item))"

text \<open>
  The loop over the listed objects. \<open>sc_last_key\<close> is the variable \<^verbatim>\<open>last_completed_key\<close> and
  \<open>sc_saved_key\<close> the one saved in the operation's checkpoint.
\<close>

fun sync_objects ::
  "('t \<Rightarrow> string \<Rightarrow> (int \<times> string) option) \<Rightarrow> (nat \<Rightarrow> s3_item \<Rightarrow> string \<Rightarrow> 't \<Rightarrow> 't \<times> bool) \<Rightarrow>
   (string \<Rightarrow> bool) \<Rightarrow> bool \<Rightarrow> nat \<Rightarrow> string \<Rightarrow> string \<Rightarrow> s3_item list \<Rightarrow> sync_counts \<Rightarrow> 't \<Rightarrow>
   't \<times> (sync_error + sync_counts)" where
  "sync_objects head upload lease archive retry_limit sp tp [] st t = (t, Inr st)"
| "sync_objects head upload lease archive retry_limit sp tp (item # items) st t =
     (let dest = target_key (it_key item) sp tp in
      if sc_last_key st \<noteq> '''' \<and> it_key item \<le> sc_last_key st
      then sync_objects head upload lease archive retry_limit sp tp items
             (st\<lparr>sc_skipped := sc_skipped st + 1\<rparr>) t
      else if \<not> lease (it_key item)
      then (t, Inl (Sync_error ''operation_lease_lost'' ''lease''))
      else if \<not> archive \<and> unchanged_object (head t dest) item
      then sync_objects head upload lease archive retry_limit sp tp items
             (st\<lparr>sc_skipped := sc_skipped st + 1, sc_last_key := it_key item\<rparr>) t
      else (case transfer_object head upload item dest 0 retry_limit t of
              (t1, False) \<Rightarrow> (t1, Inl (Sync_error ''object_transfer_failed'' ''transfer''))
            | (t1, True) \<Rightarrow>
                sync_objects head upload lease archive retry_limit sp tp items
                  (st\<lparr>sc_copied := sc_copied st + 1, sc_bytes := sc_bytes st + it_size item,
                      sc_last_key := it_key item, sc_saved_key := it_key item\<rparr>) t1))"

subsection \<open>Mirror deletions\<close>

record deletion_preview =
  dp_state_ready :: bool
  dp_job :: nat
  dp_digest :: digest
  dp_object_keys :: "string list"
  dp_target_object_count :: nat
  dp_total_bytes :: int
  dp_expires_at :: instant

record orphan_evidence =
  oe_keys :: "string list"
  oe_digest :: digest
  oe_bytes :: int
  oe_target_count :: nat

definition orphan_evidence ::
  "((string \<times> int) list \<Rightarrow> digest) \<Rightarrow> string \<Rightarrow> string \<Rightarrow> string list \<Rightarrow> s3_item list \<Rightarrow> orphan_evidence" where
  "orphan_evidence sha source_prefix target_prefix source_keys target_items =
     (let expected = map (\<lambda>k. target_prefix @ lstrip_char (CHR ''/'') (drop (length source_prefix) k)) source_keys;
          orphans = sort (map (\<lambda>i. (it_key i, it_size i))
            (filter (\<lambda>i. it_key i \<notin> set expected \<and> \<not> contains_text ''/.dataops-quarantine/'' (it_key i))
               target_items))
      in \<lparr>oe_keys = map fst orphans, oe_digest = sha orphans, oe_bytes = sum_list (map snd orphans),
          oe_target_count = length target_items\<rparr>)"

definition create_deletion_preview ::
  "instant \<Rightarrow> backup_job \<Rightarrow> orphan_evidence \<Rightarrow> sync_error + deletion_preview" where
  "create_deletion_preview clk job evidence =
     (if bj_mode job \<noteq> ''mirror'' \<or> \<not> bj_delete_orphans job
      then Inl (Sync_error ''mirror_deletion_not_configured'' ''preflight'')
      else let count = length (oe_keys evidence) in
        if count > bj_mirror_delete_max_objects job
           \<or> count * 100 > bj_mirror_delete_max_percent job * max 1 (oe_target_count evidence)
        then Inl (Sync_error ''mirror_deletion_budget_exceeded'' ''preflight'')
        else Inr \<lparr>dp_state_ready = True, dp_job = bj_pk job, dp_digest = oe_digest evidence,
               dp_object_keys = oe_keys evidence, dp_target_object_count = oe_target_count evidence,
               dp_total_bytes = oe_bytes evidence, dp_expires_at = clk + 900000000\<rparr>)"

definition quarantine_key :: "string \<Rightarrow> string \<Rightarrow> string \<Rightarrow> string" where
  "quarantine_key target_prefix operation key =
     s3_prefix target_prefix @ ''.dataops-quarantine/'' @ operation @ ''/''
       @ lstrip_char (CHR ''/'') (drop (length (s3_prefix target_prefix)) key)"

text \<open>
  Quarantine first: copy, compare the sizes, delete. A copy and a deletion give the store they leave and
  whether they came back: one that raises may have been carried out all the same. It ends the loop; what
  was done stays done.
\<close>

fun quarantine_each ::
  "('t \<Rightarrow> string \<Rightarrow> (int \<times> string) option) \<Rightarrow> (string \<Rightarrow> string \<Rightarrow> 't \<Rightarrow> 't \<times> bool) \<Rightarrow>
   (string \<Rightarrow> 't \<Rightarrow> 't \<times> bool) \<Rightarrow> (string \<Rightarrow> string) \<Rightarrow> string list \<Rightarrow> 't \<Rightarrow> 't \<times> (sync_error + unit)" where
  "quarantine_each head copy delete q [] t = (t, Inr ())"
| "quarantine_each head copy delete q (key # keys) t =
     (case head t key of None \<Rightarrow> (t, Inl Client_failure)
      | Some original \<Rightarrow>
        (case copy key (q key) t of (t1, False) \<Rightarrow> (t1, Inl Client_failure)
         | (t1, True) \<Rightarrow>
           (case head t1 (q key) of None \<Rightarrow> (t1, Inl Client_failure)
            | Some quarantined \<Rightarrow>
              if fst original \<noteq> fst quarantined
              then (t1, Inl (Sync_error ''mirror_quarantine_verification_failed'' ''verification''))
              else (case delete key t1 of (t2, False) \<Rightarrow> (t2, Inl Client_failure)
                    | (t2, True) \<Rightarrow> quarantine_each head copy delete q keys t2))))"

definition apply_confirmed_deletions ::
  "('t \<Rightarrow> string \<Rightarrow> (int \<times> string) option) \<Rightarrow> (string \<Rightarrow> string \<Rightarrow> 't \<Rightarrow> 't \<times> bool) \<Rightarrow>
   (string \<Rightarrow> 't \<Rightarrow> 't \<times> bool) \<Rightarrow> instant \<Rightarrow> string \<Rightarrow> string \<Rightarrow> orphan_evidence \<Rightarrow> deletion_preview \<Rightarrow>
   't \<Rightarrow> 't \<times> (sync_error + deletion_preview)" where
  "apply_confirmed_deletions head copy delete clk operation target_prefix current preview t =
     (if \<not> dp_state_ready preview \<or> dp_expires_at preview \<le> clk
      then (t, Inl (Sync_error ''mirror_preview_expired'' ''verification''))
      else if oe_digest current \<noteq> dp_digest preview \<or> oe_keys current \<noteq> dp_object_keys preview
      then (t, Inl (Sync_error ''mirror_preview_stale'' ''verification''))
      else (case quarantine_each head copy delete (quarantine_key target_prefix operation)
                   (dp_object_keys preview) t of
              (t1, Inl e) \<Rightarrow> (t1, Inl e)
            | (t1, Inr u) \<Rightarrow> (t1, Inr (preview\<lparr>dp_state_ready := False\<rparr>))))"

subsection \<open>The job\<close>

record sync_profile =
  sp_key :: string
  sp_role :: string
  sp_endpoint :: string
  sp_bucket :: string
  sp_namespace :: string

definition overlapping :: "sync_profile \<Rightarrow> sync_profile \<Rightarrow> string \<Rightarrow> string \<Rightarrow> bool" where
  "overlapping source target source_prefix target_prefix =
     (sp_endpoint source = sp_endpoint target \<and> sp_bucket source = sp_bucket target
      \<and> (prefix target_prefix source_prefix \<or> prefix source_prefix target_prefix))"

text \<open>
  The preflight, up to the two access probes: the job, its preview if it deletes orphans, the two
  profiles and the two prefixes. \<open>stamp\<close> is the start time as \<^verbatim>\<open>%Y%m%dT%H%M%SZ\<close>.
\<close>

definition sync_preflight ::
  "(json \<Rightarrow> string) \<Rightarrow> (string \<Rightarrow> backup_job option) \<Rightarrow> (string \<Rightarrow> nat \<Rightarrow> deletion_preview option) \<Rightarrow>
   (string \<Rightarrow> sync_profile option) \<Rightarrow> string \<Rightarrow> json \<Rightarrow>
   sync_error + backup_job \<times> deletion_preview option \<times> sync_profile \<times> sync_profile \<times> string \<times> string" where
  "sync_preflight repr jobs previews profiles stamp checkpoint =
     (let slug = py_str repr (json_get_or ''job_slug'' (JStr '''') checkpoint) in
      bind_res (case jobs slug of
          Some job \<Rightarrow> if bj_enabled job then Inr job else Inl (Sync_error ''backup_job_missing_or_disabled'' ''preflight'')
        | None \<Rightarrow> Inl (Sync_error ''backup_job_missing_or_disabled'' ''preflight'')) (\<lambda>job.
      bind_res (if \<not> bj_delete_orphans job then Inr None
        else (case previews (py_str repr (json_get_or ''mirror_preview_id'' (JStr '''') checkpoint)) (bj_pk job) of
                None \<Rightarrow> Inl (Sync_error ''mirror_preview_required'' ''preflight'')
              | Some p \<Rightarrow> Inr (Some p))) (\<lambda>preview.
      bind_res (require (bj_bandwidth_limit_bps job = 0)
        (Sync_error ''bandwidth_limit_not_supported'' ''preflight'')) (\<lambda>_.
      case (profiles (bj_source_profile_key job), profiles (bj_target_profile_key job)) of
        (Some source, Some target) \<Rightarrow>
          bind_res (require (sp_role source \<in> {''restore'', ''both''} \<and> sp_role target \<in> {''backup'', ''both''})
            (Sync_error ''job_profile_role_invalid'' ''preflight'')) (\<lambda>_.
          let source_prefix = s3_prefix (sp_namespace source) @ s3_prefix (bj_source_prefix job);
              base = s3_prefix (sp_namespace target) @ s3_prefix (bj_target_prefix job);
              saved = json_get_or ''target_prefix'' JNull checkpoint;
              target_prefix =
                (if bj_mode job = ''archive''
                 then (if json_truthy saved then py_str repr saved else base @ ''snapshots/'' @ stamp @ ''/'')
                 else base)
          in bind_res (require (\<not> overlapping source target source_prefix target_prefix)
            (Sync_error ''same_bucket_namespace_overlap'' ''preflight'')) (\<lambda>_.
          Inr (job, preview, source, target, source_prefix, target_prefix)))
      | _ \<Rightarrow> Inl (Sync_error ''job_profile_missing'' ''preflight'')))))"

text \<open>
  The whole job. The probes' failure is \<open>probe_error\<close>; \<open>evidence\<close> is the orphan evidence taken after
  the transfer, on the target store as it then is.
\<close>

definition execute_backup_job ::
  "(json \<Rightarrow> string) \<Rightarrow> (string \<Rightarrow> backup_job option) \<Rightarrow> (string \<Rightarrow> nat \<Rightarrow> deletion_preview option) \<Rightarrow>
   (string \<Rightarrow> sync_profile option) \<Rightarrow> string \<Rightarrow> sync_error option \<Rightarrow> (string \<Rightarrow> s3_page) \<Rightarrow>
   ('t \<Rightarrow> string \<Rightarrow> (int \<times> string) option) \<Rightarrow> (nat \<Rightarrow> s3_item \<Rightarrow> string \<Rightarrow> 't \<Rightarrow> 't \<times> bool) \<Rightarrow>
   (string \<Rightarrow> string \<Rightarrow> 't \<Rightarrow> 't \<times> bool) \<Rightarrow> (string \<Rightarrow> 't \<Rightarrow> 't \<times> bool) \<Rightarrow> (string \<Rightarrow> bool) \<Rightarrow>
   ('t \<Rightarrow> orphan_evidence) \<Rightarrow> instant \<Rightarrow> string \<Rightarrow> json \<Rightarrow> 't \<Rightarrow> 't \<times> (sync_error + sync_counts)" where
  "execute_backup_job repr jobs previews profiles stamp probe_error pages head upload copy delete lease
     evidence clk operation checkpoint t =
     (case sync_preflight repr jobs previews profiles stamp checkpoint of
        Inl e \<Rightarrow> (t, Inl e)
      | Inr (job, preview, source, target, source_prefix, target_prefix) \<Rightarrow>
        (case probe_error of Some e \<Rightarrow> (t, Inl e)
         | None \<Rightarrow>
           (case list_objects pages '''' of None \<Rightarrow> (t, Inl Listing_diverges)
            | Some (items, ended) \<Rightarrow>
              let last_key = py_str repr (json_get_or ''last_completed_key'' (JStr '''') checkpoint);
                  start = \<lparr>sc_copied = 0, sc_skipped = 0, sc_bytes = 0, sc_last_key = last_key,
                           sc_saved_key = last_key\<rparr>
              in (case sync_objects head upload lease (bj_mode job = ''archive'') (bj_retry_limit job)
                        source_prefix target_prefix items start t of
                    (t1, Inl e) \<Rightarrow> (t1, Inl e)
                  | (t1, Inr counts) \<Rightarrow>
                    if \<not> ended then (t1, Inl (Sync_error ''source_listing_invalid'' ''transfer''))
                    else (case preview of None \<Rightarrow> (t1, Inr counts)
                          | Some p \<Rightarrow>
                            (case apply_confirmed_deletions head copy delete clk operation
                                   (sp_namespace target) (evidence t1) p t1 of
                               (t2, Inl e) \<Rightarrow> (t2, Inl e)
                             | (t2, Inr p') \<Rightarrow> (t2, Inr counts)))))))"

subsection \<open>What a job guarantees\<close>

text \<open>The documented laws of the client calls that the proofs use.\<close>

definition upload_local :: "('t \<Rightarrow> string \<Rightarrow> (int \<times> string) option) \<Rightarrow> (nat \<Rightarrow> s3_item \<Rightarrow> string \<Rightarrow> 't \<Rightarrow> 't \<times> bool) \<Rightarrow> bool" where
  "upload_local head upload \<longleftrightarrow>
     (\<forall>n item dest t k. k \<noteq> dest \<longrightarrow> head (fst (upload n item dest t)) k = head t k)"

text \<open>A copy or a deletion, also one that raises, touches no key but its own.\<close>

definition copy_law :: "('t \<Rightarrow> string \<Rightarrow> (int \<times> string) option) \<Rightarrow> (string \<Rightarrow> string \<Rightarrow> 't \<Rightarrow> 't \<times> bool) \<Rightarrow> bool" where
  "copy_law head copy \<longleftrightarrow> (\<forall>a b t k. k \<noteq> b \<longrightarrow> head (fst (copy a b t)) k = head t k)"

definition delete_law :: "('t \<Rightarrow> string \<Rightarrow> (int \<times> string) option) \<Rightarrow> (string \<Rightarrow> 't \<Rightarrow> 't \<times> bool) \<Rightarrow> bool" where
  "delete_law head delete \<longleftrightarrow> (\<forall>a t k. k \<noteq> a \<longrightarrow> head (fst (delete a t)) k = head t k)"

lemma transfer_local:
  assumes "upload_local head upload" "k \<noteq> dest"
  shows "head (fst (transfer_object head upload item dest n left t)) k = head t k"
proof (induction left arbitrary: n t)
  case 0
  have "head (fst (upload n item dest t)) k = head t k" using assms by (simp add: upload_local_def)
  then show ?case by (subst transfer_object.simps) (auto split: prod.splits)
next
  case (Suc left)
  have "head (fst (upload n item dest t)) k = head t k" using assms by (simp add: upload_local_def)
  then show ?case by (subst transfer_object.simps) (auto split: prod.splits simp: Suc)
qed

lemma transfer_verified:
  "transfer_object head upload item dest n left t = (t', True) \<Longrightarrow> map_option fst (head t' dest) = Some (it_size item)"
proof (induction left arbitrary: n t)
  case 0
  then show ?case by (subst (asm) transfer_object.simps) (auto split: prod.splits if_splits)
next
  case (Suc left)
  then show ?case by (subst (asm) transfer_object.simps) (auto split: prod.splits if_splits)
qed

lemma sync_objects_local:
  assumes "upload_local head upload"
  shows "\<forall>i\<in>set items. target_key (it_key i) sp tp \<noteq> k \<Longrightarrow>
    head (fst (sync_objects head upload lease archive rl sp tp items st t)) k = head t k"
proof (induction items arbitrary: st t)
  case (Cons item items)
  have "head (fst (transfer_object head upload item (target_key (it_key item) sp tp) 0 rl t)) k = head t k"
    using Cons.prems by (intro transfer_local [OF assms]) auto
  then show ?case using Cons.IH Cons.prems by (auto simp: Let_def split: prod.splits bool.splits)
qed simp

text \<open>A synchronisation that succeeds is complete. If the source lists its keys in ascending order and
  no two of them share a target key, then after the run every listed object past the checkpoint is at
  its target key with the source's size, whether it was copied now or found unchanged.\<close>

theorem sync_complete:
  assumes "upload_local head upload" "sorted_wrt (<) (map it_key items)"
    and "inj_on (\<lambda>i. target_key (it_key i) sp tp) (set items)"
    and "sync_objects head upload lease archive rl sp tp items st t = (t', Inr st')"
    and "item \<in> set items" "sc_last_key st = '''' \<or> sc_last_key st < it_key item"
  shows "map_option fst (head t' (target_key (it_key item) sp tp)) = Some (it_size item)"
  using assms(2-)
proof (induction items arbitrary: st t)
  case (Cons i items)
  let ?d = "target_key (it_key i) sp tp"
  have above: "it_key i < it_key j" if "j \<in> set items" for j using Cons.prems(1) that by auto
  have inj: "inj_on (\<lambda>i. target_key (it_key i) sp tp) (set items)"
    using Cons.prems(2) by (rule inj_on_subset) auto
  have sorted: "sorted_wrt (<) (map it_key items)" using Cons.prems(1) by simp
  show ?case
  proof (cases "sc_last_key st \<noteq> '''' \<and> it_key i \<le> sc_last_key st")
    case True
    then have "item \<in> set items" using Cons.prems(4,5) by auto
    moreover have "sync_objects head upload lease archive rl sp tp items
        (st\<lparr>sc_skipped := sc_skipped st + 1\<rparr>) t = (t', Inr st')"
      using Cons.prems(3) True by (simp add: Let_def)
    ultimately show ?thesis using Cons.IH [OF sorted inj] Cons.prems(5) by simp
  next
    case False
    obtain st1 t1 where run: "sync_objects head upload lease archive rl sp tp items st1 t1 = (t', Inr st')"
      and last: "sc_last_key st1 = it_key i"
      and fin: "map_option fst (head t1 ?d) = Some (it_size i)"
    proof (cases "\<not> archive \<and> unchanged_object (head t ?d) i")
      case True
      then have "map_option fst (head t ?d) = Some (it_size i)"
        by (auto simp: unchanged_object_def split: option.splits)
      then show thesis using that Cons.prems(3) False True by (auto simp: Let_def split: if_splits)
    next
      case ch: False
      obtain t1 b where tr: "transfer_object head upload i ?d 0 rl t = (t1, b)" by force
      with Cons.prems(3) False ch have "b" by (cases b) (auto simp: Let_def split: if_splits)
      with tr have "map_option fst (head t1 ?d) = Some (it_size i)" by (simp add: transfer_verified)
      with that show thesis using Cons.prems(3) False ch tr \<open>b\<close>
        by (auto simp: Let_def split: if_splits)
    qed
    show ?thesis
    proof (cases "item = i")
      case True
      show ?thesis
      proof (cases "i \<in> set items")
        case True
        then show ?thesis using above by blast
      next
        case nin: False
        have "\<forall>j\<in>set items. target_key (it_key j) sp tp \<noteq> ?d"
          using Cons.prems(2) nin by (force simp: inj_on_def)
        then show ?thesis
          using sync_objects_local [OF assms(1), of items sp tp ?d lease archive rl st1 t1] run fin True
          by simp
      qed
    next
      case False
      then have "item \<in> set items" using Cons.prems(4) by simp
      then show ?thesis using Cons.IH [OF sorted inj run] above last by auto
    qed
  qed
qed simp

text \<open>A concrete store, for the witnesses: keys with sizes and tags.\<close>

definition map_head :: "(string \<Rightarrow> (int \<times> string) option) \<Rightarrow> string \<Rightarrow> (int \<times> string) option" where
  "map_head t k = t k"

definition map_upload :: "nat \<Rightarrow> s3_item \<Rightarrow> string \<Rightarrow> (string \<Rightarrow> (int \<times> string) option) \<Rightarrow>
   (string \<Rightarrow> (int \<times> string) option) \<times> bool" where
  "map_upload n item dest t =
     (if n = 0 then (t, False) else (t(dest \<mapsto> (it_size item, strip_char (CHR 0x22) (it_etag item))), True))"

text \<open>A copy from a key that is missing raises; a deletion of a key of three letters is carried out and raises.\<close>

definition map_copy :: "string \<Rightarrow> string \<Rightarrow> (string \<Rightarrow> (int \<times> string) option) \<Rightarrow>
   (string \<Rightarrow> (int \<times> string) option) \<times> bool" where
  "map_copy a b t = (case t a of None \<Rightarrow> (t, False) | Some x \<Rightarrow> (t(b \<mapsto> x), True))"

definition map_delete :: "string \<Rightarrow> (string \<Rightarrow> (int \<times> string) option) \<Rightarrow>
   (string \<Rightarrow> (int \<times> string) option) \<times> bool" where
  "map_delete k t = (t(k := None), length k \<noteq> 3)"

definition sample_items :: "s3_item list" where
  "sample_items = [\<lparr>it_key = ''p/a'', it_size = 3, it_etag = ''e1''\<rparr>,
     \<lparr>it_key = ''p/b'', it_size = 5, it_etag = ''e2''\<rparr>]"

lemma sync_complete_witness:
  "\<exists>t' st'. sync_objects map_head map_upload (\<lambda>k. True) False 2 ''p/'' ''q/'' sample_items
      \<lparr>sc_copied = 0, sc_skipped = 0, sc_bytes = 0, sc_last_key = ''p/a'', sc_saved_key = ''p/a''\<rparr> (\<lambda>k. None)
      = (t', Inr st')
    \<and> map_option fst (map_head t' ''q/b'') = Some 5"
proof -
  let ?st = "\<lparr>sc_copied = 0, sc_skipped = 0, sc_bytes = 0, sc_last_key = ''p/a'', sc_saved_key = ''p/a''\<rparr>"
  let ?r = "sync_objects map_head map_upload (\<lambda>k. True) False 2 ''p/'' ''q/'' sample_items ?st (\<lambda>k. None)"
  have "succeeds (snd ?r)" by code_simp
  then obtain t' st' where r: "?r = (t', Inr st')"
    by (cases ?r) (auto simp: succeeds_def split: sum.splits)
  have law: "upload_local map_head map_upload"
    by (auto simp: upload_local_def map_head_def map_upload_def)
  have sorted: "sorted_wrt (<) (map it_key sample_items)" by code_simp
  have keys: "target_key ''p/a'' ''p/'' ''q/'' = ''q/a''" "target_key ''p/b'' ''p/'' ''q/'' = ''q/b''"
    by code_simp+
  have inj: "inj_on (\<lambda>i. target_key (it_key i) ''p/'' ''q/'') (set sample_items)"
    by (auto simp: inj_on_def sample_items_def keys)
  have "map_option fst (map_head t' (target_key (it_key (sample_items ! 1)) ''p/'' ''q/''))
      = Some (it_size (sample_items ! 1))"
    by (rule sync_complete [OF law sorted inj r]) (simp add: sample_items_def, code_simp)
  then show ?thesis using r by (simp add: sample_items_def keys)
qed

lemma quarantine_each_frame:
  assumes "copy_law head copy" "delete_law head delete" "quarantine_each head copy delete q keys t = (t', r)"
    "k \<notin> set keys" "k \<notin> q ` set keys"
  shows "head t' k = head t k"
  using assms(3-5)
proof (induction keys arbitrary: t)
  case (Cons a keys)
  have copied: "head (fst (copy a (q a) t)) k = head t k" using assms(1) Cons.prems(3) by (simp add: copy_law_def)
  have deleted: "head (fst (delete a u)) k = head u k" for u using assms(2) Cons.prems(2) by (simp add: delete_law_def)
  show ?case
    using Cons copied deleted [of "fst (copy a (q a) t)"]
    by (auto split: option.splits prod.splits bool.splits if_splits)
qed simp

text \<open>A key whose place in quarantine is its own: neither a previewed key nor the place of another one.\<close>

definition own_place :: "(string \<Rightarrow> string) \<Rightarrow> string list \<Rightarrow> string \<Rightarrow> bool" where
  "own_place q keys k \<longleftrightarrow> k \<notin> q ` set keys \<and> q k \<notin> set keys \<and> (\<forall>k2\<in>set keys. k2 \<noteq> k \<longrightarrow> q k2 \<noteq> q k)"

lemma quarantine_each_keeps:
  assumes "copy_law head copy" "delete_law head delete" "quarantine_each head copy delete q keys t = (t', r)" "distinct keys"
    "k \<in> set keys" "own_place q keys k"
  shows "head t' k = head t k \<or> (head t k \<noteq> None \<and> map_option fst (head t' (q k)) = map_option fst (head t k))"
  using assms(3-6)
proof (induction keys arbitrary: t)
  case (Cons a keys)
  obtain t1 c where t1: "copy a (q a) t = (t1, c)" by fastforce
  obtain t2 d where t2: "delete a t1 = (t2, d)" by fastforce
  have copied: "head t1 x = head t x" if "x \<noteq> q a" for x using assms(1) that t1 by (metis copy_law_def fst_conv)
  have deleted: "head t2 x = head t1 x" if "x \<noteq> a" for x using assms(2) that t2 by (metis delete_law_def fst_conv)
  have apart: "k \<noteq> q a" "q k \<noteq> a" using Cons.prems(4) by (auto simp: own_place_def)
  consider (stop) "t' = t" | (kept) "t' = t1"
    | (gone) x y where "head t a = Some x" "head t1 (q a) = Some y" "fst x = fst y" "\<not> d" "t' = t2"
    | (rest) x y where "head t a = Some x" "head t1 (q a) = Some y" "fst x = fst y"
        "quarantine_each head copy delete q keys t2 = (t', r)"
    using Cons.prems(1) t1 t2 by (auto split: option.splits if_splits bool.splits)
  then show ?case
  proof cases
    case gone
    then show ?thesis using copied [OF apart(1)] deleted apart by (cases "k = a") (auto simp: deleted)
  next
    case rest
    show ?thesis
    proof (cases "k = a")
      case True
      have "q k \<notin> q ` set keys"
        using Cons.prems(2,4) True by (auto simp: own_place_def)
      then have "head t' (q k) = head t2 (q k)"
        using quarantine_each_frame [OF assms(1,2) rest(4)] Cons.prems(4) by (auto simp: own_place_def)
      then show ?thesis using rest(1-3) deleted [OF apart(2)] True by simp
    next
      case False
      then have "k \<in> set keys" "own_place q keys k" "q k \<noteq> q a"
        using Cons.prems(3,4) by (auto simp: own_place_def)
      then show ?thesis
        using Cons.IH [OF rest(4)] Cons.prems(2) copied [OF apart(1)] deleted [OF False] by simp
    qed
  qed (use copied [OF apart(1)] in simp_all)
qed simp

text \<open>C19: A confirmed mirror deletion loses no object with a place in quarantine of its own. Whether it completes or stops
  at any call, also at one that raises after it was carried out, every previewed object whose quarantine key is
  neither a previewed key nor that of another previewed key is either untouched at its key or stands in
  quarantine with its size, and every object that is neither previewed nor at such a quarantine key is as it
  was. Keys that differ only in slashes after the target's prefix share their quarantine key: \<open>slashes_collide\<close>.\<close>

theorem mirror_deletion_loses_nothing:
  assumes "copy_law head copy" "delete_law head delete"
    and "apply_confirmed_deletions head copy delete clk operation tp current preview t = (t', r)"
    and "distinct (dp_object_keys preview)"
  shows "(\<forall>k. k \<notin> set (dp_object_keys preview) \<longrightarrow>
        k \<notin> quarantine_key tp operation ` set (dp_object_keys preview) \<longrightarrow> head t' k = head t k)
    \<and> (\<forall>k\<in>set (dp_object_keys preview). own_place (quarantine_key tp operation) (dp_object_keys preview) k \<longrightarrow>
        head t' k = head t k \<or>
        (head t k \<noteq> None
         \<and> map_option fst (head t' (quarantine_key tp operation k)) = map_option fst (head t k)))"
proof (cases "t' = t")
  case True
  then show ?thesis by simp
next
  case False
  then obtain r' where "quarantine_each head copy delete (quarantine_key tp operation)
      (dp_object_keys preview) t = (t', r')"
    using assms(3) by (auto simp: apply_confirmed_deletions_def split: if_splits prod.splits sum.splits)
  then show ?thesis
    using quarantine_each_frame [OF assms(1,2)] quarantine_each_keeps [OF assms(1,2) _ assms(4)] by metis
qed

text \<open>Under a named target prefix the place of a key is its own when no other previewed key has the same text after
  the prefix and its slashes: the orphans lie outside every quarantine.\<close>

lemma contains_text_infix: "contains_text p (xs @ p @ ys)"
  unfolding contains_text_def by (rule sublist_appendI)

lemma named_prefix_own_place:
  assumes "s3_prefix tp \<noteq> []" "\<forall>k\<in>set keys. \<not> contains_text ''/.dataops-quarantine/'' k" "k \<in> set keys"
    "\<forall>k2\<in>set keys. k2 \<noteq> k \<longrightarrow> lstrip_char (CHR ''/'') (drop (length (s3_prefix tp)) k2)
        \<noteq> lstrip_char (CHR ''/'') (drop (length (s3_prefix tp)) k)"
  shows "own_place (quarantine_key tp operation) keys k"
proof -
  obtain v where v: "s3_prefix tp = v @ ''/''" using assms(1) by (auto simp: s3_prefix_def Let_def split: if_splits)
  have q: "quarantine_key tp operation k2 = v @ ''/.dataops-quarantine/'' @ operation @ ''/''
      @ lstrip_char (CHR ''/'') (drop (length (s3_prefix tp)) k2)" for k2
    by (simp add: quarantine_key_def v)
  have "contains_text ''/.dataops-quarantine/'' (quarantine_key tp operation k2)" for k2
    unfolding q by (rule contains_text_infix)
  then have "quarantine_key tp operation k2 \<notin> set keys" for k2 using assms(2) by blast
  then show ?thesis using assms(3,4) by (auto simp: own_place_def q)
qed

definition sample_preview :: deletion_preview where
  "sample_preview = \<lparr>dp_state_ready = True, dp_job = 1, dp_digest = ''d'', dp_object_keys = [''q/x'', ''q/y''],
     dp_target_object_count = 40, dp_total_bytes = 3, dp_expires_at = 10\<rparr>"

lemma map_laws: "copy_law map_head map_copy" "delete_law map_head map_delete"
  by (auto simp: copy_law_def delete_law_def map_head_def map_copy_def map_delete_def split: option.splits)

text \<open>The deletion of the first key is carried out and raises; the object stands in quarantine.\<close>

lemma mirror_deletion_loses_nothing_witness:
  "\<exists>t' r. apply_confirmed_deletions map_head map_copy map_delete 5 ''op'' ''q''
      \<lparr>oe_keys = [''q/x'', ''q/y''], oe_digest = ''d'', oe_bytes = 3, oe_target_count = 40\<rparr> sample_preview
      [''q/x'' \<mapsto> (1, ''''), ''q/y'' \<mapsto> (2, '''')] = (t', Inl r)
    \<and> (map_head t' ''q/x'' = Some (1, '''') \<or>
       map_option fst (map_head t' (quarantine_key ''q'' ''op'' ''q/x'')) = Some 1)"
proof -
  let ?t = "[''q/x'' \<mapsto> (1, ''''), ''q/y'' \<mapsto> (2, '''')] :: string \<Rightarrow> (int \<times> string) option"
  let ?e = "\<lparr>oe_keys = [''q/x'', ''q/y''], oe_digest = ''d'', oe_bytes = 3, oe_target_count = 40\<rparr>"
  have q: "quarantine_key ''q'' ''op'' ''q/x'' = ''q/.dataops-quarantine/op/x''"
    "quarantine_key ''q'' ''op'' ''q/y'' = ''q/.dataops-quarantine/op/y''"
    by code_simp+
  have keys: "dp_object_keys sample_preview = [''q/x'', ''q/y'']" by (simp add: sample_preview_def)
  obtain t' r where a: "apply_confirmed_deletions map_head map_copy map_delete 5 ''op'' ''q'' ?e sample_preview ?t = (t', Inl r)"
    by (simp add: apply_confirmed_deletions_def sample_preview_def q map_head_def map_copy_def map_delete_def)
  have d: "distinct (dp_object_keys sample_preview)" by (simp add: keys)
  have "own_place (quarantine_key ''q'' ''op'') (dp_object_keys sample_preview) ''q/x''"
    by (simp add: keys q own_place_def)
  with mirror_deletion_loses_nothing [OF map_laws a d]
  have "map_head t' ''q/x'' = map_head ?t ''q/x'' \<or>
      map_option fst (map_head t' (quarantine_key ''q'' ''op'' ''q/x'')) = map_option fst (map_head ?t ''q/x'')"
    by (auto simp: keys)
  then show ?thesis using a by (auto simp: map_head_def)
qed

text \<open>Two previewed keys that differ in slashes only: the copy of the second replaces that of the first, whose object is
  deleted by then, and the run reports success.\<close>

lemma slashes_collide:
  "\<exists>t' p. apply_confirmed_deletions map_head map_copy map_delete 5 ''op'' ''q''
      \<lparr>oe_keys = [''q/xx'', ''q//xx''], oe_digest = ''d'', oe_bytes = 3, oe_target_count = 40\<rparr>
      (sample_preview\<lparr>dp_object_keys := [''q/xx'', ''q//xx'']\<rparr>) [''q/xx'' \<mapsto> (1, ''a''), ''q//xx'' \<mapsto> (2, ''b'')] = (t', Inr p)
    \<and> map_head t' ''q/xx'' = None \<and> (\<forall>k. map_head t' k \<noteq> Some (1, ''a''))"
proof -
  have q: "quarantine_key ''q'' ''op'' ''q/xx'' = ''q/.dataops-quarantine/op/xx''"
    "quarantine_key ''q'' ''op'' ''q//xx'' = ''q/.dataops-quarantine/op/xx''"
    by code_simp+
  show ?thesis
    by (simp add: apply_confirmed_deletions_def sample_preview_def q map_head_def map_copy_def map_delete_def)
qed

text \<open>Without a prefix the quarantine does not begin with a slash, and what lies in it is an orphan again.\<close>

lemma unnamed_quarantine_is_orphan:
  "oe_keys (orphan_evidence sha [] [] [] [\<lparr>it_key = quarantine_key '''' ''op'' ''x'', it_size = 1, it_etag = ''e''\<rparr>])
     = [''.dataops-quarantine/op/x'']"
proof -
  have "quarantine_key '''' ''op'' ''x'' = ''.dataops-quarantine/op/x''"
    "contains_text ''/.dataops-quarantine/'' ''.dataops-quarantine/op/x'' = False" by code_simp+
  then show ?thesis by (simp add: orphan_evidence_def)
qed

text \<open>A deletion preview names only orphans and stays within the job's budget: every key it lists is
  an object of the target that no source key maps to and that is not in quarantine, their number is at
  most the configured maximum and at most the configured percentage of the target's objects.\<close>

theorem preview_within_budget:
  assumes "create_deletion_preview clk job (orphan_evidence sha sp tp source_keys target_items) = Inr p"
  shows "(\<forall>k\<in>set (dp_object_keys p). k \<in> it_key ` set target_items
        \<and> (\<forall>s\<in>set source_keys. tp @ lstrip_char (CHR ''/'') (drop (length sp) s) \<noteq> k)
        \<and> \<not> contains_text ''/.dataops-quarantine/'' k)
    \<and> length (dp_object_keys p) \<le> bj_mirror_delete_max_objects job
    \<and> length (dp_object_keys p) * 100 \<le> bj_mirror_delete_max_percent job * max 1 (length target_items)
    \<and> bj_mode job = ''mirror'' \<and> bj_delete_orphans job"
proof -
  have keys: "dp_object_keys p = oe_keys (orphan_evidence sha sp tp source_keys target_items)"
    and guards: "bj_mode job = ''mirror''" "bj_delete_orphans job"
    "length (dp_object_keys p) \<le> bj_mirror_delete_max_objects job"
    "length (dp_object_keys p) * 100 \<le> bj_mirror_delete_max_percent job * max 1 (length target_items)"
    using assms by (auto simp: create_deletion_preview_def Let_def orphan_evidence_def split: if_splits)
  have "\<forall>k\<in>set (dp_object_keys p). k \<in> it_key ` set target_items
        \<and> (\<forall>s\<in>set source_keys. tp @ lstrip_char (CHR ''/'') (drop (length sp) s) \<noteq> k)
        \<and> \<not> contains_text ''/.dataops-quarantine/'' k"
    unfolding keys by (auto simp: orphan_evidence_def Let_def) (metis image_eqI)
  then show ?thesis using guards by blast
qed

definition sample_backup_job :: backup_job where
  "sample_backup_job = \<lparr>bj_pk = 1, bj_slug = ''s'', bj_source_profile_key = ''a'', bj_target_profile_key = ''b'',
     bj_source_prefix = '''', bj_target_prefix = '''', bj_mode = ''mirror'', bj_schedule = '''',
     bj_timezone = ''UTC'', bj_enabled = True, bj_delete_orphans = True, bj_bandwidth_limit_bps = 0,
     bj_retry_limit = 2, bj_mirror_delete_max_objects = 100, bj_mirror_delete_max_percent = 50,
     bj_last_run_at = None, bj_last_run_status = ''''\<rparr>"

lemma preview_within_budget_witness:
  "\<exists>p. create_deletion_preview 0 sample_backup_job
      (orphan_evidence (\<lambda>x. '''') ''p/'' ''p/'' [''p/a''] sample_items) = Inr p
    \<and> length (dp_object_keys p) * 100 \<le> 50 * max 1 2"
proof -
  have "succeeds (create_deletion_preview 0 sample_backup_job
      (orphan_evidence (\<lambda>x. '''') ''p/'' ''p/'' [''p/a''] sample_items))" by code_simp
  then obtain p where p: "create_deletion_preview 0 sample_backup_job
      (orphan_evidence (\<lambda>x. '''') ''p/'' ''p/'' [''p/a''] sample_items) = Inr p"
    by (auto simp: succeeds_def split: sum.splits)
  from preview_within_budget [OF p] p show ?thesis
    by (simp add: sample_backup_job_def sample_items_def)
qed

end
