(* ===== verification/DataOps_Plan.thy ===== *)
theory DataOps_Plan
  imports Flow_Prelude
begin

section \<open>Lifecycle plans\<close>

text \<open>
  \<^verbatim>\<open>flowdocs/dataops/lifecycle.py\<close>: an operator's intent, the identity of the instance, the passport
  of the source artifact and the capabilities of the deployment are compiled into a plan, a route with
  its steps and gates, or a refusal with its codes. The function is pure; \<open>sha\<close> is the digest of the
  payload's canonical JSON.
\<close>

datatype lifecycle_intent = Int_import | Int_backup | Int_restore | Int_test_recovery | Int_rollback

datatype lifecycle_route =
    Rt_backup | Rt_legacy_import | Rt_same_dataset_restore | Rt_import_rebind_restore
  | Rt_isolated_rehearsal | Rt_rollback | Rt_noop | Rt_refuse

datatype source_kind =
  Active_instance | Legacy_mount | Legacy_object_store | Src_recovery_point | Previous_runtime

datatype artifact_trust = Trust_unknown | Trust_provisional | Trust_verified

record instance_identity =
  ii_environment :: string
  ii_deployment_id :: string
  ii_dataset_id :: string
  ii_active_generation_id :: string
  ii_active_manifest_sha256 :: string

definition normalized_environment :: "instance_identity \<Rightarrow> string" where
  "normalized_environment i =
     (let value = py_lower (py_strip (ii_environment i)) in
      if value = ''dev'' then ''development''
      else if value = ''stage'' then ''staging''
      else if value = ''prod'' then ''production''
      else value)"

record artifact_passport =
  ap_source_kind :: source_kind
  ap_dataset_id :: string
  ap_generation_id :: string
  ap_manifest_sha256 :: string
  ap_format_version :: int
  ap_trust :: artifact_trust
  ap_complete :: bool
  ap_read_only :: bool
  ap_signature_valid :: "bool option"

definition is_legacy :: "artifact_passport \<Rightarrow> bool" where
  "is_legacy p = (ap_source_kind p \<in> {Legacy_mount, Legacy_object_store})"

definition is_verified :: "artifact_passport \<Rightarrow> bool" where
  "is_verified p = (ap_trust p = Trust_verified \<and> ap_complete p)"

record lifecycle_capabilities =
  lc_owned_store_readable :: bool
  lc_owned_store_writable :: bool
  lc_source_readable :: bool
  lc_quarantine_writable :: bool
  lc_signing_available :: bool
  lc_activation_available :: bool
  lc_isolated_restore_available :: bool
  lc_previous_runtime_available :: bool

record lifecycle_request =
  lr_intent :: lifecycle_intent
  lr_activate :: bool
  lr_confirmation_present :: bool
  lr_previous_recovery_point_exists :: bool

record lifecycle_plan =
  pl_contract_version :: nat
  pl_intent :: lifecycle_intent
  pl_route :: lifecycle_route
  pl_environment :: string
  pl_deployment_id :: string
  pl_target_dataset_id :: string
  pl_source_dataset_id :: string
  pl_source_generation_id :: string
  pl_source_manifest_sha256 :: string
  pl_steps :: "string list"
  pl_gates :: "string list"
  pl_reason_codes :: "string list"
  pl_refusal_codes :: "string list"
  pl_activation :: string
  pl_transfer_mode :: string
  pl_plan_digest :: digest

definition plan_allowed :: "lifecycle_plan \<Rightarrow> bool" where
  "plan_allowed p = (pl_route p \<noteq> Rt_refuse)"

text \<open>The lists the compiler fills while it decides.\<close>

record plan_draft =
  dr_route :: lifecycle_route
  dr_steps :: "string list"
  dr_gates :: "string list"
  dr_reasons :: "string list"
  dr_refusals :: "string list"
  dr_activation :: string
  dr_transfer_mode :: string

definition build_plan ::
  "(lifecycle_plan \<Rightarrow> digest) \<Rightarrow> lifecycle_request \<Rightarrow> instance_identity \<Rightarrow> artifact_passport option \<Rightarrow>
   plan_draft \<Rightarrow> lifecycle_plan" where
  "build_plan sha request identity passport d =
     (let payload = \<lparr>pl_contract_version = 3, pl_intent = lr_intent request,
            pl_route = (if dr_refusals d \<noteq> [] then Rt_refuse else dr_route d),
            pl_environment = normalized_environment identity,
            pl_deployment_id = py_strip (ii_deployment_id identity),
            pl_target_dataset_id = py_strip (ii_dataset_id identity),
            pl_source_dataset_id = (case passport of None \<Rightarrow> '''' | Some p \<Rightarrow> py_strip (ap_dataset_id p)),
            pl_source_generation_id = (case passport of None \<Rightarrow> '''' | Some p \<Rightarrow> py_strip (ap_generation_id p)),
            pl_source_manifest_sha256 = (case passport of None \<Rightarrow> '''' | Some p \<Rightarrow> py_strip (ap_manifest_sha256 p)),
            pl_steps = dr_steps d, pl_gates = dr_gates d,
            pl_reason_codes = fromkeys (dr_reasons d), pl_refusal_codes = fromkeys (dr_refusals d),
            pl_activation = dr_activation d, pl_transfer_mode = dr_transfer_mode d,
            pl_plan_digest = ''''\<rparr>
      in payload\<lparr>pl_plan_digest := sha payload\<rparr>)"

definition identity_refusals :: "instance_identity \<Rightarrow> string list" where
  "identity_refusals i =
     only_if (py_strip (ii_deployment_id i) = '''') ''deployment_identity_missing''
     @ only_if (py_strip (ii_dataset_id i) = '''') ''target_dataset_missing''
     @ only_if (normalized_environment i \<notin> {''development'', ''staging'', ''production'', ''review'', ''test''})
         ''environment_unknown''"

definition source_refusals :: "artifact_passport option \<Rightarrow> string list" where
  "source_refusals passport =
     (case passport of None \<Rightarrow> [''source_required'']
      | Some p \<Rightarrow>
          only_if (\<not> ap_read_only p) ''source_must_be_read_only''
          @ (if ap_source_kind p \<in> {Src_recovery_point, Previous_runtime, Legacy_object_store} then
               only_if (py_strip (ap_generation_id p) = '''') ''source_generation_missing''
               @ only_if (\<not> is_verified p) ''source_not_verified''
               @ only_if (ap_signature_valid p = Some False) ''manifest_signature_invalid''
               @ only_if (ap_format_version p \<ge> 3 \<and> ap_signature_valid p \<noteq> Some True) ''manifest_signature_missing''
             else []))"

definition backup_draft :: "lifecycle_request \<Rightarrow> instance_identity \<Rightarrow> lifecycle_capabilities \<Rightarrow> plan_draft" where
  "backup_draft request identity capabilities =
     \<lparr>dr_route = Rt_backup,
      dr_steps = [''create_consistent_snapshot'', ''verify_database_and_inventory'',
        ''publish_content_addressed_objects'', ''publish_immutable_manifest'',
        ''verify_remote_recovery_point'', ''record_backup_receipt''],
      dr_gates = [''stable_snapshot'', ''sqlite_integrity'', ''object_hashes'', ''conditional_registration''],
      dr_reasons =
        [if lr_previous_recovery_point_exists request then ''prior_recovery_point_available''
         else ''first_recovery_point'', ''logically_full_manifest''],
      dr_refusals = identity_refusals identity
        @ only_if (\<not> lc_owned_store_writable capabilities) ''owned_store_not_writable'',
      dr_activation = ''none'',
      dr_transfer_mode =
        (if lr_previous_recovery_point_exists request then ''incremental_deduplicated'' else ''full_upload'')\<rparr>"

definition rehearsal_draft :: "lifecycle_capabilities \<Rightarrow> string list \<Rightarrow> plan_draft" where
  "rehearsal_draft capabilities refusals =
     \<lparr>dr_route = Rt_isolated_rehearsal,
      dr_steps = [''copy_to_isolated_quarantine'', ''verify_manifest_and_objects'', ''rehearse_migrations'',
        ''reconcile_media_and_indexes'', ''run_recovery_checks'', ''record_rehearsal_receipt''],
      dr_gates = [''manifest_integrity'', ''sqlite_integrity'', ''migration_compatibility'',
        ''indexing_complete'', ''functional_checks''],
      dr_reasons = [''isolated_recovery_test'', ''activation_forbidden''],
      dr_refusals = refusals
        @ only_if (\<not> lc_isolated_restore_available capabilities) ''isolated_restore_unavailable'',
      dr_activation = ''none'', dr_transfer_mode = ''none''\<rparr>"

definition rollback_draft :: "lifecycle_request \<Rightarrow> lifecycle_capabilities \<Rightarrow> string list \<Rightarrow> plan_draft" where
  "rollback_draft request capabilities refusals =
     \<lparr>dr_route = Rt_rollback,
      dr_steps = [''verify_previous_runtime_pair'', ''sign_rollback_intent'',
        ''compare_and_swap_runtime_pointer'', ''verify_runtime_readiness''],
      dr_gates = [''image_generation_compatibility'', ''expected_active_pointer'', ''signed_intent'',
        ''rollback_readiness''],
      dr_reasons = [''rollback_requested''],
      dr_refusals = refusals
        @ only_if (\<not> lc_previous_runtime_available capabilities) ''previous_runtime_unavailable''
        @ only_if (\<not> lc_activation_available capabilities) ''activation_unavailable''
        @ only_if (\<not> lc_signing_available capabilities) ''activation_signing_unavailable''
        @ only_if (\<not> lr_confirmation_present request) ''operator_confirmation_required'',
      dr_activation = ''signed_atomic'', dr_transfer_mode = ''none''\<rparr>"

text \<open>Imports and restores: the route by provenance and ownership, then quarantine, then activation.\<close>

definition routed_draft ::
  "instance_identity \<Rightarrow> lifecycle_capabilities \<Rightarrow> artifact_passport \<Rightarrow> string list \<Rightarrow> plan_draft" where
  "routed_draft identity capabilities p refusals =
     (let store = only_if (\<not> lc_owned_store_writable capabilities) ''owned_store_not_writable'';
          blank = \<lparr>dr_route = Rt_refuse, dr_steps = [], dr_gates = [], dr_reasons = [],
                   dr_refusals = refusals, dr_activation = ''none'', dr_transfer_mode = ''none''\<rparr> in
      if is_legacy p then
        blank\<lparr>dr_route := Rt_legacy_import,
          dr_steps := (if ap_source_kind p = Legacy_object_store
            then [''verify_selected_legacy_generation'', ''copy_to_isolated_quarantine'',
              ''verify_database_and_inventory'', ''publish_canonical_recovery_point'',
              ''verify_remote_recovery_point'']
            else [''discover_legacy_layout'', ''scan_source_twice'', ''verify_database_and_inventory'',
              ''publish_canonical_recovery_point'', ''verify_remote_recovery_point'']),
          dr_gates := (if ap_source_kind p = Legacy_object_store
            then [''explicit_source_generation'', ''read_only_source'', ''sqlite_integrity'',
              ''object_hashes'', ''conditional_registration'']
            else [''read_only_source'', ''stable_two_scan_snapshot'', ''sqlite_integrity'',
              ''object_hashes'', ''conditional_registration'']),
          dr_reasons := [''legacy_source'', ''canonicalization_required''],
          dr_refusals := refusals @ store\<rparr>
      else if py_strip (ap_dataset_id p) = py_strip (ii_dataset_id identity) then
        if py_strip (ap_generation_id p) = py_strip (ii_active_generation_id identity)
           \<and> py_strip (ap_manifest_sha256 p) = py_strip (ii_active_manifest_sha256 identity)
        then blank\<lparr>dr_route := Rt_noop, dr_reasons := [''same_dataset'', ''generation_already_active'']\<rparr>
        else blank\<lparr>dr_route := Rt_same_dataset_restore, dr_reasons := [''same_dataset'']\<rparr>
      else
        blank\<lparr>dr_route := Rt_import_rebind_restore,
          dr_reasons := [''foreign_dataset'', ''automatic_clone_rebind''],
          dr_steps := [''verify_source_generation'', ''copy_missing_content_objects'',
            ''rewrite_dataset_bindings'', ''publish_target_owned_manifest''],
          dr_gates := [''source_immutable'', ''destination_collision_free'', ''lineage_preserved'',
            ''destination_object_hashes''],
          dr_refusals := refusals @ store\<rparr>)"

definition with_quarantine :: "lifecycle_capabilities \<Rightarrow> plan_draft \<Rightarrow> plan_draft" where
  "with_quarantine capabilities d =
     (if dr_route d = Rt_noop then d
      else d\<lparr>dr_refusals := dr_refusals d
               @ only_if (\<not> lc_quarantine_writable capabilities) ''quarantine_not_writable'',
             dr_steps := dr_steps d @ [''restore_to_new_quarantine_generation'',
               ''verify_manifest_and_objects'', ''rehearse_migrations'', ''reconcile_media_and_indexes'',
               ''run_recovery_checks''],
             dr_gates := dr_gates d @ [''manifest_integrity'', ''sqlite_integrity'',
               ''migration_compatibility'', ''indexing_complete'', ''functional_checks'']\<rparr>)"

definition with_activation ::
  "lifecycle_request \<Rightarrow> instance_identity \<Rightarrow> lifecycle_capabilities \<Rightarrow> plan_draft \<Rightarrow> plan_draft" where
  "with_activation request identity capabilities d =
     (if lr_activate request \<and> dr_route d \<noteq> Rt_noop then
        (let d1 = d\<lparr>dr_activation := ''signed_atomic'',
               dr_refusals := dr_refusals d
                 @ only_if (\<not> lc_activation_available capabilities) ''activation_unavailable''
                 @ only_if (\<not> lc_signing_available capabilities) ''activation_signing_unavailable''
                 @ only_if (\<not> lr_confirmation_present request) ''operator_confirmation_required''
                 @ only_if (\<not> lc_owned_store_readable capabilities) ''owned_store_not_readable''\<rparr> in
         if normalized_environment identity = ''production'' then
           d1\<lparr>dr_steps := [''publish_pre_restore_recovery_point''] @ dr_steps d1
                @ [''enter_mutation_barrier'', ''sign_activation_intent'',
                   ''compare_and_swap_runtime_pointer'', ''verify_runtime_readiness'',
                   ''leave_mutation_barrier''],
              dr_gates := dr_gates d1 @ [''pre_restore_backup'', ''maintenance_window'',
                ''rollback_authority'', ''expected_active_pointer'', ''signed_intent''],
              dr_reasons := dr_reasons d1 @ [''production_activation_controls'']\<rparr>
         else
           d1\<lparr>dr_steps := dr_steps d1 @ [''sign_activation_intent'',
                ''compare_and_swap_runtime_pointer'', ''verify_runtime_readiness''],
              dr_gates := dr_gates d1 @ [''expected_active_pointer'', ''signed_intent'']\<rparr>)
      else if lr_activate request then d\<lparr>dr_reasons := dr_reasons d @ [''activation_not_required'']\<rparr>
      else d\<lparr>dr_reasons := dr_reasons d @ [''activation_not_requested'']\<rparr>)"

definition compile_lifecycle_plan ::
  "(lifecycle_plan \<Rightarrow> digest) \<Rightarrow> lifecycle_request \<Rightarrow> instance_identity \<Rightarrow> lifecycle_capabilities \<Rightarrow>
   artifact_passport option \<Rightarrow> lifecycle_plan" where
  "compile_lifecycle_plan sha request identity capabilities passport =
     (if lr_intent request = Int_backup
      then build_plan sha request identity None (backup_draft request identity capabilities)
      else
        let refusals = identity_refusals identity @ source_refusals passport
              @ only_if (passport \<noteq> None \<and> \<not> lc_source_readable capabilities) ''source_not_readable'' in
        if lr_intent request = Int_test_recovery
        then build_plan sha request identity passport (rehearsal_draft capabilities refusals)
        else if lr_intent request = Int_rollback
        then build_plan sha request identity passport (rollback_draft request capabilities refusals)
        else case passport of
          None \<Rightarrow> build_plan sha request identity None
            \<lparr>dr_route = Rt_refuse, dr_steps = [], dr_gates = [], dr_reasons = [],
             dr_refusals = refusals, dr_activation = ''none'', dr_transfer_mode = ''none''\<rparr>
        | Some p \<Rightarrow> build_plan sha request identity passport
            (with_activation request identity capabilities
              (with_quarantine capabilities (routed_draft identity capabilities p refusals))))"

subsection \<open>What a plan guarantees\<close>

text \<open>\<open>before a b xs\<close>: the first \<open>a\<close> in \<open>xs\<close> is followed by a \<open>b\<close>.\<close>

definition before :: "string \<Rightarrow> string \<Rightarrow> string list \<Rightarrow> bool" where
  "before a b xs = (b \<in> set (tl (dropWhile (\<lambda>x. x \<noteq> a) xs)))"

lemmas draft_defs = backup_draft_def rehearsal_draft_def rollback_draft_def routed_draft_def
  with_quarantine_def with_activation_def Let_def

lemma only_if_eq_Nil [simp]: "only_if b x = [] \<longleftrightarrow> \<not> b"
  by (simp add: only_if_def)

lemma build_plan_simps [simp]:
  "plan_allowed (build_plan sha r i p d) \<longleftrightarrow> dr_refusals d = [] \<and> dr_route d \<noteq> Rt_refuse"
  "pl_steps (build_plan sha r i p d) = dr_steps d" "pl_gates (build_plan sha r i p d) = dr_gates d"
  "pl_activation (build_plan sha r i p d) = dr_activation d"
  "pl_route (build_plan sha r i p d) = (if dr_refusals d \<noteq> [] then Rt_refuse else dr_route d)"
  by (simp_all add: plan_allowed_def build_plan_def Let_def)

lemma routed_draft_simps [simp]:
  "dr_activation (routed_draft i c p rs) = ''none''" "dr_route (routed_draft i c p rs) \<noteq> Rt_refuse"
  "''compare_and_swap_runtime_pointer'' \<notin> set (dr_steps (routed_draft i c p rs))"
  by (simp_all add: routed_draft_def Let_def)

lemma routed_draft_refusals: "dr_refusals (routed_draft i c p rs) = [] \<Longrightarrow> rs = []"
  by (simp add: routed_draft_def Let_def split: if_splits)

lemma routed_draft_noop: "dr_route (routed_draft i c p rs) = Rt_noop \<Longrightarrow> dr_steps (routed_draft i c p rs) = []"
  by (simp add: routed_draft_def Let_def split: if_splits)

lemma with_quarantine_simps [simp]:
  "dr_route (with_quarantine c d) = dr_route d" "dr_activation (with_quarantine c d) = dr_activation d"
  by (simp_all add: with_quarantine_def)

lemma with_quarantine_refusals: "dr_refusals (with_quarantine c d) = [] \<Longrightarrow> dr_refusals d = []"
  by (simp add: with_quarantine_def split: if_splits)

lemma with_activation_route [simp]: "dr_route (with_activation r i c d) = dr_route d"
  by (simp add: with_activation_def Let_def)

lemma with_activation_refusals: "dr_refusals (with_activation r i c d) = [] \<Longrightarrow> dr_refusals d = []"
  by (simp add: with_activation_def Let_def split: if_splits)

text \<open>The refusals every plan with a source starts from, and the compiler's four cases.\<close>

definition base_refusals ::
  "instance_identity \<Rightarrow> lifecycle_capabilities \<Rightarrow> artifact_passport option \<Rightarrow> string list" where
  "base_refusals identity capabilities passport = identity_refusals identity @ source_refusals passport
     @ only_if (passport \<noteq> None \<and> \<not> lc_source_readable capabilities) ''source_not_readable''"

lemma compile_cases:
  "lr_intent r = Int_backup \<Longrightarrow> compile_lifecycle_plan sha r i c p = build_plan sha r i None (backup_draft r i c)"
  "lr_intent r = Int_test_recovery \<Longrightarrow>
     compile_lifecycle_plan sha r i c p = build_plan sha r i p (rehearsal_draft c (base_refusals i c p))"
  "lr_intent r = Int_rollback \<Longrightarrow>
     compile_lifecycle_plan sha r i c p = build_plan sha r i p (rollback_draft r c (base_refusals i c p))"
  "lr_intent r \<in> {Int_import, Int_restore} \<Longrightarrow> p = Some q \<Longrightarrow>
     compile_lifecycle_plan sha r i c p = build_plan sha r i p
       (with_activation r i c (with_quarantine c (routed_draft i c q (base_refusals i c p))))"
  "lr_intent r \<in> {Int_import, Int_restore} \<Longrightarrow> \<not> plan_allowed (compile_lifecycle_plan sha r i c None)"
  unfolding compile_lifecycle_plan_def base_refusals_def Let_def by auto

text \<open>Only verified, readable, read-only sources are used: an allowed plan other than a backup has a
  source that is readable and read-only, and one from a recovery point, a previous runtime or an object
  store names its generation, is verified and complete, and carries a valid signature from format 3 on
  and no invalid one before.\<close>

theorem allowed_plan_has_trusted_source:
  assumes "plan_allowed (compile_lifecycle_plan sha request identity capabilities passport)"
    and "lr_intent request \<noteq> Int_backup"
  shows "\<exists>p. passport = Some p \<and> ap_read_only p \<and> lc_source_readable capabilities
    \<and> (ap_source_kind p \<in> {Src_recovery_point, Previous_runtime, Legacy_object_store} \<longrightarrow>
        py_strip (ap_generation_id p) \<noteq> '''' \<and> is_verified p \<and> ap_signature_valid p \<noteq> Some False
        \<and> (3 \<le> ap_format_version p \<longrightarrow> ap_signature_valid p = Some True))"
proof -
  have "base_refusals identity capabilities passport = []"
  proof (cases "lr_intent request \<in> {Int_import, Int_restore}")
    case True
    then obtain q where q: "passport = Some q" using assms(1) compile_cases(5) by (cases passport) auto
    show ?thesis
      using assms(1) unfolding compile_cases(4) [OF True q] build_plan_simps
      by (blast dest: with_activation_refusals with_quarantine_refusals routed_draft_refusals)
  next
    case False
    then consider "lr_intent request = Int_test_recovery" | "lr_intent request = Int_rollback"
      using assms(2) by (cases "lr_intent request") auto
    then show ?thesis
      using assms(1) by cases (simp_all add: compile_cases rehearsal_draft_def rollback_draft_def)
  qed
  then have "source_refusals passport = []" "passport \<noteq> None \<longrightarrow> lc_source_readable capabilities"
    by (auto simp: base_refusals_def)
  then show ?thesis by (auto simp: source_refusals_def split: option.splits if_splits)
qed

lemma with_quarantine_steps:
  "dr_route d \<noteq> Rt_noop \<Longrightarrow> dr_steps (with_quarantine c d) = dr_steps d @
     [''restore_to_new_quarantine_generation'', ''verify_manifest_and_objects'', ''rehearse_migrations'',
      ''reconcile_media_and_indexes'', ''run_recovery_checks'']"
  "dr_route d = Rt_noop \<Longrightarrow> with_quarantine c d = d"
  by (simp_all add: with_quarantine_def)

lemma before_append: "b \<in> set ys \<Longrightarrow> a \<in> set xs \<Longrightarrow> before a b (xs @ ys)"
proof (induction xs)
  case (Cons x xs)
  show ?case
  proof (cases "x = a")
    case True
    then show ?thesis using Cons.prems by (simp add: before_def)
  next
    case False
    then show ?thesis using Cons by (simp add: before_def)
  qed
qed simp

text \<open>C8: The runtime pointer is swapped only under control. A plan whose steps contain the swap and that
  is allowed is a confirmed rollback or a confirmed activation with signing and activation available. An activation's
  intent is signed and the restored generation is verified before the swap, and in production
  a recovery point is published first and the swap happens inside the mutation barrier, which is left last. A rollback
  needs an available previous runtime and has exactly four steps, in every environment: the previous pair of image and generation is
  verified, the intent is signed, the pointer is swapped and readiness is verified, with no recovery point
  and no barrier, in production neither.\<close>

theorem pointer_swap_is_controlled:
  assumes "plan_allowed (compile_lifecycle_plan sha request identity capabilities passport)"
    and "''compare_and_swap_runtime_pointer'' \<in> set steps"
    and "steps = pl_steps (compile_lifecycle_plan sha request identity capabilities passport)"
  shows "pl_activation (compile_lifecycle_plan sha request identity capabilities passport) = ''signed_atomic''
    \<and> lr_confirmation_present request \<and> lc_signing_available capabilities
    \<and> lc_activation_available capabilities
    \<and> (if lr_intent request = Int_rollback
       then lc_previous_runtime_available capabilities
         \<and> steps = [''verify_previous_runtime_pair'', ''sign_rollback_intent'', ''compare_and_swap_runtime_pointer'',
              ''verify_runtime_readiness'']
       else lr_activate request
         \<and> before ''sign_activation_intent'' ''compare_and_swap_runtime_pointer'' steps
         \<and> before ''verify_manifest_and_objects'' ''compare_and_swap_runtime_pointer'' steps
         \<and> (normalized_environment identity = ''production'' \<longrightarrow>
              hd steps = ''publish_pre_restore_recovery_point''
              \<and> before ''enter_mutation_barrier'' ''compare_and_swap_runtime_pointer'' steps
              \<and> last steps = ''leave_mutation_barrier''))"
proof (cases "lr_intent request = Int_rollback")
  case True
  then show ?thesis
    using assms(1) unfolding assms(3) compile_cases(3) [OF True] build_plan_simps
    by (simp add: rollback_draft_def)
next
  case False
  have intent: "lr_intent request \<in> {Int_import, Int_restore}"
  proof (rule ccontr)
    assume "lr_intent request \<notin> {Int_import, Int_restore}"
    with False consider (b) "lr_intent request = Int_backup" | (t) "lr_intent request = Int_test_recovery"
      by (cases "lr_intent request") auto
    then show False
      using assms(2) unfolding assms(3)
      by cases (simp_all add: compile_cases backup_draft_def rehearsal_draft_def)
  qed
  obtain p where p: "passport = Some p"
    using assms(1) compile_cases(5) [OF intent] by (cases passport) auto
  let ?d = "routed_draft identity capabilities p (base_refusals identity capabilities passport)"
  let ?q = "with_quarantine capabilities ?d"
  let ?a = "with_activation request identity capabilities ?q"
  note comp = compile_cases(4) [OF intent p]
  have steps: "steps = dr_steps ?a" and ok: "dr_refusals ?a = []"
    using assms(1,3) unfolding comp by simp_all
  have noq: "''compare_and_swap_runtime_pointer'' \<notin> set (dr_steps ?q)"
    by (cases "dr_route ?d = Rt_noop") (simp_all add: with_quarantine_steps routed_draft_noop)
  have act: "lr_activate request" "dr_route ?d \<noteq> Rt_noop"
    using assms(2) noq unfolding steps by (simp_all add: with_activation_def split: if_splits)
  have ver: "''verify_manifest_and_objects'' \<in> set (dr_steps ?q)"
    using act(2) by (simp add: with_quarantine_steps)
  have guards: "lr_confirmation_present request" "lc_signing_available capabilities"
    "lc_activation_available capabilities" "dr_activation ?a = ''signed_atomic''"
    using ok act by (simp_all add: with_activation_def Let_def split: if_splits)
  show ?thesis
  proof (cases "normalized_environment identity = ''production''")
    case True
    have eq: "steps = ([''publish_pre_restore_recovery_point''] @ dr_steps ?q) @ [''enter_mutation_barrier'',
        ''sign_activation_intent'', ''compare_and_swap_runtime_pointer'', ''verify_runtime_readiness'',
        ''leave_mutation_barrier'']"
      unfolding steps using act True by (simp add: with_activation_def Let_def)
    have split: "steps = (([''publish_pre_restore_recovery_point''] @ dr_steps ?q)
          @ [''enter_mutation_barrier'', ''sign_activation_intent''])
          @ [''compare_and_swap_runtime_pointer'', ''verify_runtime_readiness'', ''leave_mutation_barrier'']"
      unfolding eq by simp
    have 1: "before ''sign_activation_intent'' ''compare_and_swap_runtime_pointer'' steps"
      "before ''enter_mutation_barrier'' ''compare_and_swap_runtime_pointer'' steps"
      unfolding split by (rule before_append; simp)+
    have 2: "before ''verify_manifest_and_objects'' ''compare_and_swap_runtime_pointer'' steps"
      unfolding split by (rule before_append) (use ver in simp_all)
    have 3: "hd steps = ''publish_pre_restore_recovery_point''" "last steps = ''leave_mutation_barrier''"
      unfolding split by simp_all
    show ?thesis
      using guards act(1) 1 2 3 False unfolding comp build_plan_simps by metis
  next
    case np: False
    have eq: "steps = (dr_steps ?q @ [''sign_activation_intent''])
        @ [''compare_and_swap_runtime_pointer'', ''verify_runtime_readiness'']"
      unfolding steps using act np by (simp add: with_activation_def Let_def)
    have 1: "before ''sign_activation_intent'' ''compare_and_swap_runtime_pointer'' steps"
      unfolding eq by (rule before_append) simp_all
    have 2: "before ''verify_manifest_and_objects'' ''compare_and_swap_runtime_pointer'' steps"
      unfolding eq by (rule before_append) (use ver in simp_all)
    show ?thesis
      using guards act(1) 1 2 False np unfolding comp build_plan_simps by metis
  qed
qed


text \<open>A plan that does not ask for activation never touches the runtime: backups, recovery tests, and
  imports and restores without activation contain no pointer swap and no activation, and a plan whose
  route is to do nothing has no step at all.\<close>

theorem no_activation_no_swap:
  assumes "lr_intent request \<in> {Int_backup, Int_test_recovery} \<or>
      (lr_intent request \<in> {Int_import, Int_restore} \<and>
        (\<not> lr_activate request \<or> pl_route (compile_lifecycle_plan sha request identity capabilities passport) = Rt_noop))"
    and "plan_allowed (compile_lifecycle_plan sha request identity capabilities passport)"
  shows "''compare_and_swap_runtime_pointer'' \<notin>
        set (pl_steps (compile_lifecycle_plan sha request identity capabilities passport))
    \<and> pl_activation (compile_lifecycle_plan sha request identity capabilities passport) = ''none''
    \<and> (pl_route (compile_lifecycle_plan sha request identity capabilities passport) = Rt_noop \<longrightarrow>
        pl_steps (compile_lifecycle_plan sha request identity capabilities passport) = [])"
proof -
  consider (b) "lr_intent request = Int_backup" | (t) "lr_intent request = Int_test_recovery"
    | (r) "lr_intent request \<in> {Int_import, Int_restore}"
    using assms(1) by blast
  then show ?thesis
  proof cases
    case b
    then show ?thesis by (simp add: compile_cases backup_draft_def)
  next
    case t
    then show ?thesis by (simp add: compile_cases rehearsal_draft_def)
  next
    case r
    obtain p where p: "passport = Some p"
      using assms(2) compile_cases(5) [OF r] by (cases passport) auto
    let ?d = "routed_draft identity capabilities p (base_refusals identity capabilities passport)"
    let ?q = "with_quarantine capabilities ?d"
    note comp = compile_cases(4) [OF r p]
    have ok: "dr_refusals (with_activation request identity capabilities ?q) = []"
      using assms(2) unfolding comp by simp
    have off: "\<not> (lr_activate request \<and> dr_route ?d \<noteq> Rt_noop)"
      using assms(1) r ok unfolding comp by auto
    have still: "dr_steps (with_activation request identity capabilities ?q) = dr_steps ?q"
      "dr_activation (with_activation request identity capabilities ?q) = ''none''"
      using off by (cases "lr_activate request"; simp add: with_activation_def)+
    have "''compare_and_swap_runtime_pointer'' \<notin> set (dr_steps ?q)"
      by (cases "dr_route ?d = Rt_noop") (simp_all add: with_quarantine_steps routed_draft_noop)
    moreover have "dr_steps ?q = []" if "dr_route ?d = Rt_noop"
      using that by (simp add: with_quarantine_steps routed_draft_noop)
    ultimately show ?thesis using still ok unfolding comp by simp
  qed
qed

definition sample_request :: lifecycle_request where
  "sample_request = \<lparr>lr_intent = Int_restore, lr_activate = True, lr_confirmation_present = True,
     lr_previous_recovery_point_exists = True\<rparr>"

definition sample_identity :: instance_identity where
  "sample_identity = \<lparr>ii_environment = ''PROD'', ii_deployment_id = ''dep'', ii_dataset_id = ''ds'',
     ii_active_generation_id = ''g1'', ii_active_manifest_sha256 = ''m1''\<rparr>"

definition sample_capabilities :: lifecycle_capabilities where
  "sample_capabilities = \<lparr>lc_owned_store_readable = True, lc_owned_store_writable = True,
     lc_source_readable = True, lc_quarantine_writable = True, lc_signing_available = True,
     lc_activation_available = True, lc_isolated_restore_available = True,
     lc_previous_runtime_available = True\<rparr>"

definition sample_passport :: artifact_passport where
  "sample_passport = \<lparr>ap_source_kind = Src_recovery_point, ap_dataset_id = ''ds'', ap_generation_id = ''g2'',
     ap_manifest_sha256 = ''m2'', ap_format_version = 3, ap_trust = Trust_verified, ap_complete = True,
     ap_read_only = True, ap_signature_valid = Some True\<rparr>"

lemma sample_plan_allowed:
  "plan_allowed (compile_lifecycle_plan (\<lambda>p. '''') sample_request sample_identity sample_capabilities (Some sample_passport))"
  by code_simp

lemma allowed_plan_has_trusted_source_witness: "is_verified sample_passport"
proof -
  have "lr_intent sample_request \<noteq> Int_backup" by (simp add: sample_request_def)
  from allowed_plan_has_trusted_source [OF sample_plan_allowed this] show ?thesis
    by (simp add: sample_passport_def)
qed

lemma pointer_swap_is_controlled_witness:
  "before ''enter_mutation_barrier'' ''compare_and_swap_runtime_pointer''
     (pl_steps (compile_lifecycle_plan (\<lambda>p. '''') sample_request sample_identity sample_capabilities (Some sample_passport)))"
proof -
  have swap: "''compare_and_swap_runtime_pointer'' \<in> set (pl_steps
      (compile_lifecycle_plan (\<lambda>p. '''') sample_request sample_identity sample_capabilities (Some sample_passport)))"
    by code_simp
  have "lr_intent sample_request \<noteq> Int_rollback" "normalized_environment sample_identity = ''production''"
    by code_simp+
  with pointer_swap_is_controlled [OF sample_plan_allowed swap refl] show ?thesis by argo
qed

lemma no_activation_no_swap_witness:
  "pl_activation (compile_lifecycle_plan (\<lambda>p. '''') (sample_request\<lparr>lr_activate := False\<rparr>) sample_identity
     sample_capabilities (Some sample_passport)) = ''none''"
proof -
  have "plan_allowed (compile_lifecycle_plan (\<lambda>p. '''') (sample_request\<lparr>lr_activate := False\<rparr>) sample_identity
     sample_capabilities (Some sample_passport))" by code_simp
  from no_activation_no_swap [OF _ this] show ?thesis by (simp add: sample_request_def)
qed

end
