(* ===== verification/Spec2Isabelle.thy ===== *)
theory Spec2Isabelle
  imports Docs_Views Vault_Job_Retry Vault_Barrier_Safety Vault_Confirmations Vault_Retention_Safety Global_Writer_Safety
    Runtime_Stranded Canonical_Reading Environment_Identity Vault_Activation_Runs Promotion_Safety Store_Capabilities_Safety
    Docs_Safety Docs_Generation_Safety Docs_Job_Safety DataOps_Safety DataOps_Sync DataOps_Plan
begin

text \<open>
  PdfSearch keeps a searchable library of PDF documents, an object-store vault of immutable generations
  of that library, and the machinery that snapshots, publishes, restores and activates a generation.
  This development models the parts of \<^verbatim>\<open>src/flowdocs\<close> that decide and record, and proves what each
  promises.

  \<^bold>\<open>Conventions.\<close> A Django table is the list of its rows, one record per model class, one datatype per
  choice class. A handler inside \<^verbatim>\<open>transaction.atomic\<close> is a function from the tables to a sum: the left
  is the exception, and then the tables are unchanged. A handler that may leave changes behind when it
  raises returns the tables beside the sum. Time is a parameter, in microseconds. Third-party code is a
  parameter: the object store, the file system, hashing, random texts and the embedding provider. What
  is relied on of them is a named hypothesis (\<open>lawful_store\<close> for the conditional writes of the object
  store, injective digests where a digest stands for its text), and each such theorem has a witness at
  a concrete function.

  \<^bold>\<open>Shared theories.\<close> \<open>Flow_Prelude\<close>: results, Python texts and numbers, JSON values, tables, and the
  interfaces the components share as locales (\<open>row_store\<close>, \<open>append_only\<close>, \<open>invariant_steps\<close>, \<open>fencing\<close>);
  \<open>Canonical_Text\<close>: the JSON text digests are taken of; \<open>Canonical_Reading\<close>: that text determines its
  value.

  \<^bold>\<open>The vault\<close> (\<^verbatim>\<open>vaultops/\<close>). \<open>Vault_Models\<close> is the control database. \<open>Vault_Lifecycle\<close>: the guarded
  transitions and the audit log. \<open>Vault_Jobs\<close>, \<open>Vault_Job_Safety\<close>, \<open>Vault_Job_Retry\<close>: the job queue as a
  step relation over any interleaving of workers, operators and sweeps; a superseded owner is fenced by
  its epoch (\<open>fencing\<close>), and the recovery sweep is followed with those steps between its transactions. \<open>Vault_Mutations\<close>, \<open>Vault_Barrier_Safety\<close>: the mutation barrier; an active one
  freezes the source while writers interleave. \<open>Vault_Confirmations\<close>: typed confirmations are used at
  most once. \<open>Vault_Retention\<close>, \<open>Vault_Retention_Safety\<close>: retirement, holds and the garbage collection plan.

  \<^bold>\<open>Object store\<close> (\<^verbatim>\<open>core/namespace.py\<close>, \<^verbatim>\<open>core/global_writer.py\<close> and the files named below). \<open>Core_Keys\<close>: keys stay in their dataset
  and generation identifiers read back. \<open>Global_Writer\<close>, \<open>Global_Writer_Safety\<close>: writers race on one record
  under conditional writes; a superseded one never renews or publishes. \<open>Store_Capabilities\<close>,
  \<open>Store_Capabilities_Safety\<close> (\<^verbatim>\<open>object_store_capabilities.py\<close>): the probes that decide whether an endpoint
  has such writes. \<open>Authoritative_Pointer\<close>, \<open>Pointer_Safety\<close> (\<^verbatim>\<open>registration.py\<close>): the registration and the
  pointer to the authoritative generation, whose epoch never falls while publishers race.
  \<open>Publication_Promotion\<close>, \<open>Promotion_Safety\<close> (\<^verbatim>\<open>services/publication.py\<close>): a promotion takes the writer,
  moves the pointer and commits to the control database, with whatever others do before each request.

  \<^bold>\<open>Runtime activation\<close> (\<^verbatim>\<open>vaultops/runtime_control.py\<close>, \<^verbatim>\<open>runtime_supervisor.py\<close>). \<open>Runtime_Control\<close>: signed
  documents, the pointer, the checks of a runtime directory. \<open>Runtime_Supervisor\<close>: both supervisor roles
  as actions over a list of happenings, one for each effect on the outside: it goes through (with the
  time it took and what the other supervisor wrote meanwhile), raises before or after it took effect, or
  the process dies there. A theorem for every list is a theorem for every interleaving, failure and
  crash. The loops that wait are bounded by the number of happenings: every round takes at least one, so
  a run that uses up the bound has used up the list. \<open>Runtime_Supervisor_Safety\<close> has a small calculus
  (\<open>ensures\<close>, \<open>keeps\<close>, and the observation locales) and the crash safety of a cutover; \<open>Runtime_Recovery\<close>
  the recovery of an interrupted one and the exclusion by the lock; \<open>Runtime_Stranded\<close> the intent that
  expires; \<open>Runtime_Samples\<close> the concrete deployment of the witnesses.

  \<open>Vault_Activation\<close> (\<^verbatim>\<open>services/activation.py\<close>) is the coordinator in the control database that schedules
  the intents these supervisors execute and projects their results: \<open>Vault_Activation_Safety\<close> ties a scheduled
  intent to the pointer it was planned against and the rows to the pointer a result names,
  \<open>Vault_Activation_Runs\<close> lets requests, rollbacks and reconciliations interleave, a request with an outdated
  view included. The capacity report and the check of the recovery administrator are parameters.
  \<open>Media_Evidence\<close> (\<^verbatim>\<open>core/media_quarantine.py\<close>): the attestation of the unavailable documents an intent
  carries.

  \<^bold>\<open>Environment\<close> (\<^verbatim>\<open>core/environment.py\<close>, \<^verbatim>\<open>core/environment_policy.py\<close>). \<open>Environment_Identity\<close>: an
  identity that passes the startup check publishes, restores or activates only in its direction.

  \<^bold>\<open>Documents\<close> (\<^verbatim>\<open>core/\<close>). \<open>Docs_Models\<close> is the database; \<open>Docs_Lifecycle\<close>, \<open>Docs_Policy\<close>, \<open>Docs_Safety\<close>,
  \<open>Docs_Views\<close>: removal, quarantine and recovery, and the abstract machine these services
  refine (the direct archiving of \<^verbatim>\<open>maintenance.py\<close> does not keep to it);
  \<open>Docs_Generations\<close>, \<open>Docs_Generation_Safety\<close>: at most one active local generation; \<open>Docs_Jobs\<close>,
  \<open>Docs_Worker\<close>, \<open>Docs_Job_Safety\<close>: the maintenance queue and its counters; \<open>Search_Chunks\<close>: the windows of
  a text, for every size and overlap.

  \<^bold>\<open>Data operations\<close> (\<^verbatim>\<open>dataops/\<close>). \<open>DataOps_Worker\<close>, \<open>DataOps_Safety\<close>: leases, retries and receipts;
  \<open>DataOps_Schedule\<close>: cron expressions and the repair budget; \<open>DataOps_Sync\<close>: bucket synchronisation and
  mirror deletion, which keeps an object unless its quarantine key is shared or previewed;
  \<open>DataOps_Plan\<close>: lifecycle plans.

  \<^bold>\<open>Not modelled.\<close> HTTP views, templates, forms and middleware (I/O and presentation around the modelled
  services); the search side of \<^verbatim>\<open>core/utils.py\<close> (extraction, embedding and vector index are third-party
  code); the read models and presenters (queries that change nothing); the executors that stream bytes
  to and from the object store and the file system (\<^verbatim>\<open>snapshot.py\<close>, the upload of a candidate in \<^verbatim>\<open>publication.py\<close>, \<^verbatim>\<open>restore.py\<close>, the
  \<^verbatim>\<open>dataops/v3\<close> family, \<^verbatim>\<open>pipeline.py\<close>, \<^verbatim>\<open>custody_audit.py\<close>); settings, migrations, scripts and tests. Texts are
  modelled on the code points 0 to 255, and JSON values without floating-point numbers.
\<close>

end
